(* ===== verification/Prelude.thy ===== *)
theory Prelude
  imports Complex_Main "HOL-Library.Word" "HOL-Library.Char_ord" "HOL-Library.List_Lexorder"
    "HOL-Library.AList" "HOL-Library.Multiset"
begin

text \<open>
  What every component shares: the reading of Go's basic types, the string routines of
  the Go standard library that the sources call, and the lemma collections.

  \<^item> A Go \<open>int\<close> or \<open>int64\<close> is an \<open>int\<close>; an addition or product whose operands come
    from a request is written with \<open>wrap64\<close>, two's complement at 64 bits. \<open>in64\<close> is the
    range of the type.
  \<^item> A Go \<open>string\<close> or byte slice is a \<open>string\<close>, a list of bytes.
  \<^item> A \<open>float64\<close> is a rational: the sources only move, add, divide by 1000 and compare
    milliseconds; rounding and NaN, which JSON cannot carry, are not modelled.
  \<^item> A \<open>time.Time\<close> is the number of nanoseconds since Go's zero time, so \<open>IsZero\<close> is
    \<open>= 0\<close> and \<open>Before\<close> is \<open><\<close>.
  \<^item> A Go map is an association list updated with \<open>AList.update\<close>.
\<close>

named_theorems validate_iff
named_theorems go_defs

type_synonym float64 = rat
type_synonym go_time = int

section \<open>Machine integers\<close>

definition wrap64 :: "int \<Rightarrow> int" where
  "wrap64 x = (x + 2 ^ 63) mod 2 ^ 64 - 2 ^ 63"

definition in64 :: "int \<Rightarrow> bool" where
  "in64 x \<longleftrightarrow> - (2 ^ 63) \<le> x \<and> x < 2 ^ 63"

lemma wrap64_id [simp]: "in64 x \<Longrightarrow> wrap64 x = x"
  by (simp add: wrap64_def in64_def)

lemma in64_wrap64 [simp]: "in64 (wrap64 x)"
proof -
  have "0 \<le> (x + 2 ^ 63) mod 2 ^ 64" "(x + 2 ^ 63) mod 2 ^ 64 < 2 ^ 64"
    by (simp_all add: pos_mod_bound pos_mod_sign)
  then show ?thesis by (simp add: wrap64_def in64_def)
qed

lemma wrap64_add_nonneg:
  assumes "0 \<le> a" "0 \<le> b" "in64 a" "in64 b"
  shows "wrap64 (a + b) = (if a + b < 2 ^ 63 then a + b else a + b - 2 ^ 64)"
proof (cases "a + b < 2 ^ 63")
  case True
  with assms show ?thesis by (simp add: in64_def)
next
  case False
  have "(a + b + 2 ^ 63) mod 2 ^ 64 = (a + b + 2 ^ 63 - 2 ^ 64) mod 2 ^ 64"
    by (simp only: minus_mod_self2)
  also have "\<dots> = a + b + 2 ^ 63 - 2 ^ 64"
    using False assms by (intro mod_pos_pos_trivial) (auto simp: in64_def)
  finally show ?thesis using False by (simp add: wrap64_def)
qed

section \<open>Strings\<close>

definition has_prefix :: "string \<Rightarrow> string \<Rightarrow> bool" where
  "has_prefix s p \<longleftrightarrow> take (length p) s = p"

definition has_suffix :: "string \<Rightarrow> string \<Rightarrow> bool" where
  "has_suffix s p \<longleftrightarrow> length p \<le> length s \<and> drop (length s - length p) s = p"

definition trim_prefix :: "string \<Rightarrow> string \<Rightarrow> string" where
  "trim_prefix s p = (if has_prefix s p then drop (length p) s else s)"

lemma has_prefix_iff: "has_prefix s p \<longleftrightarrow> (\<exists>t. s = p @ t)"
  unfolding has_prefix_def by (metis append_eq_conv_conj append_take_drop_id)

lemma has_suffix_iff: "has_suffix s p \<longleftrightarrow> (\<exists>t. s = t @ p)"
proof
  assume "has_suffix s p"
  then have "s = take (length s - length p) s @ p"
    using append_take_drop_id [of "length s - length p" s] by (simp add: has_suffix_def)
  then show "\<exists>t. s = t @ p" ..
qed (auto simp: has_suffix_def)

lemma has_prefix_append [simp]: "has_prefix (p @ t) p"
  by (auto simp: has_prefix_iff)

lemma has_suffix_append [simp]: "has_suffix (t @ p) p"
  by (auto simp: has_suffix_iff)

lemma trim_prefix_append [simp]: "trim_prefix (p @ t) p = t"
  by (simp add: trim_prefix_def)

text \<open>\<open>cut c s\<close> is \<open>strings.SplitN(s, c, 2)\<close> for a one-byte separator: the part before
  the first \<open>c\<close> and, when \<open>c\<close> occurs, the part after it.\<close>

fun cut :: "char \<Rightarrow> string \<Rightarrow> string \<times> string option" where
  "cut c [] = ([], None)"
| "cut c (x # xs) = (if x = c then ([], Some xs)
     else (case cut c xs of (a, b) \<Rightarrow> (x # a, b)))"

lemma cut_None_iff: "snd (cut c s) = None \<longleftrightarrow> c \<notin> set s"
  by (induction s) (auto split: prod.splits)

lemma cut_Some: "cut c s = (a, Some b) \<longleftrightarrow> s = a @ c # b \<and> c \<notin> set a"
proof (induction s arbitrary: a)
  case Nil
  then show ?case by auto
next
  case (Cons x xs)
  show ?case
  proof (cases "x = c")
    case True
    then show ?thesis by (cases a) auto
  next
    case False
    obtain u v where uv: "cut c xs = (u, v)" by (cases "cut c xs")
    show ?thesis
    proof (cases a)
      case Nil
      then show ?thesis using False uv by simp
    next
      case (Cons y ys)
      then show ?thesis using False uv Cons.IH [of ys] by auto
    qed
  qed
qed

lemma cut_append: "c \<notin> set a \<Longrightarrow> cut c (a @ c # b) = (a, Some b)"
  by (simp add: cut_Some)

lemma cut_append2:
  "cut c a = (x, Some y) \<Longrightarrow> cut c (a @ b) = (x, Some (y @ b))"
  by (simp add: cut_Some)

text \<open>\<open>split_on c s\<close> is \<open>strings.Split(s, c)\<close> for a one-byte separator.\<close>

fun split_on :: "char \<Rightarrow> string \<Rightarrow> string list" where
  "split_on c [] = [[]]"
| "split_on c (x # xs) =
     (if x = c then [] # split_on c xs
      else (case split_on c xs of [] \<Rightarrow> [[x]] | p # ps \<Rightarrow> (x # p) # ps))"

lemma split_on_nonempty [simp]: "split_on c s \<noteq> []"
  by (induction s) (auto split: list.splits)

lemma split_on_no_sep: "p \<in> set (split_on c s) \<Longrightarrow> c \<notin> set p"
proof (induction s arbitrary: p)
  case Nil
  then show ?case by simp
next
  case (Cons x xs)
  then show ?case by (cases "split_on c xs") (auto split: if_splits)
qed

lemma split_on_single: "c \<notin> set s \<Longrightarrow> split_on c s = [s]"
  by (induction s) auto

lemma split_on_append_sep: "split_on c (d @ c # s) = split_on c d @ split_on c s"
  by (induction d) (auto split: list.splits)

lemma split_on_append: "c \<notin> set a \<Longrightarrow> split_on c (a @ c # b) = a # split_on c b"
  by (induction a) auto

text \<open>\<open>strings.TrimSpace\<close> on ASCII white space, and \<open>%q\<close> (\<open>strconv.Quote\<close>) byte by
  byte: Go keeps a printable multi-byte rune where \<open>go_quote\<close> escapes its bytes; quoted
  text only ever goes into error messages.\<close>

definition is_space :: "char \<Rightarrow> bool" where
  "is_space c \<longleftrightarrow> (let n = (of_char c :: nat) in n = 32 \<or> (9 \<le> n \<and> n \<le> 13))"

definition trim_space :: "string \<Rightarrow> string" where
  "trim_space s = rev (dropWhile is_space (rev (dropWhile is_space s)))"

definition hex_digit :: "nat \<Rightarrow> char" where
  "hex_digit n = (if n < 10 then char_of (48 + n) else char_of (87 + n))"

definition hex_byte :: "char \<Rightarrow> string" where
  "hex_byte c = [hex_digit (of_char c div 16), hex_digit (of_char c mod 16)]"

definition hex_encode :: "string \<Rightarrow> string" where
  "hex_encode s = concat (map hex_byte s)"

definition is_lower_hex :: "char \<Rightarrow> bool" where
  "is_lower_hex c \<longleftrightarrow> (let n = (of_char c :: nat) in (48 \<le> n \<and> n \<le> 57) \<or> (97 \<le> n \<and> n \<le> 102))"

definition is_hex :: "char \<Rightarrow> bool" where
  "is_hex c \<longleftrightarrow> is_lower_hex c \<or> (let n = (of_char c :: nat) in 65 \<le> n \<and> n \<le> 70)"

definition hex_val :: "char \<Rightarrow> nat" where
  "hex_val c = (let n = (of_char c :: nat) in
     if n \<le> 57 then n - 48 else if n \<le> 70 then n - 55 else n - 87)"

definition quote_char :: "char \<Rightarrow> string" where
  "quote_char c = (let n = (of_char c :: nat); b = char_of (92::nat) in
     if n = 34 \<or> n = 92 then [b, c]
     else if 32 \<le> n \<and> n < 127 then [c]
     else if n = 7 then [b, CHR ''a''] else if n = 8 then [b, CHR ''b'']
     else if n = 12 then [b, CHR ''f''] else if n = 10 then [b, CHR ''n'']
     else if n = 13 then [b, CHR ''r''] else if n = 9 then [b, CHR ''t'']
     else if n = 11 then [b, CHR ''v'']
     else [b, CHR ''x''] @ hex_byte c)"

definition go_quote :: "string \<Rightarrow> string" where
  "go_quote s = char_of (34::nat) # concat (map quote_char s) @ [char_of (34::nat)]"

section \<open>Decimal numbers\<close>

definition digit_char :: "nat \<Rightarrow> char" where
  "digit_char d = char_of (48 + d)"

definition is_digit :: "char \<Rightarrow> bool" where
  "is_digit c \<longleftrightarrow> 48 \<le> (of_char c :: nat) \<and> (of_char c :: nat) \<le> 57"

definition digit_val :: "char \<Rightarrow> nat" where
  "digit_val c = of_char c - 48"

fun utoa :: "nat \<Rightarrow> string" where
  "utoa n = (if n < 10 then [digit_char n] else utoa (n div 10) @ [digit_char (n mod 10)])"

declare utoa.simps [simp del]

fun atou_acc :: "nat \<Rightarrow> string \<Rightarrow> nat" where
  "atou_acc acc [] = acc"
| "atou_acc acc (c # cs) = atou_acc (10 * acc + digit_val c) cs"

text \<open>\<open>itoa\<close> is \<open>strconv.Itoa\<close> and \<open>%d\<close>; \<open>pad0 w\<close> is the verb \<open>%0wd\<close>.\<close>

definition itoa :: "int \<Rightarrow> string" where
  "itoa i = (if i < 0 then CHR ''-'' # utoa (nat (- i)) else utoa (nat i))"

definition pad0 :: "nat \<Rightarrow> int \<Rightarrow> string" where
  "pad0 w i = (if i < 0
     then CHR ''-'' # replicate (w - 1 - length (utoa (nat (- i)))) (CHR ''0'') @ utoa (nat (- i))
     else replicate (w - length (utoa (nat i))) (CHR ''0'') @ utoa (nat i))"

text \<open>\<open>strconv.Atoi\<close> (and \<open>ParseInt(s, 10, 64)\<close>): an optional sign, at least one digit,
  and a value in range; \<open>None\<close> is the error.\<close>

definition parse_digits :: "string \<Rightarrow> nat option" where
  "parse_digits s = (if s \<noteq> [] \<and> list_all is_digit s then Some (atou_acc 0 s) else None)"

definition atoi :: "string \<Rightarrow> int option" where
  "atoi s =
     (case s of
        c # cs \<Rightarrow>
          if c = CHR ''-'' then
            (case parse_digits cs of
               Some n \<Rightarrow> if in64 (- int n) then Some (- int n) else None | None \<Rightarrow> None)
          else if c = CHR ''+'' then
            (case parse_digits cs of
               Some n \<Rightarrow> if in64 (int n) then Some (int n) else None | None \<Rightarrow> None)
          else
            (case parse_digits s of
               Some n \<Rightarrow> if in64 (int n) then Some (int n) else None | None \<Rightarrow> None)
      | [] \<Rightarrow> None)"

lemma of_char_digit_char: "d < 10 \<Longrightarrow> (of_char (digit_char d) :: nat) = 48 + d"
  by (simp add: digit_char_def)

lemma is_digit_digit_char [simp]: "d < 10 \<Longrightarrow> is_digit (digit_char d)"
  by (simp add: is_digit_def of_char_digit_char)

lemma digit_val_digit_char [simp]: "d < 10 \<Longrightarrow> digit_val (digit_char d) = d"
  by (simp add: digit_val_def of_char_digit_char)

lemma utoa_ne [simp]: "utoa n \<noteq> []"
  by (subst utoa.simps) simp

lemma utoa_digits: "list_all is_digit (utoa n)"
proof (induction n rule: utoa.induct)
  case (1 n)
  then show ?case by (subst utoa.simps) simp
qed

lemma atou_acc_append: "atou_acc acc (a @ b) = atou_acc (atou_acc acc a) b"
  by (induction a arbitrary: acc) auto

lemma atou_utoa [simp]: "atou_acc 0 (utoa n) = n"
proof (induction n rule: utoa.induct)
  case (1 n)
  then show ?case by (subst utoa.simps) (simp add: atou_acc_append)
qed

lemma utoa_inject [simp]: "utoa m = utoa n \<longleftrightarrow> m = n"
  by (metis atou_utoa)

lemma digit_not_dash: "is_digit c \<Longrightarrow> c \<noteq> CHR ''-''"
  and digit_not_plus: "is_digit c \<Longrightarrow> c \<noteq> CHR ''+''"
  and digit_not_slash: "is_digit c \<Longrightarrow> c \<noteq> CHR ''/''"
  by (auto simp: is_digit_def)

lemma utoa_no_char: "\<not> is_digit c \<Longrightarrow> c \<notin> set (utoa n)"
  using utoa_digits [of n] by (auto simp: list_all_iff)

lemma utoa_hd_digit: "is_digit (hd (utoa n))"
  using utoa_digits [of n] by (cases "utoa n") auto

lemma itoa_inject [simp]: "itoa i = itoa j \<longleftrightarrow> i = j"
proof
  assume eq: "itoa i = itoa j"
  have neg: "utoa n \<noteq> CHR ''-'' # xs" for n xs
    using utoa_hd_digit [of n] digit_not_dash by (cases "utoa n") auto
  show "i = j"
    using eq neg [symmetric] neg by (auto simp: itoa_def split: if_splits)
qed simp

lemma itoa_no_slash [simp]: "CHR ''/'' \<notin> set (itoa i)"
  using utoa_no_char [of "CHR ''/''"] by (auto simp: itoa_def is_digit_def)

lemma itoa_ne [simp]: "itoa i \<noteq> []"
  by (simp add: itoa_def)

lemma parse_digits_utoa [simp]: "parse_digits (utoa n) = Some n"
  by (simp add: parse_digits_def utoa_digits)

lemma atoi_itoa: "in64 i \<Longrightarrow> atoi (itoa i) = Some i"
proof (cases "i < 0")
  case True
  then show "in64 i \<Longrightarrow> ?thesis" by (simp add: itoa_def atoi_def)
next
  case False
  obtain c cs where u: "utoa (nat i) = c # cs" by (cases "utoa (nat i)") auto
  moreover have "is_digit c" using utoa_hd_digit [of "nat i"] u by simp
  moreover have "parse_digits (c # cs) = Some (nat i)" using parse_digits_utoa [of "nat i"] u by simp
  ultimately show "in64 i \<Longrightarrow> ?thesis"
    using False by (auto simp: itoa_def atoi_def dest: digit_not_dash digit_not_plus)
qed

section \<open>Association lists as Go maps\<close>

lemma map_of_update [simp]: "map_of (AList.update k v m) = (map_of m)(k \<mapsto> v)"
  by (simp add: update_conv')

lemma length_update:
  "length (AList.update k v m) = (if k \<in> fst ` set m then length m else Suc (length m))"
  by (induction m) auto

end
