(* ===== verification/GoErrors.thy ===== *)
theory GoErrors
  imports Prelude
begin

text \<open>
  Go error values as data. A package-level \<open>var ErrX = errors.New(...)\<close> is a
  \<open>sentinel\<close>; \<open>fmt.Errorf\<close> with \<open>%w\<close> is \<open>Wrap\<close> around the wrapped error, with the
  text before and after it; \<open>errors.Join\<close> is \<open>Join\<close>; \<open>MachineError\<close> is the error type of
  \<open>internal/agent/machine.go\<close>; \<open>ExitError\<close> is \<open>exec.ExitError\<close>; any other error is
  \<open>Opaque\<close> with its text. \<open>errors_is\<close> and \<open>as_machine_error\<close> are \<open>errors.Is\<close> and
  \<open>errors.As\<close>: depth first through wraps and joins. A function that returns \<open>error\<close>
  returns \<open>gerr option\<close>, where \<open>None\<close> is nil; a function that returns a value or an error
  returns \<open>gerr + 'a\<close>.
\<close>

datatype sentinel =
    ErrInvalidContract | ErrCoordinatorNotConfigured | ErrBundleMetadataMismatch
  | ErrAgentExecutorMissing | ErrLeaseIncomplete | ErrPlatformMismatch
  | ErrNoCompatibleAgents | ErrInsufficientCapacity
  | ErrOversubscribed | ErrUnsafePressure | ErrInvalidLease | ErrInvalidPressure
  | ErrSporeClientNotConfigured | ErrChildOutsideLease | ErrWorkRootNotConfigured
  | ErrResultStoreNotConfigured | ErrResultExists
  | ErrInvalidMachineOutput | ErrNoTerminalEvent | ErrInvalidSporeRequest
  | ErrMutableImage | ErrSandboxExists | ErrSandboxBusy
  | ContextCanceled | ContextDeadlineExceeded | OsErrNotExist | OsErrExist

fun sentinel_text :: "sentinel \<Rightarrow> string" where
  "sentinel_text ErrInvalidContract = ''invalid fleet contract''"
| "sentinel_text ErrCoordinatorNotConfigured = ''coordinator not configured''"
| "sentinel_text ErrBundleMetadataMismatch = ''bundle metadata mismatch''"
| "sentinel_text ErrAgentExecutorMissing = ''agent executor missing''"
| "sentinel_text ErrLeaseIncomplete = ''shard lease incomplete''"
| "sentinel_text ErrPlatformMismatch = ''platform mismatch''"
| "sentinel_text ErrNoCompatibleAgents = ''no compatible agents''"
| "sentinel_text ErrInsufficientCapacity = ''insufficient agent capacity''"
| "sentinel_text ErrOversubscribed = ''agent execution slots oversubscribed''"
| "sentinel_text ErrUnsafePressure = ''agent resource pressure is unsafe''"
| "sentinel_text ErrInvalidLease = ''invalid shard lease''"
| "sentinel_text ErrInvalidPressure = ''invalid pressure''"
| "sentinel_text ErrSporeClientNotConfigured = ''spore client not configured''"
| "sentinel_text ErrChildOutsideLease = ''child outside shard lease''"
| "sentinel_text ErrWorkRootNotConfigured = ''work root not configured''"
| "sentinel_text ErrResultStoreNotConfigured = ''result store not configured''"
| "sentinel_text ErrResultExists = ''result object already exists''"
| "sentinel_text ErrInvalidMachineOutput = ''invalid sporevm machine output''"
| "sentinel_text ErrNoTerminalEvent = ''missing terminal event''"
| "sentinel_text ErrInvalidSporeRequest = ''invalid sporevm request''"
| "sentinel_text ErrMutableImage = ''interactive image must be digest-pinned''"
| "sentinel_text ErrSandboxExists = ''sandbox already exists''"
| "sentinel_text ErrSandboxBusy = ''sandbox lifecycle operation in progress''"
| "sentinel_text ContextCanceled = ''context canceled''"
| "sentinel_text ContextDeadlineExceeded = ''context deadline exceeded''"
| "sentinel_text OsErrNotExist = ''file does not exist''"
| "sentinel_text OsErrExist = ''file already exists''"

text \<open>\<open>MachineErrorBody\<close>, \<open>MachineErrorEnvelope\<close>.\<close>

record machine_error_body =
  me_code :: string
  me_message :: string
  me_retry :: string
  me_retryable :: bool
  me_scope :: string
  me_exit_code :: int
  me_source :: string

record machine_error_envelope =
  env_schema :: string
  env_schema_version :: int
  env_error :: machine_error_body

datatype gerr =
    Sentinel sentinel
  | MachineError machine_error_envelope string
  | ExitError int string
  | Opaque string
  | Wrap string gerr string
  | Join "gerr list"

text \<open>\<open>fmt.Errorf("%w: msg", sentinel)\<close>\<close>

definition errorf :: "sentinel \<Rightarrow> string \<Rightarrow> gerr" where
  "errorf s msg = Wrap [] (Sentinel s) ('': '' @ msg)"

definition contract_error :: "string \<Rightarrow> gerr" where
  "contract_error msg = errorf ErrInvalidContract msg"

definition invalid_machine_output :: "string \<Rightarrow> gerr" where
  "invalid_machine_output msg = errorf ErrInvalidMachineOutput msg"

definition invalid_spore_request :: "string \<Rightarrow> gerr" where
  "invalid_spore_request msg = errorf ErrInvalidSporeRequest msg"

text \<open>\<open>MachineError.Error\<close>\<close>

definition machine_error_text :: "machine_error_envelope \<Rightarrow> string \<Rightarrow> string" where
  "machine_error_text env stderr =
     (let body = env_error env;
          m1 = me_message body;
          m2 = (if m1 = [] then trim_space stderr else m1);
          message = (if m2 = [] then ''spore command failed'' else m2)
      in if me_code body = [] then message
         else if me_source body = [] then me_code body @ '': '' @ message
         else me_code body @ '': '' @ message @ '' (source='' @ go_quote (me_source body) @ '')'')"

fun join_lines :: "string list \<Rightarrow> string" where
  "join_lines [] = []"
| "join_lines [s] = s"
| "join_lines (s # t # ts) = s @ char_of (10::nat) # join_lines (t # ts)"

fun err_text :: "gerr \<Rightarrow> string" where
  "err_text (Sentinel s) = sentinel_text s"
| "err_text (MachineError env stderr) = machine_error_text env stderr"
| "err_text (ExitError _ t) = t"
| "err_text (Opaque t) = t"
| "err_text (Wrap pre e post) = pre @ err_text e @ post"
| "err_text (Join es) = join_lines (map err_text es)"

fun errors_is :: "sentinel \<Rightarrow> gerr \<Rightarrow> bool" where
  "errors_is s (Sentinel t) = (s = t)"
| "errors_is s (MachineError _ _) = False"
| "errors_is s (ExitError _ _) = False"
| "errors_is s (Opaque _) = False"
| "errors_is s (Wrap _ e _) = errors_is s e"
| "errors_is s (Join es) = list_ex (errors_is s) es"

fun as_machine_error :: "gerr \<Rightarrow> (machine_error_envelope \<times> string) option"
  and as_machine_error_list :: "gerr list \<Rightarrow> (machine_error_envelope \<times> string) option" where
  "as_machine_error (MachineError env stderr) = Some (env, stderr)"
| "as_machine_error (Wrap _ e _) = as_machine_error e"
| "as_machine_error (Join es) = as_machine_error_list es"
| "as_machine_error _ = None"
| "as_machine_error_list [] = None"
| "as_machine_error_list (e # es) =
     (case as_machine_error e of Some m \<Rightarrow> Some m | None \<Rightarrow> as_machine_error_list es)"

fun as_exit_error :: "gerr \<Rightarrow> int option"
  and as_exit_error_list :: "gerr list \<Rightarrow> int option" where
  "as_exit_error (ExitError c _) = Some c"
| "as_exit_error (Wrap _ e _) = as_exit_error e"
| "as_exit_error (Join es) = as_exit_error_list es"
| "as_exit_error _ = None"
| "as_exit_error_list [] = None"
| "as_exit_error_list (e # es) =
     (case as_exit_error e of Some c \<Rightarrow> Some c | None \<Rightarrow> as_exit_error_list es)"

text \<open>\<open>errors.Join\<close> drops nil errors and is nil when nothing is left.\<close>

definition errors_join :: "gerr option list \<Rightarrow> gerr option" where
  "errors_join es = (case List.map_filter id es of [] \<Rightarrow> None | fs \<Rightarrow> Some (Join fs))"

lemma errors_is_errorf [simp]: "errors_is s (errorf t m) \<longleftrightarrow> s = t"
  by (simp add: errorf_def)

lemma errors_is_contract [simp]: "errors_is s (contract_error m) \<longleftrightarrow> s = ErrInvalidContract"
  by (simp add: contract_error_def)

lemma errors_is_machine_output [simp]:
  "errors_is s (invalid_machine_output m) \<longleftrightarrow> s = ErrInvalidMachineOutput"
  by (simp add: invalid_machine_output_def)

lemma errors_is_spore_request [simp]:
  "errors_is s (invalid_spore_request m) \<longleftrightarrow> s = ErrInvalidSporeRequest"
  by (simp add: invalid_spore_request_def)

lemma as_machine_error_errorf [simp]: "as_machine_error (errorf s m) = None"
  by (simp add: errorf_def)

lemma errors_join_None [simp]: "errors_join es = None \<longleftrightarrow> (\<forall>e \<in> set es. e = None)"
  by (induction es) (auto simp: errors_join_def List.map_filter_simps split: option.splits list.splits)

lemma errors_join_is:
  "errors_join es = Some e \<Longrightarrow> errors_is s e \<longleftrightarrow> (\<exists>e' \<in> set es. \<exists>f. e' = Some f \<and> errors_is s f)"
proof -
  assume "errors_join es = Some e"
  then have e: "e = Join (List.map_filter id es)"
    by (auto simp: errors_join_def split: list.splits)
  have "list_ex (errors_is s) (List.map_filter id es) \<longleftrightarrow>
        (\<exists>e' \<in> set es. \<exists>f. e' = Some f \<and> errors_is s f)"
    by (induction es) (auto simp: List.map_filter_simps split: option.splits)
  then show ?thesis by (simp add: e)
qed

section \<open>Validators\<close>

text \<open>
  A Go validator is a sequence of \<open>if cond { return err }\<close> and
  \<open>if err := f(); err != nil { return err }\<close>: the first failing step is the result.
\<close>

definition check :: "bool \<Rightarrow> gerr \<Rightarrow> gerr option" where
  "check b e = (if b then Some e else None)"

fun first_err :: "gerr option list \<Rightarrow> gerr option" where
  "first_err [] = None"
| "first_err (None # es) = first_err es"
| "first_err (Some e # es) = Some e"

lemma check_None [simp]: "check b e = None \<longleftrightarrow> \<not> b"
  by (simp add: check_def)

lemma check_True [simp]: "check True e = Some e"
  and check_False [simp]: "check False e = None"
  by (simp_all add: check_def)

lemma first_err_Cons_None [simp]: "first_err (x # xs) = None \<longleftrightarrow> x = None \<and> first_err xs = None"
  by (cases x) auto

lemma first_err_cases:
  "first_err (x # xs) = (case x of None \<Rightarrow> first_err xs | Some e \<Rightarrow> Some e)"
  by (cases x) auto

lemma first_err_Some: "first_err es = Some e \<Longrightarrow> Some e \<in> set es"
  by (induction es rule: first_err.induct) auto

lemma first_err_all:
  "(\<forall>x \<in> set es. \<forall>e. x = Some e \<longrightarrow> P e) \<Longrightarrow> first_err es = Some e \<Longrightarrow> P e"
  by (auto dest: first_err_Some)

end
