(* ===== verification/FleetTypes.thy ===== *)
theory FleetTypes
  imports GoErrors
begin

text \<open>
  The fleet contract documents of \<open>internal/fleet/types.go\<close>, one record per struct. A
  field keeps the struct's field name after a short prefix for the struct, since two
  structs share most names: \<open>br_runID\<close> is \<open>BundleRun.RunID\<close>, \<open>lease_agentID\<close> is
  \<open>ShardLease.AgentID\<close>. \<open>PressureLevel\<close> and \<open>AttemptStatus\<close> are Go strings whose
  declared constants are named here, so that an undeclared value is a value too. A
  pointer field is an \<open>option\<close>.
\<close>

record bundle_ref =
  bundle_uri :: string
  bundle_digest :: string

record child_range =
  range_start :: int
  range_count :: int

text \<open>\<open>ChildRange.End\<close>: a 64-bit sum.\<close>

definition range_end :: "child_range \<Rightarrow> int" where
  "range_end r = wrap64 (range_start r + range_count r)"

record host_class =
  hc_id :: string
  hc_platformVersion :: string
  hc_architecture :: string
  hc_backend :: string
  hc_cpuProfile :: string
  hc_deviceModel :: string

definition host_class_equal :: "host_class \<Rightarrow> host_class \<Rightarrow> bool" where
  "host_class_equal h other \<longleftrightarrow> h = other"

record execution =
  maxInFlightPerAgent :: int

record retry_policy =
  maxAttemptsPerChild :: int
  rerunCommittedChildren :: bool

record side_effects =
  idempotencyRequired :: bool

record run_source =
  source_image :: string
  source_platform :: string

record prepare_spec =
  prepare_command :: "string list"
  prepare_captureSignal :: string
  prepare_readyMarker :: string
  prepare_memory :: string

record fork_spec =
  fork_count :: int

record run_children =
  rc_start :: int
  rc_count :: int
  rc_command :: "string list"

definition run_children_range :: "run_children \<Rightarrow> child_range" where
  "run_children_range c = \<lparr>range_start = rc_start c, range_count = rc_count c\<rparr>"

record run =
  run_runID :: string
  run_source :: run_source
  run_prepare :: prepare_spec
  run_fork :: fork_spec
  run_children :: run_children
  run_execution :: execution
  run_retryPolicy :: retry_policy
  run_sideEffects :: side_effects
  run_resultStore :: string

record prepared_local_bundle =
  local_parentDir :: string
  local_childrenDir :: string
  local_bundleDir :: string

record prepare_timings =
  pt_runSave :: float64
  pt_fork :: float64
  pt_pack :: float64
  pt_inspectBundle :: float64

record prepared_bundle =
  pb_bundle :: bundle_ref
  pb_childCount :: int
  pb_hostClass :: host_class
  pb_local :: "prepared_local_bundle option"
  pb_timingsMS :: prepare_timings

record bundle_run =
  br_runID :: string
  br_bundle :: bundle_ref
  br_children :: child_range
  br_childCommand :: "string list"
  br_hostClass :: host_class
  br_execution :: execution
  br_retryPolicy :: retry_policy
  br_sideEffects :: side_effects
  br_resultStore :: string

record execution_slots =
  slots_total :: int
  slots_available :: int

record cache_status =
  bundleCacheBytes :: int
  rootFSCacheBytes :: int
  bundleCacheEntries :: int
  rootFSCacheEntries :: int

type_synonym pressure_level = string

definition PressureNormal :: pressure_level where "PressureNormal = ''normal''"
definition PressureWarning :: pressure_level where "PressureWarning = ''warning''"
definition PressureCritical :: pressure_level where "PressureCritical = ''critical''"

record pressure =
  pressure_disk :: pressure_level
  pressure_memory :: pressure_level

definition pressure_is_critical :: "pressure \<Rightarrow> bool" where
  "pressure_is_critical p \<longleftrightarrow> pressure_disk p = PressureCritical \<or> pressure_memory p = PressureCritical"

record agent_status =
  as_agentID :: string
  as_cellID :: string
  as_observedAt :: go_time
  as_hostClass :: host_class
  as_executionSlots :: execution_slots
  as_cache :: cache_status
  as_pressure :: pressure
  as_healthy :: bool

record shard_lease =
  lease_runID :: string
  lease_bundleDigest :: string
  lease_shardID :: string
  lease_childStart :: int
  lease_childCount :: int
  lease_attemptBudget :: int
  lease_hostClassID :: string
  lease_agentID :: string

definition lease_range :: "shard_lease \<Rightarrow> child_range" where
  "lease_range l = \<lparr>range_start = lease_childStart l, range_count = lease_childCount l\<rparr>"

type_synonym attempt_status = string

definition AttemptSucceeded :: attempt_status where
  "AttemptSucceeded = ''succeeded''"
definition AttemptFailed :: attempt_status where
  "AttemptFailed = ''failed''"
definition AttemptSkippedTerminalExists :: attempt_status where
  "AttemptSkippedTerminalExists = ''skipped-terminal-exists''"
definition AttemptPlatformMismatch :: attempt_status where
  "AttemptPlatformMismatch = ''platform-mismatch''"

lemmas attempt_status_defs =
  AttemptSucceeded_def AttemptFailed_def AttemptSkippedTerminalExists_def AttemptPlatformMismatch_def

lemmas pressure_level_defs = PressureNormal_def PressureWarning_def PressureCritical_def

record attempt_timings =
  at_artifactPull :: float64
  at_materialization :: float64
  at_resume :: float64
  at_guestReady :: float64
  at_resultCommit :: float64
  at_localChild :: float64

record attempt_error =
  ae_code :: string
  ae_message :: string
  ae_scope :: string
  ae_retry :: string
  ae_retryable :: bool

record attempt_output =
  ao_stdoutBytes :: int
  ao_stderrBytes :: int
  ao_stdoutPreviewBase64 :: string
  ao_stderrPreviewBase64 :: string
  ao_stdoutTruncated :: bool
  ao_stderrTruncated :: bool

record attempt_result =
  ar_runID :: string
  ar_bundleDigest :: string
  ar_childID :: int
  ar_attemptID :: string
  ar_agentID :: string
  ar_shardID :: string
  ar_status :: attempt_status
  ar_startedAt :: go_time
  ar_finishedAt :: go_time
  ar_timingsMS :: attempt_timings
  ar_terminal :: bool
  ar_resultURI :: string
  ar_output :: "attempt_output option"
  ar_error :: "attempt_error option"

record plan_summary =
  ps_runID :: string
  ps_state :: string
  ps_childCount :: int
  ps_shardCount :: int
  ps_assignedChildren :: int
  ps_assignedShards :: int
  ps_agentCount :: int
  ps_healthyAgents :: int
  ps_compatibleAgents :: int
  ps_availableChildSlots :: int

record plan =
  plan_summary :: plan_summary
  plan_lease :: shard_lease

record bundle_inspection =
  bi_bundleDigest :: string
  bi_childCount :: int
  bi_hostClass :: host_class

record shard_execution_request =
  ser_run :: bundle_run
  ser_lease :: shard_lease
  ser_attempt :: int
  ser_local :: "prepared_local_bundle option"

record runtime_prepare_summary =
  rp_agentID :: string
  rp_bundleDigest :: string
  rp_childCount :: int
  rp_timingsMS :: prepare_timings

record runtime_summary =
  rs_runID :: string
  rs_state :: string
  rs_childCount :: int
  rs_shardCount :: int
  rs_assignedChildren :: int
  rs_assignedShards :: int
  rs_attemptCount :: int
  rs_completedChildren :: int
  rs_succeededChildren :: int
  rs_failedChildren :: int
  rs_skippedTerminalChildren :: int
  rs_platformMismatches :: int
  rs_nonTerminalFailures :: int
  rs_leaseErrors :: int
  rs_startedAt :: go_time
  rs_finishedAt :: go_time

record runtime_percentiles =
  p50 :: float64
  p95 :: float64
  p99 :: float64

record runtime_stage_percentiles =
  sp_artifactPull :: runtime_percentiles
  sp_materialization :: runtime_percentiles
  sp_resume :: runtime_percentiles
  sp_guestReady :: runtime_percentiles
  sp_resultCommit :: runtime_percentiles

record runtime_timing_summary =
  rt_childReadyMS :: runtime_percentiles
  rt_stagePercentilesMS :: runtime_stage_percentiles

record runtime_report =
  rr_plan :: plan
  rr_summary :: runtime_summary
  rr_timings :: "runtime_timing_summary option"
  rr_prepare :: "runtime_prepare_summary option"

text \<open>Go zero values of the structs the code returns beside an error.\<close>

definition zero_timings :: attempt_timings where
  "zero_timings = \<lparr>at_artifactPull = 0, at_materialization = 0, at_resume = 0,
     at_guestReady = 0, at_resultCommit = 0, at_localChild = 0\<rparr>"

definition zero_result :: attempt_result where
  "zero_result = \<lparr>ar_runID = [], ar_bundleDigest = [], ar_childID = 0, ar_attemptID = [],
     ar_agentID = [], ar_shardID = [], ar_status = [], ar_startedAt = 0, ar_finishedAt = 0,
     ar_timingsMS = zero_timings, ar_terminal = False, ar_resultURI = [], ar_output = None,
     ar_error = None\<rparr>"

definition zero_lease :: shard_lease where
  "zero_lease = \<lparr>lease_runID = [], lease_bundleDigest = [], lease_shardID = [],
     lease_childStart = 0, lease_childCount = 0, lease_attemptBudget = 0,
     lease_hostClassID = [], lease_agentID = []\<rparr>"

definition zero_plan_summary :: plan_summary where
  "zero_plan_summary = \<lparr>ps_runID = [], ps_state = [], ps_childCount = 0, ps_shardCount = 0,
     ps_assignedChildren = 0, ps_assignedShards = 0, ps_agentCount = 0, ps_healthyAgents = 0,
     ps_compatibleAgents = 0, ps_availableChildSlots = 0\<rparr>"

definition zero_plan :: plan where
  "zero_plan = \<lparr>plan_summary = zero_plan_summary, plan_lease = zero_lease\<rparr>"

definition zero_summary :: runtime_summary where
  "zero_summary = \<lparr>rs_runID = [], rs_state = [], rs_childCount = 0, rs_shardCount = 0,
     rs_assignedChildren = 0, rs_assignedShards = 0, rs_attemptCount = 0,
     rs_completedChildren = 0, rs_succeededChildren = 0, rs_failedChildren = 0,
     rs_skippedTerminalChildren = 0, rs_platformMismatches = 0, rs_nonTerminalFailures = 0,
     rs_leaseErrors = 0, rs_startedAt = 0, rs_finishedAt = 0\<rparr>"

definition zero_report :: runtime_report where
  "zero_report = \<lparr>rr_plan = zero_plan, rr_summary = zero_summary, rr_timings = None,
     rr_prepare = None\<rparr>"

definition zero_percentiles :: runtime_percentiles where
  "zero_percentiles = \<lparr>p50 = 0, p95 = 0, p99 = 0\<rparr>"

lemma run_children_range_simps [simp]:
  "range_start (run_children_range c) = rc_start c"
  "range_count (run_children_range c) = rc_count c"
  by (simp_all add: run_children_range_def)

lemma lease_range_simps [simp]:
  "range_start (lease_range l) = lease_childStart l"
  "range_count (lease_range l) = lease_childCount l"
  by (simp_all add: lease_range_def)

text \<open>The type invariant of a child range: both fields are 64-bit integers.\<close>

definition range_in64 :: "child_range \<Rightarrow> bool" where
  "range_in64 r \<longleftrightarrow> in64 (range_start r) \<and> in64 (range_count r)"

lemma range_end_exact:
  "\<lbrakk>0 \<le> range_start r; 0 \<le> range_count r; range_start r + range_count r < 2 ^ 63\<rbrakk>
   \<Longrightarrow> range_end r = range_start r + range_count r"
  by (simp add: range_end_def in64_def)

lemma range_end_overflow:
  "\<lbrakk>0 \<le> range_start r; 0 \<le> range_count r; range_in64 r; 2 ^ 63 \<le> range_start r + range_count r\<rbrakk>
   \<Longrightarrow> range_end r < 0"
  by (auto simp: range_end_def range_in64_def wrap64_add_nonneg in64_def)

lemma range_end_le:
  assumes "0 \<le> range_start r" "0 \<le> range_count r" "range_in64 r"
  shows "range_end r \<le> range_start r + range_count r"
proof (cases "range_start r + range_count r < 2 ^ 63")
  case True
  with assms show ?thesis using range_end_exact [of r] by linarith
next
  case False
  then have "2 ^ 63 \<le> range_start r + range_count r" by linarith
  from range_end_overflow [OF assms this] assms show ?thesis by linarith
qed

end
