(* ===== verification/Base64.thy ===== *)
theory Base64
  imports Prelude
begin

text \<open>
  \<open>base64.StdEncoding\<close> of the Go standard library, which the sources use for output
  previews: \<open>b64_encode\<close> is \<open>EncodeToString\<close>, \<open>b64_decode\<close> is \<open>DecodeString\<close>. Go
  ignores carriage returns and newlines while decoding, wants complete groups of four
  characters, and takes padding only at the end.
\<close>

definition b64_char :: "nat \<Rightarrow> char" where
  "b64_char n = (if n < 26 then char_of (65 + n)
     else if n < 52 then char_of (71 + n)
     else if n < 62 then char_of (n - 4)
     else if n = 62 then CHR ''+'' else CHR ''/'')"

definition b64_val :: "char \<Rightarrow> nat option" where
  "b64_val c = (let n = (of_char c :: nat) in
     if 65 \<le> n \<and> n \<le> 90 then Some (n - 65)
     else if 97 \<le> n \<and> n \<le> 122 then Some (n - 71)
     else if 48 \<le> n \<and> n \<le> 57 then Some (n + 4)
     else if n = 43 then Some 62 else if n = 47 then Some 63 else None)"

fun b64_encode :: "string \<Rightarrow> string" where
  "b64_encode [] = []"
| "b64_encode [a] =
     (let v = of_char a * 16 in [b64_char (v div 64), b64_char (v mod 64), CHR ''='', CHR ''=''])"
| "b64_encode [a, b] =
     (let v = (of_char a * 256 + of_char b) * 4 in
      [b64_char (v div 4096), b64_char (v div 64 mod 64), b64_char (v mod 64), CHR ''=''])"
| "b64_encode (a # b # c # rest) =
     (let v = (of_char a * 256 + of_char b) * 256 + of_char c in
      b64_char (v div 262144) # b64_char (v div 4096 mod 64) # b64_char (v div 64 mod 64)
        # b64_char (v mod 64) # b64_encode rest)"

fun b64_groups :: "string \<Rightarrow> string option" where
  "b64_groups [] = Some []"
| "b64_groups (p # q # r # s # rest) =
     (case (b64_val p, b64_val q) of
        (Some x, Some y) \<Rightarrow>
          if s = CHR ''='' then
            if rest \<noteq> [] then None
            else if r = CHR ''='' then Some [char_of ((x * 64 + y) div 16)]
            else (case b64_val r of
                    Some z \<Rightarrow> let v = ((x * 64 + y) * 64 + z) div 4
                              in Some [char_of (v div 256), char_of (v mod 256)]
                  | None \<Rightarrow> None)
          else (case (b64_val r, b64_val s, b64_groups rest) of
                  (Some z, Some w, Some more) \<Rightarrow>
                    let v = ((x * 64 + y) * 64 + z) * 64 + w
                    in Some (char_of (v div 65536) # char_of (v div 256 mod 256)
                             # char_of (v mod 256) # more)
                | _ \<Rightarrow> None)
      | _ \<Rightarrow> None)"
| "b64_groups _ = None"

definition b64_decode :: "string \<Rightarrow> string option" where
  "b64_decode s = b64_groups (filter (\<lambda>c. c \<noteq> char_of (10::nat) \<and> c \<noteq> char_of (13::nat)) s)"

lemma b64_val_char [simp]: "n < 64 \<Longrightarrow> b64_val (b64_char n) = Some n"
  by (auto simp: b64_val_def b64_char_def Let_def)

lemma of_char_b64_char:
  "n < 64 \<Longrightarrow> (of_char (b64_char n) :: nat) \<noteq> 61 \<and> (of_char (b64_char n) :: nat) \<noteq> 10
     \<and> (of_char (b64_char n) :: nat) \<noteq> 13"
  by (auto simp: b64_char_def)

lemma b64_char_ne [simp]:
  assumes "n < 64"
  shows "b64_char n \<noteq> CHR ''=''" "b64_char n \<noteq> char_of (10::nat)" "b64_char n \<noteq> char_of (13::nat)"
proof -
  have "(of_char (CHR ''='') :: nat) = 61" by simp
  then show "b64_char n \<noteq> CHR ''=''" using of_char_b64_char [OF assms] by metis
  have "(of_char (char_of (10::nat) :: char) :: nat) = 10" by simp
  then show "b64_char n \<noteq> char_of (10::nat)" using of_char_b64_char [OF assms] by metis
  have "(of_char (char_of (13::nat) :: char) :: nat) = 13" by simp
  then show "b64_char n \<noteq> char_of (13::nat)" using of_char_b64_char [OF assms] by metis
qed

lemma of_char_lt [simp]: "(of_char (c::char) :: nat) < 256"
  by (cases c) (simp add: of_char_def)

lemma of_char_le: "(of_char (c::char) :: nat) \<le> 255"
  using of_char_lt [of c] by linarith

lemma byte3_le: "x \<le> 255 \<Longrightarrow> y \<le> 255 \<Longrightarrow> z \<le> 255 \<Longrightarrow> (x * 256 + y) * 256 + z < (16777216::nat)"
  by (simp add: algebra_simps)

lemma byte2_le: "x \<le> 255 \<Longrightarrow> y \<le> 255 \<Longrightarrow> (x * 256 + y) * 4 < (262144::nat)"
  by (simp add: algebra_simps)

lemma byte1_le: "x \<le> 255 \<Longrightarrow> x * 16 < (4096::nat)"
  by linarith

lemmas byte_bounds = byte3_le [OF of_char_le of_char_le of_char_le]
  byte2_le [OF of_char_le of_char_le] byte1_le [OF of_char_le]

lemma sextet_lt:
  "v < 16777216 \<Longrightarrow> v div 262144 < (64::nat)"
  "v < 262144 \<Longrightarrow> v div 4096 < (64::nat)"
  "v < 4096 \<Longrightarrow> v div 64 < (64::nat)"
  by (simp_all add: div_less_iff_less_mult)

lemma split64_2: "v div 64 * 64 + v mod 64 = (v::nat)"
  by (rule div_mult_mod_eq)

lemma split64_3: "(v div 4096 * 64 + v div 64 mod 64) * 64 + v mod 64 = (v::nat)"
proof -
  have "v div 4096 = v div 64 div 64" by (simp add: div_mult2_eq [symmetric])
  then show ?thesis by (simp only: div_mult_mod_eq)
qed

lemma split64_4:
  "((v div 262144 * 64 + v div 4096 mod 64) * 64 + v div 64 mod 64) * 64 + v mod 64 = (v::nat)"
proof -
  have "v div 4096 = v div 64 div 64" "v div 262144 = v div 64 div 64 div 64"
    by (simp_all add: div_mult2_eq [symmetric])
  then show ?thesis by (simp only: div_mult_mod_eq)
qed

lemma byte_step: "z < 256 \<Longrightarrow> (w * 256 + z) div 256 = (w::nat)" "z < 256 \<Longrightarrow> (w * 256 + z) mod 256 = z"
  by simp_all

lemma bytes_of_sum:
  assumes "y < 256" "z < (256::nat)"
  shows "((x * 256 + y) * 256 + z) div 65536 = x" "((x * 256 + y) * 256 + z) div 256 mod 256 = y"
    "((x * 256 + y) * 256 + z) mod 256 = z"
proof -
  have "n div 65536 = n div 256 div (256::nat)" for n by (simp add: div_mult2_eq [symmetric])
  then show "((x * 256 + y) * 256 + z) div 65536 = x"
    using assms by (simp only: byte_step)
  show "((x * 256 + y) * 256 + z) div 256 mod 256 = y"
    using assms by (simp only: byte_step)
  show "((x * 256 + y) * 256 + z) mod 256 = z"
    using assms by (simp only: byte_step)
qed

text \<open>One group of four characters, for the sextets of a number \<open>v\<close>.\<close>

lemma groups1:
  "v < 4096 \<Longrightarrow> b64_groups [b64_char (v div 64), b64_char (v mod 64), CHR ''='', CHR ''='']
     = Some [char_of (v div 16)]"
  using split64_2 [of v] by (simp add: sextet_lt del: div_mult_mod_eq)

lemma groups2:
  assumes "v < 262144"
  shows "b64_groups [b64_char (v div 4096), b64_char (v div 64 mod 64), b64_char (v mod 64), CHR ''='']
     = Some [char_of (v div 4 div 256), char_of (v div 4 mod 256)]"
proof -
  have "b64_val (b64_char (v div 4096)) = Some (v div 4096)" using assms by (simp add: sextet_lt)
  then show ?thesis by (simp only: b64_groups.simps b64_val_char Let_def option.case prod.case
      if_True b64_char_ne if_False mod_less_divisor zero_less_numeral simp_thms split64_3)
qed

lemma groups3:
  assumes "v < 16777216" "b64_groups rest = Some more"
  shows "b64_groups (b64_char (v div 262144) # b64_char (v div 4096 mod 64) # b64_char (v div 64 mod 64)
        # b64_char (v mod 64) # rest)
     = Some (char_of (v div 65536) # char_of (v div 256 mod 256) # char_of (v mod 256) # more)"
proof -
  have "b64_val (b64_char (v div 262144)) = Some (v div 262144)" using assms by (simp add: sextet_lt)
  then show ?thesis using assms(2) by (simp only: b64_groups.simps b64_val_char Let_def option.case
      prod.case b64_char_ne if_False mod_less_divisor zero_less_numeral simp_thms split64_4)
qed

lemma b64_groups_encode: "b64_groups (b64_encode s) = Some s"
proof (induction s rule: b64_encode.induct)
  case 1
  show ?case by simp
next
  case (2 a)
  show ?case using groups1 [OF byte_bounds(3) [of a]] by (simp only: b64_encode.simps Let_def) simp
next
  case (3 a b)
  show ?case using groups2 [OF byte_bounds(2) [of a b]] by (simp only: b64_encode.simps Let_def) simp
next
  case (4 a b c rest)
  define v where "v = ((of_char a * 256 + of_char b) * 256 + of_char c :: nat)"
  have "v div 65536 = of_char a" "v div 256 mod 256 = of_char b" "v mod 256 = of_char c"
    unfolding v_def by (rule bytes_of_sum [OF of_char_lt of_char_lt])+
  then show ?case
    using groups3 [OF _ 4 [OF refl], of v] byte_bounds(1) [of a b c]
    by (simp only: b64_encode.simps Let_def v_def [symmetric]) simp
qed

lemma b64_char_ex [simp]: "v < 64 \<Longrightarrow> \<exists>n < 64. b64_char v = b64_char n"
  by blast

lemma b64_char_mod [simp]: "\<exists>n < 64. b64_char (v mod 64) = b64_char n"
  by (rule b64_char_ex) simp

lemma encode_chars: "c \<in> set (b64_encode s) \<Longrightarrow> (\<exists>n < 64. c = b64_char n) \<or> c = CHR ''=''"
proof (induction s rule: b64_encode.induct)
  case 1
  then show ?case by simp
next
  case (2 a)
  define v where "v = (of_char a * 16 :: nat)"
  have v: "v div 64 < 64" using sextet_lt(3) [OF byte_bounds(3) [of a]] by (simp only: v_def)
  have "c = b64_char (v div 64) \<or> c = b64_char (v mod 64) \<or> c = CHR ''=''"
    using 2 by (simp only: b64_encode.simps Let_def v_def [symmetric]) auto
  then show ?case using v by auto
next
  case (3 a b)
  define v where "v = ((of_char a * 256 + of_char b) * 4 :: nat)"
  have v: "v div 4096 < 64" using sextet_lt(2) [OF byte_bounds(2) [of a b]] by (simp only: v_def)
  have "c = b64_char (v div 4096) \<or> c = b64_char (v div 64 mod 64) \<or> c = b64_char (v mod 64) \<or> c = CHR ''=''"
    using 3 by (simp only: b64_encode.simps Let_def v_def [symmetric]) auto
  then show ?case using v by auto
next
  case (4 a b d rest)
  define v where "v = ((of_char a * 256 + of_char b) * 256 + of_char d :: nat)"
  have v: "v div 262144 < 64" using sextet_lt(1) [OF byte_bounds(1) [of a b d]] by (simp only: v_def)
  have "c = b64_char (v div 262144) \<or> c = b64_char (v div 4096 mod 64) \<or> c = b64_char (v div 64 mod 64)
      \<or> c = b64_char (v mod 64) \<or> c \<in> set (b64_encode rest)"
    using 4(2) by (simp only: b64_encode.simps Let_def v_def [symmetric]) auto
  then show ?case using 4(1) [OF refl] v by auto
qed

lemma encode_no_newline:
  "filter (\<lambda>c. c \<noteq> char_of (10::nat) \<and> c \<noteq> char_of (13::nat)) (b64_encode s) = b64_encode s"
proof (rule filter_True, rule ballI)
  fix c assume "c \<in> set (b64_encode s)"
  then consider n where "n < 64" "c = b64_char n" | "c = CHR ''=''" using encode_chars by blast
  then show "c \<noteq> char_of (10::nat) \<and> c \<noteq> char_of (13::nat)"
  proof cases
    case 1
    then show ?thesis by simp
  next
    case 2
    then have "(of_char c :: nat) = 61" by simp
    then show ?thesis by auto
  qed
qed

theorem b64_decode_encode [simp]: "b64_decode (b64_encode s) = Some s"
  by (simp add: b64_decode_def encode_no_newline b64_groups_encode)

lemma b64_encode_Nil_iff [simp]: "b64_encode s = [] \<longleftrightarrow> s = []"
  by (cases s rule: b64_encode.cases) (auto simp: Let_def)

end
