(* ===== verification/FleetValidate.thy ===== *)
theory FleetValidate
  imports FleetTypes Base64
begin

text \<open>
  \<open>internal/fleet/validate.go\<close>: every \<open>Validate\<close> method as the list of its steps in the
  code's order, \<open>Run.Compile\<close>, and the string patterns. The regular expressions are
  written out as predicates on the string; Go's \<open>$\<close> matches only at the end of the text.
  Each \<open>Validate\<close> has a \<open>_None\<close> lemma that says exactly which documents it accepts
  (collection \<open>validate_iff\<close>).
\<close>

section \<open>Patterns\<close>

definition id_head :: "char \<Rightarrow> bool" where
  "id_head c \<longleftrightarrow> (let n = (of_char c :: nat) in (97 \<le> n \<and> n \<le> 122) \<or> (48 \<le> n \<and> n \<le> 57))"

definition id_tail :: "char \<Rightarrow> bool" where
  "id_tail c \<longleftrightarrow> id_head c \<or> c = CHR ''.'' \<or> c = CHR ''_'' \<or> c = CHR ''-''"

text \<open>\<open>^[a-z0-9][a-z0-9._-]{2,127}$\<close>\<close>

definition id_pattern :: "string \<Rightarrow> bool" where
  "id_pattern s \<longleftrightarrow>
     (case s of [] \<Rightarrow> False
      | c # cs \<Rightarrow> id_head c \<and> 2 \<le> length cs \<and> length cs \<le> 127 \<and> list_all id_tail cs)"

text \<open>\<open>^sha256:[a-f0-9]{64}$\<close>\<close>

definition digest_pattern :: "string \<Rightarrow> bool" where
  "digest_pattern s \<longleftrightarrow> has_prefix s ''sha256:'' \<and>
     length (trim_prefix s ''sha256:'') = 64 \<and> list_all is_lower_hex (trim_prefix s ''sha256:'')"

text \<open>\<open>^([0-9]+)(b|kb|kib|mb|mib|gb|gib)$\<close>: the two groups.\<close>

definition memory_pattern :: "string \<Rightarrow> (string \<times> string) option" where
  "memory_pattern s =
     (let ds = takeWhile is_digit s; unit = dropWhile is_digit s in
      if ds \<noteq> [] \<and> unit \<in> {''b'', ''kb'', ''kib'', ''mb'', ''mib'', ''gb'', ''gib''}
      then Some (ds, unit) else None)"

text \<open>\<open>strconv.ParseUint(s, 10, 64)\<close> on a string of digits.\<close>

definition parse_uint64 :: "string \<Rightarrow> 64 word option" where
  "parse_uint64 s = (if atou_acc 0 s < 2 ^ 64 then Some (word_of_nat (atou_acc 0 s)) else None)"

definition memory_multiplier :: "string \<Rightarrow> 64 word" where
  "memory_multiplier unit =
     (if unit = ''kb'' \<or> unit = ''kib'' then 1024
      else if unit = ''mb'' \<or> unit = ''mib'' then 1024 * 1024
      else if unit = ''gb'' \<or> unit = ''gib'' then 1024 * 1024 * 1024
      else 1)"

definition valid_memory_value :: "string \<Rightarrow> bool" where
  "valid_memory_value value =
     (case memory_pattern value of
        None \<Rightarrow> False
      | Some (ds, unit) \<Rightarrow>
          (case parse_uint64 ds of
             None \<Rightarrow> False
           | Some amount \<Rightarrow>
               if amount = 0 then False
               else let multiplier = memory_multiplier unit in
                 if amount > (- 1 :: 64 word) div multiplier then False
                 else amount * multiplier mod 4096 = 0))"

definition validate_id :: "string \<Rightarrow> string \<Rightarrow> gerr option" where
  "validate_id value path =
     check (\<not> id_pattern value) (contract_error (path @ '' must be a stable lowercase id''))"

definition validate_digest :: "string \<Rightarrow> string \<Rightarrow> gerr option" where
  "validate_digest value path =
     check (\<not> digest_pattern value) (contract_error (path @ '' must be a sha256 digest''))"

definition s3_parts_bad :: "string \<Rightarrow> bool" where
  "s3_parts_bad value =
     (case cut (CHR ''/'') (trim_prefix value ''s3://'') of
        (_, None) \<Rightarrow> True
      | (p0, Some p1) \<Rightarrow> p0 = [] \<or> p1 = [])"

definition validate_s3_prefix :: "string \<Rightarrow> string \<Rightarrow> gerr option" where
  "validate_s3_prefix value path = first_err
     [check (\<not> has_prefix value ''s3://'' \<or> \<not> has_suffix value ''/'')
        (contract_error (path @ '' must be an s3 prefix URI ending in /'')),
      check (s3_parts_bad value)
        (contract_error (path @ '' must be an s3 prefix URI ending in /''))]"

definition validate_s3_json_uri :: "string \<Rightarrow> string \<Rightarrow> gerr option" where
  "validate_s3_json_uri value path = first_err
     [check (\<not> has_prefix value ''s3://'' \<or> \<not> has_suffix value ''.json'')
        (contract_error (path @ '' must be an s3 JSON URI'')),
      check (s3_parts_bad value)
        (contract_error (path @ '' must be an s3 JSON URI''))]"

definition valid_pressure :: "pressure_level \<Rightarrow> bool" where
  "valid_pressure level \<longleftrightarrow> level = PressureNormal \<or> level = PressureWarning \<or> level = PressureCritical"

definition valid_attempt_status :: "attempt_status \<Rightarrow> bool" where
  "valid_attempt_status status \<longleftrightarrow>
     status = AttemptSucceeded \<or> status = AttemptFailed \<or>
     status = AttemptSkippedTerminalExists \<or> status = AttemptPlatformMismatch"

section \<open>Validators\<close>

text \<open>\<open>CommandSpec.Validate\<close>: the loop reports the first empty argument.\<close>

fun command_args_validate :: "nat \<Rightarrow> string list \<Rightarrow> string \<Rightarrow> gerr option" where
  "command_args_validate i [] path = None"
| "command_args_validate i (arg # args) path =
     (if arg = [] then
        Some (contract_error (path @ ''.command['' @ itoa (int i) @ ''] must not be empty''))
      else command_args_validate (Suc i) args path)"

definition command_validate :: "string list \<Rightarrow> string \<Rightarrow> gerr option" where
  "command_validate command path = first_err
     [check (command = []) (contract_error (path @ ''.command must not be empty'')),
      command_args_validate 0 command path]"

definition prepare_validate :: "prepare_spec \<Rightarrow> string \<Rightarrow> gerr option" where
  "prepare_validate p path =
     (case first_err
        [command_validate (prepare_command p) path,
         check (prepare_memory p \<noteq> [] \<and> \<not> valid_memory_value (prepare_memory p))
           (contract_error (path @ ''.memory must be a SporeVM memory value like 512mb or 2gb''))] of
        Some e \<Rightarrow> Some e
      | None \<Rightarrow>
          if prepare_captureSignal p = [] \<and> prepare_readyMarker p = [] then None
          else first_err
            [check (prepare_captureSignal p = [])
               (contract_error (path @ ''.captureSignal is required when readyMarker is set'')),
             check (prepare_readyMarker p = [])
               (contract_error (path @ ''.readyMarker is required when captureSignal is set'')),
             check (prepare_captureSignal p \<noteq> ''USR1'')
               (contract_error (path @ ''.captureSignal must be USR1''))])"

definition child_range_validate :: "child_range \<Rightarrow> string \<Rightarrow> gerr option" where
  "child_range_validate r path = first_err
     [check (range_start r < 0) (contract_error (path @ ''.start must be >= 0'')),
      check (range_count r < 1) (contract_error (path @ ''.count must be >= 1''))]"

definition run_validate :: "run \<Rightarrow> gerr option" where
  "run_validate r = first_err
     [validate_id (run_runID r) ''runID'',
      check (source_image (run_source r) = []) (contract_error ''source.image must not be empty''),
      check (source_platform (run_source r) \<noteq> ''linux/arm64'')
        (contract_error ''source.platform must be linux/arm64''),
      prepare_validate (run_prepare r) ''prepare'',
      check (fork_count (run_fork r) < 1) (contract_error ''fork.count must be >= 1''),
      child_range_validate (run_children_range (run_children r)) ''children'',
      check (range_end (run_children_range (run_children r)) > fork_count (run_fork r))
        (contract_error ''children range must fit fork.count''),
      command_validate (rc_command (run_children r)) ''children'',
      check (maxInFlightPerAgent (run_execution r) < 1)
        (contract_error ''execution.maxInFlightPerAgent must be >= 1''),
      check (maxAttemptsPerChild (run_retryPolicy r) < 1)
        (contract_error ''retryPolicy.maxAttemptsPerChild must be >= 1''),
      check (rerunCommittedChildren (run_retryPolicy r))
        (contract_error ''retryPolicy.rerunCommittedChildren must be false''),
      check (\<not> idempotencyRequired (run_sideEffects r))
        (contract_error ''sideEffects.idempotencyRequired must be true''),
      validate_s3_prefix (run_resultStore r) ''resultStore'']"

definition host_class_validate :: "host_class \<Rightarrow> string \<Rightarrow> gerr option" where
  "host_class_validate h path = first_err
     [validate_id (hc_id h) (path @ ''.id''),
      check (hc_platformVersion h \<noteq> ''v0'') (contract_error (path @ ''.sporePlatformVersion must be v0'')),
      check (hc_architecture h \<noteq> ''aarch64'') (contract_error (path @ ''.architecture must be aarch64'')),
      check (hc_backend h \<noteq> ''kvm'') (contract_error (path @ ''.backend must be kvm'')),
      check (hc_cpuProfile h = []) (contract_error (path @ ''.cpuProfile must not be empty'')),
      check (hc_deviceModel h = []) (contract_error (path @ ''.deviceModel must not be empty''))]"

definition bundle_run_validate :: "bundle_run \<Rightarrow> gerr option" where
  "bundle_run_validate r = first_err
     [validate_id (br_runID r) ''runID'',
      check (bundle_uri (br_bundle r) = []) (contract_error ''bundle.uri must not be empty''),
      validate_digest (bundle_digest (br_bundle r)) ''bundle.digest'',
      child_range_validate (br_children r) ''children'',
      (if length (br_childCommand r) > 0 then command_validate (br_childCommand r) ''childCommand''
       else None),
      host_class_validate (br_hostClass r) ''hostClass'',
      check (maxInFlightPerAgent (br_execution r) < 1)
        (contract_error ''execution.maxInFlightPerAgent must be >= 1''),
      check (maxAttemptsPerChild (br_retryPolicy r) < 1)
        (contract_error ''retryPolicy.maxAttemptsPerChild must be >= 1''),
      check (rerunCommittedChildren (br_retryPolicy r))
        (contract_error ''retryPolicy.rerunCommittedChildren must be false''),
      check (\<not> idempotencyRequired (br_sideEffects r))
        (contract_error ''sideEffects.idempotencyRequired must be true''),
      validate_s3_prefix (br_resultStore r) ''resultStore'']"

text \<open>\<open>Run.Compile\<close>\<close>

definition run_compile :: "run \<Rightarrow> prepared_bundle \<Rightarrow> gerr + bundle_run" where
  "run_compile r prepared =
     (case first_err
        [run_validate r,
         check (bundle_uri (pb_bundle prepared) = [])
           (contract_error ''prepared.bundle.uri must not be empty''),
         validate_digest (bundle_digest (pb_bundle prepared)) ''prepared.bundle.digest'',
         check (pb_childCount prepared < range_end (run_children_range (run_children r)))
           (contract_error ''prepared.childCount must cover children range''),
         host_class_validate (pb_hostClass prepared) ''prepared.hostClass''] of
        Some e \<Rightarrow> Inl e
      | None \<Rightarrow>
          let b = \<lparr>br_runID = run_runID r, br_bundle = pb_bundle prepared,
                   br_children = run_children_range (run_children r),
                   br_childCommand = rc_command (run_children r),
                   br_hostClass = pb_hostClass prepared, br_execution = run_execution r,
                   br_retryPolicy = run_retryPolicy r, br_sideEffects = run_sideEffects r,
                   br_resultStore = run_resultStore r\<rparr>
          in case bundle_run_validate b of Some e \<Rightarrow> Inl e | None \<Rightarrow> Inr b)"

definition pressure_validate :: "pressure \<Rightarrow> string \<Rightarrow> gerr option" where
  "pressure_validate p path = first_err
     [check (\<not> valid_pressure (pressure_disk p)) (contract_error (path @ ''.disk has unsupported value'')),
      check (\<not> valid_pressure (pressure_memory p)) (contract_error (path @ ''.memory has unsupported value''))]"

definition agent_status_validate :: "agent_status \<Rightarrow> gerr option" where
  "agent_status_validate s = first_err
     [validate_id (as_agentID s) ''agentID'',
      validate_id (as_cellID s) ''cellID'',
      check (as_observedAt s = 0) (contract_error ''observedAt must not be zero''),
      host_class_validate (as_hostClass s) ''hostClass'',
      check (slots_total (as_executionSlots s) < 1) (contract_error ''executionSlots.total must be >= 1''),
      check (slots_available (as_executionSlots s) < 0)
        (contract_error ''executionSlots.available must be >= 0''),
      check (slots_available (as_executionSlots s) > slots_total (as_executionSlots s))
        (contract_error ''executionSlots.available cannot exceed total''),
      check (bundleCacheBytes (as_cache s) < 0 \<or> rootFSCacheBytes (as_cache s) < 0 \<or>
             bundleCacheEntries (as_cache s) < 0 \<or> rootFSCacheEntries (as_cache s) < 0)
        (contract_error ''cache values must be >= 0''),
      pressure_validate (as_pressure s) ''pressure'',
      check (as_healthy s \<and> pressure_is_critical (as_pressure s))
        (contract_error ''agent cannot be healthy under critical pressure'')]"

definition lease_validate :: "shard_lease \<Rightarrow> bundle_run \<Rightarrow> gerr option" where
  "lease_validate l r = first_err
     [bundle_run_validate r,
      check (lease_runID l \<noteq> br_runID r) (contract_error ''shardLease.runID does not match run.runID''),
      check (lease_bundleDigest l \<noteq> bundle_digest (br_bundle r))
        (contract_error ''shardLease.bundleDigest does not match run bundle digest''),
      validate_id (lease_shardID l) ''shardLease.shardID'',
      child_range_validate (lease_range l) ''shardLease.children'',
      check (lease_childStart l < range_start (br_children r) \<or>
             range_end (lease_range l) > range_end (br_children r))
        (contract_error ''shardLease child range is outside the run''),
      check (lease_attemptBudget l < 1) (contract_error ''shardLease.attemptBudget must be >= 1''),
      check (lease_attemptBudget l > maxAttemptsPerChild (br_retryPolicy r))
        (contract_error ''shardLease.attemptBudget exceeds run retry budget''),
      check (lease_hostClassID l \<noteq> hc_id (br_hostClass r))
        (contract_error ''shardLease.hostClassID does not match run host class''),
      validate_id (lease_agentID l) ''shardLease.agentID'']"

text \<open>\<open>FormatAttemptID\<close>\<close>

definition format_attempt_id :: "string \<Rightarrow> int \<Rightarrow> int \<Rightarrow> string" where
  "format_attempt_id runID childID attempt =
     runID @ ''-child-'' @ itoa childID @ ''-attempt-'' @ pad0 2 attempt"

definition attempt_error_validate :: "attempt_error \<Rightarrow> string \<Rightarrow> gerr option" where
  "attempt_error_validate e path =
     (if ae_code e = [] \<or> ae_message e = [] then
        Some (contract_error (path @ '' requires code and message''))
      else if ae_scope e = [] \<and> ae_retry e = [] \<and> \<not> ae_retryable e then None
      else first_err
        [check (ae_scope e = [] \<or> ae_retry e = [])
           (contract_error (path @ '' SporeVM classification requires scope and retry'')),
         check (ae_retry e \<noteq> ''after_fix'' \<and> ae_retry e \<noteq> ''transient'' \<and> ae_retry e \<noteq> ''unknown'')
           (contract_error (path @ ''.retry has unsupported value'')),
         check (ae_retryable e \<noteq> (ae_retry e = ''transient''))
           (contract_error (path @ ''.retryable does not match retry''))])"

definition validate_base64_preview :: "string \<Rightarrow> int \<Rightarrow> string \<Rightarrow> gerr option" where
  "validate_base64_preview value totalBytes path =
     (if value = [] then None
      else case b64_decode value of
        None \<Rightarrow> Some (contract_error (path @ '' must be base64''))
      | Some data \<Rightarrow>
          check (int (length data) > totalBytes)
            (contract_error (path @ '' must not exceed total output bytes'')))"

definition attempt_output_validate :: "attempt_output \<Rightarrow> string \<Rightarrow> gerr option" where
  "attempt_output_validate ao path = first_err
     [check (ao_stdoutBytes ao < 0) (contract_error (path @ ''.stdoutBytes must be >= 0'')),
      check (ao_stderrBytes ao < 0) (contract_error (path @ ''.stderrBytes must be >= 0'')),
      check (ao_stdoutPreviewBase64 ao = [] \<and> ao_stdoutTruncated ao)
        (contract_error (path @ ''.stdoutTruncated requires stdoutPreviewBase64'')),
      check (ao_stderrPreviewBase64 ao = [] \<and> ao_stderrTruncated ao)
        (contract_error (path @ ''.stderrTruncated requires stderrPreviewBase64'')),
      validate_base64_preview (ao_stdoutPreviewBase64 ao) (ao_stdoutBytes ao)
        (path @ ''.stdoutPreviewBase64''),
      validate_base64_preview (ao_stderrPreviewBase64 ao) (ao_stderrBytes ao)
        (path @ ''.stderrPreviewBase64'')]"

definition attempt_timings_validate :: "attempt_timings \<Rightarrow> string \<Rightarrow> gerr option" where
  "attempt_timings_validate t path = first_err
     [check (at_artifactPull t < 0) (contract_error (path @ ''.artifactPull must be >= 0'')),
      check (at_materialization t < 0) (contract_error (path @ ''.materialization must be >= 0'')),
      check (at_resume t < 0) (contract_error (path @ ''.resume must be >= 0'')),
      check (at_guestReady t < 0) (contract_error (path @ ''.guestReady must be >= 0'')),
      check (at_resultCommit t < 0) (contract_error (path @ ''.resultCommit must be >= 0'')),
      check (at_localChild t < 0) (contract_error (path @ ''.localChild must be >= 0''))]"

definition attempt_result_validate :: "attempt_result \<Rightarrow> bundle_run \<Rightarrow> gerr option" where
  "attempt_result_validate r run = first_err
     [bundle_run_validate run,
      check (ar_runID r \<noteq> br_runID run) (contract_error ''attemptResult.runID does not match run.runID''),
      check (ar_bundleDigest r \<noteq> bundle_digest (br_bundle run))
        (contract_error ''attemptResult.bundleDigest does not match run bundle digest''),
      check (ar_childID r < range_start (br_children run) \<or> ar_childID r \<ge> range_end (br_children run))
        (contract_error ''attemptResult.childID is outside the run''),
      validate_id (ar_attemptID r) ''attemptResult.attemptID'',
      validate_id (ar_agentID r) ''attemptResult.agentID'',
      validate_id (ar_shardID r) ''attemptResult.shardID'',
      check (\<not> valid_attempt_status (ar_status r))
        (contract_error ''attemptResult.status has unsupported value''),
      check (ar_startedAt r = 0) (contract_error ''attemptResult.startedAt must not be zero''),
      check (ar_finishedAt r = 0) (contract_error ''attemptResult.finishedAt must not be zero''),
      check (ar_finishedAt r < ar_startedAt r)
        (contract_error ''attemptResult.finishedAt must not be before startedAt''),
      attempt_timings_validate (ar_timingsMS r) ''attemptResult.timingsMs'',
      check (ar_terminal r \<and> ar_resultURI r = [])
        (contract_error ''attemptResult.resultURI must be set for terminal results''),
      (if ar_resultURI r \<noteq> [] then validate_s3_json_uri (ar_resultURI r) ''attemptResult.resultURI''
       else None),
      (case ar_output r of None \<Rightarrow> None | Some ao \<Rightarrow> attempt_output_validate ao ''attemptResult.output''),
      check ((ar_status r = AttemptSucceeded \<or> ar_status r = AttemptSkippedTerminalExists) \<and> \<not> ar_terminal r)
        (contract_error ''attemptResult.status requires terminal=true''),
      check ((ar_status r = AttemptFailed \<or> ar_status r = AttemptPlatformMismatch) \<and>
             (case ar_error r of None \<Rightarrow> True | Some e \<Rightarrow> ae_code e = [] \<or> ae_message e = []))
        (contract_error ''attemptResult.error requires code and message''),
      (case ar_error r of None \<Rightarrow> None | Some e \<Rightarrow> attempt_error_validate e ''attemptResult.error'')]"

section \<open>Decoding\<close>

text \<open>
  \<open>decodeOne\<close>: the JSON library's two \<open>Decode\<close> calls are the arguments: the first
  (with unknown fields disallowed) gives a document or an error text, the second says what
  follows it.
\<close>

datatype trailing = TrailingEOF | TrailingDoc | TrailingError string

definition decode_one :: "string + 'a \<Rightarrow> trailing \<Rightarrow> string \<Rightarrow> gerr + 'a" where
  "decode_one first extra name =
     (case first of
        Inl msg \<Rightarrow> Inl (contract_error (''decode '' @ name @ '': '' @ msg))
      | Inr out \<Rightarrow>
          (case extra of
             TrailingEOF \<Rightarrow> Inr out
           | TrailingDoc \<Rightarrow> Inl (contract_error (name @ '' must contain exactly one JSON document''))
           | TrailingError msg \<Rightarrow>
               Inl (contract_error (''decode trailing '' @ name @ '' data: '' @ msg))))"

definition decode_bundle_run :: "string + bundle_run \<Rightarrow> trailing \<Rightarrow> gerr + bundle_run" where
  "decode_bundle_run first extra =
     (case decode_one first extra ''bundle run'' of
        Inl e \<Rightarrow> Inl e
      | Inr r \<Rightarrow> (case bundle_run_validate r of Some e \<Rightarrow> Inl e | None \<Rightarrow> Inr r))"

definition decode_run :: "string + run \<Rightarrow> trailing \<Rightarrow> gerr + run" where
  "decode_run first extra =
     (case decode_one first extra ''run'' of
        Inl e \<Rightarrow> Inl e
      | Inr r \<Rightarrow> (case run_validate r of Some e \<Rightarrow> Inl e | None \<Rightarrow> Inr r))"

section \<open>What the validators accept\<close>

lemma validate_id_None [validate_iff]: "validate_id v path = None \<longleftrightarrow> id_pattern v"
  by (simp add: validate_id_def)

lemma validate_digest_None [validate_iff]: "validate_digest v path = None \<longleftrightarrow> digest_pattern v"
  by (simp add: validate_digest_def)

lemma s3_parts_bad_scheme: "s3_parts_bad (''s3://'' @ t) =
    (case cut (CHR ''/'') t of (_, None) \<Rightarrow> True | (p0, Some p1) \<Rightarrow> p0 = [] \<or> p1 = [])"
  unfolding s3_parts_bad_def trim_prefix_append ..

lemma s3_parts_bad_iff: "\<not> s3_parts_bad (''s3://'' @ t) \<longleftrightarrow>
    (\<exists>b k. t = b @ CHR ''/'' # k \<and> CHR ''/'' \<notin> set b \<and> b \<noteq> [] \<and> k \<noteq> [])"
proof (cases "cut (CHR ''/'') t")
  case (Pair p0 rest)
  show ?thesis
  proof (cases rest)
    case None
    with Pair have "CHR ''/'' \<notin> set t" by (metis cut_None_iff snd_conv)
    then show ?thesis unfolding s3_parts_bad_scheme using Pair None by auto
  next
    case (Some p1)
    with Pair have t: "t = p0 @ CHR ''/'' # p1" "CHR ''/'' \<notin> set p0" by (auto simp: cut_Some)
    have "b = p0 \<and> k = p1" if "t = b @ CHR ''/'' # k" "CHR ''/'' \<notin> set b" for b k
      using that cut_append [of "CHR ''/''" b k] Pair Some by simp
    then show ?thesis unfolding s3_parts_bad_scheme using Pair Some t by auto
  qed
qed

lemma validate_s3_prefix_None [validate_iff]:
  "validate_s3_prefix v path = None \<longleftrightarrow>
     (\<exists>b k. v = ''s3://'' @ b @ CHR ''/'' # k \<and> CHR ''/'' \<notin> set b \<and> b \<noteq> [] \<and> k \<noteq> [] \<and>
        has_suffix v ''/'')"
proof (cases "has_prefix v ''s3://''")
  case True
  then obtain t where "v = ''s3://'' @ t" by (auto simp: has_prefix_iff)
  then show ?thesis using s3_parts_bad_iff [of t]
    by (auto simp: validate_s3_prefix_def has_prefix_append simp del: append.simps)
next
  case False
  then show ?thesis by (auto simp: validate_s3_prefix_def has_prefix_iff)
qed

lemma validate_s3_json_uri_None [validate_iff]:
  "validate_s3_json_uri v path = None \<longleftrightarrow>
     (\<exists>b k. v = ''s3://'' @ b @ CHR ''/'' # k \<and> CHR ''/'' \<notin> set b \<and> b \<noteq> [] \<and> k \<noteq> [] \<and>
        has_suffix v ''.json'')"
proof (cases "has_prefix v ''s3://''")
  case True
  then obtain t where "v = ''s3://'' @ t" by (auto simp: has_prefix_iff)
  then show ?thesis using s3_parts_bad_iff [of t]
    by (auto simp: validate_s3_json_uri_def has_prefix_append simp del: append.simps)
next
  case False
  then show ?thesis by (auto simp: validate_s3_json_uri_def has_prefix_iff)
qed

lemma command_args_None: "command_args_validate i args path = None \<longleftrightarrow> [] \<notin> set args"
  by (induction args arbitrary: i) auto

lemma command_validate_None [validate_iff]:
  "command_validate c path = None \<longleftrightarrow> c \<noteq> [] \<and> [] \<notin> set c"
  by (simp add: command_validate_def command_args_None)

lemma prepare_validate_None [validate_iff]:
  "prepare_validate p path = None \<longleftrightarrow>
     prepare_command p \<noteq> [] \<and> [] \<notin> set (prepare_command p) \<and>
     (prepare_memory p = [] \<or> valid_memory_value (prepare_memory p)) \<and>
     (prepare_captureSignal p = [] \<and> prepare_readyMarker p = [] \<or>
      prepare_captureSignal p = ''USR1'' \<and> prepare_readyMarker p \<noteq> [])"
proof (cases "first_err
        [command_validate (prepare_command p) path,
         check (prepare_memory p \<noteq> [] \<and> \<not> valid_memory_value (prepare_memory p))
           (contract_error (path @ ''.memory must be a SporeVM memory value like 512mb or 2gb''))]")
  case None
  from None have "prepare_command p \<noteq> [] \<and> [] \<notin> set (prepare_command p) \<and>
     (prepare_memory p = [] \<or> valid_memory_value (prepare_memory p))"
    by (auto simp: command_validate_None)
  then show ?thesis unfolding prepare_validate_def None option.case by auto
next
  case (Some e)
  then have "first_err
        [command_validate (prepare_command p) path,
         check (prepare_memory p \<noteq> [] \<and> \<not> valid_memory_value (prepare_memory p))
           (contract_error (path @ ''.memory must be a SporeVM memory value like 512mb or 2gb''))] \<noteq> None"
    by simp
  then have "\<not> (prepare_command p \<noteq> [] \<and> [] \<notin> set (prepare_command p) \<and>
     (prepare_memory p = [] \<or> valid_memory_value (prepare_memory p)))"
    unfolding first_err_Cons_None first_err.simps check_None command_validate_None by blast
  then show ?thesis unfolding prepare_validate_def Some option.case by auto
qed

lemma child_range_validate_None [validate_iff]:
  "child_range_validate r path = None \<longleftrightarrow> 0 \<le> range_start r \<and> 1 \<le> range_count r"
  by (auto simp: child_range_validate_def)

lemma host_class_validate_None [validate_iff]:
  "host_class_validate h path = None \<longleftrightarrow>
     id_pattern (hc_id h) \<and> hc_platformVersion h = ''v0'' \<and> hc_architecture h = ''aarch64'' \<and>
     hc_backend h = ''kvm'' \<and> hc_cpuProfile h \<noteq> [] \<and> hc_deviceModel h \<noteq> []"
  by (auto simp: host_class_validate_def validate_iff)

lemma run_validate_None [validate_iff]:
  "run_validate r = None \<longleftrightarrow>
     id_pattern (run_runID r) \<and> source_image (run_source r) \<noteq> [] \<and>
     source_platform (run_source r) = ''linux/arm64'' \<and>
     prepare_validate (run_prepare r) ''prepare'' = None \<and> 1 \<le> fork_count (run_fork r) \<and>
     0 \<le> rc_start (run_children r) \<and> 1 \<le> rc_count (run_children r) \<and>
     range_end (run_children_range (run_children r)) \<le> fork_count (run_fork r) \<and>
     rc_command (run_children r) \<noteq> [] \<and> [] \<notin> set (rc_command (run_children r)) \<and>
     1 \<le> maxInFlightPerAgent (run_execution r) \<and> 1 \<le> maxAttemptsPerChild (run_retryPolicy r) \<and>
     \<not> rerunCommittedChildren (run_retryPolicy r) \<and> idempotencyRequired (run_sideEffects r) \<and>
     validate_s3_prefix (run_resultStore r) ''resultStore'' = None"
  unfolding run_validate_def
  by (simp add: validate_id_None child_range_validate_None command_validate_None not_less)

lemma bundle_run_validate_None [validate_iff]:
  "bundle_run_validate r = None \<longleftrightarrow>
     id_pattern (br_runID r) \<and> bundle_uri (br_bundle r) \<noteq> [] \<and>
     digest_pattern (bundle_digest (br_bundle r)) \<and>
     0 \<le> range_start (br_children r) \<and> 1 \<le> range_count (br_children r) \<and>
     [] \<notin> set (br_childCommand r) \<and> host_class_validate (br_hostClass r) ''hostClass'' = None \<and>
     1 \<le> maxInFlightPerAgent (br_execution r) \<and> 1 \<le> maxAttemptsPerChild (br_retryPolicy r) \<and>
     \<not> rerunCommittedChildren (br_retryPolicy r) \<and> idempotencyRequired (br_sideEffects r) \<and>
     validate_s3_prefix (br_resultStore r) ''resultStore'' = None"
  unfolding bundle_run_validate_def
  by (auto simp add: validate_id_None validate_digest_None child_range_validate_None
      command_validate_None not_less)

lemma pressure_validate_None [validate_iff]:
  "pressure_validate p path = None \<longleftrightarrow> valid_pressure (pressure_disk p) \<and> valid_pressure (pressure_memory p)"
  by (simp add: pressure_validate_def)

lemma agent_status_validate_None [validate_iff]:
  "agent_status_validate s = None \<longleftrightarrow>
     id_pattern (as_agentID s) \<and> id_pattern (as_cellID s) \<and> as_observedAt s \<noteq> 0 \<and>
     host_class_validate (as_hostClass s) ''hostClass'' = None \<and>
     1 \<le> slots_total (as_executionSlots s) \<and> 0 \<le> slots_available (as_executionSlots s) \<and>
     slots_available (as_executionSlots s) \<le> slots_total (as_executionSlots s) \<and>
     0 \<le> bundleCacheBytes (as_cache s) \<and> 0 \<le> rootFSCacheBytes (as_cache s) \<and>
     0 \<le> bundleCacheEntries (as_cache s) \<and> 0 \<le> rootFSCacheEntries (as_cache s) \<and>
     valid_pressure (pressure_disk (as_pressure s)) \<and> valid_pressure (pressure_memory (as_pressure s)) \<and>
     \<not> (as_healthy s \<and> pressure_is_critical (as_pressure s))"
  unfolding agent_status_validate_def
  by (simp add: validate_id_None pressure_validate_None not_less not_le)

lemma lease_validate_None [validate_iff]:
  "lease_validate l r = None \<longleftrightarrow>
     bundle_run_validate r = None \<and> lease_runID l = br_runID r \<and>
     lease_bundleDigest l = bundle_digest (br_bundle r) \<and> id_pattern (lease_shardID l) \<and>
     0 \<le> lease_childStart l \<and> 1 \<le> lease_childCount l \<and>
     range_start (br_children r) \<le> lease_childStart l \<and>
     range_end (lease_range l) \<le> range_end (br_children r) \<and>
     1 \<le> lease_attemptBudget l \<and> lease_attemptBudget l \<le> maxAttemptsPerChild (br_retryPolicy r) \<and>
     lease_hostClassID l = hc_id (br_hostClass r) \<and> id_pattern (lease_agentID l)"
  unfolding lease_validate_def
  by (auto simp add: validate_id_None child_range_validate_None not_less)

lemma attempt_error_validate_None [validate_iff]:
  "attempt_error_validate e path = None \<longleftrightarrow>
     ae_code e \<noteq> [] \<and> ae_message e \<noteq> [] \<and>
     (ae_scope e = [] \<and> ae_retry e = [] \<and> \<not> ae_retryable e \<or>
      ae_scope e \<noteq> [] \<and> ae_retry e \<in> {''after_fix'', ''transient'', ''unknown''} \<and>
      (ae_retryable e \<longleftrightarrow> ae_retry e = ''transient''))"
  by (auto simp: attempt_error_validate_def)

lemma validate_base64_preview_None [validate_iff]:
  "validate_base64_preview v n path = None \<longleftrightarrow>
     v = [] \<or> (\<exists>data. b64_decode v = Some data \<and> int (length data) \<le> n)"
  by (auto simp: validate_base64_preview_def split: option.split)

lemma attempt_output_validate_None [validate_iff]:
  "attempt_output_validate ao path = None \<longleftrightarrow>
     0 \<le> ao_stdoutBytes ao \<and> 0 \<le> ao_stderrBytes ao \<and>
     (ao_stdoutTruncated ao \<longrightarrow> ao_stdoutPreviewBase64 ao \<noteq> []) \<and>
     (ao_stderrTruncated ao \<longrightarrow> ao_stderrPreviewBase64 ao \<noteq> []) \<and>
     validate_base64_preview (ao_stdoutPreviewBase64 ao) (ao_stdoutBytes ao) [] = None \<and>
     validate_base64_preview (ao_stderrPreviewBase64 ao) (ao_stderrBytes ao) [] = None"
  by (auto simp: attempt_output_validate_def validate_base64_preview_None)

lemma attempt_timings_validate_None [validate_iff]:
  "attempt_timings_validate t path = None \<longleftrightarrow>
     0 \<le> at_artifactPull t \<and> 0 \<le> at_materialization t \<and> 0 \<le> at_resume t \<and>
     0 \<le> at_guestReady t \<and> 0 \<le> at_resultCommit t \<and> 0 \<le> at_localChild t"
  by (simp add: attempt_timings_validate_def not_less)

lemma attempt_result_validate_None [validate_iff]:
  "attempt_result_validate r run = None \<longleftrightarrow>
     bundle_run_validate run = None \<and> ar_runID r = br_runID run \<and>
     ar_bundleDigest r = bundle_digest (br_bundle run) \<and>
     range_start (br_children run) \<le> ar_childID r \<and> ar_childID r < range_end (br_children run) \<and>
     id_pattern (ar_attemptID r) \<and> id_pattern (ar_agentID r) \<and> id_pattern (ar_shardID r) \<and>
     valid_attempt_status (ar_status r) \<and> ar_startedAt r \<noteq> 0 \<and> ar_finishedAt r \<noteq> 0 \<and>
     ar_startedAt r \<le> ar_finishedAt r \<and>
     attempt_timings_validate (ar_timingsMS r) ''attemptResult.timingsMs'' = None \<and>
     (ar_terminal r \<longrightarrow> ar_resultURI r \<noteq> []) \<and>
     (ar_resultURI r \<noteq> [] \<longrightarrow> validate_s3_json_uri (ar_resultURI r) ''attemptResult.resultURI'' = None) \<and>
     (\<forall>ao. ar_output r = Some ao \<longrightarrow> attempt_output_validate ao ''attemptResult.output'' = None) \<and>
     (ar_status r \<in> {AttemptSucceeded, AttemptSkippedTerminalExists} \<longrightarrow> ar_terminal r) \<and>
     (ar_status r \<in> {AttemptFailed, AttemptPlatformMismatch} \<longrightarrow> ar_error r \<noteq> None) \<and>
     (\<forall>e. ar_error r = Some e \<longrightarrow> attempt_error_validate e ''attemptResult.error'' = None)"
  unfolding attempt_result_validate_def
  by (cases "ar_error r"; cases "ar_output r")
    (auto simp add: validate_id_None not_less not_le attempt_error_validate_None)

section \<open>Memory values\<close>

text \<open>What a memory value means, over unbounded numbers.\<close>

definition memory_units :: "(string \<times> nat) list" where
  "memory_units = [(''b'', 1), (''kb'', 2 ^ 10), (''kib'', 2 ^ 10), (''mb'', 2 ^ 20), (''mib'', 2 ^ 20),
     (''gb'', 2 ^ 30), (''gib'', 2 ^ 30)]"

lemma memory_pattern_Some:
  "memory_pattern s = Some (ds, u) \<longleftrightarrow>
     s = ds @ u \<and> ds \<noteq> [] \<and> list_all is_digit ds \<and> u \<in> fst ` set memory_units"
proof
  assume "memory_pattern s = Some (ds, u)"
  then show "s = ds @ u \<and> ds \<noteq> [] \<and> list_all is_digit ds \<and> u \<in> fst ` set memory_units"
    by (auto simp: memory_pattern_def Let_def list_all_iff memory_units_def dest: set_takeWhileD
        split: if_splits) (metis takeWhile_dropWhile_id)+
next
  assume s: "s = ds @ u \<and> ds \<noteq> [] \<and> list_all is_digit ds \<and> u \<in> fst ` set memory_units"
  then obtain c cs where u: "u = c # cs" "\<not> is_digit c"
    by (cases u) (auto simp: memory_units_def is_digit_def)
  have "takeWhile is_digit s = ds" "dropWhile is_digit s = u"
    using s u by (simp_all add: list_all_iff takeWhile_append dropWhile_append)
  moreover have "u \<in> {''b'', ''kb'', ''kib'', ''mb'', ''mib'', ''gb'', ''gib''}"
    using s unfolding memory_units_def by simp
  ultimately show "memory_pattern s = Some (ds, u)"
    using s unfolding memory_pattern_def Let_def by simp
qed

lemma unat_memory_multiplier:
  "(u, k) \<in> set memory_units \<Longrightarrow> unat (memory_multiplier u) = k \<and> 0 < k"
  by (auto simp: memory_units_def memory_multiplier_def)

lemma memory_units_functional:
  "(u, k) \<in> set memory_units \<Longrightarrow> (u, k') \<in> set memory_units \<Longrightarrow> k = k'"
  by (metis unat_memory_multiplier)

lemma gt_div_iff: "0 < k \<Longrightarrow> (m::nat) div k < n \<longleftrightarrow> m < n * k"
  by (rule div_less_iff_less_mult)

lemma word_amount_ok:
  fixes amount mult :: "64 word"
  assumes "0 < unat mult"
  shows "(\<not> amount > (- 1) div mult \<and> amount * mult mod 4096 = 0) \<longleftrightarrow>
    unat amount * unat mult < 2 ^ 64 \<and> unat amount * unat mult mod 4096 = 0"
proof -
  have "unat ((- 1 :: 64 word) div mult) = (2 ^ 64 - 1) div unat mult"
    by (simp add: unat_div_distrib unsigned_minus_1_eq_mask mask_eq_exp_minus_1)
  then have gt: "\<not> amount > (- 1) div mult \<longleftrightarrow> unat amount * unat mult < 2 ^ 64"
    using assms gt_div_iff [of "unat mult" "2 ^ 64 - 1" "unat amount"]
    by (auto simp: word_less_nat_alt)
  show ?thesis
  proof (cases "unat amount * unat mult < 2 ^ 64")
    case True
    then have "unat (amount * mult) = unat amount * unat mult"
      by (simp add: unat_word_ariths)
    then have "amount * mult mod 4096 = 0 \<longleftrightarrow> unat amount * unat mult mod 4096 = 0"
      using unat_mod_distrib [of "amount * mult" "4096 :: 64 word"] by (simp add: unat_eq_0 [symmetric])
    then show ?thesis using gt True by simp
  next
    case False
    then show ?thesis using gt by simp
  qed
qed

lemma valid_memory_value_units:
  assumes "memory_pattern s = Some (ds, u)" "(u, k) \<in> set memory_units"
  shows "valid_memory_value s \<longleftrightarrow>
    0 < atou_acc 0 ds \<and> atou_acc 0 ds * k < 2 ^ 64 \<and> atou_acc 0 ds * k mod 4096 = 0"
proof (cases "atou_acc 0 ds < 2 ^ 64")
  case True
  then have un: "unat (word_of_nat (atou_acc 0 ds) :: 64 word) = atou_acc 0 ds"
    by (simp add: unat_of_nat)
  have k: "unat (memory_multiplier u) = k" "0 < k"
    using unat_memory_multiplier assms(2) by auto
  show ?thesis
    unfolding valid_memory_value_def assms(1) option.case prod.case parse_uint64_def
    using True word_amount_ok [of "memory_multiplier u" "word_of_nat (atou_acc 0 ds)"] k un
    by (auto simp: Let_def unat_eq_0 [symmetric])
next
  case False
  moreover have "atou_acc 0 ds \<le> atou_acc 0 ds * k"
    using unat_memory_multiplier [OF assms(2)] by simp
  ultimately have "\<not> atou_acc 0 ds * k < 2 ^ 64" by (meson le_less_trans)
  then show ?thesis using False
    by (simp add: valid_memory_value_def assms(1) parse_uint64_def)
qed

text \<open>C14: \<open>validMemoryValue\<close> accepts exactly the strings of digits and a known unit whose
  value, computed with unbounded numbers, is positive, below 2^64 and a multiple of 4096:
  the 64-bit multiplication in the code never wraps.\<close>

theorem memory_value_exact:
  "valid_memory_value s \<longleftrightarrow>
     (\<exists>ds u k. s = ds @ u \<and> ds \<noteq> [] \<and> list_all is_digit ds \<and> (u, k) \<in> set memory_units \<and>
        0 < atou_acc 0 ds \<and> atou_acc 0 ds * k < 2 ^ 64 \<and> 4096 dvd atou_acc 0 ds * k)"
proof
  assume v: "valid_memory_value s"
  then obtain ds u where p: "memory_pattern s = Some (ds, u)"
    by (auto simp: valid_memory_value_def split: option.splits)
  moreover from p obtain k where "(u, k) \<in> set memory_units" by (auto simp: memory_pattern_Some)
  ultimately show "\<exists>ds u k. s = ds @ u \<and> ds \<noteq> [] \<and> list_all is_digit ds \<and> (u, k) \<in> set memory_units \<and>
        0 < atou_acc 0 ds \<and> atou_acc 0 ds * k < 2 ^ 64 \<and> 4096 dvd atou_acc 0 ds * k"
    using v valid_memory_value_units [OF p] by (auto simp: memory_pattern_Some)
next
  assume "\<exists>ds u k. s = ds @ u \<and> ds \<noteq> [] \<and> list_all is_digit ds \<and> (u, k) \<in> set memory_units \<and>
        0 < atou_acc 0 ds \<and> atou_acc 0 ds * k < 2 ^ 64 \<and> 4096 dvd atou_acc 0 ds * k"
  then obtain ds u k where s: "s = ds @ u" "ds \<noteq> []" "list_all is_digit ds" "(u, k) \<in> set memory_units"
    "0 < atou_acc 0 ds" "atou_acc 0 ds * k < 2 ^ 64" "4096 dvd atou_acc 0 ds * k" by blast
  then have "memory_pattern s = Some (ds, u)" by (force simp: memory_pattern_Some)
  from valid_memory_value_units [OF this s(4)] s(5-7) show "valid_memory_value s" by simp
qed

section \<open>Attempt identifiers\<close>

lemma id_head_digit: "is_digit c \<Longrightarrow> id_head c"
  by (simp add: is_digit_def id_head_def)

lemma id_tail_digits: "list_all is_digit s \<Longrightarrow> list_all id_tail s"
  by (auto simp: list_all_iff id_tail_def id_head_digit)

lemma pad0_digits: "0 \<le> i \<Longrightarrow> list_all is_digit (pad0 w i)"
  using utoa_digits [of "nat i"] by (auto simp: pad0_def list_all_iff is_digit_def)

lemma pad0_ne [simp]: "pad0 w i \<noteq> []"
  by (simp add: pad0_def)

lemma atou_zeros: "atou_acc 0 (replicate n (CHR ''0'') @ s) = atou_acc 0 s"
  by (induction n) (simp_all add: digit_val_def)

lemma atou_pad0: "0 \<le> i \<Longrightarrow> atou_acc 0 (pad0 w i) = nat i"
  by (simp add: pad0_def atou_zeros)

lemma itoa_digits: "0 \<le> i \<Longrightarrow> list_all is_digit (itoa i)"
  by (simp add: itoa_def utoa_digits)

lemma attempt_ids_inject:
  assumes "0 \<le> c" "0 \<le> a" "0 \<le> c'" "0 \<le> a'"
  shows "format_attempt_id r c a = format_attempt_id r c' a' \<longleftrightarrow> c = c' \<and> a = a'"
proof
  assume "format_attempt_id r c a = format_attempt_id r c' a'"
  then have eq: "itoa c @ CHR ''-'' # (''attempt-'' @ pad0 2 a) = itoa c' @ CHR ''-'' # (''attempt-'' @ pad0 2 a')"
    by (simp add: format_attempt_id_def)
  have nd: "CHR ''-'' \<notin> set (itoa i)" if "0 \<le> i" for i
    using itoa_digits [OF that] by (auto simp: list_all_iff is_digit_def)
  have "itoa c = itoa c' \<and> ''attempt-'' @ pad0 2 a = ''attempt-'' @ pad0 2 a'"
    using eq cut_append [OF nd [OF assms(1)], of "''attempt-'' @ pad0 2 a"]
      cut_append [OF nd [OF assms(3)], of "''attempt-'' @ pad0 2 a'"] by simp
  then have "c = c'" "nat a = nat a'"
    using atou_pad0 [OF assms(2), of 2] atou_pad0 [OF assms(4), of 2] by simp_all
  then show "c = c' \<and> a = a'" using assms by simp
qed simp

text \<open>\<open>FormatAttemptID\<close> gives different identifiers to different children and to
  different attempts of one child.\<close>

lemma format_attempt_id_inject:
  assumes "0 \<le> c" "0 \<le> a" "0 \<le> c'" "0 \<le> a'"
  shows "format_attempt_id r c a = format_attempt_id r c' a' \<longleftrightarrow> c = c' \<and> a = a'"
  using assms by (rule attempt_ids_inject)

lemma format_attempt_id_inject_witness:
  "format_attempt_id ''run'' 3 1 \<noteq> format_attempt_id ''run'' 3 2"
  using format_attempt_id_inject [of 3 1 3 2 "''run''"] by simp

lemma attempt_id_id_pattern:
  assumes "id_pattern r" "0 \<le> c" "0 \<le> a"
  shows "id_pattern (format_attempt_id r c a) \<longleftrightarrow> length (format_attempt_id r c a) \<le> 128"
proof -
  obtain h t where r: "r = h # t" "id_head h" "2 \<le> length t" "list_all id_tail t"
    using assms(1) by (auto simp: id_pattern_def split: list.splits)
  have "list_all id_tail (t @ ''-child-'' @ itoa c @ ''-attempt-'' @ pad0 2 a)"
    using r id_tail_digits [OF itoa_digits [OF assms(2)]] id_tail_digits [OF pad0_digits [OF assms(3)]]
    by (simp add: id_tail_def id_head_def)
  then show ?thesis using r
    by (auto simp: id_pattern_def format_attempt_id_def)
qed

section \<open>Compiling a run\<close>

lemma run_compile_exact:
  "run_compile r p = Inr b \<longleftrightarrow>
     run_validate r = None \<and> bundle_uri (pb_bundle p) \<noteq> [] \<and>
     digest_pattern (bundle_digest (pb_bundle p)) \<and>
     range_end (run_children_range (run_children r)) \<le> pb_childCount p \<and>
     host_class_validate (pb_hostClass p) ''prepared.hostClass'' = None \<and>
     b = \<lparr>br_runID = run_runID r, br_bundle = pb_bundle p,
          br_children = run_children_range (run_children r),
          br_childCommand = rc_command (run_children r),
          br_hostClass = pb_hostClass p, br_execution = run_execution r,
          br_retryPolicy = run_retryPolicy r, br_sideEffects = run_sideEffects r,
          br_resultStore = run_resultStore r\<rparr>" (is "?l \<longleftrightarrow> ?r")
proof
  assume ?l
  then show ?r unfolding run_compile_def
    by (auto simp add: Let_def validate_digest_None not_less split: option.splits)
next
  assume r: ?r
  then have "first_err
        [run_validate r,
         check (bundle_uri (pb_bundle p) = [])
           (contract_error ''prepared.bundle.uri must not be empty''),
         validate_digest (bundle_digest (pb_bundle p)) ''prepared.bundle.digest'',
         check (pb_childCount p < range_end (run_children_range (run_children r)))
           (contract_error ''prepared.childCount must cover children range''),
         host_class_validate (pb_hostClass p) ''prepared.hostClass''] = None"
    by (simp add: validate_digest_None)
  moreover have "bundle_run_validate b = None"
    using r by (simp add: bundle_run_validate_None run_validate_None host_class_validate_None)
  ultimately show ?l using r unfolding run_compile_def by simp
qed

text \<open>\<open>Run.Compile\<close> succeeds exactly when the run is valid and the prepared bundle
  has a URI, a digest, a host class and enough children, and the result is the run's fields
  with the prepared bundle: the second validation, of the compiled run, never rejects.\<close>

lemma run_compile_iff:
  "run_compile r p = Inr b \<longleftrightarrow>
     run_validate r = None \<and> bundle_uri (pb_bundle p) \<noteq> [] \<and>
     digest_pattern (bundle_digest (pb_bundle p)) \<and>
     range_end (run_children_range (run_children r)) \<le> pb_childCount p \<and>
     host_class_validate (pb_hostClass p) ''prepared.hostClass'' = None \<and>
     b = \<lparr>br_runID = run_runID r, br_bundle = pb_bundle p,
          br_children = run_children_range (run_children r),
          br_childCommand = rc_command (run_children r),
          br_hostClass = pb_hostClass p, br_execution = run_execution r,
          br_retryPolicy = run_retryPolicy r, br_sideEffects = run_sideEffects r,
          br_resultStore = run_resultStore r\<rparr>"
  by (rule run_compile_exact)


lemma run_validate_bounds: "run_validate r = None \<Longrightarrow> 0 \<le> rc_start (run_children r) \<and> 1 \<le> rc_count (run_children r)
   \<and> range_end (run_children_range (run_children r)) \<le> fork_count (run_fork r)"
  by (simp add: run_validate_None)

text \<open>The children range of a valid run lies inside \<open>fork.count\<close> exactly when
  \<open>children.start + children.count\<close> does not overflow a 64-bit integer: the check in
  \<open>Run.Validate\<close> computes \<open>End()\<close> with wrap-around.\<close>

lemma run_children_fit:
  assumes "run_validate r = None" "range_in64 (run_children_range (run_children r))"
    "in64 (fork_count (run_fork r))"
  shows "rc_start (run_children r) + rc_count (run_children r) \<le> fork_count (run_fork r) \<longleftrightarrow>
         rc_start (run_children r) + rc_count (run_children r) < 2 ^ 63"
proof -
  have v: "0 \<le> rc_start (run_children r)" "1 \<le> rc_count (run_children r)"
    "range_end (run_children_range (run_children r)) \<le> fork_count (run_fork r)"
    using run_validate_bounds [OF assms(1)] by auto
  show ?thesis
  proof
    assume "rc_start (run_children r) + rc_count (run_children r) < 2 ^ 63"
    then show "rc_start (run_children r) + rc_count (run_children r) \<le> fork_count (run_fork r)"
      using v range_end_exact [of "run_children_range (run_children r)"] by simp
  next
    assume "rc_start (run_children r) + rc_count (run_children r) \<le> fork_count (run_fork r)"
    then show "rc_start (run_children r) + rc_count (run_children r) < 2 ^ 63"
      using assms(3) unfolding in64_def by linarith
  qed
qed

text \<open>A run whose children range lies far outside its fork count.\<close>

definition overflow_run :: run where
  "overflow_run = \<lparr>run_runID = ''run-1'',
     run_source = \<lparr>source_image = ''img'', source_platform = ''linux/arm64''\<rparr>,
     run_prepare = \<lparr>prepare_command = [''true''], prepare_captureSignal = [], prepare_readyMarker = [],
        prepare_memory = []\<rparr>,
     run_fork = \<lparr>fork_count = 1\<rparr>,
     run_children = \<lparr>rc_start = 2 ^ 62, rc_count = 2 ^ 62, rc_command = [''true'']\<rparr>,
     run_execution = \<lparr>maxInFlightPerAgent = 1\<rparr>,
     run_retryPolicy = \<lparr>maxAttemptsPerChild = 1, rerunCommittedChildren = False\<rparr>,
     run_sideEffects = \<lparr>idempotencyRequired = True\<rparr>, run_resultStore = ''s3://b/p/''\<rparr>"

definition sample_run :: run where
  "sample_run = overflow_run\<lparr>run_fork := \<lparr>fork_count = 4\<rparr>,
     run_children := \<lparr>rc_start = 1, rc_count = 3, rc_command = [''true'']\<rparr>\<rparr>"

lemma sample_store_valid: "validate_s3_prefix ''s3://b/p/'' ''resultStore'' = None"
  by code_simp

lemma sample_id_valid: "id_pattern ''run-1''"
  by code_simp

lemma sample_run_valid: "run_validate sample_run = None"
  by (simp add: run_validate_None prepare_validate_None sample_run_def overflow_run_def
      sample_store_valid sample_id_valid range_end_def in64_def)

lemma run_children_fit_witness:
  "rc_start (run_children sample_run) + rc_count (run_children sample_run) \<le> fork_count (run_fork sample_run)"
  by (rule run_children_fit [THEN iffD2, OF sample_run_valid])
    (simp_all add: sample_run_def overflow_run_def range_in64_def in64_def)

theorem run_validate_accepts_overflow:
  "run_validate overflow_run = None \<and> fork_count (run_fork overflow_run) < rc_start (run_children overflow_run)"
  by (simp add: run_validate_None prepare_validate_None overflow_run_def
      sample_store_valid sample_id_valid range_end_def wrap64_def)

text \<open>An attempt identifier built from a valid run identifier passes the identifier
  check of \<open>AttemptResult.Validate\<close> exactly when it has at most 128 characters; a long run
  identifier passes \<open>Run.Validate\<close> and gives attempt identifiers that do not.\<close>

lemma attempt_id_valid_iff:
  assumes "validate_id r ''runID'' = None" "0 \<le> c" "0 \<le> a"
  shows "validate_id (format_attempt_id r c a) ''attemptResult.attemptID'' = None \<longleftrightarrow>
    length r + length (itoa c) + length (pad0 2 a) \<le> 112"
proof -
  have "length (format_attempt_id r c a) = length r + length (itoa c) + length (pad0 2 a) + 16"
    by (simp add: format_attempt_id_def)
  then show ?thesis using attempt_id_id_pattern [of r c a] assms by (auto simp: validate_id_None)
qed

lemma attempt_id_valid_iff_witness:
  "validate_id (replicate 112 (CHR ''r'')) ''runID'' = None \<and>
   validate_id (format_attempt_id (replicate 112 (CHR ''r'')) 0 1) ''attemptResult.attemptID'' \<noteq> None"
proof -
  have v: "validate_id (replicate 112 (CHR ''r'')) ''runID'' = None" by code_simp
  have "length (itoa 0) = 1" by code_simp
  then show ?thesis using v attempt_id_valid_iff [OF v, of 0 1] by simp
qed

end
