(* ===== verification/Samples.thy ===== *)
theory Samples
  imports FleetValidate
begin

text \<open>
  Concrete documents that the validators accept, at which the witnesses of the other
  theories apply their theorems.
\<close>

definition sample_digest :: string where
  "sample_digest = ''sha256:'' @ replicate 64 (CHR ''a'')"

definition sample_host :: host_class where
  "sample_host = \<lparr>hc_id = ''host-a'', hc_platformVersion = ''v0'', hc_architecture = ''aarch64'',
     hc_backend = ''kvm'', hc_cpuProfile = ''cpu'', hc_deviceModel = ''dev''\<rparr>"

definition sample_bundle_run :: bundle_run where
  "sample_bundle_run = \<lparr>br_runID = ''run-1'',
     br_bundle = \<lparr>bundle_uri = ''file:///b'', bundle_digest = sample_digest\<rparr>,
     br_children = \<lparr>range_start = 0, range_count = 2\<rparr>, br_childCommand = [],
     br_hostClass = sample_host, br_execution = \<lparr>maxInFlightPerAgent = 2\<rparr>,
     br_retryPolicy = \<lparr>maxAttemptsPerChild = 2, rerunCommittedChildren = False\<rparr>,
     br_sideEffects = \<lparr>idempotencyRequired = True\<rparr>, br_resultStore = ''s3://b/p/''\<rparr>"

definition sample_agent :: agent_status where
  "sample_agent = \<lparr>as_agentID = ''agent-1'', as_cellID = ''cell-1'', as_observedAt = 1,
     as_hostClass = sample_host, as_executionSlots = \<lparr>slots_total = 2, slots_available = 2\<rparr>,
     as_cache = \<lparr>bundleCacheBytes = 0, rootFSCacheBytes = 0, bundleCacheEntries = 0,
       rootFSCacheEntries = 0\<rparr>,
     as_pressure = \<lparr>pressure_disk = ''normal'', pressure_memory = ''normal''\<rparr>, as_healthy = True\<rparr>"

lemma sample_digest_valid [simp]: "digest_pattern sample_digest"
proof -
  have "trim_prefix sample_digest ''sha256:'' = replicate 64 (CHR ''a'')"
    unfolding sample_digest_def by (rule trim_prefix_append)
  moreover have "has_prefix sample_digest ''sha256:''"
    unfolding sample_digest_def by (rule has_prefix_append)
  ultimately show ?thesis
    by (simp add: digest_pattern_def is_lower_hex_def list_all_iff)
qed

lemma sample_ids_valid [simp]:
  "id_pattern ''host-a''" "id_pattern ''run-1''" "id_pattern ''agent-1''" "id_pattern ''cell-1''"
  "id_pattern ''run-1-shard-0000''" "id_pattern ''agent-2''"
  by code_simp+

lemma sample_host_valid [simp]: "host_class_validate sample_host path = None"
  by (simp add: host_class_validate_None sample_host_def)

lemma sample_bundle_run_valid [simp]: "bundle_run_validate sample_bundle_run = None"
  by (simp add: bundle_run_validate_None sample_bundle_run_def sample_store_valid)

lemma sample_agent_valid [simp]: "agent_status_validate sample_agent = None"
  by (simp add: agent_status_validate_None sample_agent_def valid_pressure_def pressure_is_critical_def
      pressure_level_defs)

end
