(* ===== verification/FleetPlan.thy ===== *)
theory FleetPlan
  imports Samples
begin

text \<open>
  \<open>internal/fleet/coordinator.go\<close>: choosing the one agent that runs a whole bundle run.
  \<open>sort.Slice\<close> by \<open>AgentID\<close> is \<open>sort_key as_agentID\<close> (byte-wise lexicographic order on
  strings, as in Go); Go leaves the order of agents with equal identifiers open, the model
  keeps their input order. A function that returns a value beside an error returns the
  pair of both.
\<close>

section \<open>Definitions\<close>

record candidate_agent =
  cand_status :: agent_status
  cand_remaining :: int

definition required_in_flight_slots :: "int \<Rightarrow> execution \<Rightarrow> int" where
  "required_in_flight_slots childCount execution = min childCount (maxInFlightPerAgent execution)"

definition shard_slot_demand :: "bundle_run \<Rightarrow> shard_lease \<Rightarrow> int" where
  "shard_slot_demand run lease = required_in_flight_slots (lease_childCount lease) (br_execution run)"

text \<open>The loop of \<open>candidateAgents\<close> over the sorted agents.\<close>

fun candidate_loop :: "bundle_run \<Rightarrow> agent_status list \<Rightarrow> candidate_agent list \<Rightarrow> plan_summary
    \<Rightarrow> (gerr + candidate_agent list) \<times> plan_summary" where
  "candidate_loop run [] cands summary = (Inr cands, summary)"
| "candidate_loop run (agent # agents) cands summary =
     (case agent_status_validate agent of
        Some e \<Rightarrow> (Inl e, summary)
      | None \<Rightarrow>
          let s1 = (if as_healthy agent then summary\<lparr>ps_healthyAgents := ps_healthyAgents summary + 1\<rparr>
                    else summary)
          in if \<not> as_healthy agent \<or> pressure_is_critical (as_pressure agent)
                \<or> \<not> host_class_equal (as_hostClass agent) (br_hostClass run)
             then candidate_loop run agents cands s1
             else
               let available = min (slots_available (as_executionSlots agent))
                                   (maxInFlightPerAgent (br_execution run));
                   s2 = s1\<lparr>ps_compatibleAgents := ps_compatibleAgents s1 + 1,
                           ps_availableChildSlots := wrap64 (ps_availableChildSlots s1 + available)\<rparr>;
                   cands' = (if available > 0
                             then cands @ [\<lparr>cand_status = agent, cand_remaining = available\<rparr>] else cands)
               in candidate_loop run agents cands' s2)"

definition candidate_agents :: "bundle_run \<Rightarrow> agent_status list
    \<Rightarrow> (gerr + candidate_agent list) \<times> plan_summary" where
  "candidate_agents run agents =
     (let summary = zero_plan_summary\<lparr>ps_agentCount := int (length agents)\<rparr> in
      case candidate_loop run (sort_key as_agentID agents) [] summary of
        (Inl e, s) \<Rightarrow> (Inl e, s)
      | (Inr cands, s) \<Rightarrow>
          if ps_compatibleAgents s = 0 then (Inl (Sentinel ErrNoCompatibleAgents), s)
          else (Inr cands, s))"

text \<open>\<open>firstCandidateWithCapacity\<close>: \<open>None\<close> is the index \<open>-1\<close>.\<close>

fun first_candidate_with_capacity :: "candidate_agent list \<Rightarrow> int \<Rightarrow> nat option" where
  "first_candidate_with_capacity [] required = None"
| "first_candidate_with_capacity (c # cs) required =
     (if cand_remaining c \<ge> required then Some 0
      else map_option Suc (first_candidate_with_capacity cs required))"

definition best_candidate_capacity :: "candidate_agent list \<Rightarrow> int" where
  "best_candidate_capacity cands =
     foldl (\<lambda>best c. if cand_remaining c > best then cand_remaining c else best) 0 cands"

definition shard_id :: "string \<Rightarrow> string" where
  "shard_id runID = runID @ ''-shard-'' @ pad0 4 0"

definition plan_lease_for :: "bundle_run \<Rightarrow> agent_status \<Rightarrow> shard_lease" where
  "plan_lease_for run agent =
     \<lparr>lease_runID = br_runID run, lease_bundleDigest = bundle_digest (br_bundle run),
      lease_shardID = shard_id (br_runID run),
      lease_childStart = range_start (br_children run),
      lease_childCount = range_count (br_children run),
      lease_attemptBudget = maxAttemptsPerChild (br_retryPolicy run),
      lease_hostClassID = hc_id (br_hostClass run), lease_agentID = as_agentID agent\<rparr>"

definition build_single_agent_sequential_plan ::
    "bundle_run \<Rightarrow> agent_status list \<Rightarrow> plan \<times> gerr option" where
  "build_single_agent_sequential_plan run agents =
     (case bundle_run_validate run of
        Some e \<Rightarrow> (zero_plan, Some e)
      | None \<Rightarrow>
          (case candidate_agents run agents of (cands, s) \<Rightarrow>
           let summary = s\<lparr>ps_runID := br_runID run, ps_state := ''refused'',
                           ps_childCount := range_count (br_children run), ps_shardCount := 1\<rparr>
           in case cands of
                Inl e \<Rightarrow> (zero_plan\<lparr>plan_summary := summary\<rparr>, Some e)
              | Inr candidates \<Rightarrow>
                  let required = required_in_flight_slots (range_count (br_children run)) (br_execution run)
                  in case first_candidate_with_capacity candidates required of
                       None \<Rightarrow> (zero_plan\<lparr>plan_summary := summary\<rparr>,
                         Some (errorf ErrInsufficientCapacity
                           (''need '' @ itoa required @ '' compatible in-flight child slots on one agent, have ''
                            @ itoa (best_candidate_capacity candidates))))
                     | Some i \<Rightarrow>
                         (\<lparr>plan_summary = summary\<lparr>ps_assignedShards := 1,
                             ps_assignedChildren := range_count (br_children run),
                             ps_state := ''planned''\<rparr>,
                           plan_lease = plan_lease_for run (cand_status (candidates ! i))\<rparr>, None)))"

section \<open>What the plan guarantees\<close>

text \<open>An agent the run may use, and one that has the slots for it.\<close>

definition compatible_agent :: "bundle_run \<Rightarrow> agent_status \<Rightarrow> bool" where
  "compatible_agent run a \<longleftrightarrow>
     as_healthy a \<and> \<not> pressure_is_critical (as_pressure a) \<and> as_hostClass a = br_hostClass run"

definition agent_room :: "bundle_run \<Rightarrow> agent_status \<Rightarrow> int" where
  "agent_room run a = min (slots_available (as_executionSlots a)) (maxInFlightPerAgent (br_execution run))"

definition eligible_agent :: "bundle_run \<Rightarrow> agent_status \<Rightarrow> bool" where
  "eligible_agent run a \<longleftrightarrow> compatible_agent run a \<and>
     required_in_flight_slots (range_count (br_children run)) (br_execution run) \<le> agent_room run a"

definition candidate_of :: "bundle_run \<Rightarrow> agent_status \<Rightarrow> candidate_agent" where
  "candidate_of run a = \<lparr>cand_status = a, cand_remaining = agent_room run a\<rparr>"

lemma candidate_of_simps [simp]:
  "cand_status (candidate_of run a) = a" "cand_remaining (candidate_of run a) = agent_room run a"
  by (simp_all add: candidate_of_def)

lemma candidate_loop_Inr:
  "fst (candidate_loop run agents cands s) = Inr cs \<longleftrightarrow>
     (\<forall>a \<in> set agents. agent_status_validate a = None) \<and>
     cs = cands @ map (candidate_of run) (filter (\<lambda>a. compatible_agent run a \<and> 0 < agent_room run a) agents)"
  by (induction agents arbitrary: cands s)
    (auto simp: Let_def compatible_agent_def agent_room_def candidate_of_def host_class_equal_def
      split: option.splits)

lemma candidate_loop_Inl:
  "fst (candidate_loop run agents cands s) = Inl e \<Longrightarrow> \<exists>a \<in> set agents. agent_status_validate a = Some e"
  by (induction agents arbitrary: cands s) (auto simp: Let_def split: option.splits if_splits)

lemma candidate_loop_compatible:
  "\<forall>a \<in> set agents. agent_status_validate a = None \<Longrightarrow>
   ps_compatibleAgents (snd (candidate_loop run agents cands s)) =
     ps_compatibleAgents s + int (length (filter (compatible_agent run) agents))"
  by (induction agents arbitrary: cands s)
    (auto simp: Let_def compatible_agent_def host_class_equal_def)

lemma first_candidate_map:
  "first_candidate_with_capacity (map (candidate_of run) as) n = Some i \<Longrightarrow>
     i < length as \<and> find (\<lambda>a. n \<le> agent_room run a) as = Some (as ! i)"
  by (induction as arbitrary: i) (auto split: if_splits)

lemma first_candidate_map_None:
  "first_candidate_with_capacity (map (candidate_of run) as) n = None \<longleftrightarrow>
     find (\<lambda>a. n \<le> agent_room run a) as = None"
  by (induction as) auto

lemma find_filter:
  "find P (filter Q xs) = find (\<lambda>x. Q x \<and> P x) xs"
  by (induction xs) auto

lemma required_pos: "bundle_run_validate run = None \<Longrightarrow>
    1 \<le> required_in_flight_slots (range_count (br_children run)) (br_execution run)"
  by (simp add: bundle_run_validate_None required_in_flight_slots_def)

definition chosen_agent :: "bundle_run \<Rightarrow> agent_status list \<Rightarrow> agent_status option" where
  "chosen_agent run agents = find (eligible_agent run) (sort_key as_agentID agents)"

lemma find_eligible:
  assumes "bundle_run_validate run = None"
  shows "find (\<lambda>a. required_in_flight_slots (range_count (br_children run)) (br_execution run) \<le> agent_room run a)
           (filter (\<lambda>a. compatible_agent run a \<and> 0 < agent_room run a) xs) = find (eligible_agent run) xs"
proof -
  have "(\<lambda>a. (compatible_agent run a \<and> 0 < agent_room run a) \<and>
          required_in_flight_slots (range_count (br_children run)) (br_execution run) \<le> agent_room run a)
        = eligible_agent run"
    using required_pos [OF assms] by (auto simp: eligible_agent_def fun_eq_iff)
  then show ?thesis by (simp only: find_filter)
qed

text \<open>The candidates, when every agent is valid.\<close>

lemma candidate_agents_valid:
  assumes "\<forall>a \<in> set agents. agent_status_validate a = None"
  shows "fst (candidate_agents run agents) =
    (if \<exists>a \<in> set agents. compatible_agent run a
     then Inr (map (candidate_of run) (filter (\<lambda>a. compatible_agent run a \<and> 0 < agent_room run a)
       (sort_key as_agentID agents)))
     else Inl (Sentinel ErrNoCompatibleAgents))"
proof -
  let ?s = "zero_plan_summary\<lparr>ps_agentCount := int (length agents)\<rparr>"
  let ?sorted = "sort_key as_agentID agents"
  have "fst (candidate_loop run ?sorted [] ?s) = Inr (map (candidate_of run)
      (filter (\<lambda>a. compatible_agent run a \<and> 0 < agent_room run a) ?sorted))"
    using assms by (simp add: candidate_loop_Inr)
  moreover have "ps_compatibleAgents (snd (candidate_loop run ?sorted [] ?s)) = 0 \<longleftrightarrow>
      \<not> (\<exists>a \<in> set agents. compatible_agent run a)"
    using assms by (simp add: candidate_loop_compatible zero_plan_summary_def filter_empty_conv)
  ultimately show ?thesis
    by (cases "candidate_loop run ?sorted [] ?s") (auto simp: candidate_agents_def)
qed

lemma plan_of_chosen:
  assumes "bundle_run_validate run = None" "\<forall>a \<in> set agents. agent_status_validate a = None"
    "chosen_agent run agents = Some a"
  shows "snd (build_single_agent_sequential_plan run agents) = None"
    "plan_lease (fst (build_single_agent_sequential_plan run agents)) = plan_lease_for run a"
proof -
  let ?n = "required_in_flight_slots (range_count (br_children run)) (br_execution run)"
  let ?xs = "filter (\<lambda>a. compatible_agent run a \<and> 0 < agent_room run a) (sort_key as_agentID agents)"
  have f: "find (\<lambda>a. ?n \<le> agent_room run a) ?xs = Some a"
    using find_eligible [OF assms(1)] assms(3) by (simp add: chosen_agent_def)
  then obtain i where i: "first_candidate_with_capacity (map (candidate_of run) ?xs) ?n = Some i"
    using first_candidate_map_None [of run ?xs ?n] by (metis not_Some_eq option.distinct(1))
  have a: "i < length ?xs" "a = ?xs ! i" using first_candidate_map [OF i] f by auto
  then have "a \<in> set ?xs" by (metis nth_mem)
  then have "\<exists>a \<in> set agents. compatible_agent run a" by auto
  then have "fst (candidate_agents run agents) = Inr (map (candidate_of run) ?xs)"
    using candidate_agents_valid [OF assms(2)] by simp
  then obtain s where c: "candidate_agents run agents = (Inr (map (candidate_of run) ?xs), s)"
    by (cases "candidate_agents run agents") auto
  show "snd (build_single_agent_sequential_plan run agents) = None"
    "plan_lease (fst (build_single_agent_sequential_plan run agents)) = plan_lease_for run a"
    unfolding build_single_agent_sequential_plan_def assms(1) c
    using i a by (simp_all add: Let_def)
qed

lemma plan_of_none:
  assumes "bundle_run_validate run = None" "\<forall>a \<in> set agents. agent_status_validate a = None"
    "chosen_agent run agents = None"
  shows "\<exists>e. snd (build_single_agent_sequential_plan run agents) = Some e \<and>
    (if \<exists>a \<in> set agents. compatible_agent run a then errors_is ErrInsufficientCapacity e
     else e = Sentinel ErrNoCompatibleAgents)"
proof -
  let ?n = "required_in_flight_slots (range_count (br_children run)) (br_execution run)"
  let ?xs = "filter (\<lambda>a. compatible_agent run a \<and> 0 < agent_room run a) (sort_key as_agentID agents)"
  have "find (\<lambda>a. ?n \<le> agent_room run a) ?xs = None"
    using find_eligible [OF assms(1)] assms(3) by (simp add: chosen_agent_def)
  then have i: "first_candidate_with_capacity (map (candidate_of run) ?xs) ?n = None"
    by (simp only: first_candidate_map_None)
  show ?thesis
    using candidate_agents_valid [OF assms(2), of run] i
    unfolding build_single_agent_sequential_plan_def assms(1)
    by (cases "candidate_agents run agents") (auto simp: Let_def split: if_splits)
qed

lemma plan_invalid_agent:
  assumes "snd (build_single_agent_sequential_plan run agents) = None"
  shows "bundle_run_validate run = None" "\<forall>a \<in> set agents. agent_status_validate a = None"
proof -
  show v: "bundle_run_validate run = None"
    using assms by (auto simp: build_single_agent_sequential_plan_def split: option.splits)
  obtain cs s where c: "candidate_agents run agents = (Inr cs, s)"
    using assms v by (cases "candidate_agents run agents"; cases "fst (candidate_agents run agents)")
      (auto simp: build_single_agent_sequential_plan_def Let_def)
  then have "\<exists>cs. fst (candidate_loop run (sort_key as_agentID agents) []
      (zero_plan_summary\<lparr>ps_agentCount := int (length agents)\<rparr>)) = Inr cs"
    by (auto simp: candidate_agents_def split: prod.splits sum.splits if_splits)
  then show "\<forall>a \<in> set agents. agent_status_validate a = None" by (auto simp: candidate_loop_Inr)
qed

lemma chosen_agent_Some:
  assumes "chosen_agent run agents = Some a"
  shows "a \<in> set agents" "eligible_agent run a"
    "b \<in> set agents \<Longrightarrow> eligible_agent run b \<Longrightarrow> as_agentID a \<le> as_agentID b"
proof -
  let ?xs = "sort_key as_agentID agents"
  obtain i where i: "i < length ?xs" "eligible_agent run (?xs ! i)" "a = ?xs ! i"
      "\<forall>j < i. \<not> eligible_agent run (?xs ! j)"
    using assms unfolding chosen_agent_def find_Some_iff by auto
  show "a \<in> set agents" using i by (metis nth_mem set_sort)
  show "eligible_agent run a" using i by simp
  assume b: "b \<in> set agents" "eligible_agent run b"
  then obtain j where j: "j < length ?xs" "b = ?xs ! j" by (metis in_set_conv_nth set_sort)
  then have "i \<le> j" using i(4) b(2) by (metis not_le)
  then show "as_agentID a \<le> as_agentID b"
    using sorted_nth_mono [of "map as_agentID ?xs" i j] i j by simp
qed

lemma chosen_agent_None: "chosen_agent run agents = None \<longleftrightarrow> \<not> (\<exists>a \<in> set agents. eligible_agent run a)"
  by (auto simp: chosen_agent_def find_None_iff)

text \<open>The agent behind a plan.\<close>

lemma plan_agent:
  assumes "build_single_agent_sequential_plan run agents = (p, None)"
  obtains a where "chosen_agent run agents = Some a" "plan_lease p = plan_lease_for run a"
    "bundle_run_validate run = None" "\<forall>a \<in> set agents. agent_status_validate a = None"
proof -
  have v: "bundle_run_validate run = None" "\<forall>a \<in> set agents. agent_status_validate a = None"
    using plan_invalid_agent [of run agents] assms by auto
  obtain a where a: "chosen_agent run agents = Some a"
    using plan_of_none [OF v] assms by (cases "chosen_agent run agents") auto
  with plan_of_chosen [OF v a] assms v show ?thesis by (intro that) auto
qed

section \<open>Properties\<close>

text \<open>C13: a plan without an error leases the whole run, with its retry budget and host
  class, to an agent of the inventory that is healthy, free of critical pressure, of the
  run's host class and has the slots the run needs at once; no eligible agent has a smaller
  identifier.\<close>

theorem plan_sound:
  assumes "build_single_agent_sequential_plan run agents = (p, None)"
  shows "\<exists>a \<in> set agents. agent_status_validate a = None \<and> as_healthy a \<and>
    \<not> pressure_is_critical (as_pressure a) \<and> as_hostClass a = br_hostClass run \<and>
    shard_slot_demand run (plan_lease p) \<le> slots_available (as_executionSlots a) \<and>
    shard_slot_demand run (plan_lease p) \<le> maxInFlightPerAgent (br_execution run) \<and>
    lease_range (plan_lease p) = br_children run \<and> plan_lease p = plan_lease_for run a \<and>
    (\<forall>b. b \<in> set agents \<and> eligible_agent run b \<longrightarrow> as_agentID a \<le> as_agentID b)"
proof -
  obtain a where a: "chosen_agent run agents = Some a" and v: "bundle_run_validate run = None"
      "\<forall>a \<in> set agents. agent_status_validate a = None"
    and "plan_lease p = plan_lease_for run a"
    using plan_agent [OF assms] by metis
  note \<open>plan_lease p = plan_lease_for run a\<close>
  moreover have "eligible_agent run a" "a \<in> set agents" using chosen_agent_Some [OF a] by auto
  ultimately show ?thesis using chosen_agent_Some(3) [OF a] v
    by (intro bexI [of _ a])
      (auto simp: eligible_agent_def compatible_agent_def agent_room_def plan_lease_for_def
        shard_slot_demand_def lease_range_def required_in_flight_slots_def)
qed

lemma sample_agent_eligible: "eligible_agent sample_bundle_run sample_agent"
  by (simp add: eligible_agent_def compatible_agent_def agent_room_def required_in_flight_slots_def
      sample_bundle_run_def sample_agent_def pressure_is_critical_def pressure_level_defs)

lemma sample_plan: "snd (build_single_agent_sequential_plan sample_bundle_run [sample_agent]) = None"
  by (rule plan_of_chosen(1) [where a = sample_agent])
    (simp_all add: chosen_agent_def sample_agent_eligible)

theorem plan_sound_witness:
  "shard_slot_demand sample_bundle_run
     (plan_lease (fst (build_single_agent_sequential_plan sample_bundle_run [sample_agent]))) \<le> 2"
  using plan_sound [of sample_bundle_run "[sample_agent]"] sample_plan
  by (cases "build_single_agent_sequential_plan sample_bundle_run [sample_agent]")
    (auto simp: sample_agent_def)

text \<open>For a valid run and valid agents planning succeeds exactly when some agent is
  eligible; otherwise the error is \<open>ErrNoCompatibleAgents\<close> when no agent is compatible and
  \<open>ErrInsufficientCapacity\<close> when one is but has too few slots.\<close>

lemma plan_complete:
  assumes "bundle_run_validate run = None" "\<forall>a \<in> set agents. agent_status_validate a = None"
  shows "case snd (build_single_agent_sequential_plan run agents) of
      None \<Rightarrow> \<exists>a \<in> set agents. eligible_agent run a
    | Some e \<Rightarrow> \<not> (\<exists>a \<in> set agents. eligible_agent run a) \<and>
        errors_is (if \<exists>a \<in> set agents. compatible_agent run a then ErrInsufficientCapacity
                   else ErrNoCompatibleAgents) e"
proof (cases "chosen_agent run agents")
  case None
  then show ?thesis using plan_of_none [OF assms None] by (auto simp: chosen_agent_None split: if_splits)
next
  case (Some a)
  then show ?thesis using plan_of_chosen(1) [OF assms Some] chosen_agent_Some [OF Some] by auto
qed

lemma plan_complete_witness:
  "snd (build_single_agent_sequential_plan sample_bundle_run []) = Some (Sentinel ErrNoCompatibleAgents) \<and>
   (case snd (build_single_agent_sequential_plan sample_bundle_run []) of
      None \<Rightarrow> False | Some e \<Rightarrow> errors_is ErrNoCompatibleAgents e)"
  using plan_complete [of sample_bundle_run "[]"] plan_of_none [of sample_bundle_run "[]"]
  by (auto simp: chosen_agent_def split: option.splits)

text \<open>The plan does not depend on the order of the inventory when agent identifiers
  are distinct.\<close>

lemma plan_order_independent:
  assumes "mset agents = mset agents'" "distinct (map as_agentID agents)"
  shows "build_single_agent_sequential_plan run agents = build_single_agent_sequential_plan run agents'"
proof -
  have "sort_key as_agentID agents = sort_key as_agentID agents'"
    using assms by (intro sort_key_inj_key_eq) (auto simp: distinct_map)
  moreover have "length agents = length agents'" using assms(1) by (rule mset_eq_length)
  ultimately have c: "candidate_agents run agents = candidate_agents run agents'"
    by (simp add: candidate_agents_def)
  show ?thesis unfolding build_single_agent_sequential_plan_def c ..
qed

lemma plan_order_independent_witness:
  "build_single_agent_sequential_plan sample_bundle_run [sample_agent, sample_agent\<lparr>as_agentID := ''agent-0''\<rparr>]
   = build_single_agent_sequential_plan sample_bundle_run [sample_agent\<lparr>as_agentID := ''agent-0''\<rparr>, sample_agent]"
  by (rule plan_order_independent) (simp_all add: sample_agent_def add.commute)

lemma shard_id_pattern:
  assumes "id_pattern r"
  shows "id_pattern (shard_id r) \<longleftrightarrow> length r \<le> 117"
proof -
  obtain h t where r: "r = h # t" "id_head h" "2 \<le> length t" "list_all id_tail t"
    using assms by (auto simp: id_pattern_def split: list.splits)
  have p: "pad0 4 0 = ''0000''" by code_simp
  show ?thesis using r unfolding shard_id_def p by (simp add: id_pattern_def id_tail_def id_head_def)
qed

text \<open>The lease of a plan passes \<open>ShardLease.Validate\<close> for its run exactly when the run
  identifier has at most 117 characters: the shard identifier is the run identifier with a
  suffix of 11 characters, and identifiers have at most 128.\<close>

lemma plan_lease_valid_iff:
  assumes "build_single_agent_sequential_plan run agents = (p, None)"
  shows "lease_validate (plan_lease p) run = None \<longleftrightarrow> length (br_runID run) \<le> 117"
proof -
  obtain a where a: "chosen_agent run agents = Some a" and v: "bundle_run_validate run = None"
      "\<forall>a \<in> set agents. agent_status_validate a = None"
    and "plan_lease p = plan_lease_for run a"
    using plan_agent [OF assms] by metis
  note \<open>plan_lease p = plan_lease_for run a\<close>
  moreover have "id_pattern (as_agentID a)"
    using chosen_agent_Some(1) [OF a] v by (auto simp: agent_status_validate_None)
  moreover have "lease_range (plan_lease_for run a) = br_children run"
    by (simp add: lease_range_def plan_lease_for_def)
  moreover have "id_pattern (br_runID run)" "1 \<le> maxAttemptsPerChild (br_retryPolicy run)"
    "0 \<le> range_start (br_children run)" "1 \<le> range_count (br_children run)"
    using v(1) by (auto simp: bundle_run_validate_None)
  ultimately show ?thesis
    using v(1) shard_id_pattern [of "br_runID run"]
    by (simp add: lease_validate_None) (simp add: plan_lease_for_def)
qed

lemma plan_lease_valid_iff_witness:
  "lease_validate (plan_lease (fst (build_single_agent_sequential_plan sample_bundle_run [sample_agent])))
     sample_bundle_run = None"
  using plan_lease_valid_iff [of sample_bundle_run "[sample_agent]"] sample_plan
  by (cases "build_single_agent_sequential_plan sample_bundle_run [sample_agent]")
    (simp add: sample_bundle_run_def)

end
