(* ===== verification/FleetRuntime.thy ===== *)
theory FleetRuntime
  imports FleetPlan
begin

text \<open>
  \<open>internal/fleet/runtime.go\<close>: the coordinator that admits, plans and executes one run.
  The coordinator's dependencies are Go interfaces; they are the fields of
  \<open>coordinator_env\<close>, functions of the request and of the state \<open>'w\<close> of everything outside
  the coordinator (agents, result store, clock, context), which they return updated. A map
  is an association list with one entry per key; the sums and sorts the code forms by
  ranging over a map do not depend on the order.
\<close>

section \<open>Definitions\<close>

type_synonym 'w shard_executor =
  "shard_execution_request \<Rightarrow> 'w \<Rightarrow> (attempt_result list \<times> gerr option) \<times> 'w"
type_synonym 'w bundle_inspector = "bundle_run \<Rightarrow> 'w \<Rightarrow> (gerr + bundle_inspection) \<times> 'w"
type_synonym 'w terminal_result_reader =
  "bundle_run \<Rightarrow> int \<Rightarrow> 'w \<Rightarrow> (gerr + attempt_result option) \<times> 'w"
type_synonym 'w clock = "'w \<Rightarrow> go_time \<times> 'w"

record 'w coordinator_env =
  co_agents :: "agent_status list"
  co_inspector :: "'w bundle_inspector"
  co_terminal :: "'w terminal_result_reader"
  co_executors :: "(string \<times> 'w shard_executor) list"
  co_now :: "'w clock"
  co_ctx_err :: "'w \<Rightarrow> gerr option"

text \<open>\<open>NewCoordinator\<close>: a nil interface or function is \<open>None\<close>; \<open>system_now\<close> is
  \<open>time.Now().UTC()\<close>.\<close>

definition new_coordinator :: "agent_status list \<Rightarrow> 'w bundle_inspector option
    \<Rightarrow> 'w terminal_result_reader option \<Rightarrow> (string \<times> 'w shard_executor option) list
    \<Rightarrow> 'w clock option \<Rightarrow> 'w clock \<Rightarrow> ('w \<Rightarrow> gerr option) \<Rightarrow> gerr + 'w coordinator_env" where
  "new_coordinator agents inspector terminal executors now_opt system_now ctx_err =
     (case (inspector, terminal) of
        (Some i, Some t) \<Rightarrow>
          if length executors = 0 then Inl (Sentinel ErrCoordinatorNotConfigured)
          else if list_ex (\<lambda>(_, e). e = None) executors then Inl (Sentinel ErrCoordinatorNotConfigured)
          else Inr \<lparr>co_agents = agents, co_inspector = i, co_terminal = t,
                    co_executors = map (\<lambda>(id, e). (id, the e)) executors,
                    co_now = (case now_opt of None \<Rightarrow> system_now | Some n \<Rightarrow> n),
                    co_ctx_err = ctx_err\<rparr>
      | _ \<Rightarrow> Inl (Sentinel ErrCoordinatorNotConfigured))"

text \<open>\<open>BundleInspection.Validate\<close>\<close>

definition bundle_inspection_validate :: "bundle_inspection \<Rightarrow> bundle_run \<Rightarrow> gerr option" where
  "bundle_inspection_validate i run = first_err
     [check (bi_bundleDigest i \<noteq> bundle_digest (br_bundle run))
        (errorf ErrBundleMetadataMismatch (''inspected digest '' @ go_quote (bi_bundleDigest i)
           @ '' does not match run digest '' @ go_quote (bundle_digest (br_bundle run)))),
      check (bi_childCount i < range_end (br_children run))
        (errorf ErrBundleMetadataMismatch (''bundle child count '' @ itoa (bi_childCount i)
           @ '' does not cover run end child '' @ itoa (range_end (br_children run)))),
      check (hc_id (bi_hostClass i) \<noteq> [] \<and> \<not> host_class_equal (bi_hostClass i) (br_hostClass run))
        (errorf ErrBundleMetadataMismatch (''inspected host class '' @ go_quote (hc_id (bi_hostClass i))
           @ '' does not match run host class '' @ go_quote (hc_id (br_hostClass run))))]"

record runtime_state =
  st_run :: bundle_run
  st_plan :: plan
  st_startedAt :: go_time
  st_terminal :: "(int \<times> attempt_result) list"
  st_attemptCount :: int
  st_platformMismatches :: int
  st_nonTerminalFailures :: int
  st_leaseErrors :: int

definition new_runtime_state :: "bundle_run \<Rightarrow> plan \<Rightarrow> go_time \<Rightarrow> runtime_state" where
  "new_runtime_state run plan startedAt =
     \<lparr>st_run = run, st_plan = plan, st_startedAt = startedAt, st_terminal = [],
      st_attemptCount = 0, st_platformMismatches = 0, st_nonTerminalFailures = 0,
      st_leaseErrors = 0\<rparr>"

definition terminal_known :: "runtime_state \<Rightarrow> int \<Rightarrow> bool" where
  "terminal_known s childID \<longleftrightarrow> map_of (st_terminal s) childID \<noteq> None"

definition record_existing_terminal :: "runtime_state \<Rightarrow> int \<Rightarrow> attempt_result \<Rightarrow> runtime_state" where
  "record_existing_terminal s childID result =
     (if terminal_known s childID then s
      else let result' = (if ar_status result = [] then result\<lparr>ar_status := AttemptSkippedTerminalExists\<rparr>
                          else result)
           in s\<lparr>st_terminal := AList.update childID result' (st_terminal s)\<rparr>)"

text \<open>The body of the loop of \<open>recordResults\<close>.\<close>

definition record_result :: "runtime_state \<Rightarrow> attempt_result \<Rightarrow> runtime_state" where
  "record_result s result =
     (if ar_attemptID result = [] then s
      else
        let s1 = s\<lparr>st_attemptCount := st_attemptCount s + 1\<rparr>;
            s2 = (if ar_status result = AttemptPlatformMismatch
                  then s1\<lparr>st_platformMismatches := st_platformMismatches s1 + 1\<rparr> else s1);
            s3 = (if ar_status result = AttemptFailed \<and> \<not> ar_terminal result
                  then s2\<lparr>st_nonTerminalFailures := st_nonTerminalFailures s2 + 1\<rparr> else s2)
        in if \<not> ar_terminal result then s3
           else if terminal_known s3 (ar_childID result) \<and> ar_status result = AttemptSkippedTerminalExists
           then s3
           else s3\<lparr>st_terminal := AList.update (ar_childID result) result (st_terminal s3)\<rparr>)"

definition record_results :: "runtime_state \<Rightarrow> attempt_result list \<Rightarrow> runtime_state" where
  "record_results s results = foldl record_result s results"

definition has_platform_mismatch :: "attempt_result list \<Rightarrow> bool" where
  "has_platform_mismatch results = list_ex (\<lambda>r. ar_status r = AttemptPlatformMismatch) results"

text \<open>The loop of \<open>leaseHasPendingChildren\<close>.\<close>

fun pending_loop :: "'w coordinator_env \<Rightarrow> bundle_run \<Rightarrow> int list \<Rightarrow> bool \<Rightarrow> runtime_state \<Rightarrow> 'w
    \<Rightarrow> (gerr + bool) \<times> runtime_state \<times> 'w" where
  "pending_loop env run [] pending s w = (Inr pending, s, w)"
| "pending_loop env run (childID # rest) pending s w =
     (if terminal_known s childID then pending_loop env run rest pending s w
      else case co_terminal env run childID w of
          (Inl e, w') \<Rightarrow> (Inl e, s, w')
        | (Inr (Some result), w') \<Rightarrow>
            pending_loop env run rest pending (record_existing_terminal s childID result) w'
        | (Inr None, w') \<Rightarrow> pending_loop env run rest True s w')"

definition lease_has_pending_children :: "'w coordinator_env \<Rightarrow> bundle_run \<Rightarrow> shard_lease
    \<Rightarrow> runtime_state \<Rightarrow> 'w \<Rightarrow> (gerr + bool) \<times> runtime_state \<times> 'w" where
  "lease_has_pending_children env run lease s w =
     pending_loop env run [lease_childStart lease .. range_end (lease_range lease) - 1] False s w"

text \<open>One turn of the loop of \<open>runLease\<close>: \<open>Some r\<close> returns \<open>r\<close> from the function,
  \<open>None\<close> goes on with the next attempt.\<close>

definition lease_attempt :: "'w coordinator_env \<Rightarrow> 'w shard_executor \<Rightarrow> bundle_run \<Rightarrow> shard_lease
    \<Rightarrow> int \<Rightarrow> runtime_state \<Rightarrow> 'w \<Rightarrow> gerr option option \<times> runtime_state \<times> 'w" where
  "lease_attempt env executor run lease attempt s w =
     (case co_ctx_err env w of
        Some e \<Rightarrow> (Some (Some e), s, w)
      | None \<Rightarrow>
          (case lease_has_pending_children env run lease s w of
             (Inl e, s1, w1) \<Rightarrow> (Some (Some e), s1, w1)
           | (Inr False, s1, w1) \<Rightarrow> (Some None, s1, w1)
           | (Inr True, s1, w1) \<Rightarrow>
               (case executor \<lparr>ser_run = run, ser_lease = lease, ser_attempt = attempt, ser_local = None\<rparr> w1 of
                  ((results, err), w2) \<Rightarrow>
                    let s2 = record_results s1 results in
                    if has_platform_mismatch results
                    then (Some (Some (errorf ErrPlatformMismatch (lease_shardID lease))), s2, w2)
                    else
                      (case lease_has_pending_children env run lease s2 w2 of
                         (Inl e, s3, w3) \<Rightarrow> (Some (Some e), s3, w3)
                       | (Inr False, s3, w3) \<Rightarrow> (Some None, s3, w3)
                       | (Inr True, s3, w3) \<Rightarrow>
                           if attempt = lease_attemptBudget lease then
                             (case err of
                                Some e \<Rightarrow> (Some (Some e), s3, w3)
                              | None \<Rightarrow> (Some (Some (errorf ErrLeaseIncomplete (lease_shardID lease))), s3, w3))
                           else (None, s3, w3)))))"

text \<open>The loop, from attempt number \<open>attempt\<close>.\<close>

function lease_loop :: "'w coordinator_env \<Rightarrow> 'w shard_executor \<Rightarrow> bundle_run \<Rightarrow> shard_lease
    \<Rightarrow> int \<Rightarrow> runtime_state \<Rightarrow> 'w \<Rightarrow> gerr option \<times> runtime_state \<times> 'w" where
  "lease_loop env executor run lease attempt s w =
     (if attempt > lease_attemptBudget lease then (None, s, w)
      else case lease_attempt env executor run lease attempt s w of
        (Some r, s', w') \<Rightarrow> (r, s', w')
      | (None, s', w') \<Rightarrow> lease_loop env executor run lease (attempt + 1) s' w')"
  by pat_completeness auto
termination
  by (relation "measure (\<lambda>(_, _, _, lease, attempt, _, _). nat (lease_attemptBudget lease - attempt + 1))") auto

declare lease_loop.simps [simp del]

definition run_lease :: "'w coordinator_env \<Rightarrow> bundle_run \<Rightarrow> shard_lease \<Rightarrow> runtime_state \<Rightarrow> 'w
    \<Rightarrow> gerr option \<times> runtime_state \<times> 'w" where
  "run_lease env run lease s w =
     (case map_of (co_executors env) (lease_agentID lease) of
        None \<Rightarrow> (Some (errorf ErrAgentExecutorMissing (lease_agentID lease)), s, w)
      | Some executor \<Rightarrow> lease_loop env executor run lease 1 s w)"

definition count_status :: "attempt_status \<Rightarrow> (int \<times> attempt_result) list \<Rightarrow> int" where
  "count_status status m = int (length (filter (\<lambda>(_, r). ar_status r = status) m))"

definition runtime_state_summary :: "runtime_state \<Rightarrow> go_time \<Rightarrow> gerr option \<Rightarrow> runtime_summary" where
  "runtime_state_summary s finishedAt runErr =
     (let summary = \<lparr>rs_runID = br_runID (st_run s), rs_state = ''succeeded'',
            rs_childCount = range_count (br_children (st_run s)),
            rs_shardCount = ps_shardCount (plan_summary (st_plan s)),
            rs_assignedChildren = ps_assignedChildren (plan_summary (st_plan s)),
            rs_assignedShards = ps_assignedShards (plan_summary (st_plan s)),
            rs_attemptCount = st_attemptCount s,
            rs_completedChildren = int (length (st_terminal s)),
            rs_succeededChildren = count_status AttemptSucceeded (st_terminal s),
            rs_failedChildren = count_status AttemptFailed (st_terminal s),
            rs_skippedTerminalChildren = count_status AttemptSkippedTerminalExists (st_terminal s),
            rs_platformMismatches = st_platformMismatches s,
            rs_nonTerminalFailures = st_nonTerminalFailures s,
            rs_leaseErrors = st_leaseErrors s,
            rs_startedAt = st_startedAt s, rs_finishedAt = finishedAt\<rparr>
      in if runErr \<noteq> None \<or> rs_completedChildren summary \<noteq> rs_childCount summary
            \<or> rs_failedChildren summary > 0 \<or> rs_platformMismatches summary > 0
         then summary\<lparr>rs_state := ''failed''\<rparr> else summary)"

text \<open>A \<open>float64\<close> number of milliseconds as a \<open>time.Duration\<close> in nanoseconds, and the
  milliseconds between two times with the resolution of a microsecond; \<open>Time.Sub\<close>
  saturates.\<close>

definition runtime_duration_ms :: "float64 \<Rightarrow> int" where
  "runtime_duration_ms ms = (if 0 \<le> ms then \<lfloor>ms * 1000000\<rfloor> else \<lceil>ms * 1000000\<rceil>)"

definition time_sub :: "go_time \<Rightarrow> go_time \<Rightarrow> int" where
  "time_sub t u = max (- (2 ^ 63)) (min (2 ^ 63 - 1) (t - u))"

definition runtime_elapsed_ms :: "go_time \<Rightarrow> go_time \<Rightarrow> float64" where
  "runtime_elapsed_ms start end_time =
     (if end_time < start then 0 else of_int (time_sub end_time start div 1000) / 1000)"

definition runtime_percentile :: "float64 list \<Rightarrow> float64 \<Rightarrow> float64" where
  "runtime_percentile ordered p =
     (if length ordered = 1 then ordered ! 0
      else let index = \<lfloor>p * of_nat (length ordered) + 999999999 / 1000000000\<rfloor> - 1;
               index1 = (if index < 0 then 0 else index);
               index2 = (if index1 \<ge> int (length ordered) then int (length ordered) - 1 else index1)
           in ordered ! nat index2)"

definition percentiles_of :: "float64 list \<Rightarrow> runtime_percentiles" where
  "percentiles_of values =
     (if length values = 0 then zero_percentiles
      else let ordered = sort values in
        \<lparr>p50 = runtime_percentile ordered (50 / 100), p95 = runtime_percentile ordered (95 / 100),
         p99 = runtime_percentile ordered (99 / 100)\<rparr>)"

definition ready_results :: "runtime_state \<Rightarrow> attempt_result list" where
  "ready_results s =
     filter (\<lambda>r. ar_status r = AttemptSucceeded \<and> ar_startedAt r \<noteq> 0) (map snd (st_terminal s))"

definition ready_ms :: "runtime_state \<Rightarrow> attempt_result \<Rightarrow> float64" where
  "ready_ms s r =
     (let t = ar_timingsMS r;
          readyAt = ar_startedAt r + runtime_duration_ms
            (at_artifactPull t + at_materialization t + at_resume t + at_guestReady t)
      in runtime_elapsed_ms (st_startedAt s) readyAt)"

definition timing_summary :: "runtime_state \<Rightarrow> runtime_timing_summary option" where
  "timing_summary s =
     (let rs = ready_results s; stage = (\<lambda>f. percentiles_of (map (\<lambda>r. f (ar_timingsMS r)) rs)) in
      if length rs = 0 then None
      else Some \<lparr>rt_childReadyMS = percentiles_of (map (ready_ms s) rs),
                 rt_stagePercentilesMS = \<lparr>sp_artifactPull = stage at_artifactPull,
                   sp_materialization = stage at_materialization, sp_resume = stage at_resume,
                   sp_guestReady = stage at_guestReady, sp_resultCommit = stage at_resultCommit\<rparr>\<rparr>)"

text \<open>\<open>Coordinator.Run\<close>\<close>

definition coordinator_run :: "'w coordinator_env \<Rightarrow> bundle_run \<Rightarrow> 'w
    \<Rightarrow> (runtime_report \<times> gerr option) \<times> 'w" where
  "coordinator_run env run w =
     (case co_now env w of (startedAt, w0) \<Rightarrow>
      case bundle_run_validate run of
        Some e \<Rightarrow> ((zero_report, Some e), w0)
      | None \<Rightarrow>
          (case co_inspector env run w0 of
             (Inl e, w1) \<Rightarrow> ((zero_report, Some e), w1)
           | (Inr inspection, w1) \<Rightarrow>
               (case bundle_inspection_validate inspection run of
                  Some e \<Rightarrow> ((zero_report, Some e), w1)
                | None \<Rightarrow>
                    (case build_single_agent_sequential_plan run (co_agents env) of
                       (p, Some e) \<Rightarrow> ((zero_report\<lparr>rr_plan := p\<rparr>, Some e), w1)
                     | (p, None) \<Rightarrow>
                         (case run_lease env run (plan_lease p) (new_runtime_state run p startedAt) w1 of
                            (err, s, w2) \<Rightarrow>
                              let s' = (if err \<noteq> None then s\<lparr>st_leaseErrors := st_leaseErrors s + 1\<rparr> else s)
                              in case co_now env w2 of (finishedAt, w3) \<Rightarrow>
                                ((\<lparr>rr_plan = p, rr_summary = runtime_state_summary s' finishedAt err,
                                   rr_timings = timing_summary s', rr_prepare = None\<rparr>, err), w3))))))"

section \<open>The state only grows\<close>

definition known_children :: "runtime_state \<Rightarrow> int set" where
  "known_children s = fst ` set (st_terminal s)"

text \<open>What every step keeps: the run, the plan and the start time; the recorded children;
  one entry per child; the counters.\<close>

definition state_grows :: "runtime_state \<Rightarrow> runtime_state \<Rightarrow> bool" where
  "state_grows s s' \<longleftrightarrow>
     st_run s' = st_run s \<and> st_plan s' = st_plan s \<and> st_startedAt s' = st_startedAt s \<and>
     st_leaseErrors s' = st_leaseErrors s \<and>
     known_children s \<subseteq> known_children s' \<and>
     (distinct (map fst (st_terminal s)) \<longrightarrow> distinct (map fst (st_terminal s'))) \<and>
     st_attemptCount s \<le> st_attemptCount s' \<and> st_platformMismatches s \<le> st_platformMismatches s'"

lemma terminal_known_iff: "terminal_known s c \<longleftrightarrow> c \<in> known_children s"
  by (simp add: terminal_known_def known_children_def weak_map_of_SomeI map_of_eq_None_iff)

lemma state_grows_refl [simp, intro]: "state_grows s s"
  by (simp add: state_grows_def)

lemma state_grows_trans: "state_grows s t \<Longrightarrow> state_grows t u \<Longrightarrow> state_grows s u"
  unfolding state_grows_def by (auto intro: order_trans)

lemma keys_update: "fst ` set (AList.update k v m) = insert k (fst ` set m)"
  by (induction m) auto

lemma known_existing [simp]: "known_children (record_existing_terminal s c r) = insert c (known_children s)"
  by (auto simp: record_existing_terminal_def terminal_known_iff known_children_def keys_update Let_def)

lemma grows_existing [intro]: "state_grows s (record_existing_terminal s c r)"
  by (auto simp: state_grows_def record_existing_terminal_def known_children_def keys_update Let_def
      distinct_update)

lemma grows_record [intro]: "state_grows s (record_result s r)"
  by (auto simp: state_grows_def record_result_def known_children_def keys_update Let_def
      distinct_update)

lemma grows_records [intro]: "state_grows s (record_results s rs)"
  unfolding record_results_def
  by (induction rs rule: rev_induct) (auto intro: state_grows_trans)

lemma pending_loop_grows:
  "pending_loop env run cs p s w = (res, s', w') \<Longrightarrow> state_grows s s'"
proof (induction cs arbitrary: p s w)
  case Nil
  then show ?case by auto
next
  case (Cons c cs)
  then show ?case
    by (auto split: if_splits sum.splits option.splits prod.splits
        intro: state_grows_trans [OF grows_existing])
qed

lemma pending_loop_False:
  "pending_loop env run cs p s w = (Inr False, s', w') \<Longrightarrow> \<not> p \<and> set cs \<subseteq> known_children s'"
proof (induction cs arbitrary: p s w)
  case Nil
  then show ?case by simp
next
  case (Cons c cs)
  have in_known: "c \<in> known_children s'"
    if "pending_loop env run cs p t v = (Inr False, s', w')" "c \<in> known_children t" for t v
    using pending_loop_grows [OF that(1)] that(2) by (auto simp: state_grows_def)
  show ?case using Cons.prems Cons.IH in_known
    by (fastforce simp: terminal_known_iff split: if_splits sum.splits option.splits prod.splits)
qed

lemma has_pending_grows: "lease_has_pending_children env run lease s w = (res, s', w') \<Longrightarrow> state_grows s s'"
  unfolding lease_has_pending_children_def by (rule pending_loop_grows)

definition lease_children :: "shard_lease \<Rightarrow> int set" where
  "lease_children lease = {lease_childStart lease ..< range_end (lease_range lease)}"

lemma has_pending_False:
  "lease_has_pending_children env run lease s w = (Inr False, s', w') \<Longrightarrow> lease_children lease \<subseteq> known_children s'"
  unfolding lease_has_pending_children_def lease_children_def by (drule pending_loop_False) auto

lemma lease_attempt_grows:
  "lease_attempt env ex run lease a s w = (r, s', w') \<Longrightarrow> state_grows s s'"
  by (auto simp: lease_attempt_def Let_def split: option.splits prod.splits sum.splits bool.splits if_splits
      dest!: has_pending_grows intro: state_grows_trans [OF _ grows_records]
        state_grows_trans [OF state_grows_trans [OF _ grows_records]])

lemma lease_attempt_nil:
  "lease_attempt env ex run lease a s w = (Some None, s', w') \<Longrightarrow> lease_children lease \<subseteq> known_children s'"
  by (auto simp: lease_attempt_def Let_def split: option.splits prod.splits sum.splits bool.splits if_splits
      dest!: has_pending_False)

lemma lease_attempt_last: "fst (lease_attempt env ex run lease (lease_attemptBudget lease) s w) \<noteq> None"
  by (auto simp: lease_attempt_def Let_def split: option.splits prod.splits sum.splits bool.splits)

text \<open>One induction for everything the loop keeps and, when it returns nil, establishes.\<close>

lemma lease_loop_grows:
  "lease_loop env ex run lease a s w = (e, s', w') \<Longrightarrow> state_grows s s'"
proof (induction env ex run lease a s w rule: lease_loop.induct)
  case (1 env ex run lease a s w)
  from 1 show ?case
    by (subst (asm) lease_loop.simps)
      (auto split: if_splits prod.splits option.splits dest!: lease_attempt_grows intro: state_grows_trans)
qed

lemma lease_loop_nil:
  "lease_loop env ex run lease a s w = (None, s', w') \<Longrightarrow> a \<le> lease_attemptBudget lease
   \<Longrightarrow> lease_children lease \<subseteq> known_children s'"
proof (induction env ex run lease a s w rule: lease_loop.induct)
  case (1 env ex run lease a s w)
  obtain r s1 w1 where at: "lease_attempt env ex run lease a s w = (r, s1, w1)" by (metis prod_cases3)
  show ?case
  proof (cases r)
    case None
    then have "a \<noteq> lease_attemptBudget lease" using lease_attempt_last at by (metis fst_conv)
    moreover have "lease_loop env ex run lease (a + 1) s1 w1 = (None, s', w')"
      using "1.prems" at None by (subst (asm) lease_loop.simps) simp
    ultimately show ?thesis using "1.IH" [OF _ at [symmetric] None refl] "1.prems"(2) by simp
  next
    case (Some e)
    then have "lease_attempt env ex run lease a s w = (Some None, s', w')"
      using "1.prems" at by (subst (asm) lease_loop.simps) simp
    then show ?thesis by (rule lease_attempt_nil)
  qed
qed

section \<open>Recording the requests\<close>

text \<open>The coordinator over a world that also keeps the list of executor requests; erasing
  the list gives the original back.\<close>

definition logged_executor :: "'w shard_executor \<Rightarrow> ('w \<times> shard_execution_request list) shard_executor" where
  "logged_executor ex = (\<lambda>req (w, l). case ex req w of (r, w') \<Rightarrow> (r, (w', l @ [req])))"

definition logged_env :: "'w coordinator_env \<Rightarrow> ('w \<times> shard_execution_request list) coordinator_env" where
  "logged_env env =
     \<lparr>co_agents = co_agents env,
      co_inspector = (\<lambda>run (w, l). case co_inspector env run w of (r, w') \<Rightarrow> (r, (w', l))),
      co_terminal = (\<lambda>run c (w, l). case co_terminal env run c w of (r, w') \<Rightarrow> (r, (w', l))),
      co_executors = map (\<lambda>(id, ex). (id, logged_executor ex)) (co_executors env),
      co_now = (\<lambda>(w, l). case co_now env w of (t, w') \<Rightarrow> (t, (w', l))),
      co_ctx_err = (\<lambda>(w, l). co_ctx_err env w)\<rparr>"

lemma logged_env_simps [simp]:
  "co_agents (logged_env env) = co_agents env"
  "co_inspector (logged_env env) run (w, l) = (case co_inspector env run w of (r, w') \<Rightarrow> (r, (w', l)))"
  "co_terminal (logged_env env) run c (w, l) = (case co_terminal env run c w of (r, w') \<Rightarrow> (r, (w', l)))"
  "co_now (logged_env env) (w, l) = (case co_now env w of (t, w') \<Rightarrow> (t, (w', l)))"
  "co_ctx_err (logged_env env) (w, l) = co_ctx_err env w"
  "map_of (co_executors (logged_env env)) a = map_option logged_executor (map_of (co_executors env) a)"
  by (simp_all add: logged_env_def map_of_map)

lemma pending_loop_logged:
  "pending_loop (logged_env env) run cs p s (w, l) =
     (case pending_loop env run cs p s w of (r, s', w') \<Rightarrow> (r, s', (w', l)))"
  by (induction cs arbitrary: p s w) (auto split: prod.splits sum.splits option.splits)

lemma has_pending_logged:
  "lease_has_pending_children (logged_env env) run lease s (w, l) =
     (case lease_has_pending_children env run lease s w of (r, s', w') \<Rightarrow> (r, s', (w', l)))"
  by (simp add: lease_has_pending_children_def pending_loop_logged)

definition attempt_request :: "bundle_run \<Rightarrow> shard_lease \<Rightarrow> int \<Rightarrow> shard_execution_request" where
  "attempt_request run lease a = \<lparr>ser_run = run, ser_lease = lease, ser_attempt = a, ser_local = None\<rparr>"

lemma lease_attempt_logged:
  assumes "lease_attempt (logged_env env) (logged_executor ex) run lease a s (w, l) = (r, s', w', l')"
  shows "lease_attempt env ex run lease a s w = (r, s', w')"
    "l' = l \<and> r \<noteq> None \<or> l' = l @ [attempt_request run lease a]"
  using assms
  by (auto simp: lease_attempt_def has_pending_logged logged_executor_def attempt_request_def Let_def
      split: option.splits prod.splits sum.splits bool.splits if_splits)

lemma lease_loop_logged:
  "lease_loop (logged_env env) (logged_executor ex) run lease a s (w, l) = (e, s', w', l') \<Longrightarrow>
   lease_loop env ex run lease a s w = (e, s', w') \<and>
   (\<exists>k \<ge> a - 1. k \<le> max (a - 1) (lease_attemptBudget lease) \<and> l' = l @ map (attempt_request run lease) [a..k])"
proof (induction env ex run lease a s w arbitrary: l rule: lease_loop.induct)
  case (1 env ex run lease a s w)
  show ?case
  proof (cases "a > lease_attemptBudget lease")
    case True
    then show ?thesis using "1.prems"
      by (auto simp: lease_loop.simps [of _ _ _ _ a] intro: exI [of _ "a - 1"])
  next
    case False
    obtain r s1 w1 l1 where at:
      "lease_attempt (logged_env env) (logged_executor ex) run lease a s (w, l) = (r, s1, w1, l1)"
      by (metis prod_cases4)
    note at' = lease_attempt_logged [OF at]
    show ?thesis
    proof (cases r)
      case (Some e1)
      then have "e = e1" "s' = s1" "w' = w1" "l' = l1"
        using "1.prems" False at by (simp_all add: lease_loop.simps [of _ _ _ _ a])
      moreover have "l1 = l @ map (attempt_request run lease) [a..a - 1] \<or>
          l1 = l @ map (attempt_request run lease) [a..a]"
        using at'(2) by auto
      ultimately show ?thesis using False at'(1) Some
        by (auto simp: lease_loop.simps [of env ex _ _ a] intro: exI [of _ "a - 1"] exI [of _ a])
    next
      case None
      then have "lease_loop (logged_env env) (logged_executor ex) run lease (a + 1) s1 (w1, l1) = (e, s', w', l')"
        using "1.prems" False at by (simp add: lease_loop.simps [of _ _ _ _ a])
      from "1.IH" [OF False at'(1) [symmetric] None refl this]
      obtain k where k: "lease_loop env ex run lease (a + 1) s1 w1 = (e, s', w')" "k \<ge> a"
        "k \<le> max a (lease_attemptBudget lease)" "l' = l1 @ map (attempt_request run lease) [a + 1..k]"
        by auto
      moreover have "l1 = l @ [attempt_request run lease a]" using at'(2) None by simp
      moreover have "[a..k] = a # [a + 1..k]" using k(2) by (simp add: upto.simps [of a])
      ultimately show ?thesis using False at'(1) None
        by (auto simp: lease_loop.simps [of env ex _ _ a] intro!: exI [of _ k])
    qed
  qed
qed

lemma run_lease_logged:
  assumes "run_lease (logged_env env) run lease s (w, []) = (e, s', w', reqs)"
  shows "run_lease env run lease s w = (e, s', w')"
    "\<exists>k. k \<le> max 0 (lease_attemptBudget lease) \<and> reqs = map (attempt_request run lease) [1..k]"
proof -
  have "run_lease env run lease s w = (e, s', w') \<and>
    (\<exists>k. k \<le> max 0 (lease_attemptBudget lease) \<and> reqs = map (attempt_request run lease) [1..k])"
  proof (cases "map_of (co_executors env) (lease_agentID lease)")
    case None
    then show ?thesis using assms by (auto simp: run_lease_def intro!: exI [of _ 0])
  next
    case (Some ex)
    then show ?thesis using assms lease_loop_logged [of env ex run lease 1 s w "[]" e s' w' reqs]
      by (auto simp: run_lease_def)
  qed
  then show "run_lease env run lease s w = (e, s', w')"
    "\<exists>k. k \<le> max 0 (lease_attemptBudget lease) \<and> reqs = map (attempt_request run lease) [1..k]" by auto
qed

text \<open>How \<open>Coordinator.Run\<close> can end: refused before execution, or after the lease.\<close>

definition lease_ended :: "runtime_state \<Rightarrow> gerr option \<Rightarrow> runtime_state" where
  "lease_ended s err = (if err \<noteq> None then s\<lparr>st_leaseErrors := st_leaseErrors s + 1\<rparr> else s)"

lemma coordinator_run_cases:
  assumes "coordinator_run env run w = ((report, err), w')"
  obtains (refused) t0 w0 where "err \<noteq> None" "rr_summary report = zero_summary" "co_now env w = (t0, w0)"
      "w' = w0 \<or> w' = snd (co_inspector env run w0)"
  | (executed) t0 w0 insp w1 p s w2 t3 where
      "co_now env w = (t0, w0)" "bundle_run_validate run = None"
      "co_inspector env run w0 = (Inr insp, w1)" "bundle_inspection_validate insp run = None"
      "build_single_agent_sequential_plan run (co_agents env) = (p, None)"
      "run_lease env run (plan_lease p) (new_runtime_state run p t0) w1 = (err, s, w2)"
      "co_now env w2 = (t3, w')" "rr_plan report = p"
      "rr_summary report = runtime_state_summary (lease_ended s err) t3 err"
proof -
  obtain t0 w0 where n: "co_now env w = (t0, w0)" by fastforce
  obtain ri w1 where i: "co_inspector env run w0 = (ri, w1)" by fastforce
  obtain p ep where p: "build_single_agent_sequential_plan run (co_agents env) = (p, ep)" by fastforce
  show ?thesis
  proof (cases "bundle_run_validate run = None \<and> ep = None \<and>
      (\<exists>insp. ri = Inr insp \<and> bundle_inspection_validate insp run = None)")
    case False
    then have "err \<noteq> None \<and> rr_summary report = zero_summary \<and> (w' = w0 \<or> w' = snd (co_inspector env run w0))"
      using assms n i p
      by (cases ri) (auto simp: coordinator_run_def zero_report_def split: option.splits, metis+)
    then show ?thesis using refused n by blast
  next
    case True
    then obtain insp where ok: "bundle_run_validate run = None" "ep = None" "ri = Inr insp"
      "bundle_inspection_validate insp run = None" by blast
    obtain e s w2 where l: "run_lease env run (plan_lease p) (new_runtime_state run p t0) w1 = (e, s, w2)"
      by (metis prod_cases3)
    obtain t3 w3 where n3: "co_now env w2 = (t3, w3)" by fastforce
    have "report = \<lparr>rr_plan = p, rr_summary = runtime_state_summary (lease_ended s e) t3 e,
        rr_timings = timing_summary (lease_ended s e), rr_prepare = None\<rparr> \<and> err = e \<and> w' = w3"
      using assms n i p ok l n3 unfolding coordinator_run_def lease_ended_def Let_def by auto
    then show ?thesis using executed n i p ok l n3 by simp
  qed
qed

lemma summary_succeeded:
  "rs_state (runtime_state_summary s t err) = ''succeeded'' \<longleftrightarrow>
     err = None \<and> int (length (st_terminal s)) = range_count (br_children (st_run s)) \<and>
     count_status AttemptFailed (st_terminal s) = 0 \<and> st_platformMismatches s \<le> 0"
  by (auto simp: runtime_state_summary_def Let_def count_status_def)

lemma count_status_0: "count_status st m = 0 \<longleftrightarrow> (\<forall>(c, r) \<in> set m. ar_status r \<noteq> st)"
  by (auto simp: count_status_def filter_empty_conv)

lemma run_lease_nil:
  "run_lease env run lease s w = (None, s', w') \<Longrightarrow> 1 \<le> lease_attemptBudget lease
   \<Longrightarrow> lease_children lease \<subseteq> known_children s'"
  by (auto simp: run_lease_def split: option.splits dest!: lease_loop_nil)

lemma run_lease_grows:
  "run_lease env run lease s w = (e, s', w') \<Longrightarrow> state_grows s s'"
  by (auto simp: run_lease_def split: option.splits dest: lease_loop_grows)

lemma finite_int_subset_eq:
  assumes "{a ..< a + n} \<subseteq> S" "finite S" "int (card S) = n" "0 \<le> (n::int)"
  shows "S = {a ..< a + n}"
  using assms card_subset_eq [of S "{a ..< a + n}"] by simp

section \<open>Properties\<close>

text \<open>\<open>runLease\<close> returns nil only when every child of the lease has a recorded terminal
  result, and no recorded result is ever forgotten.\<close>

lemma run_lease_complete:
  assumes "run_lease env run lease s w = (e, s', w')" "1 \<le> lease_attemptBudget lease"
  shows "known_children s \<subseteq> known_children s' \<and>
    (e = None \<longrightarrow> (\<forall>c. lease_childStart lease \<le> c \<and> c < range_end (lease_range lease) \<longrightarrow> terminal_known s' c))"
  using run_lease_grows [OF assms(1)] run_lease_nil [of env run lease s w s' w'] assms
  by (auto simp: state_grows_def lease_children_def terminal_known_iff subset_iff)

text \<open>A coordinator whose result store has a result for every child.\<close>

definition sample_result :: attempt_result where
  "sample_result = zero_result\<lparr>ar_status := AttemptSucceeded\<rparr>"

definition sample_env :: "unit coordinator_env" where
  "sample_env = \<lparr>co_agents = [sample_agent],
     co_inspector = (\<lambda>run w. (Inr \<lparr>bi_bundleDigest = sample_digest, bi_childCount = 2,
        bi_hostClass = sample_host\<rparr>, w)),
     co_terminal = (\<lambda>run c w. (Inr (Some sample_result), w)),
     co_executors = [(''agent-1'', (\<lambda>req w. (([], None), w)))],
     co_now = (\<lambda>w. (1, w)), co_ctx_err = (\<lambda>w. None)\<rparr>"

definition sample_lease :: shard_lease where
  "sample_lease = plan_lease_for sample_bundle_run sample_agent"

lemma sample_has_pending:
  "lease_has_pending_children sample_env run sample_lease s () =
     (Inr False, record_existing_terminal (record_existing_terminal s 0 sample_result) 1 sample_result, ())"
proof -
  have "[lease_childStart sample_lease .. range_end (lease_range sample_lease) - 1] = [0, 1]"
    by (simp add: sample_lease_def plan_lease_for_def sample_bundle_run_def lease_range_def range_end_def
        in64_def upto.simps)
  then show ?thesis
    by (simp add: lease_has_pending_children_def sample_env_def record_existing_terminal_def
        terminal_known_def)
qed

lemma sample_executor: "map_of (co_executors sample_env) (lease_agentID sample_lease) =
    Some (\<lambda>req w. (([], None), w))"
  by (simp add: sample_env_def sample_lease_def plan_lease_for_def sample_agent_def)

lemma sample_budget: "lease_attemptBudget sample_lease = 2"
  by (simp add: sample_lease_def plan_lease_for_def sample_bundle_run_def)

lemma sample_run_lease:
  "run_lease sample_env run sample_lease s () =
     (None, record_existing_terminal (record_existing_terminal s 0 sample_result) 1 sample_result, ())"
proof -
  have "co_ctx_err sample_env () = None" by (simp add: sample_env_def)
  then show ?thesis
    by (simp add: run_lease_def lease_loop.simps [of _ _ _ _ 1] lease_attempt_def sample_executor
        sample_has_pending sample_budget)
qed

lemma run_lease_complete_witness:
  "terminal_known (record_existing_terminal (record_existing_terminal
      (new_runtime_state sample_bundle_run zero_plan 1) 0 sample_result) 1 sample_result) 1"
proof -
  have "range_end (lease_range sample_lease) = 2" "lease_childStart sample_lease = 0"
    by (simp_all add: sample_lease_def plan_lease_for_def sample_bundle_run_def lease_range_def
      range_end_def in64_def)
  then show ?thesis using run_lease_complete [OF sample_run_lease [of sample_bundle_run]]
    by (simp add: sample_budget)
qed

lemma succeeded_complete:
  assumes run: "coordinator_run env run w = ((report, err), w')"
    and succ: "rs_state (rr_summary report) = ''succeeded''"
    and fits: "range_start (br_children run) + range_count (br_children run) < 2 ^ 63"
  shows "err = None \<and> (\<exists>t0 w1 s w2.
    run_lease env run (plan_lease (rr_plan report)) (new_runtime_state run (rr_plan report) t0) w1 = (None, s, w2) \<and>
    known_children s = {range_start (br_children run) ..< range_start (br_children run) + range_count (br_children run)} \<and>
    (\<forall>(c, r) \<in> set (st_terminal s). ar_status r \<noteq> AttemptFailed) \<and> st_platformMismatches s = 0)"
  using run
proof (cases rule: coordinator_run_cases)
  case refused
  then show ?thesis using succ by (simp add: zero_summary_def)
next
  case (executed t0 w0 insp w1 p s w2 t3)
  let ?r = "br_children run"
  have ok: "err = None" "int (length (st_terminal s)) = range_count (br_children (st_run s))"
    "count_status AttemptFailed (st_terminal s) = 0" "st_platformMismatches s \<le> 0"
    using succ executed(9) by (auto simp: summary_succeeded lease_ended_def)
  have v: "0 \<le> range_start ?r" "1 \<le> range_count ?r" "1 \<le> maxAttemptsPerChild (br_retryPolicy run)"
    using executed(2) by (auto simp: bundle_run_validate_None)
  obtain a where "plan_lease p = plan_lease_for run a" using plan_agent [OF executed(5)] by blast
  then have "lease_range (plan_lease p) = ?r" "lease_childStart (plan_lease p) = range_start ?r"
    and b: "1 \<le> lease_attemptBudget (plan_lease p)"
    using v(3) by (simp_all add: plan_lease_for_def lease_range_def)
  then have lc: "lease_children (plan_lease p) = {range_start ?r ..< range_start ?r + range_count ?r}"
    using v fits by (simp add: lease_children_def range_end_exact)
  have g: "state_grows (new_runtime_state run p t0) s" using run_lease_grows [OF executed(6)] .
  then have st: "st_run s = run" "distinct (map fst (st_terminal s))" "0 \<le> st_platformMismatches s"
    by (auto simp: state_grows_def new_runtime_state_def)
  have sub: "{range_start ?r ..< range_start ?r + range_count ?r} \<subseteq> known_children s"
    using run_lease_nil [OF executed(6) [unfolded ok(1)] b] lc by simp
  have "card (known_children s) = length (st_terminal s)"
    using st(2) by (simp add: known_children_def distinct_card flip: set_map)
  then have "known_children s = {range_start ?r ..< range_start ?r + range_count ?r}"
    using ok(2) st(1) v(2) sub by (intro finite_int_subset_eq) (auto simp: known_children_def)
  then show ?thesis using executed(6,8) ok st(3) by (auto simp: count_status_0)
qed

text \<open>C1: a report says \<open>succeeded\<close> only when \<open>Run\<close> returned no error after executing the
  lease of its plan, the children with a recorded result are exactly the children of the
  run, none of them failed and no platform mismatch was seen.\<close>

theorem coordinator_succeeded:
  assumes run: "coordinator_run env run w = ((report, err), w')"
    and succ: "rs_state (rr_summary report) = ''succeeded''"
    and fits: "range_start (br_children run) + range_count (br_children run) < 2 ^ 63"
  shows "err = None \<and> (\<exists>t0 w1 s w2.
    run_lease env run (plan_lease (rr_plan report)) (new_runtime_state run (rr_plan report) t0) w1 = (None, s, w2) \<and>
    known_children s = {range_start (br_children run) ..< range_start (br_children run) + range_count (br_children run)} \<and>
    (\<forall>(c, r) \<in> set (st_terminal s). ar_status r \<noteq> AttemptFailed) \<and> st_platformMismatches s = 0)"
  by (rule succeeded_complete [OF assms])

lemma sample_plan_lease:
  "build_single_agent_sequential_plan sample_bundle_run [sample_agent] =
     (fst (build_single_agent_sequential_plan sample_bundle_run [sample_agent]), None)"
  "plan_lease (fst (build_single_agent_sequential_plan sample_bundle_run [sample_agent])) = sample_lease"
  using sample_plan plan_of_chosen(2) [of sample_bundle_run "[sample_agent]" sample_agent]
  by (simp_all add: prod_eq_iff chosen_agent_def sample_agent_eligible sample_lease_def)

definition sample_final :: runtime_state where
  "sample_final = record_existing_terminal (record_existing_terminal (new_runtime_state sample_bundle_run
     (fst (build_single_agent_sequential_plan sample_bundle_run [sample_agent])) 1) 0 sample_result) 1 sample_result"

lemma sample_coordinator:
  "coordinator_run sample_env sample_bundle_run () =
     ((\<lparr>rr_plan = fst (build_single_agent_sequential_plan sample_bundle_run [sample_agent]),
        rr_summary = runtime_state_summary sample_final 1 None, rr_timings = timing_summary sample_final,
        rr_prepare = None\<rparr>, None), ())"
proof -
  have env: "co_now sample_env () = (1, ())" "co_agents sample_env = [sample_agent]"
    "co_inspector sample_env run () = (Inr \<lparr>bi_bundleDigest = sample_digest, bi_childCount = 2,
        bi_hostClass = sample_host\<rparr>, ())" for run
    by (simp_all add: sample_env_def)
  have "bundle_inspection_validate \<lparr>bi_bundleDigest = sample_digest, bi_childCount = 2,
        bi_hostClass = sample_host\<rparr> sample_bundle_run = None"
    by (simp add: bundle_inspection_validate_def sample_bundle_run_def range_end_def in64_def host_class_equal_def)
  moreover obtain p where p: "build_single_agent_sequential_plan sample_bundle_run [sample_agent] = (p, None)"
    "plan_lease p = sample_lease"
    using sample_plan_lease by (metis fst_conv)
  ultimately show ?thesis
    by (simp add: coordinator_run_def env sample_run_lease sample_final_def Let_def)
qed

lemma sample_final_state: "rs_state (runtime_state_summary sample_final 1 None) = ''succeeded''"
  by (simp add: summary_succeeded sample_final_def record_existing_terminal_def terminal_known_def
      new_runtime_state_def sample_result_def attempt_status_defs count_status_def sample_bundle_run_def)

theorem coordinator_succeeded_witness:
  "\<exists>t0 w1 s w2. run_lease sample_env sample_bundle_run sample_lease (new_runtime_state sample_bundle_run
     (fst (build_single_agent_sequential_plan sample_bundle_run [sample_agent])) t0) w1 = (None, s, w2) \<and>
     known_children s = {0 ..< 2}"
  using coordinator_succeeded [OF sample_coordinator] sample_final_state sample_plan_lease(2)
  by (auto simp: sample_bundle_run_def)

text \<open>C11: executors are asked only after admission (a valid run, a matching inspection, a
  plan without error), always for the plan's lease, with attempt numbers 1, 2, ... and at
  most \<open>retryPolicy.maxAttemptsPerChild\<close> times.\<close>

theorem coordinator_attempts:
  assumes "coordinator_run (logged_env env) run (w, []) = ((report, err), (w', reqs))"
  shows "(\<exists>k \<le> max 0 (maxAttemptsPerChild (br_retryPolicy run)).
      reqs = map (attempt_request run (plan_lease (rr_plan report))) [1..k]) \<and>
    (reqs \<noteq> [] \<longrightarrow> bundle_run_validate run = None \<and>
      build_single_agent_sequential_plan run (co_agents env) = (rr_plan report, None) \<and>
      (\<exists>w0 insp w1. co_inspector env run w0 = (Inr insp, w1) \<and> bundle_inspection_validate insp run = None))"
  using assms
proof (cases rule: coordinator_run_cases)
  case (refused t0 w0)
  then have "reqs = []" by (auto split: prod.splits)
  then show ?thesis by (intro conjI exI [of _ 0]) auto
next
  case (executed t0 w0 insp w1 p s w2 t3)
  obtain v0 v1 l1 v2 l2 where w: "w0 = (v0, [])" "w1 = (v1, l1)" "w2 = (v2, l2)"
    using executed(1) by (cases w1; cases w2) (auto split: prod.splits)
  have i: "co_inspector env run v0 = (Inr insp, v1)" "l1 = []"
    using executed(3) w by (auto split: prod.splits)
  have l2: "l2 = reqs" using executed(7) w by (auto split: prod.splits)
  obtain a where "plan_lease p = plan_lease_for run a" using plan_agent [OF executed(5)] by blast
  then have "lease_attemptBudget (plan_lease p) = maxAttemptsPerChild (br_retryPolicy run)"
    by (simp add: plan_lease_for_def)
  then show ?thesis
    using run_lease_logged(2) [OF executed(6) [unfolded w i(2)]] executed(2,4,5,8) i(1) l2 by auto
qed

text \<open>A coordinator whose store never has a result and whose executor does nothing.\<close>

definition idle_env :: "unit coordinator_env" where
  "idle_env = sample_env\<lparr>co_terminal := (\<lambda>run c w. (Inr None, w))\<rparr>"

lemma idle_pending: "lease_has_pending_children idle_env run sample_lease (new_runtime_state r p t) () =
    (Inr True, new_runtime_state r p t, ())"
proof -
  have "[lease_childStart sample_lease .. range_end (lease_range sample_lease) - 1] = [0, 1]"
    by (simp add: sample_lease_def plan_lease_for_def sample_bundle_run_def lease_range_def range_end_def
        in64_def upto.simps)
  then show ?thesis
    by (simp add: lease_has_pending_children_def idle_env_def terminal_known_def new_runtime_state_def)
qed

lemma idle_run_lease:
  "snd (snd (snd (run_lease (logged_env idle_env) run sample_lease (new_runtime_state r p t) ((), [])))) =
     [attempt_request run sample_lease 1, attempt_request run sample_lease 2]"
proof -
  have env: "map_of (co_executors (logged_env idle_env)) (lease_agentID sample_lease) =
      Some (logged_executor (\<lambda>req w. (([], None), w)))" "co_ctx_err (logged_env idle_env) ((), l) = None" for l
    using sample_executor by (simp_all add: idle_env_def) (simp add: sample_env_def)
  have at: "lease_attempt (logged_env idle_env) (logged_executor (\<lambda>req w. (([], None), w))) run sample_lease a
      (new_runtime_state r p t) ((), l) =
      ((if a = 2 then Some (Some (errorf ErrLeaseIncomplete (lease_shardID sample_lease))) else None),
       new_runtime_state r p t, (), l @ [attempt_request run sample_lease a])" for a l
    using env(2)
    by (simp add: lease_attempt_def has_pending_logged idle_pending logged_executor_def
        record_results_def has_platform_mismatch_def sample_budget attempt_request_def)
  show ?thesis
    by (simp add: run_lease_def env lease_loop.simps [of _ _ _ _ 1] lease_loop.simps [of _ _ _ _ 2]
        at sample_budget del: logged_env_simps)
qed

lemma idle_requests:
  "length (snd (snd (coordinator_run (logged_env idle_env) sample_bundle_run ((), [])))) = 2"
proof -
  have env: "co_now idle_env () = (1, ())" "co_agents idle_env = [sample_agent]"
    "co_inspector idle_env run () = (Inr \<lparr>bi_bundleDigest = sample_digest, bi_childCount = 2,
        bi_hostClass = sample_host\<rparr>, ())" for run
    by (simp_all add: idle_env_def sample_env_def)
  have "bundle_inspection_validate \<lparr>bi_bundleDigest = sample_digest, bi_childCount = 2,
        bi_hostClass = sample_host\<rparr> sample_bundle_run = None"
    by (simp add: bundle_inspection_validate_def sample_bundle_run_def range_end_def in64_def host_class_equal_def)
  moreover obtain p where p: "build_single_agent_sequential_plan sample_bundle_run [sample_agent] = (p, None)"
    "plan_lease p = sample_lease"
    using sample_plan_lease by (metis fst_conv)
  moreover obtain e s v l where "run_lease (logged_env idle_env) sample_bundle_run sample_lease
      (new_runtime_state sample_bundle_run p 1) ((), []) = (e, s, v, l)" "length l = 2"
    using idle_run_lease [of sample_bundle_run sample_bundle_run p 1]
    by (cases "run_lease (logged_env idle_env) sample_bundle_run sample_lease
      (new_runtime_state sample_bundle_run p 1) ((), [])") auto
  ultimately show ?thesis by (simp add: coordinator_run_def env Let_def)
qed

theorem coordinator_attempts_witness:
  "\<exists>report err w' reqs k. coordinator_run (logged_env idle_env) sample_bundle_run ((), []) = ((report, err), w', reqs)
     \<and> length reqs = 2 \<and> reqs = map (attempt_request sample_bundle_run (plan_lease (rr_plan report))) [1..k]"
proof -
  obtain report err w' reqs where r:
    "coordinator_run (logged_env idle_env) sample_bundle_run ((), []) = ((report, err), w', reqs)"
    by (metis surj_pair)
  then have "length reqs = 2" using idle_requests by simp
  then show ?thesis using coordinator_attempts [OF r] r by blast
qed

section \<open>Percentiles\<close>

lemma sorted_filter_le:
  "sorted xs \<Longrightarrow> i < length xs \<Longrightarrow> Suc i \<le> length (filter (\<lambda>x. x \<le> xs ! i) xs)"
proof -
  assume s: "sorted xs" "i < length xs"
  have "filter (\<lambda>x. x \<le> xs ! i) (take (Suc i) xs) = take (Suc i) xs"
    using s by (intro filter_True) (auto simp: in_set_conv_nth sorted_nth_mono less_Suc_eq_le)
  then have "Suc i \<le> length (filter (\<lambda>x. x \<le> xs ! i) (take (Suc i) xs @ drop (Suc i) xs))"
    using s(2) unfolding filter_append by simp
  then show ?thesis unfolding append_take_drop_id .
qed

lemma sorted_filter_less:
  "sorted xs \<Longrightarrow> i < length xs \<Longrightarrow> length (filter (\<lambda>x. x < xs ! i) xs) \<le> i"
proof -
  assume s: "sorted xs" "i < length xs"
  have "filter (\<lambda>x. x < xs ! i) (drop i xs) = []"
    using s by (auto simp: filter_empty_conv in_set_conv_nth not_less sorted_nth_mono)
  then have "length (filter (\<lambda>x. x < xs ! i) (take i xs @ drop i xs)) \<le> i"
    using length_filter_le [of "\<lambda>x. x < xs ! i" "take i xs"] unfolding filter_append by simp
  then show ?thesis unfolding append_take_drop_id .
qed

text \<open>The index the code computes is the nearest rank, less one.\<close>

lemma ceiling_100:
  fixes m :: int
  shows "m \<le> 100 * \<lceil>of_int m / 100 :: rat\<rceil>" "100 * (\<lceil>of_int m / 100 :: rat\<rceil> - 1) < m"
proof -
  define x where "x = (of_int m / 100 :: rat)"
  have m: "of_int m = 100 * x" by (simp add: x_def)
  have "100 * x \<le> 100 * of_int \<lceil>x\<rceil>" by (intro mult_left_mono le_of_int_ceiling) simp
  then have "(of_int m :: rat) \<le> of_int (100 * \<lceil>x\<rceil>)" by (simp only: m of_int_mult of_int_numeral)
  then show "m \<le> 100 * \<lceil>of_int m / 100 :: rat\<rceil>" by (simp only: of_int_le_iff x_def)
  have "of_int (\<lceil>x\<rceil> - 1) < x" using ceiling_correct [of x] by simp
  then have "100 * of_int (\<lceil>x\<rceil> - 1) < 100 * x" by (intro mult_strict_left_mono) simp_all
  then have "(of_int (100 * (\<lceil>x\<rceil> - 1)) :: rat) < of_int m" by (simp only: m of_int_mult of_int_numeral)
  then show "100 * (\<lceil>of_int m / 100 :: rat\<rceil> - 1) < m" by (simp only: of_int_less_iff x_def)
qed

lemma floor_slack:
  fixes m :: int
  shows "\<lfloor>(of_int m / 100 :: rat) + 999999999 / 1000000000\<rfloor> = \<lceil>of_int m / 100 :: rat\<rceil>"
proof -
  define c where "c = \<lceil>of_int m / 100 :: rat\<rceil>"
  have "m \<le> 100 * c" "100 * (c - 1) + 1 \<le> m" using ceiling_100 [of m] by (simp_all add: c_def)
  then have "(of_int m :: rat) \<le> of_int (100 * c)" "(of_int (100 * (c - 1) + 1) :: rat) \<le> of_int m"
    by (simp_all only: of_int_le_iff)
  then show ?thesis unfolding c_def [symmetric] by (intro floor_unique) (simp_all add: field_simps)
qed

lemma runtime_percentile_rank:
  assumes "sorted xs" "xs \<noteq> []" "0 < k" "k \<le> 100"
  shows "k * length xs \<le> 100 * length (filter (\<lambda>x. x \<le> runtime_percentile xs (of_nat k / 100)) xs)
    \<and> 100 * length (filter (\<lambda>x. x < runtime_percentile xs (of_nat k / 100)) xs) < k * length xs"
proof -
  define n where "n = int (length xs)"
  define c where "c = \<lceil>of_int (int k * n) / 100 :: rat\<rceil>"
  have n: "1 \<le> n" using assms(2) by (simp add: n_def Suc_le_eq)
  have c: "int k * n \<le> 100 * c" "100 * (c - 1) < int k * n"
    using ceiling_100 [of "int k * n"] by (simp_all only: c_def)
  have "0 < int k * n" using n assms(3) by simp
  then have c1: "1 \<le> c" using c(1) by linarith
  have "int k * n \<le> 100 * n" using assms(4) n by simp
  with c(2) have "100 * (c - 1) < 100 * n" by (rule less_le_trans)
  then have cn: "c \<le> n" by simp
  have idx: "runtime_percentile xs (of_nat k / 100) = xs ! nat (c - 1)"
  proof (cases "length xs = 1")
    case True
    then have "c = 1" using c1 cn by (simp add: n_def)
    then show ?thesis using True by (simp add: runtime_percentile_def)
  next
    case False
    have "\<lfloor>of_nat k / 100 * of_nat (length xs) + 999999999 / 1000000000 :: rat\<rfloor> = c"
      using floor_slack [of "int k * n"] by (simp add: c_def n_def)
    then show ?thesis using False c1 cn by (simp add: runtime_percentile_def Let_def n_def)
  qed
  have i: "nat (c - 1) < length xs" using c1 cn by (simp add: n_def)
  define le lt where "le = length (filter (\<lambda>x. x \<le> xs ! nat (c - 1)) xs)"
    and "lt = length (filter (\<lambda>x. x < xs ! nat (c - 1)) xs)"
  have "c \<le> int le" "int lt \<le> c - 1"
    using sorted_filter_le [OF assms(1) i] sorted_filter_less [OF assms(1) i] c1
    unfolding le_def lt_def by linarith+
  then have "100 * c \<le> 100 * int le" "100 * int lt \<le> 100 * (c - 1)" by simp_all
  then have "int k * n \<le> 100 * int le" "100 * int lt < int k * n"
    using c by (blast intro: order_trans le_less_trans)+
  then have "int (k * length xs) \<le> int (100 * le)" "int (100 * lt) < int (k * length xs)"
    by (simp_all add: n_def)
  then show ?thesis unfolding idx le_def lt_def by (simp only: of_nat_le_iff of_nat_less_iff)
qed

text \<open>The percentiles of a report are nearest ranks: at least 50, 95 and 99 percent of
  the values are at most \<open>p50\<close>, \<open>p95\<close>, \<open>p99\<close>, and less than that share of them is smaller.\<close>

lemma percentiles_nearest_rank:
  assumes "vals \<noteq> []"
  shows "\<forall>(P, k) \<in> {(p50 (percentiles_of vals), 50), (p95 (percentiles_of vals), 95),
           (p99 (percentiles_of vals), 99)}.
    k * length vals \<le> 100 * length (filter (\<lambda>x. x \<le> P) vals) \<and>
    100 * length (filter (\<lambda>x. x < P) vals) < k * length vals"
proof -
  have len: "length (filter Q (sort vals)) = length (filter Q vals)" for Q
    by (rule mset_eq_length) simp
  have "k * length vals \<le> 100 * length (filter (\<lambda>x. x \<le> runtime_percentile (sort vals) (of_nat k / 100)) vals) \<and>
    100 * length (filter (\<lambda>x. x < runtime_percentile (sort vals) (of_nat k / 100)) vals) < k * length vals"
    if "0 < k" "k \<le> 100" for k
    using runtime_percentile_rank [where xs = "sort vals" and k = k] that assms unfolding len length_sort
    by (metis length_0_conv length_sort sorted_sort)
  from this [of 50] this [of 95] this [of 99] show ?thesis
    using assms by (simp add: percentiles_of_def Let_def)
qed

lemma percentiles_nearest_rank_witness:
  "p50 (percentiles_of [3, 1, 2]) = 2 \<and>
   50 * 3 \<le> 100 * length (filter (\<lambda>x. x \<le> p50 (percentiles_of [3, 1, 2])) [3, 1, 2 :: rat])"
proof -
  have "p50 (percentiles_of [3, 1, 2]) = 2"
  proof -
    have "\<lfloor>2499999999 / 1000000000 :: rat\<rfloor> = 2" by (intro floor_unique) simp_all
    then show ?thesis by (simp add: percentiles_of_def runtime_percentile_def Let_def)
  qed
  then show ?thesis using percentiles_nearest_rank [of "[3, 1, 2]"] by simp
qed

end
