(* ===== verification/ResultStore.thy ===== *)
theory ResultStore
  imports FleetRuntime
begin

text \<open>
  \<open>internal/agent/result_store.go\<close> and \<open>s3_result_store.go\<close>: where results live and how
  they are written once.

  A stored document is what the JSON library's two \<open>Decode\<close> calls give for its bytes;
  encoding a value and decoding it again gives the value back, which holds for results with
  UTC times and valid UTF-8. The local store's file system below its root is a map from
  paths, lists of segments, to documents; a call's argument \<open>fault\<close> says which of its
  system calls fails. The S3 client is an argument, its errors a value \<open>s3_error\<close>.
\<close>

section \<open>Result URIs\<close>

definition terminal_result_uri :: "bundle_run \<Rightarrow> int \<Rightarrow> string" where
  "terminal_result_uri run childID = br_resultStore run @ ''children/'' @ itoa childID @ ''/terminal.json''"

definition attempt_result_uri :: "bundle_run \<Rightarrow> int \<Rightarrow> string \<Rightarrow> string" where
  "attempt_result_uri run childID attemptID =
     br_resultStore run @ ''children/'' @ itoa childID @ ''/attempts/'' @ attemptID @ ''.json''"

text \<open>
  \<open>url.Parse\<close> as far as \<open>parseS3ResultURI\<close> can tell: the fragment and query are cut off,
  control characters refused, the scheme lowered, the authority split at its last \<open>@\<close> and
  checked, the path unescaped. Only the text of an error does not say whether
  \<open>url.Parse\<close> or its caller refused. A host that starts with a bracket is an IP literal for
  Go, which the model refuses.
\<close>

definition is_alpha :: "char \<Rightarrow> bool" where
  "is_alpha c \<longleftrightarrow> (let n = (of_char c :: nat) in (65 \<le> n \<and> n \<le> 90) \<or> (97 \<le> n \<and> n \<le> 122))"

definition lower_char :: "char \<Rightarrow> char" where
  "lower_char c = (let n = (of_char c :: nat) in if 65 \<le> n \<and> n \<le> 90 then char_of (n + 32) else c)"

definition is_ctl :: "char \<Rightarrow> bool" where
  "is_ctl c \<longleftrightarrow> (of_char c :: nat) < 32 \<or> (of_char c :: nat) = 127"

text \<open>\<open>getScheme\<close>: the scheme and the rest; \<open>None\<close> when there is no scheme or it is malformed.\<close>

definition url_scheme :: "string \<Rightarrow> (string \<times> string) option" where
  "url_scheme raw =
     (case cut (CHR '':'') raw of
        (s, Some rest) \<Rightarrow>
          if s \<noteq> [] \<and> is_alpha (hd s) \<and>
             list_all (\<lambda>c. is_alpha c \<or> is_digit c \<or> c = CHR ''+'' \<or> c = CHR ''-'' \<or> c = CHR ''.'') s
          then Some (map lower_char s, rest) else None
      | (_, None) \<Rightarrow> None)"

text \<open>\<open>unescape\<close> for a path, and for a host.\<close>

fun unescape_path :: "string \<Rightarrow> string option" where
  "unescape_path [] = Some []"
| "unescape_path (c # s) =
     (if c = CHR ''%'' then
        (case s of
           a # b # rest \<Rightarrow>
             if is_hex a \<and> is_hex b
             then map_option (Cons (char_of (hex_val a * 16 + hex_val b))) (unescape_path rest)
             else None
         | _ \<Rightarrow> None)
      else map_option (Cons c) (unescape_path s))"

definition host_char :: "char \<Rightarrow> bool" where
  "host_char c \<longleftrightarrow> 128 \<le> (of_char c :: nat) \<or> is_alpha c \<or> is_digit c \<or> c = char_of (39::nat) \<or>
     c = char_of (34::nat) \<or> c \<in> set ''!$&()*+,;=:[]<>-_.~''"

fun unescape_host :: "string \<Rightarrow> string option" where
  "unescape_host [] = Some []"
| "unescape_host (c # s) =
     (if c = CHR ''%'' then
        (case s of
           a # b # rest \<Rightarrow>
             if is_hex a \<and> is_hex b \<and> (8 \<le> hex_val a \<or> (a = CHR ''2'' \<and> b = CHR ''5''))
             then map_option (Cons (char_of (hex_val a * 16 + hex_val b))) (unescape_host rest)
             else None
         | _ \<Rightarrow> None)
      else if host_char c then map_option (Cons c) (unescape_host s) else None)"

definition userinfo_char :: "char \<Rightarrow> bool" where
  "userinfo_char c \<longleftrightarrow> is_alpha c \<or> is_digit c \<or> c = char_of (39::nat) \<or>
     c \<in> set ''-._:~!$&()*+,;=%@''"

text \<open>The parts of \<open>s\<close> before and after the last \<open>c\<close>.\<close>

definition cut_last :: "char \<Rightarrow> string \<Rightarrow> string option \<times> string" where
  "cut_last c s =
     (case cut c (rev s) of (a, None) \<Rightarrow> (None, s) | (a, Some b) \<Rightarrow> (Some (rev b), rev a))"

definition url_host :: "string \<Rightarrow> string option" where
  "url_host authority =
     (case cut_last (CHR ''@'') authority of (user, host) \<Rightarrow>
        let user_ok = (case user of None \<Rightarrow> True
              | Some u \<Rightarrow> list_all userinfo_char u \<and>
                  (case cut (CHR '':'') u of
                     (a, None) \<Rightarrow> unescape_path a \<noteq> None
                   | (a, Some b) \<Rightarrow> unescape_path a \<noteq> None \<and> unescape_path b \<noteq> None));
            port_ok = (case cut_last (CHR '':'') host of (None, _) \<Rightarrow> True
              | (Some _, port) \<Rightarrow> list_all is_digit port)
        in if user_ok \<and> port_ok \<and> \<not> has_prefix host ''['' then unescape_host host else None)"

definition parse_s3_result_uri :: "string \<Rightarrow> gerr + string \<times> string" where
  "parse_s3_result_uri raw =
     (let unsupported = Inl (Opaque (''unsupported result URI '' @ go_quote raw));
          (u, frag) = cut (CHR ''#'') raw
      in if list_ex is_ctl u \<or> (frag \<noteq> None \<and> frag \<noteq> Some []) then unsupported
      else (case url_scheme u of
          None \<Rightarrow> unsupported
        | Some (scheme, rest0) \<Rightarrow>
            if scheme \<noteq> ''s3'' then unsupported
            else (case cut (CHR ''?'') rest0 of (rest, query) \<Rightarrow>
              if query \<noteq> None \<and> query \<noteq> Some [] then unsupported
              else if \<not> has_prefix rest ''//'' then unsupported
              else
                let authority = takeWhile (\<lambda>c. c \<noteq> CHR ''/'') (drop 2 rest);
                    path = dropWhile (\<lambda>c. c \<noteq> CHR ''/'') (drop 2 rest)
                in (case (url_host authority, unescape_path path) of
                      (Some host, Some p) \<Rightarrow>
                        if host = [] then unsupported
                        else let key = trim_prefix p ''/'' in
                          if key = [] then Inl (Opaque (''result URI '' @ go_quote raw @ '' has empty object key''))
                          else Inr (host, key)
                    | _ \<Rightarrow> unsupported))))"

section \<open>The local store\<close>

record local_result_store =
  ls_root :: string

definition new_local_result_store :: "string \<Rightarrow> gerr + local_result_store" where
  "new_local_result_store root_dir =
     (if root_dir = [] then Inl (Opaque ''local result store root must not be empty'') else Inr \<lparr>ls_root = root_dir\<rparr>)"

definition unsafe_local_path_segment :: "string \<Rightarrow> bool" where
  "unsafe_local_path_segment part \<longleftrightarrow>
     part = [] \<or> part = ''.'' \<or> part = ''..'' \<or> CHR ''/'' \<in> set part"

text \<open>\<open>pathForURI\<close>: the segments of the path below the root; \<open>filepath.Join\<close> of safe
  segments only joins them. \<open>None\<close> is a nil store.\<close>

definition path_for_uri :: "local_result_store option \<Rightarrow> string \<Rightarrow> gerr + string list" where
  "path_for_uri s raw =
     (if s = None \<or> ls_root (the s) = [] then Inl (Sentinel ErrResultStoreNotConfigured)
      else case parse_s3_result_uri raw of
        Inl e \<Rightarrow> Inl e
      | Inr (bucket, key) \<Rightarrow>
          if unsafe_local_path_segment bucket
          then Inl (Opaque (''result URI '' @ go_quote raw @ '' contains an unsafe bucket segment''))
          else if list_ex unsafe_local_path_segment (split_on (CHR ''/'') key)
          then Inl (Opaque (''result URI '' @ go_quote raw @ '' contains an unsafe path segment''))
          else Inr (bucket # split_on (CHR ''/'') key))"

type_synonym stored_document = "(string + attempt_result) \<times> trailing"
type_synonym local_fs = "string list \<rightharpoonup> stored_document"

definition encode_document :: "attempt_result \<Rightarrow> stored_document" where
  "encode_document r = (Inr r, TrailingEOF)"

text \<open>\<open>writeJSONCreateOnly\<close>: a temporary file is written, synced and linked to its final
  name; \<open>os.Link\<close> fails with \<open>os.ErrExist\<close> when the name exists, and \<open>FailLink\<close> is any other
  failure of it.\<close>

datatype write_fault = WriteOk | FailBeforeLink gerr | FailLink gerr | FailSyncDirectory gerr

definition write_json_create_only :: "write_fault \<Rightarrow> string list \<Rightarrow> attempt_result \<Rightarrow> local_fs
    \<Rightarrow> (bool \<times> gerr option) \<times> local_fs" where
  "write_json_create_only fault path value fs =
     (case fault of
        FailBeforeLink e \<Rightarrow> ((False, Some e), fs)
      | FailLink e \<Rightarrow> ((False, Some e), fs)
      | FailSyncDirectory e \<Rightarrow>
          if fs path \<noteq> None then ((False, None), fs)
          else ((True, Some e), fs(path \<mapsto> encode_document value))
      | WriteOk \<Rightarrow>
          if fs path \<noteq> None then ((False, None), fs)
          else ((True, None), fs(path \<mapsto> encode_document value)))"

definition decode_terminal_result :: "stored_document \<Rightarrow> bundle_run \<Rightarrow> gerr + attempt_result" where
  "decode_terminal_result doc run =
     (case doc of
        (Inl msg, _) \<Rightarrow> Inl (errorf ErrInvalidMachineOutput (''decode terminal result: '' @ msg))
      | (Inr result, TrailingDoc) \<Rightarrow>
          Inl (errorf ErrInvalidMachineOutput ''terminal result has multiple JSON documents'')
      | (Inr result, TrailingError msg) \<Rightarrow>
          Inl (errorf ErrInvalidMachineOutput (''decode trailing terminal result: '' @ msg))
      | (Inr result, TrailingEOF) \<Rightarrow>
          (case attempt_result_validate result run of
             Some e \<Rightarrow> Inl e
           | None \<Rightarrow>
               if \<not> ar_terminal result
               then Inl (errorf ErrInvalidMachineOutput ''committed terminal result is not terminal'')
               else Inr result))"

definition child_outside_run :: gerr where
  "child_outside_run = errorf ErrInvalidContract ''terminal child id is outside the run''"

text \<open>\<open>TerminalResult\<close>; \<open>ctx\<close> is \<open>ctx.Err()\<close>, \<open>open_fault\<close> an error of \<open>os.Open\<close> other than
  the missing file.\<close>

definition local_terminal_result :: "gerr option \<Rightarrow> gerr option \<Rightarrow> local_result_store option \<Rightarrow> bundle_run
    \<Rightarrow> int \<Rightarrow> local_fs \<Rightarrow> gerr + attempt_result option" where
  "local_terminal_result ctx open_fault s run childID fs =
     (case first_err
        [ctx, bundle_run_validate run,
         check (childID < range_start (br_children run) \<or> childID \<ge> range_end (br_children run))
           child_outside_run] of
        Some e \<Rightarrow> Inl e
      | None \<Rightarrow>
          (case path_for_uri s (terminal_result_uri run childID) of
             Inl e \<Rightarrow> Inl e
           | Inr path \<Rightarrow>
               (case open_fault of
                  Some e \<Rightarrow> Inl e
                | None \<Rightarrow>
                    (case fs path of
                       None \<Rightarrow> Inr None
                     | Some doc \<Rightarrow>
                         (case decode_terminal_result doc run of
                            Inl e \<Rightarrow> Inl e
                          | Inr result \<Rightarrow> Inr (Some result))))))"

definition local_write_attempt_result :: "gerr option \<Rightarrow> write_fault \<Rightarrow> local_result_store option
    \<Rightarrow> bundle_run \<Rightarrow> attempt_result \<Rightarrow> local_fs \<Rightarrow> gerr option \<times> local_fs" where
  "local_write_attempt_result ctx fault s run result fs =
     (case first_err [ctx, attempt_result_validate result run] of
        Some e \<Rightarrow> (Some e, fs)
      | None \<Rightarrow>
          (case path_for_uri s (attempt_result_uri run (ar_childID result) (ar_attemptID result)) of
             Inl e \<Rightarrow> (Some e, fs)
           | Inr path \<Rightarrow>
               (case write_json_create_only fault path result fs of
                  ((created, Some e), fs') \<Rightarrow> (Some e, fs')
                | ((created, None), fs') \<Rightarrow>
                    if \<not> created then (Some (Sentinel ErrResultExists), fs') else (None, fs'))))"

text \<open>The guards of \<open>CommitTerminalResult\<close>, the same in both stores.\<close>

definition commit_guard :: "bundle_run \<Rightarrow> attempt_result \<Rightarrow> gerr option" where
  "commit_guard run result = first_err
     [attempt_result_validate result run,
      check (\<not> ar_terminal result) (Opaque ''cannot commit non-terminal result''),
      check (ar_resultURI result \<noteq> terminal_result_uri run (ar_childID result))
        (Opaque (''terminal result URI = '' @ go_quote (ar_resultURI result) @ '', want ''
           @ go_quote (terminal_result_uri run (ar_childID result))))]"

definition local_commit_terminal_result :: "gerr option \<Rightarrow> write_fault \<Rightarrow> local_result_store option
    \<Rightarrow> bundle_run \<Rightarrow> attempt_result \<Rightarrow> local_fs \<Rightarrow> (bool \<times> gerr option) \<times> local_fs" where
  "local_commit_terminal_result ctx fault s run result fs =
     (case first_err [ctx, commit_guard run result] of
        Some e \<Rightarrow> ((False, Some e), fs)
      | None \<Rightarrow>
          (case path_for_uri s (terminal_result_uri run (ar_childID result)) of
             Inl e \<Rightarrow> ((False, Some e), fs)
           | Inr path \<Rightarrow> write_json_create_only fault path result fs))"

section \<open>The S3 store\<close>

text \<open>An error of the S3 client: one with an API error code, or another.\<close>

datatype s3_error = ApiError string gerr | ClientError gerr

fun s3_cause :: "s3_error \<Rightarrow> gerr" where
  "s3_cause (ApiError code e) = e"
| "s3_cause (ClientError e) = e"

definition is_s3_error :: "s3_error option \<Rightarrow> string list \<Rightarrow> bool" where
  "is_s3_error err codes =
     (case err of Some (ApiError code e) \<Rightarrow> code \<in> set codes | _ \<Rightarrow> False)"

record 'w s3_client =
  get_object :: "string \<Rightarrow> string \<Rightarrow> 'w \<Rightarrow> (s3_error + stored_document) \<times> 'w"
  put_object_if_none_match :: "string \<Rightarrow> string \<Rightarrow> stored_document \<Rightarrow> 'w \<Rightarrow> s3_error option \<times> 'w"

definition s3_terminal_result :: "'w s3_client \<Rightarrow> bundle_run \<Rightarrow> int \<Rightarrow> 'w
    \<Rightarrow> (gerr + attempt_result option) \<times> 'w" where
  "s3_terminal_result client run childID w =
     (case first_err
        [bundle_run_validate run,
         check (childID < range_start (br_children run) \<or> childID \<ge> range_end (br_children run))
           child_outside_run] of
        Some e \<Rightarrow> (Inl e, w)
      | None \<Rightarrow>
          (case parse_s3_result_uri (terminal_result_uri run childID) of
             Inl e \<Rightarrow> (Inl e, w)
           | Inr (bucket, key) \<Rightarrow>
               (case get_object client bucket key w of
                  (Inl err, w') \<Rightarrow>
                    if is_s3_error (Some err) [''NoSuchKey'', ''NotFound''] then (Inr None, w')
                    else (Inl (Wrap (''get terminal result '' @ go_quote key @ '': '') (s3_cause err) []), w')
                | (Inr doc, w') \<Rightarrow>
                    (case decode_terminal_result doc run of
                       Inl e \<Rightarrow> (Inl e, w')
                     | Inr result \<Rightarrow> (Inr (Some result), w')))))"

definition s3_put_json_create_only :: "'w s3_client \<Rightarrow> string \<Rightarrow> attempt_result \<Rightarrow> 'w
    \<Rightarrow> (bool \<times> gerr option) \<times> 'w" where
  "s3_put_json_create_only client uri value w =
     (case parse_s3_result_uri uri of
        Inl e \<Rightarrow> ((False, Some e), w)
      | Inr (bucket, key) \<Rightarrow>
          (case put_object_if_none_match client bucket key (encode_document value) w of
             (err, w') \<Rightarrow>
               if is_s3_error err [''PreconditionFailed''] then ((False, None), w')
               else (case err of
                   Some e \<Rightarrow> ((False, Some (Wrap (''create result object '' @ go_quote key @ '': '') (s3_cause e) [])), w')
                 | None \<Rightarrow> ((True, None), w'))))"

definition s3_write_attempt_result :: "'w s3_client \<Rightarrow> bundle_run \<Rightarrow> attempt_result \<Rightarrow> 'w
    \<Rightarrow> gerr option \<times> 'w" where
  "s3_write_attempt_result client run result w =
     (case attempt_result_validate result run of
        Some e \<Rightarrow> (Some e, w)
      | None \<Rightarrow>
          (case s3_put_json_create_only client
             (attempt_result_uri run (ar_childID result) (ar_attemptID result)) result w of
             ((created, Some e), w') \<Rightarrow> (Some e, w')
           | ((created, None), w') \<Rightarrow>
               if \<not> created then (Some (Sentinel ErrResultExists), w') else (None, w')))"

definition s3_commit_terminal_result :: "'w s3_client \<Rightarrow> bundle_run \<Rightarrow> attempt_result \<Rightarrow> 'w
    \<Rightarrow> (bool \<times> gerr option) \<times> 'w" where
  "s3_commit_terminal_result client run result w =
     (case commit_guard run result of
        Some e \<Rightarrow> ((False, Some e), w)
      | None \<Rightarrow> s3_put_json_create_only client (terminal_result_uri run (ar_childID result)) result w)"

text \<open>\<open>NewResultStore\<close>: which store a configuration selects; \<open>load\<close> is the AWS SDK's
  configuration loading.\<close>

record result_store_config =
  rsc_backend :: string
  rsc_localRoot :: string
  rsc_region :: string
  rsc_endpoint :: string
  rsc_usePathStyle :: bool

datatype 'w result_store_choice = LocalStore local_result_store | S3Store "'w s3_client"

definition new_result_store :: "(string \<Rightarrow> string \<Rightarrow> bool \<Rightarrow> gerr + 'w s3_client) \<Rightarrow> result_store_config
    \<Rightarrow> gerr + 'w result_store_choice" where
  "new_result_store load cfg =
     (if rsc_backend cfg = [] \<or> rsc_backend cfg = ''local'' then
        (case new_local_result_store (rsc_localRoot cfg) of Inl e \<Rightarrow> Inl e | Inr s \<Rightarrow> Inr (LocalStore s))
      else if rsc_backend cfg = ''s3'' then
        (case load (rsc_region cfg) (rsc_endpoint cfg) (rsc_usePathStyle cfg) of
           Inl e \<Rightarrow> Inl (Wrap ''load AWS configuration: '' e [])
         | Inr c \<Rightarrow> Inr (S3Store c))
      else Inl (Opaque (''unsupported result store backend '' @ go_quote (rsc_backend cfg))))"

section \<open>Where results live\<close>

lemma cut_plain_None: "c \<notin> set s \<Longrightarrow> cut c s = (s, None)"
  by (induction s) auto

lemma unescape_path_plain: "CHR ''%'' \<notin> set s \<Longrightarrow> unescape_path s = Some s"
  by (induction s) auto

lemma unescape_path_append:
  "unescape_path (x @ CHR ''/'' # s) =
     (case unescape_path x of None \<Rightarrow> None | Some d \<Rightarrow> map_option (\<lambda>t. d @ CHR ''/'' # t) (unescape_path s))"
proof (induction x rule: unescape_path.induct)
  case 1
  then show ?case by (cases "unescape_path s") auto
next
  case (2 c x)
  have nh: "\<not> is_hex (CHR ''/'')" by (simp add: is_hex_def is_lower_hex_def)
  show ?case
  proof (cases "c = CHR ''%''")
    case True
    show ?thesis
    proof (cases x)
      case Nil
      then show ?thesis using True nh by (cases s) auto
    next
      case (Cons a x')
      then show ?thesis
      proof (cases x')
        case Nil
        then show ?thesis using True nh Cons by auto
      next
        case (Cons b rest)
        then show ?thesis using True 2(1) [OF True] \<open>x = a # x'\<close>
          by (cases "unescape_path rest"; cases "unescape_path s") auto
      qed
    qed
  next
    case False
    then show ?thesis using 2(2) [OF False] by (cases "unescape_path x"; cases "unescape_path s") auto
  qed
qed

definition plain_char :: "char \<Rightarrow> bool" where
  "plain_char c \<longleftrightarrow> \<not> is_ctl c \<and> c \<noteq> CHR ''%'' \<and> c \<noteq> CHR ''#'' \<and> c \<noteq> CHR ''?''"

definition plain :: "string \<Rightarrow> bool" where
  "plain s \<longleftrightarrow> list_all plain_char s"

lemma plain_append [simp]: "plain (s @ t) \<longleftrightarrow> plain s \<and> plain t"
  by (simp add: plain_def)

lemma plain_notin:
  "plain s \<Longrightarrow> CHR ''#'' \<notin> set s" "plain s \<Longrightarrow> CHR ''?'' \<notin> set s" "plain s \<Longrightarrow> CHR ''%'' \<notin> set s"
  "plain s \<Longrightarrow> \<not> list_ex is_ctl s"
  by (auto simp: plain_def plain_char_def list_all_iff list_ex_iff)

text \<open>The bucket and the unescaped key prefix that a store prefix \<open>s3://b/k/\<close> selects.\<close>

definition store_target :: "string \<Rightarrow> string \<Rightarrow> (string \<times> string) option" where
  "store_target b k =
     (if list_ex (\<lambda>c. is_ctl c \<or> c = CHR ''#'' \<or> c = CHR ''?'') (b @ k) then None
      else case (url_host b, unescape_path k) of
          (Some host, Some d) \<Rightarrow> if host = [] then None else Some (host, d)
        | _ \<Rightarrow> None)"

lemma takeWhile_slash: "CHR ''/'' \<notin> set b \<Longrightarrow> takeWhile (\<lambda>c. c \<noteq> CHR ''/'') (b @ CHR ''/'' # t) = b"
  and dropWhile_slash: "CHR ''/'' \<notin> set b \<Longrightarrow> dropWhile (\<lambda>c. c \<noteq> CHR ''/'') (b @ CHR ''/'' # t) = CHR ''/'' # t"
  by (induction b) auto

lemma s3_scheme: "url_scheme (''s3://'' @ t) = Some (''s3'', ''//'' @ t)"
  by (simp add: url_scheme_def is_alpha_def is_digit_def lower_char_def)

lemma cut_append_Some: "c \<in> set p \<Longrightarrow> \<exists>a b. cut c (p @ s) = (a, Some (b @ s))"
proof -
  assume "c \<in> set p"
  then obtain a b where "p = a @ c # b" "c \<notin> set a" by (meson split_list_first)
  then show ?thesis using cut_append [of c a "b @ s"] by auto
qed

lemma parse_store_uri:
  assumes b: "CHR ''/'' \<notin> set b" and s: "plain s" "s \<noteq> []"
  shows "(case store_target b k of
      None \<Rightarrow> \<exists>e. parse_s3_result_uri (''s3://'' @ b @ CHR ''/'' # k @ CHR ''/'' # s) = Inl e
    | Some (host, d) \<Rightarrow> parse_s3_result_uri (''s3://'' @ b @ CHR ''/'' # k @ CHR ''/'' # s)
        = Inr (host, d @ CHR ''/'' # s))"
proof -
  define p where "p = ''s3://'' @ b @ CHR ''/'' # k @ [CHR ''/'']"
  have raw: "''s3://'' @ b @ CHR ''/'' # k @ CHR ''/'' # s = p @ s" by (simp add: p_def)
  define rest where "rest = b @ CHR ''/'' # k @ CHR ''/'' # s"
  show ?thesis
  proof (cases "CHR ''#'' \<in> set (b @ k)")
    case True
    then have "CHR ''#'' \<in> set p" by (auto simp: p_def)
    from cut_append_Some [OF this, of s] obtain a f where "cut (CHR ''#'') (p @ s) = (a, Some (f @ s))" by blast
    then show ?thesis using True s(2) unfolding raw store_target_def parse_s3_result_uri_def
      by (auto simp: list_ex_iff Let_def)
  next
    case nohash: False
    then have c1: "cut (CHR ''#'') (p @ s) = (p @ s, None)"
      using plain_notin [OF s(1)] by (intro cut_plain_None) (auto simp: p_def)
    have sch: "url_scheme (p @ s) = Some (''s3'', ''//'' @ rest)"
      using s3_scheme [of rest] by (simp add: p_def rest_def)
    show ?thesis
    proof (cases "list_ex is_ctl (b @ k)")
      case True
      then have "list_ex is_ctl (p @ s)" by (auto simp: p_def list_ex_iff)
      then show ?thesis using True c1 unfolding raw store_target_def parse_s3_result_uri_def
        by (auto simp: list_ex_iff Let_def)
    next
      case noctl: False
      then have nc: "\<not> list_ex is_ctl (p @ s)"
        using plain_notin [OF s(1)] by (auto simp: p_def list_ex_iff is_ctl_def)
      show ?thesis
      proof (cases "CHR ''?'' \<in> set (b @ k)")
        case True
        then have "CHR ''?'' \<in> set (''//'' @ b @ CHR ''/'' # k @ [CHR ''/''])" by auto
        from cut_append_Some [OF this, of s] obtain a f where
          "cut (CHR ''?'') (''//'' @ rest) = (a, Some (f @ s))" by (auto simp: rest_def)
        then show ?thesis using True s(2) c1 sch nc unfolding raw store_target_def parse_s3_result_uri_def
          by (auto simp: list_ex_iff Let_def)
      next
        case noq: False
        then have c2: "cut (CHR ''?'') (''//'' @ rest) = (''//'' @ rest, None)"
          using plain_notin [OF s(1)] by (intro cut_plain_None) (auto simp: rest_def)
        have good: "\<not> list_ex (\<lambda>c. is_ctl c \<or> c = CHR ''#'' \<or> c = CHR ''?'') (b @ k)"
          using nohash noctl noq by (auto simp: list_ex_iff)
        have path: "unescape_path (CHR ''/'' # k @ CHR ''/'' # s) =
            map_option (\<lambda>d. CHR ''/'' # d @ CHR ''/'' # s) (unescape_path k)"
          using unescape_path_append [of k s] unescape_path_plain [OF plain_notin(3) [OF s(1)]]
          by (simp split: option.split)
        have key: "trim_prefix (CHR ''/'' # t) ''/'' = t" for t
          using trim_prefix_append [of "''/''" t] by simp
        have split: "takeWhile (\<lambda>c. c \<noteq> CHR ''/'') rest = b"
          "dropWhile (\<lambda>c. c \<noteq> CHR ''/'') rest = CHR ''/'' # k @ CHR ''/'' # s"
          using takeWhile_slash [OF b] dropWhile_slash [OF b] by (simp_all add: rest_def)
        have pre: "has_prefix (''//'' @ rest) ''//''" by (rule has_prefix_append)
        have dr: "drop 2 (''//'' @ rest) = rest" by simp
        show ?thesis
          unfolding raw parse_s3_result_uri_def Let_def c1 prod.case sch option.case
          using nc c2 pre split path key good unfolding dr store_target_def
          by (cases "url_host b"; cases "unescape_path k") (auto simp: Let_def)
      qed
    qed
  qed
qed

text \<open>The directory of a run's store below the local root, when the prefix names one.\<close>

definition store_base :: "local_result_store option \<Rightarrow> bundle_run \<Rightarrow> string list option" where
  "store_base st run =
     (case path_for_uri st (br_resultStore run @ ''x'') of Inl _ \<Rightarrow> None | Inr p \<Rightarrow> Some (butlast p))"

lemma valid_store_prefix:
  assumes "bundle_run_validate run = None"
  obtains b k where "br_resultStore run = ''s3://'' @ b @ CHR ''/'' # k @ [CHR ''/'']" "CHR ''/'' \<notin> set b"
proof -
  from assms obtain b k where v: "br_resultStore run = ''s3://'' @ b @ CHR ''/'' # k" "CHR ''/'' \<notin> set b"
      "k \<noteq> []" "has_suffix (br_resultStore run) ''/''"
    unfolding bundle_run_validate_None validate_s3_prefix_None by blast
  from v(4) obtain t where "br_resultStore run = t @ ''/''" by (auto simp: has_suffix_iff)
  then have "last (br_resultStore run) = CHR ''/''" by simp
  then have "last k = CHR ''/''" using v(1,3) by simp
  then have "k = butlast k @ [CHR ''/'']" using v(3) by (metis append_butlast_last_id)
  then show ?thesis using that v(1,2) by metis
qed

definition safe_name :: "string \<Rightarrow> bool" where
  "safe_name s \<longleftrightarrow> s \<noteq> [] \<and> plain s \<and> (\<forall>seg \<in> set (split_on (CHR ''/'') s). \<not> unsafe_local_path_segment seg)"

lemma path_in_store:
  assumes "bundle_run_validate run = None" "safe_name s"
  shows "(\<exists>e. store_base st run = None \<and> path_for_uri st (br_resultStore run @ s) = Inl e) \<or>
    (\<exists>base. store_base st run = Some base \<and>
       path_for_uri st (br_resultStore run @ s) = Inr (base @ split_on (CHR ''/'') s))"
proof -
  obtain b k where r: "br_resultStore run = ''s3://'' @ b @ CHR ''/'' # k @ [CHR ''/'']" "CHR ''/'' \<notin> set b"
    using valid_store_prefix [OF assms(1)] .
  have x: "plain ''x''" by (simp add: plain_def plain_char_def is_ctl_def)
  have xs: "\<not> unsafe_local_path_segment ''x''" by (simp add: unsafe_local_path_segment_def)
  have uri: "br_resultStore run @ t = ''s3://'' @ b @ CHR ''/'' # k @ CHR ''/'' # t" for t
    by (simp add: r)
  have s: "plain s" "s \<noteq> []" "\<not> list_ex unsafe_local_path_segment (split_on (CHR ''/'') s)"
    using assms(2) by (auto simp: safe_name_def list_ex_iff)
  show ?thesis
  proof (cases "st = None \<or> ls_root (the st) = []")
    case True
    then show ?thesis by (simp add: store_base_def path_for_uri_def)
  next
    case st: False
    show ?thesis
    proof (cases "store_target b k")
      case None
      obtain e1 where e1: "parse_s3_result_uri (br_resultStore run @ ''x'') = Inl e1"
        using parse_store_uri [OF r(2) x, of k] None unfolding uri by auto
      obtain e2 where e2: "parse_s3_result_uri (br_resultStore run @ s) = Inl e2"
        using parse_store_uri [OF r(2) s(1,2), of k] None unfolding uri by auto
      show ?thesis using st e1 e2 by (simp add: store_base_def path_for_uri_def)
    next
      case (Some hd)
      obtain h d where hd: "hd = (h, d)" by (cases hd)
      have p1: "parse_s3_result_uri (br_resultStore run @ ''x'') = Inr (h, d @ CHR ''/'' # ''x'')"
        using parse_store_uri [OF r(2) x, of k] Some hd unfolding uri by auto
      have p2: "parse_s3_result_uri (br_resultStore run @ s) = Inr (h, d @ CHR ''/'' # s)"
        using parse_store_uri [OF r(2) s(1,2), of k] Some hd unfolding uri by auto
      show ?thesis
        using st s xs unfolding store_base_def path_for_uri_def p1 p2
        by (auto simp: split_on_append_sep butlast_append)
    qed
  qed
qed

lemma plain_itoa [simp]: "plain (itoa c)"
proof -
  have "plain_char x" if "is_digit x \<or> x = CHR ''-''" for x
    using that by (auto simp: is_digit_def plain_char_def is_ctl_def)
  moreover have "\<forall>x \<in> set (utoa n). is_digit x" for n
    using utoa_digits [of n] by (simp add: list_all_iff)
  ultimately show ?thesis by (auto simp: itoa_def plain_def list_all_iff)
qed

lemma safe_itoa: "\<not> unsafe_local_path_segment (itoa c)"
proof -
  have "itoa c \<noteq> ''.''" "itoa c \<noteq> ''..''"
    using utoa_hd_digit [of "nat c"] by (auto simp: itoa_def is_digit_def)
  then show ?thesis by (simp add: unsafe_local_path_segment_def)
qed

lemma id_chars: "id_pattern s \<Longrightarrow> x \<in> set s \<Longrightarrow> id_tail x"
  by (auto simp: id_pattern_def id_tail_def list_all_iff split: list.splits)

lemma id_plain: assumes "id_pattern s" shows "plain s" "CHR ''/'' \<notin> set s"
proof -
  have "plain_char x \<and> x \<noteq> CHR ''/''" if "id_tail x" for x
    using that by (auto simp: id_tail_def id_head_def plain_char_def is_ctl_def Let_def)
  then show "plain s" "CHR ''/'' \<notin> set s"
    using id_chars [OF assms] by (auto simp: plain_def list_all_iff)
qed

lemma split_terminal:
  "split_on (CHR ''/'') (''children/'' @ itoa c @ ''/terminal.json'') = [''children'', itoa c, ''terminal.json'']"
  using split_on_append_sep [of "CHR ''/''" "''children''" "itoa c @ ''/terminal.json''"]
    split_on_append_sep [of "CHR ''/''" "itoa c" "''terminal.json''"] split_on_single [OF itoa_no_slash]
  by simp

lemma split_attempt:
  assumes "CHR ''/'' \<notin> set a"
  shows "split_on (CHR ''/'') (''children/'' @ itoa c @ ''/attempts/'' @ a @ ''.json'') =
    [''children'', itoa c, ''attempts'', a @ ''.json'']"
proof -
  have "split_on (CHR ''/'') (a @ ''.json'') = [a @ ''.json'']" using assms by (intro split_on_single) auto
  then show ?thesis
    using split_on_append_sep [of "CHR ''/''" "''children''" "itoa c @ ''/attempts/'' @ a @ ''.json''"]
      split_on_append_sep [of "CHR ''/''" "itoa c" "''attempts/'' @ a @ ''.json''"]
      split_on_append_sep [of "CHR ''/''" "''attempts''" "a @ ''.json''"] split_on_single [OF itoa_no_slash]
    by simp
qed

lemma plain_parts: "plain ''children/''" "plain ''/terminal.json''" "plain ''/attempts/''" "plain ''.json''"
  by (simp_all add: plain_def plain_char_def is_ctl_def)

lemma safe_terminal: "safe_name (''children/'' @ itoa c @ ''/terminal.json'')"
  unfolding safe_name_def split_terminal plain_append using plain_parts safe_itoa
  by (simp add: unsafe_local_path_segment_def)

lemma safe_attempt:
  assumes "id_pattern a"
  shows "safe_name (''children/'' @ itoa c @ ''/attempts/'' @ a @ ''.json'')"
  unfolding safe_name_def split_attempt [OF id_plain(2) [OF assms]] plain_append
  using plain_parts safe_itoa id_plain [OF assms] assms
  by (auto simp: unsafe_local_path_segment_def Cons_eq_append_conv append_eq_Cons_conv)

lemma run_paths:
  assumes "bundle_run_validate run = None"
  shows "case store_base st run of
      None \<Rightarrow> isl (path_for_uri st (terminal_result_uri run c)) \<and>
        (id_pattern a \<longrightarrow> isl (path_for_uri st (attempt_result_uri run c a)))
    | Some base \<Rightarrow>
        path_for_uri st (terminal_result_uri run c) = Inr (base @ [''children'', itoa c, ''terminal.json'']) \<and>
        (id_pattern a \<longrightarrow>
         path_for_uri st (attempt_result_uri run c a) = Inr (base @ [''children'', itoa c, ''attempts'', a @ ''.json'']))"
  using path_in_store [OF assms safe_terminal, of st c] path_in_store [OF assms safe_attempt, of a st c]
    split_attempt [OF id_plain(2), of a c]
  unfolding terminal_result_uri_def attempt_result_uri_def split_terminal
  by (auto split: option.split)

text \<open>For a valid run either no result URI of the run has a path below the local root, or
  all have: there is one directory for the run, and below it the terminal results and the
  attempt results of the children have the paths written here, so that no two of them
  coincide.\<close>

lemma result_paths:
  assumes "bundle_run_validate run = None"
  shows "(\<forall>c a. id_pattern a \<longrightarrow> isl (path_for_uri st (terminal_result_uri run c)) \<and>
      isl (path_for_uri st (attempt_result_uri run c a))) \<or>
    (\<exists>base. \<forall>c a. id_pattern a \<longrightarrow>
      path_for_uri st (terminal_result_uri run c) = Inr (base @ [''children'', itoa c, ''terminal.json'']) \<and>
      path_for_uri st (attempt_result_uri run c a) = Inr (base @ [''children'', itoa c, ''attempts'', a @ ''.json'']))"
proof (cases "store_base st run")
  case None
  then show ?thesis using run_paths [OF assms, of st] by (intro disjI1) auto
next
  case (Some base)
  then show ?thesis using run_paths [OF assms, of st] by (intro disjI2 exI [of _ base]) auto
qed

definition sample_store :: "local_result_store option" where
  "sample_store = Some \<lparr>ls_root = ''/var/results''\<rparr>"

lemma sample_store_base: "store_base sample_store sample_bundle_run = Some [''b'', ''p'']"
  by (simp add: store_base_def sample_store_def sample_bundle_run_def) code_simp

lemma result_paths_witness:
  "\<exists>base. path_for_uri sample_store (terminal_result_uri sample_bundle_run 7) =
     Inr (base @ [''children'', ''7'', ''terminal.json''])"
proof -
  have "itoa 7 = ''7''" "id_pattern ''abc''" by code_simp+
  moreover have "\<not> isl (path_for_uri sample_store (terminal_result_uri sample_bundle_run 7))"
    using run_paths [of sample_bundle_run sample_store 7] sample_store_base by auto
  ultimately show ?thesis using result_paths [of sample_bundle_run sample_store] by fastforce
qed

section \<open>Written once\<close>

text \<open>One call that may change a store: committing a terminal result or writing an attempt
  result, with what the environment does to the call.\<close>

datatype 'f store_call = Commit 'f attempt_result | WriteAttempt 'f attempt_result

text \<open>The contract of a result store towards its clients: what a child's terminal document is,
  and how the three operations of \<open>ResultStore\<close> relate to it.\<close>

locale result_store =
  fixes stored :: "'s \<Rightarrow> int \<Rightarrow> stored_document option"
    and commit :: "'f \<Rightarrow> attempt_result \<Rightarrow> 's \<Rightarrow> (bool \<times> gerr option) \<times> 's"
    and write_attempt :: "'f \<Rightarrow> attempt_result \<Rightarrow> 's \<Rightarrow> gerr option \<times> 's"
    and read :: "'f \<Rightarrow> int \<Rightarrow> 's \<Rightarrow> gerr + attempt_result option"
    and run :: bundle_run
  assumes commit_created: "commit f r s = ((True, e), s') \<Longrightarrow>
      stored s (ar_childID r) = None \<and> stored s' = (stored s)(ar_childID r \<mapsto> encode_document r)"
    and commit_not_created: "commit f r s = ((False, e), s') \<Longrightarrow> stored s' = stored s"
    and commit_exists: "commit f r s = ((False, None), s') \<Longrightarrow> stored s (ar_childID r) \<noteq> None"
    and commit_valid: "commit f r s = ((True, e), s') \<Longrightarrow> decode_terminal_result (encode_document r) run = Inr r"
    and write_keeps: "write_attempt f r s = (e, s') \<Longrightarrow> stored s' = stored s"
    and read_stored: "read f c s = Inr res \<Longrightarrow>
      (case res of None \<Rightarrow> stored s c = None
       | Some r \<Rightarrow> \<exists>doc. stored s c = Some doc \<and> decode_terminal_result doc run = Inr r)"
begin

definition call :: "'f store_call \<Rightarrow> 's \<Rightarrow> bool \<times> 's" where
  "call op s =
     (case op of
        Commit f r \<Rightarrow> (case commit f r s of ((created, e), s') \<Rightarrow> (created, s'))
      | WriteAttempt f r \<Rightarrow> (False, snd (write_attempt f r s)))"

definition calls :: "'f store_call list \<Rightarrow> 's \<Rightarrow> 's" where
  "calls ops s = foldl (\<lambda>s op. snd (call op s)) s ops"

lemma call_keeps: "stored s c = Some doc \<Longrightarrow> stored (snd (call op s)) c = Some doc"
proof (cases op)
  case (Commit f r)
  obtain created e s' where c: "commit f r s = ((created, e), s')" by (metis surj_pair)
  then show "stored s c = Some doc \<Longrightarrow> ?thesis"
    using Commit commit_created [of f r s e s'] commit_not_created [of f r s e s']
    by (cases created) (auto simp: call_def)
next
  case (WriteAttempt f r)
  then show "stored s c = Some doc \<Longrightarrow> ?thesis"
    using write_keeps [of f r s] by (simp add: call_def) (metis prod.collapse)
qed

lemma calls_keep: "stored s c = Some doc \<Longrightarrow> stored (calls ops s) c = Some doc"
  unfolding calls_def by (induction ops arbitrary: s) (auto intro: call_keeps)

text \<open>What was committed is what every later read finds.\<close>

lemma committed_is_read:
  assumes "commit f r s = ((True, e), s')" "read f' (ar_childID r) (calls ops s') = Inr res"
  shows "res = Some r"
proof -
  have "stored s' (ar_childID r) = Some (encode_document r)" using commit_created [OF assms(1)] by simp
  then have "stored (calls ops s') (ar_childID r) = Some (encode_document r)" by (rule calls_keep)
  then show ?thesis using read_stored [OF assms(2)] commit_valid [OF assms(1)]
    by (auto split: option.splits)
qed

text \<open>A child is committed at most once.\<close>

lemma committed_once:
  assumes "commit f r s = ((True, e), s')" "commit f' r' (calls ops s') = ((True, e'), s'')"
  shows "ar_childID r' \<noteq> ar_childID r"
proof
  assume eq: "ar_childID r' = ar_childID r"
  have "stored s' (ar_childID r) = Some (encode_document r)" using commit_created [OF assms(1)] by simp
  then have "stored (calls ops s') (ar_childID r) = Some (encode_document r)" by (rule calls_keep)
  then show False using commit_created [OF assms(2)] eq by simp
qed

text \<open>A commit that finds an object in its place leaves a result that a later read of the
  child reports, or an error.\<close>

lemma lost_commit_is_visible:
  assumes "commit f r s = ((False, None), s')" "read f' (ar_childID r) (calls ops s') = Inr res"
  shows "res \<noteq> None"
proof -
  obtain doc where "stored s (ar_childID r) = Some doc" using commit_exists [OF assms(1)] by auto
  then have "stored (calls ops s') (ar_childID r) = Some doc"
    using commit_not_created [OF assms(1)] calls_keep by simp
  then show ?thesis using read_stored [OF assms(2)] by (auto split: option.splits)
qed

end

text \<open>The local store keeps the contract. A call's environment is \<open>ctx.Err()\<close>, the failing
  system call of a write, and an error of opening a file.\<close>

type_synonym local_call_env = "gerr option \<times> write_fault \<times> gerr option"

definition local_stored :: "local_result_store option \<Rightarrow> bundle_run \<Rightarrow> local_fs \<Rightarrow> int \<Rightarrow> stored_document option" where
  "local_stored st run fs c =
     (case path_for_uri st (terminal_result_uri run c) of Inl _ \<Rightarrow> None | Inr p \<Rightarrow> fs p)"

definition local_commit :: "local_result_store option \<Rightarrow> bundle_run \<Rightarrow> local_call_env \<Rightarrow> attempt_result
    \<Rightarrow> local_fs \<Rightarrow> (bool \<times> gerr option) \<times> local_fs" where
  "local_commit st run env r fs = local_commit_terminal_result (fst env) (fst (snd env)) st run r fs"

definition local_write :: "local_result_store option \<Rightarrow> bundle_run \<Rightarrow> local_call_env \<Rightarrow> attempt_result
    \<Rightarrow> local_fs \<Rightarrow> gerr option \<times> local_fs" where
  "local_write st run env r fs = local_write_attempt_result (fst env) (fst (snd env)) st run r fs"

definition local_read :: "local_result_store option \<Rightarrow> bundle_run \<Rightarrow> local_call_env \<Rightarrow> int \<Rightarrow> local_fs
    \<Rightarrow> gerr + attempt_result option" where
  "local_read st run env c fs = local_terminal_result (fst env) (snd (snd env)) st run c fs"

lemma write_json_cases:
  "write_json_create_only fault path r fs = ((created, e), fs') \<Longrightarrow>
     (if created then fs path = None \<and> fs' = fs(path \<mapsto> encode_document r)
      else fs' = fs \<and> (e = None \<longrightarrow> fs path \<noteq> None))"
  by (cases fault; cases "fs path") (auto simp: write_json_create_only_def)

lemma result_valid_run: "attempt_result_validate r run = None \<Longrightarrow> bundle_run_validate run = None"
  by (simp add: attempt_result_validate_None)

lemma result_valid_id: "attempt_result_validate r run = None \<Longrightarrow> id_pattern (ar_attemptID r)"
  by (simp add: attempt_result_validate_None)

lemma terminal_paths_inject:
  assumes "bundle_run_validate run = None" "path_for_uri st (terminal_result_uri run c) = Inr p"
    "path_for_uri st (terminal_result_uri run c') = Inr p"
  shows "c' = c"
  using run_paths [OF assms(1), of st c "[]"] run_paths [OF assms(1), of st c' "[]"] assms(2,3)
  by (auto split: option.splits)

lemma attempt_path_not_terminal:
  assumes "bundle_run_validate run = None" "id_pattern a"
    "path_for_uri st (attempt_result_uri run c a) = Inr p"
  shows "path_for_uri st (terminal_result_uri run c') \<noteq> Inr p"
  using run_paths [OF assms(1), of st c a] run_paths [OF assms(1), of st c' "[]"] assms(2,3)
  by (auto split: option.splits)

lemma local_commit_cases:
  assumes "local_commit st run env r fs = ((created, e), fs')"
  shows "(fs' = fs \<and> \<not> created \<and> e \<noteq> None) \<or>
    (\<exists>p. commit_guard run r = None \<and> path_for_uri st (terminal_result_uri run (ar_childID r)) = Inr p \<and>
       (if created then fs p = None \<and> fs' = fs(p \<mapsto> encode_document r)
        else fs' = fs \<and> (e = None \<longrightarrow> fs p \<noteq> None)))"
proof (cases "first_err [fst env, commit_guard run r]")
  case None
  then have g: "commit_guard run r = None" by simp
  show ?thesis
  proof (cases "path_for_uri st (terminal_result_uri run (ar_childID r))")
    case (Inl x)
    then show ?thesis using assms None by (auto simp: local_commit_def local_commit_terminal_result_def)
  next
    case (Inr p)
    then have "write_json_create_only (fst (snd env)) p r fs = ((created, e), fs')"
      using assms None by (simp add: local_commit_def local_commit_terminal_result_def)
    from write_json_cases [OF this] g Inr show ?thesis by auto
  qed
next
  case (Some x)
  then show ?thesis using assms by (auto simp: local_commit_def local_commit_terminal_result_def)
qed

lemma local_stored_update:
  assumes "bundle_run_validate run = None" "path_for_uri st (terminal_result_uri run c) = Inr p"
  shows "local_stored st run (fs(p \<mapsto> d)) = (local_stored st run fs)(c \<mapsto> d)"
proof (rule ext)
  fix c'
  show "local_stored st run (fs(p \<mapsto> d)) c' = ((local_stored st run fs)(c \<mapsto> d)) c'"
  proof (cases "path_for_uri st (terminal_result_uri run c')")
    case (Inl x)
    then have "c' \<noteq> c" using assms(2) by auto
    then show ?thesis using Inl by (simp add: local_stored_def)
  next
    case (Inr q)
    then have "c' = c \<longleftrightarrow> q = p" using terminal_paths_inject [OF assms, of c'] assms(2) by auto
    then show ?thesis using Inr by (simp add: local_stored_def)
  qed
qed

lemma local_write_keeps:
  assumes "local_write st run env r fs = (e, fs')"
  shows "local_stored st run fs' = local_stored st run fs"
proof (cases "first_err [fst env, attempt_result_validate r run]")
  case (Some x)
  then show ?thesis using assms by (simp add: local_write_def local_write_attempt_result_def)
next
  case None
  then have v: "bundle_run_validate run = None" "id_pattern (ar_attemptID r)"
    using result_valid_run result_valid_id by auto
  show ?thesis
  proof (cases "path_for_uri st (attempt_result_uri run (ar_childID r) (ar_attemptID r))")
    case (Inl x)
    then show ?thesis using assms None by (simp add: local_write_def local_write_attempt_result_def)
  next
    case (Inr p)
    obtain created e1 fs1 where w: "write_json_create_only (fst (snd env)) p r fs = ((created, e1), fs1)"
      by (metis surj_pair)
    have "fs' = fs1" using assms None Inr w
      by (auto simp: local_write_def local_write_attempt_result_def split: option.splits if_splits)
    moreover have "fs1 = fs \<or> fs1 = fs(p \<mapsto> encode_document r)" using write_json_cases [OF w] by (auto split: if_splits)
    ultimately show ?thesis using attempt_path_not_terminal [OF v Inr]
      by (auto simp: local_stored_def fun_eq_iff split: sum.splits)
  qed
qed

lemma local_read_stored:
  "local_read st run env c fs = Inr res \<Longrightarrow>
     (case res of None \<Rightarrow> local_stored st run fs c = None
      | Some r \<Rightarrow> \<exists>doc. local_stored st run fs c = Some doc \<and> decode_terminal_result doc run = Inr r)"
  by (auto simp: local_read_def local_terminal_result_def local_stored_def
      split: option.splits sum.splits)

lemma commit_guard_decodes: "commit_guard run r = None \<Longrightarrow> decode_terminal_result (encode_document r) run = Inr r"
  by (simp add: commit_guard_def decode_terminal_result_def encode_document_def)

lemma commit_guard_run: "commit_guard run r = None \<Longrightarrow> bundle_run_validate run = None"
  by (auto simp: commit_guard_def intro: result_valid_run)

interpretation local_store: result_store "local_stored st run" "local_commit st run" "local_write st run"
  "local_read st run" run for st run
proof (unfold_locales, goal_cases)
  case (1 f r s e s')
  obtain p where p: "commit_guard run r = None"
    "path_for_uri st (terminal_result_uri run (ar_childID r)) = Inr p" "s p = None"
    "s' = s(p \<mapsto> encode_document r)"
    using local_commit_cases [OF 1] by auto
  then show ?case using local_stored_update [OF commit_guard_run [OF p(1)] p(2)]
    by (simp add: local_stored_def)
next
  case (2 f r s e s')
  then show ?case using local_commit_cases [OF 2] by auto
next
  case (3 f r s s')
  then show ?case using local_commit_cases [OF 3] by (auto simp: local_stored_def)
next
  case (4 f r s e s')
  then show ?case using local_commit_cases [OF 4] commit_guard_decodes by auto
next
  case (5 f r s e s')
  then show ?case by (rule local_write_keeps)
next
  case (6 f c s res)
  then show ?case by (rule local_read_stored)
qed

text \<open>A sequence of calls on the local store.\<close>

definition local_call :: "local_result_store option \<Rightarrow> bundle_run \<Rightarrow> local_fs \<Rightarrow> local_call_env store_call \<Rightarrow> local_fs" where
  "local_call st run fs op =
     (case op of
        Commit env r \<Rightarrow> snd (local_commit st run env r fs)
      | WriteAttempt env r \<Rightarrow> snd (local_write st run env r fs))"

lemma local_calls: "local_store.calls st run ops fs = foldl (local_call st run) fs ops"
proof -
  have "snd (local_store.call st run op fs) = local_call st run fs op" for op fs
    by (cases op) (simp_all add: local_store.call_def local_call_def split: prod.splits)
  then show ?thesis by (simp add: local_store.calls_def)
qed

lemma s3_json_suffix:
  assumes "bundle_run_validate run = None" "s = t @ ''.json''"
  shows "validate_s3_json_uri (br_resultStore run @ s) path = None"
proof -
  obtain b k where r: "br_resultStore run = ''s3://'' @ b @ CHR ''/'' # k @ [CHR ''/'']" "CHR ''/'' \<notin> set b"
    using valid_store_prefix [OF assms(1)] .
  have "b \<noteq> []"
  proof
    assume "b = []"
    moreover obtain b' k' where "br_resultStore run = ''s3://'' @ b' @ CHR ''/'' # k'" "CHR ''/'' \<notin> set b'" "b' \<noteq> []"
      using assms(1) unfolding bundle_run_validate_None validate_s3_prefix_None by blast
    ultimately show False using r(1) by (cases b') auto
  qed
  moreover have "br_resultStore run @ s = ''s3://'' @ b @ CHR ''/'' # (k @ CHR ''/'' # s)" using r(1) by simp
  moreover have "has_suffix (br_resultStore run @ s) ''.json''"
    unfolding assms(2) append_assoc [symmetric] by (rule has_suffix_append)
  ultimately show ?thesis unfolding validate_s3_json_uri_None using r(2)
    by (intro exI [of _ b] exI [of _ "k @ CHR ''/'' # s"]) simp
qed

lemma terminal_uri_ok:
  "bundle_run_validate run = None \<Longrightarrow> validate_s3_json_uri (terminal_result_uri run c) path = None"
  unfolding terminal_result_uri_def
  by (rule s3_json_suffix [where t = "''children/'' @ itoa c @ ''/terminal''"]) simp_all

lemma terminal_uri_ne [simp]: "terminal_result_uri run c \<noteq> []"
  by (simp add: terminal_result_uri_def)

definition sample_committed :: attempt_result where
  "sample_committed = \<lparr>ar_runID = ''run-1'', ar_bundleDigest = sample_digest, ar_childID = 0,
     ar_attemptID = ''run-1'', ar_agentID = ''agent-1'', ar_shardID = ''run-1-shard-0000'',
     ar_status = ''succeeded'', ar_startedAt = 1, ar_finishedAt = 2, ar_timingsMS = zero_timings,
     ar_terminal = True, ar_resultURI = terminal_result_uri sample_bundle_run 0, ar_output = None,
     ar_error = None\<rparr>"

lemma sample_committed_valid: "commit_guard sample_bundle_run sample_committed = None"
  using terminal_uri_ok [of sample_bundle_run 0]
  by (simp add: commit_guard_def attempt_result_validate_None attempt_timings_validate_None)
    (simp add: sample_committed_def attempt_status_defs valid_attempt_status_def zero_timings_def
      sample_bundle_run_def range_end_def in64_def)

lemma sample_commit:
  "local_commit_terminal_result None WriteOk sample_store sample_bundle_run sample_committed Map.empty =
     ((True, None), [[''b'', ''p'', ''children'', ''0'', ''terminal.json''] \<mapsto> encode_document sample_committed])"
proof -
  have "itoa 0 = ''0''" by code_simp
  then have "path_for_uri sample_store (terminal_result_uri sample_bundle_run 0) =
      Inr [''b'', ''p'', ''children'', ''0'', ''terminal.json'']"
    using run_paths [of sample_bundle_run sample_store 0 "[]"] sample_store_base by simp
  moreover have "ar_childID sample_committed = 0" by (simp add: sample_committed_def)
  ultimately show ?thesis
    by (simp add: local_commit_terminal_result_def sample_committed_valid write_json_create_only_def)
qed

text \<open>C12: a terminal result committed to the local store is what every later read of the
  child reports, or an error, and no later commit of the child succeeds, whatever commits and
  attempt writes of the run happen in between and whichever of their system calls fail.\<close>

theorem terminal_written_once:
  assumes "local_commit_terminal_result ctx fault st run r fs = ((True, e), fs')"
  shows "(\<forall>res. local_terminal_result ctx' open_fault st run (ar_childID r)
        (foldl (local_call st run) fs' ops) = Inr res \<longrightarrow> res = Some r) \<and>
    (ar_childID r' = ar_childID r \<longrightarrow>
      \<not> fst (fst (local_commit_terminal_result ctx' fault' st run r' (foldl (local_call st run) fs' ops))))"
proof -
  have c: "local_commit st run (ctx, fault, None) r fs = ((True, e), fs')"
    using assms by (simp add: local_commit_def)
  have "res = Some r" if "local_terminal_result ctx' open_fault st run (ar_childID r)
      (foldl (local_call st run) fs' ops) = Inr res" for res
    using local_store.committed_is_read [OF c, of "(ctx', WriteOk, open_fault)" ops res] that
    by (simp add: local_read_def local_calls)
  moreover have "\<not> fst (fst (local_commit_terminal_result ctx' fault' st run r' (foldl (local_call st run) fs' ops)))"
    if "ar_childID r' = ar_childID r"
    using local_store.committed_once [OF c, of "(ctx', fault', None)" r' ops] that
    by (cases "local_commit_terminal_result ctx' fault' st run r' (foldl (local_call st run) fs' ops)")
      (auto simp: local_commit_def local_calls)
  ultimately show ?thesis by blast
qed

theorem terminal_written_once_witness:
  "\<not> fst (fst (local_commit_terminal_result None WriteOk sample_store sample_bundle_run sample_committed
     [[''b'', ''p'', ''children'', ''0'', ''terminal.json''] \<mapsto> encode_document sample_committed]))"
  using terminal_written_once [OF sample_commit, of None None "[]" sample_committed WriteOk] by simp

text \<open>A commit that finds an object in the child's place is a commit some caller made
  before: a later read reports a result or an error, never that there is none.\<close>

lemma lost_commit_visible:
  assumes "local_commit_terminal_result ctx fault st run r fs = ((False, None), fs')"
  shows "local_terminal_result ctx' open_fault st run (ar_childID r) (foldl (local_call st run) fs' ops) \<noteq> Inr None"
proof -
  have "local_commit st run (ctx, fault, None) r fs = ((False, None), fs')"
    using assms by (simp add: local_commit_def)
  from local_store.lost_commit_is_visible [OF this, of "(ctx', WriteOk, open_fault)" ops None]
  show ?thesis by (auto simp: local_read_def local_calls)
qed

theorem lost_commit_visible_witness:
  "local_terminal_result None None sample_store sample_bundle_run 0
     [[''b'', ''p'', ''children'', ''0'', ''terminal.json''] \<mapsto> encode_document sample_committed] \<noteq> Inr None"
proof -
  define fs :: local_fs where
    "fs = [[''b'', ''p'', ''children'', ''0'', ''terminal.json''] \<mapsto> encode_document sample_committed]"
  have zero: "ar_childID sample_committed = 0" by (simp add: sample_committed_def)
  have "itoa 0 = ''0''" by code_simp
  then have "path_for_uri sample_store (terminal_result_uri sample_bundle_run 0) =
      Inr [''b'', ''p'', ''children'', ''0'', ''terminal.json'']"
    using run_paths [of sample_bundle_run sample_store 0 "[]"] sample_store_base by simp
  then have "local_commit_terminal_result None WriteOk sample_store sample_bundle_run sample_committed fs =
      ((False, None), fs)"
    using zero by (simp add: local_commit_terminal_result_def sample_committed_valid write_json_create_only_def fs_def)
  from lost_commit_visible [OF this, of None None "[]"] zero show ?thesis by (simp add: fs_def)
qed

text \<open>the terminal result URI of a valid run passes the URI check of
  \<open>AttemptResult.Validate\<close>.\<close>

lemma terminal_uri_valid:
  assumes "bundle_run_validate run = None"
  shows "validate_s3_json_uri (terminal_result_uri run c) path = None"
  using assms by (rule terminal_uri_ok)

lemma terminal_uri_valid_witness:
  "validate_s3_json_uri (terminal_result_uri sample_bundle_run 3) [] = None"
  by (rule terminal_uri_valid) simp

section \<open>The S3 store\<close>

text \<open>If the S3 service keeps its documented promise about \<open>If-None-Match: *\<close> (a put
  without an error found no object and made one), then a commit the S3 store reports as
  created found no object under the child's key and left the encoded result there, for a
  result that is valid, terminal and carries its own URI.\<close>

lemma s3_commit_creates:
  assumes put: "\<And>b k d w w'. put_object_if_none_match client b k d w = (None, w') \<Longrightarrow>
      objects w (b, k) = None \<and> objects w' = (objects w)((b, k) \<mapsto> d)"
    and commit: "s3_commit_terminal_result client run r w = ((True, e), w')"
  shows "\<exists>bk. parse_s3_result_uri (ar_resultURI r) = Inr bk \<and> objects w bk = None \<and>
    objects w' = (objects w)(bk \<mapsto> encode_document r) \<and> e = None \<and>
    decode_terminal_result (encode_document r) run = Inr r"
proof -
  have g: "commit_guard run r = None"
    using commit by (auto simp: s3_commit_terminal_result_def split: option.splits)
  then have uri: "ar_resultURI r = terminal_result_uri run (ar_childID r)" by (auto simp: commit_guard_def)
  have p: "s3_put_json_create_only client (terminal_result_uri run (ar_childID r)) r w = ((True, e), w')"
    using commit g by (simp add: s3_commit_terminal_result_def)
  obtain b k where bk: "parse_s3_result_uri (terminal_result_uri run (ar_childID r)) = Inr (b, k)"
    using p by (auto simp: s3_put_json_create_only_def split: sum.splits)
  obtain err w1 where w: "put_object_if_none_match client b k (encode_document r) w = (err, w1)" by fastforce
  have "err = None" "w1 = w'" "e = None"
    using p bk w by (auto simp: s3_put_json_create_only_def split: if_splits option.splits)
  then show ?thesis using put w bk uri commit_guard_decodes [OF g] by auto
qed

definition object_map_client :: "(string \<times> string \<rightharpoonup> stored_document) s3_client" where
  "object_map_client =
     \<lparr>get_object = (\<lambda>b k w. case w (b, k) of
        None \<Rightarrow> (Inl (ApiError ''NoSuchKey'' (Opaque ''no such key'')), w) | Some d \<Rightarrow> (Inr d, w)),
      put_object_if_none_match = (\<lambda>b k d w. if w (b, k) = None then (None, w((b, k) \<mapsto> d))
        else (Some (ApiError ''PreconditionFailed'' (Opaque ''precondition failed'')), w))\<rparr>"

lemma s3_commit_creates_witness:
  "\<exists>bk. parse_s3_result_uri (ar_resultURI sample_committed) = Inr bk \<and>
     snd (s3_commit_terminal_result object_map_client sample_bundle_run sample_committed Map.empty) bk =
       Some (encode_document sample_committed)"
proof -
  have "parse_s3_result_uri (terminal_result_uri sample_bundle_run 0) = Inr (''b'', ''p/children/0/terminal.json'')"
    by code_simp
  then have c: "s3_commit_terminal_result object_map_client sample_bundle_run sample_committed Map.empty =
      ((True, None), [(''b'', ''p/children/0/terminal.json'') \<mapsto> encode_document sample_committed])"
    by (simp add: s3_commit_terminal_result_def sample_committed_valid s3_put_json_create_only_def
        object_map_client_def is_s3_error_def)
      (simp add: sample_committed_def is_s3_error_def)
  have put: "w (b, k) = None \<and> w' = w((b, k) \<mapsto> d)"
    if "put_object_if_none_match object_map_client b k d w = (None, w')" for b k d w w'
    using that by (auto simp: object_map_client_def split: if_splits)
  obtain bk where "parse_s3_result_uri (ar_resultURI sample_committed) = Inr bk"
    and w: "[(''b'', ''p/children/0/terminal.json'') \<mapsto> encode_document sample_committed] =
      Map.empty(bk \<mapsto> encode_document sample_committed)"
    using s3_commit_creates [of object_map_client "\<lambda>w. w", OF put c] by blast
  then show ?thesis unfolding c snd_conv w by auto
qed

end
