(* ===== verification/MachineContract.thy ===== *)
theory MachineContract
  imports Samples
begin

text \<open>
  \<open>internal/agent/machine.go\<close>: the documents of the \<open>spore\<close> command line contract and
  their validators. A \<open>uint32\<close> or \<open>uint64\<close> field is a word of that width. The results
  of the JSON library's decoding of a document are arguments, an error text or the
  document; the stream of \<open>DecodeRunEvents\<close> is the list of its \<open>Decode\<close> results up to
  \<open>io.EOF\<close>. The error types \<open>MachineErrorBody\<close>, \<open>MachineErrorEnvelope\<close>, \<open>MachineError\<close>
  are in \<open>GoErrors\<close>.
\<close>

section \<open>Documents\<close>

definition versionSchema :: string where "versionSchema = ''spore.version.result.v1''"
definition hostInfoV2Schema :: string where "hostInfoV2Schema = ''spore.host-info.v2''"
definition hostInfoV3Schema :: string where "hostInfoV3Schema = ''spore.host-info.v3''"
definition lifecycleSchema :: string where "lifecycleSchema = ''spore.lifecycle.v1''"
definition inspectBundleSchema :: string where "inspectBundleSchema = ''spore.bundle.inspect.v1''"
definition pullResultSchema :: string where "pullResultSchema = ''spore.pull.result.v1''"
definition removeSavedV1Schema :: string where "removeSavedV1Schema = ''spore.saved.remove.result.v1''"
definition removeSavedV2Schema :: string where "removeSavedV2Schema = ''spore.saved.remove.result.v2''"
definition cacheGCV1Schema :: string where "cacheGCV1Schema = ''spore.cache.gc.result.v1''"
definition cacheGCV2Schema :: string where "cacheGCV2Schema = ''spore.cache.gc.result.v2''"
definition errorSchema :: string where "errorSchema = ''spore.error.v1''"
definition runEventsSchema :: string where "runEventsSchema = ''spore.automation.event.v1''"
definition schemaVersion :: int where "schemaVersion = 1"

text \<open>\<open>%q v%d\<close>\<close>

definition schema_text :: "string \<Rightarrow> int \<Rightarrow> string" where
  "schema_text schema version = go_quote schema @ '' v'' @ itoa version"

record version_result =
  vr_schema :: string
  vr_schema_version :: int
  vr_version :: string
  vr_build_mode :: string

definition version_result_validate :: "version_result \<Rightarrow> gerr option" where
  "version_result_validate r = first_err
     [check (vr_schema r \<noteq> versionSchema \<or> vr_schema_version r \<noteq> schemaVersion)
        (invalid_machine_output (''version schema = '' @ schema_text (vr_schema r) (vr_schema_version r))),
      check (vr_version r = []) (invalid_machine_output ''version is empty'')]"

record platform_facts =
  pf_os :: string
  pf_arch :: string
  pf_cpu_profile :: string
  pf_device_model_version :: "32 word"
  pf_ram_base :: "64 word"
  pf_gic_dist_base :: "64 word"
  pf_gic_redist_base :: "64 word"
  pf_counter_frequency_source :: string
  pf_counter_frequency_hz :: "64 word"

record backend_availability =
  ba_name :: string
  ba_supported :: bool
  ba_available :: bool
  ba_reason :: string

record path_fact =
  path_path :: "string option"
  path_resolved :: bool
  path_source :: string

record cache_roots =
  cr_kernels :: path_fact
  cr_rootfs :: path_fact
  cr_bundles :: path_fact
  cr_runtime :: path_fact

record host_info =
  hi_schema :: string
  hi_schema_version :: int
  hi_host_class :: string
  hi_platform :: platform_facts
  hi_backends :: "backend_availability list"
  hi_cache_roots :: cache_roots

text \<open>The v3 platform: one optional variant per architecture.\<close>

record host_info_v3_arm64 =
  v3a_os :: string
  v3a_cpu_profile :: string
  v3a_device_model_version :: "32 word"
  v3a_ram_base :: "64 word"
  v3a_distributor_base :: "64 word"
  v3a_redistributor_base :: "64 word"
  v3a_counter_source :: string
  v3a_counter_frequency_hz :: "64 word"

record host_info_v3_amd64 =
  v3x_os :: string
  v3x_cpu_profile :: string
  v3x_device_model_version :: "32 word"
  v3x_ram_base :: "64 word"

record host_info_v3_platform =
  v3_arm64 :: "host_info_v3_arm64 option"
  v3_amd64 :: "host_info_v3_amd64 option"

record host_info_v3 =
  v3_schema :: string
  v3_schema_version :: int
  v3_host_class :: string
  v3_architecture :: string
  v3_platform :: host_info_v3_platform
  v3_backends :: "backend_availability list"
  v3_cache_roots :: cache_roots

definition normalize_machine_architecture :: "string \<Rightarrow> string" where
  "normalize_machine_architecture architecture =
     (if architecture = ''arm64'' then ''aarch64''
      else if architecture = ''amd64'' then ''x86_64'' else architecture)"

definition v3_normalize :: "host_info_v3_platform \<Rightarrow> string \<Rightarrow> gerr + platform_facts" where
  "v3_normalize p architecture =
     (if architecture = ''arm64'' then
        (case (v3_arm64 p, v3_amd64 p) of
           (Some a, None) \<Rightarrow> Inr
             \<lparr>pf_os = v3a_os a, pf_arch = ''aarch64'', pf_cpu_profile = v3a_cpu_profile a,
              pf_device_model_version = v3a_device_model_version a, pf_ram_base = v3a_ram_base a,
              pf_gic_dist_base = v3a_distributor_base a, pf_gic_redist_base = v3a_redistributor_base a,
              pf_counter_frequency_source = v3a_counter_source a,
              pf_counter_frequency_hz = v3a_counter_frequency_hz a\<rparr>
         | _ \<Rightarrow> Inl (invalid_machine_output ''host-info v3 arm64 platform variant is invalid''))
      else if architecture = ''amd64'' then
        (case (v3_amd64 p, v3_arm64 p) of
           (Some x, None) \<Rightarrow> Inr
             \<lparr>pf_os = v3x_os x, pf_arch = ''x86_64'', pf_cpu_profile = v3x_cpu_profile x,
              pf_device_model_version = v3x_device_model_version x, pf_ram_base = v3x_ram_base x,
              pf_gic_dist_base = 0, pf_gic_redist_base = 0, pf_counter_frequency_source = [],
              pf_counter_frequency_hz = 0\<rparr>
         | _ \<Rightarrow> Inl (invalid_machine_output ''host-info v3 amd64 platform variant is invalid''))
      else Inl (invalid_machine_output (''host-info v3 architecture = '' @ go_quote architecture)))"

text \<open>\<open>HostInfo.UnmarshalJSON\<close>; the three arguments are the library's decodings of one
  document as its header, as the v2 layout and as the v3 layout.\<close>

definition host_info_unmarshal :: "string + string \<times> int \<Rightarrow> string + host_info \<Rightarrow> string + host_info_v3
    \<Rightarrow> gerr + host_info" where
  "host_info_unmarshal header as_v2 as_v3 =
     (case header of
        Inl msg \<Rightarrow> Inl (Opaque msg)
      | Inr (schema, version) \<Rightarrow>
          if schema = hostInfoV2Schema \<and> version = 2 then
            (case as_v2 of
               Inl msg \<Rightarrow> Inl (Opaque msg)
             | Inr d \<Rightarrow> Inr (d\<lparr>hi_platform := (hi_platform d)
                 \<lparr>pf_arch := normalize_machine_architecture (pf_arch (hi_platform d))\<rparr>\<rparr>))
          else if schema = hostInfoV3Schema \<and> version = 3 then
            (case as_v3 of
               Inl msg \<Rightarrow> Inl (Opaque msg)
             | Inr d \<Rightarrow>
                 (case v3_normalize (v3_platform d) (v3_architecture d) of
                    Inl e \<Rightarrow> Inl e
                  | Inr platform \<Rightarrow> Inr
                      \<lparr>hi_schema = v3_schema d, hi_schema_version = v3_schema_version d,
                       hi_host_class = v3_host_class d, hi_platform = platform,
                       hi_backends = v3_backends d, hi_cache_roots = v3_cache_roots d\<rparr>))
          else Inl (invalid_machine_output (''host-info schema = '' @ schema_text schema version)))"

definition host_info_validate :: "host_info \<Rightarrow> gerr option" where
  "host_info_validate h = first_err
     [check ((hi_schema h \<noteq> hostInfoV2Schema \<or> hi_schema_version h \<noteq> 2) \<and>
             (hi_schema h \<noteq> hostInfoV3Schema \<or> hi_schema_version h \<noteq> 3))
        (invalid_machine_output (''host-info schema = '' @ schema_text (hi_schema h) (hi_schema_version h))),
      check (hi_host_class h = []) (invalid_machine_output ''host-info host_class is empty''),
      check (pf_arch (hi_platform h) = [] \<or> pf_cpu_profile (hi_platform h) = [])
        (invalid_machine_output ''host-info platform is incomplete'')]"

definition available_backend :: "host_info \<Rightarrow> string \<Rightarrow> backend_availability option" where
  "available_backend h name =
     find (\<lambda>b. ba_name b = name \<and> ba_supported b \<and> ba_available b) (hi_backends h)"

definition fleet_host_class :: "host_info \<Rightarrow> string \<Rightarrow> gerr + host_class" where
  "fleet_host_class h backend =
     (case host_info_validate h of
        Some e \<Rightarrow> Inl e
      | None \<Rightarrow>
          (case available_backend h backend of
             None \<Rightarrow> Inl (errorf ErrInvalidMachineOutput (''backend '' @ go_quote backend @ '' is not available''))
           | Some _ \<Rightarrow>
               let p = hi_platform h;
                   v = utoa (unat (pf_device_model_version p));
                   hostClass = \<lparr>hc_id = hi_host_class h @ ''-'' @ pf_cpu_profile p @ ''-v'' @ v,
                     hc_platformVersion = ''v0'', hc_architecture = pf_arch p, hc_backend = backend,
                     hc_cpuProfile = pf_cpu_profile p,
                     hc_deviceModel = ''sporevm-'' @ pf_arch p @ ''-v'' @ v\<rparr>
               in case host_class_validate hostClass ''hostClass'' of
                    Some e \<Rightarrow> Inl (errorf ErrInvalidMachineOutput
                      (''unsupported fleet host class: '' @ err_text e))
                  | None \<Rightarrow> Inr hostClass))"

record digest_ref =
  dr_algorithm :: string
  dr_hex :: string

definition digest_string :: "digest_ref \<Rightarrow> string" where
  "digest_string d = (if dr_algorithm d = [] \<or> dr_hex d = [] then [] else dr_algorithm d @ '':'' @ dr_hex d)"

record cache_state =
  cs_hit_count :: int
  cs_miss_count :: int
  cs_bytes_fetched :: int

record chunk_materialization_summary =
  cm_chunk_count :: int
  cm_materialized_chunk_count :: int
  cm_payload_bytes :: int
  cm_linked_chunk_count :: int
  cm_copied_chunk_count :: int
  cm_cache :: cache_state

record rootfs_materialization_summary =
  rm_artifact_count :: int
  rm_payload_bytes :: int
  rm_cache :: cache_state

record child_range_selection =
  crs_start :: int
  crs_end :: int

record inspect_bundle_request =
  ibq_source :: string
  ibq_childID :: string
  ibq_childRange :: "child_range_selection option"

definition inspect_bundle_request_validate :: "inspect_bundle_request \<Rightarrow> gerr option" where
  "inspect_bundle_request_validate r = first_err
     [check (ibq_source r = []) (invalid_spore_request ''inspect-bundle source is required''),
      check (ibq_childID r \<noteq> [] \<and> ibq_childRange r \<noteq> None)
        (invalid_spore_request ''inspect-bundle cannot select both child id and child range''),
      check (case ibq_childRange r of None \<Rightarrow> False | Some c \<Rightarrow> crs_start c < 0 \<or> crs_start c \<ge> crs_end c)
        (invalid_spore_request ''inspect-bundle child range must be non-empty and non-negative'')]"

record chunkpack_summary =
  ck_chunk_count :: int
  ck_pack_count :: int
  ck_payload_bytes :: int

record bundle_child_summary =
  bc_id :: string
  bc_manifest :: string

record bundle_selection_summary =
  bs_kind :: string
  bs_selected_count :: int
  bs_children :: "bundle_child_summary list"

record rootfs_bundle_summary =
  rb_artifact_count :: int
  rb_exact_bytes_count :: int
  rb_metadata_only_count :: int
  rb_payload_bytes :: int

record inspect_bundle_result =
  ibr_schema :: string
  ibr_schema_version :: int
  ibr_source :: string
  ibr_bundle_dir :: string
  ibr_bundle_digest :: digest_ref
  ibr_parent_manifest :: string
  ibr_chunkpack_index :: string
  ibr_chunkpack :: chunkpack_summary
  ibr_child_count :: int
  ibr_children :: "bundle_child_summary list"
  ibr_selection :: bundle_selection_summary
  ibr_rootfs :: rootfs_bundle_summary

definition inspect_bundle_result_validate :: "inspect_bundle_result \<Rightarrow> gerr option" where
  "inspect_bundle_result_validate r = first_err
     [check (ibr_schema r \<noteq> inspectBundleSchema \<or> ibr_schema_version r \<noteq> schemaVersion)
        (invalid_machine_output (''inspect-bundle schema = '' @ schema_text (ibr_schema r) (ibr_schema_version r))),
      check (digest_string (ibr_bundle_digest r) = [])
        (invalid_machine_output ''inspect-bundle bundle_digest is empty'')]"

record pull_request =
  plq_source :: string
  plq_outDir :: string
  plq_childID :: string
  plq_region :: string
  plq_allowMetadataOnlyRootFS :: bool

definition pull_request_validate :: "pull_request \<Rightarrow> gerr option" where
  "pull_request_validate r = first_err
     [check (plq_source r = []) (invalid_spore_request ''pull source is required''),
      check (plq_outDir r = []) (invalid_spore_request ''pull out dir is required'')]"

record remote_bundle_cache =
  rbc_cache_hit :: bool
  rbc_origin_bytes_read :: int
  rbc_peer_bytes_read :: int

record bundle_children_summary =
  bch_count :: int
  bch_selected_child :: "string option"

record pull_result =
  plr_schema :: string
  plr_schema_version :: int
  plr_source :: string
  plr_bundle_dir :: string
  plr_out_dir :: string
  plr_bundle_digest :: digest_ref
  plr_materialization :: chunk_materialization_summary
  plr_rootfs :: rootfs_materialization_summary
  plr_remote :: remote_bundle_cache
  plr_children :: bundle_children_summary

definition pull_result_validate :: "pull_result \<Rightarrow> gerr option" where
  "pull_result_validate r = first_err
     [check (plr_schema r \<noteq> pullResultSchema \<or> plr_schema_version r \<noteq> schemaVersion)
        (invalid_machine_output (''pull schema = '' @ schema_text (plr_schema r) (plr_schema_version r))),
      check (digest_string (plr_bundle_digest r) = []) (invalid_machine_output ''pull bundle_digest is empty''),
      check (plr_out_dir r = []) (invalid_machine_output ''pull out_dir is empty'')]"

text \<open>The loop over a command's arguments shared by three requests: \<open>what\<close> is the
  request's name in the message.\<close>

fun request_args_validate :: "string \<Rightarrow> nat \<Rightarrow> string list \<Rightarrow> gerr option" where
  "request_args_validate what i [] = None"
| "request_args_validate what i (arg # args) =
     (if arg = [] then
        Some (invalid_spore_request (what @ '' command['' @ itoa (int i) @ ''] must not be empty''))
      else request_args_validate what (Suc i) args)"

record run_capture_request =
  rcq_image :: string
  rcq_captureDir :: string
  rcq_captureSignal :: string
  rcq_readyMarker :: string
  rcq_backend :: string
  rcq_memory :: string
  rcq_command :: "string list"

definition run_capture_request_validate :: "run_capture_request \<Rightarrow> gerr option" where
  "run_capture_request_validate r = first_err
     [check (rcq_image r = []) (invalid_spore_request ''run capture image is required''),
      check (rcq_captureDir r = []) (invalid_spore_request ''run capture dir is required''),
      check (rcq_command r = []) (invalid_spore_request ''run capture command is required''),
      request_args_validate ''run capture'' 0 (rcq_command r),
      (if rcq_captureSignal r = [] \<and> rcq_readyMarker r = [] then None
       else first_err
         [check (rcq_captureSignal r = [])
            (invalid_spore_request ''run capture signal is required when ready marker is set''),
          check (rcq_readyMarker r = [])
            (invalid_spore_request ''run capture ready marker is required when capture signal is set'')])]"

record fork_request =
  fkq_parentDir :: string
  fkq_count :: int
  fkq_outDir :: string

definition fork_request_validate :: "fork_request \<Rightarrow> gerr option" where
  "fork_request_validate r = first_err
     [check (fkq_parentDir r = []) (invalid_spore_request ''fork parent dir is required''),
      check (fkq_count r < 1) (invalid_spore_request ''fork count must be >= 1''),
      check (fkq_outDir r = []) (invalid_spore_request ''fork out dir is required'')]"

record pack_request =
  pkq_parentDir :: string
  pkq_childrenDir :: string
  pkq_outDir :: string

definition pack_request_validate :: "pack_request \<Rightarrow> gerr option" where
  "pack_request_validate r = first_err
     [check (pkq_parentDir r = []) (invalid_spore_request ''pack parent dir is required''),
      check (pkq_childrenDir r = []) (invalid_spore_request ''pack children dir is required''),
      check (pkq_outDir r = []) (invalid_spore_request ''pack out dir is required'')]"

record resume_request =
  rsq_sporeDir :: string
  rsq_backend :: string
  rsq_generationPath :: string

definition resume_request_validate :: "resume_request \<Rightarrow> gerr option" where
  "resume_request_validate r = check (rsq_sporeDir r = []) (invalid_spore_request ''resume spore dir is required'')"

record restore_named_request =
  rnq_sporeDir :: string
  rnq_backend :: string
  rnq_generationPath :: string
  rnq_name :: string

definition restore_named_request_validate :: "restore_named_request \<Rightarrow> gerr option" where
  "restore_named_request_validate r = first_err
     [check (rnq_sporeDir r = []) (invalid_spore_request ''named restore spore dir is required''),
      check (rnq_name r = []) (invalid_spore_request ''named restore VM name is required'')]"

record named_lifecycle_timing =
  nlt_prepare_ms :: "64 word"
  nlt_spawn_monitor_ms :: "64 word"
  nlt_wait_exec_ready_ms :: "64 word"
  nlt_total_ms :: "64 word"

record named_lifecycle_result =
  nlr_schema :: string
  nlr_schema_version :: "32 word"
  nlr_action :: string
  nlr_name :: string
  nlr_state :: string
  nlr_timing :: "named_lifecycle_timing option"

definition named_lifecycle_validate_restored :: "named_lifecycle_result \<Rightarrow> string \<Rightarrow> gerr option" where
  "named_lifecycle_validate_restored r name = first_err
     [check (nlr_schema r \<noteq> lifecycleSchema \<or> nlr_schema_version r \<noteq> word_of_int schemaVersion)
        (invalid_machine_output (''named lifecycle schema = '' @ schema_text (nlr_schema r) (uint (nlr_schema_version r)))),
      check (nlr_action r \<noteq> ''restored'' \<or> nlr_state r \<noteq> ''ready'')
        (invalid_machine_output (''named lifecycle action = '' @ go_quote (nlr_action r)
          @ '' state = '' @ go_quote (nlr_state r))),
      check (nlr_name r \<noteq> name)
        (invalid_machine_output (''named lifecycle name = '' @ go_quote (nlr_name r) @ '', want '' @ go_quote name)),
      check (nlr_timing r = None) (invalid_machine_output ''named lifecycle timing is missing'')]"

record run_from_request =
  rfq_sporeDir :: string
  rfq_backend :: string
  rfq_generationPath :: string
  rfq_command :: "string list"

definition run_from_request_validate :: "run_from_request \<Rightarrow> gerr option" where
  "run_from_request_validate r = first_err
     [check (rfq_sporeDir r = []) (invalid_spore_request ''run-from spore dir is required''),
      check (rfq_command r = []) (invalid_spore_request ''run-from command is required''),
      request_args_validate ''run-from'' 0 (rfq_command r)]"

record exec_request =
  exq_name :: string
  exq_command :: "string list"

definition exec_request_validate :: "exec_request \<Rightarrow> gerr option" where
  "exec_request_validate r = first_err
     [check (exq_name r = []) (invalid_spore_request ''exec VM name is required''),
      check (exq_command r = []) (invalid_spore_request ''exec command is required''),
      request_args_validate ''exec'' 0 (exq_command r)]"

record remove_vm_request =
  rvq_name :: string

definition remove_vm_request_validate :: "remove_vm_request \<Rightarrow> gerr option" where
  "remove_vm_request_validate r = check (rvq_name r = []) (invalid_spore_request ''remove VM name is required'')"

record remove_saved_spore_request =
  rsv_sporeDir :: string

definition remove_saved_spore_request_validate :: "remove_saved_spore_request \<Rightarrow> gerr option" where
  "remove_saved_spore_request_validate r =
     check (rsv_sporeDir r = []) (invalid_spore_request ''remove saved spore dir is required'')"

record removed_saved_spore_result =
  rss_schema :: string
  rss_schema_version :: int
  rss_action :: string

definition removed_saved_spore_result_validate :: "removed_saved_spore_result \<Rightarrow> gerr option" where
  "removed_saved_spore_result_validate r = first_err
     [check ((rss_schema r \<noteq> removeSavedV1Schema \<or> rss_schema_version r \<noteq> 1) \<and>
             (rss_schema r \<noteq> removeSavedV2Schema \<or> rss_schema_version r \<noteq> 2))
        (invalid_machine_output (''remove saved spore schema = '' @ schema_text (rss_schema r) (rss_schema_version r))),
      check (rss_action r \<noteq> ''removed_spore'')
        (invalid_machine_output (''remove saved spore action = '' @ go_quote (rss_action r)))]"

record cache_gc_result =
  gc_schema :: string
  gc_schema_version :: int
  gc_dry_run :: bool
  gc_deleted_count :: int
  gc_deleted_bytes :: "64 word"

definition cache_gc_result_validate :: "cache_gc_result \<Rightarrow> gerr option" where
  "cache_gc_result_validate r = first_err
     [check ((gc_schema r \<noteq> cacheGCV1Schema \<or> gc_schema_version r \<noteq> 1) \<and>
             (gc_schema r \<noteq> cacheGCV2Schema \<or> gc_schema_version r \<noteq> 2))
        (invalid_machine_output (''cache gc schema = '' @ schema_text (gc_schema r) (gc_schema_version r))),
      check (gc_dry_run r) (invalid_machine_output ''cache gc reported a dry run'')]"

section \<open>Run events and errors\<close>

definition machine_error_body_validate :: "machine_error_body \<Rightarrow> gerr option" where
  "machine_error_body_validate e = first_err
     [check (me_code e = [] \<or> me_scope e = [] \<or> me_retry e = [])
        (invalid_machine_output ''machine error is missing code, scope, or retry classification''),
      check (me_retry e \<noteq> ''after_fix'' \<and> me_retry e \<noteq> ''transient'' \<and> me_retry e \<noteq> ''unknown'')
        (invalid_machine_output (''machine error retry = '' @ go_quote (me_retry e))),
      check (me_retryable e \<noteq> (me_retry e = ''transient''))
        (invalid_machine_output ''machine error retryable does not match retry classification'')]"

definition machine_error_envelope_validate :: "machine_error_envelope \<Rightarrow> gerr option" where
  "machine_error_envelope_validate e = first_err
     [check (env_schema e \<noteq> errorSchema \<or> env_schema_version e \<noteq> schemaVersion)
        (invalid_machine_output (''error schema = '' @ schema_text (env_schema e) (env_schema_version e))),
      machine_error_body_validate (env_error e)]"

record run_event_timings =
  ret_start_ms :: "64 word"
  ret_vsock_connect_ms :: "64 word"
  ret_exec_response_ms :: "64 word"
  ret_probe_duration_ms :: "64 word"

record run_event =
  ev_schema :: string
  ev_schema_version :: int
  ev_event :: string
  ev_outcome :: string
  ev_command :: string
  ev_requested_backend :: string
  ev_backend :: "string option"
  ev_offset :: "64 word"
  ev_byte_count :: int
  ev_data_base64 :: string
  ev_exit_code :: "int option"
  ev_vcpus :: "32 word"
  ev_memory_bytes :: "64 word"
  ev_max_memory_bytes :: "64 word"
  ev_captured :: bool
  ev_capture_path :: "string option"
  ev_timings :: "run_event_timings option"
  ev_error :: "machine_error_body option"

definition event_terminal :: "run_event \<Rightarrow> bool" where
  "event_terminal e \<longleftrightarrow> ev_event e = ''completion''"

text \<open>\<open>RunEvent.Validate\<close>: the switch on the outcome of a completion.\<close>

definition completion_validate :: "run_event \<Rightarrow> int \<Rightarrow> gerr option" where
  "completion_validate e exitCode =
     (if ev_outcome e = ''completed'' then
        check (ev_error e \<noteq> None) (invalid_machine_output ''completed event contains error'')
      else if ev_outcome e = ''failed'' \<or> ev_outcome e = ''canceled'' then
        (case ev_error e of
           None \<Rightarrow> Some (invalid_machine_output (ev_outcome e @ '' completion event is missing error''))
         | Some body \<Rightarrow> first_err
             [machine_error_body_validate body,
              check (me_exit_code body \<noteq> exitCode)
                (invalid_machine_output ''completion exit_code does not match error exit_code'')])
      else if ev_outcome e = [] then
        Some (invalid_machine_output ''completion event is missing outcome'')
      else Some (invalid_machine_output (''completion event outcome = '' @ go_quote (ev_outcome e))))"

definition run_event_validate :: "run_event \<Rightarrow> gerr option" where
  "run_event_validate e = first_err
     [check (ev_schema e \<noteq> runEventsSchema \<or> ev_schema_version e \<noteq> schemaVersion)
        (invalid_machine_output (''run event schema = '' @ schema_text (ev_schema e) (ev_schema_version e))),
      check (ev_event e = [] \<or> ev_command e = [])
        (invalid_machine_output ''run event is missing event or command''),
      (if \<not> event_terminal e then
         check (ev_outcome e \<noteq> [] \<or> ev_error e \<noteq> None)
           (invalid_machine_output ''non-terminal run event contains terminal outcome fields'')
       else case ev_exit_code e of
           None \<Rightarrow> Some (invalid_machine_output ''completion event is missing exit_code'')
         | Some exitCode \<Rightarrow> completion_validate e exitCode)]"

text \<open>\<open>TerminalEvent\<close>: the loop, with the terminal event seen so far.\<close>

fun terminal_event_loop :: "run_event option \<Rightarrow> run_event list \<Rightarrow> gerr + run_event" where
  "terminal_event_loop terminal [] =
     (case terminal of None \<Rightarrow> Inl (Sentinel ErrNoTerminalEvent) | Some e \<Rightarrow> Inr e)"
| "terminal_event_loop terminal (e # es) =
     (if \<not> event_terminal e then terminal_event_loop terminal es
      else if terminal \<noteq> None then
        Inl (invalid_machine_output ''run event stream has multiple terminal events'')
      else if es \<noteq> [] then Inl (invalid_machine_output ''run event stream continues after completion'')
      else terminal_event_loop (Some e) es)"

definition terminal_event :: "run_event list \<Rightarrow> gerr + run_event" where
  "terminal_event events = terminal_event_loop None events"

text \<open>\<open>DecodeRunEvents\<close>: the loop, with the events decoded so far.\<close>

fun decode_run_events_loop :: "run_event list \<Rightarrow> (string + run_event) list \<Rightarrow> gerr + run_event list" where
  "decode_run_events_loop events [] = Inr events"
| "decode_run_events_loop events (Inl msg # rest) =
     Inl (errorf ErrInvalidMachineOutput (''decode run event: '' @ msg))"
| "decode_run_events_loop events (Inr event # rest) =
     (case run_event_validate event of
        Some e \<Rightarrow> Inl e
      | None \<Rightarrow> decode_run_events_loop (events @ [event]) rest)"

definition decode_run_events :: "(string + run_event) list \<Rightarrow> gerr + run_event list" where
  "decode_run_events stream = decode_run_events_loop [] stream"

section \<open>Properties\<close>

lemma terminal_event_loop_Some:
  "terminal_event_loop (Some t) es = Inr e \<longleftrightarrow> e = t \<and> (\<forall>x \<in> set es. \<not> event_terminal x)"
  by (induction es) auto

lemma terminal_event_loop_None:
  "terminal_event_loop None es = Inr e \<longleftrightarrow>
     (\<exists>pre. es = pre @ [e] \<and> event_terminal e \<and> (\<forall>x \<in> set pre. \<not> event_terminal x))"
proof (induction es)
  case Nil
  then show ?case by simp
next
  case (Cons a es)
  show ?case
  proof (cases "event_terminal a")
    case True
    then show ?thesis by (cases es) (auto simp: Cons_eq_append_conv)
  next
    case False
    then show ?thesis using Cons.IH by (force simp: Cons_eq_append_conv)
  qed
qed

lemma decode_run_events_loop_Inr:
  "decode_run_events_loop acc stream = Inr out \<longleftrightarrow>
     (\<exists>evs. stream = map Inr evs \<and> (\<forall>e \<in> set evs. run_event_validate e = None) \<and> out = acc @ evs)"
proof (induction acc stream rule: decode_run_events_loop.induct)
  case (1 events)
  then show ?case by auto
next
  case (2 events msg rest)
  then show ?case by (auto simp: Cons_eq_map_conv)
next
  case (3 events event rest)
  then show ?case
    by (cases "run_event_validate event") (auto simp: Cons_eq_map_conv)
qed

lemma decode_run_events_Inr:
  "decode_run_events stream = Inr out \<longleftrightarrow> stream = map Inr out \<and> (\<forall>e \<in> set out. run_event_validate e = None)"
  by (auto simp: decode_run_events_def decode_run_events_loop_Inr)

lemma terminal_event_Inr:
  "terminal_event es = Inr e \<longleftrightarrow>
     (\<exists>pre. es = pre @ [e] \<and> ev_event e = ''completion'' \<and> (\<forall>x \<in> set pre. ev_event x \<noteq> ''completion''))"
  by (simp add: terminal_event_def terminal_event_loop_None event_terminal_def)

lemma bind_stream_iff:
  "(case r of Inl e \<Rightarrow> Inl e | Inr evs \<Rightarrow> f evs) = Inr x \<longleftrightarrow> (\<exists>evs. r = Inr evs \<and> f evs = Inr x)"
  by (cases r) auto

text \<open>A stream of run events is decoded and its terminal event found exactly when every
  document decodes and is valid and the only completion event is the last one.\<close>

lemma terminal_event_of_stream:
  "(case decode_run_events stream of Inl e \<Rightarrow> Inl e | Inr evs \<Rightarrow> terminal_event evs) = Inr e \<longleftrightarrow>
     (\<exists>pre. stream = map Inr (pre @ [e]) \<and> (\<forall>x \<in> set (pre @ [e]). run_event_validate x = None) \<and>
        ev_event e = ''completion'' \<and> (\<forall>x \<in> set pre. ev_event x \<noteq> ''completion''))"
  unfolding bind_stream_iff decode_run_events_Inr terminal_event_Inr by blast

definition sample_completion :: run_event where
  "sample_completion = \<lparr>ev_schema = runEventsSchema, ev_schema_version = 1, ev_event = ''completion'',
     ev_outcome = ''completed'', ev_command = ''run'', ev_requested_backend = [], ev_backend = None,
     ev_offset = 0, ev_byte_count = 0, ev_data_base64 = [], ev_exit_code = Some 0, ev_vcpus = 0,
     ev_memory_bytes = 0, ev_max_memory_bytes = 0, ev_captured = False, ev_capture_path = None,
     ev_timings = None, ev_error = None\<rparr>"

lemma sample_completion_valid: "run_event_validate sample_completion = None"
  by (simp add: run_event_validate_def sample_completion_def event_terminal_def completion_validate_def
      schemaVersion_def)

lemma terminal_event_of_stream_witness:
  "(case decode_run_events [Inr sample_completion] of Inl e \<Rightarrow> Inl e | Inr evs \<Rightarrow> terminal_event evs)
     = Inr sample_completion"
  unfolding terminal_event_of_stream
  by (rule exI [of _ "[]"]) (simp add: sample_completion_valid, simp add: sample_completion_def)

lemma available_backend_Some:
  "available_backend h name = Some b \<Longrightarrow> \<exists>b \<in> set (hi_backends h). ba_name b = name \<and> ba_supported b \<and> ba_available b"
  unfolding available_backend_def find_Some_iff by (metis nth_mem)

lemma fleet_host_class_Inr:
  "fleet_host_class h backend = Inr hc \<longleftrightarrow>
     host_info_validate h = None \<and> available_backend h backend \<noteq> None \<and>
     host_class_validate hc ''hostClass'' = None \<and>
     hc = \<lparr>hc_id = hi_host_class h @ ''-'' @ pf_cpu_profile (hi_platform h) @ ''-v''
             @ utoa (unat (pf_device_model_version (hi_platform h))),
           hc_platformVersion = ''v0'', hc_architecture = pf_arch (hi_platform h), hc_backend = backend,
           hc_cpuProfile = pf_cpu_profile (hi_platform h),
           hc_deviceModel = ''sporevm-'' @ pf_arch (hi_platform h) @ ''-v''
             @ utoa (unat (pf_device_model_version (hi_platform h)))\<rparr>"
  by (auto simp: fleet_host_class_def Let_def split: option.splits)

text \<open>A host class made from host info is valid for the fleet contract, names a backend
  the host supports and has available, and carries the host's architecture and CPU profile;
  only \<open>kvm\<close> on \<open>aarch64\<close> gets through.\<close>

lemma fleet_host_class_sound:
  assumes "fleet_host_class h backend = Inr hc"
  shows "host_class_validate hc ''hostClass'' = None \<and> backend = ''kvm'' \<and>
    pf_arch (hi_platform h) = ''aarch64'' \<and> hc_backend hc = backend \<and>
    hc_cpuProfile hc = pf_cpu_profile (hi_platform h) \<and>
    (\<exists>b \<in> set (hi_backends h). ba_name b = backend \<and> ba_supported b \<and> ba_available b)"
  using assms
  by (auto simp: fleet_host_class_Inr host_class_validate_None dest: available_backend_Some)

definition sample_host_info :: host_info where
  "sample_host_info = \<lparr>hi_schema = hostInfoV3Schema, hi_schema_version = 3, hi_host_class = ''graviton'',
     hi_platform = \<lparr>pf_os = ''linux'', pf_arch = ''aarch64'', pf_cpu_profile = ''cpu'',
       pf_device_model_version = 1, pf_ram_base = 0, pf_gic_dist_base = 0, pf_gic_redist_base = 0,
       pf_counter_frequency_source = [], pf_counter_frequency_hz = 0\<rparr>,
     hi_backends = [\<lparr>ba_name = ''kvm'', ba_supported = True, ba_available = True, ba_reason = []\<rparr>],
     hi_cache_roots = (let p = \<lparr>path_path = None, path_resolved = False, path_source = []\<rparr> in
       \<lparr>cr_kernels = p, cr_rootfs = p, cr_bundles = p, cr_runtime = p\<rparr>)\<rparr>"

lemma sample_host_class: "\<exists>hc. fleet_host_class sample_host_info ''kvm'' = Inr hc"
proof -
  have "id_pattern ''graviton-cpu-v1''" by code_simp
  moreover have "utoa 1 = ''1''" by code_simp
  ultimately show ?thesis
    unfolding fleet_host_class_Inr
    by (simp add: sample_host_info_def host_info_validate_def available_backend_def
        Let_def host_class_validate_None hostInfoV3Schema_def hostInfoV2Schema_def)
qed

lemma fleet_host_class_sound_witness:
  "\<exists>hc. fleet_host_class sample_host_info ''kvm'' = Inr hc \<and> host_class_validate hc ''hostClass'' = None"
  using sample_host_class fleet_host_class_sound by blast

text \<open>A v3 document's arm64 facts in the v2 layout.\<close>

definition v2_of_v3 :: "host_info_v3 \<Rightarrow> host_info_v3_arm64 \<Rightarrow> host_info" where
  "v2_of_v3 d a = \<lparr>hi_schema = hostInfoV2Schema, hi_schema_version = 2, hi_host_class = v3_host_class d,
     hi_platform = \<lparr>pf_os = v3a_os a, pf_arch = v3_architecture d, pf_cpu_profile = v3a_cpu_profile a,
       pf_device_model_version = v3a_device_model_version a, pf_ram_base = v3a_ram_base a,
       pf_gic_dist_base = v3a_distributor_base a, pf_gic_redist_base = v3a_redistributor_base a,
       pf_counter_frequency_source = v3a_counter_source a,
       pf_counter_frequency_hz = v3a_counter_frequency_hz a\<rparr>,
     hi_backends = v3_backends d, hi_cache_roots = v3_cache_roots d\<rparr>"

text \<open>The two host-info schemas give the same fleet host class: an arm64 document in the
  v3 layout and the same facts in the v2 layout are unmarshalled to host infos that
  \<open>FleetHostClass\<close> maps alike.\<close>

lemma host_info_schemas_agree:
  assumes "v3_architecture d = ''arm64''" "v3_platform d = \<lparr>v3_arm64 = Some a, v3_amd64 = None\<rparr>"
    "v3_schema d = hostInfoV3Schema" "v3_schema_version d = 3"
    "host_info_unmarshal (Inr (hostInfoV3Schema, 3)) as_v2 (Inr d) = Inr h3"
    "host_info_unmarshal (Inr (hostInfoV2Schema, 2)) (Inr (v2_of_v3 d a)) as_v3 = Inr h2"
  shows "fleet_host_class h3 backend = fleet_host_class h2 backend \<and> hi_platform h3 = hi_platform h2"
proof -
  have "h2 = (v2_of_v3 d a)\<lparr>hi_platform := (hi_platform (v2_of_v3 d a))\<lparr>pf_arch := ''aarch64''\<rparr>\<rparr>"
    using assms(1,6) by (auto simp: host_info_unmarshal_def v2_of_v3_def normalize_machine_architecture_def)
  moreover have "h3 = h2\<lparr>hi_schema := hostInfoV3Schema, hi_schema_version := 3\<rparr>"
    using assms calculation
    by (simp add: host_info_unmarshal_def hostInfoV3Schema_def hostInfoV2Schema_def v3_normalize_def v2_of_v3_def)
  ultimately have eq: "host_info_validate h3 = host_info_validate h2"
    "available_backend h3 backend = available_backend h2 backend" "hi_platform h3 = hi_platform h2"
    "hi_host_class h3 = hi_host_class h2"
    by (simp_all add: host_info_validate_def available_backend_def v2_of_v3_def
        hostInfoV3Schema_def hostInfoV2Schema_def)
  show ?thesis unfolding fleet_host_class_def eq by simp
qed

definition sample_v3 :: host_info_v3 where
  "sample_v3 = \<lparr>v3_schema = hostInfoV3Schema, v3_schema_version = 3, v3_host_class = ''graviton'',
     v3_architecture = ''arm64'',
     v3_platform = \<lparr>v3_arm64 = Some \<lparr>v3a_os = ''linux'', v3a_cpu_profile = ''cpu'',
         v3a_device_model_version = 1, v3a_ram_base = 0, v3a_distributor_base = 0,
         v3a_redistributor_base = 0, v3a_counter_source = [], v3a_counter_frequency_hz = 0\<rparr>,
       v3_amd64 = None\<rparr>,
     v3_backends = hi_backends sample_host_info, v3_cache_roots = hi_cache_roots sample_host_info\<rparr>"

theorem host_info_schemas_agree_witness:
  "\<exists>h2 h3. host_info_unmarshal (Inr (hostInfoV3Schema, 3)) (Inl []) (Inr sample_v3) = Inr h3 \<and>
     hi_schema h2 = hostInfoV2Schema \<and> fleet_host_class h3 ''kvm'' = fleet_host_class h2 ''kvm''"
proof -
  define a where "a = the (v3_arm64 (v3_platform sample_v3))"
  have d: "v3_architecture sample_v3 = ''arm64''"
    "v3_platform sample_v3 = \<lparr>v3_arm64 = Some a, v3_amd64 = None\<rparr>"
    "v3_schema sample_v3 = hostInfoV3Schema" "v3_schema_version sample_v3 = 3"
    by (simp_all add: sample_v3_def a_def)
  have ne: "hostInfoV3Schema \<noteq> hostInfoV2Schema" by (simp add: hostInfoV3Schema_def hostInfoV2Schema_def)
  obtain h3 where h3: "host_info_unmarshal (Inr (hostInfoV3Schema, 3)) (Inl []) (Inr sample_v3) = Inr h3"
    using d ne by (simp add: host_info_unmarshal_def v3_normalize_def)
  obtain h2 where h2: "host_info_unmarshal (Inr (hostInfoV2Schema, 2)) (Inr (v2_of_v3 sample_v3 a)) (Inl []) = Inr h2"
    "hi_schema h2 = hostInfoV2Schema"
    by (simp add: host_info_unmarshal_def v2_of_v3_def)
  from host_info_schemas_agree [OF d h3 h2(1)] h3 h2(2) show ?thesis by blast
qed

end
