(* ===== verification/Slots.thy ===== *)
theory Slots
  imports FleetPlan MachineContract
begin

text \<open>
  The execution slots of an agent: \<open>SlotLimiter\<close>, \<open>AdmitShard\<close> (\<open>internal/agent/runtime.go\<close>)
  and \<open>admitOne\<close> (\<open>interactive.go\<close>). Each operation is one critical section of the
  limiter's mutex. \<open>TryAcquire\<close> returns a closure guarded by a \<open>sync.Once\<close>; a closure is a
  handle, its number in the list of closures made so far, with the slots it gives back and
  whether its \<open>Once\<close> has fired.
\<close>

section \<open>Definitions\<close>

record slot_limiter =
  sl_total :: int
  sl_used :: int

record release_closure =
  rel_slots :: int
  rel_done :: bool

record slot_pool =
  pool_limiter :: slot_limiter
  pool_closures :: "release_closure list"

definition new_slot_limiter :: "int \<Rightarrow> gerr + slot_limiter" where
  "new_slot_limiter capacity =
     (if capacity < 1 then Inl (Opaque ''total slots must be >= 1'') else Inr \<lparr>sl_total = capacity, sl_used = 0\<rparr>)"

definition limiter_available :: "slot_limiter \<Rightarrow> int" where
  "limiter_available s = sl_total s - sl_used s"

definition try_acquire :: "int \<Rightarrow> slot_pool \<Rightarrow> nat option \<times> slot_pool" where
  "try_acquire n p =
     (if n < 1 then (None, p)
      else if sl_total (pool_limiter p) - sl_used (pool_limiter p) < n then (None, p)
      else (Some (length (pool_closures p)),
            p\<lparr>pool_limiter := (pool_limiter p)\<lparr>sl_used := sl_used (pool_limiter p) + n\<rparr>,
              pool_closures := pool_closures p @ [\<lparr>rel_slots = n, rel_done = False\<rparr>]\<rparr>))"

text \<open>Calling the closure \<open>h\<close>.\<close>

definition call_release :: "nat \<Rightarrow> slot_pool \<Rightarrow> slot_pool" where
  "call_release h p =
     (if h < length (pool_closures p) \<and> \<not> rel_done (pool_closures p ! h)
      then p\<lparr>pool_limiter := (pool_limiter p)\<lparr>sl_used := sl_used (pool_limiter p) - rel_slots (pool_closures p ! h)\<rparr>,
             pool_closures := (pool_closures p)[h := (pool_closures p ! h)\<lparr>rel_done := True\<rparr>]\<rparr>
      else p)"

definition admit_slots :: "int \<Rightarrow> pressure \<Rightarrow> slot_pool \<Rightarrow> (gerr + nat) \<times> slot_pool" where
  "admit_slots n pressure p =
     (case pressure_validate pressure ''pressure'' of
        Some e \<Rightarrow> (Inl (errorf ErrInvalidPressure (err_text e)), p)
      | None \<Rightarrow>
          if pressure_is_critical pressure then (Inl (Sentinel ErrUnsafePressure), p)
          else (case try_acquire n p of
              (None, p') \<Rightarrow> (Inl (Sentinel ErrOversubscribed), p')
            | (Some h, p') \<Rightarrow> (Inr h, p')))"

definition admit_shard :: "shard_lease \<Rightarrow> pressure \<Rightarrow> slot_pool \<Rightarrow> (gerr + nat) \<times> slot_pool" where
  "admit_shard lease pressure p =
     (if lease_childCount lease < 1 then (Inl (Sentinel ErrInvalidLease), p)
      else admit_slots (lease_childCount lease) pressure p)"

definition admit_one :: "pressure \<Rightarrow> slot_pool \<Rightarrow> (gerr + nat) \<times> slot_pool" where
  "admit_one pressure p = admit_slots 1 pressure p"

lemma admit_slots_Inl: "admit_slots k pressure p = (Inl e, p') \<Longrightarrow> p' = p"
  by (auto simp: admit_slots_def try_acquire_def split: option.splits if_splits)

lemma admit_slots_Inr: "admit_slots k pressure p = (Inr h, p') \<Longrightarrow> try_acquire k p = (Some h, p')"
  by (auto simp: admit_slots_def split: option.splits if_splits prod.splits)

section \<open>The contract\<close>

text \<open>What a client of the slots relies on: \<open>held p h\<close> is the number of slots the closure
  \<open>h\<close> will still give back.\<close>

locale slot_contract =
  fixes ok :: "'p \<Rightarrow> bool" and capacity :: "'p \<Rightarrow> int" and free :: "'p \<Rightarrow> int"
    and held :: "'p \<Rightarrow> nat \<rightharpoonup> int"
    and acquire :: "int \<Rightarrow> 'p \<Rightarrow> nat option \<times> 'p" and release :: "nat \<Rightarrow> 'p \<Rightarrow> 'p"
  assumes acquired: "ok p \<Longrightarrow> acquire n p = (Some h, p') \<Longrightarrow>
      ok p' \<and> capacity p' = capacity p \<and> 1 \<le> n \<and> n \<le> free p \<and> held p h = None \<and> held p' = (held p)(h \<mapsto> n)"
    and refused: "acquire n p = (None, p') \<Longrightarrow> p' = p \<and> (n < 1 \<or> free p < n)"
    and released: "ok p \<Longrightarrow> ok (release h p) \<and> capacity (release h p) = capacity p \<and>
      held (release h p) = (held p)(h := None)"
    and accounts: "ok p \<Longrightarrow> finite (dom (held p)) \<and> (\<forall>h n. held p h = Some n \<longrightarrow> 1 \<le> n) \<and>
      free p + (\<Sum>h\<in>dom (held p). the (held p h)) = capacity p \<and> 0 \<le> free p"
begin

lemma free_le_total: "ok p \<Longrightarrow> free p \<le> capacity p"
proof -
  assume p: "ok p"
  have "0 \<le> (\<Sum>h\<in>dom (held p). the (held p h))"
    using accounts [OF p] by (intro sum_nonneg) (auto, fastforce)
  then show ?thesis using accounts [OF p] by linarith
qed

lemma all_returned: "ok p \<Longrightarrow> held p = Map.empty \<Longrightarrow> free p = capacity p"
  using accounts [of p] by simp

text \<open>Calls by any number of clients, in any order, with any closures, called any number of
  times.\<close>

definition slot_call :: "int + nat \<Rightarrow> 'p \<Rightarrow> 'p" where
  "slot_call c p = (case c of Inl n \<Rightarrow> snd (acquire n p) | Inr h \<Rightarrow> release h p)"

definition slot_calls :: "(int + nat) list \<Rightarrow> 'p \<Rightarrow> 'p" where
  "slot_calls cs p = foldl (\<lambda>p c. slot_call c p) p cs"

lemma slot_call_ok: "ok p \<Longrightarrow> ok (slot_call c p) \<and> capacity (slot_call c p) = capacity p"
proof (cases c)
  case (Inl n)
  obtain o' p' where "acquire n p = (o', p')" by fastforce
  then show "ok p \<Longrightarrow> ?thesis" using Inl acquired [of p n _ p'] refused [of n p p']
    by (cases o') (auto simp: slot_call_def)
next
  case (Inr h)
  then show "ok p \<Longrightarrow> ?thesis" using released [of p h] by (simp add: slot_call_def)
qed

lemma slot_calls_ok: "ok p \<Longrightarrow> ok (slot_calls cs p) \<and> capacity (slot_calls cs p) = capacity p"
  unfolding slot_calls_def
proof (induction cs arbitrary: p)
  case (Cons c cs)
  then show ?case using slot_call_ok [OF Cons.prems, of c] by simp
qed simp

lemma release_twice: "ok p \<Longrightarrow> held (release h (release h p)) = held (release h p)"
  using released [of p h] released [of "release h p" h] by simp

end

section \<open>The limiter keeps the contract\<close>

definition pool_held :: "slot_pool \<Rightarrow> nat \<rightharpoonup> int" where
  "pool_held p h =
     (if h < length (pool_closures p) \<and> \<not> rel_done (pool_closures p ! h)
      then Some (rel_slots (pool_closures p ! h)) else None)"

definition outstanding :: "release_closure list \<Rightarrow> int" where
  "outstanding cs = (\<Sum>c\<leftarrow>cs. if rel_done c then 0 else rel_slots c)"

definition pool_ok :: "slot_pool \<Rightarrow> bool" where
  "pool_ok p \<longleftrightarrow> sl_used (pool_limiter p) = outstanding (pool_closures p) \<and>
     outstanding (pool_closures p) \<le> sl_total (pool_limiter p) \<and>
     (\<forall>c \<in> set (pool_closures p). 1 \<le> rel_slots c)"

definition pool_total :: "slot_pool \<Rightarrow> int" where
  "pool_total p = sl_total (pool_limiter p)"

definition pool_free :: "slot_pool \<Rightarrow> int" where
  "pool_free p = limiter_available (pool_limiter p)"

lemma outstanding_update:
  "i < length cs \<Longrightarrow> outstanding (cs[i := c]) =
     outstanding cs - (if rel_done (cs ! i) then 0 else rel_slots (cs ! i)) + (if rel_done c then 0 else rel_slots c)"
proof (induction cs arbitrary: i)
  case Nil
  then show ?case by simp
next
  case (Cons x xs)
  then show ?case by (cases i) (auto simp: outstanding_def)
qed

lemma outstanding_sum:
  "outstanding cs = (\<Sum>i\<in>{i. i < length cs \<and> \<not> rel_done (cs ! i)}. rel_slots (cs ! i))"
proof -
  have "outstanding cs = (\<Sum>i\<in>{..<length cs}. if rel_done (cs ! i) then 0 else rel_slots (cs ! i))"
    by (simp add: outstanding_def sum_list_sum_nth atLeast0LessThan)
  also have "\<dots> = (\<Sum>i\<in>{i \<in> {..<length cs}. \<not> rel_done (cs ! i)}. rel_slots (cs ! i))"
    by (subst sum.inter_filter) (auto intro: sum.cong)
  finally show ?thesis by simp
qed

lemma dom_pool_held: "dom (pool_held p) = {i. i < length (pool_closures p) \<and> \<not> rel_done (pool_closures p ! i)}"
  by (auto simp: pool_held_def split: if_splits)

interpretation limiter: slot_contract pool_ok pool_total pool_free pool_held try_acquire call_release
proof (unfold_locales, goal_cases)
  case (1 p n h p')
  then have n: "1 \<le> n" "n \<le> pool_free p" "h = length (pool_closures p)"
    "p' = p\<lparr>pool_limiter := (pool_limiter p)\<lparr>sl_used := sl_used (pool_limiter p) + n\<rparr>,
            pool_closures := pool_closures p @ [\<lparr>rel_slots = n, rel_done = False\<rparr>]\<rparr>"
    by (auto simp: try_acquire_def pool_free_def limiter_available_def split: if_splits)
  have "pool_held p' = (pool_held p)(h \<mapsto> n)"
    by (auto simp: n pool_held_def fun_eq_iff nth_append less_Suc_eq)
  then show ?case using 1(1) n
    by (auto simp: pool_ok_def outstanding_def pool_total_def pool_held_def pool_free_def limiter_available_def)
next
  case (2 n p p')
  then show ?case by (auto simp: try_acquire_def pool_free_def limiter_available_def split: if_splits)
next
  case (3 p h)
  show ?case
  proof (cases "pool_held p h")
    case None
    then have "call_release h p = p" by (auto simp: call_release_def pool_held_def split: if_splits)
    then show ?thesis using 3 None by (simp add: fun_upd_idem)
  next
    case (Some n)
    then have h: "h < length (pool_closures p)" "\<not> rel_done (pool_closures p ! h)"
      by (auto simp: pool_held_def split: if_splits)
    have pos: "1 \<le> rel_slots (pool_closures p ! h)" using 3 h by (auto simp: pool_ok_def)
    have "pool_held (call_release h p) = (pool_held p)(h := None)"
      using h by (auto simp: pool_held_def call_release_def fun_eq_iff nth_list_update)
    moreover have "pool_ok (call_release h p)"
    proof -
      let ?c = "(pool_closures p ! h)\<lparr>rel_done := True\<rparr>"
      have o: "outstanding ((pool_closures p)[h := ?c]) = outstanding (pool_closures p) - rel_slots (pool_closures p ! h)"
        using outstanding_update [OF h(1), of ?c] h(2) by simp
      have "\<forall>c \<in> set ((pool_closures p)[h := ?c]). 1 \<le> rel_slots c"
        using 3 pos set_update_subset_insert [of "pool_closures p" h ?c] by (auto simp: pool_ok_def)
      moreover have "outstanding (pool_closures p) - rel_slots (pool_closures p ! h) \<le> sl_total (pool_limiter p)"
        using 3 pos unfolding pool_ok_def by linarith
      ultimately show ?thesis using 3 h o by (simp add: pool_ok_def call_release_def)
    qed
    ultimately show ?thesis by (simp add: pool_total_def call_release_def)
  qed
next
  case (4 p)
  have "(\<Sum>h\<in>dom (pool_held p). the (pool_held p h)) = outstanding (pool_closures p)"
    unfolding outstanding_sum dom_pool_held by (intro sum.cong) (auto simp: pool_held_def)
  then show ?case using 4
    by (auto simp: pool_ok_def pool_free_def pool_total_def limiter_available_def dom_pool_held pool_held_def
        split: if_splits)
qed

section \<open>Properties\<close>

definition fresh_pool :: "int \<Rightarrow> slot_pool" where
  "fresh_pool n = \<lparr>pool_limiter = \<lparr>sl_total = n, sl_used = 0\<rparr>, pool_closures = []\<rparr>"

lemma fresh_pool_ok: "1 \<le> n \<Longrightarrow> pool_ok (fresh_pool n) \<and> pool_total (fresh_pool n) = n \<and> pool_held (fresh_pool n) = Map.empty"
  by (simp add: fresh_pool_def pool_ok_def pool_total_def pool_held_def outstanding_def fun_eq_iff)

text \<open>The state after calls of \<open>TryAcquire\<close> (\<open>Inl\<close>) and of closures (\<open>Inr\<close>).\<close>

definition limiter_call :: "slot_pool \<Rightarrow> int + nat \<Rightarrow> slot_pool" where
  "limiter_call p c = (case c of Inl n \<Rightarrow> snd (try_acquire n p) | Inr h \<Rightarrow> call_release h p)"

lemma limiter_calls: "limiter.slot_calls cs p = foldl limiter_call p cs"
proof -
  have "limiter.slot_call c p = limiter_call p c" for c p
    by (simp add: limiter.slot_call_def limiter_call_def)
  then show ?thesis by (simp add: limiter.slot_calls_def)
qed

text \<open>Whatever the order of acquisitions and releases on a limiter, and however often a
  release is called, the available slots are between 0 and the total, the slots not available
  are exactly those of the closures not called yet, and when all were called the limiter is
  as good as new.\<close>

lemma slots_conserved:
  assumes "new_slot_limiter n = Inr l" "p = foldl limiter_call (fresh_pool n) cs"
  shows "0 \<le> limiter_available (pool_limiter p) \<and> limiter_available (pool_limiter p) \<le> n \<and>
    limiter_available (pool_limiter p) + (\<Sum>h\<in>dom (pool_held p). the (pool_held p h)) = n \<and>
    (pool_held p = Map.empty \<longrightarrow> limiter_available (pool_limiter p) = sl_total l)"
proof -
  have n: "1 \<le> n" "l = \<lparr>sl_total = n, sl_used = 0\<rparr>"
    using assms(1) by (auto simp: new_slot_limiter_def split: if_splits)
  have p: "pool_ok p" "pool_total p = n"
    using limiter.slot_calls_ok [of "fresh_pool n" cs] fresh_pool_ok [OF n(1)] assms(2)
    by (simp_all add: limiter_calls)
  show ?thesis
    using limiter.accounts [OF p(1)] limiter.free_le_total [OF p(1)] limiter.all_returned [OF p(1)] p(2) n
    by (auto simp: pool_free_def)
qed

lemma slots_conserved_witness:
  "limiter_available (pool_limiter (foldl limiter_call (fresh_pool 3) [Inl 2, Inl 2, Inr 0, Inr 0])) \<le> 3 \<and>
   pool_held (foldl limiter_call (fresh_pool 3) [Inl 2, Inl 2, Inr 0, Inr 0]) = Map.empty"
proof -
  have "pool_held (foldl limiter_call (fresh_pool 3) [Inl 2, Inl 2, Inr 0, Inr 0]) = Map.empty"
    by (simp add: limiter_call_def try_acquire_def call_release_def fresh_pool_def pool_held_def fun_eq_iff nth_Cons')
  moreover have "new_slot_limiter 3 = Inr \<lparr>sl_total = 3, sl_used = 0\<rparr>" by (simp add: new_slot_limiter_def)
  ultimately show ?thesis using slots_conserved [OF _ refl] by blast
qed



end
