(* ===== verification/Paths.thy ===== *)
theory Paths
  imports FleetPlan
begin

text \<open>
  Go's \<open>path/filepath\<close> on Unix, as far as the agent uses it, and the directories the agent
  builds from it (\<open>childWorkDir\<close>, \<open>preparedChildSporeDir\<close>, \<open>prepareWorkDir\<close>,
  \<open>validatePathWithin\<close> of \<open>internal/agent/runtime.go\<close>). The current directory that
  \<open>filepath.Abs\<close> reads is the argument \<open>cwd\<close>.
\<close>

section \<open>The library's functions\<close>

fun join_slash :: "string list \<Rightarrow> string" where
  "join_slash [] = []"
| "join_slash [p] = p"
| "join_slash (p # q # ps) = p @ CHR ''/'' # join_slash (q # ps)"

definition is_abs :: "string \<Rightarrow> bool" where
  "is_abs p \<longleftrightarrow> has_prefix p ''/''"

text \<open>\<open>filepath.Clean\<close>, component by component; \<open>out\<close> is the stack of components kept.\<close>

definition clean_step :: "bool \<Rightarrow> string list \<Rightarrow> string \<Rightarrow> string list" where
  "clean_step rooted out p =
     (if p = [] \<or> p = ''.'' then out
      else if p = ''..'' then
        (case out of
           [] \<Rightarrow> if rooted then [] else [''..'']
         | q # qs \<Rightarrow> if q \<noteq> ''..'' then qs else if rooted then out else ''..'' # out)
      else p # out)"

definition clean_parts :: "bool \<Rightarrow> string \<Rightarrow> string list" where
  "clean_parts rooted p = rev (foldl (clean_step rooted) [] (split_on (CHR ''/'') p))"

definition path_clean :: "string \<Rightarrow> string" where
  "path_clean p =
     (if is_abs p then CHR ''/'' # join_slash (clean_parts True p)
      else if clean_parts False p = [] then ''.'' else join_slash (clean_parts False p))"

definition path_join :: "string list \<Rightarrow> string" where
  "path_join elems =
     (case dropWhile (\<lambda>e. e = []) elems of [] \<Rightarrow> [] | es \<Rightarrow> path_clean (join_slash es))"

definition path_dir :: "string \<Rightarrow> string" where
  "path_dir p = path_clean (rev (dropWhile (\<lambda>c. c \<noteq> CHR ''/'') (rev p)))"

fun strip_common :: "string list \<Rightarrow> string list \<Rightarrow> string list \<times> string list" where
  "strip_common (b # bs) (t # ts) = (if b = t then strip_common bs ts else (b # bs, t # ts))"
| "strip_common bs ts = (bs, ts)"

definition rel_parts :: "string \<Rightarrow> string list" where
  "rel_parts p = filter (\<lambda>s. s \<noteq> []) (split_on (CHR ''/'') p)"

definition path_rel :: "string \<Rightarrow> string \<Rightarrow> gerr + string" where
  "path_rel basepath targpath =
     (let base = path_clean basepath; targ = path_clean targpath;
          base1 = (if base = ''.'' then [] else base);
          bad = Inl (Opaque (''Rel: can'' @ [char_of (39::nat)] @ ''t make '' @ targpath @ '' relative to '' @ basepath))
      in if targ = base then Inr ''.''
         else if is_abs base1 \<noteq> is_abs targ then bad
         else (case strip_common (rel_parts base1) (rel_parts targ) of (bs, ts) \<Rightarrow>
             if bs \<noteq> [] \<and> hd bs = ''..'' \<and> ts \<noteq> [] then bad
             else Inr (join_slash (replicate (length bs) ''..'' @ ts))))"

definition path_abs :: "gerr + string \<Rightarrow> string \<Rightarrow> gerr + string" where
  "path_abs cwd p =
     (if is_abs p then Inr (path_clean p)
      else case cwd of Inl e \<Rightarrow> Inl e | Inr wd \<Rightarrow> Inr (path_join [wd, p]))"

section \<open>The agent's directories\<close>

definition validate_path_within :: "gerr + string \<Rightarrow> string \<Rightarrow> string \<Rightarrow> gerr option" where
  "validate_path_within cwd root_dir path =
     (case path_abs cwd root_dir of
        Inl e \<Rightarrow> Some e
      | Inr absRoot \<Rightarrow>
          (case path_abs cwd path of
             Inl e \<Rightarrow> Some e
           | Inr absPath \<Rightarrow>
               (case path_rel absRoot absPath of
                  Inl e \<Rightarrow> Some e
                | Inr rel \<Rightarrow>
                    if rel = ''.'' \<or> has_prefix rel ''../'' \<or> rel = ''..''
                    then Some (Opaque (path @ '' is outside work root '' @ root_dir)) else None)))"

definition child_work_dir :: "string \<Rightarrow> bundle_run \<Rightarrow> shard_lease \<Rightarrow> int \<Rightarrow> string \<Rightarrow> string" where
  "child_work_dir workRoot run lease childID attemptID =
     path_join [workRoot, br_runID run, lease_shardID lease, ''child-'' @ itoa childID, attemptID @ ''.spore'']"

definition prepared_child_spore_dir :: "string \<Rightarrow> int \<Rightarrow> string" where
  "prepared_child_spore_dir childrenDir childID = path_join [childrenDir, pad0 6 childID]"

definition prepare_work_dir :: "string \<Rightarrow> run \<Rightarrow> string" where
  "prepare_work_dir workRoot run = path_join [workRoot, run_runID run, ''prepare'']"

section \<open>Components of a path\<close>

definition normal_part :: "string \<Rightarrow> bool" where
  "normal_part p \<longleftrightarrow> p \<noteq> [] \<and> p \<noteq> ''.'' \<and> p \<noteq> ''..'' \<and> CHR ''/'' \<notin> set p"

definition up_part :: "string \<Rightarrow> bool" where
  "up_part p \<longleftrightarrow> p = ''..'' \<or> normal_part p"

lemma split_join_slash:
  "ps \<noteq> [] \<Longrightarrow> list_all (\<lambda>p. CHR ''/'' \<notin> set p) ps \<Longrightarrow> split_on (CHR ''/'') (join_slash ps) = ps"
  by (induction ps rule: join_slash.induct) (auto simp: split_on_single split_on_append)

lemma split_root: "split_on (CHR ''/'') (CHR ''/'' # s) = [] # split_on (CHR ''/'') s"
  by simp

lemma clean_step_skip [simp]: "clean_step r out [] = out"
  by (simp add: clean_step_def)

lemma clean_step_normal: "normal_part p \<Longrightarrow> clean_step r out p = p # out"
  by (simp add: clean_step_def normal_part_def)

lemma foldl_normal: "list_all normal_part ps \<Longrightarrow> foldl (clean_step r) out ps = rev ps @ out"
  by (induction ps arbitrary: out) (auto simp: clean_step_normal)

lemma clean_step_True:
  "list_all normal_part out \<Longrightarrow> CHR ''/'' \<notin> set p \<Longrightarrow> list_all normal_part (clean_step True out p)"
  by (auto simp: clean_step_def normal_part_def split: list.splits)

lemma clean_step_False:
  "list_all up_part out \<Longrightarrow> CHR ''/'' \<notin> set p \<Longrightarrow> list_all up_part (clean_step False out p)"
  by (auto simp: clean_step_def up_part_def normal_part_def split: list.splits)

lemma foldl_clean_True:
  "list_all normal_part out \<Longrightarrow> list_all (\<lambda>p. CHR ''/'' \<notin> set p) ps \<Longrightarrow>
     list_all normal_part (foldl (clean_step True) out ps)"
  by (induction ps arbitrary: out) (auto simp: clean_step_True)

lemma foldl_clean_False:
  "list_all up_part out \<Longrightarrow> list_all (\<lambda>p. CHR ''/'' \<notin> set p) ps \<Longrightarrow>
     list_all up_part (foldl (clean_step False) out ps)"
  by (induction ps arbitrary: out) (auto simp: clean_step_False)

lemma split_list_all: "list_all (\<lambda>p. CHR ''/'' \<notin> set p) (split_on (CHR ''/'') s)"
  using split_on_no_sep by (auto simp: list_all_iff)

lemma clean_parts_True: "list_all normal_part (clean_parts True p)"
  using foldl_clean_True [OF _ split_list_all, of "[]" p] by (simp add: clean_parts_def list_all_rev)

lemma clean_parts_False: "list_all up_part (clean_parts False p)"
  using foldl_clean_False [OF _ split_list_all, of "[]" p] by (simp add: clean_parts_def list_all_rev)

lemma normal_slash: "normal_part p \<Longrightarrow> CHR ''/'' \<notin> set p"
  by (simp add: normal_part_def)

lemma up_slash: "up_part p \<Longrightarrow> CHR ''/'' \<notin> set p"
  unfolding up_part_def by (elim disjE) (simp, erule normal_slash)

lemma normal_no_slash: "list_all normal_part ps \<Longrightarrow> list_all (\<lambda>p. CHR ''/'' \<notin> set p) ps"
  by (erule list.pred_mono_strong) (rule normal_slash)

lemma up_no_slash: "list_all up_part ps \<Longrightarrow> list_all (\<lambda>p. CHR ''/'' \<notin> set p) ps"
  by (erule list.pred_mono_strong) (rule up_slash)

lemma clean_parts_of_normal:
  assumes "list_all normal_part ps"
  shows "clean_parts True (CHR ''/'' # join_slash ps) = ps"
proof (cases "ps = []")
  case False
  then have "split_on (CHR ''/'') (CHR ''/'' # join_slash ps) = [] # ps"
    using split_join_slash [OF False normal_no_slash [OF assms]] by simp
  then show ?thesis using foldl_normal [OF assms, of True "[]"] by (simp add: clean_parts_def)
qed (simp add: clean_parts_def)

lemma clean_parts_idem: "is_abs p \<Longrightarrow> clean_parts True (path_clean p) = clean_parts True p"
  using clean_parts_of_normal [OF clean_parts_True [of p]] by (simp add: path_clean_def)

lemma is_abs_Cons [simp]: "is_abs (c # s) \<longleftrightarrow> c = CHR ''/''" "\<not> is_abs []"
  by (auto simp: is_abs_def has_prefix_def)

lemma is_abs_append: "p \<noteq> [] \<Longrightarrow> is_abs (p @ s) = is_abs p"
  by (cases p) auto

lemma is_abs_join: "ps \<noteq> [] \<Longrightarrow> hd ps \<noteq> [] \<Longrightarrow> is_abs (join_slash ps) = is_abs (hd ps)"
  by (cases ps rule: join_slash.cases) (auto simp: is_abs_append)

lemma up_not_abs: "up_part p \<Longrightarrow> p \<noteq> [] \<and> \<not> is_abs p"
  using up_slash [of p] by (cases p) (fastforce simp: up_part_def normal_part_def)+

lemma is_abs_clean [simp]: "is_abs (path_clean p) = is_abs p"
proof (cases "is_abs p \<or> clean_parts False p = []")
  case False
  then have "up_part (hd (clean_parts False p))" using clean_parts_False [of p] by (cases "clean_parts False p") auto
  then show ?thesis using False up_not_abs is_abs_join [of "clean_parts False p"] by (simp add: path_clean_def)
qed (auto simp: path_clean_def)

section \<open>Absolute paths\<close>

text \<open>The components of the absolute path that \<open>p\<close> names from the directory \<open>wd\<close>.\<close>

definition abs_parts :: "string \<Rightarrow> string \<Rightarrow> string list" where
  "abs_parts wd p = clean_parts True (if is_abs p then p else wd @ CHR ''/'' # p)"

lemma clean_step_up:
  assumes "list_all up_part acc" "CHR ''/'' \<notin> set p"
  shows "foldl (clean_step True) out (rev (clean_step False acc p)) =
    clean_step True (foldl (clean_step True) out (rev acc)) p"
proof (cases "p = [] \<or> p = ''.''")
  case False
  show ?thesis
  proof (cases "p = ''..''")
    case True
    show ?thesis
    proof (cases acc)
      case (Cons q qs)
      then have q: "q = ''..'' \<or> normal_part q" using assms(1) by (simp add: up_part_def)
      show ?thesis
      proof (cases "q = ''..''")
        case False
        then have "normal_part q" using q by simp
        then show ?thesis using True Cons False clean_step_normal [of q True "foldl (clean_step True) out (rev qs)"]
          by (simp add: clean_step_def [of False] clean_step_def [of True "q # _"])
      qed (simp add: Cons True clean_step_def [of False])
    qed (simp add: True clean_step_def [of False])
  qed (use False in \<open>simp add: clean_step_def [of False]\<close>)
qed (auto simp: clean_step_def)

lemma foldl_clean_up:
  "list_all up_part acc \<Longrightarrow> list_all (\<lambda>p. CHR ''/'' \<notin> set p) ps \<Longrightarrow>
     foldl (clean_step True) out (rev (foldl (clean_step False) acc ps)) =
     foldl (clean_step True) (foldl (clean_step True) out (rev acc)) ps"
proof (induction ps arbitrary: acc)
  case (Cons p ps)
  then show ?case using clean_step_up [of acc p out] clean_step_False [of acc p] by simp
qed simp

lemma split_path_clean:
  assumes "\<not> is_abs p" "clean_parts False p \<noteq> []"
  shows "split_on (CHR ''/'') (path_clean p) = clean_parts False p"
  using assms split_join_slash [OF assms(2) up_no_slash [OF clean_parts_False]] by (simp add: path_clean_def)

text \<open>Cleaning a relative path does not change where it leads.\<close>

lemma foldl_path_clean:
  assumes "\<not> is_abs p"
  shows "foldl (clean_step True) out (split_on (CHR ''/'') (path_clean p)) =
    foldl (clean_step True) out (split_on (CHR ''/'') p)"
proof (cases "clean_parts False p = []")
  case True
  then have "path_clean p = ''.''" using assms by (simp add: path_clean_def)
  then have "foldl (clean_step True) out (split_on (CHR ''/'') (path_clean p)) = out"
    by (simp add: clean_step_def)
  also have "out = foldl (clean_step True) out (clean_parts False p)" using True by simp
  also have "\<dots> = foldl (clean_step True) out (split_on (CHR ''/'') p)"
    using foldl_clean_up [OF _ split_list_all, of "[]" out p] by (simp add: clean_parts_def)
  finally show ?thesis .
next
  case False
  then show ?thesis
    using foldl_clean_up [OF _ split_list_all, of "[]" out p] split_path_clean [OF assms False]
    by (simp add: clean_parts_def)
qed

lemma clean_parts_append:
  "clean_parts True (d @ CHR ''/'' # p) = rev (foldl (clean_step True) (rev (clean_parts True d)) (split_on (CHR ''/'') p))"
  by (simp add: clean_parts_def split_on_append_sep)

lemma abs_parts_clean: "abs_parts wd (path_clean p) = abs_parts wd p"
  using foldl_path_clean [of p] by (simp add: abs_parts_def clean_parts_idem clean_parts_append)

lemma clean_parts_append_normal:
  assumes "list_all normal_part es" "es \<noteq> []"
  shows "clean_parts True (d @ CHR ''/'' # join_slash es) = clean_parts True d @ es"
  using split_join_slash [OF assms(2) normal_no_slash [OF assms(1)]] foldl_normal [OF assms(1)]
  by (simp add: clean_parts_append)

lemma abs_parts_join:
  assumes "root_dir \<noteq> []" "list_all normal_part es" "es \<noteq> []"
  shows "abs_parts wd (path_join (root_dir # es)) = abs_parts wd root_dir @ es"
proof -
  have j: "join_slash (root_dir # es) = root_dir @ CHR ''/'' # join_slash es" using assms(3) by (cases es) auto
  then have "abs_parts wd (path_join (root_dir # es)) = abs_parts wd (root_dir @ CHR ''/'' # join_slash es)"
    using assms(1) by (simp add: path_join_def abs_parts_clean)
  also have "\<dots> = abs_parts wd root_dir @ es"
    using clean_parts_append_normal [OF assms(2,3), of root_dir]
      clean_parts_append_normal [OF assms(2,3), of "wd @ CHR ''/'' # root_dir"] assms(1)
    by (simp add: abs_parts_def is_abs_append)
  finally show ?thesis .
qed

lemma abs_parts_normal: "list_all normal_part (abs_parts wd p)"
  by (simp add: abs_parts_def clean_parts_True)

lemma path_abs_parts:
  assumes "is_abs wd"
  shows "path_abs (Inr wd) p = Inr (CHR ''/'' # join_slash (abs_parts wd p))"
proof (cases "is_abs p")
  case False
  have "wd \<noteq> []" using assms by auto
  then show ?thesis using False assms
    by (simp add: path_abs_def path_join_def path_clean_def is_abs_append abs_parts_def)
qed (simp add: path_abs_def path_clean_def abs_parts_def)

lemma path_clean_parts:
  assumes "list_all normal_part ps"
  shows "path_clean (CHR ''/'' # join_slash ps) = CHR ''/'' # join_slash ps"
    "rel_parts (CHR ''/'' # join_slash ps) = ps"
proof -
  show "path_clean (CHR ''/'' # join_slash ps) = CHR ''/'' # join_slash ps"
    using clean_parts_of_normal [OF assms] by (simp add: path_clean_def)
  have "filter (\<lambda>s. s \<noteq> []) ps = ps" using assms by (auto simp: list_all_iff normal_part_def intro: filter_True)
  then show "rel_parts (CHR ''/'' # join_slash ps) = ps"
    using split_join_slash [OF _ normal_no_slash [OF assms]] by (cases "ps = []") (simp_all add: rel_parts_def)
qed

lemma strip_common_spec:
  "strip_common bs ts = (bs', ts') \<Longrightarrow>
     \<exists>pre. bs = pre @ bs' \<and> ts = pre @ ts' \<and> (bs' = [] \<or> ts' = [] \<or> hd bs' \<noteq> hd ts')"
proof (induction bs ts rule: strip_common.induct)
  case (1 b bs t ts)
  show ?case
  proof (cases "b = t")
    case True
    then obtain pre where "bs = pre @ bs'" "ts = pre @ ts'" "bs' = [] \<or> ts' = [] \<or> hd bs' \<noteq> hd ts'"
      using 1 by auto
    then show ?thesis using True by (intro exI [of _ "b # pre"]) simp
  qed (use 1 in auto)
qed auto

lemma strip_common_prefix: "strip_common bs (bs @ rest) = ([], rest)"
  by (induction bs) (cases rest, auto)

lemma join_up_prefix:
  "has_prefix (join_slash (''..'' # ps)) ''../'' \<or> join_slash (''..'' # ps) = ''..''"
  by (cases ps) (simp_all add: has_prefix_def)

lemma join_normal_inside:
  assumes "list_all normal_part ps" "ps \<noteq> []"
  shows "join_slash ps \<noteq> ''.''" "\<not> has_prefix (join_slash ps) ''../''" "join_slash ps \<noteq> ''..''"
proof -
  have sp: "split_on (CHR ''/'') (join_slash ps) = ps"
    using split_join_slash [OF assms(2) normal_no_slash [OF assms(1)]] .
  have h: "hd ps \<noteq> ''.''" "hd ps \<noteq> ''..''" using assms by (cases ps; simp add: normal_part_def)+
  show "join_slash ps \<noteq> ''.''" "join_slash ps \<noteq> ''..''" using sp h by auto
  show "\<not> has_prefix (join_slash ps) ''../''"
  proof
    assume "has_prefix (join_slash ps) ''../''"
    then obtain t where "join_slash ps = ''..'' @ CHR ''/'' # t" by (auto simp: has_prefix_iff)
    then have "ps = ''..'' # split_on (CHR ''/'') t" using sp by simp
    then show False using h by simp
  qed
qed

lemma within_iff:
  assumes "is_abs wd"
  shows "validate_path_within (Inr wd) root_dir path = None \<longleftrightarrow>
    (\<exists>rest. rest \<noteq> [] \<and> abs_parts wd path = abs_parts wd root_dir @ rest)"
proof -
  let ?b = "abs_parts wd root_dir" and ?t = "abs_parts wd path"
  note c = path_clean_parts [OF abs_parts_normal]
  have eq: "join_slash ?t = join_slash ?b \<longleftrightarrow> ?t = ?b" by (metis c(2))
  obtain bs ts where s: "strip_common ?b ?t = (bs, ts)" by fastforce
  obtain pre where p: "?b = pre @ bs" "?t = pre @ ts" using strip_common_spec [OF s] by blast
  have n: "list_all normal_part bs" "list_all normal_part ts"
    using abs_parts_normal [of wd root_dir] abs_parts_normal [of wd path] p by simp_all
  then have up: "\<not> (bs \<noteq> [] \<and> hd bs = ''..'')" by (cases bs) (auto simp: normal_part_def)
  have r: "path_rel (CHR ''/'' # join_slash ?b) (CHR ''/'' # join_slash ?t) =
      (if ?t = ?b then Inr ''.'' else Inr (join_slash (replicate (length bs) ''..'' @ ts)))"
    using up by (auto simp: path_rel_def c s eq Let_def)
  show ?thesis
  proof (cases "bs = []")
    case True
    then have "?t = ?b \<longleftrightarrow> ts = []" "?t = ?b @ ts" using p by auto
    moreover have "(\<exists>rest. rest \<noteq> [] \<and> ?t = ?b @ rest) \<longleftrightarrow> ts \<noteq> []" using calculation by auto
    ultimately show ?thesis using True r join_normal_inside [OF n(2)]
      by (simp add: validate_path_within_def path_abs_parts [OF assms])
  next
    case False
    have "?t \<noteq> ?b @ rest" for rest
      using s False strip_common_prefix [of ?b rest] by auto
    moreover have "?t \<noteq> ?b" using calculation [of "[]"] by simp
    moreover have "has_prefix (join_slash (replicate (length bs) ''..'' @ ts)) ''../'' \<or>
        join_slash (replicate (length bs) ''..'' @ ts) = ''..''"
      using False join_up_prefix [of "replicate (length bs - 1) ''..'' @ ts"] by (cases bs) auto
    ultimately show ?thesis using r
      by (auto simp: validate_path_within_def path_abs_parts [OF assms])
  qed
qed

text \<open>With an absolute working directory, \<open>validatePathWithin\<close> accepts a path exactly
  when its components, cleaned and made absolute, extend those of the root by at least one:
  neither the root itself, nor a sibling whose name starts with the root's, nor a path with
  \<open>..\<close> that leaves the root passes.\<close>

lemma path_within_iff:
  assumes "is_abs wd"
  shows "validate_path_within (Inr wd) root_dir path = None \<longleftrightarrow>
    (\<exists>rest. rest \<noteq> [] \<and> abs_parts wd path = abs_parts wd root_dir @ rest)"
  using assms by (rule within_iff)

theorem path_within_iff_witness:
  "validate_path_within (Inr ''/'') ''/work'' ''/work/run-1/../run-2'' = None \<and>
   validate_path_within (Inr ''/'') ''/work'' ''/work/../workshop'' \<noteq> None"
proof -
  have "abs_parts ''/'' ''/work/run-1/../run-2'' = abs_parts ''/'' ''/work'' @ [''run-2'']" "is_abs ''/''"
    "abs_parts ''/'' ''/work/../workshop'' = [''workshop'']" "abs_parts ''/'' ''/work'' = [''work'']" by code_simp+
  then show ?thesis using path_within_iff [of "''/''"] by auto
qed

section \<open>Where the agent's directories lie\<close>

lemma long_normal: "3 \<le> length s \<Longrightarrow> CHR ''/'' \<notin> set s \<Longrightarrow> normal_part s"
  by (auto simp: normal_part_def)

lemma id_no_slash: "id_pattern s \<Longrightarrow> CHR ''/'' \<notin> set s \<and> 3 \<le> length s"
  by (auto simp: id_pattern_def id_tail_def id_head_def list_all_iff split: list.splits)

lemma id_normal: "id_pattern s \<Longrightarrow> normal_part s"
  using id_no_slash long_normal by blast

lemma pad0_no_slash [simp]: "CHR ''/'' \<notin> set (pad0 w i)"
  using utoa_no_char [of "CHR ''/''"] by (auto simp: pad0_def is_digit_def)

lemma attempt_dir_normal:
  assumes "id_pattern r"
  shows "normal_part (format_attempt_id r c a @ ''.spore'')"
  using id_no_slash [OF assms] by (intro long_normal) (simp_all add: format_attempt_id_def)

lemma child_normal: "normal_part (''child-'' @ itoa c)"
  by (intro long_normal) simp_all

lemma child_work_dir_parts:
  assumes "id_pattern (br_runID run)" "id_pattern (lease_shardID lease)" "workRoot \<noteq> []"
  shows "abs_parts wd (child_work_dir workRoot run lease c (format_attempt_id (br_runID run) c a)) =
    abs_parts wd workRoot @ [br_runID run, lease_shardID lease, ''child-'' @ itoa c,
      format_attempt_id (br_runID run) c a @ ''.spore'']"
  unfolding child_work_dir_def
  using assms id_normal attempt_dir_normal [OF assms(1)] child_normal by (intro abs_parts_join) simp_all

text \<open>C33: the directory a child attempt of a valid lease works in lies inside the work root,
  whatever the working directory and however the root is written, and different children or
  attempts have different directories, none inside another.\<close>

theorem child_dirs_separate:
  assumes "lease_validate lease run = None" "workRoot \<noteq> []" "is_abs wd"
    and "0 \<le> c" "0 \<le> a" "0 \<le> c'" "0 \<le> a'" "(c, a) \<noteq> (c', a')"
  defines "dir \<equiv> \<lambda>c a. child_work_dir workRoot run lease c (format_attempt_id (br_runID run) c a)"
  shows "validate_path_within (Inr wd) workRoot (dir c a) = None \<and> dir c a \<noteq> dir c' a' \<and>
    validate_path_within (Inr wd) (dir c a) (dir c' a') \<noteq> None"
proof -
  have ids: "id_pattern (br_runID run)" "id_pattern (lease_shardID lease)"
    using assms(1) by (simp_all add: lease_validate_None bundle_run_validate_None)
  have p: "abs_parts wd (dir c a) = abs_parts wd workRoot @ [br_runID run, lease_shardID lease,
      ''child-'' @ itoa c, format_attempt_id (br_runID run) c a @ ''.spore'']" for c a
    unfolding dir_def by (rule child_work_dir_parts [OF ids assms(2)])
  have ne: "abs_parts wd (dir c' a') \<noteq> abs_parts wd (dir c a)"
    using assms(8) attempt_ids_inject [OF assms(4-7), of "br_runID run"] by (auto simp: p)
  have len: "length (abs_parts wd (dir c' a')) = length (abs_parts wd (dir c a))" by (simp add: p)
  have "validate_path_within (Inr wd) workRoot (dir c a) = None"
    unfolding within_iff [OF assms(3)] unfolding p by blast
  moreover have "validate_path_within (Inr wd) (dir c a) (dir c' a') \<noteq> None"
    unfolding within_iff [OF assms(3)] using len by auto
  ultimately show ?thesis using ne by auto
qed

theorem child_dirs_separate_witness:
  "validate_path_within (Inr ''/'') ''work'' (child_work_dir ''work'' sample_bundle_run
     (plan_lease_for sample_bundle_run sample_agent) 0 (format_attempt_id ''run-1'' 0 1)) = None"
proof -
  have "lease_validate (plan_lease_for sample_bundle_run sample_agent) sample_bundle_run = None"
    using shard_id_pattern [of "''run-1''"] sample_bundle_run_valid
    by (simp add: lease_validate_None plan_lease_for_def lease_range_def sample_agent_def)
      (simp add: sample_bundle_run_def)
  from child_dirs_separate [OF this, of "''work''" "''/''" 0 1 0 2] show ?thesis
    by (simp add: sample_bundle_run_def)
qed

end
