(* ===== verification/AgentTypes.thy ===== *)
theory AgentTypes
  imports ResultStore Slots Paths
begin

text \<open>
  What the node agent (\<open>internal/agent/runtime.go\<close>) is configured with: the SporeVM client,
  the result store, the operating system, the clock and the metrics sink are Go interfaces or
  library calls; here they are records of functions on the state \<open>'w\<close> of everything outside
  the agent. A call that takes a \<open>context.Context\<close> takes the \<open>go_ctx\<close> it is derived from.
\<close>

section \<open>Contexts, files\<close>

datatype go_ctx = CallerCtx | BackgroundCtx | WithoutCancel go_ctx | WithTimeout int go_ctx

datatype file_kind = DirFile | RegularFile | SymlinkFile | OtherFile

text \<open>Durations, in nanoseconds.\<close>

definition second :: int where
  "second = 1000000000"

definition lifecycle_cleanup_timeout :: int where
  "lifecycle_cleanup_timeout = 30 * second"

text \<open>The calls of the packages \<open>os\<close> and \<open>path/filepath\<close> the agent makes. \<open>os_write_synced\<close>
  is opening, writing, syncing and closing one file; \<open>os_sync_dir\<close> is opening and syncing a
  directory.\<close>

record 'w os_calls =
  os_getwd :: "'w \<Rightarrow> gerr + string"
  os_stat :: "string \<Rightarrow> 'w \<Rightarrow> gerr + file_kind"
  os_lstat :: "string \<Rightarrow> 'w \<Rightarrow> gerr + file_kind"
  os_read_dir :: "string \<Rightarrow> 'w \<Rightarrow> gerr + (string \<times> file_kind) list"
  os_read_file :: "string \<Rightarrow> 'w \<Rightarrow> gerr + string"
  os_remove_all :: "string \<Rightarrow> 'w \<Rightarrow> gerr option \<times> 'w"
  os_remove :: "string \<Rightarrow> 'w \<Rightarrow> gerr option \<times> 'w"
  os_mkdir_all :: "string \<Rightarrow> 'w \<Rightarrow> gerr option \<times> 'w"
  os_mkdir_temp :: "string \<Rightarrow> string \<Rightarrow> 'w \<Rightarrow> (gerr + string) \<times> 'w"
  os_write_file :: "string \<Rightarrow> string \<Rightarrow> 'w \<Rightarrow> gerr option \<times> 'w"
  os_write_synced :: "string \<Rightarrow> string \<Rightarrow> 'w \<Rightarrow> gerr option \<times> 'w"
  os_rename :: "string \<Rightarrow> string \<Rightarrow> 'w \<Rightarrow> gerr option \<times> 'w"
  os_sync_dir :: "string \<Rightarrow> 'w \<Rightarrow> gerr option \<times> 'w"

section \<open>The agent's interfaces\<close>

record 'w spore_client =
  sc_executable :: "'w \<Rightarrow> (gerr + string) \<times> 'w"
  sc_version :: "go_ctx \<Rightarrow> 'w \<Rightarrow> (gerr + string) \<times> 'w"
  sc_host_info :: "go_ctx \<Rightarrow> 'w \<Rightarrow> (gerr + host_info) \<times> 'w"
  sc_inspect_bundle :: "go_ctx \<Rightarrow> inspect_bundle_request \<Rightarrow> 'w \<Rightarrow> (gerr + inspect_bundle_result) \<times> 'w"
  sc_run_capture :: "go_ctx \<Rightarrow> run_capture_request \<Rightarrow> 'w \<Rightarrow> (run_event list \<times> gerr option) \<times> 'w"
  sc_fork :: "go_ctx \<Rightarrow> fork_request \<Rightarrow> 'w \<Rightarrow> gerr option \<times> 'w"
  sc_pack :: "go_ctx \<Rightarrow> pack_request \<Rightarrow> 'w \<Rightarrow> gerr option \<times> 'w"
  sc_pull :: "go_ctx \<Rightarrow> pull_request \<Rightarrow> 'w \<Rightarrow> (gerr + pull_result) \<times> 'w"
  sc_resume :: "go_ctx \<Rightarrow> resume_request \<Rightarrow> 'w \<Rightarrow> (run_event list \<times> gerr option) \<times> 'w"
  sc_restore_named :: "go_ctx \<Rightarrow> restore_named_request \<Rightarrow> 'w \<Rightarrow> (gerr + named_lifecycle_result) \<times> 'w"
  sc_run_from :: "go_ctx \<Rightarrow> run_from_request \<Rightarrow> 'w \<Rightarrow> (run_event list \<times> gerr option) \<times> 'w"
  sc_exec :: "go_ctx \<Rightarrow> exec_request \<Rightarrow> 'w \<Rightarrow> (run_event list \<times> gerr option) \<times> 'w"
  sc_remove_vm :: "go_ctx \<Rightarrow> remove_vm_request \<Rightarrow> 'w \<Rightarrow> gerr option \<times> 'w"
  sc_remove_saved_spore :: "go_ctx \<Rightarrow> remove_saved_spore_request \<Rightarrow> 'w \<Rightarrow> gerr option \<times> 'w"
  sc_collect_cache :: "go_ctx \<Rightarrow> 'w \<Rightarrow> (cache_gc_result \<times> gerr option) \<times> 'w"

record 'w result_store_if =
  store_terminal :: "go_ctx \<Rightarrow> bundle_run \<Rightarrow> int \<Rightarrow> 'w \<Rightarrow> (gerr + attempt_result option) \<times> 'w"
  store_write :: "go_ctx \<Rightarrow> bundle_run \<Rightarrow> attempt_result \<Rightarrow> 'w \<Rightarrow> gerr option \<times> 'w"
  store_commit :: "go_ctx \<Rightarrow> bundle_run \<Rightarrow> attempt_result \<Rightarrow> 'w \<Rightarrow> (bool \<times> gerr option) \<times> 'w"

record attempt_metrics =
  am_runID :: string
  am_bundleDigest :: string
  am_childID :: int
  am_attemptID :: string
  am_agentID :: string
  am_shardID :: string
  am_status :: attempt_status
  am_timingsMS :: attempt_timings
  am_originBytesRead :: int
  am_peerBytesRead :: int
  am_chunkCacheHits :: int
  am_chunkCacheMisses :: int
  am_rootFSCacheHits :: int
  am_rootFSCacheMisses :: int
  am_materializedChunkCount :: int
  am_linkedChunkCount :: int
  am_copiedChunkCount :: int
  am_platformMismatch :: bool
  am_terminalCommitAttempted :: bool
  am_terminalCommitSuccessful :: bool

text \<open>The configuration of a \<open>Runner\<close>; \<open>rn_ctx_err\<close> is \<open>ctx.Err()\<close> of the caller's
  context, \<open>rn_timer\<close> waits for a duration or for the end of a context, whose error it then
  gives, and \<open>rn_unmarshal_strings\<close> is \<open>json.Unmarshal\<close> into a list of strings. Its slots and registry are in \<open>Slots\<close> and \<open>Sandbox\<close>.\<close>

record 'w runner =
  rn_client :: "'w spore_client option"
  rn_results :: "'w result_store_if option"
  rn_workRoot :: string
  rn_backend :: string
  rn_now :: "'w clock"
  rn_metrics :: "(attempt_metrics \<Rightarrow> 'w \<Rightarrow> 'w) option"
  rn_childTimeout :: int
  rn_cacheGC :: bool
  rn_os :: "'w os_calls"
  rn_ctx_err :: "'w \<Rightarrow> gerr option"
  rn_timer :: "go_ctx \<Rightarrow> int \<Rightarrow> 'w \<Rightarrow> gerr option \<times> 'w"
  rn_unmarshal_strings :: "string \<Rightarrow> gerr + string list"

section \<open>Requests\<close>

record run_child_request =
  rch_run :: bundle_run
  rch_lease :: shard_lease
  rch_childID :: int
  rch_attempt :: int
  rch_pressure :: pressure
  rch_region :: string
  rch_allowMetadataOnlyRootFS :: bool
  rch_backend :: string
  rch_localChildrenDir :: string

record run_shard_request =
  rsh_run :: bundle_run
  rsh_lease :: shard_lease
  rsh_attempt :: int
  rsh_pressure :: pressure
  rsh_region :: string
  rsh_allowMetadataOnlyRootFS :: bool
  rsh_backend :: string
  rsh_localChildrenDir :: string

record status_request =
  srq_agentID :: string
  srq_cellID :: string
  srq_backend :: string
  srq_cache :: cache_status
  srq_pressure :: pressure
  srq_observedAt :: go_time

record prepare_bundle_request =
  pbq_run :: run
  pbq_backend :: string

record prepared_run_cleanup =
  prc_runID :: string
  prc_removedChildren :: int

record local_preparation =
  lp_hostClass :: host_class
  lp_parentDir :: string
  lp_childrenDir :: string
  lp_bundleDir :: string
  lp_timingsMS :: prepare_timings

text \<open>Zero values.\<close>

definition zero_cache_state :: cache_state where
  "zero_cache_state = \<lparr>cs_hit_count = 0, cs_miss_count = 0, cs_bytes_fetched = 0\<rparr>"

definition zero_pull :: pull_result where
  "zero_pull = \<lparr>plr_schema = [], plr_schema_version = 0, plr_source = [], plr_bundle_dir = [], plr_out_dir = [],
     plr_bundle_digest = \<lparr>dr_algorithm = [], dr_hex = []\<rparr>,
     plr_materialization = \<lparr>cm_chunk_count = 0, cm_materialized_chunk_count = 0, cm_payload_bytes = 0,
       cm_linked_chunk_count = 0, cm_copied_chunk_count = 0, cm_cache = zero_cache_state\<rparr>,
     plr_rootfs = \<lparr>rm_artifact_count = 0, rm_payload_bytes = 0, rm_cache = zero_cache_state\<rparr>,
     plr_remote = \<lparr>rbc_cache_hit = False, rbc_origin_bytes_read = 0, rbc_peer_bytes_read = 0\<rparr>,
     plr_children = \<lparr>bch_count = 0, bch_selected_child = None\<rparr>\<rparr>"

definition elapsed_ms :: "go_time \<Rightarrow> go_time \<Rightarrow> float64" where
  "elapsed_ms start end_time =
     (if end_time < start then 0 else of_int (time_sub end_time start div 1000) / 1000)"

lemma elapsed_ms_nonneg [simp]: "0 \<le> elapsed_ms t u"
  by (auto simp: elapsed_ms_def time_sub_def pos_imp_zdiv_nonneg_iff)

end
