(* ===== verification/ChildOutcome.thy ===== *)
theory ChildOutcome
  imports AgentTypes
begin

text \<open>
  The pure parts of a child attempt (\<open>internal/agent/runtime.go\<close>): the request's guards, the
  bundle source, the generation file, the output previews, and the error an attempt reports.
\<close>

section \<open>Requests and files\<close>

definition validate_run_child_request :: "'w runner \<Rightarrow> run_child_request \<Rightarrow> gerr option" where
  "validate_run_child_request r req = first_err
     [check (rn_client r = None) (Sentinel ErrSporeClientNotConfigured),
      check (rn_results r = None) (Sentinel ErrResultStoreNotConfigured),
      check (rn_workRoot r = []) (Sentinel ErrWorkRootNotConfigured),
      lease_validate (rch_lease req) (rch_run req),
      check (rch_childID req < lease_childStart (rch_lease req) \<or>
             rch_childID req \<ge> range_end (lease_range (rch_lease req))) (Sentinel ErrChildOutsideLease),
      check (rch_attempt req < 1 \<or> rch_attempt req > lease_attemptBudget (rch_lease req))
        (Sentinel ErrInvalidLease)]"

definition bundle_source :: "bundle_run \<Rightarrow> string" where
  "bundle_source run =
     (let uri = bundle_uri (br_bundle run); digest = bundle_digest (br_bundle run) in
      if has_prefix uri ''file://'' then uri
      else if has_suffix uri (CHR ''@'' # digest) then uri
      else uri @ CHR ''@'' # digest)"

record generation_payload =
  gp_run_id :: string
  gp_child_id :: int
  gp_parallel_index :: int
  gp_parallel_count :: int
  gp_fork_index :: int
  gp_fork_count :: int
  gp_fork_batch_id :: string
  gp_vm_id :: string

definition generation_payload_of :: "bundle_run \<Rightarrow> int \<Rightarrow> generation_payload" where
  "generation_payload_of run childID =
     (let index = wrap64 (childID - range_start (br_children run)) in
      \<lparr>gp_run_id = br_runID run, gp_child_id = childID, gp_parallel_index = index,
       gp_parallel_count = range_count (br_children run), gp_fork_index = index,
       gp_fork_count = range_count (br_children run), gp_fork_batch_id = br_runID run,
       gp_vm_id = br_runID run @ ''-child-'' @ itoa childID\<rparr>)"

text \<open>\<open>json.Marshal\<close> of the payload. Its strings are made of a run identifier's characters,
  which JSON copies; a quote, a backslash or a control character is escaped, and Go also
  escapes the three HTML characters.\<close>

definition json_char :: "char \<Rightarrow> string" where
  "json_char c =
     (let n = (of_char c :: nat); b = char_of (92::nat) in
      if n = 34 \<or> n = 92 then [b, c]
      else if n = 8 then [b, CHR ''b''] else if n = 12 then [b, CHR ''f'']
      else if n = 10 then [b, CHR ''n''] else if n = 13 then [b, CHR ''r''] else if n = 9 then [b, CHR ''t'']
      else if n < 32 \<or> n = 60 \<or> n = 62 \<or> n = 38 then b # ''u00'' @ hex_byte c
      else [c])"

definition json_string :: "string \<Rightarrow> string" where
  "json_string s = char_of (34::nat) # concat (map json_char s) @ [char_of (34::nat)]"

definition json_field :: "string \<Rightarrow> string \<Rightarrow> string" where
  "json_field name value = json_string name @ '':'' @ value"

definition generation_json :: "generation_payload \<Rightarrow> string" where
  "generation_json p =
     ''{'' @ json_field ''run_id'' (json_string (gp_run_id p)) @ '','' @
     json_field ''child_id'' (itoa (gp_child_id p)) @ '','' @
     json_field ''parallel_index'' (itoa (gp_parallel_index p)) @ '','' @
     json_field ''parallel_count'' (itoa (gp_parallel_count p)) @ '','' @
     json_field ''fork_index'' (itoa (gp_fork_index p)) @ '','' @
     json_field ''fork_count'' (itoa (gp_fork_count p)) @ '','' @
     json_field ''fork_batch_id'' (json_string (gp_fork_batch_id p)) @ '','' @
     json_field ''vm_id'' (json_string (gp_vm_id p)) @ ''}''"

definition write_generation_file :: "'w os_calls \<Rightarrow> string \<Rightarrow> bundle_run \<Rightarrow> int \<Rightarrow> 'w \<Rightarrow> gerr option \<times> 'w" where
  "write_generation_file os path run childID w =
     os_write_file os path (generation_json (generation_payload_of run childID) @ [char_of (10::nat)]) w"

definition validate_prepared_child_dir :: "'w os_calls \<Rightarrow> string \<Rightarrow> string \<Rightarrow> 'w \<Rightarrow> gerr option" where
  "validate_prepared_child_dir os workRoot path w =
     (case validate_path_within (os_getwd os w) workRoot path of
        Some e \<Rightarrow> Some e
      | None \<Rightarrow>
          (case os_stat os path w of
             Inl e \<Rightarrow> Some e
           | Inr kind \<Rightarrow> check (kind \<noteq> DirFile) (Opaque (path @ '' is not a directory''))))"

section \<open>Output previews\<close>

definition attempt_output_preview_limit :: nat where
  "attempt_output_preview_limit = 16 * 1024"

definition append_output_preview :: "string \<Rightarrow> string \<Rightarrow> string" where
  "append_output_preview preview data =
     (if length preview \<ge> attempt_output_preview_limit then preview
      else
        let remaining = attempt_output_preview_limit - length preview;
            data1 = (if length data > remaining then take remaining data else data)
        in preview @ data1)"

record output_state =
  os_stdoutBytes :: int
  os_stderrBytes :: int
  os_stdoutPreview :: string
  os_stderrPreview :: string

definition event_stream :: "run_event \<Rightarrow> string" where
  "event_stream e = (if ev_event e = ''output'' then ''stdout'' else ev_event e)"

text \<open>The loop over the events.\<close>

fun output_loop :: "output_state \<Rightarrow> run_event list \<Rightarrow> gerr + output_state" where
  "output_loop s [] = Inr s"
| "output_loop s (e # es) =
     (if event_stream e \<noteq> ''stdout'' \<and> event_stream e \<noteq> ''stderr'' then output_loop s es
      else case b64_decode (ev_data_base64 e) of
          None \<Rightarrow> Inl (invalid_machine_output (ev_event e @ '' event has invalid data_base64''))
        | Some data \<Rightarrow>
            if ev_byte_count e \<noteq> 0 \<and> ev_byte_count e \<noteq> int (length data)
            then Inl (invalid_machine_output (ev_event e @ '' event byte_count = '' @ itoa (ev_byte_count e)
                   @ '', decoded '' @ itoa (int (length data))))
            else if event_stream e = ''stdout''
            then output_loop (s\<lparr>os_stdoutBytes := wrap64 (os_stdoutBytes s + int (length data)),
                   os_stdoutPreview := append_output_preview (os_stdoutPreview s) data\<rparr>) es
            else output_loop (s\<lparr>os_stderrBytes := wrap64 (os_stderrBytes s + int (length data)),
                   os_stderrPreview := append_output_preview (os_stderrPreview s) data\<rparr>) es)"

definition attempt_output_from_events :: "run_event list \<Rightarrow> gerr + attempt_output option" where
  "attempt_output_from_events events =
     (case output_loop \<lparr>os_stdoutBytes = 0, os_stderrBytes = 0, os_stdoutPreview = [], os_stderrPreview = []\<rparr> events of
        Inl e \<Rightarrow> Inl e
      | Inr s \<Rightarrow>
          if os_stdoutBytes s = 0 \<and> os_stderrBytes s = 0 then Inr None
          else Inr (Some \<lparr>ao_stdoutBytes = os_stdoutBytes s, ao_stderrBytes = os_stderrBytes s,
            ao_stdoutPreviewBase64 = (if length (os_stdoutPreview s) > 0 then b64_encode (os_stdoutPreview s) else []),
            ao_stderrPreviewBase64 = (if length (os_stderrPreview s) > 0 then b64_encode (os_stderrPreview s) else []),
            ao_stdoutTruncated = (length (os_stdoutPreview s) > 0 \<and>
              os_stdoutBytes s > int (length (os_stdoutPreview s))),
            ao_stderrTruncated = (length (os_stderrPreview s) > 0 \<and>
              os_stderrBytes s > int (length (os_stderrPreview s)))\<rparr>))"

section \<open>The error of an attempt\<close>

definition machine_error_is_platform_mismatch :: "machine_error_body \<Rightarrow> bool" where
  "machine_error_is_platform_mismatch body \<longleftrightarrow>
     me_code body = ''host.unsupported'' \<or> (me_code body = ''object.invalid'' \<and> me_source body = ''PlatformMismatch'')"

definition attempt_error_of :: "gerr option \<Rightarrow> attempt_error" where
  "attempt_error_of err =
     (case err of
        None \<Rightarrow> \<lparr>ae_code = ''agent.error'', ae_message = ''unknown error'', ae_scope = [], ae_retry = [], ae_retryable = False\<rparr>
      | Some e \<Rightarrow>
          (case as_machine_error e of
             Some (env, stderr) \<Rightarrow>
               let body = env_error env in
               \<lparr>ae_code = (if me_code body = [] then ''spore.error'' else me_code body),
                ae_message = (if me_message body = [] then machine_error_text env stderr else me_message body),
                ae_scope = me_scope body, ae_retry = me_retry body, ae_retryable = me_retryable body\<rparr>
           | None \<Rightarrow>
               \<lparr>ae_code = (if errors_is ContextCanceled e then ''agent.canceled''
                  else if errors_is ContextDeadlineExceeded e then ''agent.deadline_exceeded''
                  else if errors_is ErrNoTerminalEvent e \<or> errors_is ErrInvalidMachineOutput e
                  then ''runtime.invalid_output'' else ''agent.error''),
                ae_message = err_text e, ae_scope = [], ae_retry = [], ae_retryable = False\<rparr>))"


section \<open>What the previews hold\<close>

text \<open>The bytes a stream carried, and what the previews and counters of a result say of them.\<close>

definition stream_data :: "string \<Rightarrow> run_event list \<Rightarrow> string" where
  "stream_data stream es =
     concat (map (\<lambda>e. the (b64_decode (ev_data_base64 e))) (filter (\<lambda>e. event_stream e = stream) es))"

definition output_event_ok :: "run_event \<Rightarrow> bool" where
  "output_event_ok e \<longleftrightarrow> event_stream e \<notin> {''stdout'', ''stderr''} \<or>
     (\<exists>d. b64_decode (ev_data_base64 e) = Some d \<and> (ev_byte_count e = 0 \<or> ev_byte_count e = int (length d)))"

definition preview_of :: "string \<Rightarrow> string \<Rightarrow> attempt_output option" where
  "preview_of so se =
     (if so = [] \<and> se = [] then None
      else Some \<lparr>ao_stdoutBytes = int (length so), ao_stderrBytes = int (length se),
        ao_stdoutPreviewBase64 = b64_encode (take attempt_output_preview_limit so),
        ao_stderrPreviewBase64 = b64_encode (take attempt_output_preview_limit se),
        ao_stdoutTruncated = (attempt_output_preview_limit < length so),
        ao_stderrTruncated = (attempt_output_preview_limit < length se)\<rparr>)"

definition output_after :: "string \<Rightarrow> string \<Rightarrow> output_state" where
  "output_after so se =
     \<lparr>os_stdoutBytes = wrap64 (int (length so)), os_stderrBytes = wrap64 (int (length se)),
      os_stdoutPreview = take attempt_output_preview_limit so,
      os_stderrPreview = take attempt_output_preview_limit se\<rparr>"

lemma wrap64_add_left [simp]: "wrap64 (wrap64 x + y) = wrap64 (x + y)"
proof -
  have "((x + 2 ^ 63) mod 2 ^ 64 - 2 ^ 63 + y + 2 ^ 63) mod 2 ^ 64 = ((x + 2 ^ 63) mod 2 ^ 64 + y) mod (2 ^ 64 :: int)"
    by (simp add: algebra_simps)
  also have "\<dots> = (x + y + 2 ^ 63) mod 2 ^ 64" by (simp add: mod_simps algebra_simps)
  finally show ?thesis by (simp add: wrap64_def)
qed

lemma append_preview_take:
  "append_output_preview (take attempt_output_preview_limit so) d = take attempt_output_preview_limit (so @ d)"
  by (auto simp: append_output_preview_def Let_def)

lemma stream_data_simps [simp]:
  "stream_data stream [] = []"
  "stream_data stream (e # es) =
     (if event_stream e = stream then the (b64_decode (ev_data_base64 e)) else []) @ stream_data stream es"
  by (simp_all add: stream_data_def)

lemma output_after_out:
  "(output_after so se)\<lparr>os_stdoutBytes := wrap64 (os_stdoutBytes (output_after so se) + int (length d)),
     os_stdoutPreview := append_output_preview (os_stdoutPreview (output_after so se)) d\<rparr> = output_after (so @ d) se"
  "(output_after so se)\<lparr>os_stderrBytes := wrap64 (os_stderrBytes (output_after so se) + int (length d)),
     os_stderrPreview := append_output_preview (os_stderrPreview (output_after so se)) d\<rparr> = output_after so (se @ d)"
  by (simp_all add: output_after_def append_preview_take)

lemma output_loop_Inr:
  "output_loop (output_after so se) es = Inr s \<longleftrightarrow>
     list_all output_event_ok es \<and>
     s = output_after (so @ stream_data ''stdout'' es) (se @ stream_data ''stderr'' es)"
proof (induction es arbitrary: so se)
  case Nil
  show ?case by auto
next
  case (Cons e es)
  show ?case
  proof (cases "event_stream e \<noteq> ''stdout'' \<and> event_stream e \<noteq> ''stderr''")
    case True
    then show ?thesis by (simp add: Cons.IH output_event_ok_def)
  next
    case stream: False
    show ?thesis
    proof (cases "b64_decode (ev_data_base64 e)")
      case None
      then show ?thesis using stream by (auto simp: output_event_ok_def)
    next
      case (Some d)
      then show ?thesis using stream
        by (cases "event_stream e = ''stdout''") (auto simp: output_event_ok_def output_after_out Cons.IH)
    qed
  qed
qed

lemma preview_valid: "preview_of so se = Some ao \<Longrightarrow> attempt_output_validate ao path = None"
  by (auto simp: preview_of_def attempt_output_validate_None validate_base64_preview_None attempt_output_preview_limit_def
      split: if_splits)

lemma output_of_state:
  assumes "int (length so) < 2 ^ 63" "int (length se) < 2 ^ 63"
  shows "(if os_stdoutBytes (output_after so se) = 0 \<and> os_stderrBytes (output_after so se) = 0 then None
    else Some \<lparr>ao_stdoutBytes = os_stdoutBytes (output_after so se), ao_stderrBytes = os_stderrBytes (output_after so se),
            ao_stdoutPreviewBase64 = (if length (os_stdoutPreview (output_after so se)) > 0
              then b64_encode (os_stdoutPreview (output_after so se)) else []),
            ao_stderrPreviewBase64 = (if length (os_stderrPreview (output_after so se)) > 0
              then b64_encode (os_stderrPreview (output_after so se)) else []),
            ao_stdoutTruncated = (length (os_stdoutPreview (output_after so se)) > 0 \<and>
              os_stdoutBytes (output_after so se) > int (length (os_stdoutPreview (output_after so se)))),
            ao_stderrTruncated = (length (os_stderrPreview (output_after so se)) > 0 \<and>
              os_stderrBytes (output_after so se) > int (length (os_stderrPreview (output_after so se))))\<rparr>)
    = preview_of so se"
proof -
  have "wrap64 (int (length so)) = int (length so)" "wrap64 (int (length se)) = int (length se)"
    using assms by (simp_all add: in64_def)
  then show ?thesis by (auto simp: output_after_def preview_of_def attempt_output_preview_limit_def)
qed

lemma output_start: "\<lparr>os_stdoutBytes = 0, os_stderrBytes = 0, os_stdoutPreview = [], os_stderrPreview = []\<rparr> = output_after [] []"
  by (simp add: output_after_def in64_def)

lemma attempt_output_iff:
  assumes "int (length (stream_data ''stdout'' es)) < 2 ^ 63" "int (length (stream_data ''stderr'' es)) < 2 ^ 63"
  shows "attempt_output_from_events es = Inr out \<longleftrightarrow>
    list_all output_event_ok es \<and> out = preview_of (stream_data ''stdout'' es) (stream_data ''stderr'' es)"
proof (cases "output_loop (output_after [] []) es")
  case (Inl e)
  then have "\<not> list_all output_event_ok es" using output_loop_Inr [of "[]" "[]" es] by (metis Inl_Inr_False)
  then show ?thesis using Inl by (simp add: attempt_output_from_events_def output_start)
next
  case (Inr s)
  then have s: "list_all output_event_ok es" "s = output_after (stream_data ''stdout'' es) (stream_data ''stderr'' es)"
    by (simp_all add: output_loop_Inr)
  have "attempt_output_from_events es = Inr (preview_of (stream_data ''stdout'' es) (stream_data ''stderr'' es))"
    unfolding attempt_output_from_events_def output_start Inr s(2) output_of_state [OF assms, symmetric] by simp
  then show ?thesis using s(1) by auto
qed

text \<open>C31: the output of an attempt is read from its events exactly when every output event
  carries Base64 whose length agrees with its byte count; then the counters are the lengths
  of the two streams, each preview is the Base64 of the stream's first 16384 bytes, the
  truncation flags say whether bytes are missing, and the output passes the contract's
  validation.\<close>

theorem attempt_output_exact:
  assumes "int (length (stream_data ''stdout'' es)) < 2 ^ 63" "int (length (stream_data ''stderr'' es)) < 2 ^ 63"
  shows "(attempt_output_from_events es = Inr out \<longleftrightarrow>
      list_all output_event_ok es \<and> out = preview_of (stream_data ''stdout'' es) (stream_data ''stderr'' es)) \<and>
    (attempt_output_from_events es = Inr (Some ao) \<longrightarrow> attempt_output_validate ao path = None)"
proof (intro conjI impI)
  show "attempt_output_from_events es = Inr out \<longleftrightarrow>
      list_all output_event_ok es \<and> out = preview_of (stream_data ''stdout'' es) (stream_data ''stderr'' es)"
    using assms by (rule attempt_output_iff)
next
  assume "attempt_output_from_events es = Inr (Some ao)"
  then have "Some ao = preview_of (stream_data ''stdout'' es) (stream_data ''stderr'' es)"
    unfolding attempt_output_iff [OF assms] by (rule conjunct2)
  then show "attempt_output_validate ao path = None" by (rule preview_valid [OF sym])
qed

definition sample_output :: "run_event list" where
  "sample_output = [sample_completion\<lparr>ev_event := ''output'', ev_outcome := [], ev_exit_code := None,
     ev_byte_count := 2, ev_data_base64 := b64_encode ''hi''\<rparr>, sample_completion]"

theorem attempt_output_exact_witness:
  "attempt_output_from_events sample_output = Inr (preview_of ''hi'' [])"
proof -
  have d: "b64_decode (b64_encode ''hi'') = Some ''hi''" by (rule b64_decode_encode)
  then have "stream_data ''stdout'' sample_output = ''hi''" "stream_data ''stderr'' sample_output = []"
    by (simp_all add: sample_output_def event_stream_def sample_completion_def del: b64_encode.simps)
  moreover have "list_all output_event_ok sample_output"
    using d by (simp add: sample_output_def output_event_ok_def event_stream_def sample_completion_def del: b64_encode.simps)
  ultimately show ?thesis using attempt_output_exact [of sample_output "preview_of ''hi'' []"] by simp
qed

section \<open>The error of an attempt is valid\<close>

lemma attempt_error_machine:
  assumes "as_machine_error e = Some (env, stderr)" "machine_error_body_validate (env_error env) = None"
  shows "attempt_error_validate (attempt_error_of (Some e)) path = None"
proof -
  have "machine_error_text env stderr \<noteq> []"
    using assms(2) by (simp add: machine_error_text_def Let_def machine_error_body_validate_def)
  then show ?thesis using assms
    by (auto simp: attempt_error_validate_None attempt_error_of_def machine_error_body_validate_def Let_def)
qed

text \<open>The error an attempt reports passes the contract's validation whenever the error it
  was made from has a text, and, when it comes from SporeVM, a classified body.\<close>

lemma attempt_error_valid:
  assumes "case as_machine_error e of None \<Rightarrow> err_text e \<noteq> []
    | Some (env, stderr) \<Rightarrow> machine_error_body_validate (env_error env) = None"
  shows "attempt_error_validate (attempt_error_of (Some e)) path = None \<and>
    attempt_error_validate (attempt_error_of None) path = None"
proof (cases "as_machine_error e")
  case None
  then show ?thesis using assms by (simp add: attempt_error_validate_None attempt_error_of_def)
next
  case (Some m)
  then show ?thesis using assms attempt_error_machine [of e "fst m" "snd m" path]
    by (auto simp: attempt_error_validate_None attempt_error_of_def split: prod.splits)
qed

theorem attempt_error_valid_witness:
  "attempt_error_validate (attempt_error_of (Some (Sentinel ErrNoTerminalEvent))) ''error'' = None"
  using attempt_error_valid [of "Sentinel ErrNoTerminalEvent" "''error''"] by simp

end
