(* ===== verification/RunChild.thy ===== *)
theory RunChild
  imports ChildOutcome
begin

text \<open>
  One child attempt (\<open>runChild\<close> and what it calls in \<open>internal/agent/runtime.go\<close>): look for a
  committed result, materialize the child, execute it, commit a terminal result and write
  the attempt. The function is split where the code has a block of its own; \<open>defer\<close> is the
  composition with the deferred call.
\<close>

section \<open>Ending an attempt\<close>

definition observe_attempt :: "'w runner \<Rightarrow> attempt_result \<Rightarrow> pull_result \<Rightarrow> bool \<Rightarrow> bool \<Rightarrow> 'w \<Rightarrow> 'w" where
  "observe_attempt r result pull attempted successful w =
     (case rn_metrics r of
        None \<Rightarrow> w
      | Some observe \<Rightarrow> observe
          \<lparr>am_runID = ar_runID result, am_bundleDigest = ar_bundleDigest result, am_childID = ar_childID result,
           am_attemptID = ar_attemptID result, am_agentID = ar_agentID result, am_shardID = ar_shardID result,
           am_status = ar_status result, am_timingsMS = ar_timingsMS result,
           am_originBytesRead = rbc_origin_bytes_read (plr_remote pull),
           am_peerBytesRead = rbc_peer_bytes_read (plr_remote pull),
           am_chunkCacheHits = cs_hit_count (cm_cache (plr_materialization pull)),
           am_chunkCacheMisses = cs_miss_count (cm_cache (plr_materialization pull)),
           am_rootFSCacheHits = cs_hit_count (rm_cache (plr_rootfs pull)),
           am_rootFSCacheMisses = cs_miss_count (rm_cache (plr_rootfs pull)),
           am_materializedChunkCount = cm_materialized_chunk_count (plr_materialization pull),
           am_linkedChunkCount = cm_linked_chunk_count (plr_materialization pull),
           am_copiedChunkCount = cm_copied_chunk_count (plr_materialization pull),
           am_platformMismatch = (ar_status result = AttemptPlatformMismatch),
           am_terminalCommitAttempted = attempted, am_terminalCommitSuccessful = successful\<rparr> w)"

definition result_write_context :: "'w runner \<Rightarrow> 'w \<Rightarrow> go_ctx" where
  "result_write_context r w =
     (if rn_ctx_err r w = None then CallerCtx else WithTimeout (5 * second) BackgroundCtx)"

text \<open>The store of a validated runner.\<close>

abbreviation store_of :: "'w runner \<Rightarrow> 'w result_store_if" where
  "store_of r \<equiv> the (rn_results r)"

text \<open>The result a failed attempt ends with, at time \<open>now\<close>.\<close>

definition failed_result :: "bundle_run \<Rightarrow> attempt_result \<Rightarrow> attempt_status \<Rightarrow> string \<Rightarrow> string \<Rightarrow> bool
    \<Rightarrow> gerr option \<Rightarrow> go_time \<Rightarrow> attempt_result" where
  "failed_result run result status code message terminal cause now =
     (let result1 = result\<lparr>ar_status := status, ar_terminal := terminal, ar_finishedAt := now,
            ar_error := Some \<lparr>ae_code = code, ae_message = message, ae_scope = [], ae_retry = [], ae_retryable = False\<rparr>\<rparr>;
          result2 = (case cause of None \<Rightarrow> result1
            | Some c \<Rightarrow> (case as_machine_error c of None \<Rightarrow> result1
                | Some (env, stderr) \<Rightarrow> result1\<lparr>ar_error := Some (attempt_error_of (Some (MachineError env stderr)))\<rparr>))
      in if terminal then result2\<lparr>ar_resultURI := terminal_result_uri run (ar_childID result2)\<rparr> else result2)"

definition fail_attempt_with_cause :: "'w runner \<Rightarrow> bundle_run \<Rightarrow> attempt_result \<Rightarrow> attempt_status \<Rightarrow> string
    \<Rightarrow> string \<Rightarrow> bool \<Rightarrow> pull_result \<Rightarrow> gerr option \<Rightarrow> 'w \<Rightarrow> (attempt_result \<times> gerr option) \<times> 'w" where
  "fail_attempt_with_cause r run result status code message terminal pull cause w =
     (case rn_now r w of (now, w1) \<Rightarrow>
      let result1 = failed_result run result status code message terminal cause now;
          cause1 = (case cause of None \<Rightarrow> Opaque message | Some c \<Rightarrow> c)
      in (case store_write (store_of r) (result_write_context r w1) run result1 w1 of
            (Some writeErr, w2) \<Rightarrow> ((result1, errors_join [Some cause1, Some writeErr]), w2)
          | (None, w2) \<Rightarrow> ((result1, Some cause1), observe_attempt r result1 pull False False w2)))"

definition fail_attempt_with_status :: "'w runner \<Rightarrow> bundle_run \<Rightarrow> attempt_result \<Rightarrow> attempt_status \<Rightarrow> string
    \<Rightarrow> string \<Rightarrow> bool \<Rightarrow> pull_result \<Rightarrow> 'w \<Rightarrow> (attempt_result \<times> gerr option) \<times> 'w" where
  "fail_attempt_with_status r run result status code message terminal pull =
     fail_attempt_with_cause r run result status code message terminal pull (Some (Opaque message))"

definition fail_attempt_with_pull :: "'w runner \<Rightarrow> bundle_run \<Rightarrow> attempt_result \<Rightarrow> string \<Rightarrow> string \<Rightarrow> bool
    \<Rightarrow> pull_result \<Rightarrow> 'w \<Rightarrow> (attempt_result \<times> gerr option) \<times> 'w" where
  "fail_attempt_with_pull r run result code message terminal pull =
     fail_attempt_with_status r run result AttemptFailed code message terminal pull"

definition fail_attempt :: "'w runner \<Rightarrow> bundle_run \<Rightarrow> attempt_result \<Rightarrow> string \<Rightarrow> string \<Rightarrow> bool
    \<Rightarrow> 'w \<Rightarrow> (attempt_result \<times> gerr option) \<times> 'w" where
  "fail_attempt r run result code message terminal =
     fail_attempt_with_status r run result AttemptFailed code message terminal zero_pull"

definition fail_attempt_from_error :: "'w runner \<Rightarrow> bundle_run \<Rightarrow> attempt_result \<Rightarrow> gerr \<Rightarrow> bool
    \<Rightarrow> 'w \<Rightarrow> (attempt_result \<times> gerr option) \<times> 'w" where
  "fail_attempt_from_error r run result err terminal =
     (let attemptErr = attempt_error_of (Some err);
          status = (case as_machine_error err of
              Some (env, _) \<Rightarrow> if machine_error_is_platform_mismatch (env_error env)
                then AttemptPlatformMismatch else AttemptFailed
            | None \<Rightarrow> AttemptFailed)
      in fail_attempt_with_cause r run result status (ae_code attemptErr) (ae_message attemptErr) terminal zero_pull (Some err))"

section \<open>Executing and committing\<close>

definition execute_child :: "'w runner \<Rightarrow> go_ctx \<Rightarrow> run_child_request \<Rightarrow> string \<Rightarrow> string \<Rightarrow> string
    \<Rightarrow> 'w \<Rightarrow> (run_event list \<times> gerr option) \<times> 'w" where
  "execute_child r ctx req sporeDir backend generationPath w =
     (if br_childCommand (rch_run req) = [] then
        sc_resume (the (rn_client r)) ctx
          \<lparr>rsq_sporeDir = sporeDir, rsq_backend = backend, rsq_generationPath = generationPath\<rparr> w
      else sc_run_from (the (rn_client r)) ctx
          \<lparr>rfq_sporeDir = sporeDir, rfq_backend = backend, rfq_generationPath = generationPath,
           rfq_command = br_childCommand (rch_run req)\<rparr> w)"

text \<open>The switch on the terminal event's outcome: the result and whether it is to be
  committed; \<open>None\<close> is the \<open>default\<close> branch.\<close>

definition classify_outcome :: "bundle_run \<Rightarrow> int \<Rightarrow> run_event \<Rightarrow> attempt_result \<Rightarrow> (attempt_result \<times> bool) option" where
  "classify_outcome run childID terminal result =
     (if ev_outcome terminal = ''completed'' then
        let result1 = result\<lparr>ar_terminal := True, ar_resultURI := terminal_result_uri run childID\<rparr> in
        Some (if ev_exit_code terminal = Some 0 then result1\<lparr>ar_status := AttemptSucceeded\<rparr>
              else result1\<lparr>ar_status := AttemptFailed,
                ar_error := Some \<lparr>ae_code = ''runtime.execution_failed'',
                  ae_message = ''guest exited with code '' @
                    itoa (case ev_exit_code terminal of None \<Rightarrow> 0 | Some c \<Rightarrow> c),
                  ae_scope = [], ae_retry = [], ae_retryable = False\<rparr>\<rparr>, True)
      else if ev_outcome terminal = ''failed'' \<or> ev_outcome terminal = ''canceled'' then
        Some (case ev_error terminal of
            None \<Rightarrow> result\<lparr>ar_status := AttemptFailed\<rparr>
          | Some body \<Rightarrow>
              result\<lparr>ar_status := (if machine_error_is_platform_mismatch body then AttemptPlatformMismatch else AttemptFailed),
                ar_error := Some (attempt_error_of (Some (MachineError
                  \<lparr>env_schema = errorSchema, env_schema_version = schemaVersion, env_error = body\<rparr> [])))\<rparr>, False)
      else None)"

text \<open>An error of the execution itself, when the events did not already explain it.\<close>

definition apply_resume_error :: "gerr option \<Rightarrow> attempt_result \<times> bool \<Rightarrow> attempt_result \<times> bool" where
  "apply_resume_error resumeErr rc =
     (case rc of (result, commit) \<Rightarrow>
        if resumeErr \<noteq> None \<and> ar_error result = None
        then (result\<lparr>ar_status := AttemptFailed, ar_terminal := False, ar_resultURI := [],
                ar_error := Some (attempt_error_of resumeErr)\<rparr>, False)
        else (result, commit))"

definition write_and_observe :: "'w runner \<Rightarrow> bundle_run \<Rightarrow> attempt_result \<Rightarrow> pull_result \<Rightarrow> bool \<Rightarrow> bool
    \<Rightarrow> gerr option \<Rightarrow> 'w \<Rightarrow> (attempt_result \<times> gerr option) \<times> 'w" where
  "write_and_observe r run result pull attempted successful err w =
     (case store_write (store_of r) CallerCtx run result w of
        (Some e, w1) \<Rightarrow> ((result, Some e), w1)
      | (None, w1) \<Rightarrow> ((result, err), observe_attempt r result pull attempted successful w1))"

text \<open>The block that commits a terminal result.\<close>

definition commit_terminal :: "'w runner \<Rightarrow> bundle_run \<Rightarrow> attempt_result \<Rightarrow> pull_result
    \<Rightarrow> 'w \<Rightarrow> (attempt_result \<times> gerr option) \<times> 'w" where
  "commit_terminal r run result pull w =
     (case rn_now r w of (commitStart, w1) \<Rightarrow>
      case store_commit (store_of r) CallerCtx run result w1 of ((committed, err), w2) \<Rightarrow>
      case rn_now r w2 of (commitEnd, w3) \<Rightarrow>
      let result1 = result\<lparr>ar_timingsMS := (ar_timingsMS result)\<lparr>at_resultCommit := elapsed_ms commitStart commitEnd\<rparr>\<rparr> in
      (case err of
         Some e \<Rightarrow> ((result1, Some e), w3)
       | None \<Rightarrow>
           if \<not> committed then
             write_and_observe r run
               (result1\<lparr>ar_status := AttemptFailed, ar_terminal := False, ar_resultURI := [],
                  ar_error := Some \<lparr>ae_code = ''result.terminal_exists'', ae_message = ''terminal result already exists'',
                    ae_scope = [], ae_retry = [], ae_retryable = False\<rparr>\<rparr>)
               pull True False (Some (Sentinel ErrResultExists)) w3
           else write_and_observe r run result1 pull True True None w3))"

text \<open>From \<open>result.FinishedAt = r.now()\<close> to the end of \<open>runChild\<close>.\<close>

definition commit_attempt :: "'w runner \<Rightarrow> bundle_run \<Rightarrow> attempt_result \<Rightarrow> bool \<Rightarrow> pull_result
    \<Rightarrow> 'w \<Rightarrow> (attempt_result \<times> gerr option) \<times> 'w" where
  "commit_attempt r run result commitTerminal pull w =
     (case rn_now r w of (finishedAt, w1) \<Rightarrow>
      if commitTerminal then commit_terminal r run (result\<lparr>ar_finishedAt := finishedAt\<rparr>) pull w1
      else write_and_observe r run (result\<lparr>ar_finishedAt := finishedAt\<rparr>) pull False False None w1)"

text \<open>What follows the execution: the events and the error it returned are judged.\<close>

definition judge_events :: "'w runner \<Rightarrow> run_child_request \<Rightarrow> attempt_result \<Rightarrow> pull_result
    \<Rightarrow> run_event list \<Rightarrow> gerr option \<Rightarrow> 'w \<Rightarrow> (attempt_result \<times> gerr option) \<times> 'w" where
  "judge_events r req result pull events resumeErr w =
     (case terminal_event events of
        Inl terminalErr \<Rightarrow>
          (case resumeErr of
             Some e \<Rightarrow> fail_attempt_from_error r (rch_run req) result e False w
           | None \<Rightarrow> fail_attempt_from_error r (rch_run req) result terminalErr False w)
      | Inr terminal \<Rightarrow>
          let result1 = (case ev_timings terminal of None \<Rightarrow> result
                | Some t \<Rightarrow> result\<lparr>ar_timingsMS := (ar_timingsMS result)\<lparr>at_guestReady := of_nat (unat (ret_exec_response_ms t))\<rparr>\<rparr>)
          in (case attempt_output_from_events events of
                Inl outputErr \<Rightarrow> fail_attempt_from_error r (rch_run req) result1 outputErr False w
              | Inr output \<Rightarrow>
                  (case classify_outcome (rch_run req) (rch_childID req) terminal (result1\<lparr>ar_output := output\<rparr>) of
                     None \<Rightarrow> fail_attempt r (rch_run req) (result1\<lparr>ar_output := output\<rparr>) ''runtime.invalid_terminal_event''
                       (''unsupported terminal outcome '' @ ev_outcome terminal) False w
                   | Some rc \<Rightarrow>
                       (case apply_resume_error resumeErr rc of (result2, commit) \<Rightarrow>
                          commit_attempt r (rch_run req) result2 commit pull w))))"

section \<open>The attempt\<close>

text \<open>Running \<open>f\<close> with a deferred call.\<close>

definition with_defer :: "('w \<Rightarrow> 'w) \<Rightarrow> ('w \<Rightarrow> 'a \<times> 'w) \<Rightarrow> 'w \<Rightarrow> 'a \<times> 'w" where
  "with_defer d f w = (case f w of (x, w') \<Rightarrow> (x, d w'))"

text \<open>From the generation file on, in the directory \<open>outDir\<close>.\<close>

definition run_in_dir :: "'w runner \<Rightarrow> run_child_request \<Rightarrow> attempt_result \<Rightarrow> pull_result \<Rightarrow> string
    \<Rightarrow> 'w \<Rightarrow> (attempt_result \<times> gerr option) \<times> 'w" where
  "run_in_dir r req result pull outDir =
     (let generationPath = path_join [path_dir outDir, ar_attemptID result @ ''.generation.json'']
      in with_defer (\<lambda>w. snd (os_remove (rn_os r) generationPath w))
        (\<lambda>w. case write_generation_file (rn_os r) generationPath (rch_run req) (rch_childID req) w of
           (Some e, w1) \<Rightarrow> fail_attempt r (rch_run req) result ''agent.generation_failed'' (err_text e) False w1
         | (None, w1) \<Rightarrow>
             let backend = (if rch_backend req = [] then rn_backend r else rch_backend req);
                 resumeCtx = (if rn_childTimeout r > 0 then WithTimeout (rn_childTimeout r) CallerCtx else CallerCtx) in
             (case rn_now r w1 of (resumeStart, w2) \<Rightarrow>
              case execute_child r resumeCtx req outDir backend generationPath w2 of ((events, resumeErr), w3) \<Rightarrow>
              case rn_now r w3 of (resumeEnd, w4) \<Rightarrow>
                judge_events r req
                  (result\<lparr>ar_timingsMS := (ar_timingsMS result)\<lparr>at_resume := elapsed_ms resumeStart resumeEnd\<rparr>\<rparr>)
                  pull events resumeErr w4)))"

text \<open>The branch that pulls the child from the bundle.\<close>

definition pull_child :: "'w runner \<Rightarrow> run_child_request \<Rightarrow> attempt_result
    \<Rightarrow> 'w \<Rightarrow> (attempt_result \<times> gerr option) \<times> 'w" where
  "pull_child r req result w =
     (let outDir = child_work_dir (rn_workRoot r) (rch_run req) (rch_lease req) (rch_childID req) (ar_attemptID result) in
      case os_remove_all (rn_os r) outDir w of
        (Some e, w1) \<Rightarrow> fail_attempt r (rch_run req) result ''agent.cleanup_failed'' (err_text e) False w1
      | (None, w1) \<Rightarrow> with_defer (\<lambda>w. snd (os_remove_all (rn_os r) outDir w))
          (\<lambda>w. case os_mkdir_all (rn_os r) (path_dir outDir) w of
             (Some e, w2) \<Rightarrow> fail_attempt r (rch_run req) result ''agent.workdir_failed'' (err_text e) False w2
           | (None, w2) \<Rightarrow>
               (case rn_now r w2 of (pullStart, w3) \<Rightarrow>
                case sc_pull (the (rn_client r)) CallerCtx
                  \<lparr>plq_source = bundle_source (rch_run req), plq_outDir = outDir, plq_childID = itoa (rch_childID req),
                   plq_region = rch_region req, plq_allowMetadataOnlyRootFS = rch_allowMetadataOnlyRootFS req\<rparr> w3 of
                  (pulled, w4) \<Rightarrow>
                case rn_now r w4 of (pullEnd, w5) \<Rightarrow>
                let result1 = result\<lparr>ar_timingsMS := (ar_timingsMS result)\<lparr>at_artifactPull := elapsed_ms pullStart pullEnd\<rparr>\<rparr> in
                (case pulled of
                   Inl e \<Rightarrow> fail_attempt_from_error r (rch_run req) result1 e False w5
                 | Inr pull \<Rightarrow>
                     if digest_string (plr_bundle_digest pull) \<noteq> bundle_digest (br_bundle (rch_run req))
                     then fail_attempt_with_pull r (rch_run req) result1 ''object.invalid''
                       ''pull result bundle digest did not match run bundle digest'' False pull w5
                     else run_in_dir r req result1 pull outDir w5))) w1)"

text \<open>The branch that uses a child prepared on this node.\<close>

definition local_child :: "'w runner \<Rightarrow> run_child_request \<Rightarrow> attempt_result
    \<Rightarrow> 'w \<Rightarrow> (attempt_result \<times> gerr option) \<times> 'w" where
  "local_child r req result w =
     (case rn_now r w of (localStart, w1) \<Rightarrow>
      let outDir = prepared_child_spore_dir (rch_localChildrenDir req) (rch_childID req) in
      case validate_prepared_child_dir (rn_os r) (rn_workRoot r) outDir w1 of
        Some e \<Rightarrow> fail_attempt r (rch_run req) result ''agent.local_child_missing'' (err_text e) False w1
      | None \<Rightarrow>
          (case rn_now r w1 of (localEnd, w2) \<Rightarrow>
           run_in_dir r req
             (result\<lparr>ar_timingsMS := (ar_timingsMS result)\<lparr>at_localChild := elapsed_ms localStart localEnd\<rparr>\<rparr>)
             zero_pull outDir w2))"

definition skip_existing :: "'w runner \<Rightarrow> run_child_request \<Rightarrow> attempt_result \<Rightarrow> attempt_result
    \<Rightarrow> 'w \<Rightarrow> (attempt_result \<times> gerr option) \<times> 'w" where
  "skip_existing r req existing result w =
     (case rn_now r w of (finishedAt, w1) \<Rightarrow>
      write_and_observe r (rch_run req)
        (result\<lparr>ar_status := AttemptSkippedTerminalExists, ar_finishedAt := finishedAt, ar_terminal := True,
           ar_resultURI := (if ar_resultURI existing = [] then terminal_result_uri (rch_run req) (rch_childID req)
             else ar_resultURI existing)\<rparr>)
        zero_pull False False None w1)"

definition first_result :: "run_child_request \<Rightarrow> go_time \<Rightarrow> attempt_result" where
  "first_result req startedAt =
     zero_result\<lparr>ar_runID := br_runID (rch_run req), ar_bundleDigest := bundle_digest (br_bundle (rch_run req)),
       ar_childID := rch_childID req,
       ar_attemptID := format_attempt_id (br_runID (rch_run req)) (rch_childID req) (rch_attempt req),
       ar_agentID := lease_agentID (rch_lease req), ar_shardID := lease_shardID (rch_lease req),
       ar_status := AttemptFailed, ar_startedAt := startedAt, ar_finishedAt := startedAt\<rparr>"

definition run_child :: "'w runner \<Rightarrow> run_child_request \<Rightarrow> 'w \<Rightarrow> (attempt_result \<times> gerr option) \<times> 'w" where
  "run_child r req w =
     (case validate_run_child_request r req of
        Some e \<Rightarrow> ((zero_result, Some e), w)
      | None \<Rightarrow>
          (case rn_now r w of (startedAt, w1) \<Rightarrow>
           case store_terminal (store_of r) CallerCtx (rch_run req) (rch_childID req) w1 of (found, w2) \<Rightarrow>
           case rn_now r w2 of (lookedUp, w3) \<Rightarrow>
           let result = (first_result req startedAt)\<lparr>ar_timingsMS :=
                 zero_timings\<lparr>at_resultCommit := elapsed_ms startedAt lookedUp\<rparr>\<rparr> in
           (case found of
              Inl e \<Rightarrow> ((result, Some e), w3)
            | Inr existing \<Rightarrow>
                if existing \<noteq> None \<and> \<not> rerunCommittedChildren (br_retryPolicy (rch_run req))
                then skip_existing r req (the existing) result w3
                else if rch_localChildrenDir req \<noteq> [] \<and> rch_attempt req = 1
                then local_child r req result w3
                else pull_child r req result w3)))"


section \<open>What an attempt does to the outside\<close>

text \<open>The calls of an attempt that matter to others.\<close>

datatype child_call = Looked int | Executed | Committed attempt_result bool | Wrote attempt_result "gerr option"

text \<open>The contract of an attempt's environment: \<open>calls\<close> records the calls above and nothing
  else, \<open>stored\<close> is what the result store holds for each child. Committed documents stay, and
  other agents may commit at any time.\<close>

locale attempt_env =
  fixes r :: "'w runner" and run :: bundle_run
    and calls :: "'w \<Rightarrow> child_call list" and stored :: "'w \<Rightarrow> int \<rightharpoonup> stored_document"
  assumes now_quiet: "rn_now r w = (t, w') \<Longrightarrow> calls w' = calls w \<and> stored w \<subseteq>\<^sub>m stored w'"
    and remove_all_quiet: "os_remove_all (rn_os r) p w = (e, w') \<Longrightarrow> calls w' = calls w \<and> stored w \<subseteq>\<^sub>m stored w'"
    and remove_quiet: "os_remove (rn_os r) p w = (e, w') \<Longrightarrow> calls w' = calls w \<and> stored w \<subseteq>\<^sub>m stored w'"
    and mkdir_quiet: "os_mkdir_all (rn_os r) p w = (e, w') \<Longrightarrow> calls w' = calls w \<and> stored w \<subseteq>\<^sub>m stored w'"
    and write_file_quiet: "os_write_file (rn_os r) p d w = (e, w') \<Longrightarrow> calls w' = calls w \<and> stored w \<subseteq>\<^sub>m stored w'"
    and pull_quiet: "sc_pull (the (rn_client r)) ctx q w = (pulled, w') \<Longrightarrow> calls w' = calls w \<and> stored w \<subseteq>\<^sub>m stored w'"
    and metrics_quiet: "rn_metrics r = Some observe \<Longrightarrow> calls (observe m w) = calls w \<and> stored w \<subseteq>\<^sub>m stored (observe m w)"
    and resume_call: "sc_resume (the (rn_client r)) ctx qr w = (y, w') \<Longrightarrow>
      calls w' = calls w @ [Executed] \<and> stored w \<subseteq>\<^sub>m stored w'"
    and run_from_call: "sc_run_from (the (rn_client r)) ctx q' w = (y, w') \<Longrightarrow>
      calls w' = calls w @ [Executed] \<and> stored w \<subseteq>\<^sub>m stored w'"
    and lookup_call: "store_terminal (store_of r) ctx run c w = (found, w') \<Longrightarrow>
      calls w' = calls w @ [Looked c] \<and> stored w \<subseteq>\<^sub>m stored w' \<and>
      (\<forall>t. found = Inr (Some t) \<longrightarrow> stored w' c \<noteq> None)"
    and write_call: "store_write (store_of r) ctx run x w = (e, w') \<Longrightarrow>
      calls w' = calls w @ [Wrote x e] \<and> stored w \<subseteq>\<^sub>m stored w' \<and>
      (e = None \<longrightarrow> attempt_result_validate x run = None)"
    and commit_call: "store_commit (store_of r) ctx run x w = ((b, e), w') \<Longrightarrow>
      calls w' = calls w @ [Committed x b] \<and> stored w \<subseteq>\<^sub>m stored w' \<and>
      (b \<longrightarrow> stored w' (ar_childID x) = Some (encode_document x))"
begin

text \<open>\<open>ends w (x, w') P\<close>: a computation that started in \<open>w\<close> and returned \<open>x\<close> in \<open>w'\<close> made
  calls \<open>tr\<close> with \<open>P x tr w'\<close> and lost no document.\<close>

definition ends :: "'w \<Rightarrow> 'a \<times> 'w \<Rightarrow> ('a \<Rightarrow> child_call list \<Rightarrow> 'w \<Rightarrow> bool) \<Rightarrow> bool" where
  "ends w xw P \<longleftrightarrow> (\<exists>tr. calls (snd xw) = calls w @ tr \<and> stored w \<subseteq>\<^sub>m stored (snd xw) \<and> P (fst xw) tr (snd xw))"

lemma ends_now: "P x [] w \<Longrightarrow> ends w (x, w) P"
  by (simp add: ends_def)

lemma ends_after:
  assumes "calls w1 = calls w @ pre \<and> stored w \<subseteq>\<^sub>m stored w1" "ends w1 xw (\<lambda>x tr. P x (pre @ tr))"
  shows "ends w xw P"
proof -
  obtain tr where tr: "calls (snd xw) = calls w1 @ tr" "stored w1 \<subseteq>\<^sub>m stored (snd xw)" "P (fst xw) (pre @ tr) (snd xw)"
    using assms(2) unfolding ends_def by blast
  then show ?thesis using assms(1) unfolding ends_def
    by (intro exI [of _ "pre @ tr"]) (auto intro: map_le_trans)
qed

lemmas ends_quiet = ends_after [where pre = "[]", simplified]

lemma ends_mono: "ends w xw Q \<Longrightarrow> (\<And>x tr w'. stored w \<subseteq>\<^sub>m stored w' \<Longrightarrow> Q x tr w' \<Longrightarrow> P x tr w') \<Longrightarrow> ends w xw P"
  unfolding ends_def by blast

lemma ends_case:
  assumes "\<And>x w1. call w = (x, w1) \<Longrightarrow> calls w1 = calls w @ pre x \<and> stored w \<subseteq>\<^sub>m stored w1"
    and "\<And>x w1. call w = (x, w1) \<Longrightarrow> ends w1 (f x w1) (\<lambda>y tr. P y (pre x @ tr))"
  shows "ends w (case call w of (x, w1) \<Rightarrow> f x w1) P"
proof (cases "call w")
  case (Pair x w1)
  from ends_after [OF assms(1) [OF Pair] assms(2) [OF Pair]] show ?thesis by (simp add: Pair)
qed

lemmas ends_case_quiet = ends_case [where pre = "\<lambda>_. []", simplified]

lemma ends_clock: "(\<And>t w1. ends w1 (f t w1) P) \<Longrightarrow> ends w (case rn_now r w of (t, w1) \<Rightarrow> f t w1) P"
  using now_quiet by (rule ends_case_quiet)

lemma ends_clock_grows:
  "(\<And>t w1. stored w \<subseteq>\<^sub>m stored w1 \<Longrightarrow> ends w1 (f t w1) P) \<Longrightarrow> ends w (case rn_now r w of (t, w1) \<Rightarrow> f t w1) P"
  using now_quiet by (intro ends_case_quiet) blast+

lemma ends_remove_all:
  "(\<And>e w1. ends w1 (f e w1) P) \<Longrightarrow> ends w (case os_remove_all (rn_os r) p w of (e, w1) \<Rightarrow> f e w1) P"
  using remove_all_quiet by (rule ends_case_quiet)

lemma ends_mkdir:
  "(\<And>e w1. ends w1 (f e w1) P) \<Longrightarrow> ends w (case os_mkdir_all (rn_os r) p w of (e, w1) \<Rightarrow> f e w1) P"
  using mkdir_quiet by (rule ends_case_quiet)

lemma ends_generation:
  "(\<And>e w1. ends w1 (f e w1) P) \<Longrightarrow>
     ends w (case write_generation_file (rn_os r) p rn c w of (e, w1) \<Rightarrow> f e w1) P"
  unfolding write_generation_file_def using write_file_quiet by (rule ends_case_quiet)

lemma ends_pull:
  "(\<And>x w1. ends w1 (f x w1) P) \<Longrightarrow>
     ends w (case sc_pull (the (rn_client r)) ctx q w of (x, w1) \<Rightarrow> f x w1) P"
  using pull_quiet by (rule ends_case_quiet)

lemma ends_execute:
  assumes "\<And>y w1. ends w1 (f y w1) (\<lambda>x tr. P x (Executed # tr))"
  shows "ends w (case execute_child r ctx req d b g w of (y, w1) \<Rightarrow> f y w1) P"
proof (rule ends_case [where pre = "\<lambda>_. [Executed]"])
  fix y w1 assume "execute_child r ctx req d b g w = (y, w1)"
  then show "calls w1 = calls w @ [Executed] \<and> stored w \<subseteq>\<^sub>m stored w1"
    unfolding execute_child_def using resume_call run_from_call by (simp split: if_splits)
qed (use assms in simp)

lemma ends_lookup:
  assumes "\<And>x w1. (\<And>t. x = Inr (Some t) \<Longrightarrow> stored w1 c \<noteq> None) \<Longrightarrow> ends w1 (f x w1) (\<lambda>y tr. P y (Looked c # tr))"
  shows "ends w (case store_terminal (store_of r) ctx run c w of (x, w1) \<Rightarrow> f x w1) P"
proof (rule ends_case [where pre = "\<lambda>_. [Looked c]"])
  fix x w1 assume l: "store_terminal (store_of r) ctx run c w = (x, w1)"
  show "ends w1 (f x w1) (\<lambda>y tr. P y ([Looked c] @ tr))" using assms lookup_call [OF l] by simp
qed (use lookup_call in blast)

lemma ends_write:
  assumes "\<And>e w1. (e = None \<Longrightarrow> attempt_result_validate x run = None) \<Longrightarrow> ends w1 (f e w1) (\<lambda>y tr. P y (Wrote x e # tr))"
  shows "ends w (case store_write (store_of r) ctx run x w of (e, w1) \<Rightarrow> f e w1) P"
proof (rule ends_case [where pre = "\<lambda>e. [Wrote x e]"])
  fix e w1 assume l: "store_write (store_of r) ctx run x w = (e, w1)"
  show "ends w1 (f e w1) (\<lambda>y tr. P y ([Wrote x e] @ tr))" using assms write_call [OF l] by simp
qed (use write_call in blast)

lemma ends_commit:
  assumes "\<And>b e w1. (b \<Longrightarrow> stored w1 (ar_childID x) = Some (encode_document x)) \<Longrightarrow>
      ends w1 (f (b, e) w1) (\<lambda>y tr. P y (Committed x b # tr))"
  shows "ends w (case store_commit (store_of r) ctx run x w of (be, w1) \<Rightarrow> f be w1) P"
proof (rule ends_case [where pre = "\<lambda>be. [Committed x (fst be)]"])
  fix be w1 assume l: "store_commit (store_of r) ctx run x w = (be, w1)"
  show "ends w1 (f be w1) (\<lambda>y tr. P y ([Committed x (fst be)] @ tr))"
    using assms [of "fst be" w1 "snd be"] commit_call [of ctx x w "fst be" "snd be" w1] l by simp
  show "calls w1 = calls w @ [Committed x (fst be)] \<and> stored w \<subseteq>\<^sub>m stored w1"
    using commit_call [of ctx x w "fst be" "snd be" w1] l by simp
qed

lemma ends_observe: "P x [] (observe_attempt r y pull a s w) \<Longrightarrow> ends w (x, observe_attempt r y pull a s w) P"
  using metrics_quiet by (auto simp: ends_def observe_attempt_def split: option.splits)

lemma ends_defer:
  assumes "\<And>w. calls (d w) = calls w \<and> stored w \<subseteq>\<^sub>m stored (d w)"
    and "ends w (f w) (\<lambda>x tr w'. \<forall>w''. stored w' \<subseteq>\<^sub>m stored w'' \<longrightarrow> P x tr w'')"
  shows "ends w (with_defer d f w) P"
  using assms(2) assms(1) [of "snd (f w)"]
  by (auto simp: ends_def with_defer_def split: prod.splits intro: map_le_trans)

end


text \<open>How an attempt of the child \<open>c\<close> can end: without a result, with a failed attempt that is
  only written, or with a commit and the write that follows it.\<close>

definition failed_end :: "int \<Rightarrow> attempt_result \<times> gerr option \<Rightarrow> child_call list \<Rightarrow> bool" where
  "failed_end c xe tr \<longleftrightarrow> ar_childID (fst xe) = c \<and>
     (\<exists>we. tr = [Wrote (fst xe) we] \<and> snd xe \<noteq> None \<and> \<not> ar_terminal (fst xe))"

inductive finished_end :: "bundle_run \<Rightarrow> int \<Rightarrow> attempt_result \<times> gerr option \<Rightarrow> child_call list
    \<Rightarrow> (int \<rightharpoonup> stored_document) \<Rightarrow> bool" for run :: bundle_run and c :: int where
  only_written: "ar_childID x = c \<Longrightarrow> \<not> ar_terminal x \<Longrightarrow>
     (e = None \<longrightarrow> we = None \<and> attempt_result_validate x run = None) \<Longrightarrow>
     finished_end run c (x, e) [Wrote x we] docs"
| commit_failed: "ar_childID x = c \<Longrightarrow> finished_end run c (x, Some e) [Committed y b] docs"
| commit_lost: "ar_childID x = c \<Longrightarrow> \<not> ar_terminal x \<Longrightarrow>
     finished_end run c (x, Some e) [Committed y False, Wrote x we] docs"
| commit_won: "ar_childID y = c \<Longrightarrow> ar_terminal y \<Longrightarrow> x = y\<lparr>ar_timingsMS := t\<rparr> \<Longrightarrow>
     docs c = Some (encode_document y) \<Longrightarrow>
     (e = None \<longrightarrow> we = None \<and> attempt_result_validate x run = None) \<Longrightarrow>
     finished_end run c (x, e) [Committed y True, Wrote x we] docs"

lemma failed_finished: "failed_end c xe tr \<Longrightarrow> finished_end run c xe tr docs"
  by (cases xe) (auto simp: failed_end_def intro: only_written)

lemma finished_mono: "finished_end run c xe tr docs \<Longrightarrow> docs \<subseteq>\<^sub>m docs' \<Longrightarrow> finished_end run c xe tr docs'"
  by (erule finished_end.cases) (auto intro: finished_end.intros simp: map_le_def dom_def)

lemma failed_result_fields:
  "ar_childID (failed_result run x st code msg t cause now) = ar_childID x"
  "ar_terminal (failed_result run x st code msg t cause now) = t"
  by (auto simp: failed_result_def Let_def split: option.split)

lemma errors_join_Some [simp]: "errors_join (Some e # es) = Some (Join (e # List.map_filter id es))"
  by (simp add: errors_join_def List.map_filter_simps)

context attempt_env
begin

lemma fail_with_cause:
  "ends w (fail_attempt_with_cause r run x st code msg False pull cause w) (\<lambda>xe tr w'. failed_end (ar_childID x) xe tr)"
  unfolding fail_attempt_with_cause_def Let_def
  by (intro ends_clock ends_write)
    (auto simp: failed_end_def failed_result_fields intro: ends_now ends_observe split: option.split)

lemmas fail_defs = fail_attempt_def fail_attempt_with_pull_def fail_attempt_with_status_def fail_attempt_from_error_def

lemma fail_any:
  "ends w (fail_attempt r run x code msg False w) (\<lambda>xe tr w'. finished_end run (ar_childID x) xe tr (stored w'))"
  "ends w (fail_attempt_with_pull r run x code msg False pull w) (\<lambda>xe tr w'. finished_end run (ar_childID x) xe tr (stored w'))"
  "ends w (fail_attempt_from_error r run x err False w) (\<lambda>xe tr w'. finished_end run (ar_childID x) xe tr (stored w'))"
  unfolding fail_defs Let_def by (rule ends_mono [OF fail_with_cause], erule failed_finished)+

lemma fail_early:
  "ends w (fail_attempt r run x code msg False w) (\<lambda>xe tr w'. failed_end (ar_childID x) xe tr)"
  "ends w (fail_attempt_with_pull r run x code msg False pull w) (\<lambda>xe tr w'. failed_end (ar_childID x) xe tr)"
  "ends w (fail_attempt_from_error r run x err False w) (\<lambda>xe tr w'. failed_end (ar_childID x) xe tr)"
  unfolding fail_defs Let_def by (rule fail_with_cause)+

lemma write_then:
  assumes "\<And>we w'. (we = None \<Longrightarrow> attempt_result_validate x run = None) \<Longrightarrow> stored w \<subseteq>\<^sub>m stored w' \<Longrightarrow>
    P (x, if we = None then err else we) [Wrote x we] w'"
  shows "ends w (write_and_observe r run x pull a s err w) P"
proof -
  have "ends w (write_and_observe r run x pull a s err w) (\<lambda>y tr w'. \<exists>we. tr = [Wrote x we] \<and>
      y = (x, if we = None then err else we) \<and> (we = None \<longrightarrow> attempt_result_validate x run = None))"
    unfolding write_and_observe_def
    by (intro ends_write) (auto intro: ends_now ends_observe split: option.split)
  then obtain we where "calls (snd (write_and_observe r run x pull a s err w)) = calls w @ [Wrote x we]"
    "stored w \<subseteq>\<^sub>m stored (snd (write_and_observe r run x pull a s err w))"
    "fst (write_and_observe r run x pull a s err w) = (x, if we = None then err else we)"
    "we = None \<longrightarrow> attempt_result_validate x run = None"
    unfolding ends_def by blast
  with assms [of we "snd (write_and_observe r run x pull a s err w)"] show ?thesis by (simp add: ends_def)
qed

lemma after_commit:
  assumes "b \<Longrightarrow> stored w (ar_childID x) = Some (encode_document x)" "ar_terminal x"
    "z = x\<lparr>ar_timingsMS := t\<rparr>" "ar_childID lost = ar_childID x" "\<not> ar_terminal lost"
  shows "ends w
      (case e of Some e \<Rightarrow> ((z, Some e), w)
        | None \<Rightarrow> if \<not> b then write_and_observe r run lost pull True False (Some (Sentinel ErrResultExists)) w
            else write_and_observe r run z pull True True None w)
      (\<lambda>xe tr w'. finished_end run (ar_childID x) xe (Committed x b # tr) (stored w'))"
proof (cases e)
  case None
  have "stored w' (ar_childID x) = Some (encode_document x)" if b "stored w \<subseteq>\<^sub>m stored w'" for w'
    using assms(1) [OF that(1)] that(2) by (auto simp: map_le_def dom_def)
  then show ?thesis using assms(2-) None
    by (cases b) (auto intro!: write_then intro: commit_lost commit_won)
next
  case (Some e')
  then show ?thesis using assms by (auto intro!: ends_now commit_failed)
qed

lemma commit_terminal_ends:
  assumes "ar_terminal x"
  shows "ends w (commit_terminal r run x pull w) (\<lambda>xe tr w'. finished_end run (ar_childID x) xe tr (stored w'))"
  unfolding commit_terminal_def Let_def
proof (rule ends_clock, rule ends_commit, simp only: prod.case, rule ends_clock_grows, rule after_commit)
  fix b w1 w2
  assume "b \<Longrightarrow> stored w1 (ar_childID x) = Some (encode_document x)" "stored w1 \<subseteq>\<^sub>m stored w2" b
  then show "stored w2 (ar_childID x) = Some (encode_document x)" by (auto simp: map_le_def dom_def)
qed (use assms in auto)

lemma commit_ends:
  assumes "ar_terminal x = commit"
  shows "ends w (commit_attempt r run x commit pull w) (\<lambda>xe tr w'. finished_end run (ar_childID x) xe tr (stored w'))"
proof -
  have "ends w1 (commit_terminal r run (x\<lparr>ar_finishedAt := t\<rparr>) pull w1)
      (\<lambda>xe tr w'. finished_end run (ar_childID x) xe tr (stored w'))" if commit for w1 t
    using commit_terminal_ends [of "x\<lparr>ar_finishedAt := t\<rparr>" w1 pull] assms that by simp
  then show ?thesis unfolding commit_attempt_def
    using assms by (cases commit) (auto intro!: ends_clock write_then only_written)
qed

lemma classify_fields:
  "classify_outcome run c t x = Some (y, b) \<Longrightarrow> \<not> ar_terminal x \<Longrightarrow> ar_childID y = ar_childID x \<and> ar_terminal y = b"
  by (auto simp: classify_outcome_def Let_def split: if_splits option.splits)

lemma resume_error_fields:
  "apply_resume_error e (x, b) = (y, b') \<Longrightarrow> ar_terminal x = b \<Longrightarrow> ar_childID y = ar_childID x \<and> ar_terminal y = b'"
  by (auto simp: apply_resume_error_def split: if_splits)

lemma judge_ends:
  assumes "rch_run req = run" "\<not> ar_terminal x"
  shows "ends w (judge_events r req x pull events err w) (\<lambda>xe tr w'. finished_end run (ar_childID x) xe tr (stored w'))"
proof (cases "terminal_event events")
  case (Inl te)
  then show ?thesis using assms(1) fail_any by (cases err) (simp_all add: judge_events_def)
next
  case (Inr t)
  define x1 where "x1 = (case ev_timings t of None \<Rightarrow> x
    | Some t \<Rightarrow> x\<lparr>ar_timingsMS := (ar_timingsMS x)\<lparr>at_guestReady := of_nat (unat (ret_exec_response_ms t))\<rparr>\<rparr>)"
  have x1: "ar_childID x1 = ar_childID x" "\<not> ar_terminal x1" using assms(2) by (auto simp: x1_def split: option.split)
  show ?thesis
  proof (cases "attempt_output_from_events events")
    case (Inl oe)
    then show ?thesis using Inr assms(1) fail_any(3) [of w x1 oe] x1
      by (simp add: judge_events_def Let_def x1_def [symmetric])
  next
    case out: (Inr ao)
    show ?thesis
    proof (cases "classify_outcome run (rch_childID req) t (x1\<lparr>ar_output := ao\<rparr>)")
      case None
      then show ?thesis using Inr out assms(1) fail_any(1) [of w "x1\<lparr>ar_output := ao\<rparr>"] x1
        by (simp add: judge_events_def Let_def x1_def [symmetric])
    next
      case (Some rc)
      obtain y b z b' where yz: "rc = (y, b)" "apply_resume_error err (y, b) = (z, b')" by fastforce
      then have "ar_childID z = ar_childID x" "ar_terminal z = b'"
        using classify_fields [of "rch_childID req" t "x1\<lparr>ar_output := ao\<rparr>" y b]
          resume_error_fields [OF yz(2)] Some x1 by auto
      then show ?thesis using Inr out Some yz assms(1) commit_ends [of z b' w pull]
        by (simp add: judge_events_def Let_def x1_def [symmetric])
    qed
  qed
qed

end


text \<open>The whole attempt.\<close>

inductive attempt_protocol :: "bundle_run \<Rightarrow> int \<Rightarrow> attempt_result \<times> gerr option \<Rightarrow> child_call list
    \<Rightarrow> (int \<rightharpoonup> stored_document) \<Rightarrow> bool" for run :: bundle_run and c :: int where
  lookup_failed: "ar_childID x = c \<Longrightarrow> \<not> ar_terminal x \<Longrightarrow> attempt_protocol run c (x, Some e) [Looked c] docs"
| skipped: "ar_childID x = c \<Longrightarrow> ar_status x = AttemptSkippedTerminalExists \<Longrightarrow> docs c \<noteq> None \<Longrightarrow>
     (e = None \<longrightarrow> we = None \<and> attempt_result_validate x run = None) \<Longrightarrow>
     attempt_protocol run c (x, e) [Looked c, Wrote x we] docs"
| not_executed: "failed_end c xe tr \<Longrightarrow> attempt_protocol run c xe (Looked c # tr) docs"
| executed: "finished_end run c xe tr docs \<Longrightarrow> attempt_protocol run c xe (Looked c # Executed # tr) docs"

definition dir_end :: "bundle_run \<Rightarrow> int \<Rightarrow> attempt_result \<times> gerr option \<Rightarrow> child_call list
    \<Rightarrow> (int \<rightharpoonup> stored_document) \<Rightarrow> bool" where
  "dir_end run c xe tr docs \<longleftrightarrow> failed_end c xe tr \<or>
     (\<exists>t. tr = Executed # t \<and> finished_end run c xe t docs)"

lemma dir_mono: "dir_end run c xe tr docs \<Longrightarrow> docs \<subseteq>\<^sub>m docs' \<Longrightarrow> dir_end run c xe tr docs'"
  unfolding dir_end_def using finished_mono by blast

lemma dir_protocol: "dir_end run c xe tr docs \<Longrightarrow> attempt_protocol run c xe (Looked c # tr) docs"
  unfolding dir_end_def by (auto intro: not_executed executed)

context attempt_env
begin

lemma ends_dir_defer:
  assumes "\<And>w. calls (d w) = calls w \<and> stored w \<subseteq>\<^sub>m stored (d w)"
    and "ends w (f w) (\<lambda>xe tr w'. dir_end run c xe tr (stored w'))"
  shows "ends w (with_defer d f w) (\<lambda>xe tr w'. dir_end run c xe tr (stored w'))"
  using assms(1) by (rule ends_defer) (rule ends_mono [OF assms(2)], blast intro: dir_mono)

lemma remove_defer: "calls (snd (os_remove (rn_os r) p w)) = calls w \<and> stored w \<subseteq>\<^sub>m stored (snd (os_remove (rn_os r) p w))"
  using remove_quiet [of p w "fst (os_remove (rn_os r) p w)"] by simp

lemma remove_all_defer:
  "calls (snd (os_remove_all (rn_os r) p w)) = calls w \<and> stored w \<subseteq>\<^sub>m stored (snd (os_remove_all (rn_os r) p w))"
  using remove_all_quiet [of p w "fst (os_remove_all (rn_os r) p w)"] by simp

lemma fail_dir:
  "ar_childID x = c \<Longrightarrow> ends w (fail_attempt r run x code msg False w) (\<lambda>xe tr w'. dir_end run c xe tr (stored w'))"
  "ar_childID x = c \<Longrightarrow> ends w (fail_attempt_with_pull r run x code msg False pull w) (\<lambda>xe tr w'. dir_end run c xe tr (stored w'))"
  "ar_childID x = c \<Longrightarrow> ends w (fail_attempt_from_error r run x err False w) (\<lambda>xe tr w'. dir_end run c xe tr (stored w'))"
  by (rule ends_mono [OF fail_early(1)] ends_mono [OF fail_early(2)] ends_mono [OF fail_early(3)], simp add: dir_end_def)+

lemma run_in_dir_ends:
  assumes "rch_run req = run" "\<not> ar_terminal x" "ar_childID x = c"
  shows "ends w (run_in_dir r req x pull d w) (\<lambda>xe tr w'. dir_end run c xe tr (stored w'))"
  unfolding run_in_dir_def Let_def assms(1)
proof (rule ends_dir_defer [OF remove_defer], rule ends_generation)
  fix e w1
  let ?after = "\<lambda>w1. case rn_now r w1 of (resumeStart, w2) \<Rightarrow>
      case execute_child r (if rn_childTimeout r > 0 then WithTimeout (rn_childTimeout r) CallerCtx else CallerCtx) req d
        (if rch_backend req = [] then rn_backend r else rch_backend req)
        (path_join [path_dir d, ar_attemptID x @ ''.generation.json'']) w2 of ((events, resumeErr), w3) \<Rightarrow>
      case rn_now r w3 of (resumeEnd, w4) \<Rightarrow>
        judge_events r req (x\<lparr>ar_timingsMS := (ar_timingsMS x)\<lparr>at_resume := elapsed_ms resumeStart resumeEnd\<rparr>\<rparr>)
          pull events resumeErr w4"
  have "ends w1 (?after w1) (\<lambda>xe tr w'. dir_end run c xe tr (stored w'))"
  proof (rule ends_clock, rule ends_execute)
    fix t w2 y w3
    show "ends w3 (case y of (events, resumeErr) \<Rightarrow> case rn_now r w3 of (resumeEnd, w4) \<Rightarrow>
        judge_events r req (x\<lparr>ar_timingsMS := (ar_timingsMS x)\<lparr>at_resume := elapsed_ms t resumeEnd\<rparr>\<rparr>)
          pull events resumeErr w4) (\<lambda>xe tr w'. dir_end run c xe (Executed # tr) (stored w'))"
      using judge_ends [OF assms(1)] assms(2,3)
      by (cases y) (auto intro!: ends_clock ends_mono [OF judge_ends] simp: dir_end_def assms(1))
  qed
  then show "ends w1 (case e of None \<Rightarrow> ?after w1
      | Some e \<Rightarrow> fail_attempt r run x ''agent.generation_failed'' (err_text e) False w1)
      (\<lambda>xe tr w'. dir_end run c xe tr (stored w'))"
    using fail_dir(1) assms(3) by (cases e) simp_all
qed

lemma local_child_ends:
  assumes "rch_run req = run" "\<not> ar_terminal x" "ar_childID x = c"
  shows "ends w (local_child r req x w) (\<lambda>xe tr w'. dir_end run c xe tr (stored w'))"
  unfolding local_child_def Let_def assms(1)
  using assms(2,3) by (auto intro!: ends_clock run_in_dir_ends [OF assms(1)] fail_dir split: option.split)

lemma pull_child_ends:
  assumes "rch_run req = run" "\<not> ar_terminal x" "ar_childID x = c"
  shows "ends w (pull_child r req x w) (\<lambda>xe tr w'. dir_end run c xe tr (stored w'))"
  unfolding pull_child_def Let_def assms(1)
  using assms(2,3)
  by (auto intro!: ends_clock ends_remove_all ends_dir_defer [OF remove_all_defer] ends_mkdir ends_pull
      run_in_dir_ends [OF assms(1)] fail_dir split: option.split sum.split)

lemma skip_ends:
  assumes "rch_run req = run" "ar_childID x = c" "stored w c \<noteq> None"
  shows "ends w (skip_existing r req existing x w)
    (\<lambda>xe tr w'. attempt_protocol run c xe (Looked c # tr) (stored w'))"
proof -
  have "stored w' c \<noteq> None" if "stored w \<subseteq>\<^sub>m stored w1" "stored w1 \<subseteq>\<^sub>m stored w'" for w1 w'
    using assms(3) that by (auto simp: map_le_def dom_def)
  then show ?thesis unfolding skip_existing_def assms(1)
    by (intro ends_clock_grows write_then skipped) (auto simp: assms(2))
qed

lemma run_child_ends:
  assumes "validate_run_child_request r req = None" "rch_run req = run" "rch_childID req = c"
  shows "ends w (run_child r req w) (\<lambda>xe tr w'. attempt_protocol run c xe tr (stored w'))"
proof -
  have f: "ar_childID ((first_result req t)\<lparr>ar_timingsMS := ts\<rparr>) = c" "\<not> ar_terminal ((first_result req t)\<lparr>ar_timingsMS := ts\<rparr>)"
    for t ts by (simp_all add: first_result_def assms(3) zero_result_def)
  let ?P = "\<lambda>xe tr w'. attempt_protocol run c xe (Looked c # tr) (stored w')"
  have branch: "ends w3 (case found of Inl e \<Rightarrow> ((x, Some e), w3)
      | Inr existing \<Rightarrow> if existing \<noteq> None \<and> \<not> rerunCommittedChildren (br_retryPolicy run)
          then skip_existing r req (the existing) x w3
          else if rch_localChildrenDir req \<noteq> [] \<and> rch_attempt req = 1 then local_child r req x w3
          else pull_child r req x w3) ?P"
    if "\<And>t. found = Inr (Some t) \<Longrightarrow> stored w3 c \<noteq> None" "ar_childID x = c" "\<not> ar_terminal x" for found w3 x
    using that ends_mono [OF local_child_ends [OF assms(2) that(3,2)], of w3 ?P]
      ends_mono [OF pull_child_ends [OF assms(2) that(3,2)], of w3 ?P]
      skip_ends [OF assms(2) that(2), of w3]
    by (auto intro: ends_now lookup_failed dir_protocol split: sum.split)
  show ?thesis unfolding run_child_def assms(1,2,3) option.case Let_def
  proof (rule ends_clock, rule ends_lookup, rule ends_clock_grows, rule branch [OF _ f])
    fix found w1 w2 t
    assume "\<And>t. found = Inr (Some t) \<Longrightarrow> stored w1 c \<noteq> None" "stored w1 \<subseteq>\<^sub>m stored w2" "found = Inr (Some t)"
    then show "stored w2 c \<noteq> None" by (auto simp: map_le_def dom_def)
  qed
qed

end
end
