(* ===== verification/LocalAgent.thy ===== *)
theory LocalAgent
  imports RunChild
begin

text \<open>
  The agent on the local result store: an interpretation of the contract of an attempt's
  environment for \<open>LocalResultStore\<close>, and what a child attempt promises there.
\<close>

section \<open>An agent on the local result store\<close>

text \<open>A runner whose results go to the local store \<open>st\<close>: everything else is an arbitrary runner
  \<open>base\<close> on a state of its own, \<open>faults\<close> says what happens to the next call of the store, and
  \<open>others\<close> which commits and writes other agents make while a call of \<open>base\<close> runs.\<close>

record 'v local_world =
  lw_rest :: 'v
  lw_fs :: local_fs
  lw_calls :: "child_call list"

definition lift_call :: "local_result_store option \<Rightarrow> bundle_run \<Rightarrow> ('v \<Rightarrow> local_call_env store_call list)
    \<Rightarrow> child_call list \<Rightarrow> ('v \<Rightarrow> 'a \<times> 'v) \<Rightarrow> 'v local_world \<Rightarrow> 'a \<times> 'v local_world" where
  "lift_call st run others made f w =
     (case f (lw_rest w) of (x, v) \<Rightarrow>
        (x, \<lparr>lw_rest = v, lw_fs = foldl (local_call st run) (lw_fs w) (others v), lw_calls = lw_calls w @ made\<rparr>))"

definition lift_client :: "local_result_store option \<Rightarrow> bundle_run \<Rightarrow> ('v \<Rightarrow> local_call_env store_call list)
    \<Rightarrow> 'v spore_client \<Rightarrow> 'v local_world spore_client" where
  "lift_client st run others c =
     \<lparr>sc_executable = lift_call st run others [] (sc_executable c),
       sc_version = (\<lambda>ctx. lift_call st run others [] (sc_version c ctx)),
       sc_host_info = (\<lambda>ctx. lift_call st run others [] (sc_host_info c ctx)),
       sc_inspect_bundle = (\<lambda>ctx q. lift_call st run others [] (sc_inspect_bundle c ctx q)),
       sc_run_capture = (\<lambda>ctx q. lift_call st run others [] (sc_run_capture c ctx q)),
       sc_fork = (\<lambda>ctx q. lift_call st run others [] (sc_fork c ctx q)),
       sc_pack = (\<lambda>ctx q. lift_call st run others [] (sc_pack c ctx q)),
       sc_pull = (\<lambda>ctx q. lift_call st run others [] (sc_pull c ctx q)),
       sc_resume = (\<lambda>ctx q. lift_call st run others [Executed] (sc_resume c ctx q)),
       sc_restore_named = (\<lambda>ctx q. lift_call st run others [] (sc_restore_named c ctx q)),
       sc_run_from = (\<lambda>ctx q. lift_call st run others [Executed] (sc_run_from c ctx q)),
       sc_exec = (\<lambda>ctx q. lift_call st run others [] (sc_exec c ctx q)),
       sc_remove_vm = (\<lambda>ctx q. lift_call st run others [] (sc_remove_vm c ctx q)),
       sc_remove_saved_spore = (\<lambda>ctx q. lift_call st run others [] (sc_remove_saved_spore c ctx q)),
       sc_collect_cache = (\<lambda>ctx. lift_call st run others [] (sc_collect_cache c ctx))\<rparr>"

definition lift_os :: "local_result_store option \<Rightarrow> bundle_run \<Rightarrow> ('v \<Rightarrow> local_call_env store_call list)
    \<Rightarrow> 'v os_calls \<Rightarrow> 'v local_world os_calls" where
  "lift_os st run others os =
     \<lparr>os_getwd = (\<lambda>w. os_getwd os (lw_rest w)), os_stat = (\<lambda>p w. os_stat os p (lw_rest w)),
      os_lstat = (\<lambda>p w. os_lstat os p (lw_rest w)), os_read_dir = (\<lambda>p w. os_read_dir os p (lw_rest w)),
      os_read_file = (\<lambda>p w. os_read_file os p (lw_rest w)),
      os_remove_all = (\<lambda>p. lift_call st run others [] (os_remove_all os p)),
      os_remove = (\<lambda>p. lift_call st run others [] (os_remove os p)),
      os_mkdir_all = (\<lambda>p. lift_call st run others [] (os_mkdir_all os p)),
      os_mkdir_temp = (\<lambda>p d. lift_call st run others [] (os_mkdir_temp os p d)),
      os_write_file = (\<lambda>p d. lift_call st run others [] (os_write_file os p d)),
      os_write_synced = (\<lambda>p d. lift_call st run others [] (os_write_synced os p d)),
      os_rename = (\<lambda>p d. lift_call st run others [] (os_rename os p d)),
      os_sync_dir = (\<lambda>p. lift_call st run others [] (os_sync_dir os p))\<rparr>"

definition local_results :: "local_result_store option \<Rightarrow> ('v \<Rightarrow> local_call_env \<times> 'v) \<Rightarrow> 'v local_world result_store_if" where
  "local_results st faults =
     \<lparr>store_terminal = (\<lambda>ctx run c w. case faults (lw_rest w) of (env, v) \<Rightarrow>
        (local_read st run env c (lw_fs w), w\<lparr>lw_rest := v, lw_calls := lw_calls w @ [Looked c]\<rparr>)),
      store_write = (\<lambda>ctx run x w. case faults (lw_rest w) of (env, v) \<Rightarrow>
        (case local_write st run env x (lw_fs w) of (e, fs) \<Rightarrow>
           (e, \<lparr>lw_rest = v, lw_fs = fs, lw_calls = lw_calls w @ [Wrote x e]\<rparr>))),
      store_commit = (\<lambda>ctx run x w. case faults (lw_rest w) of (env, v) \<Rightarrow>
        (case local_commit st run env x (lw_fs w) of (be, fs) \<Rightarrow>
           (be, \<lparr>lw_rest = v, lw_fs = fs, lw_calls = lw_calls w @ [Committed x (fst be)]\<rparr>)))\<rparr>"

definition local_runner :: "local_result_store option \<Rightarrow> bundle_run \<Rightarrow> ('v \<Rightarrow> local_call_env \<times> 'v)
    \<Rightarrow> ('v \<Rightarrow> local_call_env store_call list) \<Rightarrow> 'v runner \<Rightarrow> 'v local_world runner" where
  "local_runner st run faults others base =
     \<lparr>rn_client = Some (lift_client st run others (the (rn_client base))),
      rn_results = Some (local_results st faults),
      rn_workRoot = rn_workRoot base, rn_backend = rn_backend base,
      rn_now = lift_call st run others [] (rn_now base),
      rn_metrics = map_option (\<lambda>observe m w. snd (lift_call st run others [] (\<lambda>v. ((), observe m v)) w)) (rn_metrics base),
      rn_childTimeout = rn_childTimeout base, rn_cacheGC = rn_cacheGC base,
      rn_os = lift_os st run others (rn_os base),
      rn_ctx_err = (\<lambda>w. rn_ctx_err base (lw_rest w)),
      rn_timer = (\<lambda>ctx d. lift_call st run others [] (rn_timer base ctx d)),
      rn_unmarshal_strings = rn_unmarshal_strings base\<rparr>"

lemma stored_others: "local_stored st run fs \<subseteq>\<^sub>m local_stored st run (foldl (local_call st run) fs ops)"
  using local_store.calls_keep [of st run fs _ _ ops] by (auto simp: map_le_def dom_def local_calls)

lemma lift_call_made:
  "lift_call st run others made f w = (x, w') \<Longrightarrow>
     lw_calls w' = lw_calls w @ made \<and> local_stored st run (lw_fs w) \<subseteq>\<^sub>m local_stored st run (lw_fs w')"
  using stored_others by (auto simp: lift_call_def split: prod.splits)

lemma map_le_update: "m a = None \<Longrightarrow> m \<subseteq>\<^sub>m m(a \<mapsto> b)"
  by (auto simp: map_le_def)

interpretation local_agent: attempt_env "local_runner st run faults others base" run lw_calls
  "\<lambda>w. local_stored st run (lw_fs w)" for st run faults others base
proof (unfold_locales, goal_cases)
  case (7 observe m w)
  then obtain f where "observe = (\<lambda>m w. snd (lift_call st run others [] (\<lambda>v. ((), f m v)) w))"
    by (auto simp: local_runner_def)
  then show ?case using lift_call_made [of st run others "[]" "\<lambda>v. ((), f m v)" w] by (metis append_Nil2 prod.collapse)
next
  case (10 ctx c w found w')
  then obtain env v where "found = local_read st run env c (lw_fs w)"
    "w' = w\<lparr>lw_rest := v, lw_calls := lw_calls w @ [Looked c]\<rparr>"
    by (auto simp: local_runner_def local_results_def split: prod.splits)
  then show ?case using local_read_stored [of st run env c "lw_fs w"] by (auto split: option.splits)
next
  case (11 ctx x w e w')
  then obtain env v fs where "local_write st run env x (lw_fs w) = (e, fs)"
    "w' = \<lparr>lw_rest = v, lw_fs = fs, lw_calls = lw_calls w @ [Wrote x e]\<rparr>"
    by (auto simp: local_runner_def local_results_def split: prod.splits)
  moreover have "e = None \<Longrightarrow> attempt_result_validate x run = None"
    using calculation(1) by (auto simp: local_write_def local_write_attempt_result_def split: option.splits)
  ultimately show ?case using local_write_keeps [of st run env x "lw_fs w" e fs] by simp
next
  case (12 ctx x w b e w')
  then obtain env v fs where c: "local_commit st run env x (lw_fs w) = ((b, e), fs)"
    "w' = \<lparr>lw_rest = v, lw_fs = fs, lw_calls = lw_calls w @ [Committed x b]\<rparr>"
    by (auto simp: local_runner_def local_results_def split: prod.splits)
  show ?case
  proof (cases b)
    case True
    then show ?thesis using c local_store.commit_created [of st run env x "lw_fs w" e fs] by (simp add: map_le_update)
  next
    case False
    then show ?thesis using c local_store.commit_not_created [of st run env x "lw_fs w" e fs] by simp
  qed
qed (auto simp: local_runner_def lift_client_def lift_os_def Let_def dest: lift_call_made)

section \<open>What an attempt promises\<close>

definition is_commit :: "child_call \<Rightarrow> bool" where
  "is_commit c \<longleftrightarrow> (case c of Committed _ _ \<Rightarrow> True | _ \<Rightarrow> False)"

definition is_write :: "child_call \<Rightarrow> bool" where
  "is_write c \<longleftrightarrow> (case c of Wrote _ _ \<Rightarrow> True | _ \<Rightarrow> False)"

inductive_cases protocolE: "attempt_protocol run c (x, e) tr docs"
inductive_cases finishedE: "finished_end run c (x, e) tr docs"

lemma protocol_once:
  assumes "attempt_protocol run c (x, e) tr docs"
  shows "\<exists>t. tr = Looked c # t \<and> length (filter (\<lambda>c. c = Executed) t) \<le> 1 \<and>
    length (filter is_commit t) \<le> 1 \<and> length (filter is_write t) \<le> 1 \<and>
    (\<forall>y b pre post. t = pre @ Committed y b # post \<longrightarrow> pre = [Executed]) \<and>
    (e = None \<longrightarrow> attempt_result_validate x run = None \<and> t \<noteq> [] \<and> last t = Wrote x None)"
  using assms
  by (elim protocolE finishedE)
    (auto simp: failed_end_def is_commit_def is_write_def append_eq_Cons_conv Cons_eq_append_conv elim!: finishedE)

lemma protocol_durable:
  assumes "attempt_protocol run c (x, None) tr docs" "ar_terminal x"
  shows "docs c \<noteq> None \<and> (ar_status x \<noteq> AttemptSkippedTerminalExists \<longrightarrow>
    (\<exists>t. docs c = Some (encode_document (x\<lparr>ar_timingsMS := t\<rparr>))))"
proof -
  have "\<exists>t. encode_document y = encode_document (y\<lparr>ar_timingsMS := t\<rparr>)" for y
    by (rule exI [of _ "ar_timingsMS y"]) simp
  then show ?thesis using assms by (elim protocolE finishedE) (auto simp: failed_end_def elim!: finishedE)
qed

lemma local_protocol:
  assumes "validate_run_child_request (local_runner st (rch_run req) faults others base) req = None"
    "run_child (local_runner st (rch_run req) faults others base) req w = (xe, w')"
  shows "\<exists>tr. lw_calls w' = lw_calls w @ tr \<and>
    attempt_protocol (rch_run req) (rch_childID req) xe tr (local_stored st (rch_run req) (lw_fs w'))"
  using local_agent.run_child_ends [OF assms(1) refl refl, of w] assms(2)
  unfolding local_agent.ends_def by auto

text \<open>C17: an attempt of a child asks the store for a committed result first, executes the
  child at most once, commits at most one result and only after the execution, and writes
  at most one attempt; when it returns no error the last thing it did was to write the
  returned result, which is valid. The attempt's other calls, what other agents commit
  meanwhile and which system calls fail are arbitrary.\<close>

theorem run_child_once:
  assumes "validate_run_child_request (local_runner st (rch_run req) faults others base) req = None"
    "run_child (local_runner st (rch_run req) faults others base) req w = ((x, e), w')"
  shows "\<exists>t. lw_calls w' = lw_calls w @ Looked (rch_childID req) # t \<and>
    length (filter (\<lambda>c. c = Executed) t) \<le> 1 \<and>
    length (filter is_commit t) \<le> 1 \<and> length (filter is_write t) \<le> 1 \<and>
    (\<forall>y b pre post. t = pre @ Committed y b # post \<longrightarrow> pre = [Executed]) \<and>
    (e = None \<longrightarrow> attempt_result_validate x (rch_run req) = None \<and> t \<noteq> [] \<and> last t = Wrote x None)"
  using local_protocol [OF assms] by (auto dest!: protocol_once)


section \<open>An attempt that succeeds\<close>

text \<open>A node whose calls all succeed, with the child already prepared in \<open>/work/children\<close>.\<close>

definition calm_os :: "unit os_calls" where
  "calm_os = \<lparr>os_getwd = (\<lambda>_. Inr ''/''), os_stat = (\<lambda>_ _. Inr DirFile), os_lstat = (\<lambda>_ _. Inr DirFile),
     os_read_dir = (\<lambda>_ _. Inr []), os_read_file = (\<lambda>_ _. Inl (Sentinel OsErrNotExist)),
     os_remove_all = (\<lambda>_ w. (None, w)), os_remove = (\<lambda>_ w. (None, w)), os_mkdir_all = (\<lambda>_ w. (None, w)),
     os_mkdir_temp = (\<lambda>d p w. (Inr (path_join [d, p]), w)), os_write_file = (\<lambda>_ _ w. (None, w)),
     os_write_synced = (\<lambda>_ _ w. (None, w)), os_rename = (\<lambda>_ _ w. (None, w)), os_sync_dir = (\<lambda>_ w. (None, w))\<rparr>"

definition calm_client :: "unit spore_client" where
  "calm_client =
     (let no = Sentinel ErrSporeClientNotConfigured in
      \<lparr>sc_executable = (\<lambda>w. (Inl no, w)), sc_version = (\<lambda>_ w. (Inl no, w)), sc_host_info = (\<lambda>_ w. (Inl no, w)),
       sc_inspect_bundle = (\<lambda>_ _ w. (Inl no, w)), sc_run_capture = (\<lambda>_ _ w. (([], Some no), w)),
       sc_fork = (\<lambda>_ _ w. (None, w)), sc_pack = (\<lambda>_ _ w. (None, w)), sc_pull = (\<lambda>_ _ w. (Inl no, w)),
       sc_resume = (\<lambda>_ _ w. (([sample_completion], None), w)), sc_restore_named = (\<lambda>_ _ w. (Inl no, w)),
       sc_run_from = (\<lambda>_ _ w. (([sample_completion], None), w)), sc_exec = (\<lambda>_ _ w. (([], Some no), w)),
       sc_remove_vm = (\<lambda>_ _ w. (None, w)), sc_remove_saved_spore = (\<lambda>_ _ w. (None, w)),
       sc_collect_cache = (\<lambda>_ w. ((\<lparr>gc_schema = [], gc_schema_version = 0, gc_dry_run = False,
          gc_deleted_count = 0, gc_deleted_bytes = 0\<rparr>, Some no), w))\<rparr>)"

definition calm_runner :: "unit runner" where
  "calm_runner = \<lparr>rn_client = Some calm_client, rn_results = None, rn_workRoot = ''/work'', rn_backend = ''kvm'',
     rn_now = (\<lambda>w. (1, w)), rn_metrics = None, rn_childTimeout = 0, rn_cacheGC = False, rn_os = calm_os,
     rn_ctx_err = (\<lambda>_. None), rn_timer = (\<lambda>_ _ w. (None, w)), rn_unmarshal_strings = (\<lambda>_. Inr [])\<rparr>"


definition calm_agent :: "unit local_world runner" where
  "calm_agent = local_runner sample_store sample_bundle_run (\<lambda>v. ((None, WriteOk, None), v)) (\<lambda>_. []) calm_runner"

definition calm_request :: run_child_request where
  "calm_request = \<lparr>rch_run = sample_bundle_run, rch_lease = plan_lease_for sample_bundle_run sample_agent,
     rch_childID = 0, rch_attempt = 1, rch_pressure = as_pressure sample_agent, rch_region = [],
     rch_allowMetadataOnlyRootFS = False, rch_backend = [], rch_localChildrenDir = ''/work/children''\<rparr>"

definition calm_world :: "local_fs \<Rightarrow> unit local_world" where
  "calm_world fs = \<lparr>lw_rest = (), lw_fs = fs, lw_calls = []\<rparr>"

lemma lift_calm: "f () = (x, ()) \<Longrightarrow>
    lift_call st run (\<lambda>_. []) made f w = (x, w\<lparr>lw_calls := lw_calls w @ made\<rparr>)"
  by (cases w) (simp add: lift_call_def)

lemma sample_lease_valid: "lease_validate (plan_lease_for sample_bundle_run sample_agent) sample_bundle_run = None"
  using shard_id_pattern [of "''run-1''"] sample_bundle_run_valid
  by (simp add: lease_validate_None plan_lease_for_def lease_range_def sample_agent_def)
    (simp add: sample_bundle_run_def)

lemma calm_valid: "validate_run_child_request calm_agent calm_request = None"
  using sample_lease_valid
  by (simp add: validate_run_child_request_def calm_agent_def calm_request_def local_runner_def calm_runner_def
      plan_lease_for_def lease_range_def range_end_def in64_def)
    (simp add: sample_bundle_run_def range_end_def in64_def)

lemma calm_now [simp]: "rn_now calm_agent w = (1, w)"
  by (simp add: calm_agent_def local_runner_def calm_runner_def lift_calm)

lemma calm_resume: "execute_child calm_agent ctx calm_request d b g w =
    (([sample_completion], None), w\<lparr>lw_calls := lw_calls w @ [Executed]\<rparr>)"
  by (simp add: execute_child_def calm_agent_def local_runner_def calm_runner_def lift_client_def calm_client_def
      calm_request_def lift_calm Let_def)

lemma calm_lookup: "store_terminal (store_of calm_agent) ctx run c w =
    (local_read sample_store run (None, WriteOk, None) c (lw_fs w), w\<lparr>lw_calls := lw_calls w @ [Looked c]\<rparr>)"
  by (cases w) (simp add: calm_agent_def local_runner_def local_results_def)

lemma calm_write: "store_write (store_of calm_agent) ctx run x w =
    (case local_write sample_store run (None, WriteOk, None) x (lw_fs w) of (e, fs) \<Rightarrow>
       (e, w\<lparr>lw_fs := fs, lw_calls := lw_calls w @ [Wrote x e]\<rparr>))"
  by (cases w) (simp add: calm_agent_def local_runner_def local_results_def split: prod.split)

lemma calm_commit: "store_commit (store_of calm_agent) ctx run x w =
    (case local_commit sample_store run (None, WriteOk, None) x (lw_fs w) of (be, fs) \<Rightarrow>
       (be, w\<lparr>lw_fs := fs, lw_calls := lw_calls w @ [Committed x (fst be)]\<rparr>))"
  by (cases w) (simp add: calm_agent_def local_runner_def local_results_def split: prod.split)

lemma calm_os: "rn_os calm_agent = lift_os sample_store sample_bundle_run (\<lambda>_. []) calm_os"
  by (simp add: calm_agent_def local_runner_def calm_runner_def)

lemma calm_prepared: "validate_prepared_child_dir (rn_os calm_agent) ''/work'' (prepared_child_spore_dir ''/work/children'' 0) w = None"
proof -
  have "validate_path_within (Inr ''/'') ''/work'' (prepared_child_spore_dir ''/work/children'' 0) = None" by code_simp
  then show ?thesis by (simp add: validate_prepared_child_dir_def calm_os lift_os_def calm_os_def)
qed

lemma calm_generation: "write_generation_file (rn_os calm_agent) p run c w = (None, w)"
  by (simp add: write_generation_file_def calm_os lift_os_def calm_os_def lift_calm)

lemma calm_remove: "os_remove (rn_os calm_agent) p w = (None, w)"
  by (simp add: calm_os lift_os_def calm_os_def lift_calm)

text \<open>The result of the attempt.\<close>

definition calm_result :: attempt_result where
  "calm_result = (first_result calm_request 1)\<lparr>ar_terminal := True, ar_status := AttemptSucceeded,
     ar_resultURI := terminal_result_uri sample_bundle_run 0\<rparr>"

lemma calm_result_guard: "commit_guard sample_bundle_run calm_result = None"
proof -
  have "id_pattern (format_attempt_id ''run-1'' 0 1)" "id_pattern (shard_id ''run-1'')" by code_simp+
  then show ?thesis using terminal_uri_ok [of sample_bundle_run 0]
    by (simp add: commit_guard_def attempt_result_validate_None attempt_timings_validate_None)
      (simp add: calm_result_def first_result_def calm_request_def zero_result_def attempt_status_defs
        valid_attempt_status_def zero_timings_def sample_bundle_run_def range_end_def in64_def
        plan_lease_for_def sample_agent_def)
qed

lemma calm_path: "path_for_uri sample_store (terminal_result_uri sample_bundle_run 0) =
    Inr [''b'', ''p'', ''children'', ''0'', ''terminal.json'']"
proof -
  have "itoa 0 = ''0''" by code_simp
  then show ?thesis using run_paths [of sample_bundle_run sample_store 0 "[]"] sample_store_base by simp
qed

lemma calm_events:
  "terminal_event [sample_completion] = Inr sample_completion" "attempt_output_from_events [sample_completion] = Inr None"
  by (simp_all add: terminal_event_def event_terminal_def attempt_output_from_events_def event_stream_def sample_completion_def)

lemma calm_classified: "classify_outcome sample_bundle_run 0 sample_completion x =
    Some (x\<lparr>ar_terminal := True, ar_resultURI := terminal_result_uri sample_bundle_run 0, ar_status := AttemptSucceeded\<rparr>, True)"
  by (simp add: classify_outcome_def sample_completion_def)

lemma calm_timings: "sample_completion\<lparr>ev_timings := None\<rparr> = sample_completion" "elapsed_ms 1 1 = 0" "ev_timings sample_completion = None"
  by (simp_all add: sample_completion_def elapsed_ms_def time_sub_def)

lemma calm_child [simp]: "ar_childID calm_result = 0"
  by (simp add: calm_result_def first_result_def calm_request_def)

lemma calm_store: "local_commit sample_store sample_bundle_run (None, WriteOk, None) calm_result Map.empty =
    ((True, None), [[''b'', ''p'', ''children'', ''0'', ''terminal.json''] \<mapsto> encode_document calm_result])"
  using calm_path calm_result_guard
  by (simp add: local_commit_def local_commit_terminal_result_def write_json_create_only_def)

lemma calm_written: "fst (local_write sample_store sample_bundle_run (None, WriteOk, None) calm_result
    [[''b'', ''p'', ''children'', ''0'', ''terminal.json''] \<mapsto> encode_document calm_result]) = None"
proof -
  have v: "attempt_result_validate calm_result sample_bundle_run = None" using calm_result_guard by (simp add: commit_guard_def)
  obtain p where p: "path_for_uri sample_store (attempt_result_uri sample_bundle_run (ar_childID calm_result) (ar_attemptID calm_result)) = Inr p"
    using run_paths [of sample_bundle_run sample_store "ar_childID calm_result" "ar_attemptID calm_result"] sample_store_base
      result_valid_id [OF v] by auto
  have "p \<noteq> [''b'', ''p'', ''children'', ''0'', ''terminal.json'']"
    using attempt_path_not_terminal [OF _ result_valid_id [OF v] p, of 0] calm_path by auto
  then show ?thesis using v p
    by (simp add: local_write_def local_write_attempt_result_def write_json_create_only_def)
qed

lemma calm_missing: "local_read sample_store sample_bundle_run (None, WriteOk, None) 0 Map.empty = Inr None"
  using calm_path by (simp add: local_read_def local_terminal_result_def)
    (simp add: sample_bundle_run_def range_end_def in64_def)

lemma calm_metrics: "rn_metrics calm_agent = None"
  by (simp add: calm_agent_def local_runner_def calm_runner_def)

lemma calm_commit_terminal:
  "fst (commit_terminal calm_agent sample_bundle_run calm_result zero_pull \<lparr>lw_rest = (), lw_fs = Map.empty, lw_calls = cs\<rparr>)
     = (calm_result, None)"
proof -
  have t: "calm_result\<lparr>ar_timingsMS := (ar_timingsMS calm_result)\<lparr>at_resultCommit := 0\<rparr>\<rparr> = calm_result"
    by (simp add: calm_result_def first_result_def zero_result_def zero_timings_def)
  obtain fs where "local_write sample_store sample_bundle_run (None, WriteOk, None) calm_result
      [[''b'', ''p'', ''children'', ''0'', ''terminal.json''] \<mapsto> encode_document calm_result] = (None, fs)"
    using calm_written by (metis prod.collapse)
  then show ?thesis
    by (simp add: commit_terminal_def calm_commit calm_store calm_timings t write_and_observe_def calm_write
        observe_attempt_def calm_metrics)
qed

lemma calm_run: "fst (run_child calm_agent calm_request (calm_world Map.empty)) = (calm_result, None)"
proof -
  have r: "rch_run calm_request = sample_bundle_run" "rch_childID calm_request = 0" "rch_attempt calm_request = 1"
    "rch_localChildrenDir calm_request = ''/work/children''" "rn_workRoot calm_agent = ''/work''"
    by (simp_all add: calm_request_def calm_agent_def local_runner_def calm_runner_def)
  have res: "(first_result calm_request 1)\<lparr>ar_timingsMS := zero_timings\<lparr>at_resultCommit := 0, at_localChild := 0, at_resume := 0\<rparr>,
      ar_output := None, ar_terminal := True, ar_resultURI := terminal_result_uri sample_bundle_run 0,
      ar_status := AttemptSucceeded, ar_finishedAt := 1\<rparr> = calm_result"
    by (simp add: calm_result_def first_result_def zero_result_def zero_timings_def)
  show ?thesis
    by (simp add: run_child_def calm_valid calm_lookup r calm_world_def calm_missing calm_timings Let_def
        local_child_def calm_prepared run_in_dir_def with_defer_def calm_generation calm_resume calm_remove
        judge_events_def calm_events calm_classified apply_resume_error_def commit_attempt_def res
        calm_commit_terminal split_beta)
qed

theorem run_child_once_witness:
  "\<exists>t. lw_calls (snd (run_child calm_agent calm_request (calm_world Map.empty))) = Looked 0 # t \<and>
     length (filter is_commit t) \<le> 1 \<and> last t = Wrote calm_result None"
proof -
  let ?run = "run_child calm_agent calm_request (calm_world Map.empty)"
  have r: "rch_run calm_request = sample_bundle_run" "rch_childID calm_request = 0"
    by (simp_all add: calm_request_def)
  have a: "calm_agent = local_runner sample_store (rch_run calm_request) (\<lambda>v. ((None, WriteOk, None), v)) (\<lambda>_. []) calm_runner"
    by (simp add: calm_agent_def r)
  have "?run = ((calm_result, None), snd ?run)" using calm_run by (metis prod.collapse)
  from run_child_once [OF calm_valid [unfolded a] this [unfolded a], folded a] show ?thesis
    by (auto simp: r calm_world_def)
qed


end
