(* ===== verification/Shard.thy ===== *)
theory Shard
  imports LocalAgent
begin

text \<open>
  \<open>RunChild\<close> and \<open>RunShard\<close> of \<open>internal/agent/runtime.go\<close>: a shard's children are handed to a
  bounded number of worker goroutines over an unbuffered channel. A step is one turn of the
  sending loop, one hand-over to an idle worker, or one attempt; the attempts of different
  workers follow each other in any order.
\<close>

section \<open>Definitions\<close>

definition runner_run_child :: "'w runner \<Rightarrow> run_child_request \<Rightarrow> slot_pool \<Rightarrow> 'w
    \<Rightarrow> (attempt_result \<times> gerr option) \<times> slot_pool \<times> 'w" where
  "runner_run_child r req p w =
     (case validate_run_child_request r req of
        Some e \<Rightarrow> ((zero_result, Some e), p, w)
      | None \<Rightarrow>
          (case admit_shard ((rch_lease req)\<lparr>lease_childStart := rch_childID req, lease_childCount := 1\<rparr>) (rch_pressure req) p of
             (Inl e, p1) \<Rightarrow> ((zero_result, Some e), p1, w)
           | (Inr release, p1) \<Rightarrow>
               (case run_child r req w of (res, w1) \<Rightarrow> (res, call_release release p1, w1))))"

text \<open>The guards and the reservation \<open>RunShard\<close> starts with.\<close>

definition worker_count :: "run_shard_request \<Rightarrow> int" where
  "worker_count req = shard_slot_demand (rsh_run req) (rsh_lease req)"

definition run_shard_admit :: "run_shard_request \<Rightarrow> slot_pool \<Rightarrow> (gerr + nat) \<times> slot_pool" where
  "run_shard_admit req p =
     (case lease_validate (rsh_lease req) (rsh_run req) of
        Some e \<Rightarrow> (Inl e, p)
      | None \<Rightarrow>
          if rsh_attempt req < 1 \<or> rsh_attempt req > lease_attemptBudget (rsh_lease req)
          then (Inl (Sentinel ErrInvalidLease), p)
          else admit_shard ((rsh_lease req)\<lparr>lease_childCount := worker_count req\<rparr>) (rsh_pressure req) p)"

definition shard_child_request :: "run_shard_request \<Rightarrow> int \<Rightarrow> run_child_request" where
  "shard_child_request req childID =
     \<lparr>rch_run = rsh_run req, rch_lease = rsh_lease req, rch_childID = childID, rch_attempt = rsh_attempt req,
      rch_pressure = rsh_pressure req, rch_region = rsh_region req,
      rch_allowMetadataOnlyRootFS = rsh_allowMetadataOnlyRootFS req, rch_backend = rsh_backend req,
      rch_localChildrenDir = rsh_localChildrenDir req\<rparr>"

text \<open>The sending loop is before its next turn, blocked in a send, or has closed the channel
  with the context's error, if there was one.\<close>

datatype shard_sender = Turning int | Sending int | Closed "gerr option"

record 'w shard_run =
  sh_sender :: shard_sender
  sh_workers :: "nat \<Rightarrow> int option"
  sh_results :: "attempt_result list"
  sh_errs :: "gerr list"
  sh_world :: 'w

definition shard_end :: "run_shard_request \<Rightarrow> int" where
  "shard_end req = range_end (lease_range (rsh_lease req))"

definition shard_start :: "run_shard_request \<Rightarrow> 'w \<Rightarrow> 'w shard_run" where
  "shard_start req w =
     \<lparr>sh_sender = Turning (lease_childStart (rsh_lease req)), sh_workers = (\<lambda>_. None),
      sh_results = replicate (nat (lease_childCount (rsh_lease req))) zero_result, sh_errs = [], sh_world = w\<rparr>"

inductive shard_step :: "'w runner \<Rightarrow> run_shard_request \<Rightarrow> 'w shard_run \<Rightarrow> 'w shard_run \<Rightarrow> bool"
  for r :: "'w runner" and req :: run_shard_request where
  turn: "sh_sender s = Turning c \<Longrightarrow> c < shard_end req \<Longrightarrow> rn_ctx_err r (sh_world s) = None \<Longrightarrow>
     shard_step r req s (s\<lparr>sh_sender := Sending c\<rparr>)"
| cancelled: "sh_sender s = Turning c \<Longrightarrow> c < shard_end req \<Longrightarrow> rn_ctx_err r (sh_world s) = Some e \<Longrightarrow>
     shard_step r req s (s\<lparr>sh_sender := Closed (Some e)\<rparr>)"
| sent_all: "sh_sender s = Turning c \<Longrightarrow> shard_end req \<le> c \<Longrightarrow>
     shard_step r req s (s\<lparr>sh_sender := Closed None\<rparr>)"
| handed: "sh_sender s = Sending c \<Longrightarrow> i < nat (worker_count req) \<Longrightarrow> sh_workers s i = None \<Longrightarrow>
     shard_step r req s (s\<lparr>sh_sender := Turning (c + 1), sh_workers := (sh_workers s)(i \<mapsto> c)\<rparr>)"
| attempted: "i < nat (worker_count req) \<Longrightarrow> sh_workers s i = Some c \<Longrightarrow>
     run_child r (shard_child_request req c) (sh_world s) = ((x, e), w') \<Longrightarrow>
     shard_step r req s (s\<lparr>sh_workers := (sh_workers s)(i := None),
       sh_results := (sh_results s)[nat (c - lease_childStart (rsh_lease req)) := x],
       sh_errs := sh_errs s @ (case e of None \<Rightarrow> [] | Some e \<Rightarrow> [e]), sh_world := w'\<rparr>)"

text \<open>What \<open>RunShard\<close> returns once the channel is closed and the workers are done.\<close>

definition shard_returned :: "run_shard_request \<Rightarrow> 'w shard_run \<Rightarrow> (attempt_result list \<times> gerr option) option" where
  "shard_returned req s =
     (case sh_sender s of
        Closed ce \<Rightarrow>
          if (\<forall>i < nat (worker_count req). sh_workers s i = None)
          then Some (sh_results s, errors_join (map Some (sh_errs s) @ (case ce of None \<Rightarrow> [] | Some e \<Rightarrow> [Some e])))
          else None
      | _ \<Rightarrow> None)"

inductive_cases shard_stepE: "shard_step r req s s'"

section \<open>The invariant\<close>

text \<open>The children the loop has sent so far.\<close>

definition sent_upto :: "run_shard_request \<Rightarrow> 'w shard_run \<Rightarrow> int \<Rightarrow> bool" where
  "sent_upto req s c \<longleftrightarrow> (case sh_sender s of Turning d \<Rightarrow> c = d | Sending d \<Rightarrow> c = d \<and> d < shard_end req
     | Closed ce \<Rightarrow> ce = None \<longrightarrow> c = shard_end req)"

text \<open>\<open>done\<close> gives the outcome of every child whose attempt has ended, \<open>n\<close> is the first child
  not yet sent.\<close>

definition shard_inv :: "'w runner \<Rightarrow> run_shard_request \<Rightarrow> (int \<rightharpoonup> attempt_result \<times> gerr option) \<Rightarrow> int \<Rightarrow> 'w shard_run \<Rightarrow> bool" where
  "shard_inv r req outcomes n s \<longleftrightarrow>
     (let start = lease_childStart (rsh_lease req) in
      sent_upto req s n \<and> start \<le> n \<and> n \<le> shard_end req \<and>
      (\<forall>i. \<not> i < nat (worker_count req) \<longrightarrow> sh_workers s i = None) \<and>
      (\<forall>i j c. sh_workers s i = Some c \<and> sh_workers s j = Some c \<longrightarrow> i = j) \<and>
      (\<forall>c. start \<le> c \<and> c < n \<longleftrightarrow> c \<in> dom outcomes \<or> (\<exists>i. sh_workers s i = Some c)) \<and>
      (\<forall>i c. sh_workers s i = Some c \<longrightarrow> outcomes c = None) \<and>
      length (sh_results s) = nat (lease_childCount (rsh_lease req)) \<and>
      (\<forall>k < length (sh_results s). sh_results s ! k =
         (case outcomes (start + int k) of None \<Rightarrow> zero_result | Some (x, e) \<Rightarrow> x)) \<and>
      (\<forall>c xe. outcomes c = Some xe \<longrightarrow> (\<exists>w w'. run_child r (shard_child_request req c) w = (xe, w'))) \<and>
      set (sh_errs s) = {e. \<exists>c x. outcomes c = Some (x, Some e)})"

lemma shard_invI:
  assumes "sent_upto req s n" "lease_childStart (rsh_lease req) \<le> n" "n \<le> shard_end req"
    "\<And>i. \<not> i < nat (worker_count req) \<Longrightarrow> sh_workers s i = None"
    "\<And>i j c. sh_workers s i = Some c \<Longrightarrow> sh_workers s j = Some c \<Longrightarrow> i = j"
    "\<And>c. lease_childStart (rsh_lease req) \<le> c \<and> c < n \<longleftrightarrow> outcomes c \<noteq> None \<or> (\<exists>i. sh_workers s i = Some c)"
    "\<And>i c. sh_workers s i = Some c \<Longrightarrow> outcomes c = None"
    "length (sh_results s) = nat (lease_childCount (rsh_lease req))"
    "\<And>k. k < length (sh_results s) \<Longrightarrow> sh_results s ! k =
       (case outcomes (lease_childStart (rsh_lease req) + int k) of None \<Rightarrow> zero_result | Some (x, e) \<Rightarrow> x)"
    "\<And>c xe. outcomes c = Some xe \<Longrightarrow> \<exists>w w'. run_child r (shard_child_request req c) w = (xe, w')"
    "set (sh_errs s) = {e. \<exists>c x. outcomes c = Some (x, Some e)}"
  shows "shard_inv r req outcomes n s"
  using assms unfolding shard_inv_def Let_def dom_def by blast

lemma shard_invD:
  assumes "shard_inv r req outcomes n s"
  shows "sent_upto req s n" "lease_childStart (rsh_lease req) \<le> n" "n \<le> shard_end req"
    "\<And>i. \<not> i < nat (worker_count req) \<Longrightarrow> sh_workers s i = None"
    "\<And>i j c. sh_workers s i = Some c \<Longrightarrow> sh_workers s j = Some c \<Longrightarrow> i = j"
    "\<And>c. lease_childStart (rsh_lease req) \<le> c \<and> c < n \<longleftrightarrow> outcomes c \<noteq> None \<or> (\<exists>i. sh_workers s i = Some c)"
    "\<And>i c. sh_workers s i = Some c \<Longrightarrow> outcomes c = None"
    "length (sh_results s) = nat (lease_childCount (rsh_lease req))"
    "\<And>k. k < length (sh_results s) \<Longrightarrow> sh_results s ! k =
       (case outcomes (lease_childStart (rsh_lease req) + int k) of None \<Rightarrow> zero_result | Some (x, e) \<Rightarrow> x)"
    "\<And>c xe. outcomes c = Some xe \<Longrightarrow> \<exists>w w'. run_child r (shard_child_request req c) w = (xe, w')"
    "set (sh_errs s) = {e. \<exists>c x. outcomes c = Some (x, Some e)}"
  using assms unfolding shard_inv_def Let_def dom_def by blast+

lemma shard_inv_sender:
  assumes "shard_inv r req outcomes n s" "sent_upto req (s\<lparr>sh_sender := t\<rparr>) n"
  shows "shard_inv r req outcomes n (s\<lparr>sh_sender := t\<rparr>)"
  using assms(2) shard_invD(2-) [OF assms(1)] by (intro shard_invI) simp_all

lemma shard_inv_handed:
  assumes inv: "shard_inv r req outcomes n s" and s: "sh_sender s = Sending c" "i < nat (worker_count req)" "sh_workers s i = None"
  shows "shard_inv r req outcomes (n + 1) (s\<lparr>sh_sender := Turning (c + 1), sh_workers := (sh_workers s)(i \<mapsto> c)\<rparr>)"
proof -
  note d = shard_invD [OF inv]
  have c: "c = n" "n < shard_end req" using d(1) s(1) by (auto simp: sent_upto_def)
  have fresh: "outcomes n = None" "sh_workers s j \<noteq> Some n" for j using d(6) [of n] by (metis less_irrefl)+
  have ex: "(\<exists>j. ((sh_workers s)(i \<mapsto> n)) j = Some a) \<longleftrightarrow> a = n \<or> (\<exists>j. sh_workers s j = Some a)" for a
    using s(3) by (metis fun_upd_apply option.distinct(1) option.inject)
  show ?thesis
  proof (rule shard_invI, goal_cases)
    case (6 a)
    have "lease_childStart (rsh_lease req) \<le> a \<and> a < n + 1 \<longleftrightarrow>
        a = n \<or> lease_childStart (rsh_lease req) \<le> a \<and> a < n" using d(2) by auto
    then show ?case using d(6) [of a] c ex [of a] by auto
  qed (use d c fresh s(2) in \<open>auto simp: sent_upto_def split: if_splits\<close>)
qed

lemma shard_inv_attempted:
  assumes inv: "shard_inv r req outcomes n s" and s: "i < nat (worker_count req)" "sh_workers s i = Some c"
    "run_child r (shard_child_request req c) (sh_world s) = ((x, e), w')"
    and len: "shard_end req = lease_childStart (rsh_lease req) + lease_childCount (rsh_lease req)"
  shows "shard_inv r req (outcomes(c \<mapsto> (x, e))) n (s\<lparr>sh_workers := (sh_workers s)(i := None),
       sh_results := (sh_results s)[nat (c - lease_childStart (rsh_lease req)) := x],
       sh_errs := sh_errs s @ (case e of None \<Rightarrow> [] | Some e \<Rightarrow> [e]), sh_world := w'\<rparr>)"
proof -
  note d = shard_invD [OF inv]
  let ?start = "lease_childStart (rsh_lease req)"
  have c: "?start \<le> c" "c < n" using d(6) [of c] s(2) by blast+
  have none: "outcomes c = None" using d(7) s(2) .
  have others: "j \<noteq> i \<Longrightarrow> sh_workers s j \<noteq> Some c" for j using d(5) s(2) by blast
  have k: "nat (c - ?start) < length (sh_results s)" using c d(3,8) len by simp
  have ex: "(\<exists>j. ((sh_workers s)(i := None)) j = Some a) \<longleftrightarrow> a \<noteq> c \<and> (\<exists>j. sh_workers s j = Some a)" for a
    using s(2) others by (metis fun_upd_apply option.distinct(1) option.inject)
  show ?thesis
  proof (rule shard_invI, goal_cases)
    case (6 a)
    then show ?case using d(6) [of a] c ex [of a] by auto
  next
    case (9 m)
    then show ?case using d(9) [of m] k c by (cases "m = nat (c - ?start)") (auto simp: nth_list_update)
  next
    case 11
    have "{e'. \<exists>a y. (outcomes(c \<mapsto> (x, e))) a = Some (y, Some e')} =
        {e'. \<exists>a y. outcomes a = Some (y, Some e')} \<union> {e'. e = Some e'}"
      using none by (auto split: if_splits) (metis option.distinct(1))
    then show ?case using d(11) by (auto split: option.splits)
  qed (use d s others in \<open>auto simp: sent_upto_def split: if_splits\<close>)
qed

lemma shard_inv_start:
  assumes "shard_end req = lease_childStart (rsh_lease req) + lease_childCount (rsh_lease req)"
    "0 \<le> lease_childCount (rsh_lease req)"
  shows "shard_inv r req Map.empty (lease_childStart (rsh_lease req)) (shard_start req w)"
  using assms by (intro shard_invI) (simp_all add: shard_start_def sent_upto_def)

lemma shard_inv_step:
  assumes "shard_step r req s s'" "shard_inv r req outcomes n s"
    and "shard_end req = lease_childStart (rsh_lease req) + lease_childCount (rsh_lease req)"
  shows "\<exists>outcomes' n'. shard_inv r req outcomes' n' s'"
  using assms(1)
proof cases
  case (turn c)
  then show ?thesis using shard_inv_sender [OF assms(2)] shard_invD(1) [OF assms(2)] by (force simp: sent_upto_def)
next
  case (cancelled c e)
  then show ?thesis using shard_inv_sender [OF assms(2)] by (force simp: sent_upto_def)
next
  case (sent_all c)
  then have "n = shard_end req" using shard_invD(1,3) [OF assms(2)] by (simp add: sent_upto_def)
  then show ?thesis using shard_inv_sender [OF assms(2)] sent_all by (force simp: sent_upto_def)
next
  case (handed c i)
  then show ?thesis using shard_inv_handed [OF assms(2)] by blast
next
  case (attempted i c x e w')
  then show ?thesis using shard_inv_attempted [OF assms(2) _ _ _ assms(3)] by blast
qed

lemma shard_inv_reachable:
  assumes "(shard_step r req)\<^sup>*\<^sup>* (shard_start req w) s"
    and "shard_end req = lease_childStart (rsh_lease req) + lease_childCount (rsh_lease req)"
    "0 \<le> lease_childCount (rsh_lease req)"
  shows "\<exists>outcomes n. shard_inv r req outcomes n s"
  using assms(1)
proof induction
  case base
  show ?case by (intro exI) (rule shard_inv_start [OF assms(2,3)])
next
  case (step s s')
  then show ?case using shard_inv_step [OF step(2) _ assms(2)] by blast
qed

section \<open>Termination\<close>

definition running :: "run_shard_request \<Rightarrow> 'w shard_run \<Rightarrow> nat" where
  "running req s = card {i. i < nat (worker_count req) \<and> sh_workers s i \<noteq> None}"

definition steps_left :: "run_shard_request \<Rightarrow> 'w shard_run \<Rightarrow> nat" where
  "steps_left req s = running req s +
     (case sh_sender s of Turning c \<Rightarrow> 3 * nat (shard_end req - c) + 1
      | Sending c \<Rightarrow> 3 * nat (shard_end req - c) | Closed _ \<Rightarrow> 0)"

lemma running_add:
  assumes "i < nat (worker_count req)" "sh_workers s i = None" "sh_workers s' = (sh_workers s)(i \<mapsto> c)"
  shows "running req s' = Suc (running req s)"
proof -
  let ?n = "nat (worker_count req)"
  have "{j. j < ?n \<and> sh_workers s' j \<noteq> None} = insert i {j. j < ?n \<and> sh_workers s j \<noteq> None}"
    using assms by (auto split: if_splits)
  then show ?thesis using assms(2) by (simp add: running_def)
qed

lemma running_sub:
  assumes "i < nat (worker_count req)" "sh_workers s i = Some c" "sh_workers s' = (sh_workers s)(i := None)"
  shows "Suc (running req s') = running req s"
proof -
  let ?n = "nat (worker_count req)"
  have "{j. j < ?n \<and> sh_workers s j \<noteq> None} = insert i {j. j < ?n \<and> sh_workers s' j \<noteq> None}"
    using assms by (auto split: if_splits)
  then show ?thesis using assms(3) by (simp add: running_def)
qed

lemma shard_step_decreases:
  assumes "shard_step r req s s'" "\<exists>outcomes n. shard_inv r req outcomes n s"
  shows "steps_left req s' < steps_left req s"
proof -
  obtain outcomes n where inv: "shard_inv r req outcomes n s" using assms(2) by blast
  show ?thesis
    using assms(1)
  proof cases
    case (handed c i)
    then have "c < shard_end req" using shard_invD(1) [OF inv] by (simp add: sent_upto_def)
    moreover have "running req s' = Suc (running req s)" by (rule running_add) (use handed in simp_all)
    ultimately show ?thesis using handed by (simp add: steps_left_def)
  next
    case (attempted i c x e w')
    then have "Suc (running req s') = running req s" by (intro running_sub) simp_all
    then show ?thesis using attempted by (simp add: steps_left_def)
  qed (auto simp: steps_left_def running_def)
qed

lemma shard_progress:
  assumes "\<exists>outcomes n. shard_inv r req outcomes n s" "1 \<le> worker_count req" "shard_returned req s = None"
  shows "\<exists>s'. shard_step r req s s'"
proof (cases "\<exists>i < nat (worker_count req). sh_workers s i \<noteq> None")
  case True
  then obtain i c where "i < nat (worker_count req)" "sh_workers s i = Some c" by auto
  then show ?thesis using shard_step.attempted [of i req s c r] by (metis surj_pair)
next
  case False
  have z: "0 < nat (worker_count req)" using assms(2) by simp
  then have idle: "sh_workers s 0 = None" using False by blast
  show ?thesis
  proof (cases "sh_sender s")
    case (Turning c)
    then show ?thesis using shard_step.turn [OF Turning] shard_step.cancelled [OF Turning] shard_step.sent_all [OF Turning]
      by (cases "rn_ctx_err r (sh_world s)") (meson not_le)+
  next
    case (Sending c)
    then show ?thesis using shard_step.handed [OF Sending z idle] by blast
  next
    case (Closed ce)
    then show ?thesis using False assms(3) by (auto simp: shard_returned_def)
  qed
qed

section \<open>Properties\<close>

lemma shard_steps_bound:
  assumes "(shard_step r req ^^ k) (shard_start req w) s"
    and "shard_end req = lease_childStart (rsh_lease req) + lease_childCount (rsh_lease req)"
    "0 \<le> lease_childCount (rsh_lease req)"
  shows "k + steps_left req s \<le> 3 * nat (lease_childCount (rsh_lease req)) + 1"
  using assms(1)
proof (induction k arbitrary: s)
  case 0
  then show ?case using assms(2) by (auto simp: steps_left_def shard_start_def running_def)
next
  case (Suc k)
  then obtain t where t: "(shard_step r req ^^ k) (shard_start req w) t" "shard_step r req t s" by auto
  have "steps_left req s < steps_left req t"
    using shard_step_decreases [OF t(2) shard_inv_reachable [OF relpowp_imp_rtranclp [OF t(1)] assms(2,3)]] .
  then show ?case using Suc.IH [OF t(1)] by linarith
qed

lemma running_bound: "running req s \<le> nat (worker_count req)"
proof -
  have "running req s \<le> card {..<nat (worker_count req)}" unfolding running_def by (rule card_mono) auto
  then show ?thesis by simp
qed

lemma valid_shard:
  assumes "lease_validate (rsh_lease req) (rsh_run req) = None"
    "in64 (lease_childStart (rsh_lease req) + lease_childCount (rsh_lease req))"
  shows "shard_end req = lease_childStart (rsh_lease req) + lease_childCount (rsh_lease req)"
    "1 \<le> lease_childCount (rsh_lease req)" "1 \<le> worker_count req" "worker_count req \<le> lease_childCount (rsh_lease req)"
  using assms by (auto simp: lease_validate_None bundle_run_validate_None shard_end_def range_end_def lease_range_def
      worker_count_def shard_slot_demand_def required_in_flight_slots_def)



text \<open>An agent whose attempts end at once: no client is configured.\<close>

definition bare_runner :: "unit runner" where
  "bare_runner = \<lparr>rn_client = None, rn_results = None, rn_workRoot = [], rn_backend = [],
     rn_now = (\<lambda>w. (1, w)), rn_metrics = None, rn_childTimeout = 0, rn_cacheGC = False,
     rn_os = calm_os, rn_ctx_err = (\<lambda>_. Some (Sentinel ContextCanceled)),
     rn_timer = (\<lambda>_ _ w. (None, w)), rn_unmarshal_strings = (\<lambda>_. Inr [])\<rparr>"

definition sample_shard :: run_shard_request where
  "sample_shard = \<lparr>rsh_run = sample_bundle_run, rsh_lease = plan_lease_for sample_bundle_run sample_agent,
     rsh_attempt = 1, rsh_pressure = as_pressure sample_agent, rsh_region = [], rsh_allowMetadataOnlyRootFS = False,
     rsh_backend = [], rsh_localChildrenDir = []\<rparr>"

lemma sample_shard_valid:
  "lease_validate (rsh_lease sample_shard) (rsh_run sample_shard) = None"
  "lease_childStart (rsh_lease sample_shard) = 0" "lease_childCount (rsh_lease sample_shard) = 2"
  using sample_lease_valid by (simp_all add: sample_shard_def plan_lease_for_def sample_bundle_run_def)

text \<open>The caller's context is cancelled before the first child is sent.\<close>

lemma sample_shard_step: "shard_step bare_runner sample_shard (shard_start sample_shard ())
    ((shard_start sample_shard ())\<lparr>sh_sender := Closed (Some (Sentinel ContextCanceled))\<rparr>)"
  using valid_shard(1) [of sample_shard] sample_shard_valid
  by (intro shard_step.cancelled [where c = 0]) (simp_all add: shard_start_def bare_runner_def in64_def)

lemma sample_shard_returned: "shard_returned sample_shard
    ((shard_start sample_shard ())\<lparr>sh_sender := Closed (Some (Sentinel ContextCanceled))\<rparr>) =
    Some ([zero_result, zero_result], Some (Join [Sentinel ContextCanceled]))"
  by (simp add: shard_returned_def shard_start_def sample_shard_valid eval_nat_numeral)



text \<open>\<open>RunChild\<close> gives back the one slot it takes on every path, and when it is not admitted
  it calls nothing outside.\<close>

lemma run_child_slot:
  assumes "pool_ok p" "runner_run_child r req p w = (res, p', w')"
  shows "pool_held p' = pool_held p \<and> pool_ok p' \<and> pool_total p' = pool_total p \<and>
    (validate_run_child_request r req \<noteq> None \<or> pool_free p < 1 \<or>
       pressure_validate (rch_pressure req) ''pressure'' \<noteq> None \<or> pressure_is_critical (rch_pressure req) \<longrightarrow>
       w' = w \<and> snd res \<noteq> None)"
proof (cases "validate_run_child_request r req")
  case (Some e)
  then show ?thesis using assms by (auto simp: runner_run_child_def)
next
  case None
  let ?adm = "admit_slots 1 (rch_pressure req) p"
  have a: "admit_shard ((rch_lease req)\<lparr>lease_childStart := rch_childID req, lease_childCount := 1\<rparr>) (rch_pressure req) p = ?adm"
    by (simp add: admit_shard_def)
  obtain v p1 where adm: "?adm = (v, p1)" by fastforce
  show ?thesis
  proof (cases v)
    case (Inl e)
    then have "p1 = p" using admit_slots_Inl adm by blast
    then show ?thesis using assms None Inl adm a by (auto simp: runner_run_child_def)
  next
    case (Inr h)
    then have t: "try_acquire 1 p = (Some h, p1)" using admit_slots_Inr adm by blast
    note acq = limiter.acquired [OF assms(1) t]
    have ok: "pressure_validate (rch_pressure req) ''pressure'' = None" "\<not> pressure_is_critical (rch_pressure req)"
      using adm Inr by (auto simp: admit_slots_def split: option.splits if_splits)
    have "p' = call_release h p1" using assms(2) None Inr adm a by (auto simp: runner_run_child_def split: prod.splits)
    then show ?thesis using acq limiter.released [of p1 h] ok None by (simp add: fun_upd_idem)
  qed
qed

lemma run_child_slot_witness:
  "snd (snd (runner_run_child bare_runner (shard_child_request sample_shard 0) (fresh_pool 2) ())) = () \<and>
   pool_held (fst (snd (runner_run_child bare_runner (shard_child_request sample_shard 0) (fresh_pool 2) ()))) = Map.empty"
  using run_child_slot [of "fresh_pool 2" bare_runner "shard_child_request sample_shard 0" "()"
      "fst (runner_run_child bare_runner (shard_child_request sample_shard 0) (fresh_pool 2) ())"
      "fst (snd (runner_run_child bare_runner (shard_child_request sample_shard 0) (fresh_pool 2) ()))" "()"]
    fresh_pool_ok [of 2] by (simp add: prod_eq_iff)

end
