(* ===== verification/PrepareGate.thy ===== *)
theory PrepareGate
  imports AgentTypes
begin

text \<open>
  \<open>lockPrepareOperation\<close> of \<open>internal/agent/runtime.go\<close>: the operations on one prepared run
  exclude each other. A gate is a one-token channel with a count of the calls that hold a
  reference; the map from runs to gates is guarded by \<open>prepareOpsMu\<close>, so each critical section
  is one step, and calls interleave between their steps. Gates are numbered as they are made.
\<close>

section \<open>The gates\<close>

record prepare_gates =
  pg_ops :: "string \<rightharpoonup> nat"
  pg_token :: "nat \<Rightarrow> bool"
  pg_refs :: "nat \<Rightarrow> int"
  pg_next :: nat

definition no_gates :: prepare_gates where
  "no_gates = \<lparr>pg_ops = Map.empty, pg_token = (\<lambda>_. False), pg_refs = (\<lambda>_. 0), pg_next = 0\<rparr>"

text \<open>The first critical section of \<open>lockPrepareOperation\<close>.\<close>

definition find_gate :: "string \<Rightarrow> prepare_gates \<Rightarrow> nat \<times> prepare_gates" where
  "find_gate runID g =
     (case pg_ops g runID of
        Some gate \<Rightarrow> (gate, g)
      | None \<Rightarrow> (pg_next g, g\<lparr>pg_ops := (pg_ops g)(runID \<mapsto> pg_next g), pg_token := (pg_token g)(pg_next g := True),
          pg_refs := (pg_refs g)(pg_next g := 0), pg_next := pg_next g + 1\<rparr>))"

definition reference_gate :: "string \<Rightarrow> prepare_gates \<Rightarrow> nat \<times> prepare_gates" where
  "reference_gate runID g =
     (case find_gate runID g of (gate, g1) \<Rightarrow>
        (gate, g1\<lparr>pg_refs := (pg_refs g1)(gate := pg_refs g1 gate + 1)\<rparr>))"

definition release_prepare_operation_ref :: "string \<Rightarrow> nat \<Rightarrow> prepare_gates \<Rightarrow> prepare_gates" where
  "release_prepare_operation_ref runID gate g =
     (let g1 = g\<lparr>pg_refs := (pg_refs g)(gate := pg_refs g gate - 1)\<rparr> in
      if pg_refs g1 gate = 0 \<and> pg_ops g1 runID = Some gate
      then g1\<lparr>pg_ops := (pg_ops g1)(runID := None)\<rparr> else g1)"

section \<open>Interleaved calls\<close>

text \<open>Where a call is: before its first critical section, before the check of its context, in
  the \<open>select\<close>, between lock and unlock, and after the token was put back.\<close>

datatype lock_phase = Arriving | Checking nat | Waiting nat | Inside nat | Leaving nat | Returned

record gate_call =
  gc_run :: string
  gc_phase :: lock_phase

record gate_system =
  gsy_gates :: prepare_gates
  gsy_calls :: "nat \<rightharpoonup> gate_call"

definition move_call :: "nat \<Rightarrow> lock_phase \<Rightarrow> prepare_gates \<Rightarrow> gate_system \<Rightarrow> gate_system" where
  "move_call i p g s = \<lparr>gsy_gates = g, gsy_calls = (gsy_calls s)(i \<mapsto> \<lparr>gc_run = gc_run (the (gsy_calls s i)), gc_phase = p\<rparr>)\<rparr>"

definition put_token :: "nat \<Rightarrow> bool \<Rightarrow> prepare_gates \<Rightarrow> prepare_gates" where
  "put_token gate b g = g\<lparr>pg_token := (pg_token g)(gate := b)\<rparr>"

inductive lock_step :: "gate_system \<Rightarrow> gate_system \<Rightarrow> bool" where
  arrive: "gsy_calls s i = None \<Longrightarrow>
    lock_step s (s\<lparr>gsy_calls := (gsy_calls s)(i \<mapsto> \<lparr>gc_run = runID, gc_phase = Arriving\<rparr>)\<rparr>)"
| reference: "\<lbrakk>gsy_calls s i = Some \<lparr>gc_run = runID, gc_phase = Arriving\<rparr>;
      reference_gate runID (gsy_gates s) = (gate, g)\<rbrakk> \<Longrightarrow> lock_step s (move_call i (Checking gate) g s)"
| refused: "gsy_calls s i = Some \<lparr>gc_run = runID, gc_phase = Checking gate\<rparr> \<Longrightarrow>
    lock_step s (move_call i Returned (release_prepare_operation_ref runID gate (gsy_gates s)) s)"
| checked: "gsy_calls s i = Some \<lparr>gc_run = runID, gc_phase = Checking gate\<rparr> \<Longrightarrow>
    lock_step s (move_call i (Waiting gate) (gsy_gates s) s)"
| cancelled: "gsy_calls s i = Some \<lparr>gc_run = runID, gc_phase = Waiting gate\<rparr> \<Longrightarrow>
    lock_step s (move_call i Returned (release_prepare_operation_ref runID gate (gsy_gates s)) s)"
| granted: "\<lbrakk>gsy_calls s i = Some \<lparr>gc_run = runID, gc_phase = Waiting gate\<rparr>; pg_token (gsy_gates s) gate\<rbrakk>
    \<Longrightarrow> lock_step s (move_call i (Inside gate) (put_token gate False (gsy_gates s)) s)"
| unlocked: "\<lbrakk>gsy_calls s i = Some \<lparr>gc_run = runID, gc_phase = Inside gate\<rparr>; \<not> pg_token (gsy_gates s) gate\<rbrakk>
    \<Longrightarrow> lock_step s (move_call i (Leaving gate) (put_token gate True (gsy_gates s)) s)"
| left: "gsy_calls s i = Some \<lparr>gc_run = runID, gc_phase = Leaving gate\<rparr> \<Longrightarrow>
    lock_step s (move_call i Returned (release_prepare_operation_ref runID gate (gsy_gates s)) s)"

definition start_gates :: gate_system where
  "start_gates = \<lparr>gsy_gates = no_gates, gsy_calls = Map.empty\<rparr>"

section \<open>The invariant\<close>

fun gate_of :: "lock_phase \<Rightarrow> nat option" where
  "gate_of (Checking g) = Some g"
| "gate_of (Waiting g) = Some g"
| "gate_of (Inside g) = Some g"
| "gate_of (Leaving g) = Some g"
| "gate_of _ = None"

definition holders :: "(nat \<rightharpoonup> gate_call) \<Rightarrow> string \<Rightarrow> nat set" where
  "holders calls runID = {i. \<exists>c. calls i = Some c \<and> gc_run c = runID \<and> gate_of (gc_phase c) \<noteq> None}"

definition insiders :: "(nat \<rightharpoonup> gate_call) \<Rightarrow> string \<Rightarrow> nat set" where
  "insiders calls runID = {i. \<exists>gate. calls i = Some \<lparr>gc_run = runID, gc_phase = Inside gate\<rparr>}"

text \<open>What holds for each run: with no gate, no call holds one; with a gate, every call of the
  run that holds a gate holds this one, the count is theirs, at most one is inside, and the
  token is there exactly when none is.\<close>

definition run_ok :: "prepare_gates \<Rightarrow> (nat \<rightharpoonup> gate_call) \<Rightarrow> string \<Rightarrow> bool" where
  "run_ok g calls runID \<longleftrightarrow>
     (case pg_ops g runID of
        None \<Rightarrow> holders calls runID = {}
      | Some gate \<Rightarrow> gate < pg_next g \<and> holders calls runID \<noteq> {} \<and>
          pg_refs g gate = int (card (holders calls runID)) \<and>
          (\<forall>i \<in> holders calls runID. gate_of (gc_phase (the (calls i))) = Some gate) \<and>
          (\<forall>i \<in> insiders calls runID. \<forall>j \<in> insiders calls runID. i = j) \<and>
          (pg_token g gate \<longleftrightarrow> insiders calls runID = {}))"

definition gates_ok :: "prepare_gates \<Rightarrow> (nat \<rightharpoonup> gate_call) \<Rightarrow> bool" where
  "gates_ok g calls \<longleftrightarrow> finite (dom calls) \<and>
     (\<forall>r r' gate. pg_ops g r = Some gate \<and> pg_ops g r' = Some gate \<longrightarrow> r = r') \<and> (\<forall>r. run_ok g calls r)"

lemma finite_holders [simp]: "finite (dom calls) \<Longrightarrow> finite (holders calls r)"
  by (rule finite_subset [of _ "dom calls"]) (auto simp: holders_def)

lemma insiders_holders: "insiders calls r \<subseteq> holders calls r"
  by (auto simp: insiders_def holders_def)

lemma holders_move:
  assumes "calls i = Some \<lparr>gc_run = R, gc_phase = q\<rparr>"
  shows "holders (calls(i \<mapsto> \<lparr>gc_run = R, gc_phase = p\<rparr>)) r =
      (if r \<noteq> R then holders calls r else if gate_of p = None then holders calls r - {i} else insert i (holders calls r))"
    and "insiders (calls(i \<mapsto> \<lparr>gc_run = R, gc_phase = p\<rparr>)) r =
      (if r \<noteq> R then insiders calls r else if \<exists>g. p = Inside g then insert i (insiders calls r) else insiders calls r - {i})"
  using assms by (auto simp: holders_def insiders_def split: if_splits)

lemma holder_gate:
  assumes "gates_ok g calls" "calls i = Some \<lparr>gc_run = R, gc_phase = q\<rparr>" "gate_of q = Some gate"
  shows "pg_ops g R = Some gate" "i \<in> holders calls R"
proof -
  show i: "i \<in> holders calls R" using assms(2,3) by (auto simp: holders_def)
  have ok: "run_ok g calls R" using assms(1) by (simp add: gates_ok_def)
  then obtain gate' where "pg_ops g R = Some gate'"
    using i by (auto simp: run_ok_def split: option.splits)
  then show "pg_ops g R = Some gate" using ok i assms(2,3) by (auto simp: run_ok_def)
qed

lemma gates_okI:
  assumes "gates_ok g calls" "calls i = Some \<lparr>gc_run = R, gc_phase = q\<rparr>"
    and "\<And>r r' gate. pg_ops g' r = Some gate \<Longrightarrow> pg_ops g' r' = Some gate \<Longrightarrow> r = r'"
    and "run_ok g' (calls(i \<mapsto> \<lparr>gc_run = R, gc_phase = p\<rparr>)) R"
    and "\<And>r gate. r \<noteq> R \<Longrightarrow> pg_ops g' r = pg_ops g r"
    and "\<And>r gate. r \<noteq> R \<Longrightarrow> pg_ops g r = Some gate \<Longrightarrow> gate < pg_next g \<Longrightarrow>
      gate < pg_next g' \<and> pg_refs g' gate = pg_refs g gate \<and> pg_token g' gate = pg_token g gate"
  shows "gates_ok g' (calls(i \<mapsto> \<lparr>gc_run = R, gc_phase = p\<rparr>))"
proof -
  let ?calls = "calls(i \<mapsto> \<lparr>gc_run = R, gc_phase = p\<rparr>)"
  have "run_ok g' ?calls r" for r
  proof (cases "r = R")
    case False
    have ok: "run_ok g calls r" using assms(1) by (simp add: gates_ok_def)
    have same: "holders ?calls r = holders calls r" "insiders ?calls r = insiders calls r"
      using holders_move [of calls i R, OF assms(2)] False by simp_all
    have "i \<notin> holders calls r" using assms(2) False by (auto simp: holders_def)
    then have "j \<in> holders calls r \<Longrightarrow> ?calls j = calls j" for j by auto
    then show ?thesis using ok same assms(5,6) [OF False] by (auto simp: run_ok_def split: option.splits)
  qed (use assms(4) in simp)
  then show ?thesis using assms(1,3) by (auto simp: gates_ok_def)
qed

lemma reference_ok:
  assumes "gates_ok g calls" "calls i = Some \<lparr>gc_run = R, gc_phase = Arriving\<rparr>" "reference_gate R g = (gate, g')"
  shows "gates_ok g' (calls(i \<mapsto> \<lparr>gc_run = R, gc_phase = Checking gate\<rparr>))"
proof (rule gates_okI [OF assms(1,2)])
  have R: "run_ok g calls R" and fin: "finite (holders calls R)" and new: "i \<notin> holders calls R"
    and inj: "\<And>r r' x. pg_ops g r = Some x \<Longrightarrow> pg_ops g r' = Some x \<Longrightarrow> r = r'"
    using assms(1,2) finite_holders by (auto simp: gates_ok_def) (auto simp: holders_def)
  have below: "pg_ops g r = Some x \<Longrightarrow> x < pg_next g" for r x
    using assms(1) unfolding gates_ok_def run_ok_def by (metis (no_types, lifting) option.simps(5))
  note def = assms(3) [unfolded reference_gate_def find_gate_def]
  show "run_ok g' (calls(i \<mapsto> \<lparr>gc_run = R, gc_phase = Checking gate\<rparr>)) R"
  proof (cases "pg_ops g R")
    case None
    then have "holders calls R = {}" using R by (simp add: run_ok_def)
    then show ?thesis using def None insiders_holders [of calls R]
      by (auto simp: run_ok_def holders_move [of calls i R, OF assms(2)])
  next
    case (Some x)
    have g': "gate = x" "g' = g\<lparr>pg_refs := (pg_refs g)(x := pg_refs g x + 1)\<rparr>"
      using def Some by (auto elim: sym)
    have H: "holders (calls(i \<mapsto> \<lparr>gc_run = R, gc_phase = Checking gate\<rparr>)) R = insert i (holders calls R)"
      "insiders (calls(i \<mapsto> \<lparr>gc_run = R, gc_phase = Checking gate\<rparr>)) R = insiders calls R"
      using assms(2) by (auto simp: holders_move [of calls i R, OF assms(2)] insiders_def)
    have c: "card (insert i (holders calls R)) = Suc (card (holders calls R))" using fin new by simp
    from R Some show ?thesis unfolding run_ok_def H c by (simp add: g')
  qed
  show "r = r'" if "pg_ops g' r = Some x" "pg_ops g' r' = Some x" for r r' x
    using that def inj [of r x r'] below [of r "pg_next g"] below [of r' "pg_next g"]
    by (auto split: option.splits if_splits)
  show "pg_ops g' r = pg_ops g r" if "r \<noteq> R" for r using that def by (auto split: option.splits)
  show "x < pg_next g' \<and> pg_refs g' x = pg_refs g x \<and> pg_token g' x = pg_token g x"
    if "r \<noteq> R" "pg_ops g r = Some x" "x < pg_next g" for r x
    using that def inj [of r x R] by (auto split: option.splits)
qed

lemma release_ref_ok:
  assumes "gates_ok g calls" "calls i = Some \<lparr>gc_run = R, gc_phase = q\<rparr>" "gate_of q = Some gate" "q \<noteq> Inside gate"
  shows "gates_ok (release_prepare_operation_ref R gate g) (calls(i \<mapsto> \<lparr>gc_run = R, gc_phase = Returned\<rparr>))"
proof (rule gates_okI [OF assms(1,2)])
  note gate = holder_gate [OF assms(1-3)]
  let ?H = "holders calls R"
  have ok: "run_ok g calls R" and fin: "finite ?H"
    and inj: "\<And>r r' x. pg_ops g r = Some x \<Longrightarrow> pg_ops g r' = Some x \<Longrightarrow> r = r'"
    using assms(1) by (auto simp: gates_ok_def)
  have ins: "insiders calls R - {i} = insiders calls R" using assms(2-4) by (auto simp: insiders_def)
  have refs: "pg_refs g gate = int (card ?H)" using ok gate(1) by (simp add: run_ok_def)
  have c: "int (card (?H - {i})) = int (card ?H) - 1" using card.remove [OF fin gate(2)] by simp
  note def = release_prepare_operation_ref_def Let_def
  show "run_ok (release_prepare_operation_ref R gate g) (calls(i \<mapsto> \<lparr>gc_run = R, gc_phase = Returned\<rparr>)) R"
  proof (cases "?H = {i}")
    case True
    then show ?thesis using refs gate(1) by (simp add: run_ok_def def holders_move [of calls i R, OF assms(2)])
  next
    case False
    then have ne: "?H - {i} \<noteq> {}" using gate(2) by auto
    then have "card ?H \<noteq> 1" using c fin by (metis card_0_eq finite_Diff int_ops(2) of_nat_eq_0_iff diff_self)
    then have "pg_refs g gate - 1 \<noteq> 0" using refs by simp
    then show ?thesis using ok gate(1) ne c refs ins
      by (auto simp: run_ok_def def holders_move [of calls i R, OF assms(2)])
  qed
  show "r = r'" if "pg_ops (release_prepare_operation_ref R gate g) r = Some x"
    "pg_ops (release_prepare_operation_ref R gate g) r' = Some x" for r r' x
    using that inj [of r x r'] by (auto simp: def split: if_splits)
  show "pg_ops (release_prepare_operation_ref R gate g) r = pg_ops g r" if "r \<noteq> R" for r
    using that by (simp add: def)
  show "x < pg_next (release_prepare_operation_ref R gate g) \<and>
      pg_refs (release_prepare_operation_ref R gate g) x = pg_refs g x \<and>
      pg_token (release_prepare_operation_ref R gate g) x = pg_token g x"
    if "r \<noteq> R" "pg_ops g r = Some x" "x < pg_next g" for r x
    using that inj [of r x R] gate(1) by (auto simp: def)
qed

lemma checked_ok:
  assumes "gates_ok g calls" "calls i = Some \<lparr>gc_run = R, gc_phase = Checking gate\<rparr>"
  shows "gates_ok g (calls(i \<mapsto> \<lparr>gc_run = R, gc_phase = Waiting gate\<rparr>))"
proof (rule gates_okI [OF assms])
  note gate = holder_gate [OF assms gate_of.simps(1)]
  have ok: "run_ok g calls R" using assms(1) by (simp add: gates_ok_def)
  have "insiders calls R - {i} = insiders calls R" "insert i (holders calls R) = holders calls R"
    using assms(2) gate by (auto simp: insiders_def)
  then show "run_ok g (calls(i \<mapsto> \<lparr>gc_run = R, gc_phase = Waiting gate\<rparr>)) R"
    using ok gate by (auto simp: run_ok_def holders_move [of calls i R, OF assms(2)])
qed (use assms(1) in \<open>auto simp: gates_ok_def\<close>)

lemma token_ok:
  assumes "gates_ok g calls" "calls i = Some \<lparr>gc_run = R, gc_phase = q\<rparr>"
    and "q = Waiting gate \<and> p = Inside gate \<and> pg_token g gate \<and> \<not> b \<or>
      q = Inside gate \<and> p = Leaving gate \<and> b"
  shows "gates_ok (put_token gate b g) (calls(i \<mapsto> \<lparr>gc_run = R, gc_phase = p\<rparr>))"
proof (rule gates_okI [OF assms(1,2)])
  have q: "gate_of q = Some gate" "gate_of p = Some gate" using assms(3) by auto
  note gate = holder_gate [OF assms(1,2) q(1)]
  have ok: "run_ok g calls R" and inj: "\<And>r r' x. pg_ops g r = Some x \<Longrightarrow> pg_ops g r' = Some x \<Longrightarrow> r = r'"
    using assms(1) by (auto simp: gates_ok_def)
  have H: "insert i (holders calls R) = holders calls R" using gate(2) by auto
  have one: "\<And>j k. j \<in> insiders calls R \<Longrightarrow> k \<in> insiders calls R \<Longrightarrow> j = k"
    and tok: "pg_token g gate \<longleftrightarrow> insiders calls R = {}"
    using ok gate(1) by (auto simp: run_ok_def)
  from assms(3) show "run_ok (put_token gate b g) (calls(i \<mapsto> \<lparr>gc_run = R, gc_phase = p\<rparr>)) R"
  proof
    assume a: "q = Waiting gate \<and> p = Inside gate \<and> pg_token g gate \<and> \<not> b"
    then show ?thesis using ok gate(1) H q tok
      by (auto simp: run_ok_def put_token_def holders_move [of calls i R, OF assms(2)])
  next
    assume a: "q = Inside gate \<and> p = Leaving gate \<and> b"
    then have "i \<in> insiders calls R" using assms(2) by (auto simp: insiders_def)
    then have "insiders calls R - {i} = {}" using one by blast
    then show ?thesis using a ok gate(1) H q
      by (auto simp: run_ok_def put_token_def holders_move [of calls i R, OF assms(2)])
  qed
  show "x < pg_next (put_token gate b g) \<and> pg_refs (put_token gate b g) x = pg_refs g x \<and>
      pg_token (put_token gate b g) x = pg_token g x"
    if "r \<noteq> R" "pg_ops g r = Some x" "x < pg_next g" for r x
    using that inj [of r x R] gate(1) by (auto simp: put_token_def)
  show "r = r'" if "pg_ops (put_token gate b g) r = Some x" "pg_ops (put_token gate b g) r' = Some x" for r r' x
    using that inj [of r x r'] by (simp add: put_token_def)
qed (simp_all add: put_token_def)

lemma arrive_ok:
  assumes "gates_ok g calls" "calls i = None"
  shows "gates_ok g (calls(i \<mapsto> \<lparr>gc_run = R, gc_phase = Arriving\<rparr>))"
proof -
  have h: "holders (calls(i \<mapsto> \<lparr>gc_run = R, gc_phase = Arriving\<rparr>)) r = holders calls r"
    "insiders (calls(i \<mapsto> \<lparr>gc_run = R, gc_phase = Arriving\<rparr>)) r = insiders calls r" for r
    using assms(2) by (auto simp: holders_def insiders_def split: if_splits)
  have "i \<notin> holders calls r" for r using assms(2) by (auto simp: holders_def)
  then have "j \<in> holders calls r \<Longrightarrow> j \<noteq> i" for j r by auto
  then have "run_ok g calls r \<Longrightarrow> run_ok g (calls(i \<mapsto> \<lparr>gc_run = R, gc_phase = Arriving\<rparr>)) r" for r
    unfolding run_ok_def h by (cases "pg_ops g r") auto
  then show ?thesis using assms(1) by (simp add: gates_ok_def)
qed

lemma lock_step_ok:
  assumes "lock_step s s'" "gates_ok (gsy_gates s) (gsy_calls s)"
  shows "gates_ok (gsy_gates s') (gsy_calls s')"
  using assms
  by (cases rule: lock_step.cases)
    (auto simp: move_call_def intro: arrive_ok reference_ok release_ref_ok checked_ok token_ok)

lemma gates_reachable_ok: "lock_step\<^sup>*\<^sup>* start_gates s \<Longrightarrow> gates_ok (gsy_gates s) (gsy_calls s)"
proof (induction rule: rtranclp_induct)
  case base
  then show ?case
    by (auto simp: start_gates_def no_gates_def gates_ok_def run_ok_def holders_def)
qed (rule lock_step_ok)

text \<open>C25: however the calls interleave, two operations are never inside the lock of one run; an
  unlock finds the channel empty, so it never blocks; when no operation of the run is inside,
  a waiting one can go on; and when no call holds a reference any more, no gate is left.\<close>

theorem prepare_exclusive:
  assumes "lock_step\<^sup>*\<^sup>* start_gates s"
  shows "(gsy_calls s i = Some \<lparr>gc_run = R, gc_phase = Inside g1\<rparr> \<and>
      gsy_calls s j = Some \<lparr>gc_run = R, gc_phase = Inside g2\<rparr> \<longrightarrow> i = j \<and> g1 = g2) \<and>
    (gsy_calls s i = Some \<lparr>gc_run = R, gc_phase = Inside g1\<rparr> \<longrightarrow> \<not> pg_token (gsy_gates s) g1) \<and>
    (gsy_calls s i = Some \<lparr>gc_run = R, gc_phase = Waiting g1\<rparr> \<longrightarrow>
      insiders (gsy_calls s) R = {} \<longrightarrow> pg_token (gsy_gates s) g1) \<and>
    (holders (gsy_calls s) R = {} \<longrightarrow> pg_ops (gsy_gates s) R = None)"
proof -
  note ok = gates_reachable_ok [OF assms]
  have R: "run_ok (gsy_gates s) (gsy_calls s) R" using ok by (simp add: gates_ok_def)
  have gate: "gsy_calls s k = Some \<lparr>gc_run = R, gc_phase = q\<rparr> \<Longrightarrow> gate_of q = Some x \<Longrightarrow>
      pg_ops (gsy_gates s) R = Some x" for k q x
    using holder_gate(1) [OF ok] by blast
  have ins: "gsy_calls s k = Some \<lparr>gc_run = R, gc_phase = Inside x\<rparr> \<Longrightarrow> k \<in> insiders (gsy_calls s) R" for k x
    by (auto simp: insiders_def)
  show ?thesis
  proof (intro conjI impI)
    assume a: "gsy_calls s i = Some \<lparr>gc_run = R, gc_phase = Inside g1\<rparr> \<and>
      gsy_calls s j = Some \<lparr>gc_run = R, gc_phase = Inside g2\<rparr>"
    then have g: "pg_ops (gsy_gates s) R = Some g1" "pg_ops (gsy_gates s) R = Some g2"
      using gate [of i "Inside g1" g1] gate [of j "Inside g2" g2] by simp_all
    then show "g1 = g2" by simp
    show "i = j" using R g ins a by (auto simp: run_ok_def)
  next
    assume a: "gsy_calls s i = Some \<lparr>gc_run = R, gc_phase = Inside g1\<rparr>"
    then show "\<not> pg_token (gsy_gates s) g1" using gate [OF a] R ins [OF a] by (auto simp: run_ok_def)
  next
    assume a: "gsy_calls s i = Some \<lparr>gc_run = R, gc_phase = Waiting g1\<rparr>" "insiders (gsy_calls s) R = {}"
    then show "pg_token (gsy_gates s) g1" using gate [OF a(1)] R by (auto simp: run_ok_def)
  next
    assume "holders (gsy_calls s) R = {}"
    then show "pg_ops (gsy_gates s) R = None" using R by (auto simp: run_ok_def split: option.splits)
  qed
qed

text \<open>Two operations on one run: the second waits while the first is inside.\<close>

definition sample_gates :: gate_system where
  "sample_gates = \<lparr>gsy_gates = \<lparr>pg_ops = [''run-1'' \<mapsto> 0], pg_token = (\<lambda>_. False), pg_refs = (\<lambda>_. 0)(0 := 2), pg_next = 1\<rparr>,
     gsy_calls = [0 \<mapsto> \<lparr>gc_run = ''run-1'', gc_phase = Inside 0\<rparr>, 1 \<mapsto> \<lparr>gc_run = ''run-1'', gc_phase = Waiting 0\<rparr>]\<rparr>"

lemma sample_gates_reachable: "lock_step\<^sup>*\<^sup>* start_gates sample_gates"
proof -
  let ?c = "\<lambda>p. \<lparr>gc_run = ''run-1'', gc_phase = p\<rparr>"
  let ?g = "\<lambda>t n. \<lparr>pg_ops = [''run-1'' \<mapsto> 0], pg_token = (\<lambda>_. False)(0 := t), pg_refs = (\<lambda>_. 0)(0 := n), pg_next = 1\<rparr>"
  let ?s = "\<lambda>g cs. \<lparr>gsy_gates = g, gsy_calls = cs\<rparr>"
  have r: "reference_gate ''run-1'' no_gates = (0, ?g True 1)" "reference_gate ''run-1'' (?g False 1) = (0, ?g False 2)"
    by (simp_all add: reference_gate_def find_gate_def no_gates_def)
  have "lock_step start_gates (?s no_gates [0 \<mapsto> ?c Arriving])"
    using lock_step.arrive [of start_gates 0 "''run-1''"] by (simp add: start_gates_def)
  moreover have "lock_step (?s no_gates [0 \<mapsto> ?c Arriving]) (?s (?g True 1) [0 \<mapsto> ?c (Checking 0)])"
    using lock_step.reference [of "?s no_gates [0 \<mapsto> ?c Arriving]" 0 "''run-1''"] r by (simp add: move_call_def)
  moreover have "lock_step (?s (?g True 1) [0 \<mapsto> ?c (Checking 0)]) (?s (?g True 1) [0 \<mapsto> ?c (Waiting 0)])"
    using lock_step.checked [of "?s (?g True 1) [0 \<mapsto> ?c (Checking 0)]" 0 "''run-1''"] by (simp add: move_call_def)
  moreover have "lock_step (?s (?g True 1) [0 \<mapsto> ?c (Waiting 0)]) (?s (?g False 1) [0 \<mapsto> ?c (Inside 0)])"
    using lock_step.granted [of "?s (?g True 1) [0 \<mapsto> ?c (Waiting 0)]" 0 "''run-1''"]
    by (simp add: move_call_def put_token_def)
  moreover have "lock_step (?s (?g False 1) [0 \<mapsto> ?c (Inside 0)]) (?s (?g False 1) [0 \<mapsto> ?c (Inside 0), 1 \<mapsto> ?c Arriving])"
    using lock_step.arrive [of "?s (?g False 1) [0 \<mapsto> ?c (Inside 0)]" 1 "''run-1''"] by simp
  moreover have "lock_step (?s (?g False 1) [0 \<mapsto> ?c (Inside 0), 1 \<mapsto> ?c Arriving])
      (?s (?g False 2) [0 \<mapsto> ?c (Inside 0), 1 \<mapsto> ?c (Checking 0)])"
    using lock_step.reference [of "?s (?g False 1) [0 \<mapsto> ?c (Inside 0), 1 \<mapsto> ?c Arriving]" 1 "''run-1''"] r
    by (simp add: move_call_def)
  moreover have "lock_step (?s (?g False 2) [0 \<mapsto> ?c (Inside 0), 1 \<mapsto> ?c (Checking 0)])
      (?s (?g False 2) [0 \<mapsto> ?c (Inside 0), 1 \<mapsto> ?c (Waiting 0)])"
    using lock_step.checked [of "?s (?g False 2) [0 \<mapsto> ?c (Inside 0), 1 \<mapsto> ?c (Checking 0)]" 1 "''run-1''"]
    by (simp add: move_call_def)
  ultimately have "lock_step\<^sup>*\<^sup>* start_gates (?s (?g False 2) [0 \<mapsto> ?c (Inside 0), 1 \<mapsto> ?c (Waiting 0)])"
    by (meson rtranclp.rtrancl_into_rtrancl rtranclp.rtrancl_refl)
  moreover have "?s (?g False 2) [0 \<mapsto> ?c (Inside 0), 1 \<mapsto> ?c (Waiting 0)] = sample_gates"
    by (simp add: sample_gates_def fun_eq_iff)
  ultimately show ?thesis by simp
qed

theorem prepare_exclusive_witness: "\<not> pg_token (gsy_gates sample_gates) 0"
  using prepare_exclusive [OF sample_gates_reachable, of 0 "''run-1''" 0 1 0] by (simp add: sample_gates_def)

end
