(* ===== verification/Ledger.thy ===== *)
theory Ledger
  imports ChildOutcome
begin

text \<open>
  The files of a prepared run (\<open>internal/agent/runtime.go\<close>): which entries its directory may hold,
  and the cleanup ledger, the list of the saved spores that are still to be removed through
  SporeVM. The ledger is written before the first removal and after each one, so that an
  agent that stops in between finds what is left.
\<close>

section \<open>Entries\<close>

definition prepared_cleanup_ledger_name :: string where
  "prepared_cleanup_ledger_name = ''.cleanup-pending.json''"

definition prepared_cleanup_ledger_temp_name :: string where
  "prepared_cleanup_ledger_temp_name = prepared_cleanup_ledger_name @ ''.tmp''"

definition is_prepared_child_dir :: "string \<Rightarrow> bool" where
  "is_prepared_child_dir name =
     (case atoi name of None \<Rightarrow> False | Some childID \<Rightarrow> childID \<ge> 0 \<and> name = pad0 6 childID)"

text \<open>\<open>validateCleanupLedgerPaths\<close>: \<open>rest\<close> is what follows the entry, empty at the last index.\<close>

fun validate_ledger_from :: "int \<Rightarrow> string list \<Rightarrow> gerr option" where
  "validate_ledger_from previousChild [] = None"
| "validate_ledger_from previousChild (rel # rest) =
     (if rel = ''parent.spore'' then
        (if rest \<noteq> [] then Some (Opaque ''prepared cleanup ledger parent must be last'')
         else validate_ledger_from previousChild rest)
      else
        let name = trim_prefix rel ''children/'' in
        if \<not> has_prefix rel ''children/'' \<or> \<not> is_prepared_child_dir name
        then Some (Opaque (''unsafe prepared cleanup ledger path '' @ go_quote rel))
        else
          let childID = (case atoi name of None \<Rightarrow> 0 | Some i \<Rightarrow> i) in
          if childID \<le> previousChild
          then Some (Opaque ''prepared cleanup ledger children must be strictly ordered'')
          else validate_ledger_from childID rest)"

definition validate_cleanup_ledger_paths :: "string list \<Rightarrow> gerr option" where
  "validate_cleanup_ledger_paths pending = validate_ledger_from (-1) pending"

text \<open>\<open>validatePreparedTree\<close>, the two loops over directory entries.\<close>

definition is_ledger_file :: "string \<Rightarrow> bool" where
  "is_ledger_file name \<longleftrightarrow> name = prepared_cleanup_ledger_name \<or> name = prepared_cleanup_ledger_temp_name"

fun validate_root_entries :: "(string \<times> file_kind) list \<Rightarrow> gerr option" where
  "validate_root_entries [] = None"
| "validate_root_entries ((name, kind) # rest) =
     (if name \<noteq> ''children'' \<and> name \<noteq> ''parent.spore'' \<and> name \<noteq> ''bundle'' \<and> \<not> is_ledger_file name
      then Some (Opaque (''unexpected prepared entry '' @ name))
      else if kind = SymlinkFile \<or> (kind \<noteq> DirFile \<and> \<not> is_ledger_file name) \<or> (kind = DirFile \<and> is_ledger_file name)
      then Some (Opaque (''unsafe prepared entry '' @ name))
      else validate_root_entries rest)"

fun validate_child_entries :: "(string \<times> file_kind) list \<Rightarrow> gerr option" where
  "validate_child_entries [] = None"
| "validate_child_entries ((name, kind) # rest) =
     (if kind = SymlinkFile \<or> kind \<noteq> DirFile \<or> (\<not> is_prepared_child_dir name \<and> name \<noteq> ''shared-chunks'')
      then Some (Opaque (''unsafe prepared child entry '' @ name))
      else validate_child_entries rest)"

definition validate_prepared_tree :: "'w os_calls \<Rightarrow> string \<Rightarrow> 'w \<Rightarrow> gerr option" where
  "validate_prepared_tree os root_dir w =
     (case os_lstat os root_dir w of
        Inl e \<Rightarrow> Some e
      | Inr kind \<Rightarrow>
          if kind \<noteq> DirFile then Some (Opaque (''prepared root is not a directory: '' @ root_dir))
          else (case os_read_dir os root_dir w of
              Inl e \<Rightarrow> Some e
            | Inr entries \<Rightarrow>
                (case validate_root_entries entries of
                   Some e \<Rightarrow> Some e
                 | None \<Rightarrow>
                     (case os_read_dir os (path_join [root_dir, ''children'']) w of
                        Inl e \<Rightarrow> if errors_is OsErrNotExist e then None else Some e
                      | Inr childEntries \<Rightarrow> validate_child_entries childEntries))))"

text \<open>\<open>validateNoSymlinkPath\<close>: the components of the relative path from \<open>base\<close> on.\<close>

fun no_symlink_loop :: "'w os_calls \<Rightarrow> string \<Rightarrow> string list \<Rightarrow> 'w \<Rightarrow> gerr option" where
  "no_symlink_loop os current [] w = None"
| "no_symlink_loop os current (part # parts) w =
     (let next_path = path_join [current, part] in
      case os_lstat os next_path w of
        Inl e \<Rightarrow> if errors_is OsErrNotExist e then None else Some e
      | Inr kind \<Rightarrow>
          if kind = SymlinkFile then Some (Opaque (''prepared path contains symlink: '' @ next_path))
          else if kind \<noteq> DirFile then Some (Opaque (''prepared path component is not a directory: '' @ next_path))
          else no_symlink_loop os next_path parts w)"

definition validate_no_symlink_path :: "'w os_calls \<Rightarrow> string \<Rightarrow> string \<Rightarrow> 'w \<Rightarrow> gerr option" where
  "validate_no_symlink_path os base path w =
     (case path_rel base path of
        Inl e \<Rightarrow> Some e
      | Inr rel \<Rightarrow> no_symlink_loop os base (split_on (CHR ''/'') rel) w)"

section \<open>Reading and writing the ledger\<close>

text \<open>\<open>json.Marshal\<close> of a string slice; a nil slice, \<open>None\<close>, is \<open>null\<close>.\<close>

fun json_items :: "string list \<Rightarrow> string" where
  "json_items [] = []"
| "json_items [s] = json_string s"
| "json_items (s # t # ss) = json_string s @ '','' @ json_items (t # ss)"

definition json_strings :: "string list option \<Rightarrow> string" where
  "json_strings pending = (case pending of None \<Rightarrow> ''null'' | Some ss \<Rightarrow> ''['' @ json_items ss @ '']'')"

definition write_cleanup_ledger :: "'w os_calls \<Rightarrow> string \<Rightarrow> string list option \<Rightarrow> 'w \<Rightarrow> gerr option \<times> 'w" where
  "write_cleanup_ledger os root_dir pending w =
     (let tmp = path_join [root_dir, prepared_cleanup_ledger_temp_name] in
      case os_write_synced os tmp (json_strings pending) w of
        (Some e, w1) \<Rightarrow> (Some e, w1)
      | (None, w1) \<Rightarrow>
          (case os_rename os tmp (path_join [root_dir, prepared_cleanup_ledger_name]) w1 of
             (Some e, w2) \<Rightarrow> (Some e, w2)
           | (None, w2) \<Rightarrow> os_sync_dir os root_dir w2))"

text \<open>The spores of a fresh ledger: the numbered children in directory order, then the parent.\<close>

definition listed_children :: "(string \<times> file_kind) list \<Rightarrow> string list" where
  "listed_children entries =
     map (\<lambda>e. path_join [''children'', fst e]) (filter (\<lambda>e. is_prepared_child_dir (fst e)) entries)"

definition new_cleanup_ledger :: "'w os_calls \<Rightarrow> string \<Rightarrow> 'w \<Rightarrow> gerr + string list" where
  "new_cleanup_ledger os root_dir w =
     (let listed = (case os_read_dir os (path_join [root_dir, ''children'']) w of
          Inl e \<Rightarrow> if errors_is OsErrNotExist e then Inr [] else Inl e
        | Inr entries \<Rightarrow> Inr (listed_children entries)) in
      case listed of
        Inl e \<Rightarrow> Inl e
      | Inr pending \<Rightarrow>
          (case os_lstat os (path_join [root_dir, ''parent.spore'']) w of
             Inr _ \<Rightarrow> Inr (pending @ [''parent.spore''])
           | Inl e \<Rightarrow> if errors_is OsErrNotExist e then Inr pending else Inl e))"

text \<open>Decoding and checking a ledger that was read, \<open>what\<close> naming it in the error.\<close>

definition decode_ledger :: "(string \<Rightarrow> gerr + string list) \<Rightarrow> string \<Rightarrow> string \<Rightarrow> gerr + string list" where
  "decode_ledger unmarshal what data =
     (case unmarshal data of
        Inl e \<Rightarrow> Inl (Wrap what e [])
      | Inr pending \<Rightarrow>
          (case validate_cleanup_ledger_paths pending of Some e \<Rightarrow> Inl e | None \<Rightarrow> Inr pending))"

definition load_or_create_cleanup_ledger :: "'w os_calls \<Rightarrow> (string \<Rightarrow> gerr + string list) \<Rightarrow> string
    \<Rightarrow> 'w \<Rightarrow> (gerr + string list) \<times> 'w" where
  "load_or_create_cleanup_ledger os unmarshal root_dir w =
     (case validate_prepared_tree os root_dir w of
        Some e \<Rightarrow> (Inl e, w)
      | None \<Rightarrow>
          let ledger = path_join [root_dir, prepared_cleanup_ledger_name];
              tempLedger = path_join [root_dir, prepared_cleanup_ledger_temp_name] in
          (case os_read_file os ledger w of
             Inr data \<Rightarrow> (decode_ledger unmarshal ''read prepared cleanup ledger: '' data, w)
           | Inl e \<Rightarrow>
               if \<not> errors_is OsErrNotExist e then (Inl e, w)
               else (case os_read_file os tempLedger w of
                   Inr data \<Rightarrow>
                     (case decode_ledger unmarshal ''read interrupted prepared cleanup ledger: '' data of
                        Inl e \<Rightarrow> (Inl e, w)
                      | Inr pending \<Rightarrow>
                          (case os_rename os tempLedger ledger w of
                             (Some e, w1) \<Rightarrow> (Inl e, w1)
                           | (None, w1) \<Rightarrow>
                               (case os_sync_dir os root_dir w1 of
                                  (Some e, w2) \<Rightarrow> (Inl e, w2)
                                | (None, w2) \<Rightarrow> (Inr pending, w2))))
                 | Inl e \<Rightarrow>
                     if \<not> errors_is OsErrNotExist e then (Inl e, w)
                     else (case new_cleanup_ledger os root_dir w of
                         Inl e \<Rightarrow> (Inl e, w)
                       | Inr pending \<Rightarrow>
                           (case write_cleanup_ledger os root_dir (if pending = [] then None else Some pending) w of
                              (Some e, w1) \<Rightarrow> (Inl e, w1)
                            | (None, w1) \<Rightarrow> (Inr pending, w1))))))"


section \<open>Names of children\<close>

lemma atoi_digits:
  assumes "list_all is_digit s" "s \<noteq> []" "in64 (int (atou_acc 0 s))"
  shows "atoi s = Some (int (atou_acc 0 s))"
proof -
  obtain c cs where s: "s = c # cs" using assms(2) by (cases s) auto
  have "is_digit c" using assms(1) s by simp
  then have "c \<noteq> CHR ''-''" "c \<noteq> CHR ''+''" using digit_not_dash digit_not_plus by auto
  then show ?thesis using assms s by (simp add: atoi_def parse_digits_def)
qed

lemma atoi_pad0 [simp]: "0 \<le> i \<Longrightarrow> in64 i \<Longrightarrow> atoi (pad0 w i) = Some i"
  by (simp add: atoi_digits [OF pad0_digits pad0_ne] atou_pad0)

lemma is_prepared_child_dir_iff:
  "is_prepared_child_dir name \<longleftrightarrow> (\<exists>i. 0 \<le> i \<and> in64 i \<and> name = pad0 6 i)"
proof
  assume "is_prepared_child_dir name"
  then obtain i where i: "atoi name = Some i" "0 \<le> i" "name = pad0 6 i"
    by (auto simp: is_prepared_child_dir_def split: option.splits)
  moreover have "in64 i"
    using i(1) by (auto simp: atoi_def split: list.splits if_splits option.splits)
  ultimately show "\<exists>i. 0 \<le> i \<and> in64 i \<and> name = pad0 6 i" by blast
qed (auto simp: is_prepared_child_dir_def)

lemma prepared_digits: "is_prepared_child_dir name \<Longrightarrow> list_all is_digit name \<and> name \<noteq> []"
  using pad0_digits by (auto simp: is_prepared_child_dir_iff)

lemma digit_less:
  assumes "length a = length b" "list_all is_digit a" "list_all is_digit b"
    "m < n \<or> m = n \<and> a < b"
  shows "atou_acc m a < atou_acc n b"
  using assms
proof (induction a b arbitrary: m n rule: list_induct2)
  case Nil
  then show ?case by simp
next
  case (Cons x xs y ys)
  have d: "digit_val x \<le> 9" "digit_val y \<le> 9"
    using Cons.prems by (auto simp: digit_val_def is_digit_def)
  have o: "x < y \<Longrightarrow> digit_val x < digit_val y"
    using Cons.prems by (auto simp: digit_val_def is_digit_def less_char_def)
  have "10 * m + digit_val x < 10 * n + digit_val y \<or>
      10 * m + digit_val x = 10 * n + digit_val y \<and> xs < ys"
    using Cons.prems(3) d o by auto
  then show ?case using Cons by simp
qed

lemma child_path:
  assumes "is_prepared_child_dir name"
  shows "path_join [''children'', name] = ''children/'' @ name"
proof -
  have "CHR ''/'' \<notin> set name"
    using prepared_digits [OF assms] digit_not_slash by (auto simp: list_all_iff)
  moreover have "name \<noteq> [] \<and> name \<noteq> ''.'' \<and> name \<noteq> ''..''"
    using prepared_digits [OF assms] by (auto simp: is_digit_def)
  ultimately have n: "list_all normal_part [''children'', name]"
    by (simp add: normal_part_def)
  have "clean_parts False (join_slash [''children'', name]) = [''children'', name]"
    using split_join_slash [OF _ normal_no_slash [OF n]] foldl_normal [OF n, of False "[]"]
    by (simp add: clean_parts_def)
  then show ?thesis by (simp add: path_join_def path_clean_def is_abs_def has_prefix_def)
qed

section \<open>Ledgers the agent writes\<close>

definition ledger_children :: "string list \<Rightarrow> string list" where
  "ledger_children names = map (\<lambda>n. ''children/'' @ n) names"

lemma listed_children_eq:
  "listed_children entries = ledger_children (filter is_prepared_child_dir (map fst entries))"
  by (induction entries) (auto simp: listed_children_def ledger_children_def child_path)

lemma ledger_entry [simp]:
  "validate_ledger_from p ((''children/'' @ name) # rest) =
     (if \<not> is_prepared_child_dir name
      then Some (Opaque (''unsafe prepared cleanup ledger path '' @ go_quote (''children/'' @ name)))
      else if (case atoi name of None \<Rightarrow> 0 | Some i \<Rightarrow> i) \<le> p
      then Some (Opaque ''prepared cleanup ledger children must be strictly ordered'')
      else validate_ledger_from (case atoi name of None \<Rightarrow> 0 | Some i \<Rightarrow> i) rest)"
  using has_prefix_append [of "''children/''" name] trim_prefix_append [of "''children/''" name]
  by (simp add: Let_def)

definition child_id_of :: "string \<Rightarrow> int" where
  "child_id_of name = int (atou_acc 0 name)"

lemma prepared_atoi: "is_prepared_child_dir name \<Longrightarrow> atoi name = Some (child_id_of name)"
  by (auto simp: is_prepared_child_dir_iff child_id_of_def atou_pad0)

lemma ledger_ordered:
  assumes "list_all is_prepared_child_dir names" "par = [] \<or> par = [''parent.spore'']"
  shows "validate_ledger_from p (ledger_children names @ par) = None \<longleftrightarrow>
    sorted_wrt (<) (p # map child_id_of names)"
  using assms(1)
proof (induction names arbitrary: p)
  case Nil
  then show ?case using assms(2) by (auto simp: ledger_children_def)
next
  case (Cons n names)
  then have n: "is_prepared_child_dir n" "atoi n = Some (child_id_of n)"
    and IH: "validate_ledger_from q (ledger_children names @ par) = None \<longleftrightarrow>
      sorted_wrt (<) (q # map child_id_of names)" for q
    using prepared_atoi by auto
  have "validate_ledger_from p (ledger_children (n # names) @ par) =
      validate_ledger_from p ((''children/'' @ n) # ledger_children names @ par)"
    by (simp add: ledger_children_def)
  also have "\<dots> = None \<longleftrightarrow> p < child_id_of n \<and> validate_ledger_from (child_id_of n) (ledger_children names @ par) = None"
    by (simp only: ledger_entry n) (simp add: not_le)
  also have "\<dots> \<longleftrightarrow> sorted_wrt (<) (p # map child_id_of (n # names))"
    unfolding IH by auto
  finally show ?case .
qed

lemma child_id_nonneg [simp]: "-1 < child_id_of name"
  by (simp add: child_id_of_def)

text \<open>What \<open>validateCleanupLedgerPaths\<close> says of the ledger the agent itself makes from a
  directory listing, and of every part of it that is left after \<open>k\<close> removals.\<close>

lemma ledger_accepted_iff:
  assumes "par = [] \<or> par = [''parent.spore'']" "k \<le> length (listed_children entries)"
  shows "validate_cleanup_ledger_paths (drop k (listed_children entries @ par)) = None \<longleftrightarrow>
    sorted_wrt (<) (map child_id_of (drop k (filter is_prepared_child_dir (map fst entries))))"
proof -
  let ?names = "drop k (filter is_prepared_child_dir (map fst entries))"
  have all: "list_all is_prepared_child_dir ?names"
    by (auto simp: list_all_iff dest: in_set_dropD)
  have "drop k (listed_children entries @ par) = ledger_children ?names @ par"
    using assms(2) by (simp add: listed_children_eq ledger_children_def drop_map)
  then show ?thesis
    by (auto simp: validate_cleanup_ledger_paths_def ledger_ordered [OF all assms(1)])
qed

lemma six_digits_ordered:
  assumes "sorted_wrt (<) names" "list_all (\<lambda>n. is_prepared_child_dir n \<and> length n = 6) names"
  shows "sorted_wrt (<) (map child_id_of names)"
proof -
  have less: "child_id_of a < child_id_of b"
    if "a < b" "is_prepared_child_dir a \<and> length a = 6" "is_prepared_child_dir b \<and> length b = 6" for a b
    using digit_less [of a b 0 0] prepared_digits that by (simp add: child_id_of_def)
  from assms show ?thesis
    by (induction names) (auto simp: list_all_iff intro: less)
qed

lemma sorted_filter_drop: "sorted_wrt (<) xs \<Longrightarrow> sorted_wrt (<) (drop k (filter P xs))"
  by (simp add: sorted_wrt_drop sorted_wrt_filter)


lemma digit_chars: "digit_char 0 = CHR ''0''" "digit_char (Suc 0) = CHR ''1''" "digit_char 7 = CHR ''7''"
  "digit_char 9 = CHR ''9''"
  by code_simp+

lemma pad0_samples: "pad0 6 0 = ''000000''" "pad0 6 7 = ''000007''" "pad0 6 999999 = ''999999''"
  "pad0 6 1000000 = ''1000000''"
  by (simp_all add: pad0_def utoa.simps digit_chars) (simp_all add: numeral_eq_Suc)

lemma child_names_code [simp]:
  "is_prepared_child_dir ''000000''" "is_prepared_child_dir ''000007''"
  "is_prepared_child_dir ''999999''" "is_prepared_child_dir ''1000000''"
  "\<not> is_prepared_child_dir ''shared-chunks''"
  using pad0_samples
  by (simp_all add: is_prepared_child_dir_def atoi_def parse_digits_def is_digit_def digit_val_def in64_def)

lemma child_names_less: "''000000'' < ''000007''" "''000007'' < ''shared-chunks''" "''000000'' < ''shared-chunks''"
  "''1000000'' < ''999999''"
  by (simp_all add: less_char_def)


lemma sorted_before:
  "sorted_wrt (<) (xs :: string list) \<Longrightarrow> a \<in> set xs \<Longrightarrow> b \<in> set xs \<Longrightarrow> a < b \<Longrightarrow>
     sorted_wrt (<) (map f xs) \<Longrightarrow> f a < (f b :: int)"
  by (induction xs) auto

text \<open>The agent rejects its own ledger once a run has more than a million children. A
  listing by name that holds child 1000000 and child 999999 has them in that order, which
  \<open>validateCleanupLedgerPaths\<close> refuses; the ledger was written all the same.\<close>

lemma ledger_million:
  assumes "sorted_wrt (<) (map fst entries)" "par = [] \<or> par = [''parent.spore'']"
    and "''1000000'' \<in> fst ` set entries" "''999999'' \<in> fst ` set entries"
  shows "validate_cleanup_ledger_paths (listed_children entries @ par) \<noteq> None"
proof
  let ?names = "filter is_prepared_child_dir (map fst entries)"
  assume "validate_cleanup_ledger_paths (listed_children entries @ par) = None"
  then have "sorted_wrt (<) (map child_id_of ?names)"
    using ledger_accepted_iff [OF assms(2), of 0 entries] by simp
  moreover have "sorted_wrt (<) ?names" using assms(1) by (rule sorted_wrt_filter)
  moreover have "''1000000'' \<in> set ?names" "''999999'' \<in> set ?names"
    using assms(3,4) by (simp_all add: image_iff del: image_set) 
  ultimately have "child_id_of ''1000000'' < child_id_of ''999999''"
    using child_names_less(4) sorted_before [of ?names "''1000000''" "''999999''" child_id_of] by blast
  then show False by (simp add: child_id_of_def digit_val_def)
qed

lemma ledger_million_witness:
  "validate_cleanup_ledger_paths (listed_children [(''1000000'', DirFile), (''999999'', DirFile)] @ [''parent.spore'']) \<noteq> None"
  using ledger_million [of "[(''1000000'', DirFile), (''999999'', DirFile)]" "[''parent.spore'']"]
  by (simp add: child_names_less)

end
