(* ===== verification/Node.thy ===== *)
theory Node
  imports Ledger "HOL-Library.Monad_Syntax"
begin

text \<open>
  The state a \<open>Runner\<close> of \<open>internal/agent/runtime.go\<close> keeps between calls beside its slots and
  sandboxes: whether a cache collection is due, the host class of each backend, and how many
  runs and sandboxes are starting from each boot template. \<open>nd_world\<close> is everything outside the agent.
  The operations here are the removal of saved spores, the cache collection and the status.
  A removal that SporeVM refuses because the spore is in use is retried until the context ends;
  nothing else ends the loop, so it is a partial function and \<open>None\<close> means it never returns.
\<close>

text \<open>What \<open>os.FileInfo\<close> says of a file: \<open>fi_file\<close> is its device and inode.\<close>

record file_info =
  fi_file :: nat
  fi_size :: int
  fi_mtime :: go_time
  fi_ctime :: go_time
  fi_isDir :: bool

record boot_template_runtime_identity =
  ti_version :: string
  ti_digest :: string
  ti_hostClass :: host_class
  ti_executable :: file_info

record 'w node =
  nd_gcPending :: bool
  nd_hostClasses :: "(string \<times> host_class) list"
  nd_templateIdentity :: "boot_template_runtime_identity option"
  nd_templateUses :: "(string \<times> int) list"
  nd_world :: 'w

text \<open>The node of \<open>NewRunner\<close>.\<close>

definition new_node :: "'w \<Rightarrow> 'w node" where
  "new_node w = \<lparr>nd_gcPending = True, nd_hostClasses = [], nd_templateIdentity = None, nd_templateUses = [], nd_world = w\<rparr>"

definition on_world :: "('w \<Rightarrow> 'a \<times> 'w) \<Rightarrow> 'w node \<Rightarrow> 'a \<times> 'w node" where
  "on_world f nd = (case f (nd_world nd) of (x, w) \<Rightarrow> (x, nd\<lparr>nd_world := w\<rparr>))"

section \<open>Cache collection\<close>

definition zero_gc :: cache_gc_result where
  "zero_gc = \<lparr>gc_schema = [], gc_schema_version = 0, gc_dry_run = False, gc_deleted_count = 0, gc_deleted_bytes = 0\<rparr>"

definition collect_cache :: "'w runner \<Rightarrow> go_ctx \<Rightarrow> 'w node \<Rightarrow> (cache_gc_result \<times> gerr option) \<times> 'w node" where
  "collect_cache r ctx nd =
     (if \<not> rn_cacheGC r then ((zero_gc, None), nd)
      else if \<not> nd_gcPending nd then ((zero_gc, None), nd\<lparr>nd_gcPending := False\<rparr>)
      else
        let nd1 = nd\<lparr>nd_gcPending := False\<rparr> in
        case rn_client r of
          None \<Rightarrow> ((zero_gc, Some (Sentinel ErrSporeClientNotConfigured)), nd1)
        | Some client \<Rightarrow>
            (case on_world (sc_collect_cache client ctx) nd1 of ((result, err), nd2) \<Rightarrow>
               if err \<noteq> None then ((result, err), nd2\<lparr>nd_gcPending := True\<rparr>) else ((result, err), nd2)))"

section \<open>Removing saved spores\<close>

definition remove_saved_spore :: "'w runner \<Rightarrow> go_ctx \<Rightarrow> string \<Rightarrow> 'w node \<Rightarrow> gerr option \<times> 'w node" where
  "remove_saved_spore r ctx dir nd =
     (case on_world (sc_remove_saved_spore (the (rn_client r)) ctx \<lparr>rsv_sporeDir = dir\<rparr>) nd of
        (Some e, nd1) \<Rightarrow> (Some e, nd1)
      | (None, nd1) \<Rightarrow> (None, nd1\<lparr>nd_gcPending := True\<rparr>))"

definition saved_spore_in_use :: "gerr \<Rightarrow> bool" where
  "saved_spore_in_use err \<longleftrightarrow>
     (case as_machine_error err of None \<Rightarrow> False | Some (env, _) \<Rightarrow> me_source (env_error env) = ''SavedSporeInUse'')"

definition prepared_cleanup_retry_interval :: int where
  "prepared_cleanup_retry_interval = 50 * 1000000"

partial_function (option) remove_prepared_spore :: "'w runner \<Rightarrow> go_ctx \<Rightarrow> string \<Rightarrow> 'w node
    \<Rightarrow> (gerr option \<times> 'w node) option" where
  "remove_prepared_spore r ctx path nd =
     (case remove_saved_spore r ctx path nd of
        (None, nd1) \<Rightarrow> Some (None, nd1)
      | (Some err, nd1) \<Rightarrow>
          if \<not> saved_spore_in_use err then Some (Some err, nd1)
          else (case on_world (rn_timer r ctx prepared_cleanup_retry_interval) nd1 of
              (Some ctxErr, nd2) \<Rightarrow> Some (errors_join [Some err, Some ctxErr], nd2)
            | (None, nd2) \<Rightarrow> remove_prepared_spore r ctx path nd2))"

section \<open>Status\<close>

definition runner_host_class :: "'w runner \<Rightarrow> go_ctx \<Rightarrow> string \<Rightarrow> 'w node \<Rightarrow> (gerr + host_class) \<times> 'w node" where
  "runner_host_class r ctx backend nd =
     (case map_of (nd_hostClasses nd) backend of
        Some hostClass \<Rightarrow> (Inr hostClass, nd)
      | None \<Rightarrow>
          (case on_world (sc_host_info (the (rn_client r)) ctx) nd of
             (Inl e, nd1) \<Rightarrow> (Inl e, nd1)
           | (Inr info, nd1) \<Rightarrow>
               (case fleet_host_class info backend of
                  Inl e \<Rightarrow> (Inl e, nd1)
                | Inr hostClass \<Rightarrow>
                    (Inr hostClass, nd1\<lparr>nd_hostClasses := AList.update backend hostClass (nd_hostClasses nd1)\<rparr>))))"

text \<open>\<open>Status\<close>; \<open>None\<close> is the zero status returned beside an error of an earlier step.\<close>

definition status :: "'w runner \<Rightarrow> slot_pool \<Rightarrow> go_ctx \<Rightarrow> status_request \<Rightarrow> 'w node
    \<Rightarrow> (agent_status option \<times> gerr option) \<times> 'w node" where
  "status r slots ctx req nd =
     (if rn_client r = None then ((None, Some (Sentinel ErrSporeClientNotConfigured)), nd)
      else
        let backend = (if srq_backend req = [] then rn_backend r else srq_backend req) in
        case (if srq_observedAt req = 0 then on_world (rn_now r) nd else (srq_observedAt req, nd)) of (observedAt, nd1) \<Rightarrow>
        (case runner_host_class r ctx backend nd1 of
           (Inl e, nd2) \<Rightarrow> ((None, Some e), nd2)
         | (Inr hostClass, nd2) \<Rightarrow>
             let st = \<lparr>as_agentID = srq_agentID req, as_cellID = srq_cellID req, as_observedAt = observedAt,
                   as_hostClass = hostClass,
                   as_executionSlots = \<lparr>slots_total = sl_total (pool_limiter slots), slots_available = limiter_available (pool_limiter slots)\<rparr>,
                   as_cache = srq_cache req, as_pressure = srq_pressure req,
                   as_healthy = (\<not> pressure_is_critical (srq_pressure req))\<rparr>
             in ((Some st, agent_status_validate st), nd2)))"

end
