(* ===== verification/Prepare.thy ===== *)
theory Prepare
  imports Node
begin

text \<open>
  Preparing a run on the node and releasing it (\<open>internal/agent/runtime.go\<close>): capture the parent,
  fork the children, pack and inspect the bundle; and the cleanup that removes every saved
  spore through SporeVM before the directory. The cleanup retries a spore that is in use, so
  what may call it is an option: \<open>None\<close> when it never returns. One run's operations exclude
  each other (\<open>PrepareGate\<close>); what is here runs inside that gate.
\<close>

section \<open>Releasing a prepared run\<close>

text \<open>The loop over the pending spores: the children removed so far, the error that stopped it
  (\<open>Inl\<close> returned at once, \<open>Inr\<close> collected in \<open>cleanupErrors\<close>), the node.\<close>

definition pending_spore_error :: "'w runner \<Rightarrow> string \<Rightarrow> string \<Rightarrow> 'w \<Rightarrow> gerr option" where
  "pending_spore_error r path rel w =
     (case os_lstat (rn_os r) path w of
        Inl e \<Rightarrow> if errors_is OsErrNotExist e then None
          else Some (Wrap (''pending prepared spore '' @ rel @ '' is unavailable: '') e [])
      | Inr kind \<Rightarrow> if kind \<noteq> DirFile
          then Some (Opaque (''pending prepared spore '' @ rel @ '' is not a directory'')) else None)"

fun release_loop :: "'w runner \<Rightarrow> go_ctx \<Rightarrow> string \<Rightarrow> int \<Rightarrow> string list \<Rightarrow> 'w node
    \<Rightarrow> ((int \<times> (gerr + gerr option)) \<times> 'w node) option" where
  "release_loop r ctx root_dir removed [] nd = Some ((removed, Inr None), nd)"
| "release_loop r ctx root_dir removed (rel # rest) nd =
     (let path = path_join [root_dir, rel] in
      case pending_spore_error r path rel (nd_world nd) of
        Some e \<Rightarrow> Some ((removed, Inr (Some e)), nd)
      | None \<Rightarrow> do {
          (err, nd1) \<leftarrow> remove_prepared_spore r ctx path nd;
          case err of
            Some e \<Rightarrow> Some ((removed, Inr (Some (Wrap (''remove prepared spore '' @ rel @ '': '') e []))), nd1)
          | None \<Rightarrow>
              let removed1 = (if has_prefix rel ''children/'' then removed + 1 else removed) in
              (case on_world (write_cleanup_ledger (rn_os r) root_dir (Some rest)) nd1 of
                 (Some e, nd2) \<Rightarrow> Some ((removed1, Inl e), nd2)
               | (None, nd2) \<Rightarrow> release_loop r ctx root_dir removed1 rest nd2)
        })"

definition release_root :: "'w runner \<Rightarrow> go_ctx \<Rightarrow> run \<Rightarrow> string \<Rightarrow> 'w node
    \<Rightarrow> ((prepared_run_cleanup \<times> gerr option) \<times> 'w node) option" where
  "release_root r ctx run root_dir nd =
     (let result = \<lparr>prc_runID = run_runID run, prc_removedChildren = 0\<rparr> in
      case on_world (load_or_create_cleanup_ledger (rn_os r) (rn_unmarshal_strings r) root_dir) nd of
        (Inl e, nd1) \<Rightarrow> Some ((result, Some e), nd1)
      | (Inr pending, nd1) \<Rightarrow> do {
          ((removed, stop), nd2) \<leftarrow> release_loop r ctx root_dir 0 pending nd1;
          let result1 = result\<lparr>prc_removedChildren := removed\<rparr> in
          case stop of
            Inl e \<Rightarrow> Some ((result1, Some e), nd2)
          | Inr cleanupErr \<Rightarrow>
              (case errors_join [cleanupErr] of
                 Some e \<Rightarrow> Some ((result1, Some e), nd2)
               | None \<Rightarrow>
                   (case on_world (os_remove_all (rn_os r) root_dir) nd2 of
                      (Some e, nd3) \<Rightarrow> Some ((result1, Some e), nd3)
                    | (None, nd3) \<Rightarrow> Some ((result1, None), nd3)))
        })"

definition release_prepared_run :: "'w runner \<Rightarrow> go_ctx \<Rightarrow> run \<Rightarrow> 'w node
    \<Rightarrow> ((prepared_run_cleanup \<times> gerr option) \<times> 'w node) option" where
  "release_prepared_run r ctx run nd =
     (let result = \<lparr>prc_runID = run_runID run, prc_removedChildren = 0\<rparr>;
          root_dir = prepare_work_dir (rn_workRoot r) run in
      case first_err
        [check (rn_client r = None) (Sentinel ErrSporeClientNotConfigured),
         check (rn_workRoot r = []) (Sentinel ErrWorkRootNotConfigured),
         run_validate run,
         validate_path_within (os_getwd (rn_os r) (nd_world nd)) (rn_workRoot r) root_dir,
         validate_no_symlink_path (rn_os r) (rn_workRoot r) root_dir (nd_world nd)] of
        Some e \<Rightarrow> Some ((result, Some e), nd)
      | None \<Rightarrow>
          (case os_lstat (rn_os r) root_dir (nd_world nd) of
             Inl e \<Rightarrow> if errors_is OsErrNotExist e then Some ((result, None), nd) else Some ((result, Some e), nd)
           | Inr _ \<Rightarrow> release_root r ctx run root_dir nd))"

definition release_prepared_after_error :: "'w runner \<Rightarrow> go_ctx \<Rightarrow> run \<Rightarrow> gerr option \<Rightarrow> 'w node
    \<Rightarrow> (gerr option \<times> 'w node) option" where
  "release_prepared_after_error r ctx run cause nd =
     (case cause of
        None \<Rightarrow> Some (None, nd)
      | Some c \<Rightarrow> do {
          ((_, cleanupErr), nd1) \<leftarrow>
            release_prepared_run r (WithTimeout lifecycle_cleanup_timeout (WithoutCancel ctx)) run nd;
          case cleanupErr of
            None \<Rightarrow> Some (Some c, nd1)
          | Some e \<Rightarrow> Some (errors_join [Some c, Some (Wrap ''release failed preparation: '' e [])], nd1)
        })"

section \<open>Preparing\<close>

definition zero_prepare_timings :: prepare_timings where
  "zero_prepare_timings = \<lparr>pt_runSave = 0, pt_fork = 0, pt_pack = 0, pt_inspectBundle = 0\<rparr>"

text \<open>A function with a deferred \<open>err = releasePreparedAfterError(ctx, run, err)\<close>.\<close>

definition released_on_error :: "'w runner \<Rightarrow> go_ctx \<Rightarrow> run \<Rightarrow> (gerr + 'a) \<times> 'w node
    \<Rightarrow> ((gerr + 'a) \<times> 'w node) option" where
  "released_on_error r ctx run res =
     (case res of
        (Inr x, nd) \<Rightarrow> Some (Inr x, nd)
      | (Inl e, nd) \<Rightarrow> do {
          (err, nd1) \<leftarrow> release_prepared_after_error r ctx run (Some e) nd;
          Some (Inl (the err), nd1)
        })"

text \<open>\<open>prepareChildren\<close> once the directory exists.\<close>

definition capture_and_fork :: "'w runner \<Rightarrow> go_ctx \<Rightarrow> prepare_bundle_request \<Rightarrow> string \<Rightarrow> host_class \<Rightarrow> string
    \<Rightarrow> 'w node \<Rightarrow> (gerr + local_preparation) \<times> 'w node" where
  "capture_and_fork r ctx req backend hostClass root_dir nd =
     (let run = pbq_run req; client = the (rn_client r);
          parentDir = path_join [root_dir, ''parent.spore'']; childrenDir = path_join [root_dir, ''children''] in
      case on_world (rn_now r) nd of (runSaveStart, nd1) \<Rightarrow>
      case on_world (sc_run_capture client ctx
          \<lparr>rcq_image = source_image (run_source run), rcq_captureDir = parentDir,
           rcq_captureSignal = prepare_captureSignal (run_prepare run), rcq_readyMarker = prepare_readyMarker (run_prepare run),
           rcq_backend = backend, rcq_memory = prepare_memory (run_prepare run),
           rcq_command = prepare_command (run_prepare run)\<rparr>) nd1 of ((events, err), nd2) \<Rightarrow>
      case on_world (rn_now r) nd2 of (runSaveEnd, nd3) \<Rightarrow>
      (case err of Some e \<Rightarrow> (Inl e, nd3) | None \<Rightarrow>
      (case terminal_event events of Inl e \<Rightarrow> (Inl e, nd3) | Inr terminal \<Rightarrow>
      if \<not> ev_captured terminal \<or> ev_capture_path terminal = None
      then (Inl (invalid_machine_output ''prepare did not capture parent''), nd3)
      else
        case on_world (rn_now r) nd3 of (forkStart, nd4) \<Rightarrow>
        (case on_world (sc_fork client ctx
            \<lparr>fkq_parentDir = parentDir, fkq_count = fork_count (run_fork run), fkq_outDir = childrenDir\<rparr>) nd4 of
           (Some e, nd5) \<Rightarrow> (Inl e, nd5)
         | (None, nd5) \<Rightarrow>
             (case on_world (rn_now r) nd5 of (forkEnd, nd6) \<Rightarrow>
              (Inr \<lparr>lp_hostClass = hostClass, lp_parentDir = parentDir, lp_childrenDir = childrenDir,
                lp_bundleDir = path_join [root_dir, ''bundle''],
                lp_timingsMS = zero_prepare_timings\<lparr>pt_runSave := elapsed_ms runSaveStart runSaveEnd,
                  pt_fork := elapsed_ms forkStart forkEnd\<rparr>\<rparr>, nd6))))))"

definition prepare_children :: "'w runner \<Rightarrow> go_ctx \<Rightarrow> prepare_bundle_request \<Rightarrow> 'w node
    \<Rightarrow> ((gerr + local_preparation) \<times> 'w node) option" where
  "prepare_children r ctx req nd =
     (let run = pbq_run req; root_dir = prepare_work_dir (rn_workRoot r) run;
          backend = (if pbq_backend req = [] then rn_backend r else pbq_backend req) in
      case first_err
        [check (rn_client r = None) (Sentinel ErrSporeClientNotConfigured),
         check (rn_workRoot r = []) (Sentinel ErrWorkRootNotConfigured), run_validate run] of
        Some e \<Rightarrow> Some (Inl e, nd)
      | None \<Rightarrow>
          (case runner_host_class r ctx backend nd of
             (Inl e, nd1) \<Rightarrow> Some (Inl e, nd1)
           | (Inr hostClass, nd1) \<Rightarrow> do {
               ((_, err), nd2) \<leftarrow> release_prepared_run r ctx run nd1;
               case err of
                 Some e \<Rightarrow> Some (Inl e, nd2)
               | None \<Rightarrow>
                   (case on_world (os_mkdir_all (rn_os r) root_dir) nd2 of
                      (Some e, nd3) \<Rightarrow> Some (Inl e, nd3)
                    | (None, nd3) \<Rightarrow>
                        released_on_error r ctx run (capture_and_fork r ctx req backend hostClass root_dir nd3))
             }))"

text \<open>\<open>localPreparedDigest\<close>: \<open>digest\<close> is the SHA-256 of the JSON of the schema, the run and the
  host class, in hexadecimal.\<close>

definition prepared_local_of :: "(run \<Rightarrow> host_class \<Rightarrow> string) \<Rightarrow> run \<Rightarrow> local_preparation \<Rightarrow> prepared_bundle" where
  "prepared_local_of digest run prepared =
     \<lparr>pb_bundle = \<lparr>bundle_uri = ''local://prepared/'' @ run_runID run,
        bundle_digest = ''sha256:'' @ digest run (lp_hostClass prepared)\<rparr>,
      pb_childCount = fork_count (run_fork run), pb_hostClass = lp_hostClass prepared,
      pb_local = Some \<lparr>local_parentDir = lp_parentDir prepared, local_childrenDir = lp_childrenDir prepared,
        local_bundleDir = []\<rparr>,
      pb_timingsMS = lp_timingsMS prepared\<rparr>"

definition compiled :: "run \<Rightarrow> prepared_bundle \<Rightarrow> gerr + prepared_bundle" where
  "compiled run bundle = (case run_compile run bundle of Inl e \<Rightarrow> Inl e | Inr _ \<Rightarrow> Inr bundle)"

definition prepare_local :: "'w runner \<Rightarrow> (run \<Rightarrow> host_class \<Rightarrow> string) \<Rightarrow> go_ctx \<Rightarrow> prepare_bundle_request
    \<Rightarrow> 'w node \<Rightarrow> ((gerr + prepared_bundle) \<times> 'w node) option" where
  "prepare_local r digest ctx req nd = do {
     (prepared, nd1) \<leftarrow> prepare_children r ctx req nd;
     case prepared of
       Inl e \<Rightarrow> Some (Inl e, nd1)
     | Inr p \<Rightarrow>
         released_on_error r ctx (pbq_run req) (compiled (pbq_run req) (prepared_local_of digest (pbq_run req) p), nd1)
   }"

text \<open>\<open>fileURI\<close>: \<open>escape\<close> is the escaping of a URL path.\<close>

definition file_uri :: "(string \<Rightarrow> string) \<Rightarrow> gerr + string \<Rightarrow> string \<Rightarrow> gerr + string" where
  "file_uri escape cwd path =
     (case path_abs cwd path of Inl e \<Rightarrow> Inl e | Inr p \<Rightarrow> Inr (''file://'' @ escape p))"

definition pack_and_inspect :: "'w runner \<Rightarrow> (string \<Rightarrow> string) \<Rightarrow> go_ctx \<Rightarrow> run \<Rightarrow> local_preparation
    \<Rightarrow> 'w node \<Rightarrow> (gerr + prepared_bundle) \<times> 'w node" where
  "pack_and_inspect r escape ctx run prepared nd =
     (let client = the (rn_client r) in
      case on_world (rn_now r) nd of (packStart, nd1) \<Rightarrow>
      (case on_world (sc_pack client ctx \<lparr>pkq_parentDir = lp_parentDir prepared,
          pkq_childrenDir = lp_childrenDir prepared, pkq_outDir = lp_bundleDir prepared\<rparr>) nd1 of
         (Some e, nd2) \<Rightarrow> (Inl e, nd2)
       | (None, nd2) \<Rightarrow>
           (case on_world (rn_now r) nd2 of (packEnd, nd3) \<Rightarrow>
            (case file_uri escape (os_getwd (rn_os r) (nd_world nd3)) (lp_bundleDir prepared) of
               Inl e \<Rightarrow> (Inl e, nd3)
             | Inr bundleURI \<Rightarrow>
                 (case on_world (rn_now r) nd3 of (inspectStart, nd4) \<Rightarrow>
                  case on_world (sc_inspect_bundle client ctx
                      \<lparr>ibq_source = bundleURI, ibq_childID = [],
                       ibq_childRange = Some \<lparr>crs_start = rc_start (run_children run),
                         crs_end = range_end (run_children_range (run_children run))\<rparr>\<rparr>) nd4 of (inspected, nd5) \<Rightarrow>
                  case on_world (rn_now r) nd5 of (inspectEnd, nd6) \<Rightarrow>
                  (case inspected of
                     Inl e \<Rightarrow> (Inl e, nd6)
                   | Inr inspection \<Rightarrow>
                       (compiled run
                          \<lparr>pb_bundle = \<lparr>bundle_uri = bundleURI,
                             bundle_digest = digest_string (ibr_bundle_digest inspection)\<rparr>,
                           pb_childCount = ibr_child_count inspection, pb_hostClass = lp_hostClass prepared,
                           pb_local = Some \<lparr>local_parentDir = lp_parentDir prepared,
                             local_childrenDir = lp_childrenDir prepared, local_bundleDir = lp_bundleDir prepared\<rparr>,
                           pb_timingsMS = (lp_timingsMS prepared)\<lparr>pt_pack := elapsed_ms packStart packEnd,
                             pt_inspectBundle := elapsed_ms inspectStart inspectEnd\<rparr>\<rparr>, nd6)))))))"

definition prepare_bundle :: "'w runner \<Rightarrow> (string \<Rightarrow> string) \<Rightarrow> go_ctx \<Rightarrow> prepare_bundle_request
    \<Rightarrow> 'w node \<Rightarrow> ((gerr + prepared_bundle) \<times> 'w node) option" where
  "prepare_bundle r escape ctx req nd = do {
     (prepared, nd1) \<leftarrow> prepare_children r ctx req nd;
     case prepared of
       Inl e \<Rightarrow> Some (Inl e, nd1)
     | Inr p \<Rightarrow>
         released_on_error r ctx (pbq_run req) (pack_and_inspect r escape ctx (pbq_run req) p nd1)
   }"

end
