(* ===== verification/NodeTrace.thy ===== *)
theory NodeTrace
  imports Prepare
begin

text \<open>
  What the node asks of the outside, in order: \<open>traced_runner r\<close> is the runner \<open>r\<close> on a world
  that also keeps the list of the calls that remove, collect or write. The locale \<open>node_env\<close>
  states what such a list promises, every lemma about the order of those calls is proved in it,
  and \<open>traced\<close> is its interpretation for any runner.
\<close>

datatype node_call =
    RemovedSpore string "gerr option"
  | Collected "gerr option"
  | DeletedDir string "gerr option"
  | WroteFile string string "gerr option"
  | Renamed string string "gerr option"

type_synonym 'w traced = "'w \<times> node_call list"

definition traced_call :: "('w \<Rightarrow> 'a \<times> 'w) \<Rightarrow> ('a \<Rightarrow> node_call list) \<Rightarrow> 'w traced \<Rightarrow> 'a \<times> 'w traced" where
  "traced_call f note_of t = (case f (fst t) of (x, w) \<Rightarrow> (x, (w, snd t @ note_of x)))"

abbreviation untraced :: "('w \<Rightarrow> 'a \<times> 'w) \<Rightarrow> 'w traced \<Rightarrow> 'a \<times> 'w traced" where
  "untraced f \<equiv> traced_call f (\<lambda>_. [])"

definition traced_os :: "'w os_calls \<Rightarrow> 'w traced os_calls" where
  "traced_os os = \<lparr>
     os_getwd = \<lambda>t. os_getwd os (fst t),
     os_stat = \<lambda>p t. os_stat os p (fst t),
     os_lstat = \<lambda>p t. os_lstat os p (fst t),
     os_read_dir = \<lambda>p t. os_read_dir os p (fst t),
     os_read_file = \<lambda>p t. os_read_file os p (fst t),
     os_remove_all = \<lambda>p. traced_call (os_remove_all os p) (\<lambda>e. [DeletedDir p e]),
     os_remove = \<lambda>p. untraced (os_remove os p),
     os_mkdir_all = \<lambda>p. untraced (os_mkdir_all os p),
     os_mkdir_temp = \<lambda>d p. untraced (os_mkdir_temp os d p),
     os_write_file = \<lambda>p s. untraced (os_write_file os p s),
     os_write_synced = \<lambda>p s. traced_call (os_write_synced os p s) (\<lambda>e. [WroteFile p s e]),
     os_rename = \<lambda>p q. traced_call (os_rename os p q) (\<lambda>e. [Renamed p q e]),
     os_sync_dir = \<lambda>p. untraced (os_sync_dir os p)\<rparr>"

definition traced_client :: "'w spore_client \<Rightarrow> 'w traced spore_client" where
  "traced_client c = \<lparr>
     sc_executable = untraced (sc_executable c),
     sc_version = \<lambda>ctx. untraced (sc_version c ctx),
     sc_host_info = \<lambda>ctx. untraced (sc_host_info c ctx),
     sc_inspect_bundle = \<lambda>ctx q. untraced (sc_inspect_bundle c ctx q),
     sc_run_capture = \<lambda>ctx q. untraced (sc_run_capture c ctx q),
     sc_fork = \<lambda>ctx q. untraced (sc_fork c ctx q),
     sc_pack = \<lambda>ctx q. untraced (sc_pack c ctx q),
     sc_pull = \<lambda>ctx q. untraced (sc_pull c ctx q),
     sc_resume = \<lambda>ctx q. untraced (sc_resume c ctx q),
     sc_restore_named = \<lambda>ctx q. untraced (sc_restore_named c ctx q),
     sc_run_from = \<lambda>ctx q. untraced (sc_run_from c ctx q),
     sc_exec = \<lambda>ctx q. untraced (sc_exec c ctx q),
     sc_remove_vm = \<lambda>ctx q. untraced (sc_remove_vm c ctx q),
     sc_remove_saved_spore = \<lambda>ctx q. traced_call (sc_remove_saved_spore c ctx q) (\<lambda>e. [RemovedSpore (rsv_sporeDir q) e]),
     sc_collect_cache = \<lambda>ctx. traced_call (sc_collect_cache c ctx) (\<lambda>x. [Collected (snd x)])\<rparr>"

definition traced_store :: "'w result_store_if \<Rightarrow> 'w traced result_store_if" where
  "traced_store s = \<lparr>
     store_terminal = \<lambda>ctx run c. untraced (store_terminal s ctx run c),
     store_write = \<lambda>ctx run x. untraced (store_write s ctx run x),
     store_commit = \<lambda>ctx run x. untraced (store_commit s ctx run x)\<rparr>"

definition traced_runner :: "'w runner \<Rightarrow> 'w traced runner" where
  "traced_runner r = \<lparr>
     rn_client = map_option traced_client (rn_client r),
     rn_results = map_option traced_store (rn_results r),
     rn_workRoot = rn_workRoot r, rn_backend = rn_backend r,
     rn_now = untraced (rn_now r),
     rn_metrics = map_option (\<lambda>f m t. (f m (fst t), snd t)) (rn_metrics r),
     rn_childTimeout = rn_childTimeout r, rn_cacheGC = rn_cacheGC r,
     rn_os = traced_os (rn_os r),
     rn_ctx_err = \<lambda>t. rn_ctx_err r (fst t),
     rn_timer = \<lambda>ctx d. untraced (rn_timer r ctx d),
     rn_unmarshal_strings = rn_unmarshal_strings r\<rparr>"

section \<open>What a release does, in order\<close>

text \<open>Removing one spore: attempts that found it in use, then one that settles it.\<close>

inductive removal :: "string \<Rightarrow> bool \<Rightarrow> node_call list \<Rightarrow> bool" where
  gone: "removal path True [RemovedSpore path None]"
| refused: "removal path False [RemovedSpore path (Some e)]"
| again: "\<lbrakk>saved_spore_in_use e; removal path ok tr\<rbrakk> \<Longrightarrow> removal path ok (RemovedSpore path (Some e) # tr)"

definition ledger_written :: "string \<Rightarrow> string list option \<Rightarrow> node_call list" where
  "ledger_written root_dir pending =
     (let tmp = path_join [root_dir, prepared_cleanup_ledger_temp_name] in
      [WroteFile tmp (json_strings pending) None,
       Renamed tmp (path_join [root_dir, prepared_cleanup_ledger_name]) None])"

definition ledger_failed :: "string \<Rightarrow> string list option \<Rightarrow> node_call list \<Rightarrow> bool" where
  "ledger_failed root_dir pending tr \<longleftrightarrow>
     (let tmp = path_join [root_dir, prepared_cleanup_ledger_temp_name] in
      tr = ledger_written root_dir pending \<or>
      (\<exists>e. tr = [WroteFile tmp (json_strings pending) (Some e)]) \<or>
      (\<exists>e. tr = [WroteFile tmp (json_strings pending) None,
         Renamed tmp (path_join [root_dir, prepared_cleanup_ledger_name]) (Some e)]))"

text \<open>\<open>release_trace root_dir pending finished tr\<close>: the spores of \<open>pending\<close> are removed in order, and after
  each one the ledger is replaced by what is left; \<open>finished\<close> when nothing is.\<close>

inductive release_trace :: "string \<Rightarrow> string list \<Rightarrow> bool \<Rightarrow> node_call list \<Rightarrow> bool" where
  finished: "release_trace root_dir [] True []"
| stopped: "release_trace root_dir (rel # rest) False []"
| failed: "removal (path_join [root_dir, rel]) False tr \<Longrightarrow> release_trace root_dir (rel # rest) False tr"
| unrecorded: "\<lbrakk>removal (path_join [root_dir, rel]) True tr; ledger_failed root_dir (Some rest) tr'\<rbrakk>
    \<Longrightarrow> release_trace root_dir (rel # rest) False (tr @ tr')"
| onward: "\<lbrakk>removal (path_join [root_dir, rel]) True tr; release_trace root_dir rest ok tr'\<rbrakk>
    \<Longrightarrow> release_trace root_dir (rel # rest) ok (tr @ ledger_written root_dir (Some rest) @ tr')"

text \<open>Whether a collection is due after the calls \<open>tr\<close>: none has succeeded since the last
  removal that did, or since the start.\<close>

fun due_after :: "bool \<Rightarrow> node_call list \<Rightarrow> bool" where
  "due_after due [] = due"
| "due_after due (RemovedSpore _ None # tr) = due_after True tr"
| "due_after due (Collected e # tr) = due_after (e \<noteq> None) tr"
| "due_after due (_ # tr) = due_after due tr"

lemma due_after_append [simp]: "due_after due (tr @ tr') = due_after (due_after due tr) tr'"
  by (induction due tr rule: due_after.induct) auto

lemma due_after_ledger [simp]: "due_after due (ledger_written root_dir pending) = due"
  by (simp add: ledger_written_def Let_def)

section \<open>The interface\<close>

locale node_env =
  fixes r :: "'w runner" and calls :: "'w \<Rightarrow> node_call list"
  assumes removed: "rn_client r = Some c \<Longrightarrow> sc_remove_saved_spore c ctx q w = (e, w') \<Longrightarrow>
      calls w' = calls w @ [RemovedSpore (rsv_sporeDir q) e]"
    and collected: "rn_client r = Some c \<Longrightarrow> sc_collect_cache c ctx w = (x, w') \<Longrightarrow>
      calls w' = calls w @ [Collected (snd x)]"
    and deleted: "os_remove_all (rn_os r) p w = (e, w') \<Longrightarrow> calls w' = calls w @ [DeletedDir p e]"
    and wrote: "os_write_synced (rn_os r) p s w = (e, w') \<Longrightarrow> calls w' = calls w @ [WroteFile p s e]"
    and renamed: "os_rename (rn_os r) p p' w = (e, w') \<Longrightarrow> calls w' = calls w @ [Renamed p p' e]"
    and executable: "rn_client r = Some c \<Longrightarrow> calls (snd (sc_executable c w)) = calls w"
    and version: "rn_client r = Some c \<Longrightarrow> calls (snd (sc_version c ctx w)) = calls w"
    and host_info: "rn_client r = Some c \<Longrightarrow> calls (snd (sc_host_info c ctx w)) = calls w"
    and run_capture: "rn_client r = Some c \<Longrightarrow> calls (snd (sc_run_capture c ctx cq w)) = calls w"
    and fork: "rn_client r = Some c \<Longrightarrow> calls (snd (sc_fork c ctx fq w)) = calls w"
    and pack: "rn_client r = Some c \<Longrightarrow> calls (snd (sc_pack c ctx pq w)) = calls w"
    and inspect: "rn_client r = Some c \<Longrightarrow> calls (snd (sc_inspect_bundle c ctx iq w)) = calls w"
    and clock: "calls (snd (rn_now r w)) = calls w"
    and timer: "calls (snd (rn_timer r ctx d w)) = calls w"
    and mkdir: "calls (snd (os_mkdir_all (rn_os r) p w)) = calls w"
    and sync: "calls (snd (os_sync_dir (rn_os r) p w)) = calls w"

begin

definition made :: "'w node \<Rightarrow> 'w node \<Rightarrow> node_call list \<Rightarrow> bool" where
  "made nd nd' tr \<longleftrightarrow> calls (nd_world nd') = calls (nd_world nd) @ tr \<and>
     nd_gcPending nd' = due_after (nd_gcPending nd) tr"

lemma made_refl [simp, intro]: "made nd nd []"
  by (simp add: made_def)

lemma made_trans: "made nd nd1 tr \<Longrightarrow> made nd1 nd2 tr' \<Longrightarrow> made nd nd2 (tr @ tr')"
  by (simp add: made_def)

lemma made_quiet: "made nd nd1 [] \<Longrightarrow> made nd1 nd2 tr' \<Longrightarrow> made nd nd2 tr'"
  using made_trans by fastforce

lemma on_world_made:
  "on_world f nd = (x, nd') \<Longrightarrow> calls (snd (f (nd_world nd))) = calls (nd_world nd) @ tr \<Longrightarrow>
     due_after (nd_gcPending nd) tr = nd_gcPending nd \<Longrightarrow> made nd nd' tr"
  by (auto simp: on_world_def made_def split: prod.splits)

lemma on_world_quiet:
  "on_world f nd = (x, nd') \<Longrightarrow> (\<And>w. calls (snd (f w)) = calls w) \<Longrightarrow> made nd nd' []"
  by (auto intro: on_world_made)

lemma remove_saved_spore_made:
  assumes "rn_client r \<noteq> None" "remove_saved_spore r ctx path nd = (e, nd')"
  shows "made nd nd' [RemovedSpore path e]"
proof -
  obtain c where c: "rn_client r = Some c" using assms(1) by auto
  obtain e1 w1 where w1: "sc_remove_saved_spore c ctx \<lparr>rsv_sporeDir = path\<rparr> (nd_world nd) = (e1, w1)"
    by force
  show ?thesis
    using removed [OF c w1] assms(2) c w1
    by (cases e1) (auto simp: remove_saved_spore_def on_world_def made_def)
qed

lemma remove_prepared_spore_made:
  assumes "rn_client r \<noteq> None" "remove_prepared_spore r ctx path nd = Some y"
  shows "\<exists>tr. made nd (snd y) tr \<and> removal path (fst y = None) tr"
proof -
  have "r' = r \<longrightarrow> (\<exists>tr. made nd (snd y) tr \<and> removal path (fst y = None) tr)"
    if "remove_prepared_spore r' ctx path nd = Some y" for r'
  proof (rule remove_prepared_spore.raw_induct [where P =
      "\<lambda>r' ctx path nd y. r' = r \<longrightarrow> (\<exists>tr. made nd (snd y) tr \<and> removal path (fst y = None) tr)", OF _ that], goal_cases)
    case (1 rec r' ctx path nd y)
    show ?case
    proof
      assume r: "r' = r"
      obtain e nd1 where s: "remove_saved_spore r ctx path nd = (e, nd1)" by force
      have m: "made nd nd1 [RemovedSpore path e]" by (rule remove_saved_spore_made [OF assms(1) s])
      show "\<exists>tr. made nd (snd y) tr \<and> removal path (fst y = None) tr"
      proof (cases e)
        case None
        then show ?thesis using 1(2) s m r removal.gone [of path] by auto
      next
        case (Some err)
        show ?thesis
        proof (cases "saved_spore_in_use err")
          case False
          then show ?thesis using 1(2) s m r Some removal.refused [of path err] by auto
        next
          case True
          obtain t nd2 where t: "on_world (rn_timer r ctx prepared_cleanup_retry_interval) nd1 = (t, nd2)"
            by force
          have m2: "made nd nd2 [RemovedSpore path e]"
            using made_trans [OF m on_world_quiet [OF t timer]] by simp
          show ?thesis
          proof (cases t)
            case (Some ctxErr)
            then show ?thesis
              using 1(2) s m2 r True t \<open>e = Some err\<close> removal.refused [of path err]
              by (auto simp: errors_join_def List.map_filter_simps)
          next
            case None
            then have "rec r ctx path nd2 = Some y" using 1(2) s r True t \<open>e = Some err\<close> by simp
            then obtain tr where "made nd2 (snd y) tr" "removal path (fst y = None) tr"
              using 1(1) by blast
            then show ?thesis
              using made_trans [OF m2] removal.again [OF True] \<open>e = Some err\<close> by fastforce
          qed
        qed
      qed
    qed
  qed
  then show ?thesis using assms(2) by blast
qed

lemma write_cleanup_ledger_made:
  assumes "on_world (write_cleanup_ledger (rn_os r) root_dir pending) nd = (e, nd')"
  shows "\<exists>tr. made nd nd' tr \<and> ledger_failed root_dir pending tr \<and>
    (e = None \<longrightarrow> tr = ledger_written root_dir pending)"
proof -
  let ?tmp = "path_join [root_dir, prepared_cleanup_ledger_temp_name]"
  let ?led = "path_join [root_dir, prepared_cleanup_ledger_name]"
  obtain e1 w1 where w1: "os_write_synced (rn_os r) ?tmp (json_strings pending) (nd_world nd) = (e1, w1)" by force
  obtain e2 w2 where w2: "os_rename (rn_os r) ?tmp ?led w1 = (e2, w2)" by force
  obtain e3 w3 where w3: "os_sync_dir (rn_os r) root_dir w2 = (e3, w3)" by force
  note c = wrote [OF w1] renamed [OF w2] sync [of root_dir w2] w3
  show ?thesis
  proof (cases "e1 = None \<and> e2 = None")
    case True
    then have "made nd nd' (ledger_written root_dir pending)"
      using assms w1 w2 c by (auto simp: on_world_def write_cleanup_ledger_def made_def ledger_written_def Let_def)
    then show ?thesis by (auto simp: ledger_failed_def Let_def)
  next
    case False
    show ?thesis
    proof (cases e1)
      case (Some x)
      then have "made nd nd' [WroteFile ?tmp (json_strings pending) (Some x)]" "e = Some x"
        using assms w1 c by (auto simp: on_world_def write_cleanup_ledger_def made_def Let_def)
      then show ?thesis by (auto simp: ledger_failed_def Let_def)
    next
      case None
      then obtain x where "e2 = Some x" using False by auto
      then have "made nd nd' [WroteFile ?tmp (json_strings pending) None, Renamed ?tmp ?led (Some x)]" "e = Some x"
        using assms w1 w2 c None by (auto simp: on_world_def write_cleanup_ledger_def made_def Let_def)
      then show ?thesis by (auto simp: ledger_failed_def Let_def)
    qed
  qed
qed

lemma release_loop_made:
  assumes "rn_client r \<noteq> None"
  shows "release_loop r ctx root_dir n pending nd = Some ((m, stop), nd') \<Longrightarrow>
    \<exists>tr. made nd nd' tr \<and> release_trace root_dir pending (stop = Inr None) tr \<and>
      (stop = Inr None \<longrightarrow> m = n + int (length (filter (\<lambda>p. has_prefix p ''children/'') pending)))"
proof (induction pending arbitrary: n nd)
  case Nil
  then show ?case by (auto intro: release_trace.finished)
next
  case (Cons rel rest)
  let ?path = "path_join [root_dir, rel]"
  show ?case
  proof (cases "pending_spore_error r ?path rel (nd_world nd)")
    case (Some e)
    then show ?thesis using Cons.prems release_trace.stopped by (auto simp: Let_def)
  next
    case None
    then obtain err nd1 where rm: "remove_prepared_spore r ctx ?path nd = Some (err, nd1)"
      using Cons.prems by (auto simp: Let_def Option.bind_eq_Some_conv)
    from remove_prepared_spore_made [OF assms rm]
    obtain tr where tr: "made nd nd1 tr" "removal ?path (err = None) tr" by auto
    show ?thesis
    proof (cases err)
      case (Some e)
      then show ?thesis using Cons.prems None rm tr release_trace.failed [of root_dir rel tr rest]
        by (auto simp: Let_def)
    next
      case err: None
      obtain e nd2 where w: "on_world (write_cleanup_ledger (rn_os r) root_dir (Some rest)) nd1 = (e, nd2)" by force
      from write_cleanup_ledger_made [OF w] obtain tr1 where
        tr1: "made nd1 nd2 tr1" "ledger_failed root_dir (Some rest) tr1"
          "e = None \<longrightarrow> tr1 = ledger_written root_dir (Some rest)" by blast
      have m2: "made nd nd2 (tr @ tr1)" by (rule made_trans [OF tr(1) tr1(1)])
      show ?thesis
      proof (cases e)
        case (Some x)
        then have "stop = Inl x" "nd' = nd2" using Cons.prems None rm err w by (auto simp: Let_def)
        then show ?thesis using m2 release_trace.unrecorded [OF _ tr1(2), of rel tr] tr(2) err by auto
      next
        case e: None
        obtain n1 where n1: "release_loop r ctx root_dir n1 rest nd2 = Some ((m, stop), nd')"
          "n1 = (if has_prefix rel ''children/'' then n + 1 else n)"
          using Cons.prems None rm err w e by (auto simp: Let_def)
        from Cons.IH [OF n1(1)] obtain tr2 where tr2: "made nd2 nd' tr2"
          "release_trace root_dir rest (stop = Inr None) tr2"
          "stop = Inr None \<longrightarrow> m = n1 + int (length (filter (\<lambda>p. has_prefix p ''children/'') rest))" by blast
        have "release_trace root_dir (rel # rest) (stop = Inr None) (tr @ ledger_written root_dir (Some rest) @ tr2)"
          using release_trace.onward [OF _ tr2(2)] tr(2) err by simp
        moreover have "made nd nd' (tr @ ledger_written root_dir (Some rest) @ tr2)"
          using made_trans [OF m2 tr2(1)] tr1(3) e by simp
        ultimately show ?thesis using tr2(3) n1(2) by (intro exI conjI) auto
      qed
    qed
  qed
qed

end

interpretation traced: node_env "traced_runner r" snd for r
  by unfold_locales
    (auto simp: traced_runner_def traced_client_def traced_os_def traced_call_def split: prod.splits)


section \<open>Releases\<close>

definition bookkeeping :: "node_call \<Rightarrow> bool" where
  "bookkeeping c \<longleftrightarrow> (case c of WroteFile _ _ _ \<Rightarrow> True | Renamed _ _ _ \<Rightarrow> True | _ \<Rightarrow> False)"

text \<open>How a release ends: \<open>absent\<close> when there is nothing to release, \<open>ledger\<close> what
  \<open>loadOrCreateCleanupLedger\<close> gives.\<close>

inductive release_outcome :: "string \<Rightarrow> bool \<Rightarrow> gerr + string list \<Rightarrow> prepared_run_cleanup \<times> gerr option
    \<Rightarrow> node_call list \<Rightarrow> bool" for root_dir absent ledger where
  nothing: "\<lbrakk>absent; prc_removedChildren res = 0\<rbrakk> \<Longrightarrow> release_outcome root_dir absent ledger (res, None) []"
| refused: "list_all bookkeeping tr \<Longrightarrow> release_outcome root_dir absent ledger (res, Some e) tr"
| interrupted: "\<lbrakk>ledger = Inr pending; list_all bookkeeping tr; release_trace root_dir pending False tr'\<rbrakk>
    \<Longrightarrow> release_outcome root_dir absent ledger (res, Some e) (tr @ tr')"
| removed: "\<lbrakk>ledger = Inr pending; list_all bookkeeping tr; release_trace root_dir pending True tr';
      prc_removedChildren res = int (length (filter (\<lambda>p. has_prefix p ''children/'') pending))\<rbrakk>
    \<Longrightarrow> release_outcome root_dir absent ledger (res, err) (tr @ tr' @ [DeletedDir root_dir err])"

lemma due_bookkeeping: "list_all bookkeeping tr \<Longrightarrow> due_after due tr = due"
  by (induction due tr rule: due_after.induct) (auto simp: bookkeeping_def)

lemma ledger_bookkeeping: "ledger_failed root_dir pending tr \<Longrightarrow> list_all bookkeeping tr"
  by (auto simp: ledger_failed_def ledger_written_def bookkeeping_def Let_def)

definition prepared_absent :: "'w runner \<Rightarrow> run \<Rightarrow> 'w \<Rightarrow> bool" where
  "prepared_absent r run w \<longleftrightarrow>
     (case os_lstat (rn_os r) (prepare_work_dir (rn_workRoot r) run) w of
        Inl e \<Rightarrow> errors_is OsErrNotExist e | Inr _ \<Rightarrow> False)"

definition cleanup_ledger :: "'w runner \<Rightarrow> run \<Rightarrow> 'w \<Rightarrow> gerr + string list" where
  "cleanup_ledger r run w = fst (load_or_create_cleanup_ledger (rn_os r) (rn_unmarshal_strings r)
     (prepare_work_dir (rn_workRoot r) run) w)"

context node_env
begin

lemma load_ledger_made:
  assumes "on_world (load_or_create_cleanup_ledger (rn_os r) unmarshal root_dir) nd = (x, nd')"
  shows "\<exists>tr. made nd nd' tr \<and> list_all bookkeeping tr"
proof -
  let ?tmp = "path_join [root_dir, prepared_cleanup_ledger_temp_name]"
  let ?led = "path_join [root_dir, prepared_cleanup_ledger_name]"
  obtain e2 w2 where w2: "os_rename (rn_os r) ?tmp ?led (nd_world nd) = (e2, w2)" by force
  obtain e3 w3 where w3: "os_sync_dir (rn_os r) root_dir w2 = (e3, w3)" by force
  have calls: "calls w3 = calls (nd_world nd) @ [Renamed ?tmp ?led e2]" "calls w2 = calls w3"
    using renamed [OF w2] sync [of root_dir w2] w3 by auto
  define ps where "ps = new_cleanup_ledger (rn_os r) root_dir (nd_world nd)"
  consider (same) "nd' = nd"
    | (moved) "nd_world nd' = w2 \<or> nd_world nd' = w3" "nd_gcPending nd' = nd_gcPending nd"
    | (new) pending e where "on_world (write_cleanup_ledger (rn_os r) root_dir pending) nd = (e, nd')"
    using assms w2 w3
    by (fastforce simp: load_or_create_cleanup_ledger_def on_world_def Let_def
      split: option.splits sum.splits if_splits prod.splits)
  then show ?thesis
  proof cases
    case same
    then show ?thesis by (intro exI [of _ "[]"]) simp
  next
    case moved
    then show ?thesis using calls
      by (intro exI [of _ "[Renamed ?tmp ?led e2]"]) (auto simp: made_def bookkeeping_def)
  next
    case new
    then show ?thesis using write_cleanup_ledger_made ledger_bookkeeping by blast
  qed
qed

lemma release_root_made:
  assumes "rn_client r \<noteq> None" "release_root r ctx run root_dir nd = Some (y, nd')"
  shows "\<exists>tr. made nd nd' tr \<and> release_outcome root_dir absent
    (fst (load_or_create_cleanup_ledger (rn_os r) (rn_unmarshal_strings r) root_dir (nd_world nd))) y tr"
proof -
  let ?load = "load_or_create_cleanup_ledger (rn_os r) (rn_unmarshal_strings r) root_dir"
  obtain x nd1 where l: "on_world ?load nd = (x, nd1)" by force
  have x: "x = fst (?load (nd_world nd))" using l by (auto simp: on_world_def split: prod.splits)
  from load_ledger_made [OF l] obtain tr where tr: "made nd nd1 tr" "list_all bookkeeping tr" by blast
  show ?thesis
  proof (cases x)
    case (Inl e)
    then show ?thesis using assms(2) l tr release_outcome.refused by (auto simp: release_root_def Let_def)
  next
    case (Inr pending)
    then obtain m stop nd2 where lp: "release_loop r ctx root_dir 0 pending nd1 = Some ((m, stop), nd2)"
      using assms(2) l by (auto simp: release_root_def Let_def Option.bind_eq_Some_conv)
    from release_loop_made [OF assms(1) lp] obtain tr1 where tr1: "made nd1 nd2 tr1"
      "release_trace root_dir pending (stop = Inr None) tr1"
      "stop = Inr None \<longrightarrow> m = int (length (filter (\<lambda>p. has_prefix p ''children/'') pending))" by auto
    have m12: "made nd nd2 (tr @ tr1)" by (rule made_trans [OF tr(1) tr1(1)])
    have ledger: "fst (?load (nd_world nd)) = Inr pending" using x Inr by simp
    show ?thesis
    proof (cases "stop = Inr None")
      case False
      then obtain res e where "y = (res, Some e)" "nd' = nd2"
        using assms(2) l Inr lp by (cases stop) (auto simp: release_root_def Let_def errors_join_def List.map_filter_simps)
      then show ?thesis
        using m12 False release_outcome.interrupted [OF ledger tr(2), of root_dir tr1] tr1(2) by auto
    next
      case True
      obtain e nd3 where rm: "on_world (os_remove_all (rn_os r) root_dir) nd2 = (e, nd3)" by force
      have m3: "made nd2 nd3 [DeletedDir root_dir e]"
        using rm deleted [of root_dir "nd_world nd2"] by (auto simp: on_world_def made_def split: prod.splits)
      have y: "y = (\<lparr>prc_runID = run_runID run, prc_removedChildren = m\<rparr>, e)" "nd' = nd3"
        using assms(2) l Inr lp True rm
      by (auto simp: release_root_def Let_def errors_join_def List.map_filter_simps split: option.splits)
      show ?thesis
        using made_trans [OF m12 m3] y tr1 True
          release_outcome.removed [OF ledger tr(2), of root_dir tr1 "\<lparr>prc_runID = run_runID run, prc_removedChildren = m\<rparr>"]
        by auto
    qed
  qed
qed

lemma release_prepared_run_made:
  assumes "release_prepared_run r ctx run nd = Some (y, nd')"
  shows "\<exists>tr. made nd nd' tr \<and>
    release_outcome (prepare_work_dir (rn_workRoot r) run) (prepared_absent r run (nd_world nd))
      (cleanup_ledger r run (nd_world nd)) y tr"
proof (cases "y = (\<lparr>prc_runID = run_runID run, prc_removedChildren = 0\<rparr>, None) \<and> nd' = nd \<and> prepared_absent r run (nd_world nd)")
  case True
  then show ?thesis using release_outcome.nothing by fastforce
next
  case F: False
  show ?thesis
  proof (cases "nd' = nd \<and> snd y \<noteq> None")
    case True
    then show ?thesis using release_outcome.refused [of "[]"] by (cases y) (auto intro!: exI [of _ "[]"])
  next
    case False
    then have "rn_client r \<noteq> None \<and> release_root r ctx run (prepare_work_dir (rn_workRoot r) run) nd = Some (y, nd')"
      using F assms
      by (auto simp: release_prepared_run_def prepared_absent_def Let_def first_err_cases check_def split: option.splits sum.splits if_splits)
    then show ?thesis using release_root_made unfolding cleanup_ledger_def by blast
  qed
qed

end

text \<open>C24: releasing a prepared run deletes its directory only after every spore of its ledger was
  removed through SporeVM, in order, and after each removal the ledger was replaced by what is
  left; then it reports the number of children removed. A release that stops early has removed
  the spores of the ledger in order up to there and reports an error, and one that reports none
  has deleted the directory or found none.\<close>

theorem release_spores_first:
  assumes "release_prepared_run (traced_runner r) ctx run nd = Some (y, nd')"
  shows "\<exists>tr. snd (nd_world nd') = snd (nd_world nd) @ tr \<and>
    release_outcome (prepare_work_dir (rn_workRoot r) run) (prepared_absent (traced_runner r) run (nd_world nd))
      (cleanup_ledger (traced_runner r) run (nd_world nd)) y tr"
  using traced.release_prepared_run_made [OF assms]
  by (auto simp: traced.made_def traced_runner_def)

end
