(* ===== verification/Sandbox.thy ===== *)
theory Sandbox
  imports Slots
begin

text \<open>
  The sandbox registry of an agent (\<open>internal/agent/interactive.go\<close>): \<open>CreateSandbox\<close>,
  \<open>RemoveSandbox\<close>, \<open>ExecSandbox\<close> and the other users of execution slots (\<open>RunShard\<close>,
  \<open>RunChild\<close>, \<open>Run\<close>) running at once. A step is one critical section of the registry's or
  the limiter's mutex, or one call of the SporeVM client; a running call is a program
  point, and steps of different calls interleave freely.

  The registry \<open>r.sandboxes\<close> maps a name to its release closure; \<open>nil\<close> (here \<open>None\<close>) marks
  a name whose creation or removal is under way.
\<close>

section \<open>The registry's operations\<close>

type_synonym registry = "string \<rightharpoonup> nat option"

record sandbox_create_request =
  scq_name :: string
  scq_image :: string
  scq_memory :: string

text \<open>\<open>strings.Cut\<close> with a separator of several characters, and \<open>hex.DecodeString\<close>.\<close>

fun cut_at :: "string \<Rightarrow> string \<Rightarrow> (string \<times> string) option" where
  "cut_at sep [] = (if sep = [] then Some ([], []) else None)"
| "cut_at sep (c # s) =
     (if has_prefix (c # s) sep then Some ([], drop (length sep) (c # s))
      else map_option (\<lambda>(pre, rest). (c # pre, rest)) (cut_at sep s))"

fun hex_decode :: "string \<Rightarrow> string option" where
  "hex_decode [] = Some []"
| "hex_decode [c] = None"
| "hex_decode (c # d # s) =
     (if is_hex c \<and> is_hex d then map_option (\<lambda>t. char_of (16 * hex_val c + hex_val d) # t) (hex_decode s) else None)"

definition validate_pinned_image :: "string \<Rightarrow> gerr option" where
  "validate_pinned_image img =
     (let bad = Some (errorf ErrMutableImage ''use registry/repository@sha256:<digest>'') in
      case cut_at ''@sha256:'' img of
        None \<Rightarrow> bad
      | Some (repo, digest) \<Rightarrow>
          if repo = [] \<or> CHR ''@'' \<in> set repo \<or> length digest \<noteq> 64 \<or> CHR ''@'' \<in> set digest then bad
          else (case hex_decode digest of
              None \<Rightarrow> bad
            | Some decoded \<Rightarrow> if length decoded \<noteq> 32 then bad else None))"

definition sandbox_create_validate :: "sandbox_create_request \<Rightarrow> gerr option" where
  "sandbox_create_validate r = first_err
     [check (scq_name r = []) (invalid_spore_request ''sandbox name is required''), validate_pinned_image (scq_image r)]"

definition reserve_sandbox :: "string \<Rightarrow> registry \<Rightarrow> gerr option \<times> registry" where
  "reserve_sandbox name m =
     (if m name \<noteq> None then (Some (errorf ErrSandboxExists name), m) else (None, m(name \<mapsto> None)))"

definition clear_sandbox_reservation :: "string \<Rightarrow> registry \<Rightarrow> registry" where
  "clear_sandbox_reservation name m = m(name := None)"

definition activate_sandbox :: "string \<Rightarrow> nat \<Rightarrow> registry \<Rightarrow> registry" where
  "activate_sandbox name release m = m(name \<mapsto> Some release)"

definition sandbox_ready :: "string \<Rightarrow> registry \<Rightarrow> gerr option" where
  "sandbox_ready name m =
     (case m name of
        None \<Rightarrow> Some (invalid_spore_request (''sandbox '' @ go_quote name @ '' is not owned by this agent''))
      | Some None \<Rightarrow> Some (errorf ErrSandboxBusy name)
      | Some (Some _) \<Rightarrow> None)"

text \<open>\<open>sandboxRelease\<close>: \<open>Inr None\<close> is a name the registry does not track.\<close>

definition sandbox_release :: "string \<Rightarrow> registry \<Rightarrow> (gerr + nat option) \<times> registry" where
  "sandbox_release name m =
     (case m name of
        None \<Rightarrow> (Inr None, m)
      | Some None \<Rightarrow> (Inl (errorf ErrSandboxBusy name), m)
      | Some (Some h) \<Rightarrow> (Inr (Some h), m(name \<mapsto> None)))"

section \<open>Steps\<close>

datatype agent_call =
    Idle
  | CreateStart sandbox_create_request
  | CreateAdmitted string nat
  | CreateRejected nat gerr
  | CreateTemplate string nat
  | CreateRestore string nat
  | CreateRestored string nat
  | CreateFailed string nat gerr
  | CreateAbort string nat gerr
  | CreateRelease nat gerr
  | RemoveStart remove_vm_request
  | RemoveVM string nat
  | RemoveForget string nat
  | RemoveRelease nat
  | RemoveUntracked string
  | ExecStart exec_request
  | ExecRunning string
  | SlotsStart int
  | SlotsHeld nat
  | Returned "gerr option"

inductive call_step :: "slot_pool \<times> registry \<times> agent_call \<Rightarrow> slot_pool \<times> registry \<times> agent_call \<Rightarrow> bool" where
  create_invalid: "sandbox_create_validate req = Some e \<Longrightarrow>
     call_step (p, m, CreateStart req) (p, m, Returned (Some e))"
| create_refused: "sandbox_create_validate req = None \<Longrightarrow> admit_one pressure p = (Inl e, p') \<Longrightarrow>
     call_step (p, m, CreateStart req) (p', m, Returned (Some e))"
| create_admitted: "sandbox_create_validate req = None \<Longrightarrow> admit_one pressure p = (Inr h, p') \<Longrightarrow>
     call_step (p, m, CreateStart req) (p', m, CreateAdmitted (scq_name req) h)"
| reserve_failed: "reserve_sandbox n m = (Some e, m') \<Longrightarrow>
     call_step (p, m, CreateAdmitted n h) (p, m', CreateRejected h e)"
| reserved: "reserve_sandbox n m = (None, m') \<Longrightarrow>
     call_step (p, m, CreateAdmitted n h) (p, m', CreateTemplate n h)"
| rejected: "call_step (p, m, CreateRejected h e) (call_release h p, m, Returned (Some e))"
| template_failed: "call_step (p, m, CreateTemplate n h) (p, m, CreateAbort n h e)"
| template_ready: "call_step (p, m, CreateTemplate n h) (p, m, CreateRestore n h)"
| restored: "named_lifecycle_validate_restored result n = None \<Longrightarrow>
     call_step (p, m, CreateRestore n h) (p, m, CreateRestored n h)"
| restore_failed: "call_step (p, m, CreateRestore n h) (p, m, CreateFailed n h e)"
| activated: "call_step (p, m, CreateRestored n h) (p, activate_sandbox n h m, Returned None)"
| cleanup_failed: "call_step (p, m, CreateFailed n h e) (p, activate_sandbox n h m,
     Returned (errors_join [Some e, Some (Wrap (''cleanup sandbox '' @ go_quote n @ '': '') e2 [])]))"
| cleanup_done: "call_step (p, m, CreateFailed n h e) (p, m, CreateAbort n h e)"
| abort: "call_step (p, m, CreateAbort n h e) (p, clear_sandbox_reservation n m, CreateRelease h e)"
| create_released: "call_step (p, m, CreateRelease h e) (call_release h p, m, Returned (Some e))"
| remove_invalid: "remove_vm_request_validate req = Some e \<Longrightarrow>
     call_step (p, m, RemoveStart req) (p, m, Returned (Some e))"
| remove_busy: "remove_vm_request_validate req = None \<Longrightarrow> sandbox_release (rvq_name req) m = (Inl e, m') \<Longrightarrow>
     call_step (p, m, RemoveStart req) (p, m', Returned (Some e))"
| remove_untracked: "remove_vm_request_validate req = None \<Longrightarrow> sandbox_release (rvq_name req) m = (Inr None, m') \<Longrightarrow>
     call_step (p, m, RemoveStart req) (p, m', RemoveUntracked (rvq_name req))"
| remove_tracked: "remove_vm_request_validate req = None \<Longrightarrow> sandbox_release (rvq_name req) m = (Inr (Some h), m') \<Longrightarrow>
     call_step (p, m, RemoveStart req) (p, m', RemoveVM (rvq_name req) h)"
| remove_vm_failed: "call_step (p, m, RemoveVM n h) (p, activate_sandbox n h m, Returned (Some e))"
| remove_vm_done: "call_step (p, m, RemoveVM n h) (p, m, RemoveForget n h)"
| forgotten: "call_step (p, m, RemoveForget n h) (p, m(n := None), RemoveRelease h)"
| remove_released: "call_step (p, m, RemoveRelease h) (call_release h p, m, Returned None)"
| untracked_removed: "call_step (p, m, RemoveUntracked n) (p, m, Returned e)"
| exec_invalid: "exec_request_validate req = Some e \<Longrightarrow>
     call_step (p, m, ExecStart req) (p, m, Returned (Some e))"
| exec_refused: "exec_request_validate req = None \<Longrightarrow> sandbox_ready (exq_name req) m = Some e \<Longrightarrow>
     call_step (p, m, ExecStart req) (p, m, Returned (Some e))"
| exec_ready: "exec_request_validate req = None \<Longrightarrow> sandbox_ready (exq_name req) m = None \<Longrightarrow>
     call_step (p, m, ExecStart req) (p, m, ExecRunning (exq_name req))"
| exec_done: "call_step (p, m, ExecRunning n) (p, m, Returned e)"
| slots_refused: "admit_slots k pressure p = (Inl e, p') \<Longrightarrow>
     call_step (p, m, SlotsStart k) (p', m, Returned (Some e))"
| slots_taken: "admit_slots k pressure p = (Inr h, p') \<Longrightarrow>
     call_step (p, m, SlotsStart k) (p', m, SlotsHeld h)"
| slots_released: "call_step (p, m, SlotsHeld h) (call_release h p, m, Returned e)"

text \<open>The calls an agent accepts.\<close>

definition starts_call :: "agent_call \<Rightarrow> bool" where
  "starts_call c \<longleftrightarrow> (case c of CreateStart _ \<Rightarrow> True | RemoveStart _ \<Rightarrow> True | ExecStart _ \<Rightarrow> True
     | SlotsStart _ \<Rightarrow> True | _ \<Rightarrow> False)"

record agent_world =
  aw_pool :: slot_pool
  aw_registry :: registry
  aw_calls :: "nat \<Rightarrow> agent_call"

inductive agent_step :: "agent_world \<Rightarrow> agent_world \<Rightarrow> bool" where
  accept: "aw_calls s i = Idle \<Longrightarrow> starts_call c \<Longrightarrow>
     agent_step s (s\<lparr>aw_calls := (aw_calls s)(i := c)\<rparr>)"
| progress: "call_step (aw_pool s, aw_registry s, aw_calls s i) (p', m', c') \<Longrightarrow>
     agent_step s \<lparr>aw_pool = p', aw_registry = m', aw_calls = (aw_calls s)(i := c')\<rparr>"

inductive agent_reachable :: "int \<Rightarrow> agent_world \<Rightarrow> bool" for n :: int where
  start: "1 \<le> n \<Longrightarrow> agent_reachable n \<lparr>aw_pool = fresh_pool n, aw_registry = Map.empty, aw_calls = (\<lambda>_. Idle)\<rparr>"
| step: "agent_reachable n s \<Longrightarrow> agent_step s s' \<Longrightarrow> agent_reachable n s'"

inductive_cases call_stepE: "call_step (p, m, c) (p', m', c')"

section \<open>Who owns what\<close>

text \<open>The closure and the reserved name a call holds at each of its program points.\<close>

fun call_closure :: "agent_call \<Rightarrow> nat option" where
  "call_closure (CreateAdmitted n h) = Some h"
| "call_closure (CreateRejected h e) = Some h"
| "call_closure (CreateTemplate n h) = Some h"
| "call_closure (CreateRestore n h) = Some h"
| "call_closure (CreateRestored n h) = Some h"
| "call_closure (CreateFailed n h e) = Some h"
| "call_closure (CreateAbort n h e) = Some h"
| "call_closure (CreateRelease h e) = Some h"
| "call_closure (RemoveVM n h) = Some h"
| "call_closure (RemoveForget n h) = Some h"
| "call_closure (RemoveRelease h) = Some h"
| "call_closure (SlotsHeld h) = Some h"
| "call_closure _ = None"

fun call_reserved :: "agent_call \<Rightarrow> string option" where
  "call_reserved (CreateTemplate n h) = Some n"
| "call_reserved (CreateRestore n h) = Some n"
| "call_reserved (CreateRestored n h) = Some n"
| "call_reserved (CreateFailed n h e) = Some n"
| "call_reserved (CreateAbort n h e) = Some n"
| "call_reserved (RemoveVM n h) = Some n"
| "call_reserved (RemoveForget n h) = Some n"
| "call_reserved _ = None"

fun holds_many :: "agent_call \<Rightarrow> bool" where
  "holds_many (SlotsHeld h) = True"
| "holds_many _ = False"

definition owners_ok :: "slot_pool \<Rightarrow> registry \<Rightarrow> (nat \<Rightarrow> agent_call) \<Rightarrow> bool" where
  "owners_ok p m cs \<longleftrightarrow>
     pool_ok p \<and> finite (dom m) \<and>
     (\<forall>i j h. call_closure (cs i) = Some h \<and> call_closure (cs j) = Some h \<longrightarrow> i = j) \<and>
     (\<forall>a b h. m a = Some (Some h) \<and> m b = Some (Some h) \<longrightarrow> a = b) \<and>
     (\<forall>i a h. call_closure (cs i) = Some h \<longrightarrow> m a \<noteq> Some (Some h)) \<and>
     (\<forall>h. h \<in> dom (pool_held p) \<longleftrightarrow> (\<exists>i. call_closure (cs i) = Some h) \<or> (\<exists>a. m a = Some (Some h))) \<and>
     (\<forall>a. m a = Some None \<longleftrightarrow> (\<exists>i. call_reserved (cs i) = Some a)) \<and>
     (\<forall>i j a. call_reserved (cs i) = Some a \<and> call_reserved (cs j) = Some a \<longrightarrow> i = j) \<and>
     (\<forall>a h. m a = Some (Some h) \<longrightarrow> pool_held p h = Some 1) \<and>
     (\<forall>i h. \<not> holds_many (cs i) \<and> call_closure (cs i) = Some h \<longrightarrow> pool_held p h = Some 1)"

lemma owners_same:
  assumes "owners_ok p m cs" "call_closure c = call_closure (cs i)" "call_reserved c = call_reserved (cs i)"
    "holds_many c = holds_many (cs i)"
  shows "owners_ok p m (cs(i := c))"
proof -
  have "(\<lambda>j. call_closure ((cs(i := c)) j)) = (\<lambda>j. call_closure (cs j))"
    "(\<lambda>j. call_reserved ((cs(i := c)) j)) = (\<lambda>j. call_reserved (cs j))"
    "(\<lambda>j. holds_many ((cs(i := c)) j)) = (\<lambda>j. holds_many (cs j))"
    using assms(2-4) by auto
  then have "call_closure ((cs(i := c)) j) = call_closure (cs j)"
    "call_reserved ((cs(i := c)) j) = call_reserved (cs j)" "holds_many ((cs(i := c)) j) = holds_many (cs j)" for j
    by metis+
  then show ?thesis using assms(1) unfolding owners_ok_def by simp
qed

text \<open>The other calls and the other names, to split an existential at one of them.\<close>

definition else_closure :: "(nat \<Rightarrow> agent_call) \<Rightarrow> nat \<Rightarrow> nat \<Rightarrow> bool" where
  "else_closure cs i h \<longleftrightarrow> (\<exists>j. j \<noteq> i \<and> call_closure (cs j) = Some h)"

definition else_reserved :: "(nat \<Rightarrow> agent_call) \<Rightarrow> nat \<Rightarrow> string \<Rightarrow> bool" where
  "else_reserved cs i a \<longleftrightarrow> (\<exists>j. j \<noteq> i \<and> call_reserved (cs j) = Some a)"

definition else_registered :: "registry \<Rightarrow> string \<Rightarrow> nat \<Rightarrow> bool" where
  "else_registered m a h \<longleftrightarrow> (\<exists>b. b \<noteq> a \<and> m b = Some (Some h))"

lemma ex_upd:
  "(\<exists>j. call_closure ((cs(i := c)) j) = Some h) \<longleftrightarrow> call_closure c = Some h \<or> else_closure cs i h"
  "(\<exists>j. call_reserved ((cs(i := c)) j) = Some a) \<longleftrightarrow> call_reserved c = Some a \<or> else_reserved cs i a"
  "(\<exists>b. (m(a := x)) b = Some (Some h)) \<longleftrightarrow> x = Some (Some h) \<or> else_registered m a h"
  by (auto simp: else_closure_def else_reserved_def else_registered_def)

lemma ex_split:
  "(\<exists>j. call_closure (cs j) = Some h) \<longleftrightarrow> call_closure (cs i) = Some h \<or> else_closure cs i h"
  "(\<exists>j. call_reserved (cs j) = Some a) \<longleftrightarrow> call_reserved (cs i) = Some a \<or> else_reserved cs i a"
  "(\<exists>b. m b = Some (Some h)) \<longleftrightarrow> m a = Some (Some h) \<or> else_registered m a h"
  by (auto simp: else_closure_def else_reserved_def else_registered_def)

text \<open>The invariant's parts, by name.\<close>

lemma ownersD:
  assumes "owners_ok p m cs"
  shows owners_pool: "pool_ok p" and owners_finite: "finite (dom m)"
    and owners_call_inj: "\<And>i j h. call_closure (cs i) = Some h \<Longrightarrow> call_closure (cs j) = Some h \<Longrightarrow> i = j"
    and owners_reg_inj: "\<And>a b h. m a = Some (Some h) \<Longrightarrow> m b = Some (Some h) \<Longrightarrow> a = b"
    and owners_disjoint: "\<And>i a h. call_closure (cs i) = Some h \<Longrightarrow> m a \<noteq> Some (Some h)"
    and owners_held: "\<And>h. h \<in> dom (pool_held p) \<longleftrightarrow> (\<exists>i. call_closure (cs i) = Some h) \<or> (\<exists>a. m a = Some (Some h))"
    and owners_reserved: "\<And>a. m a = Some None \<longleftrightarrow> (\<exists>i. call_reserved (cs i) = Some a)"
    and owners_reserved_inj: "\<And>i j a. call_reserved (cs i) = Some a \<Longrightarrow> call_reserved (cs j) = Some a \<Longrightarrow> i = j"
    and owners_reg_one: "\<And>a h. m a = Some (Some h) \<Longrightarrow> pool_held p h = Some 1"
    and owners_call_one: "\<And>i h. \<not> holds_many (cs i) \<Longrightarrow> call_closure (cs i) = Some h \<Longrightarrow> pool_held p h = Some 1"
  using assms unfolding owners_ok_def by blast+

lemma owners_acquire:
  assumes inv: "owners_ok p m cs" and i: "call_closure (cs i) = None" "call_reserved (cs i) = None"
    and a: "try_acquire k p = (Some h, p')" and c: "call_closure c = Some h" "call_reserved c = None"
    "holds_many c \<or> k = 1"
  shows "owners_ok p' m (cs(i := c))"
proof -
  note d = ownersD [OF inv]
  have p': "pool_ok p'" "pool_held p h = None" "pool_held p' = (pool_held p)(h \<mapsto> k)"
    using limiter.acquired [OF d(1) a] by auto
  have fresh: "call_closure (cs j) \<noteq> Some h" "m b \<noteq> Some (Some h)" for j b
    using d(6) [of h] p'(2) by auto
  show ?thesis unfolding owners_ok_def
  proof (intro conjI allI impI)
    show "g \<in> dom (pool_held p') \<longleftrightarrow> (\<exists>j. call_closure ((cs(i := c)) j) = Some g) \<or> (\<exists>a. m a = Some (Some g))" for g
      unfolding ex_upd p'(3) dom_fun_upd using d(6) [of g] i c unfolding ex_split(1) [of cs _ i] by auto
    show "m a = Some None \<longleftrightarrow> (\<exists>j. call_reserved ((cs(i := c)) j) = Some a)" for a
      unfolding ex_upd d(7) ex_split(2) [of cs _ i] using i c by auto
  qed (use d p' fresh i c in \<open>auto simp: fun_upd_apply split: if_splits\<close>)
qed

lemma owners_release:
  assumes inv: "owners_ok p m cs" and i: "call_closure (cs i) = Some h" "call_reserved (cs i) = None"
    and c: "call_closure c = None" "call_reserved c = None"
  shows "owners_ok (call_release h p) m (cs(i := c))"
proof -
  note d = ownersD [OF inv]
  have p': "pool_ok (call_release h p)" "pool_held (call_release h p) = (pool_held p)(h := None)"
    using limiter.released [OF d(1), of h] by auto
  have only: "j \<noteq> i \<Longrightarrow> call_closure (cs j) \<noteq> Some h" "m b \<noteq> Some (Some h)" for j b
    using d(3,5) i(1) by blast+
  then have ne: "\<not> else_closure cs i h" "\<not> (\<exists>b. m b = Some (Some h))" by (auto simp: else_closure_def)
  show ?thesis unfolding owners_ok_def
  proof (intro conjI allI impI)
    show "g \<in> dom (pool_held (call_release h p)) \<longleftrightarrow>
        (\<exists>j. call_closure ((cs(i := c)) j) = Some g) \<or> (\<exists>a. m a = Some (Some g))" for g
      unfolding ex_upd p'(2) dom_fun_upd using d(6) [of g] i c ne unfolding ex_split(1) [of cs _ i]
      by (cases "g = h") simp_all
    show "m a = Some None \<longleftrightarrow> (\<exists>j. call_reserved ((cs(i := c)) j) = Some a)" for a
      unfolding ex_upd d(7) ex_split(2) [of cs _ i] using i c by auto
  qed (use d p' only i c in \<open>auto simp: fun_upd_apply split: if_splits\<close>)
qed

lemma owners_reserve:
  assumes inv: "owners_ok p m cs" and i: "call_closure (cs i) = call_closure c" "call_reserved (cs i) = None"
    and a: "m a = None" and c: "call_reserved c = Some a" "holds_many c = holds_many (cs i)"
  shows "owners_ok p (m(a \<mapsto> None)) (cs(i := c))"
proof -
  note d = ownersD [OF inv]
  have fresh: "call_reserved (cs j) \<noteq> Some a" for j using d(7) [of a] a by auto
  have cl: "call_closure ((cs(i := c)) j) = call_closure (cs j)" "holds_many ((cs(i := c)) j) = holds_many (cs j)" for j
    using i c by auto
  show ?thesis unfolding owners_ok_def cl
  proof (intro conjI allI impI)
    show "g \<in> dom (pool_held p) \<longleftrightarrow> (\<exists>j. call_closure (cs j) = Some g) \<or> (\<exists>b. (m(a \<mapsto> None)) b = Some (Some g))" for g
      unfolding ex_upd using d(6) [of g] a unfolding ex_split(3) [of m _ a] by auto
    show "(m(a \<mapsto> None)) b = Some None \<longleftrightarrow> (\<exists>j. call_reserved ((cs(i := c)) j) = Some b)" for b
      unfolding ex_upd using d(7) [of b] i c fresh unfolding ex_split(2) [of cs _ i] by auto
  qed (use d fresh i c in \<open>auto simp: fun_upd_apply split: if_splits\<close>)
qed

lemma owners_forget:
  assumes inv: "owners_ok p m cs" and i: "call_closure (cs i) = call_closure c" "call_reserved (cs i) = Some a"
    and c: "call_reserved c = None" "holds_many c = holds_many (cs i)"
  shows "owners_ok p (m(a := None)) (cs(i := c))"
proof -
  note d = ownersD [OF inv]
  have a: "m a = Some None" using d(7) i(2) by blast
  have only: "j \<noteq> i \<Longrightarrow> call_reserved (cs j) \<noteq> Some a" for j using d(8) i(2) by blast
  then have ne: "\<not> else_reserved cs i a" by (auto simp: else_reserved_def)
  have cl: "call_closure ((cs(i := c)) j) = call_closure (cs j)" "holds_many ((cs(i := c)) j) = holds_many (cs j)" for j
    using i c by auto
  show ?thesis unfolding owners_ok_def cl
  proof (intro conjI allI impI)
    show "g \<in> dom (pool_held p) \<longleftrightarrow> (\<exists>j. call_closure (cs j) = Some g) \<or> (\<exists>b. (m(a := None)) b = Some (Some g))" for g
      unfolding ex_upd using d(6) [of g] a unfolding ex_split(3) [of m _ a] by auto
    show "(m(a := None)) b = Some None \<longleftrightarrow> (\<exists>j. call_reserved ((cs(i := c)) j) = Some b)" for b
      unfolding ex_upd using d(7) [of b] i c ne unfolding ex_split(2) [of cs _ i]
      by (cases "b = a") auto
  qed (use d only i c in \<open>auto simp: fun_upd_apply split: if_splits\<close>)
qed

lemma owners_activate:
  assumes inv: "owners_ok p m cs" and i: "call_closure (cs i) = Some h" "call_reserved (cs i) = Some a"
    and c: "call_closure c = None" "call_reserved c = None" "\<not> holds_many (cs i)"
  shows "owners_ok p (m(a \<mapsto> Some h)) (cs(i := c))"
proof -
  note d = ownersD [OF inv]
  have a: "m a = Some None" using d(7) i(2) by blast
  have only: "j \<noteq> i \<Longrightarrow> call_reserved (cs j) \<noteq> Some a" "j \<noteq> i \<Longrightarrow> call_closure (cs j) \<noteq> Some h"
    "m b \<noteq> Some (Some h)" for j b using d(3,5,8) i by blast+
  then have ne: "\<not> else_reserved cs i a" "\<not> else_closure cs i h" "\<not> else_registered m a h"
    by (auto simp: else_reserved_def else_closure_def else_registered_def)
  have one: "pool_held p h = Some 1" using d(10) i(1) c(3) by blast
  show ?thesis unfolding owners_ok_def
  proof (intro conjI allI impI)
    show "g \<in> dom (pool_held p) \<longleftrightarrow>
        (\<exists>j. call_closure ((cs(i := c)) j) = Some g) \<or> (\<exists>b. (m(a \<mapsto> Some h)) b = Some (Some g))" for g
      unfolding ex_upd using d(6) [of g] a ne i c unfolding ex_split(1) [of cs _ i] ex_split(3) [of m _ a]
      by (cases "g = h") auto
    show "(m(a \<mapsto> Some h)) b = Some None \<longleftrightarrow> (\<exists>j. call_reserved ((cs(i := c)) j) = Some b)" for b
      unfolding ex_upd using d(7) [of b] i c ne unfolding ex_split(2) [of cs _ i]
      by (cases "b = a") auto
  qed (use d only one i c in \<open>auto simp: fun_upd_apply split: if_splits\<close>)
qed

lemma owners_take:
  assumes inv: "owners_ok p m cs" and i: "call_closure (cs i) = None" "call_reserved (cs i) = None"
    and a: "m a = Some (Some h)" and c: "call_closure c = Some h" "call_reserved c = Some a"
  shows "owners_ok p (m(a \<mapsto> None)) (cs(i := c))"
proof -
  note d = ownersD [OF inv]
  have only: "call_reserved (cs j) \<noteq> Some a" "call_closure (cs j) \<noteq> Some h" "m b = Some (Some h) \<Longrightarrow> b = a" for j b
    using d(4,5,7) a by (metis option.inject option.distinct(1))+
  then have ne: "\<not> else_reserved cs i a" "\<not> else_closure cs i h" "\<not> else_registered m a h"
    by (auto simp: else_reserved_def else_closure_def else_registered_def)
  have one: "pool_held p h = Some 1" using d(9) a by blast
  show ?thesis unfolding owners_ok_def
  proof (intro conjI allI impI)
    show "g \<in> dom (pool_held p) \<longleftrightarrow>
        (\<exists>j. call_closure ((cs(i := c)) j) = Some g) \<or> (\<exists>b. (m(a \<mapsto> None)) b = Some (Some g))" for g
      unfolding ex_upd using d(6) [of g] a ne i c unfolding ex_split(1) [of cs _ i] ex_split(3) [of m _ a]
      by (cases "g = h") auto
    show "(m(a \<mapsto> None)) b = Some None \<longleftrightarrow> (\<exists>j. call_reserved ((cs(i := c)) j) = Some b)" for b
      unfolding ex_upd using d(7) [of b] i c ne unfolding ex_split(2) [of cs _ i]
      by (cases "b = a") auto
  qed (use d only one i c in \<open>auto simp: fun_upd_apply split: if_splits\<close>)
qed


lemma call_step_owners:
  assumes "call_step (p, m, cs i) (p', m', c')" and inv: "owners_ok p m cs"
  shows "owners_ok p' m' (cs(i := c'))"
  using assms(1)
proof (cases rule: call_step.cases)
  case (create_refused req pressure e)
  then have "p' = p" by (auto simp: admit_one_def dest: admit_slots_Inl)
  then show ?thesis using owners_same [OF inv, of c' i] create_refused by simp
next
  case (create_admitted req pressure h)
  then show ?thesis using owners_acquire [OF inv, of i 1 h p' c'] admit_slots_Inr by (simp add: admit_one_def)
next
  case (reserve_failed n e h)
  then have "m' = m" by (auto simp: reserve_sandbox_def split: if_splits)
  then show ?thesis using owners_same [OF inv] reserve_failed by simp
next
  case (reserved n h)
  then have "m n = None" "m' = m(n \<mapsto> None)" by (auto simp: reserve_sandbox_def split: if_splits)
  then show ?thesis using owners_reserve [OF inv, of i c' n] reserved by simp
next
  case (rejected h e)
  then show ?thesis using owners_release [OF inv, of i h c'] by simp
next
  case (activated n h)
  then show ?thesis using owners_activate [OF inv, of i h n c'] by (simp add: activate_sandbox_def)
next
  case (cleanup_failed n h e e2)
  then show ?thesis using owners_activate [OF inv, of i h n c'] by (simp add: activate_sandbox_def)
next
  case (abort n h e)
  then show ?thesis using owners_forget [OF inv, of i c' n] by (simp add: clear_sandbox_reservation_def)
next
  case (create_released h e)
  then show ?thesis using owners_release [OF inv, of i h c'] by simp
next
  case (remove_busy req e)
  then have "m' = m" by (auto simp: sandbox_release_def split: option.splits)
  then show ?thesis using owners_same [OF inv] remove_busy by simp
next
  case (remove_untracked req)
  then have "m' = m" by (auto simp: sandbox_release_def split: option.splits)
  then show ?thesis using owners_same [OF inv] remove_untracked by simp
next
  case (remove_tracked req h)
  then have "m (rvq_name req) = Some (Some h)" "m' = m(rvq_name req \<mapsto> None)" by (auto simp: sandbox_release_def split: option.splits)
  then show ?thesis using owners_take [OF inv, of i "rvq_name req" h c'] remove_tracked by simp
next
  case (remove_vm_failed n h e)
  then show ?thesis using owners_activate [OF inv, of i h n c'] by (simp add: activate_sandbox_def)
next
  case (forgotten n h)
  then show ?thesis using owners_forget [OF inv, of i c' n] by simp
next
  case (remove_released h)
  then show ?thesis using owners_release [OF inv, of i h c'] by simp
next
  case (slots_refused k pressure e)
  then have "p' = p" by (auto dest: admit_slots_Inl)
  then show ?thesis using owners_same [OF inv, of c' i] slots_refused by simp
next
  case (slots_taken k pressure h)
  then show ?thesis using owners_acquire [OF inv, of i k h p' c'] admit_slots_Inr by simp
next
  case (slots_released h e)
  then show ?thesis using owners_release [OF inv, of i h c'] by simp
qed (use owners_same [OF inv] in simp_all)

lemma starts_call_owns: "starts_call c \<Longrightarrow> call_closure c = None \<and> call_reserved c = None \<and> \<not> holds_many c"
  by (cases c) (simp_all add: starts_call_def)

definition world_ok :: "int \<Rightarrow> agent_world \<Rightarrow> bool" where
  "world_ok n s \<longleftrightarrow> owners_ok (aw_pool s) (aw_registry s) (aw_calls s) \<and> pool_total (aw_pool s) = n"

lemma call_step_total: "call_step (p, m, c) (p', m', c') \<Longrightarrow> pool_total p' = pool_total p"
  by (erule call_stepE) (auto simp: admit_one_def call_release_def pool_total_def try_acquire_def
      dest!: admit_slots_Inl admit_slots_Inr split: if_splits)

lemma agent_step_ok: "agent_step s s' \<Longrightarrow> world_ok n s \<Longrightarrow> world_ok n s'"
proof (induction rule: agent_step.induct)
  case (accept s i c)
  then show ?case using owners_same [of "aw_pool s" "aw_registry s" "aw_calls s" c i] starts_call_owns [of c]
    by (simp add: world_ok_def)
next
  case (progress s i p' m' c')
  then show ?case using call_step_owners [where cs = "aw_calls s" and i = i, OF progress(1)] call_step_total [OF progress(1)]
    by (simp add: world_ok_def)
qed

lemma start_ok: "1 \<le> n \<Longrightarrow> world_ok n \<lparr>aw_pool = fresh_pool n, aw_registry = Map.empty, aw_calls = (\<lambda>_. Idle)\<rparr>"
  using fresh_pool_ok [of n] by (simp add: world_ok_def owners_ok_def)

lemma reachable_ok: "agent_reachable n s \<Longrightarrow> world_ok n s"
  by (induction rule: agent_reachable.induct) (auto intro: start_ok agent_step_ok)

section \<open>Properties\<close>

text \<open>In every state that concurrent sandbox creations, removals, executions and shard
  runs can reach, the slots of the agent are accounted for: when no call holds a closure or a
  reserved name, the available slots are the total less one for every registered sandbox.\<close>

lemma sandbox_slots:
  assumes "agent_reachable n s"
    "\<forall>i. call_closure (aw_calls s i) = None \<and> call_reserved (aw_calls s i) = None"
  shows "limiter_available (pool_limiter (aw_pool s)) = n - int (card (dom (aw_registry s))) \<and>
    (\<forall>a. a \<in> dom (aw_registry s) \<longrightarrow> sandbox_ready a (aw_registry s) = None)"
proof -
  let ?p = "aw_pool s" and ?m = "aw_registry s"
  have w: "owners_ok ?p ?m (aw_calls s)" "pool_total ?p = n" using reachable_ok [OF assms(1)] by (auto simp: world_ok_def)
  note d = ownersD [OF w(1)]
  have active: "\<exists>h. ?m a = Some (Some h)" if "a \<in> dom ?m" for a
    using that d(7) [of a] assms(2) by (cases "?m a") auto
  define f where "f a = the (the (?m a))" for a
  have f: "?m a = Some (Some (f a))" if "a \<in> dom ?m" for a using active [OF that] by (auto simp: f_def)
  have inj: "inj_on f (dom ?m)" using d(4) f by (intro inj_onI) metis
  have dom: "dom (pool_held ?p) = f ` dom ?m"
  proof (rule set_eqI)
    fix h
    have "h \<in> dom (pool_held ?p) \<longleftrightarrow> (\<exists>a. ?m a = Some (Some h))" using d(6) [of h] assms(2) by simp
    also have "\<dots> \<longleftrightarrow> h \<in> f ` dom ?m" by (rule iffI) (force simp: f_def, use f in force)
    finally show "h \<in> dom (pool_held ?p) \<longleftrightarrow> h \<in> f ` dom ?m" .
  qed
  have "(\<Sum>h\<in>dom (pool_held ?p). the (pool_held ?p h)) = (\<Sum>a\<in>dom ?m. the (pool_held ?p (f a)))"
    unfolding dom using inj by (simp add: sum.reindex)
  also have "\<dots> = (\<Sum>a\<in>dom ?m. 1)" 
  proof (rule sum.cong)
    show "the (pool_held ?p (f a)) = 1" if "a \<in> dom ?m" for a using d(9) [OF f [OF that]] by simp
  qed simp
  finally have "(\<Sum>h\<in>dom (pool_held ?p). the (pool_held ?p h)) = int (card (dom ?m))" by simp
  then have "pool_free ?p = n - int (card (dom ?m))"
    using limiter.accounts [OF d(1)] w(2) by linarith
  moreover have "sandbox_ready a ?m = None" if "a \<in> dom ?m" for a
    using f [OF that] by (simp add: sandbox_ready_def)
  ultimately show ?thesis by (simp add: pool_free_def)
qed

text \<open>C15: at most one running call owns a sandbox name between its reservation and its
  activation or removal, the registry shows that name as busy, and a closure is held by one
  call or one registered sandbox: no slot is given back twice.\<close>

theorem sandbox_exclusive:
  assumes "agent_reachable n s" "call_reserved (aw_calls s i) = Some a"
  shows "sandbox_ready a (aw_registry s) = Some (errorf ErrSandboxBusy a) \<and>
    fst (reserve_sandbox a (aw_registry s)) \<noteq> None \<and> isl (fst (sandbox_release a (aw_registry s))) \<and>
    (call_reserved (aw_calls s j) = Some a \<longrightarrow> j = i) \<and>
    (call_closure (aw_calls s i) = Some h \<longrightarrow> pool_held (aw_pool s) h \<noteq> None \<and>
       (call_closure (aw_calls s j) = Some h \<longrightarrow> j = i) \<and> aw_registry s b \<noteq> Some (Some h))"
proof -
  have "owners_ok (aw_pool s) (aw_registry s) (aw_calls s)" using reachable_ok [OF assms(1)] by (simp add: world_ok_def)
  note d = ownersD [OF this]
  have "aw_registry s a = Some None" using d(7) assms(2) by blast
  moreover have "pool_held (aw_pool s) h \<noteq> None" if "call_closure (aw_calls s i) = Some h"
    using d(6) [of h] that by auto
  ultimately show ?thesis using d(3) [of i h j] d(5) [of i h b] d(8) [of i a j] assms(2)
    by (auto simp: sandbox_ready_def reserve_sandbox_def sandbox_release_def)
qed

lemma cut_at_Some: "cut_at sep s = Some (pre, rest) \<Longrightarrow> s = pre @ sep @ rest"
proof (induction sep s arbitrary: pre rest rule: cut_at.induct)
  case (2 sep c s)
  then show ?case by (auto simp: has_prefix_iff split: if_splits)
qed (simp split: if_splits)

lemma cut_at_append:
  assumes "sep = c # sep'" "c \<notin> set pre"
  shows "cut_at sep (pre @ sep @ rest) = Some (pre, rest)"
  using assms(2)
proof (induction pre)
  case Nil
  then show ?case using has_prefix_append [of sep rest] assms(1) by simp
next
  case (Cons d pre)
  then show ?case by (auto simp: assms(1) has_prefix_def)
qed

lemma hex_decode_iff: "hex_decode s \<noteq> None \<longleftrightarrow> even (length s) \<and> list_all is_hex s"
  by (induction s rule: hex_decode.induct) auto

lemma hex_decode_length: "hex_decode s = Some t \<Longrightarrow> length s = 2 * length t"
  by (induction s arbitrary: t rule: hex_decode.induct) (auto split: if_splits)

text \<open>an image reference is accepted exactly when it is a repository without \<open>@\<close>,
  followed by \<open>@sha256:\<close> and 64 hexadecimal digits, so an interactive request always names
  immutable content.\<close>

lemma pinned_image_iff:
  "validate_pinned_image img = None \<longleftrightarrow>
     (\<exists>repo digest. img = repo @ ''@sha256:'' @ digest \<and> repo \<noteq> [] \<and> CHR ''@'' \<notin> set repo \<and>
        length digest = 64 \<and> list_all is_hex digest)"
proof
  assume "validate_pinned_image img = None"
  then obtain repo digest t where d: "cut_at ''@sha256:'' img = Some (repo, digest)" "repo \<noteq> []"
      "CHR ''@'' \<notin> set repo" "length digest = 64" "hex_decode digest = Some t"
    by (auto simp: validate_pinned_image_def Let_def split: option.splits if_splits)
  then show "\<exists>repo digest. img = repo @ ''@sha256:'' @ digest \<and> repo \<noteq> [] \<and> CHR ''@'' \<notin> set repo \<and>
        length digest = 64 \<and> list_all is_hex digest"
    using cut_at_Some [OF d(1)] hex_decode_iff [of digest] by blast
next
  assume "\<exists>repo digest. img = repo @ ''@sha256:'' @ digest \<and> repo \<noteq> [] \<and> CHR ''@'' \<notin> set repo \<and>
        length digest = 64 \<and> list_all is_hex digest"
  then obtain repo digest where d: "img = repo @ ''@sha256:'' @ digest" "repo \<noteq> []"
      "CHR ''@'' \<notin> set repo" "length digest = 64" "list_all is_hex digest" by blast
  have c: "cut_at ''@sha256:'' img = Some (repo, digest)"
    unfolding d(1) using d(3) by (rule cut_at_append [OF refl])
  obtain t where t: "hex_decode digest = Some t" using hex_decode_iff [of digest] d(4,5) by auto
  have "\<not> is_hex (CHR ''@'')" by code_simp
  then have "CHR ''@'' \<notin> set digest" using d(5) by (auto simp: list_all_iff)
  then show "validate_pinned_image img = None"
    using c t d hex_decode_length [OF t] by (simp add: validate_pinned_image_def Let_def)
qed

text \<open>An agent with two slots whose first call creates the sandbox \<open>box\<close>.\<close>

definition box_request :: sandbox_create_request where
  "box_request = \<lparr>scq_name = ''box'', scq_image = ''registry/box@sha256:'' @ replicate 64 (CHR ''0''), scq_memory = []\<rparr>"

definition box_removal :: remove_vm_request where
  "box_removal = \<lparr>rvq_name = ''box''\<rparr>"

lemma box_request_valid: "sandbox_create_validate box_request = None"
  by code_simp

definition box_pool :: slot_pool where
  "box_pool = snd (try_acquire 1 (fresh_pool 2))"

lemma box_admitted: "admit_one (as_pressure sample_agent) (fresh_pool 2) = (Inr 0, box_pool)"
  by (simp add: admit_one_def admit_slots_def pressure_validate_def sample_agent_def valid_pressure_def
      pressure_is_critical_def pressure_level_defs box_pool_def try_acquire_def fresh_pool_def)

lemma box_reserved_from:
  assumes "agent_reachable 2 \<lparr>aw_pool = fresh_pool 2, aw_registry = Map.empty, aw_calls = cs\<rparr>" "cs 0 = Idle"
  shows "agent_reachable 2
    \<lparr>aw_pool = box_pool, aw_registry = [''box'' \<mapsto> None], aw_calls = cs(0 := CreateTemplate ''box'' 0)\<rparr>"
proof -
  let ?s = "\<lparr>aw_pool = fresh_pool 2, aw_registry = Map.empty, aw_calls = cs\<rparr>"
  have 1: "agent_reachable 2 (?s\<lparr>aw_calls := cs(0 := CreateStart box_request)\<rparr>)"
    using agent_reachable.step [OF assms(1) accept [of ?s 0 "CreateStart box_request"]] assms(2)
    by (simp add: starts_call_def)
  have 2: "agent_reachable 2 \<lparr>aw_pool = box_pool, aw_registry = Map.empty,
      aw_calls = cs(0 := CreateAdmitted ''box'' 0)\<rparr>"
    using agent_reachable.step [OF 1 progress [where i = 0]] create_admitted [OF box_request_valid box_admitted, of Map.empty]
    by (fastforce simp: box_request_def)
  have r: "reserve_sandbox ''box'' Map.empty = (None, [''box'' \<mapsto> None])" by (simp add: reserve_sandbox_def)
  show ?thesis
    using agent_reachable.step [OF 2 progress [where i = 0]] call_step.reserved [OF r, of box_pool 0] by fastforce
qed

lemma box_active_from:
  assumes "agent_reachable 2 \<lparr>aw_pool = fresh_pool 2, aw_registry = Map.empty, aw_calls = cs\<rparr>" "cs 0 = Idle"
  shows "agent_reachable 2
    \<lparr>aw_pool = box_pool, aw_registry = [''box'' \<mapsto> Some 0], aw_calls = cs(0 := Returned None)\<rparr>"
proof -
  let ?r = "\<lparr>nlr_schema = lifecycleSchema, nlr_schema_version = 1, nlr_action = ''restored'', nlr_name = ''box'',
     nlr_state = ''ready'', nlr_timing = Some \<lparr>nlt_prepare_ms = 0, nlt_spawn_monitor_ms = 0,
       nlt_wait_exec_ready_ms = 0, nlt_total_ms = 0\<rparr>\<rparr>"
  have v: "named_lifecycle_validate_restored ?r ''box'' = None"
    by (simp add: named_lifecycle_validate_restored_def schemaVersion_def)
  have 1: "agent_reachable 2 \<lparr>aw_pool = box_pool, aw_registry = [''box'' \<mapsto> None],
      aw_calls = cs(0 := CreateRestore ''box'' 0)\<rparr>"
    using agent_reachable.step [OF box_reserved_from [OF assms] progress [where i = 0]]
      template_ready [of box_pool "[''box'' \<mapsto> None]" "''box''" 0] by fastforce
  have 2: "agent_reachable 2 \<lparr>aw_pool = box_pool, aw_registry = [''box'' \<mapsto> None],
      aw_calls = cs(0 := CreateRestored ''box'' 0)\<rparr>"
    using agent_reachable.step [OF 1 progress [where i = 0]]
      restored [OF v, of box_pool "[''box'' \<mapsto> None]" 0] by fastforce
  show ?thesis
    using agent_reachable.step [OF 2 progress [where i = 0]]
      activated [of box_pool "[''box'' \<mapsto> None]" "''box''" 0]
    by (fastforce simp: activate_sandbox_def)
qed

lemmas box_reserved = box_reserved_from [OF agent_reachable.start, simplified]
lemmas box_active = box_active_from [OF agent_reachable.start, simplified]

lemma sandbox_slots_witness:
  "limiter_available (pool_limiter box_pool) = 1"
  using sandbox_slots [OF box_active] by simp

theorem sandbox_exclusive_witness:
  "fst (reserve_sandbox ''box'' [''box'' \<mapsto> None]) \<noteq> None \<and> pool_held box_pool 0 \<noteq> None"
  using sandbox_exclusive [OF box_reserved, of 0 "''box''" 0 0] by simp

text \<open>Removing a name the registry does not track takes no reservation, so a creation of
  that name can finish before the removal's call to \<open>RemoveVM\<close>: a reachable state has the
  sandbox ready while the call that is about to remove its VM is running, and after that call
  returns without an error the agent still reports the sandbox as ready and keeps its slot.\<close>

lemma sandbox_untracked_race:
  "\<exists>s s'. agent_reachable 2 s \<and> aw_calls s 1 = RemoveUntracked ''box'' \<and>
     sandbox_ready ''box'' (aw_registry s) = None \<and>
     agent_step s s' \<and> aw_calls s' 1 = Returned None \<and> sandbox_ready ''box'' (aw_registry s') = None \<and>
     limiter_available (pool_limiter (aw_pool s')) = 1"
proof -
  let ?s = "\<lparr>aw_pool = fresh_pool 2, aw_registry = Map.empty, aw_calls = (\<lambda>_. Idle)\<rparr>"
  have 0: "agent_reachable 2 ?s" by (rule agent_reachable.start) simp
  have 1: "agent_reachable 2 (?s\<lparr>aw_calls := (\<lambda>_. Idle)(1 := RemoveStart box_removal)\<rparr>)"
    using agent_reachable.step [OF 0 accept [of ?s 1 "RemoveStart box_removal"]] by (simp add: starts_call_def)
  have r: "remove_vm_request_validate box_removal = None"
    "sandbox_release (rvq_name box_removal) Map.empty = (Inr None, Map.empty)"
    by (simp_all add: sandbox_release_def box_removal_def remove_vm_request_validate_def)
  have 2: "agent_reachable 2 \<lparr>aw_pool = fresh_pool 2, aw_registry = Map.empty,
      aw_calls = (\<lambda>_. Idle)(1 := RemoveUntracked ''box'')\<rparr>"
    using agent_reachable.step [OF 1 progress [where i = 1]] call_step.remove_untracked [OF r, of "fresh_pool 2"]
    by (fastforce simp: box_removal_def)
  let ?cs = "((\<lambda>_. Idle)(1 := RemoveUntracked ''box''))(0 := Returned None)"
  let ?t = "\<lparr>aw_pool = box_pool, aw_registry = [''box'' \<mapsto> Some 0], aw_calls = ?cs\<rparr>"
  have 3: "agent_reachable 2 ?t" using box_active_from [OF 2] by simp
  have 4: "agent_step ?t (?t\<lparr>aw_calls := ?cs(1 := Returned None)\<rparr>)"
    using progress [of ?t 1 box_pool "[''box'' \<mapsto> Some 0]" "Returned None"]
      untracked_removed [of box_pool "[''box'' \<mapsto> Some 0]" "''box''" None] by simp
  have "limiter_available (pool_limiter box_pool) = 1"
    by (simp add: box_pool_def try_acquire_def fresh_pool_def limiter_available_def)
  then show ?thesis using 3 4 by (intro exI [of _ ?t] exI [of _ "?t\<lparr>aw_calls := ?cs(1 := Returned None)\<rparr>"])
      (simp add: sandbox_ready_def)
qed

end
