(* ===== verification/Templates.thy ===== *)
theory Templates
  imports NodeTrace RunChild Sandbox
begin

text \<open>
  Boot templates (\<open>internal/agent/interactive.go\<close>): the key that names a template, the identity
  of the spore executable, making a template when none is ready, and the count of the calls
  that are starting from it. The functions run with \<open>templateMu\<close> held, so each is atomic for
  the others. SHA-256, the file system's metadata and JSON decoding are arguments.
\<close>

section \<open>Keys\<close>

record boot_template_key =
  tk_schema :: string
  tk_image :: string
  tk_memory :: string
  tk_backend :: string
  tk_version :: string
  tk_digest :: string
  tk_hostClass :: host_class

definition boot_template_schema :: string where
  "boot_template_schema = ''sporevm-k8s.boot-template.v2''"

definition interactive_default_memory :: string where
  "interactive_default_memory = ''1024mb''"

definition identity_key :: "boot_template_runtime_identity \<Rightarrow> string \<Rightarrow> string \<Rightarrow> string \<Rightarrow> boot_template_key" where
  "identity_key i backend img memory =
     \<lparr>tk_schema = boot_template_schema, tk_image = img, tk_memory = memory, tk_backend = backend,
      tk_version = ti_version i, tk_digest = ti_digest i, tk_hostClass = ti_hostClass i\<rparr>"

text \<open>\<open>json.Marshal\<close> and \<open>json.MarshalIndent\<close> of a key: the fields with their JSON names, the
  memory only when it is not empty.\<close>

definition host_class_fields :: "host_class \<Rightarrow> (string \<times> string) list" where
  "host_class_fields h =
     [(''id'', hc_id h), (''sporePlatformVersion'', hc_platformVersion h), (''architecture'', hc_architecture h),
      (''backend'', hc_backend h), (''cpuProfile'', hc_cpuProfile h), (''deviceModel'', hc_deviceModel h)]"

definition key_fields :: "boot_template_key \<Rightarrow> (string \<times> string) list" where
  "key_fields k =
     [(''schema'', tk_schema k), (''image'', tk_image k)] @
     (if tk_memory k = [] then [] else [(''memory'', tk_memory k)]) @
     [(''backend'', tk_backend k), (''sporeVersion'', tk_version k), (''sporeDigest'', tk_digest k)]"

fun json_members :: "(string \<times> string) list \<Rightarrow> string" where
  "json_members [] = []"
| "json_members ((name, value) # fs) = json_field name (json_string value) @ '','' @ json_members fs"

definition key_json :: "boot_template_key \<Rightarrow> string" where
  "key_json k =
     ''{'' @ json_members (key_fields k) @ json_string ''hostClass'' @ '':{'' @
     butlast (json_members (host_class_fields (tk_hostClass k))) @ ''}}''"

definition json_lines :: "string \<Rightarrow> (string \<times> string) list \<Rightarrow> string" where
  "json_lines margin fs =
     concat (map (\<lambda>(name, value). [char_of (10::nat)] @ margin @ json_string name @ '': '' @ json_string value @ '','') fs)"

definition key_json_indent :: "boot_template_key \<Rightarrow> string" where
  "key_json_indent k =
     (let newline = [char_of (10::nat)] in
      ''{'' @ json_lines ''  '' (key_fields k) @ newline @ ''  '' @ json_string ''hostClass'' @ '': {'' @
      butlast (json_lines ''    '' (host_class_fields (tk_hostClass k))) @ newline @ ''  }'' @ newline @ ''}'')"

section \<open>The executable's identity\<close>

record open_file =
  of_stat :: "gerr + file_info"
  of_read :: "gerr + string"

record 'w template_env =
  te_stat :: "string \<Rightarrow> 'w \<Rightarrow> gerr + file_info"
  te_open :: "string \<Rightarrow> 'w \<Rightarrow> gerr + open_file"
  te_sha256 :: "string \<Rightarrow> string"
  te_unmarshal_key :: "string \<Rightarrow> gerr + boot_template_key"

definition same_executable :: "file_info \<Rightarrow> file_info \<Rightarrow> bool" where
  "same_executable a b \<longleftrightarrow> fi_file a = fi_file b \<and> fi_size a = fi_size b \<and> fi_mtime a = fi_mtime b \<and> fi_ctime a = fi_ctime b"

definition hash_executable :: "'w template_env \<Rightarrow> string \<Rightarrow> 'w \<Rightarrow> gerr + string \<times> file_info" where
  "hash_executable te path w =
     (case te_open te path w of
        Inl e \<Rightarrow> Inl (Wrap ''open spore executable: '' e [])
      | Inr file \<Rightarrow>
          (case of_stat file of
             Inl e \<Rightarrow> Inl (Wrap ''stat spore executable: '' e [])
           | Inr info \<Rightarrow>
               (case of_read file of
                  Inl e \<Rightarrow> Inl (Wrap ''hash spore executable: '' e [])
                | Inr data \<Rightarrow> Inr (''sha256:'' @ hex_encode (te_sha256 te data), info))))"

text \<open>The identity of a file whose digest is not cached, which is cached when it succeeds.\<close>

definition identity_of_file :: "'w runner \<Rightarrow> 'w template_env \<Rightarrow> 'w spore_client \<Rightarrow> go_ctx \<Rightarrow> string \<Rightarrow> 'w node
    \<Rightarrow> (gerr + boot_template_runtime_identity) \<times> 'w node" where
  "identity_of_file r te client ctx path nd =
     (case hash_executable te path (nd_world nd) of
        Inl e \<Rightarrow> (Inl e, nd)
      | Inr (digest, info) \<Rightarrow>
          (case on_world (sc_version client ctx) nd of
             (Inl e, nd1) \<Rightarrow> (Inl e, nd1)
           | (Inr version, nd1) \<Rightarrow>
               (case runner_host_class r ctx (rn_backend r) nd1 of
                  (Inl e, nd2) \<Rightarrow> (Inl e, nd2)
                | (Inr hostClass, nd2) \<Rightarrow>
                    let identity = \<lparr>ti_version = version, ti_digest = digest, ti_hostClass = hostClass, ti_executable = info\<rparr>
                    in (Inr identity, nd2\<lparr>nd_templateIdentity := Some identity\<rparr>))))"

definition boot_template_identity :: "'w runner \<Rightarrow> 'w template_env \<Rightarrow> go_ctx \<Rightarrow> 'w node
    \<Rightarrow> (gerr + boot_template_runtime_identity) \<times> 'w node" where
  "boot_template_identity r te ctx nd =
     (case rn_client r of
        None \<Rightarrow> (Inl (Sentinel ErrSporeClientNotConfigured), nd)
      | Some client \<Rightarrow>
          if rn_workRoot r = [] then (Inl (Sentinel ErrWorkRootNotConfigured), nd)
          else case on_world (sc_executable client) nd of (executable, nd1) \<Rightarrow>
          (case executable of
             Inl e \<Rightarrow> (Inl (Wrap ''resolve spore executable: '' e []), nd1)
           | Inr path \<Rightarrow>
               (case te_stat te path (nd_world nd1) of
                  Inl e \<Rightarrow> (Inl (Wrap ''stat spore executable: '' e []), nd1)
                | Inr info \<Rightarrow>
                    (case nd_templateIdentity nd1 of
                       Some cached \<Rightarrow>
                         if same_executable (ti_executable cached) info then (Inr cached, nd1)
                         else identity_of_file r te client ctx path nd1
                     | None \<Rightarrow> identity_of_file r te client ctx path nd1))))"

section \<open>Templates on disk\<close>

definition boot_template_ready :: "'w runner \<Rightarrow> string \<Rightarrow> 'w \<Rightarrow> bool" where
  "boot_template_ready r path w \<longleftrightarrow>
     (case os_stat (rn_os r) (path_join [path, ''manifest.json'']) w of Inl _ \<Rightarrow> False | Inr kind \<Rightarrow> kind \<noteq> DirFile)"

definition template_root :: "'w runner \<Rightarrow> string" where
  "template_root r = path_join [rn_workRoot r, ''templates'']"

text \<open>The count of a template's users; \<open>release_boot_template\<close> is the body of the returned
  closure, which runs once.\<close>

definition template_uses :: "'w node \<Rightarrow> string \<Rightarrow> int" where
  "template_uses nd dir = (case map_of (nd_templateUses nd) dir of None \<Rightarrow> 0 | Some n \<Rightarrow> n)"

definition lease_boot_template :: "string \<Rightarrow> 'w node \<Rightarrow> 'w node" where
  "lease_boot_template dir nd = nd\<lparr>nd_templateUses := AList.update dir (template_uses nd dir + 1) (nd_templateUses nd)\<rparr>"

definition release_boot_template :: "string \<Rightarrow> 'w node \<Rightarrow> 'w node" where
  "release_boot_template dir nd =
     (let n = template_uses nd dir - 1 in
      if n = 0 then nd\<lparr>nd_templateUses := AList.delete dir (nd_templateUses nd)\<rparr>
      else nd\<lparr>nd_templateUses := AList.update dir n (nd_templateUses nd)\<rparr>)"

definition cleanup_template_build :: "'w runner \<Rightarrow> go_ctx \<Rightarrow> string \<Rightarrow> string \<Rightarrow> 'w node \<Rightarrow> 'w node" where
  "cleanup_template_build r ctx tmpDir templateDir nd =
     (if boot_template_ready r templateDir (nd_world nd) then
        (case remove_saved_spore r (WithTimeout lifecycle_cleanup_timeout (WithoutCancel ctx)) templateDir nd of
           (Some e, nd1) \<Rightarrow> nd1
         | (None, nd1) \<Rightarrow> snd (on_world (os_remove_all (rn_os r) tmpDir) nd1))
      else snd (on_world (os_remove_all (rn_os r) tmpDir) nd))"

record template_status =
  ts_id :: string
  ts_cacheHit :: bool

text \<open>\<open>ensureBootTemplate\<close> in the directory \<open>tmpDir\<close>: capture, check, write the metadata, publish.\<close>

definition build_template :: "'w runner \<Rightarrow> go_ctx \<Rightarrow> boot_template_key \<Rightarrow> string \<Rightarrow> string \<Rightarrow> 'w node
    \<Rightarrow> gerr option \<times> 'w node" where
  "build_template r ctx key tmpDir entryDir nd =
     (let tmpTemplateDir = path_join [tmpDir, ''parent.spore''] in
      case on_world (sc_run_capture (the (rn_client r)) ctx
          \<lparr>rcq_image = tk_image key, rcq_captureDir = tmpTemplateDir, rcq_captureSignal = [], rcq_readyMarker = [],
           rcq_backend = rn_backend r, rcq_memory = tk_memory key, rcq_command = [''/bin/true'']\<rparr>) nd of
        ((events, Some e), nd1) \<Rightarrow> (Some e, nd1)
      | ((events, None), nd1) \<Rightarrow>
          (case terminal_event events of
             Inl e \<Rightarrow> (Some e, nd1)
           | Inr terminal \<Rightarrow>
               if ev_outcome terminal \<noteq> ''completed'' \<or> ev_exit_code terminal \<noteq> Some 0 \<or> \<not> ev_captured terminal
               then (Some (invalid_machine_output ''boot template capture did not exit successfully''), nd1)
               else if \<not> boot_template_ready r tmpTemplateDir (nd_world nd1)
               then (Some (invalid_machine_output ''boot template capture did not produce manifest.json''), nd1)
               else
                 (case on_world (os_write_file (rn_os r) (path_join [tmpDir, ''template.json''])
                     (key_json_indent key @ [char_of (10::nat)])) nd1 of
                    (Some e, nd2) \<Rightarrow> (Some e, nd2)
                  | (None, nd2) \<Rightarrow> on_world (os_rename (rn_os r) tmpDir entryDir) nd2)))"

definition ensure_boot_template :: "'w runner \<Rightarrow> 'w template_env \<Rightarrow> go_ctx \<Rightarrow> string \<Rightarrow> string \<Rightarrow> 'w node
    \<Rightarrow> (gerr + template_status \<times> string) \<times> 'w node" where
  "ensure_boot_template r te ctx img memory nd =
     (case boot_template_identity r te ctx nd of
        (Inl e, nd1) \<Rightarrow> (Inl e, nd1)
      | (Inr identity, nd1) \<Rightarrow>
          let key = identity_key identity (rn_backend r) img memory;
              hexed = hex_encode (te_sha256 te (key_json key));
              entryDir = path_join [template_root r, hexed];
              templateDir = path_join [entryDir, ''parent.spore''] in
          if boot_template_ready r templateDir (nd_world nd1)
          then (Inr (\<lparr>ts_id = ''sha256:'' @ hexed, ts_cacheHit = True\<rparr>, templateDir), lease_boot_template templateDir nd1)
          else
            (case on_world (os_remove_all (rn_os r) entryDir) nd1 of (Some e, nd2) \<Rightarrow> (Inl e, nd2) | (None, nd2) \<Rightarrow>
            (case on_world (os_mkdir_all (rn_os r) (template_root r)) nd2 of (Some e, nd3) \<Rightarrow> (Inl e, nd3) | (None, nd3) \<Rightarrow>
            (case on_world (os_mkdir_temp (rn_os r) (template_root r) ''.build-'') nd3 of (Inl e, nd4) \<Rightarrow> (Inl e, nd4) | (Inr tmpDir, nd4) \<Rightarrow>
              (case build_template r ctx key tmpDir entryDir nd4 of
                 (Some e, nd5) \<Rightarrow> (Inl e, cleanup_template_build r ctx tmpDir (path_join [tmpDir, ''parent.spore'']) nd5)
               | (None, nd5) \<Rightarrow>
                   (Inr (\<lparr>ts_id = ''sha256:'' @ hexed, ts_cacheHit = False\<rparr>, templateDir),
                    cleanup_template_build r ctx tmpDir (path_join [tmpDir, ''parent.spore''])
                      (lease_boot_template templateDir nd5)))))))"

section \<open>Runs\<close>

record run_request =
  rrq_runID :: string
  rrq_image :: string
  rrq_memory :: string
  rrq_command :: "string list"

fun command_arguments :: "string \<Rightarrow> nat \<Rightarrow> string list \<Rightarrow> gerr option" where
  "command_arguments name i [] = None"
| "command_arguments name i (arg # args) =
     (if arg = [] then Some (invalid_spore_request (name @ '' command['' @ itoa (int i) @ ''] must not be empty''))
      else command_arguments name (Suc i) args)"

definition validate_command :: "string \<Rightarrow> string list \<Rightarrow> gerr option" where
  "validate_command name command =
     (if command = [] then Some (invalid_spore_request (name @ '' command is required''))
      else command_arguments name 0 command)"

definition run_request_validate :: "run_request \<Rightarrow> gerr option" where
  "run_request_validate r =
     (case validate_pinned_image (rrq_image r) of Some e \<Rightarrow> Some e | None \<Rightarrow> validate_command ''run'' (rrq_command r))"

record run_timings =
  rti_template :: float64
  rti_execution :: float64
  rti_runtimeStart :: float64
  rti_runtimeVSockConnect :: float64
  rti_runtimeExecResponse :: float64
  rti_runtimeProbe :: float64
  rti_total :: float64

record run_response =
  rrs_runID :: string
  rrs_template :: template_status
  rrs_timings :: run_timings
  rrs_events :: "run_event list"

definition first_response :: "run_request \<Rightarrow> run_response" where
  "first_response req = \<lparr>rrs_runID = rrq_runID req, rrs_template = \<lparr>ts_id = [], ts_cacheHit = False\<rparr>,
     rrs_timings = \<lparr>rti_template = 0, rti_execution = 0, rti_runtimeStart = 0, rti_runtimeVSockConnect = 0,
       rti_runtimeExecResponse = 0, rti_runtimeProbe = 0, rti_total = 0\<rparr>, rrs_events = []\<rparr>"

text \<open>The response once the command has run.\<close>

definition judge_run :: "run_response \<Rightarrow> gerr option \<Rightarrow> run_response \<times> gerr option" where
  "judge_run response err =
     (case err of
        Some e \<Rightarrow> (response, Some e)
      | None \<Rightarrow>
          (case terminal_event (rrs_events response) of
             Inl e \<Rightarrow> (response, Some e)
           | Inr terminal \<Rightarrow>
               (case ev_timings terminal of
                  None \<Rightarrow> (response, None)
                | Some t \<Rightarrow> (response\<lparr>rrs_timings := (rrs_timings response)\<lparr>
                    rti_runtimeStart := of_int (uint (ret_start_ms t)),
                    rti_runtimeVSockConnect := of_int (uint (ret_vsock_connect_ms t)),
                    rti_runtimeExecResponse := of_int (uint (ret_exec_response_ms t)),
                    rti_runtimeProbe := of_int (uint (ret_probe_duration_ms t))\<rparr>\<rparr>, None))))"

definition run_in_template :: "'w runner \<Rightarrow> 'w template_env \<Rightarrow> go_ctx \<Rightarrow> run_request \<Rightarrow> go_time \<Rightarrow> 'w node
    \<Rightarrow> (run_response \<times> gerr option) \<times> 'w node" where
  "run_in_template r te ctx req started nd =
     (let memory = (if rrq_memory req = [] then interactive_default_memory else rrq_memory req);
          response = first_response req in
      case on_world (rn_now r) nd of (templateStarted, nd1) \<Rightarrow>
      case ensure_boot_template r te ctx (rrq_image req) memory nd1 of (ensured, nd2) \<Rightarrow>
      case on_world (rn_now r) nd2 of (templateEnd, nd3) \<Rightarrow>
      let response1 = response\<lparr>rrs_timings := (rrs_timings response)\<lparr>rti_template := elapsed_ms templateStarted templateEnd\<rparr>\<rparr> in
      (case ensured of
         Inl e \<Rightarrow>
           (case on_world (rn_now r) nd3 of (failedAt, nd4) \<Rightarrow>
            ((response1\<lparr>rrs_timings := (rrs_timings response1)\<lparr>rti_total := elapsed_ms started failedAt\<rparr>\<rparr>, Some e), nd4))
       | Inr (template, templateDir) \<Rightarrow>
           with_defer (release_boot_template templateDir)
             (\<lambda>nd3. case on_world (rn_now r) nd3 of (executionStarted, nd4) \<Rightarrow>
              case on_world (sc_run_from (the (rn_client r)) ctx
                \<lparr>rfq_sporeDir = templateDir, rfq_backend = rn_backend r, rfq_generationPath = [],
                 rfq_command = rrq_command req\<rparr>) nd4 of ((events, err), nd5) \<Rightarrow>
              case on_world (rn_now r) nd5 of (executionEnd, nd6) \<Rightarrow>
              case on_world (rn_now r) nd6 of (totalEnd, nd7) \<Rightarrow>
                (judge_run (response1\<lparr>rrs_template := template, rrs_events := events,
                   rrs_timings := (rrs_timings response1)\<lparr>rti_execution := elapsed_ms executionStarted executionEnd,
                     rti_total := elapsed_ms started totalEnd\<rparr>\<rparr>) err, nd7)) nd3))"

definition runner_run :: "'w runner \<Rightarrow> 'w template_env \<Rightarrow> go_ctx \<Rightarrow> run_request \<Rightarrow> pressure \<Rightarrow> slot_pool \<times> 'w node
    \<Rightarrow> (run_response \<times> gerr option) \<times> slot_pool \<times> 'w node" where
  "runner_run r te ctx req pressure s =
     (case s of (slots, nd) \<Rightarrow>
      case on_world (rn_now r) nd of (started, nd1) \<Rightarrow>
      (case run_request_validate req of
         Some e \<Rightarrow> ((first_response req, Some e), slots, nd1)
       | None \<Rightarrow>
           (case admit_one pressure slots of
              (Inl e, slots1) \<Rightarrow> ((first_response req, Some e), slots1, nd1)
            | (Inr h, slots1) \<Rightarrow>
                (case run_in_template r te ctx req started nd1 of
                   (res, nd2) \<Rightarrow> (res, call_release h slots1, nd2)))))"

end
