(* ===== verification/TemplateReconcile.thy ===== *)
theory TemplateReconcile
  imports Templates
begin

text \<open>
  The periodic cleanup of boot templates (\<open>internal/agent/template_reconcile.go\<close>): abandoned
  builds, incomplete templates and templates of another executable go; of the others the
  newest are kept, and every template in use is. It runs with \<open>templateMu\<close> held.
\<close>

section \<open>Entries\<close>

datatype boot_template_entry =
  BootTemplateEntry (te_path: string) (te_templateDir: string) (te_modifiedNS: int)

text \<open>The predicate given to \<open>sort.Slice\<close>: newest first and then by descending path.\<close>

definition retained_first :: "boot_template_entry \<Rightarrow> boot_template_entry \<Rightarrow> bool" where
  "retained_first e f =
     (if te_modifiedNS e = te_modifiedNS f then te_path f < te_path e else te_modifiedNS f < te_modifiedNS e)"

text \<open>The order it sorts by. The predicate leaves the template directory out, which the path determines.\<close>

instantiation boot_template_entry :: linorder
begin

definition less_eq_boot_template_entry :: "boot_template_entry \<Rightarrow> boot_template_entry \<Rightarrow> bool" where
  "e \<le> f \<longleftrightarrow> retained_first e f \<or> te_modifiedNS e = te_modifiedNS f \<and> te_path f = te_path e \<and> te_templateDir f \<le> te_templateDir e"

definition less_boot_template_entry :: "boot_template_entry \<Rightarrow> boot_template_entry \<Rightarrow> bool" where
  "e < f \<longleftrightarrow> retained_first e f \<or> te_modifiedNS e = te_modifiedNS f \<and> te_path f = te_path e \<and> te_templateDir f < te_templateDir e"

instance
  by standard (auto simp: less_eq_boot_template_entry_def less_boot_template_entry_def retained_first_def
      intro: boot_template_entry.expand split: if_splits)

end

record template_reconcile_result =
  tr_removedBuilds :: int
  tr_removedTemplates :: int
  tr_retainedTemplates :: int

definition is_boot_template_entry_name :: "string \<Rightarrow> bool" where
  "is_boot_template_entry_name name \<longleftrightarrow>
     (case hex_decode name of None \<Rightarrow> False
      | Some decoded \<Rightarrow> length decoded = 32 \<and> hex_encode decoded = name)"

text \<open>\<open>time.Time.UnixNano\<close>.\<close>

definition unix_nano :: "go_time \<Rightarrow> int" where
  "unix_nano t = wrap64 (t - 62135596800 * second)"

section \<open>Removing entries\<close>

definition remove_boot_template_entry :: "'w runner \<Rightarrow> go_ctx \<Rightarrow> string \<Rightarrow> string \<Rightarrow> 'w node \<Rightarrow> gerr option \<times> 'w node" where
  "remove_boot_template_entry r ctx entryDir templateDir nd =
     (if boot_template_ready r templateDir (nd_world nd) then
        (case remove_saved_spore r ctx templateDir nd of
           (Some e, nd1) \<Rightarrow> (Some e, nd1)
         | (None, nd1) \<Rightarrow> on_world (os_remove_all (rn_os r) entryDir) nd1)
      else on_world (os_remove_all (rn_os r) entryDir) nd)"

definition boot_template_current :: "'w runner \<Rightarrow> 'w template_env \<Rightarrow> string \<Rightarrow> boot_template_runtime_identity \<Rightarrow> 'w \<Rightarrow> bool" where
  "boot_template_current r te metadataPath identity w \<longleftrightarrow>
     (case os_read_file (rn_os r) metadataPath w of
        Inl _ \<Rightarrow> False
      | Inr data \<Rightarrow>
          (case te_unmarshal_key te data of
             Inl _ \<Rightarrow> False
           | Inr key \<Rightarrow> key = identity_key identity (rn_backend r) (tk_image key) (tk_memory key)))"

text \<open>The variables of \<open>ReconcileBootTemplates\<close> and the node.\<close>

record 'w reconcile_state =
  rc_result :: template_reconcile_result
  rc_complete :: "boot_template_entry list"
  rc_errors :: "gerr list"
  rc_staleInUse :: int
  rc_node :: "'w node"

datatype removed_kind = RemovedBuild | RemovedTemplate

text \<open>Removing an entry and counting it, or collecting the error with the text \<open>what\<close>.\<close>

definition remove_counted :: "'w runner \<Rightarrow> go_ctx \<Rightarrow> removed_kind \<Rightarrow> string \<Rightarrow> string \<Rightarrow> string
    \<Rightarrow> 'w reconcile_state \<Rightarrow> 'w reconcile_state" where
  "remove_counted r ctx kind what entryDir templateDir s =
     (case remove_boot_template_entry r ctx entryDir templateDir (rc_node s) of
        (Some e, nd) \<Rightarrow> s\<lparr>rc_errors := rc_errors s @ [Wrap (what @ '': '') e []], rc_node := nd\<rparr>
      | (None, nd) \<Rightarrow>
          let res = rc_result s in
          s\<lparr>rc_node := nd, rc_result :=
            (case kind of RemovedBuild \<Rightarrow> res\<lparr>tr_removedBuilds := tr_removedBuilds res + 1\<rparr>
             | RemovedTemplate \<Rightarrow> res\<lparr>tr_removedTemplates := tr_removedTemplates res + 1\<rparr>)\<rparr>)"

definition reconcile_entry :: "'w runner \<Rightarrow> 'w template_env \<Rightarrow> go_ctx \<Rightarrow> boot_template_runtime_identity option
    \<Rightarrow> string \<times> file_kind \<Rightarrow> 'w reconcile_state \<Rightarrow> 'w reconcile_state" where
  "reconcile_entry r te ctx identity entry s =
     (case entry of (name, kind) \<Rightarrow>
      let entryDir = path_join [template_root r, name];
          templateDir = path_join [entryDir, ''parent.spore''];
          metadataPath = path_join [entryDir, ''template.json'']; w = nd_world (rc_node s) in
      if kind \<noteq> DirFile then s
      else if has_prefix name ''.build-''
      then remove_counted r ctx RemovedBuild (''remove abandoned template build '' @ name) entryDir templateDir s
      else if \<not> is_boot_template_entry_name name then s
      else (case te_stat te metadataPath w of
          Inl _ \<Rightarrow> remove_counted r ctx RemovedTemplate (''remove incomplete template '' @ name) entryDir templateDir s
        | Inr metadata \<Rightarrow>
            if \<not> boot_template_ready r templateDir w \<or> fi_isDir metadata
            then remove_counted r ctx RemovedTemplate (''remove incomplete template '' @ name) entryDir templateDir s
            else if (case identity of None \<Rightarrow> False | Some i \<Rightarrow> \<not> boot_template_current r te metadataPath i w)
            then (if template_uses (rc_node s) templateDir > 0 then s\<lparr>rc_staleInUse := rc_staleInUse s + 1\<rparr>
              else remove_counted r ctx RemovedTemplate (''remove stale template '' @ name) entryDir templateDir s)
            else s\<lparr>rc_complete := rc_complete s @
              [BootTemplateEntry entryDir templateDir (unix_nano (fi_mtime metadata))]\<rparr>))"

fun reconcile_entries :: "'w runner \<Rightarrow> 'w template_env \<Rightarrow> go_ctx \<Rightarrow> boot_template_runtime_identity option
    \<Rightarrow> (string \<times> file_kind) list \<Rightarrow> 'w reconcile_state \<Rightarrow> 'w reconcile_state" where
  "reconcile_entries r te ctx identity [] s = s"
| "reconcile_entries r te ctx identity (e # es) s =
     reconcile_entries r te ctx identity es (reconcile_entry r te ctx identity e s)"

text \<open>\<open>filepath.Base\<close> of an entry's path, for the error text.\<close>

definition path_base :: "string \<Rightarrow> string" where
  "path_base p = rev (takeWhile (\<lambda>c. c \<noteq> CHR ''/'') (rev p))"

text \<open>The loop that keeps the newest.\<close>

fun retain_loop :: "'w runner \<Rightarrow> go_ctx \<Rightarrow> int \<Rightarrow> boot_template_entry list \<Rightarrow> 'w reconcile_state \<Rightarrow> 'w reconcile_state" where
  "retain_loop r ctx retain [] s = s"
| "retain_loop r ctx retain (e # es) s =
     (if tr_retainedTemplates (rc_result s) < retain \<or> template_uses (rc_node s) (te_templateDir e) > 0
      then retain_loop r ctx retain es
        (s\<lparr>rc_result := (rc_result s)\<lparr>tr_retainedTemplates := tr_retainedTemplates (rc_result s) + 1\<rparr>\<rparr>)
      else retain_loop r ctx retain es
        (remove_counted r ctx RemovedTemplate (''remove expired template '' @ path_base (te_path e)) (te_path e)
          (te_templateDir e) s))"

definition no_templates :: template_reconcile_result where
  "no_templates = \<lparr>tr_removedBuilds = 0, tr_removedTemplates = 0, tr_retainedTemplates = 0\<rparr>"

definition reconcile_boot_templates :: "'w runner \<Rightarrow> 'w template_env \<Rightarrow> go_ctx \<Rightarrow> int \<Rightarrow> 'w node
    \<Rightarrow> (template_reconcile_result \<times> gerr option) \<times> 'w node" where
  "reconcile_boot_templates r te ctx retain nd =
     (if retain < 0 then ((no_templates, Some (Opaque ''template retain count must be >= 0'')), nd)
      else case os_read_dir (rn_os r) (template_root r) (nd_world nd) of
        Inl e \<Rightarrow> if errors_is OsErrNotExist e then ((no_templates, None), nd) else ((no_templates, Some e), nd)
      | Inr entries \<Rightarrow>
          (case boot_template_identity r te ctx nd of (known, nd1) \<Rightarrow>
           let s = \<lparr>rc_result = no_templates, rc_complete = [],
                 rc_errors = (case known of Inl e \<Rightarrow> [Wrap ''boot template identity: '' e []] | Inr _ \<Rightarrow> []),
                 rc_staleInUse = 0, rc_node = nd1\<rparr>;
               s1 = reconcile_entries r te ctx (case known of Inl _ \<Rightarrow> None | Inr i \<Rightarrow> Some i) entries s;
               s2 = retain_loop r ctx retain (sort (rc_complete s1)) s1;
               res = rc_result s2
           in ((res\<lparr>tr_retainedTemplates := tr_retainedTemplates res + rc_staleInUse s2\<rparr>,
                errors_join (map Some (rc_errors s2))), rc_node s2)))"

end
