(* ===== verification/TemplateNames.thy ===== *)
theory TemplateNames
  imports TemplateReconcile LocalAgent
begin

text \<open>
  The names of boot templates: the JSON text of a key determines the key, its hash the directory.
\<close>

section \<open>Template names\<close>

text \<open>The reader of one JSON character and what follows it.\<close>

definition json_uncons :: "string \<Rightarrow> char \<times> string" where
  "json_uncons s =
     (let x = hd s; y = hd (tl s); t = tl (tl s) in
      if (of_char x :: nat) \<noteq> 92 then (x, tl s)
      else if y = CHR ''u'' then (char_of (16 * hex_val (t ! 2) + hex_val (t ! 3)), drop 4 t)
      else if y = CHR ''b'' then (char_of (8::nat), t) else if y = CHR ''f'' then (char_of (12::nat), t)
      else if y = CHR ''n'' then (char_of (10::nat), t) else if y = CHR ''r'' then (char_of (13::nat), t)
      else if y = CHR ''t'' then (char_of (9::nat), t) else (y, t))"

lemma hex_val_digit [simp]: "n < 16 \<Longrightarrow> hex_val (hex_digit n) = n"
  by (auto simp: hex_val_def hex_digit_def Let_def)

lemma of_char_less: "(of_char c :: nat) < 256"
  by simp

lemma hex_byte_back: "char_of (16 * hex_val (hex_byte c ! 0) + hex_val (hex_byte c ! 1)) = c"
proof -
  have "(of_char c :: nat) div 16 < 16" using of_char_less [of c] by linarith
  then show ?thesis by (simp add: hex_byte_def)
qed

lemma json_uncons_char: "json_uncons (json_char c @ s) = (c, s)"
proof -
  let ?n = "of_char c :: nat" and ?b = "char_of (92::nat) :: char"
  have b: "(of_char ?b :: nat) = 92" by simp
  have cb: "?n = m \<Longrightarrow> char_of m = c" for m by auto
  consider (self) "?n = 34 \<or> ?n = 92" | (named) "?n \<in> {8, 12, 10, 13, 9}"
    | (hex) "?n \<noteq> 34" "?n \<noteq> 92" "?n \<notin> {8, 12, 10, 13, 9}" "?n < 32 \<or> ?n = 60 \<or> ?n = 62 \<or> ?n = 38"
    | (plain) "?n \<noteq> 34" "?n \<noteq> 92" "?n \<notin> {8, 12, 10, 13, 9}" "\<not> (?n < 32 \<or> ?n = 60 \<or> ?n = 62 \<or> ?n = 38)"
    by blast
  then show ?thesis
  proof cases
    case self
    then have "c \<noteq> CHR ''u'' \<and> c \<noteq> CHR ''b'' \<and> c \<noteq> CHR ''f'' \<and> c \<noteq> CHR ''n'' \<and> c \<noteq> CHR ''r'' \<and> c \<noteq> CHR ''t''"
      by (intro conjI notI) simp_all
    moreover have "json_char c = [?b, c]" using self by (simp add: json_char_def)
    ultimately show ?thesis using b by (simp add: json_uncons_def)
  next
    case named
    then show ?thesis using cb [of 8] cb [of 12] cb [of 10] cb [of 13] cb [of 9] b
      by (elim insertE) (simp_all add: json_char_def json_uncons_def)
  next
    case hex
    have c1: "json_char c = ?b # ''u00'' @ hex_byte c" using hex by (simp add: json_char_def)
    have "length (hex_byte c) = 2" by (simp add: hex_byte_def)
    then show ?thesis using b hex_byte_back [of c] unfolding json_uncons_def c1
      by (simp add: nth_append)
  next
    case plain
    then have "json_char c = [c]" by (simp add: json_char_def)
    then show ?thesis using plain by (simp add: json_uncons_def)
  qed
qed

lemma json_char_hd: "json_char c \<noteq> [] \<and> hd (json_char c) \<noteq> char_of (34::nat)"
  by (auto simp: json_char_def Let_def)

lemma json_chars_inj:
  "concat (map json_char s) @ char_of (34::nat) # x = concat (map json_char t) @ char_of (34::nat) # y \<Longrightarrow> s = t \<and> x = y"
proof (induction s arbitrary: t)
  case Nil
  show ?case
  proof (cases t)
    case (Cons d t')
    then show ?thesis using Nil json_char_hd [of d] by (cases "json_char d") auto
  qed (use Nil in simp)
next
  case (Cons c s)
  show ?case
  proof (cases t)
    case Nil
    then show ?thesis using Cons.prems json_char_hd [of c] by (cases "json_char c") auto
  next
    case (Cons d t')
    have "json_uncons (json_char c @ concat (map json_char s) @ char_of (34::nat) # x) =
        json_uncons (json_char d @ concat (map json_char t') @ char_of (34::nat) # y)"
      using Cons.prems Cons by simp
    then show ?thesis using Cons.IH [of t'] Cons by (simp add: json_uncons_char)
  qed
qed

lemma json_string_inj: "json_string s @ x = json_string t @ y \<Longrightarrow> s = t \<and> x = y"
  using json_chars_inj [of s x t y] by (simp add: json_string_def)

lemma json_members_inj:
  "json_members ((n, v) # fs) @ x = json_members ((m, u) # gs) @ y \<longleftrightarrow>
     n = m \<and> v = u \<and> json_members fs @ x = json_members gs @ y"
proof
  assume "json_members ((n, v) # fs) @ x = json_members ((m, u) # gs) @ y"
  then have "json_string n @ '':'' @ json_string v @ '','' @ json_members fs @ x =
      json_string m @ '':'' @ json_string u @ '','' @ json_members gs @ y"
    by (simp add: json_field_def)
  then have "n = m" "json_string v @ '','' @ json_members fs @ x = json_string u @ '','' @ json_members gs @ y"
    using json_string_inj [of n "'':'' @ json_string v @ '','' @ json_members fs @ x" m] by auto
  then show "n = m \<and> v = u \<and> json_members fs @ x = json_members gs @ y"
    using json_string_inj [of v "'','' @ json_members fs @ x" u] by auto
qed simp

lemma host_json_inj:
  assumes "butlast (json_members (host_class_fields h)) = butlast (json_members (host_class_fields g))"
  shows "h = g"
proof -
  have last: "json_members (host_class_fields k) = butlast (json_members (host_class_fields k)) @ '',''" for k
    by (simp add: host_class_fields_def butlast_append)
  have "json_members (host_class_fields h) @ [] = json_members (host_class_fields g) @ []"
    using last [of h] last [of g] assms by simp
  then have "host_class_fields h = host_class_fields g"
    unfolding host_class_fields_def json_members_inj by simp
  then show ?thesis by (cases h, cases g) (simp add: host_class_fields_def)
qed

lemma key_json_inj: "key_json k = key_json k' \<longleftrightarrow> k = k'"
proof
  assume eq: "key_json k = key_json k'"
  let ?tail = "\<lambda>k. json_string ''hostClass'' @ '':{'' @ butlast (json_members (host_class_fields (tk_hostClass k))) @ ''}}''"
  have "json_members (key_fields k) @ ?tail k = json_members (key_fields k') @ ?tail k'"
    using eq by (simp add: key_json_def)
  then have "tk_schema k = tk_schema k' \<and> tk_image k = tk_image k' \<and> tk_memory k = tk_memory k' \<and>
      tk_backend k = tk_backend k' \<and> tk_version k = tk_version k' \<and> tk_digest k = tk_digest k' \<and> ?tail k = ?tail k'"
    by (cases "tk_memory k = []"; cases "tk_memory k' = []")
      (simp_all add: key_fields_def json_members_inj del: json_members.simps(2))
  moreover from this have "tk_hostClass k = tk_hostClass k'"
    by (intro host_json_inj) simp
  ultimately show "k = k'" by (cases k, cases k') simp
qed simp

lemma hex_digit_props: "n < 16 \<Longrightarrow> is_hex (hex_digit n) \<and> hex_digit n \<noteq> CHR ''/'' \<and> hex_digit n \<noteq> CHR ''.''"
proof -
  assume n: "n < 16"
  then have "(of_char (hex_digit n) :: nat) = (if n < 10 then 48 + n else 87 + n)"
    by (simp add: hex_digit_def)
  then have "(of_char (hex_digit n) :: nat) \<noteq> of_char (CHR ''/'')" "(of_char (hex_digit n) :: nat) \<noteq> of_char (CHR ''.'')"
    by (simp_all split: if_splits)
  moreover have "is_hex (hex_digit n)"
    using n by (auto simp: hex_digit_def is_hex_def is_lower_hex_def Let_def)
  ultimately show ?thesis by metis
qed

lemma hex_decode_encode [simp]: "hex_decode (hex_encode s) = Some s"
proof (induction s)
  case (Cons c s)
  have "(of_char c :: nat) div 16 < 16" using of_char_less [of c] by linarith
  then show ?case using Cons hex_digit_props [of "of_char c div 16"] hex_digit_props [of "of_char c mod 16"] hex_byte_back [of c]
    by (simp add: hex_encode_def hex_byte_def)
qed (simp add: hex_encode_def)

lemma hex_encode_inj [simp]: "hex_encode s = hex_encode t \<longleftrightarrow> s = t"
  by (metis hex_decode_encode option.inject)

lemma hex_normal: "s \<noteq> [] \<Longrightarrow> normal_part (hex_encode s)"
proof -
  assume "s \<noteq> []"
  moreover have "c \<in> set (hex_encode s) \<Longrightarrow> c \<noteq> CHR ''/'' \<and> c \<noteq> CHR ''.''" for c
  proof -
    assume "c \<in> set (hex_encode s)"
    then obtain d where "c = hex_digit (of_char d div 16) \<or> c = hex_digit (of_char d mod 16)"
      by (auto simp: hex_encode_def hex_byte_def)
    moreover have "(of_char d :: nat) div 16 < 16" using of_char_less [of d] by linarith
    ultimately show ?thesis using hex_digit_props by auto
  qed
  ultimately show ?thesis
    by (cases s) (auto simp: normal_part_def hex_encode_def hex_byte_def)
qed

definition template_dir :: "'w runner \<Rightarrow> string \<Rightarrow> string" where
  "template_dir r hexed = path_join [path_join [template_root r, hexed], ''parent.spore'']"

lemma parent_normal: "normal_part ''parent.spore''"
  by (simp add: normal_part_def)

lemma path_join_ne: "p \<noteq> [] \<Longrightarrow> path_join (p # ps) \<noteq> []"
proof -
  assume "p \<noteq> []"
  moreover have "path_clean q \<noteq> []" for q
  proof (cases "is_abs q \<or> clean_parts False q = []")
    case False
    then obtain x xs where x: "clean_parts False q = x # xs" by (cases "clean_parts False q") auto
    then have "x \<noteq> []" using clean_parts_False [of q] up_not_abs [of x] by simp
    then have "join_slash (x # xs) \<noteq> []" by (cases xs) auto
    then show ?thesis using False x by (simp add: path_clean_def)
  qed (auto simp: path_clean_def)
  ultimately show ?thesis by (simp add: path_join_def)
qed

lemma template_dir_inj:
  assumes "rn_workRoot r \<noteq> []" "normal_part a" "normal_part b" "template_dir r a = template_dir r b"
  shows "a = b"
proof -
  have ne: "template_root r \<noteq> []" "path_join [template_root r, x] \<noteq> []" for x
    using assms(1) path_join_ne by (auto simp: template_root_def)
  have "abs_parts [] (template_dir r x) = abs_parts [] (template_root r) @ [x, ''parent.spore'']" if "normal_part x" for x
    using abs_parts_join [OF ne(2), of "[''parent.spore'']"] abs_parts_join [OF ne(1), of "[x]"] that parent_normal
    by (simp add: template_dir_def)
  from this [OF assms(2), unfolded assms(4), unfolded this [OF assms(3)]] show ?thesis by simp
qed


text \<open>An agent that knows its executable and finds every template ready.\<close>

definition ready_runner :: "unit runner" where
  "ready_runner = calm_runner\<lparr>rn_client := Some (calm_client\<lparr>sc_executable := (\<lambda>w. (Inr ''/spore'', w))\<rparr>),
     rn_os := calm_os\<lparr>os_stat := (\<lambda>_ _. Inr RegularFile)\<rparr>\<rparr>"

definition sample_info :: file_info where
  "sample_info = \<lparr>fi_file = 1, fi_size = 1, fi_mtime = 1, fi_ctime = 1, fi_isDir = False\<rparr>"

definition sample_identity :: boot_template_runtime_identity where
  "sample_identity = \<lparr>ti_version = ''v1'', ti_digest = ''sha256:00'', ti_hostClass = sample_host, ti_executable = sample_info\<rparr>"

definition ready_env :: "unit template_env" where
  "ready_env = \<lparr>te_stat = (\<lambda>_ _. Inr sample_info), te_open = (\<lambda>_ _. Inl (Sentinel OsErrNotExist)),
     te_sha256 = (\<lambda>s. CHR ''h'' # s), te_unmarshal_key = (\<lambda>_. Inl (Opaque ''no key''))\<rparr>"

definition ready_node :: "unit node" where
  "ready_node = (new_node ())\<lparr>nd_templateIdentity := Some sample_identity\<rparr>"

lemma ready_identity: "boot_template_identity ready_runner ready_env CallerCtx ready_node = (Inr sample_identity, ready_node)"
  by (simp add: boot_template_identity_def ready_runner_def calm_runner_def on_world_def ready_node_def new_node_def
      ready_env_def sample_identity_def same_executable_def)

lemma ready_ensure: "ensure_boot_template ready_runner ready_env CallerCtx img memory ready_node =
    (let hexed = hex_encode (CHR ''h'' # key_json (identity_key sample_identity ''kvm'' img memory));
         d = template_dir ready_runner hexed in
     (Inr (\<lparr>ts_id = ''sha256:'' @ hexed, ts_cacheHit = True\<rparr>, d), lease_boot_template d ready_node))"
proof -
  have "boot_template_ready ready_runner d w" for d w
    by (simp add: boot_template_ready_def ready_runner_def)
  moreover have "te_sha256 ready_env = (\<lambda>s. CHR ''h'' # s)" "rn_backend ready_runner = ''kvm''"
    by (simp_all add: ready_env_def ready_runner_def calm_runner_def)
  ultimately show ?thesis
    by (simp add: ensure_boot_template_def ready_identity template_dir_def Let_def)
qed

lemma ready_hash: "inj_on (te_sha256 ready_env) ps" "te_sha256 ready_env p \<noteq> []"
  by (simp_all add: ready_env_def)


end
