(* ===== verification/NodeOps.thy ===== *)
theory NodeOps
  imports NodeTrace LocalAgent
begin

text \<open>
  Sequences of the node's operations: when a cache collection is due, and that every operation
  returns when its contexts end.
\<close>

section \<open>When a collection is due\<close>

text \<open>A call of the runner that changes the node: a collection, a release, a preparation of either
  kind, or a status report. \<open>None\<close> when it does not return.\<close>

datatype node_op =
    CollectCacheOp | ReleaseOp run | PrepareLocalOp prepare_bundle_request
  | PrepareBundleOp prepare_bundle_request | StatusOp slot_pool status_request

definition node_op_step :: "'w runner \<Rightarrow> (run \<Rightarrow> host_class \<Rightarrow> string) \<Rightarrow> (string \<Rightarrow> string) \<Rightarrow> node_op
    \<Rightarrow> 'w node \<Rightarrow> 'w node option" where
  "node_op_step r digest escape op nd =
     (case op of
        CollectCacheOp \<Rightarrow> Some (snd (collect_cache r CallerCtx nd))
      | ReleaseOp run \<Rightarrow> map_option snd (release_prepared_run r CallerCtx run nd)
      | PrepareLocalOp req \<Rightarrow> map_option snd (prepare_local r digest CallerCtx req nd)
      | PrepareBundleOp req \<Rightarrow> map_option snd (prepare_bundle r escape CallerCtx req nd)
      | StatusOp slots req \<Rightarrow> Some (snd (status r slots CallerCtx req nd)))"

fun node_ops :: "'w runner \<Rightarrow> (run \<Rightarrow> host_class \<Rightarrow> string) \<Rightarrow> (string \<Rightarrow> string) \<Rightarrow> node_op list
    \<Rightarrow> 'w node \<Rightarrow> 'w node option" where
  "node_ops r digest escape [] nd = Some nd"
| "node_ops r digest escape (op # ops) nd =
     (case node_op_step r digest escape op nd of
        None \<Rightarrow> None | Some nd1 \<Rightarrow> node_ops r digest escape ops nd1)"

context node_env
begin

definition silent :: "'w node \<Rightarrow> 'a \<times> 'w node \<Rightarrow> bool" where
  "silent nd res \<longleftrightarrow> made nd (snd res) []"

lemma silent_ret [simp, intro]: "silent nd (x, nd)"
  by (simp add: silent_def)

lemma silent_step:
  assumes "\<And>w. calls (snd (f w)) = calls w" "\<And>x nd1. silent nd1 (g x nd1)"
  shows "silent nd (case on_world f nd of (x, nd1) \<Rightarrow> g x nd1)"
proof -
  obtain x nd1 where f: "on_world f nd = (x, nd1)" by force
  show ?thesis
    using made_quiet [OF on_world_quiet [OF f assms(1)]] assms(2) [of nd1 x] f by (simp add: silent_def)
qed

lemma silent_cache: "silent nd (x, nd1) \<Longrightarrow> silent nd (x, nd1\<lparr>nd_hostClasses := h\<rparr>)"
  by (simp add: silent_def made_def)

lemma host_class_silent:
  "rn_client r \<noteq> None \<Longrightarrow> silent nd (runner_host_class r ctx backend nd)"
  unfolding runner_host_class_def
  by (auto intro!: silent_step host_info silent_cache split: option.splits sum.splits)

lemma capture_and_fork_silent:
  "rn_client r \<noteq> None \<Longrightarrow> silent nd (capture_and_fork r ctx req backend hc root_dir nd)"
  unfolding capture_and_fork_def Let_def
  by (auto intro!: silent_step clock run_capture fork split: option.splits sum.splits)

lemma pack_and_inspect_silent:
  "rn_client r \<noteq> None \<Longrightarrow> silent nd (pack_and_inspect r escape ctx run prepared nd)"
  unfolding pack_and_inspect_def Let_def
  by (auto intro!: silent_step clock pack inspect split: option.splits sum.splits)

lemma status_silent: "silent nd (status r slots ctx req nd)"
proof (cases "rn_client r")
  case (Some c)
  obtain t nd1 where t: "(if srq_observedAt req = 0 then on_world (rn_now r) nd else (srq_observedAt req, nd)) = (t, nd1)"
    by force
  have q: "made nd nd1 []" using t on_world_quiet [OF _ clock] by (auto split: if_splits)
  obtain x nd2 where h: "runner_host_class r ctx (if srq_backend req = [] then rn_backend r else srq_backend req) nd1 = (x, nd2)"
    by force
  have "made nd nd2 []"
    using made_quiet [OF q] host_class_silent [of nd1 ctx] h Some by (metis option.distinct(1) silent_def snd_conv)
  then show ?thesis using t h Some by (auto simp: status_def silent_def Let_def split: sum.splits)
qed (simp add: status_def)

definition tracked :: "'w node \<Rightarrow> 'w node option \<Rightarrow> bool" where
  "tracked nd res \<longleftrightarrow> (\<forall>nd'. res = Some nd' \<longrightarrow> (\<exists>tr. made nd nd' tr))"

lemma tracked_release: "tracked nd (map_option snd (release_prepared_run r ctx run nd))"
  using release_prepared_run_made by (fastforce simp: tracked_def)

lemma tracked_ret [simp]: "tracked nd (Some nd)"
  by (auto simp: tracked_def)

lemma tracked_trans: "made nd nd1 tr \<Longrightarrow> tracked nd1 res \<Longrightarrow> tracked nd res"
  unfolding tracked_def using made_trans by blast

lemma tracked_bind:
  assumes "tracked nd (map_option snd m)" "\<And>x nd1. tracked nd1 (map_option snd (f (x, nd1)))"
  shows "tracked nd (map_option snd (Option.bind m f))"
proof (cases m)
  case (Some y)
  then obtain tr where "made nd (snd y) tr" using assms(1) by (auto simp: tracked_def)
  then show ?thesis using tracked_trans assms(2) [of "snd y" "fst y"] Some by (cases y) auto
qed (simp add: tracked_def)

lemma tracked_after_error: "tracked nd (map_option snd (release_prepared_after_error r ctx run cause nd))"
  unfolding release_prepared_after_error_def
  by (auto intro!: tracked_bind tracked_release split: option.splits)

lemma tracked_released_on_error:
  assumes "silent nd res"
  shows "tracked nd (map_option snd (released_on_error r ctx run res))"
proof -
  obtain x nd1 where res: "res = (x, nd1)" by force
  have "tracked nd1 (map_option snd (released_on_error r ctx run (x, nd1)))"
    unfolding released_on_error_def by (auto intro!: tracked_bind tracked_after_error split: sum.splits)
  then show ?thesis using tracked_trans assms res by (auto simp: silent_def)
qed

lemma tracked_silent:
  "silent nd y \<Longrightarrow> (\<And>x nd1. y = (x, nd1) \<Longrightarrow> tracked nd1 (f x nd1)) \<Longrightarrow> tracked nd (case y of (x, nd1) \<Rightarrow> f x nd1)"
  by (cases y) (auto simp: silent_def intro: tracked_trans)

lemma tracked_prepare_children: "tracked nd (map_option snd (prepare_children r ctx req nd))"
proof (cases "rn_client r")
  case (Some c)
  have mk: "tracked nd2 (map_option snd (case on_world (os_mkdir_all (rn_os r) d) nd2 of
      (Some e, nd3) \<Rightarrow> Some (Inl e, nd3)
    | (None, nd3) \<Rightarrow> released_on_error r ctx (pbq_run req) (capture_and_fork r ctx req backend hc d nd3)))"
    for nd2 d backend hc
  proof -
    obtain e nd3 where f: "on_world (os_mkdir_all (rn_os r) d) nd2 = (e, nd3)" by force
    have "made nd2 nd3 []" by (rule on_world_quiet [OF f mkdir])
    moreover have "tracked nd3 (map_option snd (released_on_error r ctx (pbq_run req)
        (capture_and_fork r ctx req backend hc d nd3)))"
      using Some by (intro tracked_released_on_error capture_and_fork_silent) simp
    ultimately show ?thesis using f tracked_trans by (cases e) auto
  qed
  have rest: "tracked nd1 (map_option snd (Option.bind (release_prepared_run r ctx (pbq_run req) nd1)
      (\<lambda>((u, err), nd2). case err of Some e \<Rightarrow> Some (Inl e, nd2) | None \<Rightarrow>
        (case on_world (os_mkdir_all (rn_os r) d) nd2 of
          (Some e, nd3) \<Rightarrow> Some (Inl e, nd3)
        | (None, nd3) \<Rightarrow> released_on_error r ctx (pbq_run req) (capture_and_fork r ctx req backend hc d nd3)))))"
    for nd1 d backend hc
    by (rule tracked_bind [OF tracked_release]) (use mk in \<open>auto split: option.splits\<close>)
  define backend where "backend = (if pbq_backend req = [] then rn_backend r else pbq_backend req)"
  obtain x nd1 where h: "runner_host_class r ctx backend nd = (x, nd1)" by force
  have "made nd nd1 []" using host_class_silent [of nd ctx backend] h Some by (simp add: silent_def)
  then show ?thesis
    using h tracked_trans rest [of nd1]
    by (cases x) (auto simp: prepare_children_def Let_def backend_def [symmetric] split: option.splits)
qed (simp add: prepare_children_def)

lemma tracked_prepare_local: "tracked nd (map_option snd (prepare_local r digest ctx req nd))"
  unfolding prepare_local_def
  by (auto intro!: tracked_bind tracked_prepare_children tracked_released_on_error split: sum.splits)

lemma tracked_prepare_bundle: "tracked nd (map_option snd (prepare_bundle r escape ctx req nd))"
proof (cases "rn_client r")
  case None
  then show ?thesis by (simp add: prepare_bundle_def prepare_children_def)
next
  case (Some c)
  then show ?thesis unfolding prepare_bundle_def
    by (auto intro!: tracked_bind tracked_prepare_children tracked_released_on_error pack_and_inspect_silent split: sum.splits)
qed

lemma collect_cache_made:
  assumes "rn_client r \<noteq> None"
  shows "\<exists>tr. made nd (snd (collect_cache r ctx nd)) tr \<and>
    (tr \<noteq> [] \<longleftrightarrow> rn_cacheGC r \<and> nd_gcPending nd) \<and>
    (tr \<noteq> [] \<longrightarrow> tr = [Collected (snd (fst (collect_cache r ctx nd)))])"
proof -
  obtain c where c: "rn_client r = Some c" using assms by auto
  obtain res err w where w: "sc_collect_cache c ctx (nd_world nd) = ((res, err), w)"
    by (metis surj_pair)
  show ?thesis
  proof (cases "rn_cacheGC r \<and> nd_gcPending nd")
    case True
    then show ?thesis using c w collected [OF c w]
      by (intro exI [of _ "[Collected err]"]) (auto simp: collect_cache_def on_world_def made_def Let_def)
  next
    case False
    then show ?thesis by (intro exI [of _ "[]"]) (auto simp: collect_cache_def made_def)
  qed
qed

lemma node_op_tracked:
  assumes "rn_client r \<noteq> None"
  shows "tracked nd (node_op_step r digest escape op nd)"
proof (cases op)
  case CollectCacheOp
  then show ?thesis using collect_cache_made [OF assms] by (auto simp: node_op_step_def tracked_def)
next
  case (StatusOp slots req)
  then show ?thesis using status_silent [of nd slots CallerCtx req]
    by (auto simp: node_op_step_def tracked_def silent_def)
qed (simp_all add: node_op_step_def tracked_release tracked_prepare_local tracked_prepare_bundle)

lemma node_ops_made:
  "rn_client r \<noteq> None \<Longrightarrow> node_ops r digest escape ops nd = Some nd' \<Longrightarrow> \<exists>tr. made nd nd' tr"
proof (induction ops arbitrary: nd)
  case (Cons op ops)
  then obtain nd1 where "node_op_step r digest escape op nd = Some nd1"
    "node_ops r digest escape ops nd1 = Some nd'" by (auto split: option.splits)
  then show ?case using Cons node_op_tracked [of nd] made_trans unfolding tracked_def by blast
qed auto

end


section \<open>A release by the sample agent\<close>

lemma calm_paths:
  "prepare_work_dir ''/work'' sample_run = ''/work/run-1/prepare''"
  "path_join [''/work/run-1/prepare'', ''.cleanup-pending.json''] = ''/work/run-1/prepare/.cleanup-pending.json''"
  "path_join [''/work/run-1/prepare'', ''.cleanup-pending.json.tmp''] = ''/work/run-1/prepare/.cleanup-pending.json.tmp''"
  "path_join [''/work/run-1/prepare'', ''parent.spore''] = ''/work/run-1/prepare/parent.spore''"
  "validate_path_within (Inr ''/'') ''/work'' ''/work/run-1/prepare'' = None"
  "path_rel ''/work'' ''/work/run-1/prepare'' = Inr ''run-1/prepare''"
  "split_on (CHR ''/'') ''run-1/prepare'' = [''run-1'', ''prepare'']"
  by code_simp+

definition calm_release_log :: "node_call list" where
  "calm_release_log =
     (let d = ''/work/run-1/prepare''; t = ''/work/run-1/prepare/.cleanup-pending.json.tmp'';
          l = ''/work/run-1/prepare/.cleanup-pending.json'' in
      [WroteFile t (json_strings (Some [''parent.spore''])) None, Renamed t l None,
       RemovedSpore (d @ ''/parent.spore'') None,
       WroteFile t (json_strings (Some [])) None, Renamed t l None, DeletedDir d None])"

lemma calm_release:
  "release_prepared_run (traced_runner calm_runner) CallerCtx sample_run (new_node ((), [])) =
     Some ((\<lparr>prc_runID = ''run-1'', prc_removedChildren = 0\<rparr>, None),
       (new_node ((), calm_release_log)))"
proof -
  let ?d = "''/work/run-1/prepare''" and ?r = "traced_runner calm_runner"
  have os: "rn_os ?r = traced_os calm_os" "rn_workRoot ?r = ''/work''" "rn_client ?r = Some (traced_client calm_client)"
    by (simp_all add: traced_runner_def calm_runner_def)
  have links: "validate_no_symlink_path (rn_os ?r) ''/work'' ?d t = None" for t
    by (simp add: validate_no_symlink_path_def calm_paths os traced_os_def calm_os_def)
  have first: "release_prepared_run ?r CallerCtx sample_run (new_node ((), [])) =
      release_root ?r CallerCtx sample_run ?d (new_node ((), []))"
    using calm_paths(1,5) links sample_run_valid
    by (simp add: release_prepared_run_def os traced_os_def calm_os_def)
  have id: "run_runID sample_run = ''run-1''" by (simp add: sample_run_def overflow_run_def)
  show ?thesis
    unfolding first
    by (simp add: release_root_def os id load_or_create_cleanup_ledger_def validate_prepared_tree_def
      new_cleanup_ledger_def listed_children_def write_cleanup_ledger_def traced_os_def calm_os_def on_world_def new_node_def
      traced_call_def prepared_cleanup_ledger_name_def prepared_cleanup_ledger_temp_name_def
      calm_paths pending_spore_error_def remove_prepared_spore.simps remove_saved_spore_def
      traced_client_def calm_client_def calm_release_log_def has_prefix_def errors_join_def List.map_filter_simps Let_def)
qed

theorem release_spores_first_witness:
  "\<exists>tr. calm_release_log = [] @ tr \<and>
    release_outcome ''/work/run-1/prepare'' False (Inr [''parent.spore''])
      (\<lparr>prc_runID = ''run-1'', prc_removedChildren = 0\<rparr>, None) tr"
  using release_spores_first [OF calm_release] calm_paths
  by (simp add: new_node_def prepared_absent_def cleanup_ledger_def traced_runner_def calm_runner_def
      traced_os_def calm_os_def load_or_create_cleanup_ledger_def validate_prepared_tree_def
      new_cleanup_ledger_def listed_children_def write_cleanup_ledger_def traced_call_def
      prepared_cleanup_ledger_name_def prepared_cleanup_ledger_temp_name_def Let_def)


section \<open>Operations return\<close>

text \<open>A context that ends: \<open>left\<close> bounds the retry intervals before the timer reports its end.\<close>

definition context_ends :: "'w runner \<Rightarrow> ('w \<Rightarrow> nat) \<Rightarrow> go_ctx \<Rightarrow> bool" where
  "context_ends r left ctx \<longleftrightarrow>
     (\<forall>w w'. rn_timer r ctx prepared_cleanup_retry_interval w = (None, w') \<longrightarrow> left w' < left w) \<and>
     (\<forall>c q w e w'. rn_client r = Some c \<longrightarrow> sc_remove_saved_spore c ctx q w = (e, w') \<longrightarrow> left w' \<le> left w)"

lemma remove_prepared_spore_returns:
  assumes "context_ends r left ctx" "rn_client r \<noteq> None"
  shows "remove_prepared_spore r ctx path nd \<noteq> None"
proof (induction "left (nd_world nd)" arbitrary: nd rule: less_induct)
  case less
  obtain c where c: "rn_client r = Some c" using assms(2) by auto
  obtain e w1 where e: "sc_remove_saved_spore c ctx \<lparr>rsv_sporeDir = path\<rparr> (nd_world nd) = (e, w1)" by force
  obtain t w2 where t: "rn_timer r ctx prepared_cleanup_retry_interval w1 = (t, w2)" by force
  have "left w1 \<le> left (nd_world nd)" "t = None \<Longrightarrow> left w2 < left w1"
    using assms(1) c e t unfolding context_ends_def by blast+
  then have "t = None \<Longrightarrow> remove_prepared_spore r ctx path (nd\<lparr>nd_world := w2\<rparr>) \<noteq> None"
    by (intro less) simp
  then show ?case
    using c e t by (subst remove_prepared_spore.simps)
      (auto simp: remove_saved_spore_def on_world_def split: option.splits)
qed

lemma release_loop_returns:
  assumes "context_ends r left ctx" "rn_client r \<noteq> None"
  shows "release_loop r ctx root_dir n pending nd \<noteq> None"
proof (induction pending arbitrary: n nd)
  case (Cons rel rest)
  obtain e nd1 where "remove_prepared_spore r ctx (path_join [root_dir, rel]) nd = Some (e, nd1)"
    using remove_prepared_spore_returns [OF assms] by fastforce
  then show ?case using Cons by (auto simp: Let_def split: option.splits prod.splits)
qed simp

lemma release_returns:
  assumes "context_ends r left ctx"
  shows "release_prepared_run r ctx run nd \<noteq> None"
proof (cases "rn_client r = None")
  case False
  have "release_root r ctx run d nd1 \<noteq> None" for d nd1
  proof -
    obtain x nd2 where l: "on_world (load_or_create_cleanup_ledger (rn_os r) (rn_unmarshal_strings r) d) nd1 = (x, nd2)"
      by force
    show ?thesis
    proof (cases x)
      case (Inr pending)
      obtain m stop nd3 where "release_loop r ctx d 0 pending nd2 = Some ((m, stop), nd3)"
        using release_loop_returns [OF assms False] by (metis not_None_eq surj_pair)
      then show ?thesis using l Inr
        by (auto simp: release_root_def Let_def split: sum.splits option.splits prod.splits)
    qed (use l in \<open>simp add: release_root_def\<close>)
  qed
  then show ?thesis by (auto simp: release_prepared_run_def Let_def split: option.splits sum.splits)
qed (simp add: release_prepared_run_def Let_def)

lemma released_on_error_returns:
  assumes "context_ends r left (WithTimeout lifecycle_cleanup_timeout (WithoutCancel ctx))"
  shows "released_on_error r ctx run res \<noteq> None"
proof -
  obtain y nd1 where "release_prepared_run r (WithTimeout lifecycle_cleanup_timeout (WithoutCancel ctx)) run (snd res) = Some (y, nd1)"
    using release_returns [OF assms] by fastforce
  then show ?thesis
    by (cases res) (auto simp: released_on_error_def release_prepared_after_error_def split: sum.splits option.splits prod.splits)
qed

lemma prepare_children_returns:
  assumes "context_ends r left ctx"
    "context_ends r left (WithTimeout lifecycle_cleanup_timeout (WithoutCancel ctx))"
  shows "prepare_children r ctx req nd \<noteq> None"
proof -
  have rel: "\<exists>u e nd2. release_prepared_run r ctx (pbq_run req) nd1 = Some ((u, e), nd2)" for nd1
    using release_returns [OF assms(1)] by (metis not_None_eq surj_pair)
  show ?thesis
  proof (cases "runner_host_class r ctx (if pbq_backend req = [] then rn_backend r else pbq_backend req) nd")
    case (Pair x nd1)
    obtain u e nd2 where "release_prepared_run r ctx (pbq_run req) nd1 = Some ((u, e), nd2)"
      using rel by blast
    moreover have "\<exists>a b. released_on_error r ctx run res = Some (a, b)" for run and res :: "(gerr + local_preparation) \<times> 'a node"
      using released_on_error_returns [OF assms(2)] by (metis not_None_eq surj_pair)
    ultimately show ?thesis
      using Pair by (auto simp: prepare_children_def Let_def split: option.splits sum.splits prod.splits if_splits)
  qed
qed

text \<open>C27: the cleanup retries cannot hang the agent: when the caller's context ends after some
  number of retry intervals, and so does the thirty second context of the cleanup after an
  error, then releasing, and preparing in either way, return, whatever SporeVM answers.\<close>

theorem preparations_return:
  assumes "context_ends r left ctx"
    "context_ends r left (WithTimeout lifecycle_cleanup_timeout (WithoutCancel ctx))"
  shows "release_prepared_run r ctx run nd \<noteq> None \<and> prepare_local r digest ctx req nd \<noteq> None \<and>
    prepare_bundle r escape ctx req nd \<noteq> None"
proof -
  obtain p nd1 where "prepare_children r ctx req nd = Some (p, nd1)"
    using prepare_children_returns [OF assms] by fastforce
  moreover have "\<exists>a b. released_on_error r ctx run res = Some (a, b)" for run and res :: "(gerr + prepared_bundle) \<times> 'a node"
    using released_on_error_returns [OF assms(2)] by (metis not_None_eq surj_pair)
  ultimately show ?thesis
    using release_returns [OF assms(1)]
    by (auto simp: prepare_local_def prepare_bundle_def split: sum.splits)
qed

text \<open>A node whose spore is never free, and whose contexts end after five calls.\<close>

definition busy_error :: gerr where
  "busy_error = MachineError \<lparr>env_schema = errorSchema, env_schema_version = schemaVersion,
     env_error = \<lparr>me_code = ''busy'', me_message = ''in use'', me_retry = ''later'', me_retryable = True,
       me_scope = ''spore'', me_exit_code = 1, me_source = ''SavedSporeInUse''\<rparr>\<rparr> []"

definition busy_runner :: "unit traced runner" where
  "busy_runner = (traced_runner calm_runner)\<lparr>
     rn_client := Some ((traced_client calm_client)\<lparr>sc_remove_saved_spore := (\<lambda>_ q t.
       (Some busy_error, (fst t, snd t @ [RemovedSpore (rsv_sporeDir q) (Some busy_error)])))\<rparr>),
     rn_timer := (\<lambda>_ _ t. if length (snd t) < 5 then (None, (fst t, snd t @ [Collected None]))
       else (Some (Sentinel ContextDeadlineExceeded), t))\<rparr>"

lemma busy_ends: "context_ends busy_runner (\<lambda>t. 5 - length (snd t)) ctx"
  by (auto simp: context_ends_def busy_runner_def split: if_splits)

theorem preparations_return_witness:
  "release_prepared_run busy_runner CallerCtx sample_run (new_node ((), [])) \<noteq> None"
  using preparations_return [OF busy_ends busy_ends] by blast

end
