(* ===== verification/TemplateSafety.thy ===== *)
theory TemplateSafety
  imports TemplateNames NodeOps
begin

text \<open>
  What the template operations keep: the counts of the templates in use, the slot of a run, and
  the templates a reconciliation must not touch.
\<close>

section \<open>Counts\<close>

definition same_uses :: "'w node \<Rightarrow> 'w node \<Rightarrow> bool" where
  "same_uses nd nd' \<longleftrightarrow> nd_templateUses nd' = nd_templateUses nd"

lemma same_refl [simp, intro]: "same_uses nd nd"
  by (simp add: same_uses_def)

lemma same_trans: "same_uses a b \<Longrightarrow> same_uses b c \<Longrightarrow> same_uses a c"
  by (simp add: same_uses_def)

lemma same_counts: "same_uses nd nd' \<Longrightarrow> template_uses nd' d = template_uses nd d"
  by (simp add: same_uses_def template_uses_def)

lemma on_world_same: "on_world f nd = (x, nd') \<Longrightarrow> same_uses nd nd'"
  by (auto simp: on_world_def same_uses_def split: prod.splits)

lemma remove_saved_same: "remove_saved_spore r ctx d nd = (e, nd') \<Longrightarrow> same_uses nd nd'"
  by (auto simp: remove_saved_spore_def on_world_def same_uses_def split: prod.splits option.splits)

lemma host_class_same: "runner_host_class r ctx backend nd = (x, nd') \<Longrightarrow> same_uses nd nd'"
  by (auto simp: runner_host_class_def on_world_def same_uses_def split: prod.splits option.splits sum.splits)

lemma identity_of_file_same: "identity_of_file r te c ctx path nd = (x, nd') \<Longrightarrow> same_uses nd nd'"
  by (auto simp: identity_of_file_def Let_def same_uses_def dest!: on_world_same host_class_same
      split: prod.splits sum.splits)

lemma identity_same: "boot_template_identity r te ctx nd = (x, nd') \<Longrightarrow> same_uses nd nd'"
  by (auto simp: boot_template_identity_def dest!: on_world_same identity_of_file_same intro: same_trans
      split: prod.splits sum.splits option.splits if_splits)

lemma cleanup_same: "same_uses nd (cleanup_template_build r ctx tmp d nd)"
proof -
  have w: "same_uses n (snd (on_world f n))" for f :: "'a \<Rightarrow> 'b \<times> 'a" and n
    using on_world_same [of f n] by (cases "on_world f n") auto
  show ?thesis
    by (auto simp: cleanup_template_build_def w dest!: remove_saved_same intro: same_trans w split: prod.splits option.splits)
qed

lemma build_same: "build_template r ctx key tmp dir nd = (x, nd') \<Longrightarrow> same_uses nd nd'"
  by (auto simp: build_template_def Let_def dest!: on_world_same intro: same_trans
      split: prod.splits sum.splits option.splits if_splits)

lemma lease_uses: "template_uses (lease_boot_template d nd) x = template_uses nd x + (if x = d then 1 else 0)"
  by (simp add: lease_boot_template_def template_uses_def)

lemma release_uses: "template_uses (release_boot_template d nd) x = template_uses nd x - (if x = d then 1 else 0)"
  by (auto simp: release_boot_template_def template_uses_def Let_def delete_conv' split: option.splits)

lemma uses_snd [simp]:
  "template_uses (snd (on_world f nd)) d = template_uses nd d"
  "template_uses (snd (boot_template_identity r te ctx nd)) d = template_uses nd d"
  "template_uses (snd (build_template r ctx key t dir nd)) d = template_uses nd d"
  "template_uses (cleanup_template_build r ctx t dir nd) d = template_uses nd d"
  by (simp_all add: same_counts [OF on_world_same [OF surjective_pairing]] same_counts [OF cleanup_same]
      same_counts [OF identity_same [OF surjective_pairing]] same_counts [OF build_same [OF surjective_pairing]])

lemma ensure_uses:
  "template_uses (snd (ensure_boot_template r te ctx img memory nd)) x = template_uses nd x +
    (case fst (ensure_boot_template r te ctx img memory nd) of Inl _ \<Rightarrow> 0 | Inr (st, d) \<Rightarrow> if x = d then 1 else 0)"
  by (auto simp: ensure_boot_template_def Let_def lease_uses case_prod_unfold split: sum.splits option.splits)

lemma run_in_template_uses:
  "template_uses (snd (run_in_template r te ctx req started nd)) x = template_uses nd x"
proof -
  let ?mem = "if rrq_memory req = [] then interactive_default_memory else rrq_memory req"
  let ?nd1 = "snd (on_world (rn_now r) nd)"
  note u = ensure_uses [of r te ctx "rrq_image req" ?mem ?nd1 x]
  show ?thesis
  proof (cases "fst (ensure_boot_template r te ctx (rrq_image req) ?mem ?nd1)")
    case (Inl err)
    then show ?thesis using u by (simp add: run_in_template_def Let_def case_prod_unfold)
  next
    case (Inr y)
    then show ?thesis using u
      by (cases y) (simp add: run_in_template_def Let_def case_prod_unfold with_defer_def release_uses)
  qed
qed

text \<open>C35: a run gives back what it takes, on every path: the slots held are those held before, and
  every template has as many users as before.\<close>

theorem run_restores:
  assumes "pool_ok slots" "runner_run r te ctx req pressure (slots, nd) = (res, slots', nd')"
  shows "pool_held slots' = pool_held slots \<and> pool_ok slots' \<and> pool_total slots' = pool_total slots \<and>
    template_uses nd' d = template_uses nd d"
proof -
  obtain t nd1 where t: "on_world (rn_now r) nd = (t, nd1)" by force
  have u1: "template_uses nd1 d = template_uses nd d" by (rule same_counts [OF on_world_same [OF t]])
  obtain v p1 where adm: "admit_one pressure slots = (v, p1)" by fastforce
  then have adm2: "admit_slots 1 pressure slots = (v, p1)" by (simp add: admit_one_def)
  show ?thesis
  proof (cases "run_request_validate req")
    case (Some e)
    then show ?thesis using assms t u1 by (simp add: runner_run_def)
  next
    case None
    show ?thesis
    proof (cases v)
      case (Inl e)
      then have "p1 = slots" using admit_slots_Inl adm2 by blast
      then show ?thesis using assms t u1 None adm Inl by (simp add: runner_run_def)
    next
      case (Inr h)
      then have a: "try_acquire 1 slots = (Some h, p1)" using admit_slots_Inr adm2 by blast
      note acq = limiter.acquired [OF assms(1) a]
      let ?run = "run_in_template r te ctx req t nd1"
      have "slots' = call_release h p1" "nd' = snd ?run"
        using assms(2) t None adm Inr by (auto simp: runner_run_def split: prod.splits)
      then show ?thesis
        using acq limiter.released [of p1 h] run_in_template_uses [of r te ctx req t nd1 d] u1 by (simp add: fun_upd_idem)
    qed
  qed
qed


section \<open>Reconciliation\<close>

text \<open>The calls of one removed entry: the saved spore first, when there is one, then the directory.\<close>

inductive entry_removal :: "string \<Rightarrow> string \<Rightarrow> node_call list \<Rightarrow> bool" for dir spore where
  refused: "entry_removal dir spore [RemovedSpore spore (Some e)]"
| both: "entry_removal dir spore [RemovedSpore spore None, DeletedDir dir e]"
| only_dir: "entry_removal dir spore [DeletedDir dir e]"

definition spares :: "string \<Rightarrow> string \<Rightarrow> node_call list \<Rightarrow> bool" where
  "spares dir spore tr \<longleftrightarrow> (\<forall>e. RemovedSpore spore e \<notin> set tr \<and> DeletedDir dir e \<notin> set tr)"

lemma spares_simps [simp]: "spares dir spore []" "spares dir spore (a @ b) \<longleftrightarrow> spares dir spore a \<and> spares dir spore b"
  by (auto simp: spares_def)

lemma removal_spares:
  "entry_removal dir spore tr \<Longrightarrow> dir \<noteq> dir' \<Longrightarrow> spore \<noteq> spore' \<Longrightarrow> spares dir' spore' tr"
  by (induction rule: entry_removal.induct) (auto simp: spares_def)

lemma remove_counted_uses [simp]: "template_uses (rc_node (remove_counted r ctx kind what p d s)) x = template_uses (rc_node s) x"
proof -
  have "same_uses nd nd1" if "remove_boot_template_entry r ctx p d nd = (e, nd1)" for nd e nd1
    using that by (auto simp: remove_boot_template_entry_def dest!: on_world_same remove_saved_same intro: same_trans
      split: if_splits option.splits prod.splits)
  then show ?thesis
    by (cases "remove_boot_template_entry r ctx p d (rc_node s)")
      (auto simp: remove_counted_def Let_def same_counts split: option.splits removed_kind.splits)
qed

lemma remove_counted_complete [simp]:
  "rc_complete (remove_counted r ctx kind what p d s) = rc_complete s"
  "tr_retainedTemplates (rc_result (remove_counted r ctx kind what p d s)) = tr_retainedTemplates (rc_result s)"
  by (auto simp: remove_counted_def Let_def split: prod.splits option.splits removed_kind.splits)

lemma reconcile_entry_uses [simp]: "template_uses (rc_node (reconcile_entry r te ctx identity e s)) x = template_uses (rc_node s) x"
  by (cases e) (auto simp: reconcile_entry_def Let_def split: sum.splits)

context node_env
begin

lemma remove_counted_made:
  assumes "rn_client r \<noteq> None"
  shows "\<exists>tr. made (rc_node s) (rc_node (remove_counted r ctx kind what p d s)) tr \<and> entry_removal p d tr"
proof -
  have del: "made nd nd' [DeletedDir p e]" if "on_world (os_remove_all (rn_os r) p) nd = (e, nd')" for nd e nd'
    using that deleted [of p "nd_world nd"] by (auto simp: on_world_def made_def split: prod.splits)
  obtain e nd' where rm: "remove_boot_template_entry r ctx p d (rc_node s) = (e, nd')" by force
  have node: "rc_node (remove_counted r ctx kind what p d s) = nd'"
    using rm by (cases e) (auto simp: remove_counted_def Let_def)
  have "\<exists>tr. made (rc_node s) nd' tr \<and> entry_removal p d tr"
  proof (cases "boot_template_ready r d (nd_world (rc_node s))")
    case True
    obtain e1 nd1 where sp: "remove_saved_spore r ctx d (rc_node s) = (e1, nd1)" by force
    note m = remove_saved_spore_made [OF assms sp]
    show ?thesis
    proof (cases e1)
      case (Some x)
      then show ?thesis using rm True sp m entry_removal.refused
        by (auto simp: remove_boot_template_entry_def)
    next
      case None
      then have "on_world (os_remove_all (rn_os r) p) nd1 = (e, nd')"
        using rm True sp by (simp add: remove_boot_template_entry_def)
      then show ?thesis using made_trans [OF m del] None entry_removal.both by fastforce
    qed
  next
    case False
    then have "on_world (os_remove_all (rn_os r) p) (rc_node s) = (e, nd')"
      using rm by (simp add: remove_boot_template_entry_def)
    then show ?thesis using del entry_removal.only_dir by blast
  qed
  then show ?thesis unfolding node .
qed

lemma retain_loop_made:
  assumes "rn_client r \<noteq> None"
  shows "\<exists>trs. made (rc_node s) (rc_node (retain_loop r ctx n es s)) (concat trs) \<and>
    list_all2 (\<lambda>e tr. entry_removal (te_path e) (te_templateDir e) tr)
      (filter (\<lambda>e. template_uses (rc_node s) (te_templateDir e) \<le> 0)
        (drop (nat (n - tr_retainedTemplates (rc_result s))) es)) trs \<and>
    tr_retainedTemplates (rc_result (retain_loop r ctx n es s)) =
      tr_retainedTemplates (rc_result s) + int (length es) - int (length trs)"
proof (induction es arbitrary: s)
  case Nil
  show ?case by (intro exI [of _ "[]"]) simp
next
  case (Cons e es)
  let ?k = "tr_retainedTemplates (rc_result s)"
  let ?s1 = "s\<lparr>rc_result := (rc_result s)\<lparr>tr_retainedTemplates := ?k + 1\<rparr>\<rparr>"
  show ?case
  proof (cases "?k < n \<or> template_uses (rc_node s) (te_templateDir e) > 0")
    case True
    obtain trs where trs: "made (rc_node s) (rc_node (retain_loop r ctx n es ?s1)) (concat trs)"
      "list_all2 (\<lambda>e tr. entry_removal (te_path e) (te_templateDir e) tr)
        (filter (\<lambda>e. template_uses (rc_node s) (te_templateDir e) \<le> 0) (drop (nat (n - (?k + 1))) es)) trs"
      "tr_retainedTemplates (rc_result (retain_loop r ctx n es ?s1)) = ?k + 1 + int (length es) - int (length trs)"
      using Cons.IH [of ?s1] by auto
    have "filter (\<lambda>e. template_uses (rc_node s) (te_templateDir e) \<le> 0) (drop (nat (n - ?k)) (e # es)) =
        filter (\<lambda>e. template_uses (rc_node s) (te_templateDir e) \<le> 0) (drop (nat (n - (?k + 1))) es)"
    proof (cases "?k < n")
      case True
      then have "nat (n - ?k) = Suc (nat (n - (?k + 1)))" by linarith
      then show ?thesis by simp
    next
      case False
      then show ?thesis using True by simp
    qed
    then show ?thesis using trs True by (intro exI [of _ trs]) simp
  next
    case False
    let ?s2 = "remove_counted r ctx RemovedTemplate (''remove expired template '' @ path_base (te_path e)) (te_path e) (te_templateDir e) s"
    obtain tr where tr: "made (rc_node s) (rc_node ?s2) tr" "entry_removal (te_path e) (te_templateDir e) tr"
      using remove_counted_made [OF assms] by blast
    obtain trs where trs: "made (rc_node ?s2) (rc_node (retain_loop r ctx n es ?s2)) (concat trs)"
      "list_all2 (\<lambda>e tr. entry_removal (te_path e) (te_templateDir e) tr)
        (filter (\<lambda>e. template_uses (rc_node s) (te_templateDir e) \<le> 0) (drop (nat (n - ?k)) es)) trs"
      "tr_retainedTemplates (rc_result (retain_loop r ctx n es ?s2)) = ?k + int (length es) - int (length trs)"
      using Cons.IH [of ?s2] by auto
    have "nat (n - ?k) = 0" using False by simp
    then show ?thesis using False trs tr made_trans [OF tr(1) trs(1)]
      by (intro exI [of _ "tr # trs"]) simp
  qed
qed

end

lemma sorted_newer:
  fixes xs :: "'a :: linorder list"
  assumes "sorted xs" "distinct xs" "i < length xs"
  shows "card {y \<in> set xs. y < xs ! i} = i"
proof -
  have strict: "sorted_wrt (<) xs" using assms(1,2) by (simp add: strict_sorted_iff)
  have less: "xs ! j < xs ! i \<longleftrightarrow> j < i" if "j < length xs" for j
  proof (cases j i rule: linorder_cases)
    case less
    then show ?thesis using sorted_wrt_nth_less [OF strict less assms(3)] by simp
  next
    case greater
    then show ?thesis using sorted_wrt_nth_less [OF strict greater that] by simp
  qed simp
  have "{y \<in> set xs. y < xs ! i} = (\<lambda>j. xs ! j) ` {..<i}"
    using less assms(3) by (fastforce simp: set_conv_nth)
  moreover have "inj_on (\<lambda>j. xs ! j) {..<i}"
    using assms(2,3) by (auto simp: inj_on_def nth_eq_iff_index_eq)
  ultimately show ?thesis by (simp add: card_image)
qed

lemma drop_sorted:
  fixes xs :: "'a :: linorder list"
  assumes "distinct xs"
  shows "set (drop n (sort xs)) = {x \<in> set xs. n \<le> card {y \<in> set xs. y < x}}"
proof -
  let ?s = "sort xs"
  have d: "distinct ?s" and srt: "sorted ?s" using assms by simp_all
  have "x \<in> set (drop n ?s) \<longleftrightarrow> (\<exists>i < length ?s. x = ?s ! i \<and> n \<le> i)" for x
  proof
    assume "x \<in> set (drop n ?s)"
    then obtain j where "j < length ?s - n" "x = ?s ! (n + j)" by (auto simp: in_set_conv_nth)
    then show "\<exists>i < length ?s. x = ?s ! i \<and> n \<le> i" by (intro exI [of _ "n + j"]) auto
  next
    assume "\<exists>i < length ?s. x = ?s ! i \<and> n \<le> i"
    then obtain i where "i < length ?s" "x = ?s ! i" "n \<le> i" by blast
    then show "x \<in> set (drop n ?s)" by (auto simp: in_set_conv_nth intro!: exI [of _ "i - n"])
  qed
  moreover have "x \<in> set xs \<longleftrightarrow> (\<exists>i < length ?s. x = ?s ! i)" for x
    using in_set_conv_nth [of x ?s] by (simp only: set_sort) blast
  moreover have "i < length ?s \<Longrightarrow> card {y \<in> set xs. y < ?s ! i} = i" for i
    using sorted_newer [OF srt d, of i] by simp
  ultimately show ?thesis by (fastforce simp del: length_sort)
qed

text \<open>C37: of the complete templates exactly those go that nobody uses and that have at least
  \<open>retain\<close> newer ones, newest first, each through SporeVM; the others are counted as retained.
  The order of the directory listing does not matter.\<close>

theorem retention_exact:
  assumes "rn_client r \<noteq> None" "distinct (rc_complete s)" "tr_retainedTemplates (rc_result s) = 0"
    and "s' = retain_loop (traced_runner r) ctx retain (sort (rc_complete s)) s"
  shows "\<exists>gone trs. snd (nd_world (rc_node s')) = snd (nd_world (rc_node s)) @ concat trs \<and>
    list_all2 (\<lambda>e tr. entry_removal (te_path e) (te_templateDir e) tr) gone trs \<and> sorted gone \<and> distinct gone \<and>
    set gone = {e \<in> set (rc_complete s). template_uses (rc_node s) (te_templateDir e) \<le> 0 \<and>
      nat retain \<le> card {f \<in> set (rc_complete s). f < e}} \<and>
    tr_retainedTemplates (rc_result s') = int (length (rc_complete s)) - int (length gone)"
proof -
  have c: "rn_client (traced_runner r) \<noteq> None" using assms(1) by (auto simp: traced_runner_def)
  let ?gone = "filter (\<lambda>e. template_uses (rc_node s) (te_templateDir e) \<le> 0) (drop (nat retain) (sort (rc_complete s)))"
  obtain trs where trs: "traced.made (rc_node s) (rc_node s') (concat trs)"
    "list_all2 (\<lambda>e tr. entry_removal (te_path e) (te_templateDir e) tr) ?gone trs"
    "tr_retainedTemplates (rc_result s') = int (length (rc_complete s)) - int (length trs)"
    using traced.retain_loop_made [OF c, of s ctx retain "sort (rc_complete s)"] assms(3,4) by auto
  have "set ?gone = {e \<in> set (rc_complete s). template_uses (rc_node s) (te_templateDir e) \<le> 0 \<and>
      nat retain \<le> card {f \<in> set (rc_complete s). f < e}}"
    using drop_sorted [OF assms(2), of "nat retain"] by auto
  moreover have "sorted ?gone" "distinct ?gone"
    using assms(2) by (simp_all add: sorted_wrt_drop sorted_wrt_filter)
  moreover have "length trs = length ?gone" using list_all2_lengthD [OF trs(2)] by simp
  ultimately show ?thesis using trs by (intro exI [of _ ?gone] exI [of _ trs]) (simp add: traced.made_def)
qed

text \<open>Directories of templates.\<close>

definition entry_dir :: "'w runner \<Rightarrow> string \<Rightarrow> string" where
  "entry_dir r name = path_join [template_root r, name]"

lemma template_dir_entry: "template_dir r name = path_join [entry_dir r name, ''parent.spore'']"
  by (simp add: template_dir_def entry_dir_def)

lemma entry_dir_inj:
  assumes "rn_workRoot r \<noteq> []" "normal_part a" "normal_part b" "entry_dir r a = entry_dir r b"
  shows "a = b"
  using assms template_dir_inj [OF assms(1-3)] by (simp add: template_dir_entry)

lemma entry_name_normal:
  assumes "is_boot_template_entry_name name"
  shows "normal_part name" "\<not> has_prefix name ''.build-''"
proof -
  obtain d where d: "name = hex_encode d" "length d = 32"
    using assms by (auto simp: is_boot_template_entry_name_def split: option.splits)
  then show "normal_part name" by (auto intro: hex_normal)
  obtain c cs where "d = c # cs" using d(2) by (cases d) auto
  then have "hd name = hex_digit (of_char c div 16)" using d(1) by (simp add: hex_encode_def hex_byte_def)
  moreover have "(of_char c :: nat) div 16 < 16" using of_char_less [of c] by linarith
  ultimately have "hd name \<noteq> CHR ''.''" using hex_digit_props by simp
  then show "\<not> has_prefix name ''.build-''" by (auto simp: has_prefix_iff)
qed

lemma reconcile_entry_eq:
  "reconcile_entry r te ctx identity (name, kind) s =
     (let meta = path_join [entry_dir r name, ''template.json'']; w = nd_world (rc_node s) in
      if kind \<noteq> DirFile then s
      else if has_prefix name ''.build-''
      then remove_counted r ctx RemovedBuild (''remove abandoned template build '' @ name) (entry_dir r name) (template_dir r name) s
      else if \<not> is_boot_template_entry_name name then s
      else (case te_stat te meta w of
          Inl _ \<Rightarrow> remove_counted r ctx RemovedTemplate (''remove incomplete template '' @ name) (entry_dir r name) (template_dir r name) s
        | Inr info \<Rightarrow>
            if \<not> boot_template_ready r (template_dir r name) w \<or> fi_isDir info
            then remove_counted r ctx RemovedTemplate (''remove incomplete template '' @ name) (entry_dir r name) (template_dir r name) s
            else if (case identity of None \<Rightarrow> False | Some i \<Rightarrow> \<not> boot_template_current r te meta i w)
            then (if template_uses (rc_node s) (template_dir r name) > 0 then s\<lparr>rc_staleInUse := rc_staleInUse s + 1\<rparr>
              else remove_counted r ctx RemovedTemplate (''remove stale template '' @ name) (entry_dir r name) (template_dir r name) s)
            else s\<lparr>rc_complete := rc_complete s @
              [BootTemplateEntry (entry_dir r name) (template_dir r name) (unix_nano (fi_mtime info))]\<rparr>))"
  unfolding reconcile_entry_def entry_dir_def template_dir_def Let_def by simp

text \<open>A template that stays complete, whatever else happens.\<close>

definition stays_complete :: "'w runner \<Rightarrow> 'w template_env \<Rightarrow> string \<Rightarrow> bool" where
  "stays_complete r te name \<longleftrightarrow> (\<forall>w. boot_template_ready r (template_dir r name) w \<and>
     (case te_stat te (path_join [entry_dir r name, ''template.json'']) w of Inl _ \<Rightarrow> False | Inr info \<Rightarrow> \<not> fi_isDir info))"

definition entries_ok :: "'w runner \<Rightarrow> boot_template_entry list \<Rightarrow> bool" where
  "entries_ok r es \<longleftrightarrow> (\<forall>e \<in> set es. \<exists>n. normal_part n \<and> te_path e = entry_dir r n \<and> te_templateDir e = template_dir r n)"

context node_env
begin

lemma identity_made: "made nd (snd (boot_template_identity r te ctx nd)) []"
proof (cases "rn_client r")
  case (Some c)
  have q: "silent n (identity_of_file r te c ctx path n)" for path n
  proof -
    have v: "silent m (case on_world (sc_version c ctx) m of
        (Inl e, nd1) \<Rightarrow> (Inl e, nd1)
      | (Inr version, nd1) \<Rightarrow>
          (case runner_host_class r ctx (rn_backend r) nd1 of
             (Inl e, nd2) \<Rightarrow> (Inl e, nd2)
           | (Inr hostClass, nd2) \<Rightarrow>
               let identity = \<lparr>ti_version = version, ti_digest = digest, ti_hostClass = hostClass, ti_executable = info\<rparr>
               in (Inr identity, nd2\<lparr>nd_templateIdentity := Some identity\<rparr>)))" for m digest info
    proof (rule silent_step)
      fix x nd1
      have h: "silent nd1 (runner_host_class r ctx (rn_backend r) nd1)"
        using Some by (intro host_class_silent) simp
      show "silent nd1 (case x of Inl e \<Rightarrow> (Inl e, nd1) | Inr version \<Rightarrow>
          (case runner_host_class r ctx (rn_backend r) nd1 of
             (Inl e, nd2) \<Rightarrow> (Inl e, nd2)
           | (Inr hostClass, nd2) \<Rightarrow>
               let identity = \<lparr>ti_version = version, ti_digest = digest, ti_hostClass = hostClass, ti_executable = info\<rparr>
               in (Inr identity, nd2\<lparr>nd_templateIdentity := Some identity\<rparr>)))"
        using h by (auto simp: silent_def made_def Let_def split: sum.splits prod.splits)
    qed (rule version [OF Some])
    show ?thesis unfolding identity_of_file_def using v by (auto split: sum.splits prod.splits)
  qed
  have "silent nd (boot_template_identity r te ctx nd)"
    unfolding boot_template_identity_def Some
    by (auto intro!: silent_step executable [OF Some] q split: sum.splits option.splits)
  then show ?thesis by (simp add: silent_def)
qed (simp add: boot_template_identity_def)

definition keeps :: "string \<Rightarrow> 'w node \<Rightarrow> 'w node \<Rightarrow> bool" where
  "keeps name nd nd' \<longleftrightarrow> (\<exists>tr. made nd nd' tr \<and> spares (entry_dir r name) (template_dir r name) tr)"

lemma keeps_refl [simp, intro]: "keeps name nd nd"
  using spares_simps(1) unfolding keeps_def by blast

lemma keeps_trans: "keeps name a b \<Longrightarrow> keeps name b c \<Longrightarrow> keeps name a c"
  unfolding keeps_def using made_trans spares_simps(2) by blast

lemma removed_keeps:
  assumes "rn_client r \<noteq> None" "rn_workRoot r \<noteq> []" "normal_part n" "normal_part name" "n \<noteq> name"
  shows "keeps name (rc_node s) (rc_node (remove_counted r ctx kind what (entry_dir r n) (template_dir r n) s))"
proof -
  have "entry_dir r n \<noteq> entry_dir r name" "template_dir r n \<noteq> template_dir r name"
    using entry_dir_inj [OF assms(2-4)] template_dir_inj [OF assms(2-4)] assms(5) by auto
  then show ?thesis using remove_counted_made [OF assms(1), of s ctx kind what "entry_dir r n" "template_dir r n"] removal_spares
    unfolding keeps_def by blast
qed

lemma reconcile_entry_keeps:
  assumes "rn_client r \<noteq> None" "rn_workRoot r \<noteq> []" "is_boot_template_entry_name name" "stays_complete r te name"
    "template_uses (rc_node s) (template_dir r name) > 0" "normal_part (fst e)" "entries_ok r (rc_complete s)"
  shows "keeps name (rc_node s) (rc_node (reconcile_entry r te ctx identity e s)) \<and>
    entries_ok r (rc_complete (reconcile_entry r te ctx identity e s))"
proof -
  obtain n kind where e: "e = (n, kind)" by force
  note name = entry_name_normal [OF assms(3)]
  have new: "entries_ok r (rc_complete s @ [BootTemplateEntry (entry_dir r n) (template_dir r n) t])" for t
    using assms(6,7) e by (auto simp: entries_ok_def)
  show ?thesis
  proof (cases "n = name")
    case True
    then show ?thesis
      using assms(3-5,7) e name new stays_complete_def [of r te name]
      by (auto simp: reconcile_entry_eq Let_def split: sum.splits)
  next
    case False
    have n: "normal_part n" using assms(6) e by simp
    show ?thesis
      using removed_keeps [OF assms(1,2) n name(1) False] new assms(7) e
      by (auto simp: reconcile_entry_eq Let_def split: sum.splits)
  qed
qed

lemma reconcile_entries_keeps:
  assumes "rn_client r \<noteq> None" "rn_workRoot r \<noteq> []" "is_boot_template_entry_name name" "stays_complete r te name"
  shows "\<lbrakk>template_uses (rc_node s) (template_dir r name) > 0; \<forall>e \<in> set es. normal_part (fst e); entries_ok r (rc_complete s)\<rbrakk>
    \<Longrightarrow> keeps name (rc_node s) (rc_node (reconcile_entries r te ctx identity es s)) \<and>
      entries_ok r (rc_complete (reconcile_entries r te ctx identity es s)) \<and>
      template_uses (rc_node (reconcile_entries r te ctx identity es s)) (template_dir r name) > 0"
proof (induction es arbitrary: s)
  case (Cons e es)
  have "keeps name (rc_node s) (rc_node (reconcile_entry r te ctx identity e s))"
    "entries_ok r (rc_complete (reconcile_entry r te ctx identity e s))"
    using reconcile_entry_keeps [OF assms, of s e] Cons.prems by auto
  then show ?case using Cons.IH [of "reconcile_entry r te ctx identity e s"] Cons.prems keeps_trans by fastforce
qed auto

lemma retain_keeps:
  assumes "rn_client r \<noteq> None" "rn_workRoot r \<noteq> []" "is_boot_template_entry_name name"
  shows "\<lbrakk>template_uses (rc_node s) (template_dir r name) > 0; entries_ok r es\<rbrakk>
    \<Longrightarrow> keeps name (rc_node s) (rc_node (retain_loop r ctx retain es s))"
proof (induction es arbitrary: s)
  case (Cons e es)
  obtain n where n: "normal_part n" "te_path e = entry_dir r n" "te_templateDir e = template_dir r n"
    using Cons.prems by (auto simp: entries_ok_def)
  have ok: "entries_ok r es" using Cons.prems by (simp add: entries_ok_def)
  show ?case
  proof (cases "tr_retainedTemplates (rc_result s) < retain \<or> template_uses (rc_node s) (te_templateDir e) > 0")
    case True
    then show ?thesis
      using Cons.IH [OF _ ok, of "s\<lparr>rc_result := (rc_result s)\<lparr>tr_retainedTemplates := tr_retainedTemplates (rc_result s) + 1\<rparr>\<rparr>"]
        Cons.prems by simp
  next
    case False
    then have "n \<noteq> name" using Cons.prems n by auto
    let ?s2 = "remove_counted r ctx RemovedTemplate (''remove expired template '' @ path_base (te_path e)) (te_path e) (te_templateDir e) s"
    have k1: "keeps name (rc_node s) (rc_node ?s2)"
      using removed_keeps [OF assms(1,2) n(1) entry_name_normal(1) [OF assms(3)] \<open>n \<noteq> name\<close>] n by simp
    have k2: "keeps name (rc_node ?s2) (rc_node (retain_loop r ctx retain es ?s2))"
      using Cons.IH [OF _ ok, of ?s2] Cons.prems by simp
    have "retain_loop r ctx retain (e # es) s = retain_loop r ctx retain es ?s2" using False by simp
    then show ?thesis using keeps_trans [OF k1 k2] by (simp only:)
  qed
qed auto

end


section \<open>Samples\<close>

lemma prod_triple: "x = (fst x, fst (snd x), snd (snd x))"
  by simp

theorem run_restores_witness:
  "pool_held (fst (snd (runner_run ready_runner ready_env CallerCtx
      \<lparr>rrq_runID = ''r'', rrq_image = ''repo@sha256:'' @ replicate 64 (CHR ''a''), rrq_memory = [], rrq_command = [''true'']\<rparr>
      \<lparr>pressure_disk = ''normal'', pressure_memory = ''normal''\<rparr> (fresh_pool 2, ready_node)))) = Map.empty"
  using run_restores [of "fresh_pool 2" ready_runner ready_env CallerCtx
      "\<lparr>rrq_runID = ''r'', rrq_image = ''repo@sha256:'' @ replicate 64 (CHR ''a''), rrq_memory = [], rrq_command = [''true'']\<rparr>"
      "\<lparr>pressure_disk = ''normal'', pressure_memory = ''normal''\<rparr>" ready_node, OF _ prod_triple]
    fresh_pool_ok [of 2] by simp

definition sample_template_name :: string where
  "sample_template_name = hex_encode (replicate 32 (CHR ''a''))"

lemma sample_template_valid: "is_boot_template_entry_name sample_template_name"
  by (simp add: is_boot_template_entry_name_def sample_template_name_def)

definition traced_ready_env :: "unit traced template_env" where
  "traced_ready_env = \<lparr>te_stat = (\<lambda>_ _. Inr sample_info), te_open = (\<lambda>_ _. Inl (Sentinel OsErrNotExist)),
     te_sha256 = (\<lambda>s. CHR ''h'' # s), te_unmarshal_key = (\<lambda>_. Inl (Opaque ''no key''))\<rparr>"

definition used_node :: "unit traced node" where
  "used_node = (new_node ((), []))\<lparr>nd_templateUses := [(template_dir ready_runner sample_template_name, 1)]\<rparr>"

definition listing_runner :: "unit runner" where
  "listing_runner = ready_runner\<lparr>rn_os := calm_os\<lparr>os_stat := (\<lambda>_ _. Inr RegularFile),
     os_read_dir := (\<lambda>_ _. Inr [(sample_template_name, DirFile)])\<rparr>\<rparr>"

lemma listing_facts:
  "rn_client listing_runner \<noteq> None" "rn_workRoot listing_runner \<noteq> []"
  "template_dir listing_runner n = template_dir ready_runner n"
  "stays_complete (traced_runner listing_runner) traced_ready_env n"
  "template_uses used_node (template_dir listing_runner sample_template_name) > 0"
  by (simp_all add: listing_runner_def ready_runner_def calm_runner_def template_dir_def template_root_def
      stays_complete_def boot_template_ready_def traced_runner_def traced_os_def traced_ready_env_def sample_info_def
      template_uses_def used_node_def)


definition two_templates :: "unit traced reconcile_state" where
  "two_templates = \<lparr>rc_result = no_templates,
     rc_complete = [BootTemplateEntry ''/t/a'' ''/t/a/parent.spore'' 1, BootTemplateEntry ''/t/b'' ''/t/b/parent.spore'' 2],
     rc_errors = [], rc_staleInUse = 0, rc_node = new_node ((), [])\<rparr>"

theorem retention_exact_witness:
  "tr_retainedTemplates (rc_result (retain_loop (traced_runner ready_runner) CallerCtx 1
     (sort (rc_complete two_templates)) two_templates)) = 1"
proof -
  let ?old = "BootTemplateEntry ''/t/a'' ''/t/a/parent.spore'' 1" and ?new = "BootTemplateEntry ''/t/b'' ''/t/b/parent.spore'' 2"
  have c: "rc_complete two_templates = [?old, ?new]" by (simp add: two_templates_def)
  have newer: "{f \<in> {?old, ?new}. f < ?old} = {?new}" "{f \<in> {?old, ?new}. f < ?new} = {}"
    by (auto simp: less_boot_template_entry_def retained_first_def split: if_splits)
  have "{e \<in> {?old, ?new}. template_uses (rc_node two_templates) (te_templateDir e) \<le> 0 \<and>
      nat 1 \<le> card {f \<in> {?old, ?new}. f < e}} = {?old}"
  proof -
    have u: "template_uses (rc_node two_templates) d \<le> 0" for d
      by (simp add: two_templates_def new_node_def template_uses_def)
    have o: "nat 1 \<le> card {f \<in> {?old, ?new}. f < ?old}" unfolding newer by simp
    have n: "\<not> nat 1 \<le> card {f \<in> {?old, ?new}. f < ?new}" unfolding newer by simp
    show ?thesis by (rule set_eqI) (use u o n in blast)
  qed
  moreover have "\<exists>gone. distinct gone \<and>
    set gone = {e \<in> set (rc_complete two_templates). template_uses (rc_node two_templates) (te_templateDir e) \<le> 0 \<and>
      nat 1 \<le> card {f \<in> set (rc_complete two_templates). f < e}} \<and>
    tr_retainedTemplates (rc_result (retain_loop (traced_runner ready_runner) CallerCtx 1
     (sort (rc_complete two_templates)) two_templates)) = int (length (rc_complete two_templates)) - int (length gone)"
  proof -
    have p: "rn_client ready_runner \<noteq> None" "distinct (rc_complete two_templates)"
      "tr_retainedTemplates (rc_result two_templates) = 0"
      by (simp_all add: ready_runner_def two_templates_def no_templates_def)
    show ?thesis using retention_exact [OF p refl] by blast
  qed
  then obtain gone where "distinct gone"
    "set gone = {e \<in> set (rc_complete two_templates). template_uses (rc_node two_templates) (te_templateDir e) \<le> 0 \<and>
      nat 1 \<le> card {f \<in> set (rc_complete two_templates). f < e}}"
    "tr_retainedTemplates (rc_result (retain_loop (traced_runner ready_runner) CallerCtx 1
     (sort (rc_complete two_templates)) two_templates)) = int (length (rc_complete two_templates)) - int (length gone)"
    by blast
  ultimately show ?thesis using c distinct_card [of gone] by simp
qed

end
