(* ===== verification/SandboxCalls.thy ===== *)
theory SandboxCalls
  imports TemplateSafety
begin

text \<open>
  \<open>CreateSandbox\<close>, \<open>ExecSandbox\<close> and \<open>RemoveSandbox\<close> of \<open>internal/agent/interactive.go\<close> as functions
  of the agent's slots, registry and node, one call at a time, with their answers; and that each is
  an execution of the interleaved calls of \<open>Sandbox\<close>, so what holds there in every interleaving
  holds of these.
\<close>

section \<open>Creating\<close>

record sandbox_timings =
  sti_template :: float64
  sti_restore :: float64
  sti_restorePrepare :: float64
  sti_restoreSpawnMonitor :: float64
  sti_restoreWaitExecReady :: float64
  sti_restoreSporeTotal :: float64
  sti_total :: float64

record sandbox_create_response =
  scr_name :: string
  scr_template :: template_status
  scr_timings :: sandbox_timings

definition first_create_response :: "sandbox_create_request \<Rightarrow> sandbox_create_response" where
  "first_create_response req = \<lparr>scr_name = scq_name req, scr_template = \<lparr>ts_id = [], ts_cacheHit = False\<rparr>,
     scr_timings = \<lparr>sti_template = 0, sti_restore = 0, sti_restorePrepare = 0, sti_restoreSpawnMonitor = 0,
       sti_restoreWaitExecReady = 0, sti_restoreSporeTotal = 0, sti_total = 0\<rparr>\<rparr>"

text \<open>The registry and the node, which a creation works on once it holds its slot and its name;
  the flag of an answer is \<open>keepReservation\<close>.\<close>

definition fail_sandbox_creation :: "'w runner \<Rightarrow> go_ctx \<Rightarrow> string \<Rightarrow> nat \<Rightarrow> gerr \<Rightarrow> registry \<times> 'w node
    \<Rightarrow> (gerr \<times> bool) \<times> registry \<times> 'w node" where
  "fail_sandbox_creation r ctx name release cause s =
     (case s of (m, nd) \<Rightarrow>
      (case on_world (sc_remove_vm (the (rn_client r)) (WithTimeout lifecycle_cleanup_timeout (WithoutCancel ctx))
          \<lparr>rvq_name = name\<rparr>) nd of
         (Some cleanupErr, nd1) \<Rightarrow>
           ((the (errors_join [Some cause, Some (Wrap (''cleanup sandbox '' @ go_quote name @ '': '') cleanupErr [])]), True),
            activate_sandbox name release m, nd1)
       | (None, nd1) \<Rightarrow> ((cause, False), m, nd1)))"

definition restore_sandbox :: "'w runner \<Rightarrow> go_ctx \<Rightarrow> string \<Rightarrow> nat \<Rightarrow> string \<Rightarrow> sandbox_create_response \<Rightarrow> go_time
    \<Rightarrow> registry \<times> 'w node \<Rightarrow> ((sandbox_create_response \<times> gerr option) \<times> bool) \<times> registry \<times> 'w node" where
  "restore_sandbox r ctx name release templateDir response started s =
     (case s of (m, nd) \<Rightarrow>
      case on_world (rn_now r) nd of (restoreStarted, nd1) \<Rightarrow>
      case on_world (sc_restore_named (the (rn_client r)) ctx
        \<lparr>rnq_sporeDir = templateDir, rnq_backend = rn_backend r, rnq_generationPath = [], rnq_name = name\<rparr>) nd1 of (restored, nd2) \<Rightarrow>
      case on_world (rn_now r) nd2 of (restoreEnd, nd3) \<Rightarrow>
      case on_world (rn_now r) nd3 of (totalEnd, nd4) \<Rightarrow>
      let response1 = response\<lparr>scr_timings := (scr_timings response)\<lparr>
            sti_restore := elapsed_ms restoreStarted restoreEnd, sti_total := elapsed_ms started totalEnd\<rparr>\<rparr> in
      (case (case restored of Inl e \<Rightarrow> Inl e
          | Inr result \<Rightarrow> (case named_lifecycle_validate_restored result name of Some e \<Rightarrow> Inl e | None \<Rightarrow> Inr result)) of
         Inl e \<Rightarrow>
           (case fail_sandbox_creation r ctx name release e (m, nd4) of
              ((err, kept), s1) \<Rightarrow> (((response1, Some err), kept), s1))
       | Inr result \<Rightarrow>
           let t = the (nlr_timing result) in
           (((response1\<lparr>scr_timings := (scr_timings response1)\<lparr>
               sti_restorePrepare := of_int (uint (nlt_prepare_ms t)),
               sti_restoreSpawnMonitor := of_int (uint (nlt_spawn_monitor_ms t)),
               sti_restoreWaitExecReady := of_int (uint (nlt_wait_exec_ready_ms t)),
               sti_restoreSporeTotal := of_int (uint (nlt_total_ms t))\<rparr>\<rparr>, None), True),
            activate_sandbox name release m, nd4)))"

definition create_reserved :: "'w runner \<Rightarrow> 'w template_env \<Rightarrow> go_ctx \<Rightarrow> sandbox_create_request \<Rightarrow> nat \<Rightarrow> go_time
    \<Rightarrow> registry \<times> 'w node \<Rightarrow> ((sandbox_create_response \<times> gerr option) \<times> bool) \<times> registry \<times> 'w node" where
  "create_reserved r te ctx req release started s =
     (case s of (m, nd) \<Rightarrow>
      let memory = (if scq_memory req = [] then interactive_default_memory else scq_memory req);
          response = first_create_response req in
      case on_world (rn_now r) nd of (templateStarted, nd1) \<Rightarrow>
      case ensure_boot_template r te ctx (scq_image req) memory nd1 of (ensured, nd2) \<Rightarrow>
      case on_world (rn_now r) nd2 of (templateEnd, nd3) \<Rightarrow>
      let response1 = response\<lparr>scr_timings := (scr_timings response)\<lparr>sti_template := elapsed_ms templateStarted templateEnd\<rparr>\<rparr> in
      (case ensured of
         Inl e \<Rightarrow>
           (case on_world (rn_now r) nd3 of (failedAt, nd4) \<Rightarrow>
            (((response1\<lparr>scr_timings := (scr_timings response1)\<lparr>sti_total := elapsed_ms started failedAt\<rparr>\<rparr>, Some e), False), m, nd4))
       | Inr (template, templateDir) \<Rightarrow>
           with_defer (\<lambda>(m, nd). (m, release_boot_template templateDir nd))
             (restore_sandbox r ctx (scq_name req) release templateDir (response1\<lparr>scr_template := template\<rparr>) started)
             (m, nd3)))"

definition create_sandbox :: "'w runner \<Rightarrow> 'w template_env \<Rightarrow> go_ctx \<Rightarrow> sandbox_create_request \<Rightarrow> pressure
    \<Rightarrow> slot_pool \<times> registry \<times> 'w node \<Rightarrow> (sandbox_create_response \<times> gerr option) \<times> slot_pool \<times> registry \<times> 'w node" where
  "create_sandbox r te ctx req pressure s =
     (case s of (p, m, nd) \<Rightarrow>
      case on_world (rn_now r) nd of (started, nd1) \<Rightarrow>
      (case sandbox_create_validate req of
         Some e \<Rightarrow> ((first_create_response req, Some e), p, m, nd1)
       | None \<Rightarrow>
           (case admit_one pressure p of
              (Inl e, p1) \<Rightarrow> ((first_create_response req, Some e), p1, m, nd1)
            | (Inr release, p1) \<Rightarrow>
                (case reserve_sandbox (scq_name req) m of
                   (Some e, m1) \<Rightarrow> ((first_create_response req, Some e), call_release release p1, m1, nd1)
                 | (None, m1) \<Rightarrow>
                     (case create_reserved r te ctx req release started (m1, nd1) of
                        ((res, kept), m2, nd2) \<Rightarrow>
                          if kept then (res, p1, m2, nd2)
                          else (res, call_release release p1, clear_sandbox_reservation (scq_name req) m2, nd2))))))"

section \<open>Running a command and removing\<close>

definition exec_sandbox :: "'w runner \<Rightarrow> go_ctx \<Rightarrow> exec_request \<Rightarrow> registry \<times> 'w node
    \<Rightarrow> (run_event list \<times> gerr option) \<times> registry \<times> 'w node" where
  "exec_sandbox r ctx req s =
     (case s of (m, nd) \<Rightarrow>
      (case exec_request_validate req of
         Some e \<Rightarrow> (([], Some e), m, nd)
       | None \<Rightarrow>
           (case sandbox_ready (exq_name req) m of
              Some e \<Rightarrow> (([], Some e), m, nd)
            | None \<Rightarrow> (case on_world (sc_exec (the (rn_client r)) ctx req) nd of (res, nd1) \<Rightarrow> (res, m, nd1)))))"

definition remove_sandbox :: "'w runner \<Rightarrow> go_ctx \<Rightarrow> remove_vm_request \<Rightarrow> slot_pool \<times> registry \<times> 'w node
    \<Rightarrow> gerr option \<times> slot_pool \<times> registry \<times> 'w node" where
  "remove_sandbox r ctx req s =
     (case s of (p, m, nd) \<Rightarrow>
      (case remove_vm_request_validate req of
         Some e \<Rightarrow> (Some e, p, m, nd)
       | None \<Rightarrow>
           (case sandbox_release (rvq_name req) m of
              (Inl e, m1) \<Rightarrow> (Some e, p, m1, nd)
            | (Inr tracked, m1) \<Rightarrow>
                (case on_world (sc_remove_vm (the (rn_client r)) ctx req) nd of
                   (Some e, nd1) \<Rightarrow>
                     (Some e, p, (case tracked of Some release \<Rightarrow> activate_sandbox (rvq_name req) release m1 | None \<Rightarrow> m1), nd1)
                 | (None, nd1) \<Rightarrow>
                     (case tracked of
                        None \<Rightarrow> (None, p, m1, nd1)
                      | Some release \<Rightarrow> (None, call_release release p, m1(rvq_name req := None), nd1))))))"

section \<open>One call at a time is one of the interleavings\<close>

abbreviation call_steps :: "slot_pool \<times> registry \<times> agent_call \<Rightarrow> slot_pool \<times> registry \<times> agent_call \<Rightarrow> bool" where
  "call_steps \<equiv> call_step\<^sup>*\<^sup>*"

lemma step_then [intro]: "call_step a b \<Longrightarrow> call_steps b c \<Longrightarrow> call_steps a c"
  by (rule converse_rtranclp_into_rtranclp)

lemma step_last [intro]: "call_step a b \<Longrightarrow> call_steps a b"
  by blast

lemma fail_creation_steps:
  "fail_sandbox_creation r ctx n h e (m, nd) = ((err, True), m', nd') \<Longrightarrow>
     call_step (p, m, CreateFailed n h e) (p, m', Returned (Some err))"
  "fail_sandbox_creation r ctx n h e (m, nd) = ((err, False), m', nd') \<Longrightarrow>
     call_step (p, m, CreateFailed n h e) (p, m', CreateAbort n h err)"
  using call_step.cleanup_failed [of p m n h e] call_step.cleanup_done [of p m n h e]
  by (auto simp: fail_sandbox_creation_def errors_join_def split: prod.splits option.splits)

lemma restore_steps:
  "restore_sandbox r ctx n h d response started (m, nd) = (((resp, err), True), m', nd') \<Longrightarrow>
     call_steps (p, m, CreateRestore n h) (p, m', Returned err)"
  "restore_sandbox r ctx n h d response started (m, nd) = (((resp, err), False), m', nd') \<Longrightarrow>
     \<exists>e. err = Some e \<and> call_steps (p, m, CreateRestore n h) (p, m', CreateAbort n h e)"
proof -
  have finished: "call_steps (p, m, CreateRestore n h) (p, activate_sandbox n h m, Returned None)"
    if "named_lifecycle_validate_restored result n = None" for result
    using restored [OF that, of p m h] activated [of p m n h] by blast
  note failed = step_then [OF restore_failed step_last, OF fail_creation_steps(1)]
    step_then [OF restore_failed step_last, OF fail_creation_steps(2)]
  show "restore_sandbox r ctx n h d response started (m, nd) = (((resp, err), True), m', nd') \<Longrightarrow>
     call_steps (p, m, CreateRestore n h) (p, m', Returned err)"
    by (auto simp: restore_sandbox_def Let_def finished failed split: prod.splits sum.splits option.splits)
  show "restore_sandbox r ctx n h d response started (m, nd) = (((resp, err), False), m', nd') \<Longrightarrow>
     \<exists>e. err = Some e \<and> call_steps (p, m, CreateRestore n h) (p, m', CreateAbort n h e)"
    by (auto simp: restore_sandbox_def Let_def failed split: prod.splits sum.splits option.splits)
qed

lemma create_reserved_steps:
  "create_reserved r te ctx req h started (m, nd) = (((resp, err), True), m', nd') \<Longrightarrow>
     call_steps (p, m, CreateTemplate (scq_name req) h) (p, m', Returned err)"
  "create_reserved r te ctx req h started (m, nd) = (((resp, err), False), m', nd') \<Longrightarrow>
     \<exists>e. err = Some e \<and> call_steps (p, m, CreateTemplate (scq_name req) h) (p, m', CreateAbort (scq_name req) h e)"
proof -
  let ?n = "scq_name req"
  note ready = step_then [OF template_ready restore_steps(1)]
  have failed: "\<exists>e. err = Some e \<and> call_steps (p, m, CreateTemplate ?n h) (p, m', CreateAbort ?n h e)"
    if "restore_sandbox r ctx ?n h d response started (m, nd1) = (((resp, err), False), m', nd2)" for d response nd1 nd2
    using restore_steps(2) [OF that, of p] template_ready [of p m ?n h] by blast
  show "create_reserved r te ctx req h started (m, nd) = (((resp, err), True), m', nd') \<Longrightarrow>
     call_steps (p, m, CreateTemplate ?n h) (p, m', Returned err)"
    by (auto simp: create_reserved_def Let_def with_defer_def ready split: prod.splits sum.splits)
  show "create_reserved r te ctx req h started (m, nd) = (((resp, err), False), m', nd') \<Longrightarrow>
     \<exists>e. err = Some e \<and> call_steps (p, m, CreateTemplate ?n h) (p, m', CreateAbort ?n h e)"
    using template_failed [of p m ?n h]
    by (auto simp: create_reserved_def Let_def with_defer_def split: prod.splits sum.splits intro: failed)
qed

lemma create_sandbox_steps:
  assumes "create_sandbox r te ctx req pressure (p, m, nd) = ((resp, err), p', m', nd')"
  shows "call_steps (p, m, CreateStart req) (p', m', Returned err)"
proof (cases "sandbox_create_validate req")
  case (Some e)
  then show ?thesis using assms create_invalid [OF Some, of p m] by (auto simp: create_sandbox_def split: prod.splits)
next
  case None
  obtain v p1 where adm: "admit_one pressure p = (v, p1)" by fastforce
  show ?thesis
  proof (cases v)
    case (Inl e)
    then show ?thesis using assms None adm create_refused [OF None, of pressure p e p1 m]
      by (auto simp: create_sandbox_def split: prod.splits)
  next
    case (Inr h)
    then have adm': "admit_one pressure p = (Inr h, p1)" using adm by simp
    note admitted = create_admitted [OF None adm', of m]
    obtain w m1 where res: "reserve_sandbox (scq_name req) m = (w, m1)" by fastforce
    show ?thesis
    proof (cases w)
      case (Some e)
      then have "p' = call_release h p1" "m' = m1" "err = Some e"
        using assms None adm' res by (auto simp: create_sandbox_def split: prod.splits)
      then show ?thesis using admitted reserve_failed [of _ m e m1 p1 h] rejected [of p1 m1 h e] res Some
        by (blast intro: step_then)
    next
      case none: None
      obtain t nd1 where now: "on_world (rn_now r) nd = (t, nd1)" by fastforce
      obtain resp' err' kept m2 nd2 where c: "create_reserved r te ctx req h t (m1, nd1) = (((resp', err'), kept), m2, nd2)"
        by (metis prod.collapse)
      have start: "call_steps (p, m, CreateStart req) (p1, m1, CreateTemplate (scq_name req) h)"
        using admitted reserved [of _ m m1 p1 h] res none by blast
      show ?thesis
      proof (cases kept)
        case True
        then have "p' = p1 \<and> m' = m2 \<and> err = err'"
          using assms None adm' res none now c by (simp add: create_sandbox_def)
        moreover have "call_steps (p1, m1, CreateTemplate (scq_name req) h) (p1, m2, Returned err')"
          using create_reserved_steps(1) [of r te ctx req h t m1 nd1 resp' err' m2 nd2 p1] c True by auto
        ultimately show ?thesis using start by (simp add: rtranclp_trans)
      next
        case False
        then have eq: "p' = call_release h p1 \<and> m' = clear_sandbox_reservation (scq_name req) m2 \<and> err = err'"
          using assms None adm' res none now c by (simp add: create_sandbox_def)
        obtain e where e: "err' = Some e"
          "call_steps (p1, m1, CreateTemplate (scq_name req) h) (p1, m2, CreateAbort (scq_name req) h e)"
          using create_reserved_steps(2) [of r te ctx req h t m1 nd1 resp' err' m2 nd2 p1] c False by auto
        have "call_steps (p1, m2, CreateAbort (scq_name req) h e)
            (call_release h p1, clear_sandbox_reservation (scq_name req) m2, Returned (Some e))"
          using abort create_released by blast
        from rtranclp_trans [OF rtranclp_trans [OF start e(2)] this] show ?thesis using eq e(1) by simp
      qed
    qed
  qed
qed

lemma exec_sandbox_steps:
  "exec_sandbox r ctx req (m, nd) = ((events, err), m', nd') \<Longrightarrow>
     call_steps (p, m, ExecStart req) (p, m', Returned err)"
  using exec_invalid [of req _ p m] exec_refused [of req m _ p] step_then [OF exec_ready step_last [OF exec_done]]
  by (auto simp: exec_sandbox_def split: prod.splits option.splits)

lemma remove_sandbox_steps:
  assumes "remove_sandbox r ctx req (p, m, nd) = (err, p', m', nd')"
  shows "call_steps (p, m, RemoveStart req) (p', m', Returned err)"
proof (cases "remove_vm_request_validate req")
  case (Some e)
  then show ?thesis using assms remove_invalid [OF Some, of p m] by (auto simp: remove_sandbox_def)
next
  case None
  let ?n = "rvq_name req"
  obtain t m1 where rel: "sandbox_release ?n m = (t, m1)" by fastforce
  have untracked: "call_steps (p, m, RemoveStart req) (p, m1, Returned e)" if "t = Inr None" for e
    using remove_untracked [OF None, of m m1 p] untracked_removed rel that by blast
  have tracked: "call_steps (p, m, RemoveStart req) (p, m1, RemoveVM ?n h)" if "t = Inr (Some h)" for h
    using remove_tracked [OF None, of m h m1 p] rel that by blast
  have refused: "call_steps (p, m, RemoveStart req) (p, activate_sandbox ?n h m1, Returned (Some e))" if "t = Inr (Some h)" for h e
    using tracked [OF that] remove_vm_failed by (meson rtranclp.rtrancl_into_rtrancl)
  have removed: "call_steps (p, m, RemoveStart req) (call_release h p, m1(?n := None), Returned None)" if "t = Inr (Some h)" for h
    using tracked [OF that] remove_vm_done forgotten remove_released by (meson rtranclp.rtrancl_into_rtrancl)
  have busy: "call_steps (p, m, RemoveStart req) (p, m1, Returned (Some e))" if "t = Inl e" for e
    using remove_busy [OF None, of m e m1 p] rel that by blast
  obtain res nd1 where vm: "on_world (sc_remove_vm (the (rn_client r)) ctx req) nd = (res, nd1)" by fastforce
  show ?thesis
  proof (cases t)
    case (Inl e)
    then show ?thesis using assms None rel busy [of e] by (simp add: remove_sandbox_def)
  next
    case (Inr h)
    then show ?thesis using assms None rel vm untracked [of err] refused removed
      by (cases h; cases res) (auto simp: remove_sandbox_def)
  qed
qed

text \<open>C38: each sandbox call is an execution of the interleaved calls of the registry from its start
  to its return, with the same error, slots and registry: so a creation, a command and a removal keep
  what is proved of the interleavings.\<close>

theorem sandbox_calls_refine:
  "(case create_sandbox r te ctx req pressure (p, m, nd) of ((resp, err), p', m', nd') \<Rightarrow>
      call_steps (p, m, CreateStart req) (p', m', Returned err)) \<and>
   (case exec_sandbox r ctx ereq (m, nd) of ((events, err), m', nd') \<Rightarrow>
      call_steps (p, m, ExecStart ereq) (p, m', Returned err)) \<and>
   (case remove_sandbox r ctx rreq (p, m, nd) of (err, p', m', nd') \<Rightarrow>
      call_steps (p, m, RemoveStart rreq) (p', m', Returned err))"
  using create_sandbox_steps [of r te ctx req pressure p m nd] exec_sandbox_steps [of r ctx ereq m nd]
    remove_sandbox_steps [of r ctx rreq p m nd] by (auto split: prod.splits)

end
