(* ===== verification/HttpTypes.thy ===== *)
theory HttpTypes
  imports SandboxCalls
begin

text \<open>
  What the HTTP packages of the program share (\<open>internal/agenthttp\<close>, \<open>cmd/spore-coordinator\<close>):
  requests and responses, strict JSON decoding, the escaping of URL paths and the routing of
  \<open>http.ServeMux\<close>. The JSON text of a value is an argument, one codec per document type.
\<close>

section \<open>Messages\<close>

text \<open>A request as it is sent: \<open>hq_path\<close> is the escaped path of its URL. The body of a response
  may fail while it is read.\<close>

record http_request =
  hq_method :: string
  hq_host :: string
  hq_path :: string
  hq_body :: string

record http_response =
  hp_code :: int
  hp_status :: string
  hp_body :: "gerr + string"

text \<open>An \<open>http.Client\<close>'s \<open>Do\<close>.\<close>

type_synonym 'w http_client = "go_ctx \<Rightarrow> http_request \<Rightarrow> 'w \<Rightarrow> (gerr + http_response) \<times> 'w"

text \<open>The status line of the codes the program writes.\<close>

definition status_line :: "int \<Rightarrow> string" where
  "status_line code = itoa code @ '' '' @
     (if code = 200 then ''OK'' else if code = 400 then ''Bad Request'' else if code = 409 then ''Conflict''
      else if code = 500 then ''Internal Server Error'' else if code = 503 then ''Service Unavailable'' else [])"

section \<open>Documents\<close>

text \<open>\<open>cd_decode\<close> is a first \<open>Decode\<close> with unknown fields disallowed and what a second one finds.\<close>

record 'a codec =
  cd_encode :: "'a \<Rightarrow> string"
  cd_decode :: "string \<Rightarrow> (gerr + 'a) \<times> trailing"

text \<open>The documented behaviour of \<open>encoding/json\<close> at a value: its text is one document that reads back.\<close>

definition reads_back :: "'a codec \<Rightarrow> 'a \<Rightarrow> bool" where
  "reads_back c v \<longleftrightarrow> cd_decode c (cd_encode c v) = (Inr v, TrailingEOF)"

definition decode_strict :: "'a codec \<Rightarrow> string \<Rightarrow> string \<Rightarrow> gerr + 'a" where
  "decode_strict c multiple body =
     (case cd_decode c body of
        (Inl e, _) \<Rightarrow> Inl e
      | (Inr out, TrailingEOF) \<Rightarrow> Inr out
      | (Inr out, TrailingDoc) \<Rightarrow> Inl (Opaque multiple)
      | (Inr out, TrailingError msg) \<Rightarrow> Inl (Opaque msg))"

lemma decode_reads_back [simp]: "reads_back c v \<Longrightarrow> decode_strict c msg (cd_encode c v) = Inr v"
  by (simp add: decode_strict_def reads_back_def)

section \<open>Paths of URLs\<close>

definition upper_hex :: "nat \<Rightarrow> char" where
  "upper_hex n = char_of (if n < 10 then 48 + n else 55 + n)"

definition percent_byte :: "char \<Rightarrow> string" where
  "percent_byte c = [CHR ''%'', upper_hex (of_char c div 16), upper_hex (of_char c mod 16)]"

definition unreserved :: "char \<Rightarrow> bool" where
  "unreserved c \<longleftrightarrow> is_alpha c \<or> is_digit c \<or> c \<in> set ''-_.~''"

text \<open>\<open>shouldEscape\<close> in a segment (\<open>url.PathEscape\<close>) and in a path (\<open>URL.EscapedPath\<close>).\<close>

definition segment_char :: "char \<Rightarrow> bool" where
  "segment_char c \<longleftrightarrow> unreserved c \<or> c \<in> set ''$&+:=@''"

definition path_char :: "char \<Rightarrow> bool" where
  "path_char c \<longleftrightarrow> unreserved c \<or> c \<in> set ''$&+,/:;=@''"

definition url_escape :: "(char \<Rightarrow> bool) \<Rightarrow> string \<Rightarrow> string" where
  "url_escape keep s = concat (map (\<lambda>c. if keep c then [c] else percent_byte c) s)"

abbreviation path_escape :: "string \<Rightarrow> string" where
  "path_escape \<equiv> url_escape segment_char"

section \<open>Routing\<close>

text \<open>\<open>cleanPath\<close> of \<open>net/http\<close>: \<open>path.Clean\<close> keeping a final slash.\<close>

definition mux_clean :: "string \<Rightarrow> string" where
  "mux_clean p =
     (if p = [] then ''/''
      else
        let p = (if hd p = CHR ''/'' then p else CHR ''/'' # p); np = path_clean p in
        if last p = CHR ''/'' \<and> np \<noteq> ''/'' then np @ ''/'' else np)"

text \<open>A segment of a pattern is a literal or a \<open>{name}\<close>; a segment of a path is matched unescaped.\<close>

datatype mux_segment = Literal string | Wildcard

definition unescape_segment :: "string \<Rightarrow> string" where
  "unescape_segment s = (case unescape_path s of Some t \<Rightarrow> t | None \<Rightarrow> s)"

fun match_segments :: "mux_segment list \<Rightarrow> string list \<Rightarrow> string list option" where
  "match_segments [] [] = Some []"
| "match_segments (Literal l # ps) (s # ss) = (if unescape_segment s = l then match_segments ps ss else None)"
| "match_segments (Wildcard # ps) (s # ss) =
     (if s = [] \<or> unescape_segment s = ''/'' then None else map_option (Cons (unescape_segment s)) (match_segments ps ss))"
| "match_segments _ _ = None"

datatype 'h mux_outcome = Matched 'h "string list" | Redirected string | NoRoute | OtherMethod

fun first_match :: "(string \<times> mux_segment list \<times> 'h) list \<Rightarrow> string \<Rightarrow> string list \<Rightarrow> ('h \<times> string list) option" where
  "first_match [] m ss = None"
| "first_match ((meth, pat, h) # rs) m ss =
     (case match_segments pat ss of
        Some vs \<Rightarrow> if meth = m \<or> (meth = ''GET'' \<and> m = ''HEAD'') then Some (h, vs) else first_match rs m ss
      | None \<Rightarrow> first_match rs m ss)"

definition mux_route :: "(string \<times> mux_segment list \<times> 'h) list \<Rightarrow> http_request \<Rightarrow> 'h mux_outcome" where
  "mux_route routes q =
     (let path = mux_clean (hq_path q); ss = split_on (CHR ''/'') (tl path) in
      if path \<noteq> hq_path q then Redirected path
      else case first_match routes (hq_method q) ss of
        Some (h, vs) \<Rightarrow> Matched h vs
      | None \<Rightarrow> if list_ex (\<lambda>(_, pat, _). match_segments pat ss \<noteq> None) routes then OtherMethod else NoRoute)"

section \<open>Lemmas\<close>

lemma hex_val_upper [simp]: "n < 16 \<Longrightarrow> hex_val (upper_hex n) = n"
  by (auto simp: hex_val_def upper_hex_def Let_def)

lemma is_hex_upper [simp]: "n < 16 \<Longrightarrow> is_hex (upper_hex n)"
  by (auto simp: is_hex_def is_lower_hex_def upper_hex_def Let_def)

lemma unescape_percent: "unescape_path (percent_byte c @ s) = map_option (Cons c) (unescape_path s)"
proof -
  have "(of_char c :: nat) div 16 < 16" using of_char_less [of c] by linarith
  then show ?thesis by (simp add: percent_byte_def)
qed

lemma unescape_escape:
  assumes "\<not> keep (CHR ''%'')"
  shows "unescape_path (url_escape keep s @ t) = map_option ((@) s) (unescape_path t)"
proof (induction s)
  case Nil
  then show ?case by (cases "unescape_path t") (auto simp: url_escape_def)
next
  case (Cons c s)
  have eq: "url_escape keep (c # s) @ t = (if keep c then [c] else percent_byte c) @ (url_escape keep s @ t)"
    by (simp add: url_escape_def)
  show ?case
  proof (cases "keep c")
    case True
    then have "c \<noteq> CHR ''%''" using assms by auto
    then show ?thesis using True Cons by (simp add: eq option.map_comp o_def)
  next
    case False
    then show ?thesis using Cons by (simp add: eq unescape_percent option.map_comp o_def)
  qed
qed

lemma unescape_path_escape [simp]: "\<not> keep (CHR ''%'') \<Longrightarrow> unescape_path (url_escape keep s) = Some s"
  using unescape_escape [of keep s "[]"] by simp

lemma escapes_percent [simp]: "\<not> segment_char (CHR ''%'')" "\<not> path_char (CHR ''%'')"
  by (simp_all add: segment_char_def path_char_def unreserved_def is_alpha_def is_digit_def)

lemma url_escape_append [simp]: "url_escape k (s @ t) = url_escape k s @ url_escape k t"
  by (simp add: url_escape_def)

lemma url_escape_kept: "list_all keep s \<Longrightarrow> url_escape keep s = s"
  by (induction s) (auto simp: url_escape_def)

lemma url_escape_length: "length s \<le> length (url_escape keep s)"
  by (induction s) (auto simp: url_escape_def percent_byte_def)

lemma url_escape_id: "url_escape keep s = s \<longleftrightarrow> list_all keep s"
proof
  show "url_escape keep s = s \<Longrightarrow> list_all keep s"
  proof (induction s)
    case (Cons c s)
    then show ?case using url_escape_length [of s keep]
      by (auto simp: url_escape_def percent_byte_def split: if_splits dest: arg_cong [of _ _ length])
  qed simp
qed (rule url_escape_kept)

end
