(* ===== verification/AgentServer.thy ===== *)
theory AgentServer
  imports HttpTypes
begin

text \<open>
  The agent's HTTP API: \<open>internal/agenthttp/server.go\<close> and \<open>internal/agent/coordinator_adapter.go\<close>.
  The exported methods of the \<open>Runner\<close> the handlers call, the SporeVM client, the walk over a
  directory and the clock are arguments on the state \<open>'s\<close> of the agent and everything outside it; the
  server itself keeps the cache status it computed last.
\<close>

section \<open>What the server calls\<close>

text \<open>The methods of \<open>Runner\<close>; a result beside an error is kept only where the server uses it.\<close>

record 's agent_ops =
  ao_run :: "go_ctx \<Rightarrow> run_request \<Rightarrow> pressure \<Rightarrow> 's \<Rightarrow> (gerr + run_response) \<times> 's"
  ao_status :: "go_ctx \<Rightarrow> status_request \<Rightarrow> 's \<Rightarrow> (gerr + agent_status) \<times> 's"
  ao_prepare_bundle :: "go_ctx \<Rightarrow> prepare_bundle_request \<Rightarrow> 's \<Rightarrow> (gerr + prepared_bundle) \<times> 's"
  ao_prepare_local :: "go_ctx \<Rightarrow> prepare_bundle_request \<Rightarrow> 's \<Rightarrow> (gerr + prepared_bundle) \<times> 's"
  ao_release_prepared :: "go_ctx \<Rightarrow> run \<Rightarrow> 's \<Rightarrow> (gerr + prepared_run_cleanup) \<times> 's"
  ao_run_shard :: "go_ctx \<Rightarrow> run_shard_request \<Rightarrow> 's \<Rightarrow> (attempt_result list \<times> gerr option) \<times> 's"
  ao_create_sandbox :: "go_ctx \<Rightarrow> sandbox_create_request \<Rightarrow> pressure \<Rightarrow> 's \<Rightarrow> (gerr + sandbox_create_response) \<times> 's"
  ao_exec_sandbox :: "go_ctx \<Rightarrow> exec_request \<Rightarrow> 's \<Rightarrow> (gerr + run_event list) \<times> 's"
  ao_remove_sandbox :: "go_ctx \<Rightarrow> remove_vm_request \<Rightarrow> 's \<Rightarrow> gerr option \<times> 's"

text \<open>The JSON documents of the API.\<close>

record agent_codecs =
  jc_run_request :: "run_request codec"
  jc_run_response :: "run_response codec"
  jc_status :: "agent_status codec"
  jc_bundle_run :: "bundle_run codec"
  jc_inspection :: "bundle_inspection codec"
  jc_run :: "run codec"
  jc_prepared :: "prepared_bundle codec"
  jc_cleanup :: "prepared_run_cleanup codec"
  jc_shard :: "shard_execution_request codec"
  jc_results :: "attempt_result list codec"
  jc_create :: "sandbox_create_request codec"
  jc_created :: "sandbox_create_response codec"
  jc_exec :: "exec_request codec"
  jc_events :: "run_event list codec"
  jc_name :: "string codec"
  jc_error :: "string codec"

text \<open>One call of the function given to \<open>filepath.WalkDir\<close>.\<close>

record walk_entry =
  we_path :: string
  we_err :: "gerr option"
  we_isDir :: bool
  we_size :: "gerr + int"

record 's agent_server =
  sv_runner :: "'s agent_ops option"
  sv_client :: "'s spore_client option"
  sv_agentID :: string
  sv_cellID :: string
  sv_region :: string
  sv_backend :: string
  sv_bundleCacheRoot :: string
  sv_rootFSCacheRoot :: string
  sv_pressure :: pressure
  sv_allowMetadataOnlyRootFS :: bool
  sv_now :: "'s clock option"
  sv_started :: "('s \<Rightarrow> bool \<times> 's) option"
  sv_time_now :: "'s clock"
  sv_walk :: "string \<Rightarrow> 's \<Rightarrow> walk_entry list"
  sv_json :: agent_codecs

text \<open>\<open>statusCache\<close>, \<open>statusCacheAt\<close> and the rest; the zero time is 0.\<close>

record 's server_state =
  sst_cache :: cache_status
  sst_cacheAt :: go_time
  sst_world :: 's

definition on_server :: "('s \<Rightarrow> 'a \<times> 's) \<Rightarrow> 's server_state \<Rightarrow> 'a \<times> 's server_state" where
  "on_server f st = (case f (sst_world st) of (x, w) \<Rightarrow> (x, st\<lparr>sst_world := w\<rparr>))"

section \<open>The coordinator's adapters\<close>

definition zero_host_class :: host_class where
  "zero_host_class = \<lparr>hc_id = [], hc_platformVersion = [], hc_architecture = [], hc_backend = [],
     hc_cpuProfile = [], hc_deviceModel = []\<rparr>"

definition inspect_run_bundle :: "'s spore_client option \<Rightarrow> go_ctx \<Rightarrow> bundle_run \<Rightarrow> 's \<Rightarrow> (gerr + bundle_inspection) \<times> 's" where
  "inspect_run_bundle client ctx run w =
     (case client of
        None \<Rightarrow> (Inl (Sentinel ErrSporeClientNotConfigured), w)
      | Some c \<Rightarrow>
          (case sc_inspect_bundle c ctx \<lparr>ibq_source = bundle_source run, ibq_childID = [],
              ibq_childRange = Some \<lparr>crs_start = range_start (br_children run), crs_end = range_end (br_children run)\<rparr>\<rparr> w of
             (Inl e, w1) \<Rightarrow> (Inl e, w1)
           | (Inr result, w1) \<Rightarrow> (Inr \<lparr>bi_bundleDigest = digest_string (ibr_bundle_digest result),
               bi_childCount = ibr_child_count result, bi_hostClass = zero_host_class\<rparr>, w1)))"

record 's runner_shard_executor =
  rse_runner :: "'s agent_ops option"
  rse_pressure :: pressure
  rse_region :: string
  rse_allowMetadataOnlyRootFS :: bool
  rse_backend :: string

definition executor_run_shard :: "'s runner_shard_executor \<Rightarrow> go_ctx \<Rightarrow> shard_execution_request \<Rightarrow> 's
    \<Rightarrow> (attempt_result list \<times> gerr option) \<times> 's" where
  "executor_run_shard e ctx req w =
     (case rse_runner e of
        None \<Rightarrow> (([], Some (Sentinel ErrSporeClientNotConfigured)), w)
      | Some runner \<Rightarrow>
          let localChildrenDir = (case ser_local req of None \<Rightarrow> [] | Some l \<Rightarrow> local_childrenDir l) in
          ao_run_shard runner ctx
            \<lparr>rsh_run = ser_run req, rsh_lease = ser_lease req, rsh_attempt = ser_attempt req,
             rsh_pressure = rse_pressure e, rsh_region = rse_region e,
             rsh_allowMetadataOnlyRootFS = rse_allowMetadataOnlyRootFS e, rsh_backend = rse_backend e,
             rsh_localChildrenDir = localChildrenDir\<rparr> w)"

section \<open>Replies\<close>

definition write_json :: "'a codec \<Rightarrow> int \<Rightarrow> 'a \<Rightarrow> http_response" where
  "write_json c code v = \<lparr>hp_code = code, hp_status = status_line code, hp_body = Inr (cd_encode c v)\<rparr>"

definition write_error :: "string codec \<Rightarrow> int \<Rightarrow> gerr \<Rightarrow> http_response" where
  "write_error c code err = write_json c (if code < 400 then 500 else code) (err_text err)"

definition write_text :: "string \<Rightarrow> http_response" where
  "write_text s = \<lparr>hp_code = 200, hp_status = status_line 200, hp_body = Inr (s @ [char_of (10::nat)])\<rparr>"

definition decode_json :: "string codec \<Rightarrow> 'a codec \<Rightarrow> http_request \<Rightarrow> http_response + 'a" where
  "decode_json ce c q =
     (case decode_strict c ''request must contain exactly one JSON document'' (hq_body q) of
        Inl e \<Rightarrow> Inl (write_error ce 400 e)
      | Inr out \<Rightarrow> Inr out)"

text \<open>The end of most handlers.\<close>

definition reply_with :: "'s agent_server \<Rightarrow> 'a codec \<Rightarrow> int \<Rightarrow> gerr + 'a \<Rightarrow> http_response" where
  "reply_with sv c failed res =
     (case res of Inl e \<Rightarrow> write_error (jc_error (sv_json sv)) failed e | Inr v \<Rightarrow> write_json c 200 v)"

section \<open>The state of the caches\<close>

fun walk_dir :: "string \<Rightarrow> walk_entry list \<Rightarrow> int \<times> int \<Rightarrow> (int \<times> int) \<times> gerr option" where
  "walk_dir dir [] (nbytes, files) = ((nbytes, files), None)"
| "walk_dir dir (e # rest) (nbytes, files) =
     (case we_err e of
        Some err \<Rightarrow> ((nbytes, files), Some err)
      | None \<Rightarrow>
          if we_path e = dir \<or> we_isDir e then walk_dir dir rest (nbytes, files)
          else (case we_size e of
             Inl err \<Rightarrow> ((nbytes, files), Some err)
           | Inr len \<Rightarrow> walk_dir dir rest (wrap64 (nbytes + len), wrap64 (files + 1))))"

definition dir_stats :: "(string \<Rightarrow> walk_entry list) \<Rightarrow> string \<Rightarrow> (int \<times> int) \<times> gerr option" where
  "dir_stats walk dir =
     (if dir = [] then ((0, 0), None)
      else case walk_dir dir (walk dir) (0, 0) of
        (counts, Some err) \<Rightarrow> if errors_is OsErrNotExist err then ((0, 0), None) else (counts, Some err)
      | (counts, None) \<Rightarrow> (counts, None))"

definition status_for_cache_roots :: "(string \<Rightarrow> walk_entry list) \<Rightarrow> string \<Rightarrow> string \<Rightarrow> gerr + cache_status" where
  "status_for_cache_roots walk bundleRoot rootFSRoot =
     (case dir_stats walk bundleRoot of
        (_, Some e) \<Rightarrow> Inl (Wrap ''bundle cache status: '' e [])
      | ((bundleBytes, bundleEntries), None) \<Rightarrow>
          (case dir_stats walk rootFSRoot of
             (_, Some e) \<Rightarrow> Inl (Wrap ''rootfs cache status: '' e [])
           | ((rootFSBytes, rootFSEntries), None) \<Rightarrow>
               Inr \<lparr>bundleCacheBytes = bundleBytes, rootFSCacheBytes = rootFSBytes,
                 bundleCacheEntries = bundleEntries, rootFSCacheEntries = rootFSEntries\<rparr>))"

definition status_cache_ttl :: int where
  "status_cache_ttl = 5 * second"

definition server_now :: "'s agent_server \<Rightarrow> 's clock" where
  "server_now sv = (case sv_now sv of Some now \<Rightarrow> now | None \<Rightarrow> sv_time_now sv)"

definition server_backend :: "'s agent_server \<Rightarrow> string" where
  "server_backend sv = (if sv_backend sv = [] then ''kvm'' else sv_backend sv)"

definition server_pressure :: "'s agent_server \<Rightarrow> pressure" where
  "server_pressure sv =
     (if pressure_disk (sv_pressure sv) = [] \<and> pressure_memory (sv_pressure sv) = []
      then \<lparr>pressure_disk = PressureNormal, pressure_memory = PressureNormal\<rparr> else sv_pressure sv)"

definition cache_status_of :: "'s agent_server \<Rightarrow> 's server_state \<Rightarrow> (gerr + cache_status) \<times> 's server_state" where
  "cache_status_of sv st =
     (case on_server (server_now sv) st of (now, st1) \<Rightarrow>
      if sst_cacheAt st1 \<noteq> 0 \<and> now < sst_cacheAt st1 + status_cache_ttl then (Inr (sst_cache st1), st1)
      else case status_for_cache_roots (\<lambda>dir. sv_walk sv dir (sst_world st1)) (sv_bundleCacheRoot sv) (sv_rootFSCacheRoot sv) of
        Inl e \<Rightarrow> (Inl e, st1)
      | Inr found \<Rightarrow> (Inr found, st1\<lparr>sst_cache := found, sst_cacheAt := now\<rparr>))"

section \<open>Handlers\<close>

definition handle_healthz :: "'s server_state \<Rightarrow> http_response \<times> 's server_state" where
  "handle_healthz st = (write_text ''ok'', st)"

definition handle_readyz :: "'s agent_server \<Rightarrow> 's server_state \<Rightarrow> http_response \<times> 's server_state" where
  "handle_readyz sv st =
     (case (case sv_started sv of None \<Rightarrow> (True, st) | Some f \<Rightarrow> on_server f st) of
        (False, st1) \<Rightarrow> (write_error (jc_error (sv_json sv)) 503 (Opaque ''agent startup maintenance is running''), st1)
      | (True, st1) \<Rightarrow>
          (case on_server (sc_host_info (the (sv_client sv)) CallerCtx) st1 of
             (Inl e, st2) \<Rightarrow> (write_error (jc_error (sv_json sv)) 503 e, st2)
           | (Inr info, st2) \<Rightarrow>
               (case fleet_host_class info (server_backend sv) of
                  Inl e \<Rightarrow> (write_error (jc_error (sv_json sv)) 503 e, st2)
                | Inr _ \<Rightarrow> (write_text ''ready'', st2))))"

definition handle_status :: "'s agent_server \<Rightarrow> 's server_state \<Rightarrow> http_response \<times> 's server_state" where
  "handle_status sv st =
     (case cache_status_of sv st of
        (Inl e, st1) \<Rightarrow> (write_error (jc_error (sv_json sv)) 500 e, st1)
      | (Inr cache, st1) \<Rightarrow>
          (case on_server (server_now sv) st1 of (now, st2) \<Rightarrow>
           case on_server (ao_status (the (sv_runner sv)) CallerCtx
               \<lparr>srq_agentID = sv_agentID sv, srq_cellID = sv_cellID sv, srq_backend = server_backend sv,
                srq_cache = cache, srq_pressure = server_pressure sv, srq_observedAt = now\<rparr>) st2 of
             (res, st3) \<Rightarrow> (reply_with sv (jc_status (sv_json sv)) 500 res, st3)))"

text \<open>A handler that decodes its body and answers with the outcome of one call.\<close>

definition handle_call :: "'s agent_server \<Rightarrow> 'a codec \<Rightarrow> 'b codec \<Rightarrow> ('a \<Rightarrow> 's \<Rightarrow> (gerr + 'b) \<times> 's) \<Rightarrow> http_request
    \<Rightarrow> 's server_state \<Rightarrow> http_response \<times> 's server_state" where
  "handle_call sv cin cout f q st =
     (case decode_json (jc_error (sv_json sv)) cin q of
        Inl resp \<Rightarrow> (resp, st)
      | Inr req \<Rightarrow> (case on_server (f req) st of (res, st1) \<Rightarrow> (reply_with sv cout 400 res, st1)))"

definition handle_run :: "'s agent_server \<Rightarrow> http_request \<Rightarrow> 's server_state \<Rightarrow> http_response \<times> 's server_state" where
  "handle_run sv = handle_call sv (jc_run_request (sv_json sv)) (jc_run_response (sv_json sv))
     (\<lambda>req. ao_run (the (sv_runner sv)) CallerCtx req (server_pressure sv))"

definition handle_inspect_run_bundle :: "'s agent_server \<Rightarrow> http_request \<Rightarrow> 's server_state \<Rightarrow> http_response \<times> 's server_state" where
  "handle_inspect_run_bundle sv = handle_call sv (jc_bundle_run (sv_json sv)) (jc_inspection (sv_json sv))
     (inspect_run_bundle (sv_client sv) CallerCtx)"

definition handle_prepare_bundle :: "'s agent_server \<Rightarrow> http_request \<Rightarrow> 's server_state \<Rightarrow> http_response \<times> 's server_state" where
  "handle_prepare_bundle sv = handle_call sv (jc_run (sv_json sv)) (jc_prepared (sv_json sv))
     (\<lambda>run. ao_prepare_bundle (the (sv_runner sv)) CallerCtx \<lparr>pbq_run = run, pbq_backend = server_backend sv\<rparr>)"

definition handle_prepare_local :: "'s agent_server \<Rightarrow> http_request \<Rightarrow> 's server_state \<Rightarrow> http_response \<times> 's server_state" where
  "handle_prepare_local sv = handle_call sv (jc_run (sv_json sv)) (jc_prepared (sv_json sv))
     (\<lambda>run. ao_prepare_local (the (sv_runner sv)) CallerCtx \<lparr>pbq_run = run, pbq_backend = server_backend sv\<rparr>)"

definition handle_release_prepared :: "'s agent_server \<Rightarrow> http_request \<Rightarrow> 's server_state \<Rightarrow> http_response \<times> 's server_state" where
  "handle_release_prepared sv = handle_call sv (jc_run (sv_json sv)) (jc_cleanup (sv_json sv))
     (ao_release_prepared (the (sv_runner sv)) CallerCtx)"

definition handle_create_sandbox :: "'s agent_server \<Rightarrow> http_request \<Rightarrow> 's server_state \<Rightarrow> http_response \<times> 's server_state" where
  "handle_create_sandbox sv = handle_call sv (jc_create (sv_json sv)) (jc_created (sv_json sv))
     (\<lambda>req. ao_create_sandbox (the (sv_runner sv)) CallerCtx req (server_pressure sv))"

text \<open>The name is that of the path, whatever the document says.\<close>

definition handle_exec_sandbox :: "'s agent_server \<Rightarrow> string \<Rightarrow> http_request \<Rightarrow> 's server_state \<Rightarrow> http_response \<times> 's server_state" where
  "handle_exec_sandbox sv name = handle_call sv (jc_exec (sv_json sv)) (jc_events (sv_json sv))
     (\<lambda>req. ao_exec_sandbox (the (sv_runner sv)) CallerCtx (req\<lparr>exq_name := name\<rparr>))"

definition handle_delete_sandbox :: "'s agent_server \<Rightarrow> string \<Rightarrow> 's server_state \<Rightarrow> http_response \<times> 's server_state" where
  "handle_delete_sandbox sv name st =
     (case on_server (ao_remove_sandbox (the (sv_runner sv)) CallerCtx \<lparr>rvq_name = name\<rparr>) st of
        (Some e, st1) \<Rightarrow> (write_error (jc_error (sv_json sv)) 400 e, st1)
      | (None, st1) \<Rightarrow> (write_json (jc_name (sv_json sv)) 200 name, st1))"

definition shard_result_count :: "attempt_result list \<Rightarrow> nat" where
  "shard_result_count results = length (filter (\<lambda>result. ar_attemptID result \<noteq> []) results)"

definition shard_executor_of :: "'s agent_server \<Rightarrow> 's runner_shard_executor" where
  "shard_executor_of sv = \<lparr>rse_runner = sv_runner sv, rse_pressure = server_pressure sv, rse_region = sv_region sv,
     rse_allowMetadataOnlyRootFS = sv_allowMetadataOnlyRootFS sv, rse_backend = server_backend sv\<rparr>"

definition wrong_agent :: "'s agent_server \<Rightarrow> shard_lease \<Rightarrow> gerr" where
  "wrong_agent sv lease = Opaque (''lease agentID '' @ go_quote (lease_agentID lease) @ '' does not match this agent ''
     @ go_quote (sv_agentID sv))"

definition handle_run_shard :: "'s agent_server \<Rightarrow> http_request \<Rightarrow> 's server_state \<Rightarrow> http_response \<times> 's server_state" where
  "handle_run_shard sv q st =
     (case decode_json (jc_error (sv_json sv)) (jc_shard (sv_json sv)) q of
        Inl resp \<Rightarrow> (resp, st)
      | Inr req \<Rightarrow>
          if lease_agentID (ser_lease req) \<noteq> sv_agentID sv
          then (write_error (jc_error (sv_json sv)) 409 (wrong_agent sv (ser_lease req)), st)
          else
            (case on_server (executor_run_shard (shard_executor_of sv) CallerCtx req) st of
               ((results, Some e), st1) \<Rightarrow>
                 if shard_result_count results > 0 then (write_json (jc_results (sv_json sv)) 200 results, st1)
                 else (write_error (jc_error (sv_json sv)) 400 e, st1)
             | ((results, None), st1) \<Rightarrow> (write_json (jc_results (sv_json sv)) 200 results, st1)))"

section \<open>The handler of the API\<close>

datatype agent_route = HealthzRoute | ReadyzRoute | StatusRoute | InspectRoute | PrepareBundleRoute | PrepareLocalRoute
  | ReleaseRoute | ShardRoute | RunRoute | CreateRoute | ExecRoute | DeleteRoute

definition agent_routes :: "(string \<times> mux_segment list \<times> agent_route) list" where
  "agent_routes =
     [(''GET'', [Literal ''healthz''], HealthzRoute), (''GET'', [Literal ''readyz''], ReadyzRoute),
      (''GET'', [Literal ''status''], StatusRoute), (''POST'', [Literal ''inspect-run-bundle''], InspectRoute),
      (''POST'', [Literal ''prepare-bundle''], PrepareBundleRoute), (''POST'', [Literal ''prepare-local''], PrepareLocalRoute),
      (''POST'', [Literal ''release-prepared''], ReleaseRoute), (''POST'', [Literal ''run-shard''], ShardRoute),
      (''POST'', [Literal ''runs''], RunRoute), (''POST'', [Literal ''sandboxes''], CreateRoute),
      (''POST'', [Literal ''sandboxes'', Wildcard, Literal ''exec''], ExecRoute),
      (''DELETE'', [Literal ''sandboxes'', Wildcard], DeleteRoute)]"

definition agent_handler :: "'s agent_server \<Rightarrow> gerr option" where
  "agent_handler sv =
     (if sv_runner sv = None \<or> sv_client sv = None
      then Some (Opaque ''agent HTTP server requires runner and spore client'') else None)"

text \<open>What the handler does with a request; \<open>miss\<close> is the mux's own reply to a request no route takes.\<close>

definition agent_serve :: "'s agent_server \<Rightarrow> (agent_route mux_outcome \<Rightarrow> http_response) \<Rightarrow> http_request
    \<Rightarrow> 's server_state \<Rightarrow> http_response \<times> 's server_state" where
  "agent_serve sv miss q st =
     (case mux_route agent_routes q of
        Matched HealthzRoute _ \<Rightarrow> handle_healthz st
      | Matched ReadyzRoute _ \<Rightarrow> handle_readyz sv st
      | Matched StatusRoute _ \<Rightarrow> handle_status sv st
      | Matched InspectRoute _ \<Rightarrow> handle_inspect_run_bundle sv q st
      | Matched PrepareBundleRoute _ \<Rightarrow> handle_prepare_bundle sv q st
      | Matched PrepareLocalRoute _ \<Rightarrow> handle_prepare_local sv q st
      | Matched ReleaseRoute _ \<Rightarrow> handle_release_prepared sv q st
      | Matched ShardRoute _ \<Rightarrow> handle_run_shard sv q st
      | Matched RunRoute _ \<Rightarrow> handle_run sv q st
      | Matched CreateRoute _ \<Rightarrow> handle_create_sandbox sv q st
      | Matched ExecRoute names \<Rightarrow> handle_exec_sandbox sv (hd names) q st
      | Matched DeleteRoute names \<Rightarrow> handle_delete_sandbox sv (hd names) st
      | other \<Rightarrow> (miss other, st))"

end
