(* ===== verification/AgentClient.thy ===== *)
theory AgentClient
  imports AgentServer
begin

text \<open>
  \<open>internal/agenthttp/client.go\<close>: the coordinator's calls of an agent's API. URL parsing, the
  default HTTP client and \<open>json.Unmarshal\<close> of an error document are arguments.
\<close>

section \<open>Requests\<close>

text \<open>What \<open>url.Parse\<close> gives of a base URL; the path is unescaped.\<close>

record base_url =
  bu_scheme :: string
  bu_host :: string
  bu_path :: string

record 'w http_env =
  he_json :: agent_codecs
  he_parse :: "string \<Rightarrow> gerr + base_url"
  he_new_client :: "int \<Rightarrow> 'w http_client"
  he_unmarshal_error :: "string \<Rightarrow> gerr + string"

text \<open>\<open>agenthttp.Client\<close>.\<close>

record 'w agent_client =
  agc_baseURL :: string
  agc_httpClient :: "'w http_client option"

definition trim_right :: "char \<Rightarrow> string \<Rightarrow> string" where
  "trim_right c s = rev (dropWhile (\<lambda>x. x = c) (rev s))"

text \<open>The URL as its host part and its escaped path.\<close>

definition client_endpoint :: "'w http_env \<Rightarrow> 'w agent_client \<Rightarrow> string \<Rightarrow> gerr + string \<times> string" where
  "client_endpoint env c path =
     (if agc_baseURL c = [] then Inl (Opaque ''agent base URL is required'')
      else case he_parse env (agc_baseURL c) of
        Inl e \<Rightarrow> Inl e
      | Inr base \<Rightarrow>
          if bu_scheme base = [] \<or> bu_host base = []
          then Inl (Opaque (''agent base URL '' @ go_quote (agc_baseURL c) @ '' must include scheme and host''))
          else Inr (bu_scheme base @ ''://'' @ bu_host base,
            url_escape path_char (trim_right (CHR ''/'') (bu_path base) @ path)))"

definition decode_response_error :: "'w http_env \<Rightarrow> http_response \<Rightarrow> gerr" where
  "decode_response_error env resp =
     (case hp_body resp of
        Inl readErr \<Rightarrow> readErr
      | Inr payload \<Rightarrow>
          (case he_unmarshal_error env payload of
             Inr msg \<Rightarrow>
               if msg \<noteq> [] then Opaque (''agent returned '' @ hp_status resp @ '': '' @ msg)
               else Opaque (''agent returned '' @ hp_status resp @ '': '' @ trim_space payload)
           | Inl _ \<Rightarrow> Opaque (''agent returned '' @ hp_status resp @ '': '' @ trim_space payload)))"

definition client_do :: "'w http_env \<Rightarrow> 'w agent_client \<Rightarrow> go_ctx \<Rightarrow> http_request \<Rightarrow> 'a codec \<Rightarrow> 'w \<Rightarrow> (gerr + 'a) \<times> 'w" where
  "client_do env c ctx q out w =
     (let http = (case agc_httpClient c of None \<Rightarrow> he_new_client env (30 * second) | Some h \<Rightarrow> h) in
      case http ctx q w of
        (Inl e, w1) \<Rightarrow> (Inl e, w1)
      | (Inr resp, w1) \<Rightarrow>
          if hp_code resp < 200 \<or> hp_code resp \<ge> 300 then (Inl (decode_response_error env resp), w1)
          else (case hp_body resp of
             Inl e \<Rightarrow> (Inl e, w1)
           | Inr body \<Rightarrow> (decode_strict out ''agent response contained multiple JSON documents'' body, w1)))"

definition client_send :: "string \<Rightarrow> 'w http_env \<Rightarrow> 'w agent_client \<Rightarrow> go_ctx \<Rightarrow> string \<Rightarrow> string \<Rightarrow> 'a codec \<Rightarrow> 'w
    \<Rightarrow> (gerr + 'a) \<times> 'w" where
  "client_send meth env c ctx path body out w =
     (case client_endpoint env c path of
        Inl e \<Rightarrow> (Inl e, w)
      | Inr (host, escaped) \<Rightarrow>
          client_do env c ctx \<lparr>hq_method = meth, hq_host = host, hq_path = escaped, hq_body = body\<rparr> out w)"

definition get_json :: "'w http_env \<Rightarrow> 'w agent_client \<Rightarrow> go_ctx \<Rightarrow> string \<Rightarrow> 'a codec \<Rightarrow> 'w \<Rightarrow> (gerr + 'a) \<times> 'w" where
  "get_json env c ctx path out w = client_send ''GET'' env c ctx path [] out w"

definition post_json :: "'w http_env \<Rightarrow> 'w agent_client \<Rightarrow> go_ctx \<Rightarrow> string \<Rightarrow> 'b codec \<Rightarrow> 'b \<Rightarrow> 'a codec \<Rightarrow> 'w
    \<Rightarrow> (gerr + 'a) \<times> 'w" where
  "post_json env c ctx path cin v out w = client_send ''POST'' env c ctx path (cd_encode cin v) out w"

definition delete_json :: "'w http_env \<Rightarrow> 'w agent_client \<Rightarrow> go_ctx \<Rightarrow> string \<Rightarrow> 'a codec \<Rightarrow> 'w \<Rightarrow> (gerr + 'a) \<times> 'w" where
  "delete_json env c ctx path out w = client_send ''DELETE'' env c ctx path [] out w"

section \<open>The calls\<close>

definition client_status :: "'w http_env \<Rightarrow> 'w agent_client \<Rightarrow> go_ctx \<Rightarrow> 'w \<Rightarrow> (gerr + agent_status) \<times> 'w" where
  "client_status env c ctx w =
     (case get_json env c ctx ''/status'' (jc_status (he_json env)) w of
        (Inl e, w1) \<Rightarrow> (Inl e, w1)
      | (Inr st, w1) \<Rightarrow> (case agent_status_validate st of Some e \<Rightarrow> (Inl e, w1) | None \<Rightarrow> (Inr st, w1)))"

definition client_inspect_run_bundle :: "'w http_env \<Rightarrow> 'w agent_client \<Rightarrow> go_ctx \<Rightarrow> bundle_run \<Rightarrow> 'w
    \<Rightarrow> (gerr + bundle_inspection) \<times> 'w" where
  "client_inspect_run_bundle env c ctx run w =
     post_json env c ctx ''/inspect-run-bundle'' (jc_bundle_run (he_json env)) run (jc_inspection (he_json env)) w"

definition client_prepare :: "string \<Rightarrow> 'w http_env \<Rightarrow> 'w agent_client \<Rightarrow> go_ctx \<Rightarrow> run \<Rightarrow> 'w
    \<Rightarrow> (gerr + prepared_bundle) \<times> 'w" where
  "client_prepare path env c ctx run w =
     (case post_json env c ctx path (jc_run (he_json env)) run (jc_prepared (he_json env)) w of
        (Inl e, w1) \<Rightarrow> (Inl e, w1)
      | (Inr prepared, w1) \<Rightarrow> (case run_compile run prepared of Inl e \<Rightarrow> (Inl e, w1) | Inr _ \<Rightarrow> (Inr prepared, w1)))"

definition client_prepare_bundle :: "'w http_env \<Rightarrow> 'w agent_client \<Rightarrow> go_ctx \<Rightarrow> run \<Rightarrow> 'w \<Rightarrow> (gerr + prepared_bundle) \<times> 'w" where
  "client_prepare_bundle = client_prepare ''/prepare-bundle''"

definition client_prepare_local :: "'w http_env \<Rightarrow> 'w agent_client \<Rightarrow> go_ctx \<Rightarrow> run \<Rightarrow> 'w \<Rightarrow> (gerr + prepared_bundle) \<times> 'w" where
  "client_prepare_local = client_prepare ''/prepare-local''"

definition client_release_prepared :: "'w http_env \<Rightarrow> 'w agent_client \<Rightarrow> go_ctx \<Rightarrow> run \<Rightarrow> 'w
    \<Rightarrow> (gerr + prepared_run_cleanup) \<times> 'w" where
  "client_release_prepared env c ctx run w =
     (case post_json env c ctx ''/release-prepared'' (jc_run (he_json env)) run (jc_cleanup (he_json env)) w of
        (Inl e, w1) \<Rightarrow> (Inl e, w1)
      | (Inr result, w1) \<Rightarrow>
          if prc_runID result \<noteq> run_runID run
          then (Inl (Opaque ''released prepared run ID did not match request''), w1) else (Inr result, w1))"

definition client_run :: "'w http_env \<Rightarrow> 'w agent_client \<Rightarrow> go_ctx \<Rightarrow> run_request \<Rightarrow> 'w \<Rightarrow> (gerr + run_response) \<times> 'w" where
  "client_run env c ctx req w =
     post_json env c ctx ''/runs'' (jc_run_request (he_json env)) req (jc_run_response (he_json env)) w"

definition client_create_sandbox :: "'w http_env \<Rightarrow> 'w agent_client \<Rightarrow> go_ctx \<Rightarrow> sandbox_create_request \<Rightarrow> 'w
    \<Rightarrow> (gerr + sandbox_create_response) \<times> 'w" where
  "client_create_sandbox env c ctx req w =
     post_json env c ctx ''/sandboxes'' (jc_create (he_json env)) req (jc_created (he_json env)) w"

definition client_exec_sandbox :: "'w http_env \<Rightarrow> 'w agent_client \<Rightarrow> go_ctx \<Rightarrow> string \<Rightarrow> string list \<Rightarrow> 'w
    \<Rightarrow> (gerr + run_event list) \<times> 'w" where
  "client_exec_sandbox env c ctx name command w =
     post_json env c ctx (''/sandboxes/'' @ path_escape name @ ''/exec'') (jc_exec (he_json env))
       \<lparr>exq_name = [], exq_command = command\<rparr> (jc_events (he_json env)) w"

definition client_remove_sandbox :: "'w http_env \<Rightarrow> 'w agent_client \<Rightarrow> go_ctx \<Rightarrow> string \<Rightarrow> 'w \<Rightarrow> gerr option \<times> 'w" where
  "client_remove_sandbox env c ctx name w =
     (case delete_json env c ctx (''/sandboxes/'' @ path_escape name) (jc_name (he_json env)) w of
        (Inl e, w1) \<Rightarrow> (Some e, w1)
      | (Inr _, w1) \<Rightarrow> (None, w1))"

fun first_invalid :: "bundle_run \<Rightarrow> attempt_result list \<Rightarrow> gerr option" where
  "first_invalid run [] = None"
| "first_invalid run (x # xs) = (case attempt_result_validate x run of Some e \<Rightarrow> Some e | None \<Rightarrow> first_invalid run xs)"

definition client_run_shard :: "'w http_env \<Rightarrow> 'w agent_client \<Rightarrow> go_ctx \<Rightarrow> shard_execution_request \<Rightarrow> 'w
    \<Rightarrow> (gerr + attempt_result list) \<times> 'w" where
  "client_run_shard env c ctx req w =
     (case post_json env c ctx ''/run-shard'' (jc_shard (he_json env)) req (jc_results (he_json env)) w of
        (Inl e, w1) \<Rightarrow> (Inl e, w1)
      | (Inr results, w1) \<Rightarrow>
          (case first_invalid (ser_run req) results of Some e \<Rightarrow> (Inl e, w1) | None \<Rightarrow> (Inr results, w1)))"

end
