(* ===== verification/AgentHttp.thy ===== *)
theory AgentHttp
  imports AgentClient
begin

text \<open>
  The client of an agent on the agent's server: what the coordinator sees of the agent's
  operations through HTTP.
\<close>

section \<open>A client connected to a server\<close>

text \<open>The transport that hands each request to the server; the client's world is the server's state.\<close>

definition over_server :: "'s agent_server \<Rightarrow> (agent_route mux_outcome \<Rightarrow> http_response) \<Rightarrow> 's server_state http_client" where
  "over_server sv miss ctx q st = (case agent_serve sv miss q st of (resp, st1) \<Rightarrow> (Inr resp, st1))"

definition connected :: "'s server_state http_env \<Rightarrow> 's server_state agent_client \<Rightarrow> 's agent_server
    \<Rightarrow> (agent_route mux_outcome \<Rightarrow> http_response) \<Rightarrow> bool" where
  "connected env c sv miss \<longleftrightarrow>
     agc_httpClient c = Some (over_server sv miss) \<and> he_json env = sv_json sv \<and> agc_baseURL c \<noteq> [] \<and>
     (case he_parse env (agc_baseURL c) of Inl _ \<Rightarrow> False
      | Inr base \<Rightarrow> bu_scheme base \<noteq> [] \<and> bu_host base \<noteq> [] \<and> trim_right (CHR ''/'') (bu_path base) = [])"

text \<open>\<open>json.Unmarshal\<close> finds the text in an error document.\<close>

definition reads_errors :: "'w http_env \<Rightarrow> bool" where
  "reads_errors env \<longleftrightarrow> (\<forall>msg. he_unmarshal_error env (cd_encode (jc_error (he_json env)) msg) = Inr msg)"

definition remote_error :: "int \<Rightarrow> gerr \<Rightarrow> gerr" where
  "remote_error code e = Opaque (''agent returned '' @ status_line code @ '': '' @ err_text e)"

definition answer :: "'w http_env \<Rightarrow> 'a codec \<Rightarrow> http_response \<Rightarrow> gerr + 'a" where
  "answer env out resp =
     (if hp_code resp < 200 \<or> hp_code resp \<ge> 300 then Inl (decode_response_error env resp)
      else case hp_body resp of Inl e \<Rightarrow> Inl e
      | Inr body \<Rightarrow> decode_strict out ''agent response contained multiple JSON documents'' body)"

lemma send_connected:
  assumes "connected env c sv miss"
  obtains h where "\<And>meth path body (out :: 'a codec) st. client_send meth env c ctx path body out st =
    (case agent_serve sv miss \<lparr>hq_method = meth, hq_host = h, hq_path = url_escape path_char path, hq_body = body\<rparr> st of
       (resp, st1) \<Rightarrow> (answer env out resp, st1))"
proof -
  obtain base where b: "he_parse env (agc_baseURL c) = Inr base" "bu_scheme base \<noteq> []" "bu_host base \<noteq> []"
    "trim_right (CHR ''/'') (bu_path base) = []" "agc_httpClient c = Some (over_server sv miss)" "agc_baseURL c \<noteq> []"
    using assms by (auto simp: connected_def split: sum.splits)
  have "client_endpoint env c path = Inr (bu_scheme base @ ''://'' @ bu_host base, url_escape path_char path)" for path
    using b by (simp add: client_endpoint_def)
  then show ?thesis using b(5)
    by (intro that [of "bu_scheme base @ ''://'' @ bu_host base"])
      (simp add: client_send_def client_do_def over_server_def answer_def split: prod.splits sum.splits)
qed

lemma answer_error:
  assumes "reads_errors env" "he_json env = sv_json sv" "400 \<le> code" "err_text e \<noteq> []"
  shows "answer env out (write_error (jc_error (sv_json sv)) code e) = Inl (remote_error code e)"
  using assms by (simp add: answer_def write_error_def write_json_def decode_response_error_def remote_error_def reads_errors_def)

lemma answer_json [simp]: "reads_back c v \<Longrightarrow> answer env c (write_json c 200 v) = Inr v"
  by (simp add: answer_def write_json_def)

lemma decode_json_reads [simp]: "reads_back c v \<Longrightarrow> hq_body q = cd_encode c v \<Longrightarrow> decode_json ce c q = Inr v"
  by (simp add: decode_json_def)

section \<open>Routing\<close>

lemma route_literals:
  "mux_route agent_routes \<lparr>hq_method = ''GET'', hq_host = h, hq_path = url_escape path_char ''/status'', hq_body = b\<rparr> = Matched StatusRoute []"
  "mux_route agent_routes \<lparr>hq_method = ''POST'', hq_host = h, hq_path = url_escape path_char ''/inspect-run-bundle'', hq_body = b\<rparr> = Matched InspectRoute []"
  "mux_route agent_routes \<lparr>hq_method = ''POST'', hq_host = h, hq_path = url_escape path_char ''/prepare-bundle'', hq_body = b\<rparr> = Matched PrepareBundleRoute []"
  "mux_route agent_routes \<lparr>hq_method = ''POST'', hq_host = h, hq_path = url_escape path_char ''/prepare-local'', hq_body = b\<rparr> = Matched PrepareLocalRoute []"
  "mux_route agent_routes \<lparr>hq_method = ''POST'', hq_host = h, hq_path = url_escape path_char ''/release-prepared'', hq_body = b\<rparr> = Matched ReleaseRoute []"
  "mux_route agent_routes \<lparr>hq_method = ''POST'', hq_host = h, hq_path = url_escape path_char ''/run-shard'', hq_body = b\<rparr> = Matched ShardRoute []"
  "mux_route agent_routes \<lparr>hq_method = ''POST'', hq_host = h, hq_path = url_escape path_char ''/runs'', hq_body = b\<rparr> = Matched RunRoute []"
  "mux_route agent_routes \<lparr>hq_method = ''POST'', hq_host = h, hq_path = url_escape path_char ''/sandboxes'', hq_body = b\<rparr> = Matched CreateRoute []"
  by code_simp+

lemma join_slash_last: "list_all normal_part ps \<Longrightarrow> ps \<noteq> [] \<Longrightarrow> join_slash ps \<noteq> [] \<and> last (join_slash ps) \<noteq> CHR ''/''"
proof (induction ps rule: join_slash.induct)
  case (2 p)
  then have "p \<noteq> []" "CHR ''/'' \<notin> set p" by (auto simp: normal_part_def)
  then show ?case by (metis join_slash.simps(2) last_in_set)
qed auto

lemma mux_normal:
  assumes "list_all normal_part ps" "ps \<noteq> []"
  shows "mux_clean (CHR ''/'' # join_slash ps) = CHR ''/'' # join_slash ps"
    "split_on (CHR ''/'') (join_slash ps) = ps"
  using join_slash_last [OF assms] split_join_slash [OF assms(2) normal_no_slash [OF assms(1)]]
  by (auto simp: mux_clean_def path_clean_parts(1) [OF assms(1)] Let_def)

text \<open>A sandbox name as the client puts it into a path and as the server finds it there.\<close>

definition sent_name :: "string \<Rightarrow> string" where
  "sent_name name = url_escape path_char (path_escape name)"

lemma upper_hex_no_slash: "n < 16 \<Longrightarrow> upper_hex n \<noteq> CHR ''/''"
  using is_hex_upper [of n] by (auto simp: is_hex_def is_lower_hex_def)

lemma escape_no_slash: "\<not> (keep (CHR ''/'') \<and> CHR ''/'' \<in> set s) \<Longrightarrow> CHR ''/'' \<notin> set (url_escape keep s)"
proof (induction s)
  case (Cons c s)
  have "(of_char c :: nat) div 16 < 16" using of_char_less [of c] by linarith
  then have "CHR ''/'' \<notin> set (percent_byte c)"
    using upper_hex_no_slash [of "of_char c div 16"] upper_hex_no_slash [of "of_char c mod 16"]
    by (auto simp: percent_byte_def)
  then show ?case using Cons by (auto simp: url_escape_def split: if_splits)
qed (simp add: url_escape_def)

lemma path_escape_no_slash: "CHR ''/'' \<notin> set (path_escape s)"
  by (rule escape_no_slash) (simp add: segment_char_def unreserved_def is_alpha_def is_digit_def)

lemma sent_name_found [simp]: "unescape_segment (sent_name name) = path_escape name"
  by (simp add: unescape_segment_def sent_name_def)

lemma sent_name_normal:
  assumes "name \<notin> {[], ''.'', ''..''}"
  shows "normal_part (sent_name name)"
proof -
  have un: "unescape_path (sent_name name) = Some (path_escape name)" "unescape_path (path_escape name) = Some name"
    by (simp_all add: sent_name_def)
  have plain: "sent_name name \<noteq> t" if "t \<in> {[], ''.'', ''..''}" for t
  proof
    assume "sent_name name = t"
    then have "path_escape name = t" using un(1) that by auto
    then show False using un(2) that assms by auto
  qed
  have "CHR ''/'' \<notin> set (sent_name name)"
    unfolding sent_name_def by (rule escape_no_slash) (simp add: path_escape_no_slash)
  then show ?thesis using plain by (auto simp: normal_part_def)
qed

lemma sandboxes_kept: "url_escape path_char ''/sandboxes/'' = ''/sandboxes/''" "url_escape path_char ''/exec'' = ''/exec''"
  by code_simp+

lemma literal_segments: "normal_part ''sandboxes''" "normal_part ''exec''" "unescape_segment ''sandboxes'' = ''sandboxes''"
  "unescape_segment ''exec'' = ''exec''"
  by code_simp+

lemma route_sandbox:
  assumes "name \<notin> {[], ''.'', ''..''}"
  shows "mux_route agent_routes \<lparr>hq_method = ''DELETE'', hq_host = h,
       hq_path = url_escape path_char (''/sandboxes/'' @ path_escape name), hq_body = b\<rparr> = Matched DeleteRoute [path_escape name]"
    "mux_route agent_routes \<lparr>hq_method = ''POST'', hq_host = h,
       hq_path = url_escape path_char (''/sandboxes/'' @ path_escape name @ ''/exec''), hq_body = b\<rparr> = Matched ExecRoute [path_escape name]"
proof -
  note n = sent_name_normal [OF assms]
  have wild: "sent_name name \<noteq> []" "path_escape name \<noteq> ''/''"
    using n path_escape_no_slash [of name] by (auto simp: normal_part_def)
  have p1: "url_escape path_char (''/sandboxes/'' @ path_escape name) = CHR ''/'' # join_slash [''sandboxes'', sent_name name]"
    and p2: "url_escape path_char (''/sandboxes/'' @ path_escape name @ ''/exec'') = CHR ''/'' # join_slash [''sandboxes'', sent_name name, ''exec'']"
    unfolding url_escape_append sandboxes_kept sent_name_def by simp_all
  have m1: "list_all normal_part [''sandboxes'', sent_name name]" and m2: "list_all normal_part [''sandboxes'', sent_name name, ''exec'']"
    using n literal_segments by simp_all
  show "mux_route agent_routes \<lparr>hq_method = ''DELETE'', hq_host = h,
       hq_path = url_escape path_char (''/sandboxes/'' @ path_escape name), hq_body = b\<rparr> = Matched DeleteRoute [path_escape name]"
    unfolding p1 mux_route_def Let_def http_request.select_convs mux_normal [OF m1 list.distinct(2)] list.sel
    by (simp add: agent_routes_def literal_segments wild del: join_slash.simps)
  show "mux_route agent_routes \<lparr>hq_method = ''POST'', hq_host = h,
       hq_path = url_escape path_char (''/sandboxes/'' @ path_escape name @ ''/exec''), hq_body = b\<rparr> = Matched ExecRoute [path_escape name]"
    unfolding p2 mux_route_def Let_def http_request.select_convs mux_normal [OF m2 list.distinct(2)] list.sel
    by (simp add: agent_routes_def literal_segments wild del: join_slash.simps)
qed

end
