(* ===== verification/HttpClaims.thy ===== *)
theory HttpClaims
  imports AgentHttp
begin

text \<open>
  What holds of the agent's API: calls through HTTP are the runner's calls, what becomes of shards
  and of sandbox names on the way, the types of the replies, and the age of the cache status.
\<close>

section \<open>Calls\<close>

lemma serve_call:
  assumes "connected env c sv miss" "reads_errors env" "reads_back cin v"
    "\<And>h b st. agent_serve sv miss \<lparr>hq_method = meth, hq_host = h, hq_path = url_escape path_char path, hq_body = b\<rparr> st =
       handle_call sv cin cout f \<lparr>hq_method = meth, hq_host = h, hq_path = url_escape path_char path, hq_body = b\<rparr> st"
    "f v (sst_world st) = (res, w)"
    "case res of Inl e \<Rightarrow> err_text e \<noteq> [] | Inr y \<Rightarrow> reads_back cout y"
  shows "client_send meth env c ctx path (cd_encode cin v) cout st =
    (case res of Inl e \<Rightarrow> Inl (remote_error 400 e) | Inr y \<Rightarrow> Inr y, st\<lparr>sst_world := w\<rparr>)"
proof -
  obtain h where h: "client_send meth env c ctx path (cd_encode cin v) cout st =
    (case agent_serve sv miss \<lparr>hq_method = meth, hq_host = h, hq_path = url_escape path_char path, hq_body = cd_encode cin v\<rparr> st of
       (resp, st1) \<Rightarrow> (answer env cout resp, st1))"
    using send_connected [OF assms(1)] by metis
  have js: "he_json env = sv_json sv" using assms(1) by (simp add: connected_def)
  show ?thesis using assms(3,5,6)
    unfolding h assms(4) handle_call_def
    by (simp add: on_server_def reply_with_def answer_error [OF assms(2) js] split: sum.splits)
qed


text \<open>What a call through HTTP makes of a call's outcome.\<close>

definition carried :: "'a codec \<Rightarrow> gerr + 'a \<Rightarrow> bool" where
  "carried c res \<longleftrightarrow> (case res of Inl e \<Rightarrow> err_text e \<noteq> [] | Inr y \<Rightarrow> reads_back c y)"

definition over_http :: "'s server_state \<Rightarrow> (gerr + 'a) \<times> 's \<Rightarrow> (gerr + 'a) \<times> 's server_state" where
  "over_http st xw = (case fst xw of Inl e \<Rightarrow> Inl (remote_error 400 e) | Inr y \<Rightarrow> Inr y, st\<lparr>sst_world := snd xw\<rparr>)"

lemma post_call:
  assumes "connected env c sv miss" "reads_errors env" "reads_back cin v" "carried cout (fst (f v (sst_world st)))"
    "\<And>h b st. agent_serve sv miss \<lparr>hq_method = ''POST'', hq_host = h, hq_path = url_escape path_char path, hq_body = b\<rparr> st =
       handle_call sv cin cout f \<lparr>hq_method = ''POST'', hq_host = h, hq_path = url_escape path_char path, hq_body = b\<rparr> st"
  shows "post_json env c ctx path cin v cout st = over_http st (f v (sst_world st))"
  unfolding post_json_def over_http_def
  using assms(4) by (intro serve_call [OF assms(1-3,5)]) (auto simp: carried_def)


section \<open>Shards\<close>

lemma first_invalid_None: "first_invalid run xs = None \<longleftrightarrow> (\<forall>x \<in> set xs. attempt_result_validate x run = None)"
  by (induction xs) (auto split: option.splits)

definition checked_results :: "bundle_run \<Rightarrow> attempt_result list \<Rightarrow> gerr + attempt_result list" where
  "checked_results run results = (case first_invalid run results of Some e \<Rightarrow> Inl e | None \<Rightarrow> Inr results)"

text \<open>Through HTTP a shard of another agent is refused with status 409 before the runner is asked;
  otherwise the runner is asked exactly once, its results come back when it had no error or some
  entry names an attempt, but only if every entry passes the validation, and else its error does.\<close>

lemma shard_over_http:
  assumes "connected env c sv miss" "reads_errors env" "reads_back (jc_shard (sv_json sv)) req"
    "executor_run_shard (shard_executor_of sv) CallerCtx req (sst_world st) = ((results, err), w)"
    "reads_back (jc_results (sv_json sv)) results" "\<forall>e. err = Some e \<longrightarrow> err_text e \<noteq> []"
  shows "client_run_shard env c ctx req st =
    (if lease_agentID (ser_lease req) \<noteq> sv_agentID sv then (Inl (remote_error 409 (wrong_agent sv (ser_lease req))), st)
     else (case err of
         Some e \<Rightarrow> if shard_result_count results > 0 then checked_results (ser_run req) results else Inl (remote_error 400 e)
       | None \<Rightarrow> checked_results (ser_run req) results, st\<lparr>sst_world := w\<rparr>))"
proof -
  obtain h where h: "client_send ''POST'' env c ctx ''/run-shard'' (cd_encode (jc_shard (sv_json sv)) req) (jc_results (sv_json sv)) st =
    (case agent_serve sv miss \<lparr>hq_method = ''POST'', hq_host = h, hq_path = url_escape path_char ''/run-shard'',
       hq_body = cd_encode (jc_shard (sv_json sv)) req\<rparr> st of (resp, st1) \<Rightarrow> (answer env (jc_results (sv_json sv)) resp, st1))"
    using send_connected [OF assms(1)] by metis
  have js: "he_json env = sv_json sv" using assms(1) by (simp add: connected_def)
  have worded: "err_text (wrong_agent sv (ser_lease req)) \<noteq> []" by (simp add: wrong_agent_def)
  show ?thesis
    unfolding client_run_shard_def post_json_def js h agent_serve_def route_literals mux_outcome.case agent_route.case
    using assms(3-6) worded
    by (simp add: handle_run_shard_def on_server_def answer_error [OF assms(2) js] checked_results_def split: option.splits)
qed

lemma checked_invalid: "x \<in> set results \<Longrightarrow> attempt_result_validate x run \<noteq> None \<Longrightarrow> \<exists>e. checked_results run results = Inl e"
  using first_invalid_None [of run results] by (auto simp: checked_results_def split: option.splits)

lemma unfinished_invalid:
  "ar_status x = AttemptFailed \<Longrightarrow> ar_error x = None \<Longrightarrow> attempt_result_validate x run \<noteq> None"
  by (auto simp: attempt_result_validate_def check_def first_err_all)

text \<open>When the runner answers results of which one cannot be used, the other children's results are
  lost: if one child's terminal result could not be looked up, its entry names its attempt but fails
  the validation, so the server replies with status 200 and all results, and the client returns
  an error and none.\<close>

lemma lookup_failure_loses_shard:
  assumes "connected env c sv miss" "reads_errors env" "reads_back (jc_shard (sv_json sv)) req"
    "lease_agentID (ser_lease req) = sv_agentID sv"
    "executor_run_shard (shard_executor_of sv) CallerCtx req (sst_world st) = ((results, Some err), w)"
    "reads_back (jc_results (sv_json sv)) results" "err_text err \<noteq> []"
    "validate_run_child_request r creq = None" "rn_now r w0 = (t, w1)"
    "store_terminal (store_of r) CallerCtx (rch_run creq) (rch_childID creq) w1 = (Inl e, w2)"
    "fst (fst (run_child r creq w0)) \<in> set results"
  shows "\<exists>e. client_run_shard env c ctx req st = (Inl e, st\<lparr>sst_world := w\<rparr>)"
proof -
  let ?x = "fst (fst (run_child r creq w0))"
  have x: "ar_status ?x = AttemptFailed" "ar_error ?x = None"
    using assms(8-10) by (simp_all add: run_child_def first_result_def zero_result_def split: prod.splits)
  obtain e' where e': "checked_results (ser_run req) results = Inl e'"
    using checked_invalid [OF assms(11) unfinished_invalid [OF x]] by blast
  show ?thesis using shard_over_http [OF assms(1-3,5,6)] assms(4,7) e' by auto
qed

section \<open>Sandboxes\<close>

text \<open>The client escapes a sandbox name for its path and the URL is escaped once more, so the agent
  is asked for the escaped name: it is the sandbox's own name exactly when no character of it needs
  escaping, and a sandbox of any other name can neither be used nor removed through the client.\<close>

lemma sandbox_name_sent:
  assumes "connected env c sv miss" "reads_errors env" "name \<notin> {[], ''.'', ''..''}" "sv_runner sv = Some ops"
    "ao_remove_sandbox ops CallerCtx \<lparr>rvq_name = path_escape name\<rparr> (sst_world st) = (err, w)"
    "\<forall>e. err = Some e \<longrightarrow> err_text e \<noteq> []" "reads_back (jc_name (sv_json sv)) (path_escape name)"
    "reads_back (jc_exec (sv_json sv)) \<lparr>exq_name = [], exq_command = command\<rparr>"
    "carried (jc_events (sv_json sv)) (fst (ao_exec_sandbox ops CallerCtx \<lparr>exq_name = path_escape name, exq_command = command\<rparr> (sst_world st)))"
  shows "client_remove_sandbox env c ctx name st = (map_option (remote_error 400) err, st\<lparr>sst_world := w\<rparr>) \<and>
    client_exec_sandbox env c ctx name command st =
      over_http st (ao_exec_sandbox ops CallerCtx \<lparr>exq_name = path_escape name, exq_command = command\<rparr> (sst_world st)) \<and>
    (path_escape name = name \<longleftrightarrow> list_all segment_char name)"
proof -
  let ?js = "sv_json sv"
  obtain h where h: "client_send ''DELETE'' env c ctx (''/sandboxes/'' @ path_escape name) [] (jc_name ?js) st =
    (case agent_serve sv miss \<lparr>hq_method = ''DELETE'', hq_host = h,
       hq_path = url_escape path_char (''/sandboxes/'' @ path_escape name), hq_body = []\<rparr> st of (resp, st1) \<Rightarrow> (answer env (jc_name ?js) resp, st1))"
    using send_connected [OF assms(1)] by metis
  have js: "he_json env = ?js" using assms(1) by (simp add: connected_def)
  have remove: "client_remove_sandbox env c ctx name st = (map_option (remote_error 400) err, st\<lparr>sst_world := w\<rparr>)"
    unfolding client_remove_sandbox_def delete_json_def js h agent_serve_def route_sandbox [OF assms(3)] mux_outcome.case agent_route.case list.sel
    using assms(4-7) by (simp add: handle_delete_sandbox_def on_server_def answer_error [OF assms(2) js] split: option.splits)
  have exec: "client_exec_sandbox env c ctx name command st =
      over_http st (ao_exec_sandbox ops CallerCtx \<lparr>exq_name = path_escape name, exq_command = command\<rparr> (sst_world st))"
    unfolding client_exec_sandbox_def js
    using assms(8,9) post_call [OF assms(1,2), of "jc_exec ?js" "\<lparr>exq_name = [], exq_command = command\<rparr>" "jc_events ?js"
        "\<lambda>req. ao_exec_sandbox ops CallerCtx (req\<lparr>exq_name := path_escape name\<rparr>)" st "''/sandboxes/'' @ path_escape name @ ''/exec''" ctx]
    unfolding agent_serve_def route_sandbox [OF assms(3)] mux_outcome.case agent_route.case list.sel handle_exec_sandbox_def assms(4) option.sel
    by simp
  show ?thesis using remove exec by (simp add: url_escape_id)
qed

section \<open>Replies\<close>

text \<open>A reply is an error document with an error status, the plain text of a probe, or one document
  of the route's type with status 200.\<close>

definition error_reply :: "'s agent_server \<Rightarrow> http_response \<Rightarrow> bool" where
  "error_reply sv resp \<longleftrightarrow> (\<exists>code e. code \<in> {400, 409, 500, 503} \<and> resp = write_error (jc_error (sv_json sv)) code e)"

definition document_reply :: "'a codec \<Rightarrow> http_response \<Rightarrow> bool" where
  "document_reply c resp \<longleftrightarrow> (\<exists>v. resp = write_json c 200 v)"

fun route_reply :: "'s agent_server \<Rightarrow> agent_route \<Rightarrow> http_response \<Rightarrow> bool" where
  "route_reply sv HealthzRoute resp \<longleftrightarrow> resp = write_text ''ok''"
| "route_reply sv ReadyzRoute resp \<longleftrightarrow> resp = write_text ''ready''"
| "route_reply sv StatusRoute resp \<longleftrightarrow> document_reply (jc_status (sv_json sv)) resp"
| "route_reply sv InspectRoute resp \<longleftrightarrow> document_reply (jc_inspection (sv_json sv)) resp"
| "route_reply sv PrepareBundleRoute resp \<longleftrightarrow> document_reply (jc_prepared (sv_json sv)) resp"
| "route_reply sv PrepareLocalRoute resp \<longleftrightarrow> document_reply (jc_prepared (sv_json sv)) resp"
| "route_reply sv ReleaseRoute resp \<longleftrightarrow> document_reply (jc_cleanup (sv_json sv)) resp"
| "route_reply sv ShardRoute resp \<longleftrightarrow> document_reply (jc_results (sv_json sv)) resp"
| "route_reply sv RunRoute resp \<longleftrightarrow> document_reply (jc_run_response (sv_json sv)) resp"
| "route_reply sv CreateRoute resp \<longleftrightarrow> document_reply (jc_created (sv_json sv)) resp"
| "route_reply sv ExecRoute resp \<longleftrightarrow> document_reply (jc_events (sv_json sv)) resp"
| "route_reply sv DeleteRoute resp \<longleftrightarrow> document_reply (jc_name (sv_json sv)) resp"

lemma write_error_reply: "code \<in> {400, 409, 500, 503} \<Longrightarrow> error_reply sv (write_error (jc_error (sv_json sv)) code e)"
  by (auto simp: error_reply_def)

lemma reply_with_typed: "code \<in> {400, 500} \<Longrightarrow>
    error_reply sv (reply_with sv c code res) \<or> document_reply c (reply_with sv c code res)"
  using write_error_reply [of code] by (auto simp: reply_with_def document_reply_def split: sum.splits)

lemma decode_json_error: "decode_json (jc_error (sv_json sv)) c q = Inl resp \<Longrightarrow> error_reply sv resp"
  by (auto simp: decode_json_def write_error_reply split: sum.splits)

lemma handle_call_typed:
  "error_reply sv (fst (handle_call sv cin cout f q st)) \<or> document_reply cout (fst (handle_call sv cin cout f q st))"
  using reply_with_typed [of 400 sv cout] by (auto simp: handle_call_def decode_json_error split: sum.splits prod.splits)

lemma document_replies [simp]: "document_reply c (write_json c 200 v)"
  by (auto simp: document_reply_def)


section \<open>The cache status\<close>

definition scan_of :: "'s agent_server \<Rightarrow> 's \<Rightarrow> gerr + cache_status" where
  "scan_of sv w = status_for_cache_roots (\<lambda>dir. sv_walk sv dir w) (sv_bundleCacheRoot sv) (sv_rootFSCacheRoot sv)"

text \<open>A call that reads the clock in the world \<open>w\<close> reads \<open>clock_at sv w\<close> and finds \<open>scan_at sv w\<close>.\<close>

definition clock_at :: "'s agent_server \<Rightarrow> 's \<Rightarrow> go_time" where
  "clock_at sv w = fst (server_now sv w)"

definition scan_at :: "'s agent_server \<Rightarrow> 's \<Rightarrow> gerr + cache_status" where
  "scan_at sv w = scan_of sv (snd (server_now sv w))"

text \<open>What the calls of \<open>cacheStatus\<close> made in the worlds \<open>ws\<close> answer, one after the other.\<close>

fun cache_calls :: "'s agent_server \<Rightarrow> 's list \<Rightarrow> 's server_state \<Rightarrow> (gerr + cache_status) list" where
  "cache_calls sv [] st = []"
| "cache_calls sv (w # ws) st =
     (case cache_status_of sv (st\<lparr>sst_world := w\<rparr>) of (res, st1) \<Rightarrow> res # cache_calls sv ws st1)"

definition remembered :: "'s agent_server \<Rightarrow> 's set \<Rightarrow> 's server_state \<Rightarrow> bool" where
  "remembered sv us st \<longleftrightarrow>
     (sst_cacheAt st \<noteq> 0 \<longrightarrow> (\<exists>u \<in> us. scan_at sv u = Inr (sst_cache st) \<and> clock_at sv u = sst_cacheAt st))"

lemma cache_call:
  assumes "remembered sv us st" "cache_status_of sv (st\<lparr>sst_world := w\<rparr>) = (res, st1)"
  shows "remembered sv (insert w us) st1"
    "res = Inr found \<Longrightarrow> scan_at sv w = Inr found \<or>
       (\<exists>u \<in> us. scan_at sv u = Inr found \<and> clock_at sv w < clock_at sv u + status_cache_ttl)"
  using assms by (auto simp: remembered_def cache_status_of_def on_server_def scan_at_def scan_of_def clock_at_def
      split: prod.splits if_splits sum.splits)

lemma cache_calls_fresh:
  assumes "remembered sv us st" "i < length ws" "cache_calls sv ws st ! i = Inr found"
  shows "scan_at sv (ws ! i) = Inr found \<or>
    (\<exists>u \<in> us \<union> set (take i ws). scan_at sv u = Inr found \<and> clock_at sv (ws ! i) < clock_at sv u + status_cache_ttl)"
  using assms
proof (induction ws arbitrary: us st i)
  case (Cons w ws)
  obtain res st1 where c: "cache_status_of sv (st\<lparr>sst_world := w\<rparr>) = (res, st1)" by fastforce
  note step = cache_call [OF Cons.prems(1) c]
  show ?case
  proof (cases i)
    case 0
    then show ?thesis using Cons.prems(3) c step(2) by auto
  next
    case (Suc k)
    then show ?thesis using Cons.IH [OF step(1), of k] Cons.prems(2,3) c by auto
  qed
qed simp

text \<open>In every sequence of status requests, whatever happens to the caches and the clock between them,
  the cache status answered is a scan made by this request, or by an earlier request whose clock
  reading lies less than five seconds behind this one's.\<close>

lemma cache_status_fresh:
  assumes "sst_cacheAt st = 0" "i < length ws" "cache_calls sv ws st ! i = Inr found"
  shows "scan_at sv (ws ! i) = Inr found \<or>
    (\<exists>u \<in> set (take i ws). scan_at sv u = Inr found \<and> clock_at sv (ws ! i) < clock_at sv u + 5 * second)"
  using cache_calls_fresh [of sv "{}" st i ws found] assms by (simp add: remembered_def status_cache_ttl_def)

lemma walk_prefix:
  "\<forall>e \<in> set pre. we_err e = None \<and> (we_path e = dir \<or> we_isDir e \<or> (\<exists>n. we_size e = Inr n)) \<Longrightarrow>
     \<exists>counts'. walk_dir dir (pre @ rest) counts = walk_dir dir rest counts'"
proof (induction pre arbitrary: counts)
  case (Cons f pre)
  obtain a b where counts: "counts = (a, b)" by (cases counts)
  show ?case using Cons.prems Cons.IH unfolding counts by auto
qed auto

text \<open>A file that disappears while the cache directory is scanned, as a collection that runs at the
  same time makes it do, ends the scan with the answer that the directory holds nothing, however
  much was counted before.\<close>

lemma scan_loses_count:
  assumes "dir \<noteq> []" "walk dir = pre @ e # rest"
    "\<forall>f \<in> set pre. we_err f = None \<and> (we_path f = dir \<or> we_isDir f \<or> (\<exists>n. we_size f = Inr n))"
    "we_err e = None" "we_path e \<noteq> dir" "\<not> we_isDir e" "we_size e = Inl err" "errors_is OsErrNotExist err"
  shows "dir_stats walk dir = ((0, 0), None)"
proof -
  obtain a b where w: "walk_dir dir (walk dir) (0, 0) = walk_dir dir (e # rest) (a, b)"
    using walk_prefix [OF assms(3), of "e # rest" "(0, 0)"] assms(2) by auto
  show ?thesis using assms unfolding dir_stats_def w by simp
qed

section \<open>The modelled agent behind HTTP\<close>

text \<open>The runner of \<open>Templates\<close> and \<open>SandboxCalls\<close> as what the server calls; its other operations are
  those of \<open>other\<close>.\<close>

record 'w agent_node =
  an_pool :: slot_pool
  an_registry :: registry
  an_node :: "'w node"

definition or_error :: "'a \<times> gerr option \<Rightarrow> gerr + 'a" where
  "or_error xe = (case snd xe of Some e \<Rightarrow> Inl e | None \<Rightarrow> Inr (fst xe))"

definition runner_ops :: "'w runner \<Rightarrow> 'w template_env \<Rightarrow> 'w agent_node agent_ops \<Rightarrow> 'w agent_node agent_ops" where
  "runner_ops r te other = other\<lparr>
     ao_run := (\<lambda>ctx req pressure s.
       case runner_run r te ctx req pressure (an_pool s, an_node s) of (res, p, nd) \<Rightarrow>
         (or_error res, s\<lparr>an_pool := p, an_node := nd\<rparr>)),
     ao_create_sandbox := (\<lambda>ctx req pressure s.
       case create_sandbox r te ctx req pressure (an_pool s, an_registry s, an_node s) of (res, p, m, nd) \<Rightarrow>
         (or_error res, \<lparr>an_pool = p, an_registry = m, an_node = nd\<rparr>)),
     ao_exec_sandbox := (\<lambda>ctx req s.
       case exec_sandbox r ctx req (an_registry s, an_node s) of (res, m, nd) \<Rightarrow>
         (or_error res, s\<lparr>an_registry := m, an_node := nd\<rparr>)),
     ao_remove_sandbox := (\<lambda>ctx req s.
       case remove_sandbox r ctx req (an_pool s, an_registry s, an_node s) of (err, p, m, nd) \<Rightarrow>
         (err, \<lparr>an_pool = p, an_registry = m, an_node = nd\<rparr>))\<rparr>"

text \<open>A sandbox creation asked for through HTTP is an execution of the interleaved calls of the agent's
  registry, from its start to its return, and the client gets a response exactly when it returned
  without an error: nothing between the client and the registry reserves, activates or releases
  anything.\<close>

lemma remote_creation_refines:
  assumes "connected env c sv miss" "reads_errors env" "sv_runner sv = Some (runner_ops r te other)"
    "reads_back (jc_create (sv_json sv)) req"
    "carried (jc_created (sv_json sv)) (fst (ao_create_sandbox (runner_ops r te other) CallerCtx req (server_pressure sv) (sst_world st)))"
    "client_create_sandbox env c ctx req st = (res, st')"
  shows "\<exists>err. call_steps (an_pool (sst_world st), an_registry (sst_world st), CreateStart req)
      (an_pool (sst_world st'), an_registry (sst_world st'), Returned err) \<and> (err = None \<longleftrightarrow> (\<exists>resp. res = Inr resp))"
proof -
  have js: "he_json env = sv_json sv" using assms(1) by (simp add: connected_def)
  have eq: "client_create_sandbox env c ctx req st =
      over_http st (ao_create_sandbox (runner_ops r te other) CallerCtx req (server_pressure sv) (sst_world st))"
    unfolding client_create_sandbox_def js
    by (rule post_call [OF assms(1,2), where f = "\<lambda>req. ao_create_sandbox (runner_ops r te other) CallerCtx req (server_pressure sv)",
          OF assms(4,5)])
      (simp only: agent_serve_def route_literals mux_outcome.case agent_route.case handle_create_sandbox_def assms(3) option.sel)
  obtain resp err p m nd where c: "create_sandbox r te CallerCtx req (server_pressure sv)
      (an_pool (sst_world st), an_registry (sst_world st), an_node (sst_world st)) = ((resp, err), p, m, nd)"
    by (metis prod.collapse)
  have "st' = st\<lparr>sst_world := \<lparr>an_pool = p, an_registry = m, an_node = nd\<rparr>\<rparr>" "err = None \<longleftrightarrow> (\<exists>resp. res = Inr resp)"
    using assms(6) unfolding eq by (auto simp: over_http_def runner_ops_def c or_error_def split: option.splits)
  then show ?thesis using create_sandbox_steps [OF c] by auto
qed

end
