(* ===== verification/CoordinatorMain.thy ===== *)
theory CoordinatorMain
  imports HttpClaims
begin

text \<open>
  The coordinator's program, \<open>cmd/spore-coordinator/main.go\<close>: it finds the agents, runs one run to its
  report and exit status, preparing and releasing it on an agent when it is given as a source, or
  serves an API of its own that passes single runs and sandboxes on to an agent. Files, flags, the
  result store's connection and the clock are arguments; logging is not modelled.
\<close>

section \<open>Configuration\<close>

record 'w coordinator_config =
  cc_runPath :: string
  cc_bundleRunPath :: string
  cc_listen :: string
  cc_resultStore :: result_store_config
  cc_timeout :: int
  cc_agentURLs :: "string list"
  cc_httpClient :: "'w http_client option"

text \<open>What the program calls: \<open>mn_new_http\<close> is an \<open>http.Client\<close> without a timeout, \<open>mn_load_s3\<close> and
  \<open>mn_local\<close> the two kinds of result store as the coordinator reads them.\<close>

record 'w main_env =
  mn_http :: "'w http_env"
  mn_new_http :: "'w http_client"
  mn_now :: "'w clock"
  mn_ctx_err :: "go_ctx \<Rightarrow> 'w \<Rightarrow> gerr option"
  mn_read_file :: "string \<Rightarrow> 'w \<Rightarrow> gerr + string"
  mn_json_run :: "string \<Rightarrow> (string + run) \<times> trailing"
  mn_json_bundle_run :: "string \<Rightarrow> (string + bundle_run) \<times> trailing"
  mn_load_s3 :: "string \<Rightarrow> string \<Rightarrow> bool \<Rightarrow> gerr + 'w s3_client"
  mn_local :: "local_result_store \<Rightarrow> go_ctx \<Rightarrow> 'w terminal_result_reader"
  mn_print :: "runtime_report \<Rightarrow> 'w \<Rightarrow> gerr option \<times> 'w"

record 'w agent_endpoint =
  ep_url :: string
  ep_client :: "'w agent_client"
  ep_status :: agent_status

definition default_run_path :: string where
  "default_run_path = ''/etc/sporevm/run/run.json''"

definition prepared_cleanup_timeout :: int where
  "prepared_cleanup_timeout = 120 * second"

text \<open>\<open>agentURLsFlag.Set\<close>.\<close>

definition agent_urls_set :: "string list \<Rightarrow> string \<Rightarrow> string list" where
  "agent_urls_set urls value = urls @ filter (\<lambda>u. u \<noteq> []) (map trim_space (split_on (CHR '','') value))"

section \<open>Agents\<close>

fun discover_agents :: "'w main_env \<Rightarrow> 'w http_client \<Rightarrow> go_ctx \<Rightarrow> string list \<Rightarrow> 'w
    \<Rightarrow> (gerr + 'w agent_endpoint list) \<times> 'w" where
  "discover_agents env http ctx [] w = (Inr [], w)"
| "discover_agents env http ctx (url # urls) w =
     (let client = \<lparr>agc_baseURL = url, agc_httpClient = Some http\<rparr> in
      case client_status (mn_http env) client (WithTimeout (10 * second) ctx) w of
        (Inl e, w1) \<Rightarrow> (Inl (Wrap (''fetch status from '' @ url @ '': '') e []), w1)
      | (Inr st, w1) \<Rightarrow>
          (case discover_agents env http ctx urls w1 of
             (Inl e, w2) \<Rightarrow> (Inl e, w2)
           | (Inr eps, w2) \<Rightarrow> (Inr (\<lparr>ep_url = url, ep_client = client, ep_status = st\<rparr> # eps), w2)))"

definition discover_agent_endpoints :: "'w main_env \<Rightarrow> go_ctx \<Rightarrow> string list \<Rightarrow> 'w http_client option \<Rightarrow> 'w
    \<Rightarrow> (gerr + 'w agent_endpoint list) \<times> 'w" where
  "discover_agent_endpoints env ctx urls httpClient w =
     discover_agents env (case httpClient of None \<Rightarrow> mn_new_http env | Some h \<Rightarrow> h) ctx urls w"

definition usable :: "agent_status \<Rightarrow> bool" where
  "usable st \<longleftrightarrow> as_healthy st \<and> \<not> pressure_is_critical (as_pressure st)"

definition free_slots :: "agent_status \<Rightarrow> int" where
  "free_slots st = slots_available (as_executionSlots st)"

fun sandbox_loop :: "'w agent_endpoint list \<Rightarrow> 'w agent_endpoint option \<Rightarrow> nat \<Rightarrow> 'w agent_endpoint option \<times> nat" where
  "sandbox_loop [] selected compatible = (selected, compatible)"
| "sandbox_loop (e # es) selected compatible =
     (if usable (ep_status e) then sandbox_loop es (Some e) (Suc compatible) else sandbox_loop es selected compatible)"

definition select_sandbox_endpoint :: "'w agent_endpoint list \<Rightarrow> gerr + 'w agent_endpoint" where
  "select_sandbox_endpoint endpoints =
     (case sandbox_loop endpoints None 0 of (selected, compatible) \<Rightarrow>
        if compatible = 0 then Inl (Sentinel ErrNoCompatibleAgents)
        else if compatible > 1 then Inl (Opaque ''sandbox API requires exactly one compatible agent'')
        else Inr (the selected))"

fun run_loop :: "'w agent_endpoint list \<Rightarrow> 'w agent_endpoint option \<Rightarrow> int \<Rightarrow> 'w agent_endpoint option \<times> int" where
  "run_loop [] selected best = (selected, best)"
| "run_loop (e # es) selected best =
     (if \<not> usable (ep_status e) \<or> free_slots (ep_status e) < 1 then run_loop es selected best
      else if free_slots (ep_status e) > best then run_loop es (Some e) (free_slots (ep_status e))
      else run_loop es selected best)"

definition select_run_endpoint :: "'w agent_endpoint list \<Rightarrow> gerr + 'w agent_endpoint" where
  "select_run_endpoint endpoints =
     (case run_loop endpoints None 0 of (selected, best) \<Rightarrow>
        if best = 0 then Inl (Sentinel ErrNoCompatibleAgents) else Inr (the selected))"

fun prepare_loop :: "run \<Rightarrow> int \<Rightarrow> 'w agent_endpoint list \<Rightarrow> int \<Rightarrow> bool \<Rightarrow> gerr + 'w agent_endpoint" where
  "prepare_loop source required [] best healthy =
     (if \<not> healthy then Inl (Sentinel ErrNoCompatibleAgents)
      else Inl (errorf ErrInsufficientCapacity (''run needs '' @ itoa required
        @ '' in-flight slots on one preparing agent while bundle URI is local, have '' @ itoa best)))"
| "prepare_loop source required (e # es) best healthy =
     (if \<not> usable (ep_status e) then prepare_loop source required es best healthy
      else let capacity = min (free_slots (ep_status e)) (maxInFlightPerAgent (run_execution source));
               best = (if capacity > best then capacity else best) in
        if capacity \<ge> required then Inr e else prepare_loop source required es best True)"

definition select_prepare_endpoint :: "run \<Rightarrow> 'w agent_endpoint list \<Rightarrow> gerr + 'w agent_endpoint" where
  "select_prepare_endpoint source endpoints =
     (case run_validate source of
        Some e \<Rightarrow> Inl e
      | None \<Rightarrow> prepare_loop source (required_in_flight_slots (rc_count (run_children source)) (run_execution source)) endpoints 0 False)"

section \<open>Running a bundle\<close>

text \<open>An \<open>agenthttp.Client\<close> as the coordinator's executor and inspector.\<close>

definition client_executor :: "'w http_env \<Rightarrow> 'w agent_client \<Rightarrow> go_ctx \<Rightarrow> 'w shard_executor" where
  "client_executor env c ctx req w =
     (case client_run_shard env c ctx req w of (Inl e, w1) \<Rightarrow> (([], Some e), w1) | (Inr results, w1) \<Rightarrow> ((results, None), w1))"

definition prepared_local_executor :: "'w http_env \<Rightarrow> 'w agent_client \<Rightarrow> prepared_local_bundle \<Rightarrow> go_ctx \<Rightarrow> 'w shard_executor" where
  "prepared_local_executor env c local ctx req w = client_executor env c ctx (req\<lparr>ser_local := Some local\<rparr>) w"

definition prepared_local_inspector :: "prepared_bundle \<Rightarrow> 'w bundle_inspector" where
  "prepared_local_inspector prepared run w =
     (Inr \<lparr>bi_bundleDigest = bundle_digest (pb_bundle prepared), bi_childCount = pb_childCount prepared,
       bi_hostClass = pb_hostClass prepared\<rparr>, w)"

definition endpoint_executors :: "'w main_env \<Rightarrow> go_ctx \<Rightarrow> (string \<times> 'w shard_executor) list \<Rightarrow> 'w agent_endpoint list
    \<Rightarrow> (string \<times> 'w shard_executor option) list" where
  "endpoint_executors env ctx overrides endpoints =
     foldl (\<lambda>m e. AList.update (as_agentID (ep_status e))
       (Some (case map_of overrides (as_agentID (ep_status e)) of Some x \<Rightarrow> x
          | None \<Rightarrow> client_executor (mn_http env) (ep_client e) ctx)) m) [] endpoints"

definition run_bundle :: "'w main_env \<Rightarrow> go_ctx \<Rightarrow> bundle_run \<Rightarrow> 'w terminal_result_reader \<Rightarrow> 'w agent_endpoint list
    \<Rightarrow> 'w bundle_inspector option \<Rightarrow> (string \<times> 'w shard_executor) list \<Rightarrow> 'w \<Rightarrow> (runtime_report \<times> gerr option) \<times> 'w" where
  "run_bundle env ctx run store endpoints inspector overrides w =
     (if endpoints = [] \<or> inspector = None then ((zero_report, Some (Sentinel ErrCoordinatorNotConfigured)), w)
      else case new_coordinator (map ep_status endpoints) inspector (Some store)
          (endpoint_executors env ctx overrides endpoints) None (mn_now env) (mn_ctx_err env ctx) of
        Inl e \<Rightarrow> ((zero_report, Some (Wrap ''create coordinator: '' e [])), w)
      | Inr coordinator \<Rightarrow> coordinator_run coordinator run w)"

section \<open>Running a source\<close>

definition run_prepared :: "'w main_env \<Rightarrow> go_ctx \<Rightarrow> run \<Rightarrow> 'w terminal_result_reader \<Rightarrow> 'w agent_endpoint \<Rightarrow> bool
    \<Rightarrow> prepared_bundle \<Rightarrow> 'w \<Rightarrow> (runtime_report \<times> gerr option) \<times> 'w" where
  "run_prepared env ctx source store endpoint localPrepare prepared w =
     (case run_compile source prepared of
        Inl e \<Rightarrow> ((zero_report, Some e), w)
      | Inr run \<Rightarrow>
          let endpoint = endpoint\<lparr>ep_status := (ep_status endpoint)\<lparr>as_hostClass := pb_hostClass prepared\<rparr>\<rparr>;
              executors = (case pb_local prepared of
                  None \<Rightarrow> []
                | Some local \<Rightarrow> if local_childrenDir local \<noteq> []
                    then [(as_agentID (ep_status endpoint), prepared_local_executor (mn_http env) (ep_client endpoint) local ctx)]
                    else []);
              inspector = (if localPrepare then prepared_local_inspector prepared
                else client_inspect_run_bundle (mn_http env) (ep_client endpoint) ctx) in
          (case run_bundle env ctx run store [endpoint] (Some inspector) executors w of
             ((report, err), w1) \<Rightarrow>
               ((if rs_runID (rr_summary report) \<noteq> []
                 then report\<lparr>rr_prepare := Some \<lparr>rp_agentID = as_agentID (ep_status endpoint),
                   rp_bundleDigest = bundle_digest (pb_bundle prepared), rp_childCount = pb_childCount prepared,
                   rp_timingsMS = pb_timingsMS prepared\<rparr>\<rparr>
                 else report, err), w1)))"

definition run_on_endpoint :: "'w main_env \<Rightarrow> go_ctx \<Rightarrow> run \<Rightarrow> 'w terminal_result_reader \<Rightarrow> 'w agent_endpoint \<Rightarrow> 'w
    \<Rightarrow> (runtime_report \<times> gerr option) \<times> 'w" where
  "run_on_endpoint env ctx source store endpoint w =
     (let localPrepare = (maxAttemptsPerChild (run_retryPolicy source) = 1) in
      case (if localPrepare then client_prepare_local (mn_http env) (ep_client endpoint) ctx source w
            else client_prepare_bundle (mn_http env) (ep_client endpoint) ctx source w) of
        (Inl e, w1) \<Rightarrow> ((zero_report, Some e), w1)
      | (Inr prepared, w1) \<Rightarrow> run_prepared env ctx source store endpoint localPrepare prepared w1)"

definition release_context :: "go_ctx \<Rightarrow> go_ctx" where
  "release_context ctx = WithTimeout prepared_cleanup_timeout (WithoutCancel ctx)"

definition run_from_source :: "'w main_env \<Rightarrow> go_ctx \<Rightarrow> run \<Rightarrow> 'w terminal_result_reader \<Rightarrow> 'w agent_endpoint list \<Rightarrow> 'w
    \<Rightarrow> (runtime_report \<times> gerr option) \<times> 'w" where
  "run_from_source env ctx source store endpoints w =
     (case select_prepare_endpoint source endpoints of
        Inl e \<Rightarrow> ((zero_report, Some e), w)
      | Inr endpoint \<Rightarrow>
          (case run_on_endpoint env ctx source store endpoint w of
             ((report, err), w1) \<Rightarrow>
               (case client_release_prepared (mn_http env) (ep_client endpoint) (release_context ctx) source w1 of
                  (Inl cleanupErr, w2) \<Rightarrow>
                    ((report, errors_join [err, Some (Wrap (''release prepared run '' @ run_runID source @ '': '') cleanupErr [])]), w2)
                | (Inr cleanup, w2) \<Rightarrow> ((report, err), w2))))"

section \<open>One run\<close>

definition read_run :: "'w main_env \<Rightarrow> string \<Rightarrow> 'w \<Rightarrow> gerr + run" where
  "read_run env path w =
     (case mn_read_file env path w of
        Inl e \<Rightarrow> Inl (Wrap ''open run: '' e [])
      | Inr text \<Rightarrow> (case mn_json_run env text of (first, extra) \<Rightarrow> decode_run first extra))"

definition read_bundle_run :: "'w main_env \<Rightarrow> string \<Rightarrow> 'w \<Rightarrow> gerr + bundle_run" where
  "read_bundle_run env path w =
     (case mn_read_file env path w of
        Inl e \<Rightarrow> Inl (Wrap ''open bundle run: '' e [])
      | Inr text \<Rightarrow> (case mn_json_bundle_run env text of (first, extra) \<Rightarrow> decode_bundle_run first extra))"

definition has_runtime_report :: "runtime_report \<Rightarrow> bool" where
  "has_runtime_report report \<longleftrightarrow> ps_runID (plan_summary (rr_plan report)) \<noteq> [] \<or> rs_runID (rr_summary report) \<noteq> []"

definition runtime_report_error :: "runtime_report \<Rightarrow> gerr option" where
  "runtime_report_error report =
     (let s = rr_summary report in
      if rs_runID s = [] \<or> rs_state s = [] \<or> rs_state s = ''succeeded'' then None
      else Some (Opaque (''runtime report failed: run_id='' @ rs_runID s @ '' state='' @ rs_state s
        @ '' failed_children='' @ itoa (rs_failedChildren s) @ '' platform_mismatches='' @ itoa (rs_platformMismatches s)
        @ '' lease_errors='' @ itoa (rs_leaseErrors s))))"

definition store_reader :: "'w main_env \<Rightarrow> go_ctx \<Rightarrow> 'w result_store_choice \<Rightarrow> 'w terminal_result_reader" where
  "store_reader env ctx choice = (case choice of LocalStore s \<Rightarrow> mn_local env s ctx | S3Store c \<Rightarrow> s3_terminal_result c)"

text \<open>From the report on.\<close>

definition finish_run :: "'w main_env \<Rightarrow> runtime_report \<Rightarrow> gerr option \<Rightarrow> 'w \<Rightarrow> gerr option \<times> 'w" where
  "finish_run env report runErr w =
     (if \<not> has_runtime_report report then
        (case runErr of Some e \<Rightarrow> (Some e, w) | None \<Rightarrow> (Some (Opaque ''coordinator produced no runtime report''), w))
      else case mn_print env report w of
        (Some e, w1) \<Rightarrow> (Some (Wrap ''encode report: '' e []), w1)
      | (None, w1) \<Rightarrow> (case runErr of Some e \<Rightarrow> (Some e, w1) | None \<Rightarrow> (runtime_report_error report, w1)))"

definition run_coordinator :: "'w main_env \<Rightarrow> go_ctx \<Rightarrow> 'w coordinator_config \<Rightarrow> 'w \<Rightarrow> gerr option \<times> 'w" where
  "run_coordinator env ctx cfg w =
     (if cc_agentURLs cfg = [] then (Some (Opaque ''at least one --agent-url or SPORE_AGENT_URLS entry is required''), w)
      else if cc_runPath cfg \<noteq> [] \<and> cc_bundleRunPath cfg \<noteq> []
      then (Some (Opaque ''only one of --run or --bundle-run may be set''), w)
      else
        let runPath = (if cc_runPath cfg = [] \<and> cc_bundleRunPath cfg = [] then default_run_path else cc_runPath cfg) in
        if cc_timeout cfg \<le> 0 then (Some (Opaque ''timeout must be positive''), w)
        else
          let runCtx = WithTimeout (cc_timeout cfg) ctx in
          (case (if runPath \<noteq> [] then map_sum id Inl (read_run env runPath w)
                 else map_sum id Inr (read_bundle_run env (cc_bundleRunPath cfg) w)) of
             Inl e \<Rightarrow> (Some e, w)
           | Inr input \<Rightarrow>
               (case new_result_store (mn_load_s3 env) (cc_resultStore cfg) of
                  Inl e \<Rightarrow> (Some (Wrap ''create coordinator result store: '' e []), w)
                | Inr choice \<Rightarrow>
                    let store = store_reader env runCtx choice in
                    (case discover_agent_endpoints env runCtx (cc_agentURLs cfg) (cc_httpClient cfg) w of
                       (Inl e, w1) \<Rightarrow> (Some e, w1)
                     | (Inr endpoints, w1) \<Rightarrow>
                         (case (case input of
                              Inl source \<Rightarrow> run_from_source env runCtx source store endpoints w1
                            | Inr run \<Rightarrow> run_bundle env runCtx run store endpoints
                                (Some (client_inspect_run_bundle (mn_http env) (ep_client (hd endpoints)) runCtx)) [] w1) of
                            ((report, runErr), w2) \<Rightarrow> finish_run env report runErr w2)))))"

section \<open>The resident API\<close>

definition write_response_json :: "'a codec \<Rightarrow> int \<Rightarrow> 'a \<Rightarrow> http_response" where
  "write_response_json c code v = \<lparr>hp_code = code, hp_status = status_line code, hp_body = Inr (cd_encode c v)\<rparr>"

definition write_http_error :: "string codec \<Rightarrow> int \<Rightarrow> gerr \<Rightarrow> http_response" where
  "write_http_error c code err = write_response_json c (if code < 400 then 500 else code) (err_text err)"

definition decode_request_json :: "string codec \<Rightarrow> 'a codec \<Rightarrow> http_request \<Rightarrow> http_response + 'a" where
  "decode_request_json ce c q =
     (case decode_strict c ''request must contain exactly one JSON document'' (hq_body q) of
        Inl e \<Rightarrow> Inl (write_http_error ce 400 e)
      | Inr out \<Rightarrow> Inr out)"

definition coordinator_handler :: "'w coordinator_config \<Rightarrow> gerr option" where
  "coordinator_handler cfg =
     (let store = cc_resultStore cfg in
      if cc_agentURLs cfg = [] then Some (Opaque ''at least one --agent-url or SPORE_AGENT_URLS entry is required'')
      else if (rsc_backend store = [] \<or> rsc_backend store = ''local'') \<and> rsc_localRoot store = []
      then Some (Opaque ''result store root is required'')
      else if cc_timeout cfg \<le> 0 then Some (Opaque ''timeout must be positive'') else None)"

abbreviation api_error :: "'w main_env \<Rightarrow> int \<Rightarrow> gerr \<Rightarrow> http_response" where
  "api_error env \<equiv> write_http_error (jc_error (he_json (mn_http env)))"

definition api_reply :: "'w main_env \<Rightarrow> 'a codec \<Rightarrow> gerr + 'a \<Rightarrow> http_response" where
  "api_reply env c res = (case res of Inl e \<Rightarrow> api_error env 400 e | Inr v \<Rightarrow> write_response_json c 200 v)"

definition api_readyz :: "'w main_env \<Rightarrow> 'w coordinator_config \<Rightarrow> 'w \<Rightarrow> http_response \<times> 'w" where
  "api_readyz env cfg w =
     (case discover_agent_endpoints env (WithTimeout (10 * second) CallerCtx) (cc_agentURLs cfg) (cc_httpClient cfg) w of
        (Inl e, w1) \<Rightarrow> (api_error env 503 e, w1)
      | (Inr _, w1) \<Rightarrow> (write_text ''ready'', w1))"

definition api_run_once :: "'w main_env \<Rightarrow> 'w coordinator_config \<Rightarrow> http_request \<Rightarrow> 'w \<Rightarrow> http_response \<times> 'w" where
  "api_run_once env cfg q w =
     (let js = he_json (mn_http env) in
      case decode_request_json (jc_error js) (jc_run_request js) q of
        Inl resp \<Rightarrow> (resp, w)
      | Inr req \<Rightarrow>
          let ctx = WithTimeout (cc_timeout cfg) CallerCtx in
          (case discover_agent_endpoints env ctx (cc_agentURLs cfg) (cc_httpClient cfg) w of
             (Inl e, w1) \<Rightarrow> (api_error env 503 e, w1)
           | (Inr endpoints, w1) \<Rightarrow>
               (case select_run_endpoint endpoints of
                  Inl e \<Rightarrow> (api_error env 503 e, w1)
                | Inr endpoint \<Rightarrow>
                    (case client_run (mn_http env) (ep_client endpoint) ctx req w1 of
                       (res, w2) \<Rightarrow> (api_reply env (jc_run_response js) res, w2)))))"

definition sandbox_endpoint :: "'w main_env \<Rightarrow> 'w coordinator_config \<Rightarrow> string \<Rightarrow> 'w
    \<Rightarrow> (http_response + 'w agent_endpoint) \<times> 'w" where
  "sandbox_endpoint env cfg name w =
     (if name = [] then (Inl (api_error env 400 (Opaque ''sandbox name is required'')), w)
      else case discover_agent_endpoints env CallerCtx (cc_agentURLs cfg) (cc_httpClient cfg) w of
        (Inl e, w1) \<Rightarrow> (Inl (api_error env 503 e), w1)
      | (Inr endpoints, w1) \<Rightarrow>
          (case select_sandbox_endpoint endpoints of
             Inl e \<Rightarrow> (Inl (api_error env 503 e), w1)
           | Inr endpoint \<Rightarrow> (Inr endpoint, w1)))"

definition api_create_sandbox :: "'w main_env \<Rightarrow> 'w coordinator_config \<Rightarrow> http_request \<Rightarrow> 'w \<Rightarrow> http_response \<times> 'w" where
  "api_create_sandbox env cfg q w =
     (let js = he_json (mn_http env) in
      case decode_request_json (jc_error js) (jc_create js) q of
        Inl resp \<Rightarrow> (resp, w)
      | Inr create \<Rightarrow>
          (case sandbox_endpoint env cfg (scq_name create) w of
             (Inl resp, w1) \<Rightarrow> (resp, w1)
           | (Inr endpoint, w1) \<Rightarrow>
               (case client_create_sandbox (mn_http env) (ep_client endpoint) CallerCtx create w1 of
                  (res, w2) \<Rightarrow> (api_reply env (jc_created js) res, w2))))"

definition api_exec_sandbox :: "'w main_env \<Rightarrow> 'w coordinator_config \<Rightarrow> string \<Rightarrow> http_request \<Rightarrow> 'w \<Rightarrow> http_response \<times> 'w" where
  "api_exec_sandbox env cfg name q w =
     (let js = he_json (mn_http env) in
      case decode_request_json (jc_error js) (jc_exec js) q of
        Inl resp \<Rightarrow> (resp, w)
      | Inr execReq \<Rightarrow>
          (case sandbox_endpoint env cfg name w of
             (Inl resp, w1) \<Rightarrow> (resp, w1)
           | (Inr endpoint, w1) \<Rightarrow>
               (case client_exec_sandbox (mn_http env) (ep_client endpoint) CallerCtx name (exq_command execReq) w1 of
                  (res, w2) \<Rightarrow> (api_reply env (jc_events js) res, w2))))"

definition api_delete_sandbox :: "'w main_env \<Rightarrow> 'w coordinator_config \<Rightarrow> string \<Rightarrow> 'w \<Rightarrow> http_response \<times> 'w" where
  "api_delete_sandbox env cfg name w =
     (case sandbox_endpoint env cfg name w of
        (Inl resp, w1) \<Rightarrow> (resp, w1)
      | (Inr endpoint, w1) \<Rightarrow>
          (case client_remove_sandbox (mn_http env) (ep_client endpoint) CallerCtx name w1 of
             (err, w2) \<Rightarrow> (api_reply env (jc_name (he_json (mn_http env)))
               (case err of Some e \<Rightarrow> Inl e | None \<Rightarrow> Inr name), w2)))"

datatype coordinator_route = ApiHealthz | ApiReadyz | ApiRun | ApiCreate | ApiExec | ApiDelete

definition coordinator_routes :: "(string \<times> mux_segment list \<times> coordinator_route) list" where
  "coordinator_routes =
     [(''GET'', [Literal ''healthz''], ApiHealthz), (''GET'', [Literal ''readyz''], ApiReadyz),
      (''POST'', [Literal ''runs''], ApiRun), (''POST'', [Literal ''sandboxes''], ApiCreate),
      (''POST'', [Literal ''sandboxes'', Wildcard, Literal ''exec''], ApiExec),
      (''DELETE'', [Literal ''sandboxes'', Wildcard], ApiDelete)]"

definition coordinator_serve :: "'w main_env \<Rightarrow> 'w coordinator_config \<Rightarrow> (coordinator_route mux_outcome \<Rightarrow> http_response)
    \<Rightarrow> http_request \<Rightarrow> 'w \<Rightarrow> http_response \<times> 'w" where
  "coordinator_serve env cfg miss q w =
     (case mux_route coordinator_routes q of
        Matched ApiHealthz _ \<Rightarrow> (write_text ''ok'', w)
      | Matched ApiReadyz _ \<Rightarrow> api_readyz env cfg w
      | Matched ApiRun _ \<Rightarrow> api_run_once env cfg q w
      | Matched ApiCreate _ \<Rightarrow> api_create_sandbox env cfg q w
      | Matched ApiExec names \<Rightarrow> api_exec_sandbox env cfg (hd names) q w
      | Matched ApiDelete names \<Rightarrow> api_delete_sandbox env cfg (hd names) w
      | other \<Rightarrow> (miss other, w))"

end
