(* ===== verification/FleetCalls.thy ===== *)
theory FleetCalls
  imports FleetRuntime
begin

text \<open>
  What a run of the coordinator does to the outside: if each of its interfaces moves the world only
  along a relation, so does the whole run.
\<close>

locale coordinator_calls =
  fixes env :: "'w coordinator_env" and moves :: "'w \<Rightarrow> 'w \<Rightarrow> bool"
  assumes stays: "moves w w"
    and follows: "moves a b \<Longrightarrow> moves b c \<Longrightarrow> moves a c"
    and clock_moves: "moves w (snd (co_now env w))"
    and inspector_moves: "moves w (snd (co_inspector env run w))"
    and reader_moves: "moves w (snd (co_terminal env run child w))"
    and executor_moves: "map_of (co_executors env) agent = Some x \<Longrightarrow> moves w (snd (x req w))"
begin

lemma moves_fst: "f w = (y, w') \<Longrightarrow> moves w (snd (f w)) \<Longrightarrow> moves w w'"
  by simp

lemma pending_moves: "moves w (snd (snd (pending_loop env run cs p s w)))"
proof (induction cs arbitrary: p s w)
  case (Cons c cs)
  show ?case using Cons reader_moves [of w run c] stays
    by (auto split: prod.splits sum.splits option.splits) (metis follows snd_conv)+
qed (simp add: stays)

lemma has_pending_moves: "moves w (snd (snd (lease_has_pending_children env run lease s w)))"
  by (simp add: lease_has_pending_children_def pending_moves)

lemma attempt_moves:
  assumes x: "\<And>req w. moves w (snd (x req w))"
  shows "moves w (snd (snd (lease_attempt env x run lease attempt s w)))"
proof -
  obtain res1 s1 w1 where p1: "lease_has_pending_children env run lease s w = (res1, s1, w1)" by (metis prod.collapse)
  obtain results err w2 where e: "x \<lparr>ser_run = run, ser_lease = lease, ser_attempt = attempt, ser_local = None\<rparr> w1 = ((results, err), w2)"
    by (metis prod.collapse)
  obtain res3 s3 w3 where p3: "lease_has_pending_children env run lease (record_results s1 results) w2 = (res3, s3, w3)"
    by (metis prod.collapse)
  have m1: "moves w w1" using has_pending_moves [of w run lease s] p1 by simp
  have m2: "moves w w2" using x [of w1] e m1 follows by (metis snd_conv)
  have m3: "moves w w3" using has_pending_moves [of w2 run lease "record_results s1 results"] p3 m2 follows by (metis snd_conv)
  show ?thesis using m1 m2 m3 stays
    by (simp add: lease_attempt_def p1 e p3 Let_def split: option.splits sum.splits bool.splits)
qed

lemma loop_moves:
  assumes x: "\<And>req w. moves w (snd (x req w))"
  shows "moves w (snd (snd (lease_loop env x run lease attempt s w)))"
proof (induction "nat (lease_attemptBudget lease - attempt + 1)" arbitrary: attempt s w rule: less_induct)
  case less
  show ?case
  proof (cases "attempt > lease_attemptBudget lease")
    case True
    then show ?thesis by (simp add: lease_loop.simps stays)
  next
    case False
    obtain r s1 w1 where at: "lease_attempt env x run lease attempt s w = (r, s1, w1)" by (metis prod.collapse)
    have "moves w (snd (snd (lease_attempt env x run lease attempt s w)))" by (rule attempt_moves [OF x])
    then have m: "moves w w1" using at by simp
    show ?thesis
    proof (cases r)
      case None
      have "moves w1 (snd (snd (lease_loop env x run lease (attempt + 1) s1 w1)))" using False by (intro less) simp
      from follows [OF m this] show ?thesis using False at None by (simp add: lease_loop.simps [of env x run lease attempt s w])
    next
      case (Some v)
      then show ?thesis using False at m by (simp add: lease_loop.simps [of env x run lease attempt s w])
    qed
  qed
qed

lemma run_moves: "moves w (snd (coordinator_run env run w))"
proof -
  obtain t w0 where n: "co_now env w = (t, w0)" by fastforce
  obtain insp w1 where i: "co_inspector env run w0 = (insp, w1)" by fastforce
  obtain p pe where p: "build_single_agent_sequential_plan run (co_agents env) = (p, pe)" by fastforce
  obtain err s w2 where l: "run_lease env run (plan_lease p) (new_runtime_state run p t) w1 = (err, s, w2)" by (metis prod.collapse)
  obtain t3 w3 where n3: "co_now env w2 = (t3, w3)" by fastforce
  have m0: "moves w w0" using clock_moves [of w] n by simp
  have m1: "moves w w1" using inspector_moves [of w0 run] i m0 follows by (metis snd_conv)
  have "moves w1 w2"
  proof (cases "map_of (co_executors env) (lease_agentID (plan_lease p))")
    case None
    then show ?thesis using l stays by (auto simp: run_lease_def)
  next
    case (Some x)
    have "moves w1 (snd (snd (lease_loop env x run (plan_lease p) 1 (new_runtime_state run p t) w1)))"
      by (rule loop_moves [OF executor_moves [OF Some]])
    then show ?thesis using l Some by (simp add: run_lease_def)
  qed
  then have m2: "moves w w2" using m1 follows by blast
  have m3: "moves w w3" using clock_moves [of w2] n3 m2 follows by (metis snd_conv)
  show ?thesis using m0 m1 m3
    by (auto simp: coordinator_run_def n i p l n3 Let_def split: option.splits sum.splits)
qed

end

text \<open>Every coordinator, with the requests to its executors recorded: the record only grows.\<close>

definition record_grows :: "'w \<times> shard_execution_request list \<Rightarrow> 'w \<times> shard_execution_request list \<Rightarrow> bool" where
  "record_grows a b \<longleftrightarrow> (\<exists>l. snd b = snd a @ l)"

interpretation logged: coordinator_calls "logged_env env" record_grows for env
proof (unfold_locales, goal_cases)
  case (2 a b c)
  then show ?case by (fastforce simp: record_grows_def)
qed (auto simp: record_grows_def logged_executor_def logged_env_simps split_beta)

end
