(* ===== verification/HttpSamples.thy ===== *)
theory HttpSamples
  imports HttpClaims
begin

text \<open>
  A concrete agent behind HTTP at which the theorems about the API apply: its documents are read back,
  its run succeeds, its other operations fail, and the outcome of its shards is given.
\<close>

definition doc :: "'a \<Rightarrow> 'a codec" where
  "doc v = \<lparr>cd_encode = (\<lambda>_. ''d''), cd_decode = (\<lambda>_. (Inr v, TrailingEOF))\<rparr>"

lemma doc_reads [simp]: "reads_back (doc v) v"
  by (simp add: reads_back_def doc_def)

text \<open>An agent whose result store cannot be read, and the entry of a child it ran.\<close>

definition down_runner :: "unit runner" where
  "down_runner = calm_runner\<lparr>rn_results := Some \<lparr>store_terminal = (\<lambda>_ _ _ w. (Inl (Opaque ''store down''), w)),
     store_write = (\<lambda>_ _ _ w. (None, w)), store_commit = (\<lambda>_ _ _ w. ((False, None), w))\<rparr>\<rparr>"

definition down_result :: attempt_result where
  "down_result = fst (fst (run_child down_runner calm_request ()))"

definition api_run :: run_request where
  "api_run = \<lparr>rrq_runID = ''r'', rrq_image = [], rrq_memory = [], rrq_command = []\<rparr>"

definition api_shard :: shard_execution_request where
  "api_shard = \<lparr>ser_run = sample_bundle_run, ser_lease = plan_lease_for sample_bundle_run sample_agent,
     ser_attempt = 1, ser_local = None\<rparr>"

definition off :: "'a \<Rightarrow> 's \<Rightarrow> (gerr + 'b) \<times> 's" where
  "off x w = (Inl (Opaque ''off''), w)"

definition api_ops :: "attempt_result list \<times> gerr option \<Rightarrow> unit agent_ops" where
  "api_ops shard = \<lparr>ao_run = (\<lambda>_ req _ w. (Inr (first_response req), w)), ao_status = (\<lambda>_. off),
     ao_prepare_bundle = (\<lambda>_. off), ao_prepare_local = (\<lambda>_. off), ao_release_prepared = (\<lambda>_. off),
     ao_run_shard = (\<lambda>_ _ w. (shard, w)), ao_create_sandbox = (\<lambda>_ q _. off q), ao_exec_sandbox = (\<lambda>_. off),
     ao_remove_sandbox = (\<lambda>_ _ w. (None, w))\<rparr>"

definition api_json :: "string \<Rightarrow> attempt_result list \<Rightarrow> agent_codecs" where
  "api_json name results = \<lparr>jc_run_request = doc api_run, jc_run_response = doc (first_response api_run), jc_status = doc sample_agent,
     jc_bundle_run = doc sample_bundle_run, jc_inspection = doc \<lparr>bi_bundleDigest = [], bi_childCount = 0, bi_hostClass = sample_host\<rparr>,
     jc_run = doc sample_run, jc_prepared = \<lparr>cd_encode = (\<lambda>_. []), cd_decode = (\<lambda>_. (Inl (Opaque ''no''), TrailingEOF))\<rparr>,
     jc_cleanup = doc \<lparr>prc_runID = [], prc_removedChildren = 0\<rparr>, jc_shard = doc api_shard, jc_results = doc results,
     jc_create = doc box_request, jc_created = doc (first_create_response box_request),
     jc_exec = doc \<lparr>exq_name = [], exq_command = [''ls'']\<rparr>, jc_events = doc [], jc_name = doc (path_escape name),
     jc_error = \<lparr>cd_encode = (\<lambda>s. s), cd_decode = (\<lambda>s. (Inr s, TrailingEOF))\<rparr>\<rparr>"

definition api_server :: "string \<Rightarrow> attempt_result list \<times> gerr option \<Rightarrow> unit agent_server" where
  "api_server name shard = \<lparr>sv_runner = Some (api_ops shard), sv_client = None, sv_agentID = ''agent-1'', sv_cellID = ''cell-1'',
     sv_region = [], sv_backend = [], sv_bundleCacheRoot = [], sv_rootFSCacheRoot = [],
     sv_pressure = \<lparr>pressure_disk = [], pressure_memory = []\<rparr>, sv_allowMetadataOnlyRootFS = False, sv_now = None,
     sv_started = None, sv_time_now = (\<lambda>w. (1, w)), sv_walk = (\<lambda>_ _. []), sv_json = api_json name (fst shard)\<rparr>"

definition api_miss :: "agent_route mux_outcome \<Rightarrow> http_response" where
  "api_miss _ = \<lparr>hp_code = 404, hp_status = ''404 Not Found'', hp_body = Inr []\<rparr>"

definition api_env :: "string \<Rightarrow> attempt_result list \<times> gerr option \<Rightarrow> unit server_state http_env" where
  "api_env name shard = \<lparr>he_json = sv_json (api_server name shard),
     he_parse = (\<lambda>_. Inr \<lparr>bu_scheme = ''http'', bu_host = ''agent'', bu_path = ''/''\<rparr>),
     he_new_client = (\<lambda>_. over_server (api_server name shard) api_miss), he_unmarshal_error = Inr\<rparr>"

definition api_client :: "string \<Rightarrow> attempt_result list \<times> gerr option \<Rightarrow> unit server_state agent_client" where
  "api_client name shard = \<lparr>agc_baseURL = ''http://agent/'', agc_httpClient = Some (over_server (api_server name shard) api_miss)\<rparr>"

definition api_state :: "unit server_state" where
  "api_state = \<lparr>sst_cache = \<lparr>bundleCacheBytes = 0, rootFSCacheBytes = 0, bundleCacheEntries = 0, rootFSCacheEntries = 0\<rparr>,
     sst_cacheAt = 0, sst_world = ()\<rparr>"

lemma api_connected: "connected (api_env name shard) (api_client name shard) (api_server name shard) api_miss"
  "reads_errors (api_env name shard)"
  by (simp_all add: connected_def api_env_def api_client_def reads_errors_def trim_right_def api_server_def api_json_def)

lemma api_simps:
  "sv_runner (api_server name shard) = Some (api_ops shard)" "sv_json (api_server name shard) = api_json name (fst shard)"
  "sv_agentID (api_server name shard) = ''agent-1''"
  by (simp_all add: api_server_def)


lemma shard_over_http_witness:
  "fst (client_run_shard (api_env ''box'' ([], None)) (api_client ''box'' ([], None)) CallerCtx api_shard api_state) = Inr []"
proof -
  let ?sv = "api_server ''box'' ([], None)"
  have r: "reads_back (jc_shard (sv_json ?sv)) api_shard" "reads_back (jc_results (sv_json ?sv)) []"
    "executor_run_shard (shard_executor_of ?sv) CallerCtx api_shard (sst_world api_state) = (([], None), ())"
    "lease_agentID (ser_lease api_shard) = sv_agentID ?sv"
    by (simp_all add: api_simps api_json_def executor_run_shard_def shard_executor_of_def api_ops_def api_shard_def
        plan_lease_for_def sample_agent_def)
  show ?thesis
    using shard_over_http [OF api_connected [of "''box''" "([], None)"] r(1,3,2), of CallerCtx] r(4)
    by (simp add: checked_results_def)
qed

lemma lookup_failure_loses_shard_witness:
  "\<exists>e. fst (client_run_shard (api_env ''box'' ([down_result], Some (Opaque ''down''))) (api_client ''box'' ([down_result], Some (Opaque ''down'')))
     CallerCtx api_shard api_state) = Inl e"
proof -
  let ?s = "([down_result], Some (Opaque ''down''))"
  let ?sv = "api_server ''box'' ?s"
  have r: "reads_back (jc_shard (sv_json ?sv)) api_shard" "lease_agentID (ser_lease api_shard) = sv_agentID ?sv"
    "executor_run_shard (shard_executor_of ?sv) CallerCtx api_shard (sst_world api_state) = (([down_result], Some (Opaque ''down'')), ())"
    "reads_back (jc_results (sv_json ?sv)) [down_result]" "err_text (Opaque ''down'') \<noteq> []"
    by (simp_all add: api_simps api_json_def executor_run_shard_def shard_executor_of_def api_ops_def api_shard_def
        plan_lease_for_def sample_agent_def)
  have v: "validate_run_child_request down_runner calm_request = None"
    using calm_valid by (simp add: validate_run_child_request_def down_runner_def calm_runner_def first_err_all)
  have n: "rn_now down_runner () = (1, ())"
    "store_terminal (store_of down_runner) CallerCtx (rch_run calm_request) (rch_childID calm_request) () = (Inl (Opaque ''store down''), ())"
    by (simp_all add: down_runner_def calm_runner_def)
  have m: "fst (fst (run_child down_runner calm_request ())) \<in> set [down_result]" by (simp add: down_result_def)
  show ?thesis
    using lookup_failure_loses_shard [OF api_connected [of "''box''" ?s] r v n m, of CallerCtx] by (auto dest: arg_cong [of _ _ fst])
qed

lemma sandbox_name_sent_witness:
  "path_escape ''my box'' \<noteq> ''my box'' \<and>
   fst (client_remove_sandbox (api_env ''my box'' ([], None)) (api_client ''my box'' ([], None)) CallerCtx ''my box'' api_state) = None"
proof -
  let ?sv = "api_server ''my box'' ([], None)"
  have r: "''my box'' \<notin> {[], ''.'', ''..''}"
    "ao_remove_sandbox (api_ops ([], None)) CallerCtx \<lparr>rvq_name = path_escape ''my box''\<rparr> (sst_world api_state) = (None, ())"
    "\<forall>e. (None :: gerr option) = Some e \<longrightarrow> err_text e \<noteq> []"
    "reads_back (jc_name (sv_json ?sv)) (path_escape ''my box'')"
    "reads_back (jc_exec (sv_json ?sv)) \<lparr>exq_name = [], exq_command = [''ls'']\<rparr>"
    "carried (jc_events (sv_json ?sv)) (fst (ao_exec_sandbox (api_ops ([], None)) CallerCtx
       \<lparr>exq_name = path_escape ''my box'', exq_command = [''ls'']\<rparr> (sst_world api_state)))"
    by (simp_all add: api_simps api_json_def api_ops_def off_def carried_def)
  have s: "\<not> list_all segment_char ''my box''" by code_simp
  show ?thesis
    using sandbox_name_sent [OF api_connected [of "''my box''" "([], None)"] r(1) api_simps(1) r(2-6), of CallerCtx] s
    by simp
qed

lemma cache_status_fresh_witness:
  "scan_at (api_server ''box'' ([], None)) () = Inr (sst_cache api_state)"
proof -
  let ?sv = "api_server ''box'' ([], None)"
  have "cache_calls ?sv [(), ()] api_state ! 1 = Inr (sst_cache api_state)" "sst_cacheAt api_state = 0"
    by (simp_all add: cache_status_of_def on_server_def api_server_def server_now_def status_for_cache_roots_def
        dir_stats_def api_state_def)
  then show ?thesis using cache_status_fresh [of api_state 1 "[(), ()]" ?sv "sst_cache api_state"] by auto
qed

definition seen_file :: "string \<Rightarrow> gerr + int \<Rightarrow> walk_entry" where
  "seen_file path n = \<lparr>we_path = path, we_err = None, we_isDir = False, we_size = n\<rparr>"

lemma scan_loses_count_witness:
  "dir_stats (\<lambda>_. [seen_file ''c/a'' (Inr 4096), seen_file ''c/b'' (Inl (Sentinel OsErrNotExist))]) ''c'' = ((0, 0), None) \<and>
   dir_stats (\<lambda>_. [seen_file ''c/a'' (Inr 4096)]) ''c'' = ((4096, 1), None)"
  using scan_loses_count [of "''c''" "\<lambda>_. [seen_file ''c/a'' (Inr 4096), seen_file ''c/b'' (Inl (Sentinel OsErrNotExist))]"
      "[seen_file ''c/a'' (Inr 4096)]" "seen_file ''c/b'' (Inl (Sentinel OsErrNotExist))" "[]" "Sentinel OsErrNotExist"]
  by (simp add: seen_file_def dir_stats_def wrap64_def)

text \<open>The modelled agent with two slots, whose templates are all ready and whose SporeVM restores.\<close>

definition restored_box :: named_lifecycle_result where
  "restored_box = \<lparr>nlr_schema = lifecycleSchema, nlr_schema_version = 1, nlr_action = ''restored'', nlr_name = ''box'',
     nlr_state = ''ready'', nlr_timing = Some \<lparr>nlt_prepare_ms = 0, nlt_spawn_monitor_ms = 0,
       nlt_wait_exec_ready_ms = 0, nlt_total_ms = 0\<rparr>\<rparr>"

definition box_client :: "unit spore_client" where
  "box_client = calm_client\<lparr>sc_executable := (\<lambda>w. (Inr ''/spore'', w)), sc_restore_named := (\<lambda>_ _ w. (Inr restored_box, w))\<rparr>"

definition box_runner :: "unit runner" where
  "box_runner = ready_runner\<lparr>rn_client := Some box_client\<rparr>"

definition box_agent :: "unit agent_node" where
  "box_agent = \<lparr>an_pool = fresh_pool 2, an_registry = Map.empty, an_node = ready_node\<rparr>"

lemma box_identity: "boot_template_identity box_runner ready_env CallerCtx ready_node = (Inr sample_identity, ready_node)"
  by (simp add: boot_template_identity_def box_runner_def box_client_def ready_runner_def calm_runner_def on_world_def
      ready_node_def new_node_def ready_env_def sample_identity_def same_executable_def)

lemma box_clock: "on_world (rn_now box_runner) nd = (1, nd)"
  by (simp add: box_runner_def ready_runner_def calm_runner_def on_world_def)

lemma box_restores: "on_world (sc_restore_named (the (rn_client box_runner)) ctx q) nd = (Inr restored_box, nd)"
  by (simp add: box_runner_def box_client_def on_world_def)

lemma box_restored_valid: "named_lifecycle_validate_restored restored_box ''box'' = None"
  by (simp add: named_lifecycle_validate_restored_def restored_box_def schemaVersion_def)

lemma box_ensured: "\<exists>st d. ensure_boot_template box_runner ready_env CallerCtx img memory ready_node =
    (Inr (st, d), lease_boot_template d ready_node)"
proof -
  have "boot_template_ready box_runner d w" for d w
    by (simp add: boot_template_ready_def box_runner_def ready_runner_def)
  then show ?thesis by (simp add: ensure_boot_template_def box_identity Let_def)
qed

lemma box_created: "\<exists>resp nd. create_sandbox box_runner ready_env CallerCtx box_request (as_pressure sample_agent)
    (fresh_pool 2, Map.empty, ready_node) = ((resp, None), box_pool, [''box'' \<mapsto> Some 0], nd)"
proof -
  let ?mem = "if scq_memory box_request = [] then interactive_default_memory else scq_memory box_request"
  obtain ts d where e: "ensure_boot_template box_runner ready_env CallerCtx (scq_image box_request) ?mem ready_node =
      (Inr (ts, d), lease_boot_template d ready_node)" using box_ensured by blast
  have n: "scq_name box_request = ''box''" by (simp add: box_request_def)
  show ?thesis
    by (simp add: create_sandbox_def box_clock box_request_valid box_admitted reserve_sandbox_def n create_reserved_def
        e with_defer_def restore_sandbox_def box_restores box_restored_valid activate_sandbox_def Let_def del: if_split)
qed

definition model_ops :: "unit agent_node agent_ops" where
  "model_ops = runner_ops box_runner ready_env \<lparr>ao_run = (\<lambda>_ q _. off q), ao_status = (\<lambda>_. off),
     ao_prepare_bundle = (\<lambda>_. off), ao_prepare_local = (\<lambda>_. off), ao_release_prepared = (\<lambda>_. off),
     ao_run_shard = (\<lambda>_ _ w. (([], None), w)), ao_create_sandbox = (\<lambda>_ q _. off q), ao_exec_sandbox = (\<lambda>_. off),
     ao_remove_sandbox = (\<lambda>_ _ w. (None, w))\<rparr>"

definition box_response :: sandbox_create_response where
  "box_response = projr (fst (ao_create_sandbox model_ops CallerCtx box_request (as_pressure sample_agent) box_agent))"

definition model_server :: "unit agent_node agent_server" where
  "model_server = \<lparr>sv_runner = Some model_ops, sv_client = None, sv_agentID = ''agent-1'', sv_cellID = ''cell-1'',
     sv_region = [], sv_backend = [], sv_bundleCacheRoot = [], sv_rootFSCacheRoot = [],
     sv_pressure = \<lparr>pressure_disk = [], pressure_memory = []\<rparr>, sv_allowMetadataOnlyRootFS = False, sv_now = None,
     sv_started = None, sv_time_now = (\<lambda>w. (1, w)), sv_walk = (\<lambda>_ _. []),
     sv_json = (api_json ''box'' [])\<lparr>jc_created := doc box_response\<rparr>\<rparr>"

definition model_env :: "unit agent_node server_state http_env" where
  "model_env = \<lparr>he_json = sv_json model_server,
     he_parse = (\<lambda>_. Inr \<lparr>bu_scheme = ''http'', bu_host = ''agent'', bu_path = []\<rparr>),
     he_new_client = (\<lambda>_. over_server model_server api_miss), he_unmarshal_error = Inr\<rparr>"

definition model_client :: "unit agent_node server_state agent_client" where
  "model_client = \<lparr>agc_baseURL = ''http://agent'', agc_httpClient = Some (over_server model_server api_miss)\<rparr>"

definition model_state :: "unit agent_node server_state" where
  "model_state = \<lparr>sst_cache = sst_cache api_state, sst_cacheAt = 0, sst_world = box_agent\<rparr>"

lemma model_pressure: "server_pressure model_server = as_pressure sample_agent"
  by (simp add: server_pressure_def model_server_def sample_agent_def PressureNormal_def)

lemma remote_creation_refines_witness:
  "\<exists>err. call_steps (fresh_pool 2, Map.empty, CreateStart box_request)
     (an_pool (sst_world (snd (client_create_sandbox model_env model_client CallerCtx box_request model_state))),
      an_registry (sst_world (snd (client_create_sandbox model_env model_client CallerCtx box_request model_state))), Returned err)"
proof -
  have c: "connected model_env model_client model_server api_miss" "reads_errors model_env"
    "sv_runner model_server = Some (runner_ops box_runner ready_env model_ops)"
    "reads_back (jc_create (sv_json model_server)) box_request"
    by (simp_all add: connected_def model_env_def model_client_def reads_errors_def trim_right_def model_server_def api_json_def
        model_ops_def runner_ops_def)
  obtain resp nd where b: "create_sandbox box_runner ready_env CallerCtx box_request (as_pressure sample_agent)
      (fresh_pool 2, Map.empty, ready_node) = ((resp, None), box_pool, [''box'' \<mapsto> Some 0], nd)" using box_created by blast
  have e: "fst (ao_create_sandbox (runner_ops box_runner ready_env ops) CallerCtx box_request (as_pressure sample_agent) box_agent) = Inr resp"
    for ops by (simp add: runner_ops_def box_agent_def b or_error_def)
  have "box_response = resp" using e by (simp add: box_response_def model_ops_def)
  then have rb: "reads_back (jc_created (sv_json model_server)) resp" by (simp add: model_server_def)
  have w: "sst_world model_state = box_agent" by (simp add: model_state_def)
  have k: "carried (jc_created (sv_json model_server)) (fst (ao_create_sandbox (runner_ops box_runner ready_env model_ops)
      CallerCtx box_request (server_pressure model_server) (sst_world model_state)))"
    using rb by (simp add: carried_def model_pressure w e)
  obtain res st' where r: "client_create_sandbox model_env model_client CallerCtx box_request model_state = (res, st')"
    by fastforce
  show ?thesis using remote_creation_refines [OF c k r] unfolding r snd_conv
    by (simp add: model_state_def box_agent_def) blast
qed

end
