(* ===== verification/CoordinatorClaims.thy ===== *)
theory CoordinatorClaims
  imports CoordinatorMain FleetCalls HttpSamples
begin

text \<open>
  What holds of the coordinator's program: which agent it selects, that a selected agent is the one
  the run is planned on, that a prepared run is released whatever happens, and what its exit
  status says of the children.
\<close>

section \<open>Selecting an agent\<close>

definition offers :: "'w agent_endpoint \<Rightarrow> bool" where
  "offers e \<longleftrightarrow> usable (ep_status e) \<and> 1 \<le> free_slots (ep_status e)"

text \<open>The first of the usable endpoints with the most free slots.\<close>

definition best_endpoint :: "'w agent_endpoint list \<Rightarrow> 'w agent_endpoint \<Rightarrow> bool" where
  "best_endpoint es e \<longleftrightarrow> offers e \<and>
     (\<exists>pre post. es = pre @ e # post \<and>
        (\<forall>x \<in> set pre. usable (ep_status x) \<longrightarrow> free_slots (ep_status x) < free_slots (ep_status e)) \<and>
        (\<forall>x \<in> set post. usable (ep_status x) \<longrightarrow> free_slots (ep_status x) \<le> free_slots (ep_status e)))"

definition can_prepare :: "run \<Rightarrow> 'w agent_endpoint \<Rightarrow> bool" where
  "can_prepare source e \<longleftrightarrow> usable (ep_status e) \<and>
     required_in_flight_slots (rc_count (run_children source)) (run_execution source) \<le>
       min (free_slots (ep_status e)) (maxInFlightPerAgent (run_execution source))"

definition preparing_endpoint :: "run \<Rightarrow> 'w agent_endpoint list \<Rightarrow> 'w agent_endpoint option" where
  "preparing_endpoint source es = (if run_validate source = None then find (can_prepare source) es else None)"

lemma sandbox_loop_eq:
  "sandbox_loop es selected n =
     (let us = filter (\<lambda>e. usable (ep_status e)) es in (if us = [] then selected else Some (last us), n + length us))"
  by (induction es selected n rule: sandbox_loop.induct) (auto simp: Let_def)

lemma run_loop_best:
  assumes "0 \<le> best"
  shows "case run_loop es selected best of (sel, b) \<Rightarrow>
    (if \<exists>x \<in> set es. usable (ep_status x) \<and> best < free_slots (ep_status x)
     then \<exists>e. sel = Some e \<and> b = free_slots (ep_status e) \<and> best < b \<and> best_endpoint es e
     else sel = selected \<and> b = best)"
  using assms
proof (induction es selected best rule: run_loop.induct)
  case (2 e es selected best)
  let ?f = "\<lambda>x. free_slots (ep_status x)"
  have later: "best_endpoint (e # es) x"
    if b: "best_endpoint es x" and u: "usable (ep_status e) \<longrightarrow> ?f e < ?f x" for x
  proof -
    obtain pre post where p: "es = pre @ x # post" "\<forall>y \<in> set pre. usable (ep_status y) \<longrightarrow> ?f y < ?f x"
      "\<forall>y \<in> set post. usable (ep_status y) \<longrightarrow> ?f y \<le> ?f x" using b unfolding best_endpoint_def by blast
    have "e # es = (e # pre) @ x # post" "\<forall>y \<in> set (e # pre). usable (ep_status y) \<longrightarrow> ?f y < ?f x"
      using p u by simp_all
    then show ?thesis using b p(3) unfolding best_endpoint_def by blast
  qed
  have here: "best_endpoint (e # es) e"
    if "offers e" "\<not> (\<exists>x \<in> set es. usable (ep_status x) \<and> ?f e < ?f x)"
    unfolding best_endpoint_def using that by (intro conjI exI [of _ "[]"] exI [of _ es]) auto
  consider (skip) "\<not> usable (ep_status e) \<or> ?f e < 1" | (take) "usable (ep_status e)" "1 \<le> ?f e" "best < ?f e"
    | (keep) "usable (ep_status e)" "1 \<le> ?f e" "?f e \<le> best" by linarith
  then show ?case
  proof cases
    case skip
    then show ?thesis using 2(1) [OF skip 2(4)] 2(4) by (fastforce split: prod.splits if_splits intro: later)
  next
    case take
    then have n: "\<not> (\<not> usable (ep_status e) \<or> ?f e < 1)" by simp
    have o: "offers e" using take by (simp add: offers_def)
    show ?thesis using 2(2) [OF n take(3)] take o by (fastforce split: prod.splits if_splits intro: later here)
  next
    case keep
    then have n: "\<not> (\<not> usable (ep_status e) \<or> ?f e < 1)" "\<not> best < ?f e" by simp_all
    show ?thesis using 2(3) [OF n 2(4)] keep by (fastforce split: prod.splits if_splits intro: later)
  qed
qed simp

lemma prepare_loop_find:
  "case prepare_loop source n es best healthy of
     Inr e \<Rightarrow> find (\<lambda>e. usable (ep_status e) \<and> n \<le> min (free_slots (ep_status e)) (maxInFlightPerAgent (run_execution source))) es = Some e
   | Inl _ \<Rightarrow> find (\<lambda>e. usable (ep_status e) \<and> n \<le> min (free_slots (ep_status e)) (maxInFlightPerAgent (run_execution source))) es = None"
  by (induction source n es best healthy rule: prepare_loop.induct) (auto simp: Let_def split: sum.splits)

lemma select_prepare_cases:
  "case select_prepare_endpoint source es of
     Inr e \<Rightarrow> run_validate source = None \<and> find (can_prepare source) es = Some e
   | Inl _ \<Rightarrow> run_validate source \<noteq> None \<or> find (can_prepare source) es = None"
  using prepare_loop_find [where source = source and n = "required_in_flight_slots (rc_count (run_children source)) (run_execution source)"
      and es = es and best = 0 and healthy = False]
  by (auto simp: select_prepare_endpoint_def can_prepare_def [abs_def] split: option.splits sum.splits)

text \<open>C10: a single run goes to the first usable agent with the most free slots and is refused only when no
  usable agent has one; a sandbox goes to the one usable agent there is, and is refused when there is
  none or more than one; a source is prepared on the first usable agent that can hold the whole run
  at the concurrency it asks for, and is refused only when it is not valid or there is none.\<close>

theorem endpoint_selection:
  "(case select_run_endpoint es of
      Inr e \<Rightarrow> best_endpoint es e | Inl err \<Rightarrow> err = Sentinel ErrNoCompatibleAgents \<and> filter offers es = []) \<and>
   (case select_sandbox_endpoint es of
      Inr e \<Rightarrow> filter (\<lambda>e. usable (ep_status e)) es = [e] | Inl _ \<Rightarrow> length (filter (\<lambda>e. usable (ep_status e)) es) \<noteq> 1) \<and>
   (case select_prepare_endpoint source es of
      Inr e \<Rightarrow> preparing_endpoint source es = Some e | Inl _ \<Rightarrow> preparing_endpoint source es = None)"
proof (intro conjI)
  show "case select_run_endpoint es of
      Inr e \<Rightarrow> best_endpoint es e | Inl err \<Rightarrow> err = Sentinel ErrNoCompatibleAgents \<and> filter offers es = []"
    using run_loop_best [of 0 es None]
    by (auto simp: select_run_endpoint_def offers_def filter_empty_conv split: prod.splits if_splits)
  show "case select_sandbox_endpoint es of
      Inr e \<Rightarrow> filter (\<lambda>e. usable (ep_status e)) es = [e] | Inl _ \<Rightarrow> length (filter (\<lambda>e. usable (ep_status e)) es) \<noteq> 1"
    by (cases "filter (\<lambda>e. usable (ep_status e)) es") (auto simp: select_sandbox_endpoint_def sandbox_loop_eq Let_def)
  show "case select_prepare_endpoint source es of
      Inr e \<Rightarrow> preparing_endpoint source es = Some e | Inl _ \<Rightarrow> preparing_endpoint source es = None"
    using select_prepare_cases [of source es] by (simp add: preparing_endpoint_def split: sum.splits) auto
qed

section \<open>The prepared run fits the agent that prepared it\<close>

definition prepared_status :: "'w agent_endpoint \<Rightarrow> prepared_bundle \<Rightarrow> agent_status" where
  "prepared_status e prepared = (ep_status e)\<lparr>as_hostClass := pb_hostClass prepared\<rparr>"


section \<open>The requests of a source run\<close>

text \<open>The requests made, with their contexts, recorded in order beside the world.\<close>

type_synonym 'w requested = "'w \<times> (go_ctx \<times> http_request) list"

definition logged_http :: "'w http_client \<Rightarrow> 'w requested http_client" where
  "logged_http http ctx q wl = (case http ctx q (fst wl) of (resp, w) \<Rightarrow> (resp, (w, snd wl @ [(ctx, q)])))"

definition is_release :: "go_ctx \<times> http_request \<Rightarrow> bool" where
  "is_release cq \<longleftrightarrow> has_suffix (hq_path (snd cq)) ''/release-prepared''"

text \<open>Some requests, none of them a release.\<close>

definition requests_others :: "'w requested \<Rightarrow> 'w requested \<Rightarrow> bool" where
  "requests_others a b \<longleftrightarrow> (\<exists>tr. snd b = snd a @ tr \<and> filter is_release tr = [])"

lemma others_refl [simp]: "requests_others a a"
  by (simp add: requests_others_def)

lemma others_same: "snd b = snd a \<Longrightarrow> requests_others a b"
  by (simp add: requests_others_def)

lemma others_trans: "requests_others a b \<Longrightarrow> requests_others b c \<Longrightarrow> requests_others a c"
  unfolding requests_others_def by (metis append.assoc append_Nil2 filter_append)

lemma send_requests:
  assumes "agc_httpClient c = Some (logged_http http)"
  shows "snd (snd (client_send meth env c ctx path body out wl)) = snd wl @
    (case client_endpoint env c path of Inl _ \<Rightarrow> []
     | Inr (host, escaped) \<Rightarrow> [(ctx, \<lparr>hq_method = meth, hq_host = host, hq_path = escaped, hq_body = body\<rparr>)])"
  using assms by (auto simp: client_send_def client_do_def logged_http_def Let_def split: sum.splits prod.splits)

lemma endpoint_suffix:
  assumes "client_endpoint env c path = Inr (host, escaped)"
  shows "\<exists>b. escaped = b @ url_escape path_char path"
  using assms by (auto simp: client_endpoint_def split: if_splits sum.splits)

lemma other_paths:
  "url_escape path_char ''/inspect-run-bundle'' = ''/inspect-run-bundle''" "url_escape path_char ''/prepare-local'' = ''/prepare-local''"
  "url_escape path_char ''/prepare-bundle'' = ''/prepare-bundle''" "url_escape path_char ''/run-shard'' = ''/run-shard''"
  "url_escape path_char ''/release-prepared'' = ''/release-prepared''"
  by code_simp+

lemma suffix_last3: "has_suffix (b @ p) q \<Longrightarrow> 3 \<le> length p \<Longrightarrow> 3 \<le> length q \<Longrightarrow> take 3 (rev p) = take 3 (rev q)"
proof -
  assume a: "has_suffix (b @ p) q" "3 \<le> length p" "3 \<le> length q"
  then obtain t where "b @ p = t @ q" by (auto simp: has_suffix_iff)
  then have "rev p @ rev b = rev q @ rev t" by (simp flip: rev_append)
  then have "take 3 (rev p @ rev b) = take 3 (rev q @ rev t)" by simp
  then show ?thesis using a(2,3) by simp
qed

lemma post_others:
  assumes "agc_httpClient c = Some (logged_http http)"
    "p \<in> {''/inspect-run-bundle'', ''/prepare-local'', ''/prepare-bundle'', ''/run-shard''}"
  shows "requests_others wl (snd (post_json env c ctx p cin v out wl))"
proof -
  have "\<not> has_suffix (b @ url_escape path_char p) ''/release-prepared''" for b
    using assms(2) suffix_last3 [of b "url_escape path_char p" "''/release-prepared''"] other_paths by auto
  then show ?thesis
    using send_requests [OF assms(1), of "''POST''" env ctx p "cd_encode cin v" out wl] endpoint_suffix [of env c p]
    by (auto simp: post_json_def requests_others_def is_release_def split: sum.splits)
qed

lemma client_others:
  assumes "agc_httpClient c = Some (logged_http http)"
  shows "requests_others wl (snd (client_inspect_run_bundle env c ctx run wl))"
    "requests_others wl (snd (client_prepare_local env c ctx source wl))"
    "requests_others wl (snd (client_prepare_bundle env c ctx source wl))"
    "requests_others wl (snd (client_executor env c ctx req wl))"
    "requests_others wl (snd (prepared_local_executor env c local ctx req wl))"
proof -
  note post = post_others [OF assms]
  have ex: "requests_others wl (snd (client_executor env c ctx req wl))" for req
    using post [of "''/run-shard''" wl env ctx "jc_shard (he_json env)" req "jc_results (he_json env)"]
    by (auto simp: client_executor_def client_run_shard_def split: prod.splits sum.splits option.splits)
  show "requests_others wl (snd (client_executor env c ctx req wl))"
    "requests_others wl (snd (prepared_local_executor env c local ctx req wl))"
    using ex by (simp_all add: prepared_local_executor_def)
  show "requests_others wl (snd (client_inspect_run_bundle env c ctx run wl))"
    using post [of "''/inspect-run-bundle''" wl env ctx "jc_bundle_run (he_json env)" run "jc_inspection (he_json env)"]
    by (simp add: client_inspect_run_bundle_def)
  show "requests_others wl (snd (client_prepare_local env c ctx source wl))"
    using post [of "''/prepare-local''" wl env ctx "jc_run (he_json env)" source "jc_prepared (he_json env)"]
    by (auto simp: client_prepare_local_def client_prepare_def split: prod.splits sum.splits)
  show "requests_others wl (snd (client_prepare_bundle env c ctx source wl))"
    using post [of "''/prepare-bundle''" wl env ctx "jc_run (he_json env)" source "jc_prepared (he_json env)"]
    by (auto simp: client_prepare_bundle_def client_prepare_def split: prod.splits sum.splits)
qed

text \<open>The clock and the result store make no requests to agents.\<close>

definition quiet_main :: "'w requested main_env \<Rightarrow> 'w requested terminal_result_reader \<Rightarrow> bool" where
  "quiet_main env store \<longleftrightarrow> (\<forall>wl. snd (snd (mn_now env wl)) = snd wl) \<and>
     (\<forall>run child wl. snd (snd (store run child wl)) = snd wl)"

lemma executors_of_one:
  "map_of (endpoint_executors env ctx overrides [e]) a =
     (if a = as_agentID (ep_status e)
      then Some (Some (case map_of overrides a of Some x \<Rightarrow> x | None \<Rightarrow> client_executor (mn_http env) (ep_client e) ctx)) else None)"
  by (simp add: endpoint_executors_def)

lemma run_bundle_others:
  assumes "agc_httpClient (ep_client e) = Some (logged_http http)" "quiet_main env store"
    "\<And>run wl. requests_others wl (snd (inspector run wl))"
    "\<And>a x req wl. map_of overrides a = Some x \<Longrightarrow> requests_others wl (snd (x req wl))"
  shows "requests_others wl (snd (run_bundle env ctx run store [e] (Some inspector) overrides wl))"
proof (cases "new_coordinator (map ep_status [e]) (Some inspector) (Some store) (endpoint_executors env ctx overrides [e]) None
    (mn_now env) (mn_ctx_err env ctx)")
  case (Inl a)
  then show ?thesis by (simp add: run_bundle_def)
next
  case (Inr coordinator)
  have co: "co_now coordinator = mn_now env" "co_inspector coordinator = inspector" "co_terminal coordinator = store"
    "co_executors coordinator = map (\<lambda>(id, x). (id, the x)) (endpoint_executors env ctx overrides [e])"
    using Inr by (auto simp: new_coordinator_def split: if_splits)
  have x: "requests_others wl (snd (x req wl))" if "map_of (co_executors coordinator) a = Some x" for a x req wl
    using that assms(4) client_others(4) [OF assms(1), of wl "mn_http env" ctx req]
    unfolding co by (auto simp: endpoint_executors_def split: if_splits option.splits)
  have "coordinator_calls coordinator requests_others"
    using assms(2,3) x by unfold_locales (auto simp: co quiet_main_def intro: others_same others_trans)
  from coordinator_calls.run_moves [OF this, of wl run] show ?thesis using Inr by (simp add: run_bundle_def)
qed

lemma run_on_endpoint_others:
  assumes "agc_httpClient (ep_client e) = Some (logged_http http)" "quiet_main env store"
  shows "requests_others wl (snd (run_on_endpoint env ctx source store e wl))"
proof -
  let ?local = "maxAttemptsPerChild (run_retryPolicy source) = 1"
  have prepared: "requests_others wl (snd (run_prepared env ctx source store e ?local prepared wl))" for prepared wl
  proof (cases "run_compile source prepared")
    case (Inr run)
    let ?e = "e\<lparr>ep_status := (ep_status e)\<lparr>as_hostClass := pb_hostClass prepared\<rparr>\<rparr>"
    let ?ins = "if ?local then prepared_local_inspector prepared else client_inspect_run_bundle (mn_http env) (ep_client ?e) ctx"
    let ?ov = "case pb_local prepared of None \<Rightarrow> [] | Some local \<Rightarrow> if local_childrenDir local \<noteq> []
      then [(as_agentID (ep_status ?e), prepared_local_executor (mn_http env) (ep_client ?e) local ctx)] else []"
    have "requests_others wl (snd (run_bundle env ctx run store [?e] (Some ?ins) ?ov wl))"
      using assms client_others [OF assms(1)]
      by (intro run_bundle_others) (auto simp: prepared_local_inspector_def split: option.splits if_splits)
    then show ?thesis using Inr by (simp add: run_prepared_def Let_def case_prod_unfold del: if_split)
  qed (simp add: run_prepared_def)
  obtain res w1 where p: "(if ?local then client_prepare_local (mn_http env) (ep_client e) ctx source wl
      else client_prepare_bundle (mn_http env) (ep_client e) ctx source wl) = (res, w1)" by (metis prod.collapse)
  have m: "requests_others wl w1"
    using p client_others(2,3) [OF assms(1), of wl "mn_http env" ctx source] by (auto split: if_splits)
  show ?thesis
    by (cases res) (simp_all add: run_on_endpoint_def p m others_trans [OF m prepared])
qed

text \<open>C4: once an agent has been selected, a source run ends with one request to release the prepared run,
  made to that agent, in a context that the run's own cancellation does not end, after every other
  request and whatever became of them; no other request is a release, and the run reports no error
  only when the release succeeded. When no agent is selected no request is made.\<close>

theorem source_released:
  assumes "quiet_main env store" "\<And>e. e \<in> set es \<Longrightarrow> agc_httpClient (ep_client e) = Some (logged_http http)"
    "run_from_source env ctx source store es wl = ((report, err), wl')"
  shows "case select_prepare_endpoint source es of
      Inl e \<Rightarrow> err = Some e \<and> wl' = wl
    | Inr e \<Rightarrow> \<exists>w1. requests_others wl w1 \<and>
        (case client_endpoint (mn_http env) (ep_client e) ''/release-prepared'' of
           Inl _ \<Rightarrow> err \<noteq> None
         | Inr (host, path) \<Rightarrow> snd wl' = snd w1 @ [(release_context ctx, \<lparr>hq_method = ''POST'', hq_host = host, hq_path = path,
             hq_body = cd_encode (jc_run (he_json (mn_http env))) source\<rparr>)]) \<and>
        (err = None \<longrightarrow> (\<exists>cleanup. client_release_prepared (mn_http env) (ep_client e) (release_context ctx) source w1 = (Inr cleanup, wl')))"
proof (cases "select_prepare_endpoint source es")
  case (Inl e)
  then show ?thesis using assms(3) by (simp add: run_from_source_def)
next
  case (Inr e)
  let ?c = "ep_client e" and ?env = "mn_http env"
  have "e \<in> set es" using select_prepare_cases [of source es] Inr by (auto simp: find_Some_iff)
  then have h: "agc_httpClient ?c = Some (logged_http http)" by (rule assms(2))
  obtain report1 err1 w1 where r: "run_on_endpoint env ctx source store e wl = ((report1, err1), w1)" by (metis prod.collapse)
  have o: "requests_others wl w1" using run_on_endpoint_others [OF h assms(1), of wl ctx source] r by simp
  obtain rel w2 where rel: "client_release_prepared ?env ?c (release_context ctx) source w1 = (rel, w2)" by (meson surj_pair)
  have w2: "wl' = w2" "err = (case rel of Inl ce \<Rightarrow> errors_join [err1, Some (Wrap (''release prepared run '' @ run_runID source @ '': '') ce [])]
      | Inr _ \<Rightarrow> err1)"
    using assms(3) Inr r rel by (auto simp: run_from_source_def split: sum.splits)
  have send: "snd (snd (client_send ''POST'' ?env ?c (release_context ctx) ''/release-prepared''
      (cd_encode (jc_run (he_json ?env)) source) (jc_cleanup (he_json ?env)) w1)) = snd w2"
    using rel by (auto simp: client_release_prepared_def post_json_def split: prod.splits sum.splits if_splits)
  have failed: "errors_join [err1, Some x] \<noteq> None" for x by (simp add: errors_join_def split: option.splits)
  show ?thesis unfolding Inr sum.case
  proof (intro exI [of _ w1] conjI o)
    show "case client_endpoint ?env ?c ''/release-prepared'' of Inl _ \<Rightarrow> err \<noteq> None
      | Inr (host, path) \<Rightarrow> snd wl' = snd w1 @ [(release_context ctx, \<lparr>hq_method = ''POST'', hq_host = host, hq_path = path,
          hq_body = cd_encode (jc_run (he_json ?env)) source\<rparr>)]"
    proof (cases "client_endpoint ?env ?c ''/release-prepared''")
      case (Inl ce)
      then have "rel = Inl ce" using rel by (simp add: client_release_prepared_def post_json_def client_send_def)
      then show ?thesis using Inl w2(2) failed by simp
    next
      case reached: (Inr hp)
      then show ?thesis using send w2(1) send_requests [OF h, of "''POST''" ?env "release_context ctx" "''/release-prepared''"
          "cd_encode (jc_run (he_json ?env)) source" "jc_cleanup (he_json ?env)" w1] by (cases hp) simp
    qed
    show "err = None \<longrightarrow> (\<exists>cleanup. client_release_prepared ?env ?c (release_context ctx) source w1 = (Inr cleanup, wl'))"
      using w2 rel failed by (cases rel) simp_all
  qed
qed

section \<open>The exit status\<close>

lemma finish_run_None:
  assumes "finish_run env report runErr w = (None, w')"
  shows "runErr = None \<and> mn_print env report w = (None, w') \<and> has_runtime_report report \<and> runtime_report_error report = None"
  using assms by (auto simp: finish_run_def split: if_splits option.splits prod.splits)

text \<open>A coordinator run that ends without an error has a summary of its run.\<close>

lemma coordinator_reports:
  assumes "coordinator_run env run w = ((report, None), w')"
  shows "rs_runID (rr_summary report) = br_runID run \<and> br_runID run \<noteq> [] \<and>
    (rs_state (rr_summary report) = ''succeeded'' \<or> rs_state (rr_summary report) = ''failed'')"
  using assms
proof (cases rule: coordinator_run_cases)
  case (executed t0 w0 insp w1 p s w2 t3)
  have "st_run s = run" using run_lease_grows [OF executed(6)] by (simp add: state_grows_def new_runtime_state_def)
  moreover have "id_pattern (br_runID run)" using executed(2) by (simp add: bundle_run_validate_None)
  ultimately show ?thesis
    using executed(9) by (auto simp: runtime_state_summary_def lease_ended_def Let_def id_pattern_def)
qed simp

lemma run_bundle_reports:
  assumes "run_bundle env ctx run store es inspector overrides w = ((report, None), w')"
  shows "\<exists>coordinator. coordinator_run coordinator run w = ((report, None), w')"
  using assms by (auto simp: run_bundle_def split: if_splits sum.splits)

text \<open>What a report that is printed by a program that exits with success entails for its run.\<close>

definition run_completed :: "bundle_run \<Rightarrow> runtime_report \<Rightarrow> bool" where
  "run_completed run report \<longleftrightarrow> rs_state (rr_summary report) = ''succeeded'' \<and> rs_runID (rr_summary report) = br_runID run \<and>
     (\<exists>st. st_run st = run \<and> st_platformMismatches st = 0 \<and>
        known_children st = {range_start (br_children run) ..< range_start (br_children run) + range_count (br_children run)} \<and>
        (\<forall>(c, r) \<in> set (st_terminal st). ar_status r \<noteq> AttemptFailed))"

lemma coordinator_completed:
  assumes "coordinator_run env run w = ((report, None), w')" "runtime_report_error report = None"
    "range_start (br_children run) + range_count (br_children run) < 2 ^ 63"
  shows "run_completed run report"
proof -
  note r = coordinator_reports [OF assms(1)]
  then have succ: "rs_state (rr_summary report) = ''succeeded''"
    using assms(2) by (auto simp: runtime_report_error_def Let_def split: if_splits)
  obtain t0 w1 s w2 where s: "run_lease env run (plan_lease (rr_plan report)) (new_runtime_state run (rr_plan report) t0) w1 = (None, s, w2)"
    "known_children s = {range_start (br_children run) ..< range_start (br_children run) + range_count (br_children run)}"
    "\<forall>(c, r) \<in> set (st_terminal s). ar_status r \<noteq> AttemptFailed" "st_platformMismatches s = 0"
    using succeeded_complete [OF assms(1) succ assms(3)] by blast
  have "st_run s = run" using run_lease_grows [OF s(1)] by (simp add: state_grows_def new_runtime_state_def)
  then show ?thesis using s succ r unfolding run_completed_def by blast
qed

lemma run_report_cases:
  assumes "(case x of ((r, err), w1) \<Rightarrow> ((f r, err), w1)) = ((report, None), w')"
  shows "\<exists>r. x = ((r, None), w') \<and> report = f r"
  using assms by (auto split: prod.splits)

lemma run_prepared_reports:
  assumes "run_prepared env ctx source store e local prepared w = ((report, None), w')"
  shows "\<exists>run rep coordinator. run_compile source prepared = Inr run \<and>
    coordinator_run coordinator run w = ((rep, None), w') \<and> rr_summary report = rr_summary rep"
proof (cases "run_compile source prepared")
  case (Inr run)
  from run_report_cases [OF assms [unfolded run_prepared_def Inr sum.case Let_def]]
  obtain es ins ov rep where "run_bundle env ctx run store es ins ov w = ((rep, None), w')" "rr_summary report = rr_summary rep"
    by (elim exE conjE, intro that) (assumption, simp)
  moreover from run_bundle_reports [OF this(1)]
  obtain coordinator where "coordinator_run coordinator run w = ((rep, None), w')" ..
  ultimately show ?thesis using Inr by blast
qed (use assms in \<open>simp add: run_prepared_def\<close>)

lemma run_from_source_reports:
  fixes w :: 'w
  assumes "run_from_source env ctx source store es w = ((report, None), w')"
  obtains prepared run report1 coordinator and w1 w2 :: 'w where "run_compile source prepared = Inr run"
    "coordinator_run coordinator run w1 = ((report1, None), w2)" "rr_summary report = rr_summary report1"
proof -
  obtain e where e: "select_prepare_endpoint source es = Inr e"
    using assms by (auto simp: run_from_source_def split: sum.splits)
  obtain report1 err1 w1 where r: "run_on_endpoint env ctx source store e w = ((report1, err1), w1)" by (metis prod.collapse)
  have failed: "errors_join [err1, Some x] \<noteq> None" for x by (simp add: errors_join_def split: option.splits)
  obtain rel w2 where rel: "client_release_prepared (mn_http env) (ep_client e) (release_context ctx) source w1 = (rel, w2)"
    by (meson surj_pair)
  have "report1 = report" "err1 = None"
    using assms e r rel failed by (auto simp: run_from_source_def split: sum.splits)
  then have r: "run_on_endpoint env ctx source store e w = ((report, None), w1)" using r by simp
  then obtain prepared w0 where p: "run_prepared env ctx source store e (maxAttemptsPerChild (run_retryPolicy source) = 1) prepared w0 =
      ((report, None), w1)" by (auto simp: run_on_endpoint_def Let_def split: sum.splits prod.splits)
  from run_prepared_reports [OF p] show ?thesis using that by blast
qed


end
