(* ===== verification/CoordinatorSamples.thy ===== *)
theory CoordinatorSamples
  imports CoordinatorClaims
begin

text \<open>
  A concrete coordinator at which the theorems about its program apply: one agent that prepares and
  releases a run of one child, and a result store that has the child's result.
\<close>

definition main_run :: run where
  "main_run = overflow_run\<lparr>run_children := \<lparr>rc_start = 0, rc_count = 1, rc_command = [''true'']\<rparr>\<rparr>"

definition main_prepared :: prepared_bundle where
  "main_prepared = \<lparr>pb_bundle = \<lparr>bundle_uri = ''file:///b'', bundle_digest = sample_digest\<rparr>, pb_childCount = 1,
     pb_hostClass = sample_host, pb_local = None, pb_timingsMS = zero_prepare_timings\<rparr>"

definition main_bundle_run :: bundle_run where
  "main_bundle_run = \<lparr>br_runID = ''run-1'', br_bundle = pb_bundle main_prepared, br_children = \<lparr>range_start = 0, range_count = 1\<rparr>,
     br_childCommand = [''true''], br_hostClass = sample_host, br_execution = \<lparr>maxInFlightPerAgent = 1\<rparr>,
     br_retryPolicy = \<lparr>maxAttemptsPerChild = 1, rerunCommittedChildren = False\<rparr>,
     br_sideEffects = \<lparr>idempotencyRequired = True\<rparr>, br_resultStore = ''s3://b/p/''\<rparr>"

lemma main_run_valid: "run_validate main_run = None"
  by (simp add: run_validate_None prepare_validate_None main_run_def overflow_run_def
      sample_store_valid sample_id_valid range_end_def in64_def)

lemma main_compiles: "run_compile main_run main_prepared = Inr main_bundle_run"
  unfolding run_compile_exact using main_run_valid
  by (simp add: main_prepared_def main_bundle_run_def main_run_def overflow_run_def run_children_range_def range_end_def in64_def)

text \<open>An agent that answers every request.\<close>

definition main_http :: "'w http_client" where
  "main_http ctx q w = (Inr \<lparr>hp_code = 200, hp_status = ''200 OK'', hp_body = Inr ''d''\<rparr>, w)"

definition main_json :: agent_codecs where
  "main_json = (api_json ''box'' [])\<lparr>jc_prepared := doc main_prepared,
     jc_cleanup := doc \<lparr>prc_runID = ''run-1'', prc_removedChildren = 1\<rparr>\<rparr>"

definition main_http_env :: "'w http_env" where
  "main_http_env = \<lparr>he_json = main_json, he_parse = (\<lambda>_. Inr \<lparr>bu_scheme = ''http'', bu_host = ''agent'', bu_path = []\<rparr>),
     he_new_client = (\<lambda>_. main_http), he_unmarshal_error = Inr\<rparr>"

definition main_store :: "'w terminal_result_reader" where
  "main_store run child w = (Inr (Some sample_result), w)"

definition sample_main :: "'w main_env" where
  "sample_main = \<lparr>mn_http = main_http_env, mn_new_http = main_http, mn_now = (\<lambda>w. (1, w)), mn_ctx_err = (\<lambda>_ _. None),
     mn_read_file = (\<lambda>_ _. Inr ''d''), mn_json_run = (\<lambda>_. (Inr main_run, TrailingEOF)),
     mn_json_bundle_run = (\<lambda>_. (Inr main_bundle_run, TrailingEOF)), mn_load_s3 = (\<lambda>_ _ _. Inl (Opaque ''none'')),
     mn_local = (\<lambda>_ _. main_store), mn_print = (\<lambda>_ w. (None, w))\<rparr>"

definition main_endpoint :: "'w http_client \<Rightarrow> 'w agent_endpoint" where
  "main_endpoint http = \<lparr>ep_url = ''http://agent'', ep_client = \<lparr>agc_baseURL = ''http://agent'', agc_httpClient = Some http\<rparr>,
     ep_status = sample_agent\<rparr>"

lemma main_usable: "usable sample_agent" "free_slots sample_agent = 2"
  by (simp_all add: usable_def free_slots_def sample_agent_def pressure_is_critical_def pressure_level_defs)

lemma main_run_simps: "rc_count (run_children main_run) = 1" "run_execution main_run = \<lparr>maxInFlightPerAgent = 1\<rparr>"
  "maxAttemptsPerChild (run_retryPolicy main_run) = 1" "run_runID main_run = ''run-1''" "rc_start (run_children main_run) = 0"
  by (simp_all add: main_run_def overflow_run_def)

lemma main_selected: "select_prepare_endpoint main_run [main_endpoint http] = Inr (main_endpoint http)"
  by (simp add: select_prepare_endpoint_def main_run_valid main_run_simps main_endpoint_def main_usable required_in_flight_slots_def Let_def)


section \<open>A failing agent is released\<close>

definition broken_http :: "unit requested http_client" where
  "broken_http = logged_http (\<lambda>_ _ w. (Inl (Opaque ''down''), w))"

theorem source_released_witness:
  "\<exists>tr path. snd (snd (run_from_source sample_main CallerCtx main_run main_store [main_endpoint broken_http] ((), []))) =
     tr @ [(release_context CallerCtx, \<lparr>hq_method = ''POST'', hq_host = ''http://agent'', hq_path = path, hq_body = ''d''\<rparr>)]"
proof -
  have q: "quiet_main sample_main main_store" by (simp add: quiet_main_def sample_main_def main_store_def)
  have h: "agc_httpClient (ep_client e) = Some (logged_http (\<lambda>_ _ w. (Inl (Opaque ''down''), w)))"
    if "e \<in> set [main_endpoint broken_http]" for e
    using that by (simp add: main_endpoint_def broken_http_def)
  obtain report err wl' where r: "run_from_source sample_main CallerCtx main_run main_store [main_endpoint broken_http] ((), []) = ((report, err), wl')"
    by (metis prod.collapse)
  have c: "\<exists>path. client_endpoint (mn_http sample_main) (ep_client (main_endpoint broken_http)) ''/release-prepared'' = Inr (''http://agent'', path)"
    by (simp add: client_endpoint_def sample_main_def main_http_env_def main_endpoint_def)
  show ?thesis using source_released [OF q h r] c unfolding main_selected r
    by (auto simp: sample_main_def main_http_env_def main_json_def api_json_def doc_def)
qed

section \<open>A run that exits with success\<close>

lemma main_send: "client_send meth main_http_env (ep_client (main_endpoint main_http)) ctx path body (doc v) w = (Inr v, w)"
  by (simp add: client_send_def client_endpoint_def client_do_def main_endpoint_def main_http_env_def main_http_def Let_def
      decode_strict_def doc_def)

definition main_config :: "unit coordinator_config" where
  "main_config = \<lparr>cc_runPath = ''/run.json'', cc_bundleRunPath = [],
     cc_listen = [], cc_resultStore = \<lparr>rsc_backend = [], rsc_localRoot = ''/results'', rsc_region = [], rsc_endpoint = [],
       rsc_usePathStyle = False\<rparr>, cc_timeout = 1, cc_agentURLs = [''http://agent''], cc_httpClient = Some main_http\<rparr>"

lemma main_discovered:
  "discover_agent_endpoints sample_main ctx [''http://agent''] (Some main_http) w = (Inr [main_endpoint main_http], w)"
proof -
  have "client_status main_http_env \<lparr>agc_baseURL = ''http://agent'', agc_httpClient = Some main_http\<rparr> c w = (Inr sample_agent, w)" for c
    using main_send [of "''GET''" c "''/status''" "[]" sample_agent w]
    by (simp add: client_status_def get_json_def main_endpoint_def main_http_env_def main_json_def api_json_def)
  then show ?thesis by (simp add: discover_agent_endpoints_def Let_def main_endpoint_def) (simp add: sample_main_def)
qed

lemma main_endpoint_prepared:
  "(main_endpoint http)\<lparr>ep_status := (ep_status (main_endpoint http))\<lparr>as_hostClass := pb_hostClass main_prepared\<rparr>\<rparr> = main_endpoint http"
  by (simp add: main_endpoint_def main_prepared_def) (simp add: sample_agent_def)

definition main_coordinator :: "go_ctx \<Rightarrow> 'w coordinator_env" where
  "main_coordinator ctx = \<lparr>co_agents = [sample_agent], co_inspector = prepared_local_inspector main_prepared, co_terminal = main_store,
     co_executors = [(''agent-1'', client_executor main_http_env (ep_client (main_endpoint main_http)) ctx)],
     co_now = (\<lambda>w. (1, w)), co_ctx_err = (\<lambda>_. None)\<rparr>"

lemma main_coordinator_simps:
  "map_of (co_executors (main_coordinator ctx)) ''agent-1'' =
     Some (client_executor main_http_env (ep_client (main_endpoint main_http)) ctx)" "co_ctx_err (main_coordinator ctx) w = None"
  by (simp_all add: main_coordinator_def)

lemma main_bundle_eq:
  "run_bundle sample_main ctx main_bundle_run main_store [main_endpoint main_http]
     (Some (prepared_local_inspector main_prepared)) [] w = coordinator_run (main_coordinator ctx) main_bundle_run w"
proof -
  have m: "mn_http sample_main = main_http_env" "mn_ctx_err sample_main = (\<lambda>_ _. None)" "mn_now sample_main = (\<lambda>w. (1, w))" if "w = w" for w :: 'a
    by (simp_all add: sample_main_def)
  show ?thesis
    by (simp add: run_bundle_def new_coordinator_def endpoint_executors_def m main_coordinator_def main_endpoint_def)
      (simp add: sample_agent_def)
qed

definition main_lease :: shard_lease where
  "main_lease = plan_lease_for main_bundle_run sample_agent"

lemma main_planned: "\<exists>p. build_single_agent_sequential_plan main_bundle_run [sample_agent] = (p, None) \<and> plan_lease p = main_lease"
proof -
  have v: "bundle_run_validate main_bundle_run = None" using main_compiles by (auto simp: run_compile_def Let_def split: option.splits)
  have "eligible_agent main_bundle_run sample_agent"
    by (simp add: eligible_agent_def compatible_agent_def agent_room_def required_in_flight_slots_def
        main_bundle_run_def sample_agent_def pressure_is_critical_def pressure_level_defs)
  then have "chosen_agent main_bundle_run [sample_agent] = Some sample_agent" by (simp add: chosen_agent_def)
  then show ?thesis using plan_of_chosen [OF v, of "[sample_agent]"] unfolding main_lease_def
    by (cases "build_single_agent_sequential_plan main_bundle_run [sample_agent]") simp
qed

lemma main_run_lease:
  "run_lease (main_coordinator ctx) main_bundle_run main_lease s w = (None, record_existing_terminal s 0 sample_result, w)"
proof -
  have "[lease_childStart main_lease .. range_end (lease_range main_lease) - 1] = [0]"
    by (simp add: main_lease_def plan_lease_for_def main_bundle_run_def lease_range_def range_end_def in64_def)
  then have p: "lease_has_pending_children (main_coordinator ctx) main_bundle_run main_lease s w =
      (Inr False, record_existing_terminal s 0 sample_result, w)"
    by (simp add: lease_has_pending_children_def main_coordinator_def main_store_def record_existing_terminal_def terminal_known_def)
  have "lease_agentID main_lease = ''agent-1''" "lease_attemptBudget main_lease = 1"
    by (simp_all add: main_lease_def plan_lease_for_def main_bundle_run_def sample_agent_def)
  then show ?thesis
    by (simp add: run_lease_def lease_loop.simps [of _ _ _ _ 1] lease_attempt_def p main_coordinator_simps)
qed

lemma main_summary:
  assumes "s = record_existing_terminal (new_runtime_state main_bundle_run p t) 0 sample_result"
  shows "rs_state (runtime_state_summary s t' None) = ''succeeded''" "rs_runID (runtime_state_summary s t' None) = ''run-1''"
  using assms by (simp_all add: summary_succeeded record_existing_terminal_def terminal_known_def new_runtime_state_def sample_result_def
      attempt_status_defs count_status_def) (simp_all add: main_bundle_run_def runtime_state_summary_def Let_def)

lemma main_coordinator_run:
  "\<exists>report. coordinator_run (main_coordinator ctx) main_bundle_run w = ((report, None), w) \<and>
     rs_state (rr_summary report) = ''succeeded'' \<and> rs_runID (rr_summary report) = ''run-1''"
proof -
  obtain p where p: "build_single_agent_sequential_plan main_bundle_run [sample_agent] = (p, None)" "plan_lease p = main_lease"
    using main_planned by blast
  have i: "co_inspector (main_coordinator ctx) main_bundle_run w =
      (Inr \<lparr>bi_bundleDigest = sample_digest, bi_childCount = 1, bi_hostClass = sample_host\<rparr>, w)"
    "bundle_inspection_validate \<lparr>bi_bundleDigest = sample_digest, bi_childCount = 1, bi_hostClass = sample_host\<rparr> main_bundle_run = None"
    by (simp_all add: main_coordinator_def prepared_local_inspector_def main_prepared_def main_bundle_run_def
        bundle_inspection_validate_def range_end_def in64_def host_class_equal_def)
  have v: "bundle_run_validate main_bundle_run = None" using main_compiles by (auto simp: run_compile_def Let_def split: option.splits)
  have e: "co_now (main_coordinator ctx) w = (1, w)" "co_agents (main_coordinator ctx) = [sample_agent]"
    by (simp_all add: main_coordinator_def)
  show ?thesis by (simp add: coordinator_run_def e i v p main_run_lease main_summary Let_def)
qed

lemma main_source_run:
  "\<exists>report. run_from_source sample_main ctx main_run main_store [main_endpoint main_http] w = ((report, None), w) \<and>
     rs_state (rr_summary report) = ''succeeded'' \<and> rs_runID (rr_summary report) = ''run-1''"
proof -
  have m: "mn_http sample_main = main_http_env" "he_json main_http_env = main_json" "jc_prepared main_json = doc main_prepared"
    "jc_cleanup main_json = doc \<lparr>prc_runID = ''run-1'', prc_removedChildren = 1\<rparr>" "mn_ctx_err sample_main = (\<lambda>_ _. None)"
    "mn_now sample_main = (\<lambda>w. (1, w))"
    by (simp_all add: sample_main_def main_http_env_def main_json_def)
  have prep: "client_prepare_local main_http_env (ep_client (main_endpoint main_http)) ctx main_run w = (Inr main_prepared, w)"
    by (simp add: client_prepare_local_def client_prepare_def post_json_def m main_send main_compiles)
  have rel: "client_release_prepared main_http_env (ep_client (main_endpoint main_http)) c main_run w =
      (Inr \<lparr>prc_runID = ''run-1'', prc_removedChildren = 1\<rparr>, w)" for c
    by (simp add: client_release_prepared_def post_json_def m main_send main_run_simps)
  obtain report where r: "coordinator_run (main_coordinator ctx) main_bundle_run w = ((report, None), w)"
    "rs_state (rr_summary report) = ''succeeded''" "rs_runID (rr_summary report) = ''run-1''" using main_coordinator_run [of ctx w] by (elim exE conjE)
  have l: "pb_local main_prepared = None" by (simp add: main_prepared_def)
  show ?thesis
    by (simp add: run_from_source_def main_selected run_on_endpoint_def m main_run_simps prep run_prepared_def main_compiles
        main_endpoint_prepared l main_bundle_eq r rel Let_def)
qed

lemma main_stored:
  "new_result_store (mn_load_s3 sample_main) (cc_resultStore main_config) = Inr (LocalStore \<lparr>ls_root = ''/results''\<rparr>)"
  "store_reader sample_main ctx (LocalStore x) = main_store"
  by (simp_all add: new_result_store_def main_config_def new_local_result_store_def store_reader_def sample_main_def)

lemma main_config_simps:
  "cc_runPath main_config = ''/run.json''" "cc_agentURLs main_config = [''http://agent'']" "cc_timeout main_config = 1"
  "cc_bundleRunPath main_config = []" "cc_httpClient main_config = Some main_http"
  by (simp_all add: main_config_def)

lemma main_read: "read_run sample_main ''/run.json'' w = Inr main_run"
  by (simp add: read_run_def sample_main_def decode_run_def decode_one_def main_run_valid)

lemma main_exits: "run_coordinator sample_main CallerCtx main_config () = (None, ())"
proof -
  obtain report where r: "run_from_source sample_main (WithTimeout 1 CallerCtx) main_run main_store [main_endpoint main_http] () = ((report, None), ())"
    "rs_state (rr_summary report) = ''succeeded''" "rs_runID (rr_summary report) = ''run-1''" using main_source_run [of "WithTimeout 1 CallerCtx" "()"] by (elim exE conjE)
  have "mn_print sample_main report () = (None, ())" by (simp add: sample_main_def)
  then have f: "finish_run sample_main report None () = (None, ())"
    using r by (simp add: finish_run_def has_runtime_report_def runtime_report_error_def Let_def)
  show ?thesis
    by (simp add: run_coordinator_def main_config_simps main_read main_stored main_discovered r(1) f Let_def)
qed


end
