(* ===== verification/CommandClient.thy ===== *)
theory CommandClient
  imports Node
begin

text \<open>
  \<open>internal/agent/command_client.go\<close>: the SporeVM client that starts the \<open>spore\<close> command line, one
  process per call, and reads what it prints. The operating system's processes, the lookup of a
  program in \<open>PATH\<close> and JSON decoding are arguments. A value that the code returns beside an error is
  left out where every caller drops it.
\<close>

section \<open>Processes\<close>

text \<open>What \<open>exec.Cmd\<close> is given; an absent environment is the agent's own.\<close>

record exec_command =
  xc_path :: string
  xc_dir :: string
  xc_env :: "string list option"
  xc_args :: "string list"

text \<open>How a \<open>ReadBytes\<close> of a line ended.\<close>

datatype read_end = LineRead | EndOfOutput | ReadFailed gerr

record 'w process =
  pr_line :: "'w \<Rightarrow> (string \<times> read_end) \<times> 'w"
  pr_stderr :: "'w \<Rightarrow> (string \<times> gerr option) \<times> 'w"
  pr_signal :: "string \<Rightarrow> 'w \<Rightarrow> gerr option \<times> 'w"
  pr_wait :: "'w \<Rightarrow> gerr option \<times> 'w"

record 'w process_env =
  px_look_path :: "string \<Rightarrow> 'w \<Rightarrow> (gerr + string) \<times> 'w"
  px_run :: "go_ctx \<Rightarrow> exec_command \<Rightarrow> 'w \<Rightarrow> (string \<times> string \<times> gerr option) \<times> 'w"
  px_pipes :: "exec_command \<Rightarrow> 'w \<Rightarrow> gerr option \<times> 'w"
  px_start :: "go_ctx \<Rightarrow> exec_command \<Rightarrow> 'w \<Rightarrow> (gerr + 'w process) \<times> 'w"
  px_ctx_err :: "go_ctx \<Rightarrow> 'w \<Rightarrow> gerr option"
  px_json_version :: "string \<Rightarrow> (string + version_result) \<times> trailing"
  px_json_host_info :: "string \<Rightarrow> (string + host_info) \<times> trailing"
  px_json_inspect :: "string \<Rightarrow> (string + inspect_bundle_result) \<times> trailing"
  px_json_pull :: "string \<Rightarrow> (string + pull_result) \<times> trailing"
  px_json_restored :: "string \<Rightarrow> (string + named_lifecycle_result) \<times> trailing"
  px_json_removed :: "string \<Rightarrow> (string + removed_saved_spore_result) \<times> trailing"
  px_json_gc :: "string \<Rightarrow> (string + cache_gc_result) \<times> trailing"
  px_json_events :: "string \<Rightarrow> (string + run_event) list"
  px_json_event :: "string \<Rightarrow> run_event option"
  px_json_error :: "string \<Rightarrow> machine_error_envelope option"

record command_client =
  cmc_path :: string
  cmc_dir :: string
  cmc_env :: "string list option"

text \<open>\<open>Executable\<close>.\<close>

definition cc_executable :: "'w process_env \<Rightarrow> command_client \<Rightarrow> 'w \<Rightarrow> (gerr + string) \<times> 'w" where
  "cc_executable env c w =
     (let path = (if cmc_path c = [] then ''spore'' else cmc_path c) in
      if CHR ''/'' \<notin> set path then px_look_path env path w
      else if \<not> is_abs path \<and> cmc_dir c \<noteq> [] then (Inr (path_join [cmc_dir c, path]), w)
      else (Inr path, w))"

definition cc_command :: "command_client \<Rightarrow> string list \<Rightarrow> exec_command" where
  "cc_command c args = \<lparr>xc_path = (if cmc_path c = [] then ''spore'' else cmc_path c), xc_dir = cmc_dir c,
     xc_env = cmc_env c, xc_args = args\<rparr>"

text \<open>\<open>run\<close>.\<close>

definition cc_run :: "'w process_env \<Rightarrow> command_client \<Rightarrow> go_ctx \<Rightarrow> string list \<Rightarrow> 'w
    \<Rightarrow> (string \<times> string \<times> gerr option) \<times> 'w" where
  "cc_run env c ctx args w =
     (case px_run env ctx (cc_command c args) w of
        ((out, errs, None), w1) \<Rightarrow> ((out, errs, None), w1)
      | ((out, errs, Some e), w1) \<Rightarrow>
          (case px_ctx_err env ctx w1 of
             None \<Rightarrow> ((out, errs, Some e), w1)
           | Some ctxErr \<Rightarrow> ((out, errs, errors_join [Some e, Some ctxErr]), w1)))"

section \<open>Errors of a command\<close>

definition machine_error_from_stderr :: "'w process_env \<Rightarrow> string \<Rightarrow> gerr option" where
  "machine_error_from_stderr env errs =
     (case px_json_error env (trim_space errs) of
        None \<Rightarrow> None
      | Some envelope \<Rightarrow>
          (case machine_error_envelope_validate envelope of Some _ \<Rightarrow> None | None \<Rightarrow> Some (MachineError envelope errs)))"

definition command_error :: "'w process_env \<Rightarrow> gerr \<Rightarrow> string \<Rightarrow> gerr" where
  "command_error env err errs =
     (case machine_error_from_stderr env errs of
        Some e \<Rightarrow> e
      | None \<Rightarrow> if errs = [] then err else Wrap [] err ('': '' @ trim_space errs))"

text \<open>\<open>runJSON\<close>.\<close>

definition run_json :: "'w process_env \<Rightarrow> command_client \<Rightarrow> go_ctx \<Rightarrow> (string \<Rightarrow> (string + 'a) \<times> trailing) \<Rightarrow> string list \<Rightarrow> 'w
    \<Rightarrow> (gerr + 'a) \<times> 'w" where
  "run_json env c ctx decode args w =
     (case cc_run env c ctx args w of
        ((out, errs, Some e), w1) \<Rightarrow> (Inl (command_error env e errs), w1)
      | ((out, errs, None), w1) \<Rightarrow>
          ((case decode out of
              (Inl msg, _) \<Rightarrow> Inl (errorf ErrInvalidMachineOutput (''decode JSON output: '' @ msg))
            | (Inr v, TrailingEOF) \<Rightarrow> Inr v
            | (Inr v, TrailingDoc) \<Rightarrow> Inl (errorf ErrInvalidMachineOutput ''command emitted more than one JSON document'')
            | (Inr v, TrailingError msg) \<Rightarrow> Inl (errorf ErrInvalidMachineOutput (''decode trailing JSON output: '' @ msg))), w1))"

text \<open>The end of the calls that return a document: the value if its check passes.\<close>

definition validated :: "('a \<Rightarrow> gerr option) \<Rightarrow> (gerr + 'a) \<times> 'w \<Rightarrow> (gerr + 'a) \<times> 'w" where
  "validated ok r =
     (case r of (Inl e, w) \<Rightarrow> (Inl e, w) | (Inr v, w) \<Rightarrow> ((case ok v of Some e \<Rightarrow> Inl e | None \<Rightarrow> Inr v), w))"

text \<open>\<open>validateRunEventExitStatus\<close>.\<close>

definition validate_run_event_exit_status :: "string \<Rightarrow> gerr option \<Rightarrow> run_event \<Rightarrow> gerr option" where
  "validate_run_event_exit_status name runErr terminal =
     (if ev_event terminal \<noteq> ''completion'' then Some (invalid_machine_output (name @ '' terminal event is not a completion''))
      else case ev_exit_code terminal of
        None \<Rightarrow> Some (invalid_machine_output (name @ '' terminal event is not a completion''))
      | Some code \<Rightarrow>
          (case runErr of
             None \<Rightarrow> if code = 0 then None
               else Some (invalid_machine_output (name @ '' exited 0 but completion reported exit '' @ itoa code))
           | Some e \<Rightarrow>
               (case as_exit_error e of
                  None \<Rightarrow> Some e
                | Some exited \<Rightarrow> if exited = code then None
                    else Some (invalid_machine_output (name @ '' exit status '' @ itoa exited
                      @ '' does not match completion '' @ itoa code)))))"

text \<open>\<open>decodeRunEventsAfterCommand\<close>: the events, and the terminal event or an error.\<close>

definition run_events_after_command :: "'w process_env \<Rightarrow> string \<Rightarrow> string \<Rightarrow> string \<Rightarrow> gerr option \<Rightarrow> bool
    \<Rightarrow> run_event list \<times> (gerr + run_event)" where
  "run_events_after_command env name out errs runErr guestExitIsError =
     (case decode_run_events (px_json_events env out) of
        Inl decodeErr \<Rightarrow>
          ([], Inl (case runErr of
             Some e \<Rightarrow> Wrap (name @ '' failed before valid events: '') e ('': '' @ trim_space errs)
           | None \<Rightarrow> decodeErr))
      | Inr events \<Rightarrow>
          (case terminal_event events of
             Inl terminalErr \<Rightarrow>
               ([], Inl (case runErr of
                  Some e \<Rightarrow> Wrap (name @ '' failed without terminal event: '') e ('': '' @ trim_space errs)
                | None \<Rightarrow> terminalErr))
           | Inr terminal \<Rightarrow>
               (case validate_run_event_exit_status name runErr terminal of
                  Some e \<Rightarrow> (events, Inl e)
                | None \<Rightarrow>
                    if ev_outcome terminal = ''failed'' \<or> ev_outcome terminal = ''canceled'' then
                      (let envelope = \<lparr>env_schema = errorSchema, env_schema_version = schemaVersion,
                             env_error = the (ev_error terminal)\<rparr> in
                       case machine_error_envelope_validate envelope of
                         Some e \<Rightarrow> (events, Inl e)
                       | None \<Rightarrow> (events, Inl (MachineError envelope errs)))
                    else if guestExitIsError \<and> ev_exit_code terminal \<noteq> None \<and> the (ev_exit_code terminal) \<noteq> 0
                    then (events, Inl (Opaque (name @ '' guest exited with code '' @ itoa (the (ev_exit_code terminal)))))
                    else (events, Inr terminal))))"

text \<open>The end of the calls that return events.\<close>

definition events_of_command :: "run_event list \<times> (gerr + run_event) \<Rightarrow> run_event list \<times> gerr option" where
  "events_of_command r = (case r of (events, Inl e) \<Rightarrow> (events, Some e) | (events, Inr _) \<Rightarrow> (events, None))"

section \<open>Signaling on a marker\<close>

definition signal_by_name :: "string \<Rightarrow> gerr + string" where
  "signal_by_name name =
     (if trim_prefix name ''SIG'' = ''USR1'' then Inr ''USR1''
      else Inl (invalid_spore_request (''unsupported run capture signal '' @ go_quote name)))"

text \<open>\<open>bytes.Contains\<close>.\<close>

fun bytes_contain :: "string \<Rightarrow> string \<Rightarrow> bool" where
  "bytes_contain [] sub \<longleftrightarrow> sub = []"
| "bytes_contain (c # cs) sub \<longleftrightarrow> has_prefix (c # cs) sub \<or> bytes_contain cs sub"

definition run_event_line_contains :: "'w process_env \<Rightarrow> string \<Rightarrow> string \<Rightarrow> bool" where
  "run_event_line_contains env line marker =
     (if marker = [] then False
      else if bytes_contain line marker then True
      else case px_json_event env line of
        None \<Rightarrow> False
      | Some event \<Rightarrow>
          if ev_data_base64 event = [] then False
          else (case b64_decode (ev_data_base64 event) of None \<Rightarrow> False | Some data \<Rightarrow> bytes_contain data marker))"

text \<open>\<open>bytes.TrimRight(line, "\\r\\n")\<close>.\<close>

definition trim_line :: "string \<Rightarrow> string" where
  "trim_line line = rev (dropWhile (\<lambda>c. c = CHR 0x0D \<or> c = CHR 0x0A) (rev line))"

text \<open>Whether the signal was sent, and the error of sending it; \<open>sendSignal\<close> is guarded by a \<open>sync.Once\<close>.\<close>

type_synonym signal_state = "bool \<times> gerr option"

definition send_signal :: "'w process \<Rightarrow> string \<Rightarrow> signal_state \<Rightarrow> 'w \<Rightarrow> signal_state \<times> 'w" where
  "send_signal p sig s w =
     (if fst s then (s, w) else case pr_signal p sig w of (err, w1) \<Rightarrow> ((True, err), w1))"

text \<open>The goroutine that reads the output; a process may print for ever.\<close>

partial_function (option) read_output :: "'w process \<Rightarrow> (string \<Rightarrow> bool) \<Rightarrow> string \<Rightarrow> string \<Rightarrow> signal_state \<Rightarrow> 'w
    \<Rightarrow> ((string \<times> signal_state \<times> gerr option) \<times> 'w) option" where
  "read_output p marks sig out s w =
     (case pr_line p w of ((line, ending), w1) \<Rightarrow>
      case (if line \<noteq> [] \<and> marks (trim_line line) then send_signal p sig s w1 else (s, w1)) of (s1, w2) \<Rightarrow>
      (case ending of
         LineRead \<Rightarrow> read_output p marks sig (out @ line) s1 w2
       | EndOfOutput \<Rightarrow> Some ((out @ line, s1, None), w2)
       | ReadFailed e \<Rightarrow> Some ((out @ line, s1, Some e), w2)))"

text \<open>The errors of the process, of reading it and of signaling it together.\<close>

definition signaling_error :: "gerr option \<Rightarrow> gerr option \<Rightarrow> gerr option \<Rightarrow> bool \<Rightarrow> gerr option \<Rightarrow> string \<Rightarrow> gerr option
    \<Rightarrow> gerr option" where
  "signaling_error waited stdoutErr stderrErr wasSignaled signalErr marker ctxErr =
     (let readErr = errors_join [stdoutErr, stderrErr];
          e1 = (if readErr \<noteq> None then errors_join [waited, readErr] else waited);
          e2 = (if signalErr \<noteq> None then errors_join [e1, signalErr] else e1);
          e3 = (if \<not> wasSignaled then errors_join [e2, Some (invalid_machine_output
                 (''spore run ready marker '' @ go_quote marker @ '' was not observed''))] else e2) in
      if ctxErr \<noteq> None then errors_join [e3, ctxErr] else e3)"

text \<open>\<open>runSignalingOnMarker\<close>. The two readers run side by side in the code and are joined before
  \<open>Wait\<close>; they share nothing but the process.\<close>

definition run_signaling_on_marker :: "'w process_env \<Rightarrow> command_client \<Rightarrow> go_ctx \<Rightarrow> string \<Rightarrow> string \<Rightarrow> string list \<Rightarrow> 'w
    \<Rightarrow> ((string \<times> string \<times> gerr option) \<times> 'w) option" where
  "run_signaling_on_marker env c ctx marker signalName args w =
     (case signal_by_name signalName of
        Inl e \<Rightarrow> Some (([], [], Some e), w)
      | Inr sig \<Rightarrow>
          let cmd = cc_command c args in
          (case px_pipes env cmd w of
             (Some e, w1) \<Rightarrow> Some (([], [], Some e), w1)
           | (None, w1) \<Rightarrow>
               (case px_start env ctx cmd w1 of
                  (Inl e, w2) \<Rightarrow> Some (([], [], Some e), w2)
                | (Inr p, w2) \<Rightarrow>
                    (case read_output p (\<lambda>line. run_event_line_contains env line marker) sig [] (False, None) w2 of
                       None \<Rightarrow> None
                     | Some ((out, (wasSignaled, signalErr), stdoutErr), w3) \<Rightarrow>
                         (case pr_stderr p w3 of ((errs, stderrErr), w4) \<Rightarrow>
                          case pr_wait p w4 of (waited, w5) \<Rightarrow>
                          Some ((out, errs, signaling_error waited stdoutErr stderrErr wasSignaled signalErr marker (px_ctx_err env ctx w5)),
                            w5))))))"

section \<open>Command lines\<close>

definition flag_arg :: "string \<Rightarrow> string \<Rightarrow> string list" where
  "flag_arg flag v = (if v = [] then [] else [flag, v])"

definition inspect_args :: "inspect_bundle_request \<Rightarrow> string list" where
  "inspect_args r = [''--json'', ''inspect-bundle'', ibq_source r] @ flag_arg ''--child'' (ibq_childID r) @
     (case ibq_childRange r of None \<Rightarrow> []
      | Some cr \<Rightarrow> [''--child-range'', itoa (crs_start cr) @ ''..'' @ itoa (crs_end cr)])"

definition pull_args :: "pull_request \<Rightarrow> string list" where
  "pull_args r = [''--json'', ''pull'', plq_source r] @ flag_arg ''--child'' (plq_childID r) @
     (if plq_allowMetadataOnlyRootFS r then [''--allow-metadata-only-rootfs''] else []) @ [''--out'', plq_outDir r] @
     flag_arg ''--region'' (plq_region r)"

definition run_capture_args :: "run_capture_request \<Rightarrow> string list" where
  "run_capture_args r = [''run'', ''--events=jsonl''] @ flag_arg ''--backend'' (rcq_backend r) @ flag_arg ''--memory'' (rcq_memory r) @
     [''--image'', rcq_image r, ''--save'', rcq_captureDir r] @ flag_arg ''--save-on'' (rcq_captureSignal r) @ [''--''] @ rcq_command r"

definition fork_args :: "fork_request \<Rightarrow> string list" where
  "fork_args r = [''fork'', fkq_parentDir r, ''--count'', itoa (fkq_count r), ''--out'', fkq_outDir r]"

definition pack_args :: "pack_request \<Rightarrow> string list" where
  "pack_args r = [''pack'', pkq_parentDir r, ''--children'', pkq_childrenDir r, ''--out'', pkq_outDir r]"

definition resume_args :: "resume_request \<Rightarrow> string list" where
  "resume_args r = [''attach'', ''--events=jsonl''] @ flag_arg ''--backend'' (rsq_backend r) @
     flag_arg ''--generation'' (rsq_generationPath r) @ [rsq_sporeDir r]"

definition restore_named_args :: "restore_named_request \<Rightarrow> string list" where
  "restore_named_args r = [''--json'', ''restore'', rnq_sporeDir r, ''--name'', rnq_name r] @ flag_arg ''--backend'' (rnq_backend r) @
     flag_arg ''--generation'' (rnq_generationPath r)"

definition run_from_args :: "run_from_request \<Rightarrow> string list" where
  "run_from_args r = [''run'', ''--events=jsonl''] @ flag_arg ''--backend'' (rfq_backend r) @ [''--from'', rfq_sporeDir r] @
     flag_arg ''--generation'' (rfq_generationPath r) @ [''--''] @ rfq_command r"

definition exec_args :: "exec_request \<Rightarrow> string list" where
  "exec_args r = [''exec'', ''--events=jsonl'', exq_name r, ''--''] @ exq_command r"

section \<open>The calls\<close>

definition cc_version :: "'w process_env \<Rightarrow> command_client \<Rightarrow> go_ctx \<Rightarrow> 'w \<Rightarrow> (gerr + string) \<times> 'w" where
  "cc_version env c ctx w =
     (case validated version_result_validate (run_json env c ctx (px_json_version env) [''--json'', ''version''] w) of
        (Inl e, w1) \<Rightarrow> (Inl e, w1)
      | (Inr v, w1) \<Rightarrow> (Inr (vr_version v), w1))"

definition cc_host_info :: "'w process_env \<Rightarrow> command_client \<Rightarrow> go_ctx \<Rightarrow> 'w \<Rightarrow> (gerr + host_info) \<times> 'w" where
  "cc_host_info env c ctx w =
     validated host_info_validate (run_json env c ctx (px_json_host_info env) [''--json'', ''host-info''] w)"

definition cc_inspect_bundle :: "'w process_env \<Rightarrow> command_client \<Rightarrow> go_ctx \<Rightarrow> inspect_bundle_request \<Rightarrow> 'w
    \<Rightarrow> (gerr + inspect_bundle_result) \<times> 'w" where
  "cc_inspect_bundle env c ctx req w =
     (case inspect_bundle_request_validate req of
        Some e \<Rightarrow> (Inl e, w)
      | None \<Rightarrow> validated inspect_bundle_result_validate (run_json env c ctx (px_json_inspect env) (inspect_args req) w))"

definition cc_pull :: "'w process_env \<Rightarrow> command_client \<Rightarrow> go_ctx \<Rightarrow> pull_request \<Rightarrow> 'w \<Rightarrow> (gerr + pull_result) \<times> 'w" where
  "cc_pull env c ctx req w =
     (case pull_request_validate req of
        Some e \<Rightarrow> (Inl e, w)
      | None \<Rightarrow> validated pull_result_validate (run_json env c ctx (px_json_pull env) (pull_args req) w))"

definition cc_run_capture :: "'w process_env \<Rightarrow> command_client \<Rightarrow> go_ctx \<Rightarrow> run_capture_request \<Rightarrow> 'w
    \<Rightarrow> ((run_event list \<times> gerr option) \<times> 'w) option" where
  "cc_run_capture env c ctx req w =
     (case run_capture_request_validate req of
        Some e \<Rightarrow> Some (([], Some e), w)
      | None \<Rightarrow>
          (case (if rcq_readyMarker req \<noteq> []
                 then run_signaling_on_marker env c ctx (rcq_readyMarker req) (rcq_captureSignal req) (run_capture_args req) w
                 else Some (cc_run env c ctx (run_capture_args req) w)) of
             None \<Rightarrow> None
           | Some ((out, errs, err), w1) \<Rightarrow>
               (case run_events_after_command env ''spore run'' out errs err True of
                  (events, Inl e) \<Rightarrow> Some ((events, Some e), w1)
                | (events, Inr terminal) \<Rightarrow>
                    if \<not> ev_captured terminal \<or> ev_capture_path terminal = None
                    then Some ((events, Some (invalid_machine_output ''spore run capture did not report a captured parent'')), w1)
                    else Some ((events, None), w1))))"

text \<open>The calls that only report an error.\<close>

definition run_plain :: "'w process_env \<Rightarrow> command_client \<Rightarrow> go_ctx \<Rightarrow> string list \<Rightarrow> 'w \<Rightarrow> gerr option \<times> 'w" where
  "run_plain env c ctx args w =
     (case cc_run env c ctx args w of
        ((_, errs, Some e), w1) \<Rightarrow> (Some (command_error env e errs), w1)
      | ((_, _, None), w1) \<Rightarrow> (None, w1))"

definition cc_fork :: "'w process_env \<Rightarrow> command_client \<Rightarrow> go_ctx \<Rightarrow> fork_request \<Rightarrow> 'w \<Rightarrow> gerr option \<times> 'w" where
  "cc_fork env c ctx req w =
     (case fork_request_validate req of Some e \<Rightarrow> (Some e, w) | None \<Rightarrow> run_plain env c ctx (fork_args req) w)"

definition cc_pack :: "'w process_env \<Rightarrow> command_client \<Rightarrow> go_ctx \<Rightarrow> pack_request \<Rightarrow> 'w \<Rightarrow> gerr option \<times> 'w" where
  "cc_pack env c ctx req w =
     (case pack_request_validate req of Some e \<Rightarrow> (Some e, w) | None \<Rightarrow> run_plain env c ctx (pack_args req) w)"

text \<open>The calls whose output is a stream of events.\<close>

definition run_events :: "'w process_env \<Rightarrow> command_client \<Rightarrow> go_ctx \<Rightarrow> string \<Rightarrow> string list \<Rightarrow> 'w
    \<Rightarrow> (run_event list \<times> gerr option) \<times> 'w" where
  "run_events env c ctx name args w =
     (case cc_run env c ctx args w of ((out, errs, err), w1) \<Rightarrow>
        (events_of_command (run_events_after_command env name out errs err False), w1))"

definition cc_resume :: "'w process_env \<Rightarrow> command_client \<Rightarrow> go_ctx \<Rightarrow> resume_request \<Rightarrow> 'w
    \<Rightarrow> (run_event list \<times> gerr option) \<times> 'w" where
  "cc_resume env c ctx req w =
     (case resume_request_validate req of Some e \<Rightarrow> (([], Some e), w)
      | None \<Rightarrow> run_events env c ctx ''spore attach'' (resume_args req) w)"

definition cc_restore_named :: "'w process_env \<Rightarrow> command_client \<Rightarrow> go_ctx \<Rightarrow> restore_named_request \<Rightarrow> 'w
    \<Rightarrow> (gerr + named_lifecycle_result) \<times> 'w" where
  "cc_restore_named env c ctx req w =
     (case restore_named_request_validate req of
        Some e \<Rightarrow> (Inl e, w)
      | None \<Rightarrow> validated (\<lambda>r. named_lifecycle_validate_restored r (rnq_name req))
          (run_json env c ctx (px_json_restored env) (restore_named_args req) w))"

definition cc_run_from :: "'w process_env \<Rightarrow> command_client \<Rightarrow> go_ctx \<Rightarrow> run_from_request \<Rightarrow> 'w
    \<Rightarrow> (run_event list \<times> gerr option) \<times> 'w" where
  "cc_run_from env c ctx req w =
     (case run_from_request_validate req of Some e \<Rightarrow> (([], Some e), w)
      | None \<Rightarrow> run_events env c ctx ''spore run --from'' (run_from_args req) w)"

definition cc_exec :: "'w process_env \<Rightarrow> command_client \<Rightarrow> go_ctx \<Rightarrow> exec_request \<Rightarrow> 'w
    \<Rightarrow> (run_event list \<times> gerr option) \<times> 'w" where
  "cc_exec env c ctx req w =
     (case exec_request_validate req of
        Some e \<Rightarrow> (([], Some e), w)
      | None \<Rightarrow>
          (case cc_run env c ctx (exec_args req) w of ((out, errs, err), w1) \<Rightarrow>
             (case px_ctx_err env ctx w1 of
                Some ctxErr \<Rightarrow> (([], Some ctxErr), w1)
              | None \<Rightarrow> (events_of_command (run_events_after_command env ''spore exec'' out errs err False), w1))))"

definition cc_remove_vm :: "'w process_env \<Rightarrow> command_client \<Rightarrow> go_ctx \<Rightarrow> remove_vm_request \<Rightarrow> 'w \<Rightarrow> gerr option \<times> 'w" where
  "cc_remove_vm env c ctx req w =
     (case remove_vm_request_validate req of
        Some e \<Rightarrow> (Some e, w)
      | None \<Rightarrow>
          (case cc_run env c ctx [''--json'', ''rm'', rvq_name req] w of
             ((_, _, None), w1) \<Rightarrow> (None, w1)
           | ((_, errs, Some e), w1) \<Rightarrow>
               (case machine_error_from_stderr env errs of
                  Some (MachineError envelope text) \<Rightarrow>
                    if me_code (env_error envelope) = ''object.not_found'' then (None, w1)
                    else (Some (command_error env e errs), w1)
                | _ \<Rightarrow> (Some (command_error env e errs), w1))))"

definition cc_remove_saved_spore :: "'w process_env \<Rightarrow> command_client \<Rightarrow> go_ctx \<Rightarrow> remove_saved_spore_request \<Rightarrow> 'w
    \<Rightarrow> gerr option \<times> 'w" where
  "cc_remove_saved_spore env c ctx req w =
     (case remove_saved_spore_request_validate req of
        Some e \<Rightarrow> (Some e, w)
      | None \<Rightarrow>
          (case run_json env c ctx (px_json_removed env) [''--json'', ''rm'', ''--spore'', rsv_sporeDir req] w of
             (Inl e, w1) \<Rightarrow> (Some e, w1)
           | (Inr result, w1) \<Rightarrow> (removed_saved_spore_result_validate result, w1)))"

definition cc_collect_cache :: "'w process_env \<Rightarrow> command_client \<Rightarrow> go_ctx \<Rightarrow> 'w \<Rightarrow> (cache_gc_result \<times> gerr option) \<times> 'w" where
  "cc_collect_cache env c ctx w =
     (case run_json env c ctx (px_json_gc env) [''--json'', ''cache'', ''gc'', ''--force''] w of
        (Inl e, w1) \<Rightarrow> ((zero_gc, Some e), w1)
      | (Inr result, w1) \<Rightarrow> ((result, cache_gc_result_validate result), w1))"

end
