(* ===== verification/CommandClaims.thy ===== *)
theory CommandClaims
  imports CommandClient
begin

text \<open>
  What holds of the command line client: its calls never share a command line, each starts one process
  at most, success means the process and its output agree, and the capture signal follows the first
  line with the marker.
\<close>

section \<open>The calls as data\<close>

datatype command_call =
    VersionCall | HostInfoCall | CollectCall
  | InspectCall inspect_bundle_request | PullCall pull_request | CaptureCall run_capture_request
  | ForkCall fork_request | PackCall pack_request | ResumeCall resume_request | RestoreCall restore_named_request
  | RunFromCall run_from_request | ExecCall exec_request | RemoveVMCall remove_vm_request
  | RemoveSavedCall remove_saved_spore_request

fun command_line :: "command_call \<Rightarrow> string list" where
  "command_line VersionCall = [''--json'', ''version'']"
| "command_line HostInfoCall = [''--json'', ''host-info'']"
| "command_line CollectCall = [''--json'', ''cache'', ''gc'', ''--force'']"
| "command_line (InspectCall r) = inspect_args r"
| "command_line (PullCall r) = pull_args r"
| "command_line (CaptureCall r) = run_capture_args r"
| "command_line (ForkCall r) = fork_args r"
| "command_line (PackCall r) = pack_args r"
| "command_line (ResumeCall r) = resume_args r"
| "command_line (RestoreCall r) = restore_named_args r"
| "command_line (RunFromCall r) = run_from_args r"
| "command_line (ExecCall r) = exec_args r"
| "command_line (RemoveVMCall r) = [''--json'', ''rm'', rvq_name r]"
| "command_line (RemoveSavedCall r) = [''--json'', ''rm'', ''--spore'', rsv_sporeDir r]"

fun call_refused :: "command_call \<Rightarrow> gerr option" where
  "call_refused VersionCall = None"
| "call_refused HostInfoCall = None"
| "call_refused CollectCall = None"
| "call_refused (InspectCall r) = inspect_bundle_request_validate r"
| "call_refused (PullCall r) = pull_request_validate r"
| "call_refused (CaptureCall r) = run_capture_request_validate r"
| "call_refused (ForkCall r) = fork_request_validate r"
| "call_refused (PackCall r) = pack_request_validate r"
| "call_refused (ResumeCall r) = resume_request_validate r"
| "call_refused (RestoreCall r) = restore_named_request_validate r"
| "call_refused (RunFromCall r) = run_from_request_validate r"
| "call_refused (ExecCall r) = exec_request_validate r"
| "call_refused (RemoveVMCall r) = remove_vm_request_validate r"
| "call_refused (RemoveSavedCall r) = remove_saved_spore_request_validate r"

text \<open>A call's error, without its value.\<close>

definition sum_error :: "(gerr + 'a) \<times> 'w \<Rightarrow> gerr option \<times> 'w" where
  "sum_error r = (case r of (Inl e, w) \<Rightarrow> (Some e, w) | (Inr _, w) \<Rightarrow> (None, w))"

definition pair_error :: "('a \<times> gerr option) \<times> 'w \<Rightarrow> gerr option \<times> 'w" where
  "pair_error r = (case r of ((_, e), w) \<Rightarrow> (e, w))"

fun call_error :: "'w process_env \<Rightarrow> command_client \<Rightarrow> go_ctx \<Rightarrow> command_call \<Rightarrow> 'w \<Rightarrow> (gerr option \<times> 'w) option" where
  "call_error env c ctx VersionCall w = Some (sum_error (cc_version env c ctx w))"
| "call_error env c ctx HostInfoCall w = Some (sum_error (cc_host_info env c ctx w))"
| "call_error env c ctx CollectCall w = Some (pair_error (cc_collect_cache env c ctx w))"
| "call_error env c ctx (InspectCall r) w = Some (sum_error (cc_inspect_bundle env c ctx r w))"
| "call_error env c ctx (PullCall r) w = Some (sum_error (cc_pull env c ctx r w))"
| "call_error env c ctx (CaptureCall r) w = map_option pair_error (cc_run_capture env c ctx r w)"
| "call_error env c ctx (ForkCall r) w = Some (cc_fork env c ctx r w)"
| "call_error env c ctx (PackCall r) w = Some (cc_pack env c ctx r w)"
| "call_error env c ctx (ResumeCall r) w = Some (pair_error (cc_resume env c ctx r w))"
| "call_error env c ctx (RestoreCall r) w = Some (sum_error (cc_restore_named env c ctx r w))"
| "call_error env c ctx (RunFromCall r) w = Some (pair_error (cc_run_from env c ctx r w))"
| "call_error env c ctx (ExecCall r) w = Some (pair_error (cc_exec env c ctx r w))"
| "call_error env c ctx (RemoveVMCall r) w = Some (cc_remove_vm env c ctx r w)"
| "call_error env c ctx (RemoveSavedCall r) w = Some (cc_remove_saved_spore env c ctx r w)"

section \<open>Command lines\<close>

named_theorems line_iff \<open>when two command lines of one call are equal\<close>

lemma flag_arg_append [simp]:
  "flag_arg flag v @ xs = flag_arg flag v' @ ys \<longleftrightarrow>
     (if v = [] then (if v' = [] then xs = ys else xs = flag # v' # ys)
      else if v' = [] then flag # v # xs = ys else v = v' \<and> xs = ys)"
  by (simp add: flag_arg_def)

lemma flag_arg_eq [simp]: "flag_arg flag v = flag_arg flag v' \<longleftrightarrow> v = v'"
  by (simp add: flag_arg_def)

lemma itoa_no_dot: "CHR ''.'' \<notin> set (itoa i)"
  using utoa_no_char [of "CHR ''.''"] by (auto simp: itoa_def is_digit_def)

lemma range_text_eq: "itoa i @ ''..'' @ itoa j = itoa i' @ ''..'' @ itoa j' \<longleftrightarrow> i = i' \<and> j = j'"
proof
  have first: "takeWhile (\<lambda>c. c \<noteq> CHR ''.'') (itoa a @ CHR ''.'' # s) = itoa a" for a s
    using itoa_no_dot [of a] by (subst takeWhile_append2) (auto)
  assume e: "itoa i @ ''..'' @ itoa j = itoa i' @ ''..'' @ itoa j'"
  then have "itoa i = itoa i'" using first [of i "''.'' @ itoa j"] first [of i' "''.'' @ itoa j'"] by simp
  then show "i = i' \<and> j = j'" using e by simp
qed simp

lemma inspect_args_eq [line_iff]: "inspect_args r = inspect_args s \<longleftrightarrow> r = s"
  by (cases r; cases s)
    (auto simp: inspect_args_def flag_arg_def range_text_eq [simplified] split: option.splits if_splits intro: child_range_selection.equality)

lemma pull_args_eq [line_iff]: "pull_args r = pull_args s \<longleftrightarrow> r = s"
  by (cases r; cases s) (auto simp: pull_args_def flag_arg_def split: if_splits)

lemma run_capture_args_eq [line_iff]:
  "run_capture_args r = run_capture_args s \<longleftrightarrow> r\<lparr>rcq_readyMarker := []\<rparr> = s\<lparr>rcq_readyMarker := []\<rparr>"
  by (cases r; cases s) (auto simp: run_capture_args_def flag_arg_def split: if_splits)

lemma fork_args_eq [line_iff]: "fork_args r = fork_args s \<longleftrightarrow> r = s"
  by (cases r; cases s) (auto simp: fork_args_def)

lemma pack_args_eq [line_iff]: "pack_args r = pack_args s \<longleftrightarrow> r = s"
  by (cases r; cases s) (auto simp: pack_args_def)

lemma resume_args_eq [line_iff]: "resume_args r = resume_args s \<longleftrightarrow> r = s"
  by (cases r; cases s) (auto simp: resume_args_def flag_arg_def split: if_splits)

lemma restore_named_args_eq [line_iff]: "restore_named_args r = restore_named_args s \<longleftrightarrow> r = s"
  by (cases r; cases s) (auto simp: restore_named_args_def flag_arg_def split: if_splits)

lemma run_from_args_eq [line_iff]: "run_from_args r = run_from_args s \<longleftrightarrow> r = s"
  by (cases r; cases s) (auto simp: run_from_args_def flag_arg_def split: if_splits)

lemma exec_args_eq [line_iff]: "exec_args r = exec_args s \<longleftrightarrow> r = s"
  by (cases r; cases s) (auto simp: exec_args_def)

text \<open>A capture's marker is looked for by the client and is not an argument.\<close>

fun without_marker :: "command_call \<Rightarrow> command_call" where
  "without_marker (CaptureCall r) = CaptureCall (r\<lparr>rcq_readyMarker := []\<rparr>)"
| "without_marker call = call"

text \<open>What tells the calls apart: the subcommand.\<close>

definition subcommand :: "string list \<Rightarrow> string" where
  "subcommand line = (if hd line = ''--json'' then line ! 1 else hd line)"

fun call_word :: "command_call \<Rightarrow> string" where
  "call_word VersionCall = ''version''" | "call_word HostInfoCall = ''host-info''" | "call_word CollectCall = ''cache''"
| "call_word (InspectCall r) = ''inspect-bundle''" | "call_word (PullCall r) = ''pull''" | "call_word (CaptureCall r) = ''run''"
| "call_word (ForkCall r) = ''fork''" | "call_word (PackCall r) = ''pack''" | "call_word (ResumeCall r) = ''attach''"
| "call_word (RestoreCall r) = ''restore''" | "call_word (RunFromCall r) = ''run''" | "call_word (ExecCall r) = ''exec''"
| "call_word (RemoveVMCall r) = ''rm''" | "call_word (RemoveSavedCall r) = ''rm''"

lemma subcommand_line: "subcommand (command_line call) = call_word call"
  by (cases call) (simp_all add: subcommand_def inspect_args_def pull_args_def run_capture_args_def fork_args_def pack_args_def
      resume_args_def restore_named_args_def run_from_args_def exec_args_def)

lemma capture_not_run_from: "run_capture_args r \<noteq> run_from_args s"
  by (auto simp: run_capture_args_def run_from_args_def flag_arg_def split: if_splits)


section \<open>What a stream of events says\<close>

text \<open>The exit status of the process is the one the completion reports.\<close>

definition exit_agrees :: "gerr option \<Rightarrow> run_event \<Rightarrow> bool" where
  "exit_agrees runErr t \<longleftrightarrow>
     (case runErr of None \<Rightarrow> ev_exit_code t = Some 0 | Some e \<Rightarrow> as_exit_error e \<noteq> None \<and> as_exit_error e = ev_exit_code t)"

lemma exit_status_None:
  "validate_run_event_exit_status name runErr t = None \<longleftrightarrow> ev_event t = ''completion'' \<and> exit_agrees runErr t"
  by (auto simp: validate_run_event_exit_status_def exit_agrees_def split: option.splits)

lemma completion_outcome:
  assumes "run_event_validate t = None" "ev_event t = ''completion''"
  shows "ev_outcome t = ''completed'' \<or> ev_outcome t = ''failed'' \<or> ev_outcome t = ''canceled''"
  using assms by (auto simp: run_event_validate_def event_terminal_def completion_validate_def first_err_all
      split: option.splits if_splits)

lemma run_events_accepted:
  "run_events_after_command env name out errs runErr strict = (events, Inr t) \<longleftrightarrow>
     px_json_events env out = map Inr events \<and> list_all (\<lambda>e. run_event_validate e = None) events \<and>
     terminal_event events = Inr t \<and> exit_agrees runErr t \<and> ev_outcome t = ''completed'' \<and>
     (if strict then ev_exit_code t = Some 0 else True)"
proof (cases "decode_run_events (px_json_events env out)")
  case (Inl e)
  then have "\<not> (px_json_events env out = map Inr events \<and> list_all (\<lambda>e. run_event_validate e = None) events)"
    using decode_run_events_Inr [of "px_json_events env out" events] by (auto simp: list_all_iff)
  then show ?thesis using Inl by (auto simp: run_events_after_command_def)
next
  case (Inr evs)
  note d = Inr [unfolded decode_run_events_Inr]
  show ?thesis
  proof (cases "terminal_event evs")
    case (Inl e)
    then show ?thesis using Inr d by (auto simp: run_events_after_command_def list_all_iff inj_map_eq_map [OF inj_Inr])
  next
    case t': (Inr t')
    then have c: "ev_event t' = ''completion''" "t' \<in> set evs" by (auto simp: terminal_event_Inr)
    then have o: "ev_outcome t' = ''completed'' \<or> ev_outcome t' = ''failed'' \<or> ev_outcome t' = ''canceled''"
      using d by (intro completion_outcome) auto
    have code: "ev_exit_code t' \<noteq> None" if "exit_agrees runErr t'"
      using that by (cases runErr; cases "ev_exit_code t'") (simp_all add: exit_agrees_def)
    show ?thesis
    proof (cases "exit_agrees runErr t'")
      case True
      then have v: "validate_run_event_exit_status name runErr t' = None" using c by (simp add: exit_status_None)
      obtain n where n: "ev_exit_code t' = Some n" using code True by blast
      show ?thesis using Inr d t' v n o True
        by (auto simp: run_events_after_command_def list_all_iff inj_map_eq_map [OF inj_Inr] Let_def split: option.splits)
    next
      case False
      then have v: "validate_run_event_exit_status name runErr t' \<noteq> None" using c by (simp add: exit_status_None)
      then show ?thesis using Inr d t' False
        by (auto simp: run_events_after_command_def list_all_iff inj_map_eq_map [OF inj_Inr])
    qed
  qed
qed


section \<open>One process for a call\<close>

text \<open>What the client does to its processes.\<close>

datatype process_event = Started exec_command | ReadLine string | Signaled string

type_synonym 'w watched = "'w \<times> process_event list"

definition quietly :: "('w \<Rightarrow> 'a \<times> 'w) \<Rightarrow> 'w watched \<Rightarrow> 'a \<times> 'w watched" where
  "quietly f wl = (case f (fst wl) of (x, w) \<Rightarrow> (x, (w, snd wl)))"

definition watched_process :: "'w process \<Rightarrow> 'w watched process" where
  "watched_process p = \<lparr>
     pr_line = (\<lambda>wl. case pr_line p (fst wl) of ((line, e), w) \<Rightarrow> ((line, e), (w, snd wl @ [ReadLine line]))),
     pr_stderr = quietly (pr_stderr p),
     pr_signal = (\<lambda>sig wl. case pr_signal p sig (fst wl) of (e, w) \<Rightarrow> (e, (w, snd wl @ [Signaled sig]))),
     pr_wait = quietly (pr_wait p)\<rparr>"

definition watched_env :: "'w process_env \<Rightarrow> 'w watched process_env" where
  "watched_env env = \<lparr>
     px_look_path = (\<lambda>path. quietly (px_look_path env path)),
     px_run = (\<lambda>ctx cmd wl. case px_run env ctx cmd (fst wl) of (r, w) \<Rightarrow> (r, (w, snd wl @ [Started cmd]))),
     px_pipes = (\<lambda>cmd. quietly (px_pipes env cmd)),
     px_start = (\<lambda>ctx cmd wl. case px_start env ctx cmd (fst wl) of
         (Inl e, w) \<Rightarrow> (Inl e, (w, snd wl))
       | (Inr p, w) \<Rightarrow> (Inr (watched_process p), (w, snd wl @ [Started cmd]))),
     px_ctx_err = (\<lambda>ctx wl. px_ctx_err env ctx (fst wl)),
     px_json_version = px_json_version env, px_json_host_info = px_json_host_info env, px_json_inspect = px_json_inspect env,
     px_json_pull = px_json_pull env, px_json_restored = px_json_restored env, px_json_removed = px_json_removed env,
     px_json_gc = px_json_gc env, px_json_events = px_json_events env, px_json_event = px_json_event env,
     px_json_error = px_json_error env\<rparr>"

definition is_start :: "process_event \<Rightarrow> bool" where
  "is_start e \<longleftrightarrow> (case e of Started _ \<Rightarrow> True | _ \<Rightarrow> False)"

lemma quietly_log [simp]: "snd (snd (quietly f wl)) = snd wl"
  by (simp add: quietly_def split: prod.splits)

lemma watched_env_simps [simp]:
  "snd (snd (px_run (watched_env env) ctx cmd wl)) = snd wl @ [Started cmd]"
  "snd (snd (px_pipes (watched_env env) cmd wl)) = snd wl"
  by (simp_all add: watched_env_def split: prod.splits)

lemma run_log [simp]: "snd (snd (cc_run (watched_env env) c ctx args wl)) = snd wl @ [Started (cc_command c args)]"
proof -
  obtain out errs err wl1 where r: "px_run (watched_env env) ctx (cc_command c args) wl = ((out, errs, err), wl1)"
    by (metis prod.collapse)
  then have "snd wl1 = snd wl @ [Started (cc_command c args)]" using watched_env_simps(1) [of env ctx "cc_command c args" wl] by simp
  then show ?thesis by (simp add: cc_run_def r split: option.splits)
qed

lemma run_json_log [simp]:
  "snd (snd (run_json (watched_env env) c ctx dec args wl)) = snd wl @ [Started (cc_command c args)]"
proof -
  obtain out errs err wl1 where r: "cc_run (watched_env env) c ctx args wl = ((out, errs, err), wl1)" by (metis prod.collapse)
  then have "snd wl1 = snd wl @ [Started (cc_command c args)]" using run_log [of env c ctx args wl] by simp
  then show ?thesis by (simp add: run_json_def r split: option.splits)
qed

lemma validated_log [simp]: "snd (validated ok r) = snd r"
  by (simp add: validated_def split: prod.splits sum.splits)

lemma error_log [simp]: "snd (sum_error r) = snd r" "snd (pair_error p) = snd p"
  by (simp_all add: sum_error_def pair_error_def split: prod.splits sum.splits)

lemma run_plain_log [simp]: "snd (snd (run_plain (watched_env env) c ctx args wl)) = snd wl @ [Started (cc_command c args)]"
proof -
  obtain out errs err wl1 where r: "cc_run (watched_env env) c ctx args wl = ((out, errs, err), wl1)" by (metis prod.collapse)
  then have "snd wl1 = snd wl @ [Started (cc_command c args)]" using run_log [of env c ctx args wl] by simp
  then show ?thesis by (simp add: run_plain_def r split: option.splits)
qed

lemma run_events_log [simp]: "snd (snd (run_events (watched_env env) c ctx name args wl)) = snd wl @ [Started (cc_command c args)]"
proof -
  obtain out errs err wl1 where r: "cc_run (watched_env env) c ctx args wl = ((out, errs, err), wl1)" by (metis prod.collapse)
  then have "snd wl1 = snd wl @ [Started (cc_command c args)]" using run_log [of env c ctx args wl] by simp
  then show ?thesis by (simp add: run_events_def r)
qed

section \<open>The capture signal\<close>

text \<open>The lines read, with the signal right after the first that is marked.\<close>

fun signal_after_first :: "(string \<Rightarrow> bool) \<Rightarrow> string \<Rightarrow> string list \<Rightarrow> process_event list" where
  "signal_after_first marked sig [] = []"
| "signal_after_first marked sig (x # lines) =
     ReadLine x # (if marked x then Signaled sig # map ReadLine lines else signal_after_first marked sig lines)"

lemma no_starts [simp]: "filter is_start (signal_after_first marked sig lines) = []" "filter is_start (map ReadLine lines) = []"
proof -
  show r: "filter is_start (map ReadLine xs) = []" for xs by (induction xs) (simp_all add: is_start_def)
  show "filter is_start (signal_after_first marked sig lines) = []"
    by (induction lines) (simp_all add: is_start_def r)
qed

lemma signal_after_first_split:
  assumes "\<exists>x \<in> set lines. marked x"
  obtains pre x post where "lines = pre @ x # post" "\<forall>y \<in> set pre. \<not> marked y" "marked x"
    "signal_after_first marked sig lines = map ReadLine pre @ [ReadLine x, Signaled sig] @ map ReadLine post"
proof -
  obtain pre x post where p: "lines = pre @ x # post" "\<forall>y \<in> set pre. \<not> marked y" "marked x"
    using split_list_first_prop [OF assms] by blast
  have "\<forall>y \<in> set xs. \<not> marked y \<Longrightarrow> marked x \<Longrightarrow>
      signal_after_first marked sig (xs @ x # post) = map ReadLine xs @ [ReadLine x, Signaled sig] @ map ReadLine post" for xs
    by (induction xs) simp_all
  from this [OF p(2,3)] show ?thesis using p by (intro that) simp_all
qed

definition marked_line :: "(string \<Rightarrow> bool) \<Rightarrow> string \<Rightarrow> bool" where
  "marked_line marks line \<longleftrightarrow> line \<noteq> [] \<and> marks (trim_line line)"

text \<open>What was read and recorded so far, and whether the signal was sent.\<close>

definition reading :: "(string \<Rightarrow> bool) \<Rightarrow> string \<Rightarrow> signal_state \<Rightarrow> string \<Rightarrow> 'w watched \<Rightarrow> string \<Rightarrow> signal_state \<Rightarrow> 'w watched \<Rightarrow> bool" where
  "reading marks sig s out wl out' s' wl' \<longleftrightarrow> (\<exists>lines. out' = out @ concat lines \<and>
     snd wl' = snd wl @ (if fst s then map ReadLine lines else signal_after_first (marked_line marks) sig lines) \<and>
     (if fst s then s' = s else fst s' = list_ex (marked_line marks) lines))"

lemma reading_line:
  assumes "pr_line (watched_process p) wl = ((line, ending), wl1)"
    "(if line \<noteq> [] \<and> marks (trim_line line) then send_signal (watched_process p) sig s wl1 else (s, wl1)) = (s1, wl2)"
  shows "reading marks sig s out wl (out @ line) s1 wl2"
    and "reading marks sig s1 (out @ line) wl2 out' s' wl' \<Longrightarrow> reading marks sig s out wl out' s' wl'"
proof -
  have l: "snd wl1 = snd wl @ [ReadLine line]"
    using assms(1) by (auto simp: watched_process_def split: prod.splits)
  have m: "line \<noteq> [] \<and> marks (trim_line line) \<longleftrightarrow> marked_line marks line" by (simp add: marked_line_def)
  have s1: "fst s \<Longrightarrow> s1 = s" "snd wl2 = snd wl1 @ (if marked_line marks line \<and> \<not> fst s then [Signaled sig] else [])"
    "fst s1 \<longleftrightarrow> fst s \<or> marked_line marks line"
    using assms(2) unfolding m
    by (auto simp: send_signal_def watched_process_def split: prod.splits if_splits)
  show "reading marks sig s out wl (out @ line) s1 wl2"
    unfolding reading_def using l s1 by (intro exI [of _ "[line]"]) auto
  assume "reading marks sig s1 (out @ line) wl2 out' s' wl'"
  then obtain lines where r: "out' = out @ concat (line # lines)"
    "snd wl' = snd wl2 @ (if fst s1 then map ReadLine lines else signal_after_first (marked_line marks) sig lines)"
    "if fst s1 then s' = s1 else fst s' = list_ex (marked_line marks) lines" unfolding reading_def by auto
  show "reading marks sig s out wl out' s' wl'"
    unfolding reading_def using l s1 r by (intro exI [of _ "line # lines"]) (auto split: if_splits)
qed

lemma read_output_reading:
  assumes "read_output (watched_process p) marks sig out s wl = Some ((out', s', e), wl')"
  shows "reading marks sig s out wl out' s' wl'"
proof -
  have "p' = watched_process p \<longrightarrow> reading marks sig s out wl (fst (fst y)) (fst (snd (fst y))) (snd y)"
    if "read_output p' marks sig out s wl = Some y" for p' y
  proof (rule read_output.raw_induct [where P = "\<lambda>p' marks sig out s wl y. p' = watched_process p \<longrightarrow>
      reading marks sig s out wl (fst (fst y)) (fst (snd (fst y))) (snd y)", OF _ that], goal_cases)
    case (1 rec p' marks sig out s wl y)
    show ?case
    proof
      assume p: "p' = watched_process p"
      obtain line ending wl1 where l: "pr_line (watched_process p) wl = ((line, ending), wl1)" by (metis prod.collapse)
      obtain s1 wl2 where g: "(if line \<noteq> [] \<and> marks (trim_line line) then send_signal (watched_process p) sig s wl1 else (s, wl1)) = (s1, wl2)"
        by (meson surj_pair)
      note step = 1(2) [unfolded p l prod.case g]
      note r = reading_line [where marks = marks, OF l g]
      show "reading marks sig s out wl (fst (fst y)) (fst (snd (fst y))) (snd y)"
      proof (cases ending)
        case LineRead
        then have "rec (watched_process p) marks sig (out @ line) s1 wl2 = Some y" using step by simp
        then show ?thesis using 1(1) r(2) by blast
      qed (use step r(1) in auto)
    qed
  qed
  from this [OF assms] show ?thesis by simp
qed

lemma signaling_error_None:
  "signaling_error waited oe e b se m c = None \<longleftrightarrow> waited = None \<and> oe = None \<and> e = None \<and> b \<and> se = None \<and> c = None"
  by (auto simp: signaling_error_def Let_def simp del: not_None_eq)

lemma signaling_log:
  assumes "run_signaling_on_marker (watched_env env) c ctx marker signalName args wl = Some ((out, errs, err), wl')"
  shows "snd wl' = snd wl \<and> err \<noteq> None \<or>
    (\<exists>lines. snd wl' = snd wl @ Started (cc_command c args) #
       signal_after_first (marked_line (\<lambda>line. run_event_line_contains env line marker)) ''USR1'' lines \<and> out = concat lines \<and>
       (err = None \<longrightarrow> (\<exists>x \<in> set lines. marked_line (\<lambda>line. run_event_line_contains env line marker) x)))"
proof (cases "signal_by_name signalName")
  case (Inl e)
  then show ?thesis using assms by (auto simp: run_signaling_on_marker_def)
next
  case (Inr sig)
  then have sig: "sig = ''USR1''" by (auto simp: signal_by_name_def split: if_splits)
  let ?env = "watched_env env" and ?cmd = "cc_command c args" and ?marks = "\<lambda>line. run_event_line_contains env line marker"
  have marks: "run_event_line_contains ?env line marker = ?marks line" for line
    by (simp add: run_event_line_contains_def watched_env_def)
  obtain pe wl1 where pe: "px_pipes ?env ?cmd wl = (pe, wl1)" by (meson surj_pair)
  then have l1: "snd wl1 = snd wl" using watched_env_simps(2) [of env ?cmd wl] by simp
  show ?thesis
  proof (cases pe)
    case (Some e)
    then show ?thesis using assms Inr pe l1 by (auto simp: run_signaling_on_marker_def Let_def)
  next
    case None
    obtain r w2 where st: "px_start env ctx ?cmd (fst wl1) = (r, w2)" by (meson surj_pair)
    show ?thesis
    proof (cases r)
      case (Inl e)
      then have "px_start ?env ctx ?cmd wl1 = (Inl e, (w2, snd wl1))" using st by (simp add: watched_env_def)
      then show ?thesis using assms Inr pe None l1 by (auto simp: run_signaling_on_marker_def Let_def)
    next
      case p: (Inr p)
      let ?wl2 = "(w2, snd wl1 @ [Started ?cmd])" and ?p = "watched_process p"
      have "px_start ?env ctx ?cmd wl1 = (Inr ?p, ?wl2)" using p st by (simp add: watched_env_def)
      then obtain out1 s1 e1 wl3 where rd: "read_output ?p ?marks sig [] (False, None) ?wl2 = Some ((out1, s1, e1), wl3)"
        using assms Inr pe None by (auto simp: run_signaling_on_marker_def Let_def marks split: option.splits)
      obtain es wl4 where se: "pr_stderr ?p wl3 = (es, wl4)" by (meson surj_pair)
      obtain we wl5 where wt: "pr_wait ?p wl4 = (we, wl5)" by (meson surj_pair)
      have l5: "snd wl5 = snd wl3" using se wt quietly_log [of "pr_stderr p" wl3] quietly_log [of "pr_wait p" wl4]
        by (simp add: watched_process_def)
      have res: "out = out1" "wl' = wl5" "err = None \<Longrightarrow> fst s1"
        using assms Inr pe None \<open>px_start ?env ctx ?cmd wl1 = (Inr ?p, ?wl2)\<close> rd se wt
        by (auto simp: run_signaling_on_marker_def Let_def marks signaling_error_None split: prod.splits)
      obtain lines where "out1 = concat lines" "snd wl3 = snd ?wl2 @ signal_after_first (marked_line ?marks) sig lines"
        "fst s1 = list_ex (marked_line ?marks) lines"
        using read_output_reading [OF rd] by (auto simp: reading_def)
      then show ?thesis using res l5 l1 sig by (intro disjI2 exI [of _ lines]) (auto simp: list_ex_iff)
    qed
  qed
qed

section \<open>Exit errors\<close>

text \<open>\<open>exec.ExitError\<close> reports an unsuccessful exit, so its code is not 0. This is asked of whatever a process
  or a context returns.\<close>

definition honest_error :: "gerr option \<Rightarrow> bool" where
  "honest_error err \<longleftrightarrow> (case err of None \<Rightarrow> True | Some e \<Rightarrow> as_exit_error e \<noteq> Some 0)"

definition honest_process :: "'w process \<Rightarrow> bool" where
  "honest_process p \<longleftrightarrow> (\<forall>w. honest_error (fst (pr_wait p w)) \<and> honest_error (snd (fst (pr_stderr p w))) \<and>
     (\<forall>e. snd (fst (pr_line p w)) = ReadFailed e \<longrightarrow> honest_error (Some e)) \<and> (\<forall>sig. honest_error (fst (pr_signal p sig w))))"

definition honest_env :: "'w process_env \<Rightarrow> bool" where
  "honest_env env \<longleftrightarrow> (\<forall>cmd w. honest_error (fst (px_pipes env cmd w))) \<and> (\<forall>ctx w. honest_error (px_ctx_err env ctx w)) \<and>
     (\<forall>ctx cmd w e. fst (px_start env ctx cmd w) = Inl e \<longrightarrow> honest_error (Some e)) \<and>
     (\<forall>ctx cmd w p. fst (px_start env ctx cmd w) = Inr p \<longrightarrow> honest_process p)"

lemma honest_None [simp]: "honest_error None"
  by (simp add: honest_error_def)

lemma as_exit_error_list: "as_exit_error_list es = Some n \<Longrightarrow> \<exists>e \<in> set es. as_exit_error e = Some n"
  by (induction es) (auto split: option.splits)

lemma honest_join:
  assumes "\<And>e. e \<in> set es \<Longrightarrow> honest_error e"
  shows "honest_error (errors_join es)"
proof (cases "errors_join es")
  case (Some e)
  then have e: "e = Join (List.map_filter id es)" by (auto simp: errors_join_def split: list.splits)
  have "as_exit_error_list (List.map_filter id es) \<noteq> Some 0"
    using as_exit_error_list [of "List.map_filter id es" 0] assms
    by (fastforce simp: List.map_filter_def honest_error_def split: option.splits)
  then show ?thesis using Some e by (simp add: honest_error_def)
next
  case None
  then show ?thesis by (simp only: honest_None)
qed

lemma honest_signaling_error:
  assumes "honest_error waited" "honest_error oe" "honest_error e" "honest_error se" "honest_error ce"
  shows "honest_error (signaling_error waited oe e b se m ce)"
proof -
  have "honest_error (Some (invalid_machine_output msg))" for msg
    by (simp add: honest_error_def invalid_machine_output_def errorf_def)
  moreover have "honest_error (errors_join [oe, e])" using assms by (intro honest_join) auto
  ultimately show ?thesis using assms unfolding signaling_error_def Let_def by (auto simp del: errors_join_None intro!: honest_join)
qed

lemma read_output_honest:
  assumes "read_output p marks sig out s w = Some ((out', s', e), w')" "honest_process p" "honest_error (snd s)"
  shows "honest_error e \<and> honest_error (snd s')"
proof -
  have "honest_process p \<longrightarrow> honest_error (snd s) \<longrightarrow> honest_error (snd (snd (fst y))) \<and> honest_error (snd (fst (snd (fst y))))"
    if "read_output p marks sig out s w = Some y" for y
  proof (rule read_output.raw_induct [where P = "\<lambda>p marks sig out s w y. honest_process p \<longrightarrow> honest_error (snd s) \<longrightarrow>
      honest_error (snd (snd (fst y))) \<and> honest_error (snd (fst (snd (fst y))))", OF _ that], goal_cases)
    case (1 rec p marks sig out s w y)
    show ?case
    proof (intro impI)
      assume p: "honest_process p" and s: "honest_error (snd s)"
      obtain line ending w1 where l: "pr_line p w = ((line, ending), w1)" by (metis prod.collapse)
      obtain s1 w2 where g: "(if line \<noteq> [] \<and> marks (trim_line line) then send_signal p sig s w1 else (s, w1)) = (s1, w2)"
        by (meson surj_pair)
      have s1: "honest_error (snd s1)"
        using g s p [unfolded honest_process_def, rule_format, of w1]
        by (auto simp: send_signal_def split: if_splits prod.splits dest: spec [of _ sig])
      note step = 1(2) [unfolded l prod.case g]
      show "honest_error (snd (snd (fst y))) \<and> honest_error (snd (fst (snd (fst y))))"
      proof (cases ending)
        case LineRead
        then have "rec p marks sig (out @ line) s1 w2 = Some y" using step by simp
        then show ?thesis using 1(1) p s1 by blast
      next
        case (ReadFailed e)
        have "honest_error (Some e)" using p [unfolded honest_process_def, rule_format, of w] l ReadFailed by simp
        then show ?thesis using step s1 ReadFailed by auto
      qed (use step s1 in auto)
    qed
  qed
  from this [OF assms(1)] show ?thesis using assms(2,3) by simp
qed

lemma signaling_honest:
  assumes "run_signaling_on_marker env c ctx marker signalName args w = Some ((out, errs, err), w')" "honest_env env"
  shows "honest_error err"
proof (cases "signal_by_name signalName")
  case (Inl e)
  then have "honest_error (Some e)"
    by (auto simp: signal_by_name_def honest_error_def invalid_spore_request_def errorf_def split: if_splits)
  then show ?thesis using assms Inl by (auto simp: run_signaling_on_marker_def)
next
  case (Inr sig)
  let ?cmd = "cc_command c args" and ?marks = "\<lambda>line. run_event_line_contains env line marker"
  have h: "honest_error (fst (px_pipes env ?cmd w))" "honest_error (px_ctx_err env ctx w)"
    "fst (px_start env ctx ?cmd w) = Inl e \<Longrightarrow> honest_error (Some e)"
    "fst (px_start env ctx ?cmd w) = Inr p \<Longrightarrow> honest_process p" for w e p
    using assms(2) by (auto simp: honest_env_def)
  obtain pe w1 where pe: "px_pipes env ?cmd w = (pe, w1)" by (meson surj_pair)
  obtain r w2 where st: "px_start env ctx ?cmd w1 = (r, w2)" by (meson surj_pair)
  show ?thesis
  proof (cases pe)
    case (Some e)
    then show ?thesis using assms(1) Inr pe h(1) [of w] by (auto simp: run_signaling_on_marker_def Let_def)
  next
    case None
    show ?thesis
    proof (cases r)
      case (Inl e)
      then show ?thesis using assms(1) Inr pe None st h(3) [of w1] by (auto simp: run_signaling_on_marker_def Let_def)
    next
      case p: (Inr p)
      have hp: "honest_process p" using h(4) [of w1] st p by simp
      obtain out1 b se oe w3 where rd: "read_output p ?marks sig [] (False, None) w2 = Some ((out1, (b, se), oe), w3)"
        using assms(1) Inr pe None st p by (auto simp: run_signaling_on_marker_def Let_def split: option.splits)
      obtain es ee w4 where se: "pr_stderr p w3 = ((es, ee), w4)" by (metis prod.collapse)
      obtain we w5 where wt: "pr_wait p w4 = (we, w5)" by (meson surj_pair)
      have "honest_error ee" "honest_error we"
        using hp [unfolded honest_process_def, rule_format, of w3] hp [unfolded honest_process_def, rule_format, of w4] se wt by simp_all
      moreover have "honest_error oe" "honest_error se" using read_output_honest [OF rd hp] by simp_all
      ultimately have "honest_error (signaling_error we oe ee b se marker (px_ctx_err env ctx w5))"
        using h(2) [of w5] by (intro honest_signaling_error) simp_all
      then show ?thesis using assms(1) Inr pe None st p rd se wt by (auto simp: run_signaling_on_marker_def Let_def)
    qed
  qed
qed

lemma watched_honest: "honest_env env \<Longrightarrow> honest_env (watched_env env)"
proof -
  have p: "honest_process (watched_process p)" if "honest_process p" for p :: "'a process"
    using that by (simp add: honest_process_def watched_process_def quietly_def case_prod_unfold)
  assume h: "honest_env env"
  have "fst (px_start (watched_env env) ctx cmd wl) = (case fst (px_start env ctx cmd (fst wl)) of Inl e \<Rightarrow> Inl e | Inr p \<Rightarrow> Inr (watched_process p))"
    "fst (px_pipes (watched_env env) cmd wl) = fst (px_pipes env cmd (fst wl))" "px_ctx_err (watched_env env) ctx wl = px_ctx_err env ctx (fst wl)"
    for ctx cmd wl by (simp_all add: watched_env_def quietly_def split: prod.splits sum.splits)
  then show "honest_env (watched_env env)" using h p unfolding honest_env_def by (auto split: sum.splits)
qed

section \<open>Calls and processes\<close>

lemma capture_cases:
  assumes "cc_run_capture env c ctx req wl = Some ((events, err), wl')" "run_capture_request_validate req = None"
  obtains out errs e where "(if rcq_readyMarker req \<noteq> []
      then run_signaling_on_marker env c ctx (rcq_readyMarker req) (rcq_captureSignal req) (run_capture_args req) wl
      else Some (cc_run env c ctx (run_capture_args req) wl)) = Some ((out, errs, e), wl')"
    "err = None \<Longrightarrow> \<exists>t. run_events_after_command env ''spore run'' out errs e True = (events, Inr t) \<and>
       ev_captured t \<and> ev_capture_path t \<noteq> None"
  using assms by (auto simp: cc_run_capture_def split: option.splits prod.splits sum.splits if_splits)

lemma honest_rejected:
  assumes "run_events_after_command env name out errs (Some e) True = (events, Inr t)" "honest_error (Some e)"
  shows False
  using run_events_accepted [THEN iffD1, OF assms(1)] assms(2) by (auto simp: exit_agrees_def honest_error_def)

lemma capture_log:
  assumes "cc_run_capture (watched_env env) c ctx req wl = Some ((events, err), wl')" "run_capture_request_validate req = None"
    "honest_env env"
  shows "filter is_start (snd wl') = filter is_start (snd wl) @ [Started (cc_command c (run_capture_args req))] \<or>
    filter is_start (snd wl') = filter is_start (snd wl) \<and> err \<noteq> None"
proof (rule capture_cases [OF assms(1,2)])
  fix out errs e
  let ?m = "rcq_readyMarker req"
  assume r: "(if ?m \<noteq> [] then run_signaling_on_marker (watched_env env) c ctx ?m (rcq_captureSignal req) (run_capture_args req) wl
      else Some (cc_run (watched_env env) c ctx (run_capture_args req) wl)) = Some ((out, errs, e), wl')"
    and ok: "err = None \<Longrightarrow> \<exists>t. run_events_after_command (watched_env env) ''spore run'' out errs e True = (events, Inr t) \<and>
       ev_captured t \<and> ev_capture_path t \<noteq> None"
  show ?thesis
  proof (cases "?m = []")
    case True
    then have "snd wl' = snd wl @ [Started (cc_command c (run_capture_args req))]"
      using r run_log [of env c ctx "run_capture_args req" wl] by simp
    then show ?thesis by (simp add: is_start_def)
  next
    case False
    then have s: "run_signaling_on_marker (watched_env env) c ctx ?m (rcq_captureSignal req) (run_capture_args req) wl = Some ((out, errs, e), wl')"
      using r by simp
    have "err \<noteq> None" if "e \<noteq> None"
      using that ok honest_rejected signaling_honest [OF s watched_honest [OF assms(3)]] by blast
    then show ?thesis using signaling_log [OF s] by (elim disjE exE conjE) (simp_all add: is_start_def)
  qed
qed

lemma call_log:
  assumes "call_error (watched_env env) c ctx call wl = Some (err, wl')" "call_refused call = None" "\<forall>r. call \<noteq> CaptureCall r"
  shows "snd wl' = snd wl @ [Started (cc_command c (command_line call))]"
proof -
  have v: "snd (snd (cc_version (watched_env env) c ctx wl)) = snd wl @ [Started (cc_command c [''--json'', ''version''])]"
    using run_json_log [of env c ctx "px_json_version (watched_env env)" "[''--json'', ''version'']" wl]
    by (auto simp: cc_version_def validated_def simp del: run_log run_json_log split: prod.splits sum.splits option.splits)
  have rm: "snd (snd (cc_remove_vm (watched_env env) c ctx r wl)) = snd wl @ [Started (cc_command c [''--json'', ''rm'', rvq_name r])]"
    if "remove_vm_request_validate r = None" for r
    using that run_log [of env c ctx "[''--json'', ''rm'', rvq_name r]" wl]
    by (auto simp: cc_remove_vm_def simp del: run_log run_json_log split: prod.splits option.splits gerr.splits)
  have rs: "snd (snd (cc_remove_saved_spore (watched_env env) c ctx r wl)) = snd wl @ [Started (cc_command c [''--json'', ''rm'', ''--spore'', rsv_sporeDir r])]"
    if "remove_saved_spore_request_validate r = None" for r
    using that run_json_log [of env c ctx "px_json_removed (watched_env env)" "[''--json'', ''rm'', ''--spore'', rsv_sporeDir r]" wl]
    by (auto simp: cc_remove_saved_spore_def simp del: run_log run_json_log split: prod.splits sum.splits)
  have gc: "snd (snd (cc_collect_cache (watched_env env) c ctx wl)) = snd wl @ [Started (cc_command c [''--json'', ''cache'', ''gc'', ''--force''])]"
    using run_json_log [of env c ctx "px_json_gc (watched_env env)" "[''--json'', ''cache'', ''gc'', ''--force'']" wl]
    by (auto simp: cc_collect_cache_def simp del: run_log run_json_log split: prod.splits sum.splits)
  have ex: "snd (snd (cc_exec (watched_env env) c ctx r wl)) = snd wl @ [Started (cc_command c (exec_args r))]"
    if "exec_request_validate r = None" for r
    using that run_log [of env c ctx "exec_args r" wl] by (auto simp: cc_exec_def simp del: run_log run_json_log split: prod.splits option.splits)
  show ?thesis
    using assms v rm rs gc ex
    by (cases call) (auto simp: cc_host_info_def cc_inspect_bundle_def cc_pull_def cc_fork_def cc_pack_def cc_resume_def
        cc_restore_named_def cc_run_from_def dest!: arg_cong [of _ _ "\<lambda>r. snd (snd r)"])
qed

text \<open>C7: a refused call starts no process and reports why; an accepted call starts exactly one, the one of its
  command line, save that a capture whose process cannot be set up starts none and fails. So a call
  that succeeds has run its command, once.\<close>

theorem one_process_per_call:
  assumes "honest_env env" "call_error (watched_env env) c ctx call (w, []) = Some (err, (w', trace))"
  shows "case call_refused call of
      Some e \<Rightarrow> trace = [] \<and> err = Some e
    | None \<Rightarrow> filter is_start trace = (if err = None \<or> filter is_start trace \<noteq> [] then [Started (cc_command c (command_line call))] else []) \<and>
        (case call of CaptureCall r \<Rightarrow> True | _ \<Rightarrow> trace = [Started (cc_command c (command_line call))])"
proof (cases "call_refused call")
  case (Some e)
  then have "call_error (watched_env env) c ctx call (w, []) = Some (Some e, (w, []))"
    by (cases call) (simp_all add: sum_error_def pair_error_def cc_inspect_bundle_def cc_pull_def cc_run_capture_def cc_fork_def
        cc_pack_def cc_resume_def cc_restore_named_def cc_run_from_def cc_exec_def cc_remove_vm_def cc_remove_saved_spore_def)
  then show ?thesis using assms(2) Some by simp
next
  case None
  show ?thesis
  proof (cases "\<exists>r. call = CaptureCall r")
    case True
    then obtain r where r: "call = CaptureCall r" by blast
    then obtain events where "cc_run_capture (watched_env env) c ctx r (w, []) = Some ((events, err), (w', trace))"
      using assms(2) by (auto simp: pair_error_def split: prod.splits)
    from capture_log [OF this _ assms(1)] None r show ?thesis by auto
  next
    case False
    then have "trace = [Started (cc_command c (command_line call))]" using call_log [OF assms(2) None] by simp
    then show ?thesis using None by (simp add: is_start_def split: command_call.splits)
  qed
qed

text \<open>C20: a capture that succeeds ended with a completion that says completed with exit code 0 and names the
  captured parent, and when it waits for a marker the signal went out once, right after the first
  line of output that contains the marker.\<close>

theorem capture_signals:
  assumes "honest_env env" "cc_run_capture (watched_env env) c ctx req (w, []) = Some ((events, None), (w', trace))"
  shows "(\<exists>t. terminal_event events = Inr t \<and> ev_outcome t = ''completed'' \<and> ev_exit_code t = Some 0 \<and> ev_captured t \<and>
      ev_capture_path t \<noteq> None) \<and>
    (if rcq_readyMarker req = [] then trace = [Started (cc_command c (run_capture_args req))]
     else \<exists>pre line post. trace = Started (cc_command c (run_capture_args req)) #
         map ReadLine pre @ [ReadLine line, Signaled ''USR1''] @ map ReadLine post \<and>
       marked_line (\<lambda>l. run_event_line_contains env l (rcq_readyMarker req)) line \<and>
       \<not> list_ex (marked_line (\<lambda>l. run_event_line_contains env l (rcq_readyMarker req))) pre \<and>
       px_json_events env (concat (pre @ line # post)) = map Inr events)"
proof -
  let ?m = "rcq_readyMarker req" and ?env = "watched_env env" and ?args = "run_capture_args req"
  have v: "run_capture_request_validate req = None"
    using assms(2) by (auto simp: cc_run_capture_def split: option.splits)
  obtain out errs e where r: "(if ?m \<noteq> [] then run_signaling_on_marker ?env c ctx ?m (rcq_captureSignal req) ?args (w, [])
      else Some (cc_run ?env c ctx ?args (w, []))) = Some ((out, errs, e), (w', trace))"
    and "\<exists>t. run_events_after_command ?env ''spore run'' out errs e True = (events, Inr t) \<and> ev_captured t \<and> ev_capture_path t \<noteq> None"
    using capture_cases [OF assms(2) v] by metis
  then obtain t where t: "run_events_after_command ?env ''spore run'' out errs e True = (events, Inr t)" "ev_captured t" "ev_capture_path t \<noteq> None"
    by blast
  note a = run_events_accepted [THEN iffD1, OF t(1)]
  have ev: "px_json_events ?env = px_json_events env" by (simp add: watched_env_def)
  show ?thesis
  proof (cases "?m = []")
    case True
    then show ?thesis using a t(2,3) r run_log [of env c ctx ?args "(w, [])"] by auto
  next
    case False
    then have s: "run_signaling_on_marker ?env c ctx ?m (rcq_captureSignal req) ?args (w, []) = Some ((out, errs, e), (w', trace))"
      using r by simp
    have "e = None" using honest_rejected t(1) signaling_honest [OF s watched_honest [OF assms(1)]] by (cases e) auto
    then obtain lines where l: "trace = Started (cc_command c ?args) #
        signal_after_first (marked_line (\<lambda>line. run_event_line_contains env line ?m)) ''USR1'' lines" "out = concat lines"
      "\<exists>x \<in> set lines. marked_line (\<lambda>line. run_event_line_contains env line ?m) x"
      using signaling_log [OF s] by auto
    obtain pre x post where p: "lines = pre @ x # post" "\<forall>y \<in> set pre. \<not> marked_line (\<lambda>line. run_event_line_contains env line ?m) y"
      "marked_line (\<lambda>line. run_event_line_contains env line ?m) x"
      "signal_after_first (marked_line (\<lambda>line. run_event_line_contains env line ?m)) ''USR1'' lines =
        map ReadLine pre @ [ReadLine x, Signaled ''USR1''] @ map ReadLine post"
      by (rule signal_after_first_split [OF l(3)])
    have "\<exists>pre line post. trace = Started (cc_command c ?args) # map ReadLine pre @ [ReadLine line, Signaled ''USR1''] @ map ReadLine post \<and>
        marked_line (\<lambda>l. run_event_line_contains env l ?m) line \<and> \<not> list_ex (marked_line (\<lambda>l. run_event_line_contains env l ?m)) pre \<and>
        px_json_events env (concat (pre @ line # post)) = map Inr events"
      using l p a ev by (intro exI [of _ pre] exI [of _ x] exI [of _ post]) (auto simp: list_ex_iff)
    then show ?thesis using False a t(2,3) by simp
  qed
qed

section \<open>Captures return\<close>

text \<open>A bound on the lines a process still prints, which reading lowers and the signal does not raise.\<close>

definition output_ends :: "'w process \<Rightarrow> ('w \<Rightarrow> nat) \<Rightarrow> bool" where
  "output_ends p left \<longleftrightarrow> (\<forall>w. (snd (fst (pr_line p w)) = LineRead \<longrightarrow> left (snd (pr_line p w)) < left w) \<and>
     (\<forall>sig. left (snd (pr_signal p sig w)) \<le> left w))"

lemma read_output_returns:
  assumes "output_ends p left"
  shows "read_output p marks sig out s w \<noteq> None"
proof (induction "left w" arbitrary: out s w rule: less_induct)
  case less
  obtain line ending w1 where l: "pr_line p w = ((line, ending), w1)" by (metis prod.collapse)
  obtain s1 w2 where g: "(if line \<noteq> [] \<and> marks (trim_line line) then send_signal p sig s w1 else (s, w1)) = (s1, w2)"
    by (meson surj_pair)
  have "left w2 \<le> left w1"
    using g assms [unfolded output_ends_def, rule_format, of w1]
    by (auto simp: send_signal_def split: if_splits prod.splits dest: spec [of _ sig])
  moreover have "ending = LineRead \<Longrightarrow> left w1 < left w"
    using assms [unfolded output_ends_def, rule_format, of w] l by simp
  ultimately have ih: "ending = LineRead \<Longrightarrow> read_output p marks sig (out @ line) s1 w2 \<noteq> None" by (intro less) simp
  show ?case by (subst read_output.simps) (use ih in \<open>simp add: l g del: not_None_eq split: read_end.splits\<close>)
qed

text \<open>A capture returns whenever the processes it starts print finitely many lines, signaled or not.\<close>

lemma capture_returns:
  assumes "\<And>cmd w1 p w2. px_start env ctx cmd w1 = (Inr p, w2) \<Longrightarrow> \<exists>left. output_ends p left"
  shows "\<exists>r. cc_run_capture env c ctx req w = Some r"
proof -
  have "read_output p marks sig out s w2 \<noteq> None" if st: "px_start env ctx cmd w1 = (Inr p, w2)" for cmd w1 p w2 marks sig out s
  proof -
    obtain left where "output_ends p left" using assms [OF st] ..
    then show ?thesis by (rule read_output_returns)
  qed
  then have "run_signaling_on_marker env c ctx marker sig args w \<noteq> None" for marker sig args
    by (auto simp: run_signaling_on_marker_def Let_def simp del: not_None_eq split: prod.splits sum.splits option.splits)
  then obtain r where "run_signaling_on_marker env c ctx (rcq_readyMarker req) (rcq_captureSignal req) (run_capture_args req) w = Some r"
    by blast
  then have "cc_run_capture env c ctx req w \<noteq> None"
    by (auto simp: cc_run_capture_def simp del: not_None_eq split: option.splits prod.splits sum.splits if_splits)
  then show ?thesis by blast
qed

section \<open>A process that prints two lines\<close>

definition sample_captured :: run_event where
  "sample_captured = sample_completion\<lparr>ev_captured := True, ev_capture_path := Some ''/parent''\<rparr>"

text \<open>The world is the number of lines that are left.\<close>

definition sample_process :: "nat process" where
  "sample_process = \<lparr>pr_line = (\<lambda>n. if n = 2 then ((''ready'', LineRead), 1) else if n = 1 then ((''done'', LineRead), 0)
       else (([], EndOfOutput), 0)),
     pr_stderr = (\<lambda>n. (([], None), n)), pr_signal = (\<lambda>_ n. (None, n)), pr_wait = (\<lambda>n. (None, n))\<rparr>"

definition sample_processes :: "nat process_env" where
  "sample_processes = \<lparr>px_look_path = (\<lambda>path n. (Inr path, n)), px_run = (\<lambda>_ _ n. (([], [], None), n)),
     px_pipes = (\<lambda>_ n. (None, n)), px_start = (\<lambda>_ _ _. (Inr sample_process, 2)), px_ctx_err = (\<lambda>_ _. None),
     px_json_version = (\<lambda>_. (Inl [], TrailingEOF)), px_json_host_info = (\<lambda>_. (Inl [], TrailingEOF)),
     px_json_inspect = (\<lambda>_. (Inl [], TrailingEOF)), px_json_pull = (\<lambda>_. (Inl [], TrailingEOF)),
     px_json_restored = (\<lambda>_. (Inl [], TrailingEOF)), px_json_removed = (\<lambda>_. (Inl [], TrailingEOF)),
     px_json_gc = (\<lambda>_. (Inl [], TrailingEOF)), px_json_events = (\<lambda>_. [Inr sample_captured]), px_json_event = (\<lambda>_. None),
     px_json_error = (\<lambda>_. None)\<rparr>"

definition sample_capture :: run_capture_request where
  "sample_capture = \<lparr>rcq_image = ''img'', rcq_captureDir = ''/parent'', rcq_captureSignal = ''USR1'', rcq_readyMarker = ''ready'',
     rcq_backend = [], rcq_memory = [], rcq_command = [''true'']\<rparr>"

definition sample_client :: command_client where
  "sample_client = \<lparr>cmc_path = [], cmc_dir = [], cmc_env = None\<rparr>"

lemma sample_capture_valid: "run_capture_request_validate sample_capture = None"
  by (simp add: run_capture_request_validate_def sample_capture_def first_err_all)

lemma sample_honest: "honest_env sample_processes"
  by (simp add: honest_env_def sample_processes_def honest_process_def sample_process_def)

lemma sample_marks:
  "run_event_line_contains sample_processes (trim_line ''ready'') ''ready''"
  "\<not> run_event_line_contains sample_processes (trim_line ''done'') ''ready''"
  by (simp_all add: run_event_line_contains_def trim_line_def sample_processes_def has_prefix_def)

lemma sample_reads:
  "read_output (watched_process sample_process) (\<lambda>line. run_event_line_contains sample_processes line ''ready'') ''USR1'' [] (False, None) (2, l) =
     Some ((''readydone'', (True, None), None), (0, l @ [ReadLine ''ready'', Signaled ''USR1'', ReadLine ''done'', ReadLine []]))"
  by (simp add: read_output.simps [of _ _ _ _ _ "(2, _)"] read_output.simps [of _ _ _ _ _ "(Suc 0, _)"] read_output.simps [of _ _ _ _ _ "(0, _)"]
      watched_process_def sample_process_def send_signal_def sample_marks)

lemma sample_captured_accepted:
  "run_events_after_command (watched_env sample_processes) name out [] None True = ([sample_captured], Inr sample_captured)"
proof -
  have "run_event_validate sample_captured = None"
    using sample_completion_valid by (simp add: run_event_validate_def sample_captured_def event_terminal_def completion_validate_def sample_completion_def)
  moreover have "terminal_event [sample_captured] = Inr sample_captured"
    by (simp add: terminal_event_def event_terminal_def sample_captured_def sample_completion_def)
  moreover have "px_json_events (watched_env sample_processes) out = map Inr [sample_captured]"
    by (simp add: watched_env_def sample_processes_def)
  ultimately show ?thesis
    unfolding run_events_accepted by (simp add: exit_agrees_def sample_captured_def sample_completion_def)
qed

definition sample_trace :: "process_event list" where
  "sample_trace = [Started (cc_command sample_client (run_capture_args sample_capture)),
     ReadLine ''ready'', Signaled ''USR1'', ReadLine ''done'', ReadLine []]"

lemma sample_captures:
  "cc_run_capture (watched_env sample_processes) sample_client CallerCtx sample_capture (0, []) =
     Some (([sample_captured], None), (0, sample_trace))"
proof -
  let ?env = "watched_env sample_processes" and ?cmd = "cc_command sample_client (run_capture_args sample_capture)"
  have e: "px_pipes ?env ?cmd (0, []) = (None, (0, []))"
    "px_start ?env CallerCtx ?cmd (0, []) = (Inr (watched_process sample_process), (2, [Started ?cmd]))"
    "px_ctx_err ?env CallerCtx wl = None" "run_event_line_contains ?env line ''ready'' = run_event_line_contains sample_processes line ''ready''"
    for wl line by (simp_all add: watched_env_def sample_processes_def quietly_def run_event_line_contains_def)
  have p: "pr_stderr (watched_process sample_process) wl = (([], None), wl)" "pr_wait (watched_process sample_process) wl = (None, wl)" for wl
    by (simp_all add: watched_process_def sample_process_def quietly_def)
  have "signaling_error None None None True None ''ready'' None = None" by (simp add: signaling_error_None)
  then have r: "run_signaling_on_marker ?env sample_client CallerCtx ''ready'' ''USR1'' (run_capture_args sample_capture) (0, []) =
      Some ((''readydone'', [], None), (0, sample_trace))"
    by (simp add: run_signaling_on_marker_def signal_by_name_def trim_prefix_def has_prefix_def e sample_reads p sample_trace_def Let_def)
  have c: "rcq_readyMarker sample_capture = ''ready''" "rcq_captureSignal sample_capture = ''USR1''" by (simp_all add: sample_capture_def)
  show ?thesis
    by (simp add: cc_run_capture_def sample_capture_valid c r sample_captured_accepted) (simp add: sample_captured_def)
qed

theorem one_process_per_call_witness:
  "filter is_start sample_trace = [Started (cc_command sample_client (command_line (CaptureCall sample_capture)))]"
proof -
  have "call_error (watched_env sample_processes) sample_client CallerCtx (CaptureCall sample_capture) (0, []) = Some (None, (0, sample_trace))"
    by (simp add: sample_captures pair_error_def)
  from one_process_per_call [OF sample_honest this] show ?thesis by (simp add: sample_capture_valid)
qed

theorem capture_signals_witness:
  "\<exists>pre line post. sample_trace = Started (cc_command sample_client (run_capture_args sample_capture)) #
     map ReadLine pre @ [ReadLine line, Signaled ''USR1''] @ map ReadLine post"
proof -
  have "rcq_readyMarker sample_capture \<noteq> []" by (simp add: sample_capture_def)
  then show ?thesis using capture_signals [OF sample_honest sample_captures] by auto
qed

lemma capture_returns_witness:
  "\<exists>r. cc_run_capture sample_processes sample_client CallerCtx sample_capture 0 = Some r"
proof (rule capture_returns)
  show "\<exists>left. output_ends p left" if "px_start sample_processes CallerCtx cmd w1 = (Inr p, w2)" for cmd w1 p w2
    using that by (intro exI [of _ id]) (auto simp: sample_processes_def output_ends_def sample_process_def)
qed

end
