(* ===== verification/GoFlags.thy ===== *)
theory GoFlags
  imports AgentTypes
begin

text \<open>
  What the programs under \<open>cmd\<close> use to configure themselves: environment variables with a fallback,
  \<open>strconv.ParseBool\<close>, \<open>time.ParseDuration\<close> with \<open>time.Duration.String\<close>, and the package \<open>flag\<close>. A
  duration that was printed is read back exactly.
\<close>

section \<open>Durations\<close>

text \<open>\<open>1 << 63\<close> as a \<open>uint64\<close>.\<close>

definition two63 :: nat where
  "two63 = 2 ^ 63"

text \<open>\<open>leadingInt\<close> and \<open>leadingFraction\<close> of the package \<open>time\<close>; the scale is a power of ten.\<close>

fun leading_int :: "nat \<Rightarrow> string \<Rightarrow> (nat \<times> string) option" where
  "leading_int x [] = Some (x, [])"
| "leading_int x (c # cs) =
     (if \<not> is_digit c then Some (x, c # cs)
      else if x > two63 div 10 then None
      else if 10 * x + digit_val c > two63 then None
      else leading_int (10 * x + digit_val c) cs)"

fun leading_fraction :: "bool \<Rightarrow> nat \<Rightarrow> nat \<Rightarrow> string \<Rightarrow> nat \<times> nat \<times> string" where
  "leading_fraction overflow x scale [] = (x, scale, [])"
| "leading_fraction overflow x scale (c # cs) =
     (if \<not> is_digit c then (x, scale, c # cs)
      else if overflow \<or> x > (two63 - 1) div 10 \<or> 10 * x + digit_val c > two63
      then leading_fraction True x scale cs
      else leading_fraction False (10 * x + digit_val c) (10 * scale) cs)"

text \<open>\<open>unitMap\<close>; the micro sign and the Greek letter are two bytes each.\<close>

definition duration_units :: "(string \<times> nat) list" where
  "duration_units =
     [(''ns'', 1), (''us'', 10 ^ 3), ([CHR 0xC2, CHR 0xB5, CHR ''s''], 10 ^ 3), ([CHR 0xCE, CHR 0xBC, CHR ''s''], 10 ^ 3),
      (''ms'', 10 ^ 6), (''s'', 10 ^ 9), (''m'', 60 * 10 ^ 9), (''h'', 3600 * 10 ^ 9)]"

definition unit_char :: "char \<Rightarrow> bool" where
  "unit_char c \<longleftrightarrow> c \<noteq> CHR ''.'' \<and> \<not> is_digit c"

text \<open>The part of a number after a period, whether it has digits, and what follows it. The code
  computes with fractions in floating point.\<close>

definition fraction_part :: "string \<Rightarrow> nat \<times> nat \<times> string \<times> bool" where
  "fraction_part s =
     (if s = [] \<or> hd s \<noteq> CHR ''.'' then (0, 1, s, False)
      else case leading_fraction False 0 1 (tl s) of (f, scale, r) \<Rightarrow> (f, scale, r, length r \<noteq> length (tl s)))"

text \<open>A number times the unit that follows it.\<close>

definition with_unit :: "nat \<Rightarrow> nat \<Rightarrow> nat \<Rightarrow> string \<Rightarrow> (nat \<times> string) option" where
  "with_unit v f scale s =
     (case map_of duration_units (takeWhile unit_char s) of None \<Rightarrow> None
      | Some factor \<Rightarrow>
          if v > two63 div factor \<or> v * factor + f * factor div scale > two63 then None
          else Some (v * factor + f * factor div scale, dropWhile unit_char s))"

definition duration_term :: "string \<Rightarrow> (nat \<times> string) option" where
  "duration_term s =
     (if unit_char (hd s) then None
      else case leading_int 0 s of None \<Rightarrow> None
      | Some (v, s1) \<Rightarrow>
          (case fraction_part s1 of (f, scale, s2, post) \<Rightarrow>
             if length s1 = length s \<and> \<not> post then None else with_unit v f scale s2))"

lemma leading_int_length: "leading_int x s = Some (v, r) \<Longrightarrow> length r \<le> length s"
  by (induction x s rule: leading_int.induct) (auto split: if_splits)

lemma leading_fraction_length: "length (snd (snd (leading_fraction b x sc s))) \<le> length s"
  by (induction b x sc s rule: leading_fraction.induct) auto

lemma fraction_part_length: "fraction_part s = (f, sc, r, post) \<Longrightarrow> length r \<le> length s"
  using leading_fraction_length [of False 0 1 "tl s"]
  by (cases "leading_fraction False 0 1 (tl s)") (auto simp: fraction_part_def split: if_splits)

lemma unit_shorter: "takeWhile P s \<noteq> [] \<Longrightarrow> length (dropWhile P s) < length s"
  by (cases s) (auto simp: less_Suc_eq_le length_dropWhile_le split: if_splits)

lemma units_not_empty: "map_of duration_units [] = None"
  by (simp add: duration_units_def)

lemma with_unit_length: "with_unit v f sc s = Some (d, r) \<Longrightarrow> length r < length s"
proof -
  assume w: "with_unit v f sc s = Some (d, r)"
  then have "takeWhile unit_char s \<noteq> []" by (auto simp: with_unit_def units_not_empty)
  moreover have "r = dropWhile unit_char s" using w by (auto simp: with_unit_def split: option.splits if_splits)
  ultimately show ?thesis using unit_shorter by blast
qed

lemma duration_term_length: "duration_term s = Some (v, r) \<Longrightarrow> length r < length s"
proof -
  assume t: "duration_term s = Some (v, r)"
  obtain v1 s1 where i: "leading_int 0 s = Some (v1, s1)"
    using t by (auto simp: duration_term_def split: if_splits option.splits)
  obtain f sc s2 post where j: "fraction_part s1 = (f, sc, s2, post)" by (metis prod_cases4)
  have "with_unit v1 f sc s2 = Some (v, r)" using t i j by (auto simp: duration_term_def split: if_splits)
  then show ?thesis
    using leading_int_length [OF i] fraction_part_length [OF j] with_unit_length by fastforce
qed

text \<open>The loop; \<open>d\<close> is a \<open>uint64\<close>.\<close>

function duration_loop :: "nat \<Rightarrow> string \<Rightarrow> nat option" where
  "duration_loop d s =
     (if s = [] then Some d
      else case duration_term s of None \<Rightarrow> None
      | Some (v, r) \<Rightarrow> if (d + v) mod 2 ^ 64 > two63 then None else duration_loop ((d + v) mod 2 ^ 64) r)"
  by pat_completeness auto

termination
  by (relation "measure (\<lambda>(d, s). length s)") (auto dest: duration_term_length)

declare duration_loop.simps [simp del]

definition parse_duration :: "string \<Rightarrow> int option" where
  "parse_duration text =
     (let neg = (text \<noteq> [] \<and> hd text = CHR ''-'');
          s = (if text \<noteq> [] \<and> (hd text = CHR ''-'' \<or> hd text = CHR ''+'') then tl text else text) in
      if s = ''0'' then Some 0
      else if s = [] then None
      else case duration_loop 0 s of None \<Rightarrow> None
      | Some d \<Rightarrow> if neg then Some (- int d) else if d > two63 - 1 then None else Some (int d))"

text \<open>\<open>time.Duration.String\<close> with \<open>fmtFrac\<close>.\<close>

definition fmt_frac :: "nat \<Rightarrow> nat \<Rightarrow> string" where
  "fmt_frac v prec =
     (let ds = rev (dropWhile (\<lambda>c. c = CHR ''0'') (rev (pad0 prec (int (v mod 10 ^ prec))))) in
      if ds = [] then [] else CHR ''.'' # ds)"

definition duration_string :: "int \<Rightarrow> string" where
  "duration_string d =
     (let u = nat \<bar>d\<bar>; secs = u div 10 ^ 9; mins = secs div 60; hrs = mins div 60;
          body =
            (if u = 0 then ''0s''
             else if u < 10 ^ 3 then utoa u @ ''ns''
             else if u < 10 ^ 6 then utoa (u div 10 ^ 3) @ fmt_frac u 3 @ [CHR 0xC2, CHR 0xB5, CHR ''s'']
             else if u < 10 ^ 9 then utoa (u div 10 ^ 6) @ fmt_frac u 6 @ ''ms''
             else (if mins = 0 then [] else (if hrs = 0 then [] else utoa hrs @ ''h'') @ utoa (mins mod 60) @ ''m'')
               @ utoa (secs mod 60) @ fmt_frac u 9 @ ''s'')
      in if d < 0 then CHR ''-'' # body else body)"

section \<open>Reading a printed duration\<close>

lemma atou_acc_le: "x \<le> atou_acc x ds"
proof (induction ds arbitrary: x)
  case (Cons c ds)
  have "x \<le> 10 * x + digit_val c" by simp
  also have "\<dots> \<le> atou_acc (10 * x + digit_val c) ds" by (rule Cons)
  finally show ?case by simp
qed simp

lemma atou_acc_first: "10 * x + digit_val c \<le> atou_acc x (c # ds)"
  using atou_acc_le by simp

definition no_digit_first :: "string \<Rightarrow> bool" where
  "no_digit_first r \<longleftrightarrow> r = [] \<or> \<not> is_digit (hd r)"

lemma leading_int_digits:
  "list_all is_digit ds \<Longrightarrow> atou_acc x ds \<le> two63 \<Longrightarrow> no_digit_first r \<Longrightarrow>
    leading_int x (ds @ r) = Some (atou_acc x ds, r)"
proof (induction ds arbitrary: x)
  case Nil
  then show ?case by (cases r) (auto simp: no_digit_first_def)
next
  case (Cons c ds)
  then have "10 * x + digit_val c \<le> two63" using atou_acc_first [of x c ds] by simp
  moreover from this have "x \<le> two63 div 10" by simp
  ultimately show ?case using Cons by simp
qed

lemma leading_fraction_digits:
  "list_all is_digit ds \<Longrightarrow> atou_acc x ds < two63 \<Longrightarrow> no_digit_first r \<Longrightarrow>
    leading_fraction False x sc (ds @ r) = (atou_acc x ds, 10 ^ length ds * sc, r)"
proof (induction ds arbitrary: x sc)
  case Nil
  then show ?case by (cases r) (auto simp: no_digit_first_def)
next
  case (Cons c ds)
  then have le: "10 * x + digit_val c \<le> two63 - 1" using atou_acc_first [of x c ds] by simp
  then have "10 * x \<le> two63 - 1" "10 * x + digit_val c \<le> two63" by linarith+
  then have "\<not> x > (two63 - 1) div 10" "\<not> 10 * x + digit_val c > two63"
    by (simp_all add: less_eq_div_iff_mult_less_eq not_less ac_simps)
  moreover have "is_digit c" using Cons by simp
  ultimately have "leading_fraction False x sc ((c # ds) @ r) =
      leading_fraction False (10 * x + digit_val c) (10 * sc) (ds @ r)"
    by (simp only: append_Cons leading_fraction.simps simp_thms if_True if_False)
  moreover have "leading_fraction False (10 * x + digit_val c) (10 * sc) (ds @ r) =
      (atou_acc (10 * x + digit_val c) ds, 10 ^ length ds * (10 * sc), r)"
    by (rule Cons.IH) (use Cons in simp_all)
  ultimately show ?case by simp
qed

text \<open>A fraction as it is printed: nothing, or a period and digits.\<close>

definition printed_fraction :: "string \<Rightarrow> nat \<Rightarrow> nat \<Rightarrow> bool" where
  "printed_fraction t f scale \<longleftrightarrow>
     (t = [] \<and> f = 0 \<and> scale = 1) \<or>
     (\<exists>ds. t = CHR ''.'' # ds \<and> ds \<noteq> [] \<and> list_all is_digit ds \<and> f = atou_acc 0 ds \<and> scale = 10 ^ length ds)"

lemma fraction_part_printed:
  assumes "printed_fraction t f scale" "f < two63" "no_digit_first r" "r \<noteq> [] \<Longrightarrow> hd r \<noteq> CHR ''.''"
  shows "\<exists>post. fraction_part (t @ r) = (f, scale, r, post)"
  using assms(1) unfolding printed_fraction_def
proof (elim disjE exE conjE)
  assume "t = []" "f = 0" "scale = 1"
  then show ?thesis using assms(4) by (auto simp: fraction_part_def)
next
  fix ds
  assume d: "t = CHR ''.'' # ds" "list_all is_digit ds" "f = atou_acc 0 ds" "scale = 10 ^ length ds"
  then show ?thesis using leading_fraction_digits [of ds 0 r 1] assms by (simp add: fraction_part_def)
qed

lemma no_digit_unit: "u \<noteq> [] \<Longrightarrow> list_all unit_char u \<Longrightarrow> no_digit_first (u @ r) \<and> hd (u @ r) \<noteq> CHR ''.''"
  by (cases u) (auto simp: no_digit_first_def unit_char_def)

lemma no_digit_fraction: "printed_fraction t f scale \<Longrightarrow> no_digit_first r \<Longrightarrow> no_digit_first (t @ r)"
  by (auto simp: printed_fraction_def no_digit_first_def is_digit_def)

text \<open>What may follow a number with its unit: the next number, or the end.\<close>

definition next_number :: "string \<Rightarrow> bool" where
  "next_number r \<longleftrightarrow> r = [] \<or> is_digit (hd r)"

lemma unit_split:
  "list_all unit_char u \<Longrightarrow> next_number r \<Longrightarrow> takeWhile unit_char (u @ r) = u \<and> dropWhile unit_char (u @ r) = r"
  by (induction u) (cases r; auto simp: next_number_def unit_char_def)+

lemma duration_term_printed:
  assumes "printed_fraction t f scale" "f < two63" "map_of duration_units u = Some factor" "u \<noteq> []" "list_all unit_char u"
    "next_number r" "n \<le> two63 div factor" "n * factor + f * factor div scale \<le> two63" "factor > 0"
  shows "duration_term (utoa n @ t @ u @ r) = Some (n * factor + f * factor div scale, r)"
proof -
  note nd = no_digit_unit [OF assms(4,5), of r]
  have n: "n \<le> two63" using assms(7) by (metis div_le_dividend le_trans)
  have i: "leading_int 0 (utoa n @ t @ u @ r) = Some (n, t @ u @ r)"
    using leading_int_digits [of "utoa n" 0 "t @ u @ r"] utoa_digits n no_digit_fraction [OF assms(1)] nd by simp
  obtain post where p: "fraction_part (t @ u @ r) = (f, scale, u @ r, post)"
    using fraction_part_printed [OF assms(1,2), of "u @ r"] nd by auto
  have "\<not> unit_char (hd (utoa n @ t @ u @ r))" using utoa_hd_digit [of n] by (simp add: unit_char_def)
  moreover have "with_unit n f scale (u @ r) = Some (n * factor + f * factor div scale, r)"
    using unit_split [OF assms(5,6)] assms(3,7,8) by (simp add: with_unit_def)
  ultimately show ?thesis using i p by (simp add: duration_term_def)
qed

lemma utoa_length: "m < 10 ^ n \<Longrightarrow> n > 0 \<Longrightarrow> length (utoa m) \<le> n"
proof (induction m arbitrary: n rule: utoa.induct)
  case (1 m)
  show ?case
  proof (cases "m < 10")
    case True
    then show ?thesis using 1 by (subst utoa.simps) simp
  next
    case False
    then obtain n' where n: "n = Suc n'" "n' > 0" using 1 by (cases n; cases "n - 1") auto
    then have "m div 10 < 10 ^ n'" using 1 by (simp add: less_mult_imp_div_less ac_simps)
    then show ?thesis using 1 False n by (subst utoa.simps) simp
  qed
qed

lemma pad0_length: "m < 10 ^ n \<Longrightarrow> n > 0 \<Longrightarrow> length (pad0 n (int m)) = n"
  using utoa_length [of m n] by (simp add: pad0_def)

lemma atou_trailing: "atou_acc 0 (ds @ replicate k (CHR ''0'')) = atou_acc 0 ds * 10 ^ k"
proof (induction k)
  case (Suc k)
  have "ds @ replicate (Suc k) (CHR ''0'') = (ds @ replicate k (CHR ''0'')) @ [CHR ''0'']"
    by (simp add: replicate_append_same)
  then show ?case using Suc by (simp only: atou_acc_append) (simp add: digit_val_def atou_acc_append)
qed simp

lemma trim_zeros: "\<exists>k. ds = rev (dropWhile (\<lambda>c. c = z) (rev ds)) @ replicate k z"
proof -
  have "rev ds = takeWhile (\<lambda>c. c = z) (rev ds) @ dropWhile (\<lambda>c. c = z) (rev ds)" by simp
  then have "ds = rev (dropWhile (\<lambda>c. c = z) (rev ds)) @ rev (takeWhile (\<lambda>c. c = z) (rev ds))"
    by (metis rev_append rev_rev_ident)
  moreover have "takeWhile (\<lambda>c. c = z) (rev ds) = replicate (length (takeWhile (\<lambda>c. c = z) (rev ds))) z"
    by (rule replicate_eqI) (auto dest: set_takeWhileD)
  ultimately show ?thesis by (metis rev_replicate)
qed

lemma fmt_frac_printed:
  assumes "prec > 0"
  shows "\<exists>f scale. printed_fraction (fmt_frac v prec) f scale \<and> f < 10 ^ prec \<and>
    f * 10 ^ prec div scale = v mod 10 ^ prec"
proof -
  define m where "m = v mod 10 ^ prec"
  define p where "p = pad0 prec (int m)"
  define d where "d = rev (dropWhile (\<lambda>c. c = CHR ''0'') (rev p))"
  have m: "m < 10 ^ prec" by (simp add: m_def)
  obtain k where k: "p = d @ replicate k (CHR ''0'')" using trim_zeros [of p] unfolding d_def by blast
  have "length p = prec" using pad0_length [OF m assms] by (simp add: p_def)
  then have len: "length d + k = prec" using k by simp
  have "atou_acc 0 p = m" by (simp add: p_def atou_pad0)
  then have val: "atou_acc 0 d * 10 ^ k = m" using atou_trailing [of d k] k by simp
  have "list_all is_digit p" by (simp add: p_def pad0_digits)
  then have dig: "list_all is_digit d" using k by simp
  have f: "fmt_frac v prec = (if d = [] then [] else CHR ''.'' # d)"
    by (simp add: fmt_frac_def m_def [symmetric] p_def [symmetric] d_def [symmetric] Let_def flip: of_nat_mod)
  have "atou_acc 0 d * 1 \<le> atou_acc 0 d * 10 ^ k" by (rule mult_le_mono2) simp
  then have le: "atou_acc 0 d \<le> m" using val by simp
  show ?thesis
  proof (cases "d = []")
    case True
    then show ?thesis using val f m_def by (intro exI [of _ 0] exI [of _ 1]) (simp add: printed_fraction_def)
  next
    case False
    have "atou_acc 0 d * 10 ^ prec = m * 10 ^ length d"
      using val len by (metis (no_types, lifting) mult.assoc mult.commute power_add)
    then have "printed_fraction (fmt_frac v prec) (atou_acc 0 d) (10 ^ length d) \<and> atou_acc 0 d < 10 ^ prec \<and>
        atou_acc 0 d * 10 ^ prec div 10 ^ length d = v mod 10 ^ prec"
      using False f dig le_less_trans [OF le m] m_def by (simp add: printed_fraction_def)
    then show ?thesis by blast
  qed
qed

lemma duration_loop_step:
  assumes "duration_term s = Some (v, r)" "d + v \<le> two63" "s \<noteq> []"
  shows "duration_loop d s = duration_loop (d + v) r"
proof -
  have "(d + v) mod 2 ^ 64 = d + v" using assms(2) by (simp add: two63_def)
  then show ?thesis using assms by (subst duration_loop.simps) simp
qed

lemma duration_loop_end: "duration_loop d [] = Some d"
  by (simp add: duration_loop.simps)

lemma loop_printed:
  assumes "printed_fraction t f scale" "f < 10 ^ 9" "map_of duration_units u = Some factor" "u \<noteq> []" "list_all unit_char u"
    "next_number r" "factor > 0" "v = n * factor + f * factor div scale" "d + v \<le> two63"
  shows "duration_loop d (utoa n @ t @ u @ r) = duration_loop (d + v) r"
proof -
  have "f < two63" using assms(2) by (simp add: two63_def)
  moreover have "n \<le> two63 div factor"
  proof -
    have "n * factor \<le> two63" using assms(8,9) by simp
    then show ?thesis using assms(7) by (simp add: less_eq_div_iff_mult_less_eq)
  qed
  ultimately have "duration_term (utoa n @ t @ u @ r) = Some (v, r)"
    using duration_term_printed [of t f scale u factor r n] assms by simp
  then show ?thesis using duration_loop_step assms(9) by simp
qed

lemma no_fraction: "printed_fraction [] 0 1"
  by (simp add: printed_fraction_def)

lemma units_chars:
  "list_all unit_char ''ns''" "list_all unit_char [CHR 0xC2, CHR 0xB5, CHR ''s'']" "list_all unit_char ''ms''"
  "list_all unit_char ''s''" "list_all unit_char ''m''" "list_all unit_char ''h''"
  by (simp_all add: unit_char_def is_digit_def)

lemma unit_factors:
  "map_of duration_units ''ns'' = Some 1" "map_of duration_units [CHR 0xC2, CHR 0xB5, CHR ''s''] = Some (10 ^ 3)"
  "map_of duration_units ''ms'' = Some (10 ^ 6)" "map_of duration_units ''s'' = Some (10 ^ 9)"
  "map_of duration_units ''m'' = Some (60 * 10 ^ 9)" "map_of duration_units ''h'' = Some (3600 * 10 ^ 9)"
  by (simp_all add: duration_units_def)

lemma loop_single:
  assumes "0 < prec" "prec \<le> 9" "map_of duration_units u = Some (10 ^ prec)" "u \<noteq> []" "list_all unit_char u" "d + v \<le> two63"
    "v = n * 10 ^ prec + w mod 10 ^ prec"
  shows "duration_loop d (utoa n @ fmt_frac w prec @ u) = Some (d + v)"
proof -
  obtain f scale where f: "printed_fraction (fmt_frac w prec) f scale" "f < 10 ^ prec" "f * 10 ^ prec div scale = w mod 10 ^ prec"
    using fmt_frac_printed [OF assms(1)] by blast
  have "(10::nat) ^ prec \<le> 10 ^ 9" using assms(2) by (rule power_increasing) simp
  then have "duration_loop d (utoa n @ fmt_frac w prec @ u @ []) = duration_loop (d + v) []"
    using f assms by (intro loop_printed [OF f(1), of u "10 ^ prec" "[]" v n d]) (simp_all add: next_number_def)
  then show ?thesis by (simp add: duration_loop_end)
qed

lemma loop_whole:
  assumes "map_of duration_units u = Some factor" "u \<noteq> []" "list_all unit_char u" "factor > 0" "next_number r"
    "d + n * factor \<le> two63"
  shows "duration_loop d (utoa n @ u @ r) = duration_loop (d + n * factor) r"
  using loop_printed [OF no_fraction, of u factor r "n * factor" n d] assms by simp

lemma next_number_utoa: "next_number (utoa n @ s)"
  using utoa_hd_digit [of n] by (simp add: next_number_def)

text \<open>Seconds and more.\<close>

definition long_body :: "nat \<Rightarrow> string" where
  "long_body u =
     (let secs = u div 10 ^ 9; mins = secs div 60; hrs = mins div 60 in
      (if mins = 0 then [] else (if hrs = 0 then [] else utoa hrs @ ''h'') @ utoa (mins mod 60) @ ''m'')
        @ utoa (secs mod 60) @ fmt_frac u 9 @ ''s'')"

lemma loop_long:
  assumes "u \<le> two63"
  shows "duration_loop 0 (long_body u) = Some u"
proof -
  define secs where "secs = u div 10 ^ 9"
  define mins where "mins = secs div 60"
  define hrs where "hrs = mins div 60"
  define tail where "tail = utoa (secs mod 60) @ fmt_frac u 9 @ ''s''"
  define v where "v = (secs mod 60) * 10 ^ 9 + u mod 10 ^ 9"
  have u: "u = secs * 10 ^ 9 + u mod 10 ^ 9" unfolding secs_def by simp
  have s: "secs = mins * 60 + secs mod 60" unfolding mins_def by simp
  have m: "mins = hrs * 60 + mins mod 60" unfolding hrs_def by simp
  have tot: "u = mins * (60 * 10 ^ 9) + v" using u s by (simp add: v_def algebra_simps)
  have tot2: "u = hrs * (3600 * 10 ^ 9) + (mins mod 60) * (60 * 10 ^ 9) + v" using tot m by (simp add: algebra_simps)
  have last: "duration_loop d tail = Some (d + v)" if "d + v \<le> two63" for d
    unfolding tail_def using loop_single [of 9 "''s''" d v "secs mod 60" u] that units_chars unit_factors v_def by simp
  have mid: "duration_loop d (utoa (mins mod 60) @ ''m'' @ tail) = Some (d + (mins mod 60) * (60 * 10 ^ 9) + v)"
    if "d + (mins mod 60) * (60 * 10 ^ 9) + v \<le> two63" for d
    using loop_whole [of "''m''" "60 * 10 ^ 9" tail d "mins mod 60"] last that units_chars unit_factors
      next_number_utoa tail_def by simp
  have body: "long_body u = (if mins = 0 then tail else if hrs = 0 then utoa (mins mod 60) @ ''m'' @ tail
      else utoa hrs @ ''h'' @ utoa (mins mod 60) @ ''m'' @ tail)"
    unfolding long_body_def Let_def secs_def [symmetric] mins_def [symmetric] hrs_def [symmetric] tail_def [symmetric]
    by (simp only: append.assoc append_Nil append_Cons if_distrib [of "\<lambda>x. x @ _"] split: if_split)
  consider "mins = 0" | "mins \<noteq> 0" "hrs = 0" | "mins \<noteq> 0" "hrs \<noteq> 0" by blast
  then show ?thesis
  proof cases
    case 1
    then show ?thesis using body last [of 0] tot assms by simp
  next
    case 2
    then show ?thesis using body mid [of 0] tot2 assms by simp
  next
    case 3
    have "duration_loop 0 (utoa hrs @ ''h'' @ utoa (mins mod 60) @ ''m'' @ tail) =
        duration_loop (0 + hrs * (3600 * 10 ^ 9)) (utoa (mins mod 60) @ ''m'' @ tail)"
      using assms tot2 by (intro loop_whole units_chars unit_factors next_number_utoa) simp_all
    then show ?thesis using 3 body mid [of "hrs * (3600 * 10 ^ 9)"] tot2 assms by simp
  qed
qed

lemma duration_body:
  "duration_string d = (let u = nat \<bar>d\<bar>; body =
     (if u = 0 then ''0s'' else if u < 10 ^ 3 then utoa u @ ''ns''
      else if u < 10 ^ 6 then utoa (u div 10 ^ 3) @ fmt_frac u 3 @ [CHR 0xC2, CHR 0xB5, CHR ''s'']
      else if u < 10 ^ 9 then utoa (u div 10 ^ 6) @ fmt_frac u 6 @ ''ms'' else long_body u)
   in if d < 0 then CHR ''-'' # body else body)"
  unfolding duration_string_def long_body_def Let_def by (rule refl)

lemma utoa_0: "utoa 0 = ''0''"
  by (simp add: utoa.simps) code_simp

lemma loop_body:
  assumes "u \<le> two63"
    and "body = (if u = 0 then ''0s'' else if u < 10 ^ 3 then utoa u @ ''ns''
      else if u < 10 ^ 6 then utoa (u div 10 ^ 3) @ fmt_frac u 3 @ [CHR 0xC2, CHR 0xB5, CHR ''s'']
      else if u < 10 ^ 9 then utoa (u div 10 ^ 6) @ fmt_frac u 6 @ ''ms'' else long_body u)"
  shows "duration_loop 0 body = Some u \<and> is_digit (hd body) \<and> body \<noteq> [] \<and> body \<noteq> ''0''"
proof -
  have last: "last body \<noteq> CHR ''0''" "is_digit (hd body)" "body \<noteq> []"
    using assms(2) utoa_hd_digit by (auto simp: long_body_def Let_def is_digit_def)
  consider "u = 0" | "u \<noteq> 0" "u < 10 ^ 3" | "\<not> u < 10 ^ 3" "u < 10 ^ 6" | "\<not> u < 10 ^ 6" "u < 10 ^ 9" | "\<not> u < 10 ^ 9"
    by linarith
  then have "duration_loop 0 body = Some u"
  proof cases
    case 1
    have "duration_loop 0 (utoa 0 @ ''s'' @ []) = duration_loop (0 + 0 * 10 ^ 9) []"
      by (intro loop_whole units_chars unit_factors) (simp_all add: next_number_def two63_def)
    then show ?thesis using 1 assms(2) by (simp add: utoa_0 duration_loop_end)
  next
    case 2
    have "duration_loop 0 (utoa u @ ''ns'' @ []) = duration_loop (0 + u * 1) []"
      using assms(1) by (intro loop_whole units_chars unit_factors) (simp_all add: next_number_def)
    then show ?thesis using 2 assms(2) by (simp add: duration_loop_end)
  next
    case 3
    have "duration_loop 0 (utoa (u div 10 ^ 3) @ fmt_frac u 3 @ [CHR 0xC2, CHR 0xB5, CHR ''s'']) = Some (0 + u)"
      using assms(1) by (intro loop_single units_chars unit_factors) (simp_all del: One_nat_def)
    then show ?thesis using 3 assms(2) by simp
  next
    case 4
    have "duration_loop 0 (utoa (u div 10 ^ 6) @ fmt_frac u 6 @ ''ms'') = Some (0 + u)"
      using assms(1) by (intro loop_single units_chars unit_factors) (simp_all del: One_nat_def)
    then show ?thesis using 4 assms(2) by simp
  next
    case 5
    then show ?thesis using loop_long [OF assms(1)] assms(2) by simp
  qed
  then show ?thesis using last by auto
qed

text \<open>A duration that was printed is read back.\<close>

lemma parse_printed: "in64 d \<Longrightarrow> parse_duration (duration_string d) = Some d"
proof -
  assume d: "in64 d"
  define u where "u = nat \<bar>d\<bar>"
  define body where "body = (if u = 0 then ''0s'' else if u < 10 ^ 3 then utoa u @ ''ns''
      else if u < 10 ^ 6 then utoa (u div 10 ^ 3) @ fmt_frac u 3 @ [CHR 0xC2, CHR 0xB5, CHR ''s'']
      else if u < 10 ^ 9 then utoa (u div 10 ^ 6) @ fmt_frac u 6 @ ''ms'' else long_body u)"
  have s: "duration_string d = (if d < 0 then CHR ''-'' # body else body)"
    unfolding duration_body u_def body_def Let_def by (rule refl)
  have "u \<le> two63" using d by (auto simp: u_def two63_def in64_def)
  then have b: "duration_loop 0 body = Some u" "is_digit (hd body)" "body \<noteq> []" "body \<noteq> ''0''"
    using loop_body [OF _ body_def] by auto
  then have h: "hd body \<noteq> CHR ''-''" "hd body \<noteq> CHR ''+''" using digit_not_dash digit_not_plus by auto
  show ?thesis
  proof (cases "d < 0")
    case True
    then show ?thesis using b s by (simp add: parse_duration_def u_def)
  next
    case False
    then have "\<not> u > two63 - 1" "int u = d" using d by (auto simp: u_def two63_def in64_def)
    then show ?thesis using False b h s by (simp add: parse_duration_def)
  qed
qed

section \<open>Environment variables\<close>

text \<open>\<open>strconv.ParseBool\<close>.\<close>

definition parse_bool :: "string \<Rightarrow> bool option" where
  "parse_bool s =
     (if s \<in> set [''1'', ''t'', ''T'', ''TRUE'', ''true'', ''True''] then Some True
      else if s \<in> set [''0'', ''f'', ''F'', ''FALSE'', ''false'', ''False''] then Some False else None)"

text \<open>\<open>os.Getenv\<close> is the argument \<open>getenv\<close>; an unset variable is empty.\<close>

definition env_string :: "(string \<Rightarrow> string) \<Rightarrow> string \<Rightarrow> string \<Rightarrow> string" where
  "env_string getenv name fallback = (if getenv name \<noteq> [] then getenv name else fallback)"

definition env_bool :: "(string \<Rightarrow> string) \<Rightarrow> string \<Rightarrow> bool \<Rightarrow> bool" where
  "env_bool getenv name fallback =
     (if getenv name = [] then fallback else case parse_bool (getenv name) of None \<Rightarrow> fallback | Some b \<Rightarrow> b)"

definition env_duration :: "(string \<Rightarrow> string) \<Rightarrow> string \<Rightarrow> int \<Rightarrow> int" where
  "env_duration getenv name fallback =
     (if getenv name = [] then fallback else case parse_duration (getenv name) of None \<Rightarrow> fallback | Some d \<Rightarrow> d)"

section \<open>Flags\<close>

text \<open>A flag of a \<open>flag.FlagSet\<close>, which sets a part of the program's configuration \<open>'c\<close> or refuses the
  value with the text of an error. A boolean flag takes no value from the next argument.\<close>

record 'c flag =
  fl_name :: string
  fl_bool :: bool
  fl_set :: "string \<Rightarrow> 'c \<Rightarrow> string + 'c"

definition string_flag :: "string \<Rightarrow> (string \<Rightarrow> 'c \<Rightarrow> 'c) \<Rightarrow> 'c flag" where
  "string_flag name upd = \<lparr>fl_name = name, fl_bool = False, fl_set = (\<lambda>v c. Inr (upd v c))\<rparr>"

definition bool_flag :: "string \<Rightarrow> (bool \<Rightarrow> 'c \<Rightarrow> 'c) \<Rightarrow> 'c flag" where
  "bool_flag name upd = \<lparr>fl_name = name, fl_bool = True,
     fl_set = (\<lambda>v c. case parse_bool v of None \<Rightarrow> Inl ''parse error'' | Some b \<Rightarrow> Inr (upd b c))\<rparr>"

definition duration_flag :: "string \<Rightarrow> (int \<Rightarrow> 'c \<Rightarrow> 'c) \<Rightarrow> 'c flag" where
  "duration_flag name upd = \<lparr>fl_name = name, fl_bool = False,
     fl_set = (\<lambda>v c. case parse_duration v of None \<Rightarrow> Inl ''parse error'' | Some d \<Rightarrow> Inr (upd d c))\<rparr>"

definition find_flag :: "'c flag list \<Rightarrow> string \<Rightarrow> 'c flag option" where
  "find_flag flags name = find (\<lambda>f. fl_name f = name) flags"

datatype 'c flag_outcome = FlagHelp | FlagError string | FlagsParsed 'c "string list"

text \<open>The name and the value of an argument; \<open>None\<close> is one that ends the flags.\<close>

definition flag_parts :: "string \<Rightarrow> (string \<times> string option) option" where
  "flag_parts s =
     (if length s < 2 \<or> hd s \<noteq> CHR ''-'' then None
      else Some (cut (CHR ''='') (if s ! 1 = CHR ''-'' then drop 2 s else drop 1 s)))"

definition flag_value :: "bool \<Rightarrow> string option \<Rightarrow> string list \<Rightarrow> (string \<times> string list) option" where
  "flag_value is_bool given args =
     (case given of
        Some v \<Rightarrow> Some (v, args)
      | None \<Rightarrow> if is_bool then Some (''true'', args)
          else (case args of [] \<Rightarrow> None | a # rest \<Rightarrow> Some (a, rest)))"

definition bad_value :: "bool \<Rightarrow> string option \<Rightarrow> string \<Rightarrow> string \<Rightarrow> string \<Rightarrow> string" where
  "bad_value is_bool given value name err =
     (if is_bool then
        (if given = None then ''invalid boolean flag '' @ name @ '': '' @ err
         else ''invalid boolean value '' @ go_quote value @ '' for -'' @ name @ '': '' @ err)
      else ''invalid value '' @ go_quote value @ '' for flag -'' @ name @ '': '' @ err)"

lemma flag_value_length: "flag_value b v args = Some (value, rest) \<Longrightarrow> length rest \<le> length args"
  by (auto simp: flag_value_def split: option.splits list.splits if_splits)

text \<open>\<open>FlagSet.Parse\<close>.\<close>

function parse_flags :: "'c flag list \<Rightarrow> string list \<Rightarrow> 'c \<Rightarrow> 'c flag_outcome" where
  "parse_flags flags [] c = FlagsParsed c []"
| "parse_flags flags (s # args) c =
     (case flag_parts s of
        None \<Rightarrow> FlagsParsed c (s # args)
      | Some (name, given) \<Rightarrow>
          if s = ''--'' then FlagsParsed c args
          else if name = [] \<or> hd name = CHR ''-'' then FlagError (''bad flag syntax: '' @ s)
          else (case find_flag flags name of
              None \<Rightarrow> if name = ''help'' \<or> name = ''h'' then FlagHelp
                else FlagError (''flag provided but not defined: -'' @ name)
            | Some f \<Rightarrow>
                (case flag_value (fl_bool f) given args of
                   None \<Rightarrow> FlagError (''flag needs an argument: -'' @ name)
                 | Some (value, rest) \<Rightarrow>
                     (case fl_set f value c of
                        Inl err \<Rightarrow> FlagError (bad_value (fl_bool f) given value name err)
                      | Inr c' \<Rightarrow> parse_flags flags rest c'))))"
  by pat_completeness auto

termination
  by (relation "measure (\<lambda>(_, args, _). length args)") (auto dest: flag_value_length)

lemma parse_long_flag:
  assumes "name \<noteq> []" "hd name \<noteq> CHR ''-''" "CHR ''='' \<notin> set name" "find_flag flags name = Some f"
    "fl_set f value c = Inr c'"
  shows "parse_flags flags ((''--'' @ name @ ''='' @ value) # args) c = parse_flags flags args c'"
proof -
  have "flag_parts (''--'' @ name @ ''='' @ value) = Some (name, Some value)"
    using assms(1,3) by (simp add: flag_parts_def cut_append)
  then show ?thesis using assms by (simp add: flag_value_def)
qed

declare parse_flags.simps(2) [simp del]

end
