(* ===== verification/SubmitResources.thy ===== *)
theory SubmitResources
  imports GoFlags FleetRuntime
begin

text \<open>
  The Kubernetes objects \<open>cmd/sporectl/main.go\<close> renders for a run: a config map with the run's document
  and the job of the coordinator that reads it. A Go map is the list of its entries, a pointer an
  option; the JSON encoding is an argument of the program.
\<close>

section \<open>Objects\<close>

record k8s_metadata =
  md_name :: string
  md_namespace :: string
  md_labels :: "(string \<times> string) list"

record config_map =
  cmap_apiVersion :: string
  cmap_kind :: string
  cmap_metadata :: k8s_metadata
  cmap_data :: "(string \<times> string) list"

record toleration =
  tol_key :: string
  tol_operator :: string
  tol_value :: string
  tol_effect :: string

record resource_requirements =
  rqm_requests :: "(string \<times> string) list"
  rqm_limits :: "(string \<times> string) list"

record volume_mount =
  vmt_name :: string
  vmt_mountPath :: string
  vmt_readOnly :: bool

record config_map_volume =
  cmv_name :: string

record empty_dir_volume =
  edv_unit :: unit

record k8s_volume =
  vol_name :: string
  vol_configMap :: "config_map_volume option"
  vol_emptyDir :: "empty_dir_volume option"

record k8s_container =
  ctr_name :: string
  ctr_image :: string
  ctr_imagePullPolicy :: string
  ctr_command :: "string list"
  ctr_args :: "string list"
  ctr_resources :: resource_requirements
  ctr_volumeMounts :: "volume_mount list"

record pod_spec =
  pod_restartPolicy :: string
  pod_terminationGracePeriodSeconds :: "int option"
  pod_automountServiceAccountToken :: "bool option"
  pod_serviceAccountName :: string
  pod_nodeSelector :: "(string \<times> string) list"
  pod_tolerations :: "toleration list"
  pod_containers :: "k8s_container list"
  pod_volumes :: "k8s_volume list"

record pod_template =
  tmpl_metadata :: k8s_metadata
  tmpl_spec :: pod_spec

record job_spec =
  jsp_backoffLimit :: "int option"
  jsp_ttlSecondsAfterFinished :: "int option"
  jsp_template :: pod_template

record k8s_job =
  job_apiVersion :: string
  job_kind :: string
  job_metadata :: k8s_metadata
  job_spec_of :: job_spec

datatype k8s_item = ConfigMapItem config_map | JobItem k8s_job

record resource_list =
  rls_apiVersion :: string
  rls_kind :: string
  rls_items :: "k8s_item list"

record resource_names =
  rsn_configMap :: string
  rsn_job :: string

section \<open>Options\<close>

record submit_options =
  sop_inputPath :: string
  sop_namespace :: string
  sop_image :: string
  sop_imagePullPolicy :: string
  sop_agentURLs :: "string list"
  sop_resultStoreRoot :: string
  sop_resultStoreBackend :: string
  sop_resultStoreRegion :: string
  sop_resultStoreEndpoint :: string
  sop_resultStorePathStyle :: bool
  sop_serviceAccountName :: string
  sop_timeout :: int
  sop_kubectl :: string
  sop_wait :: bool
  sop_logs :: bool
  sop_dryRun :: bool
  sop_replace :: bool
  sop_buildkite :: bool
  sop_buildkiteAgent :: string
  sop_resultURLPrefix :: string

record submit_payload =
  spl_runID :: string
  spl_configMapKey :: string
  spl_coordinatorFlag :: string
  spl_mountPath :: string
  spl_bytes :: string

text \<open>\<open>stringsFlag.Set\<close>.\<close>

definition strings_flag_set :: "string list \<Rightarrow> string \<Rightarrow> string list" where
  "strings_flag_set vals value = vals @ filter (\<lambda>u. u \<noteq> []) (map trim_space (split_on (CHR '','') value))"

section \<open>Names\<close>

text \<open>The length of the first rune of a string: the length of a well-formed UTF-8 sequence, otherwise one byte.\<close>

definition rune_len :: "string \<Rightarrow> nat" where
  "rune_len s =
     (let b = (\<lambda>i. if i < length s then of_char (s ! i) else 0 :: nat); c = (\<lambda>i. 128 \<le> b i \<and> b i \<le> 191) in
      if 194 \<le> b 0 \<and> b 0 \<le> 223 \<and> c 1 then 2
      else if (b 0 = 224 \<and> 160 \<le> b 1 \<and> b 1 \<le> 191 \<or> b 0 = 237 \<and> 128 \<le> b 1 \<and> b 1 \<le> 159 \<or>
          225 \<le> b 0 \<and> b 0 \<le> 239 \<and> b 0 \<noteq> 237 \<and> c 1) \<and> c 2 then 3
      else if (b 0 = 240 \<and> 144 \<le> b 1 \<and> b 1 \<le> 191 \<or> b 0 = 244 \<and> 128 \<le> b 1 \<and> b 1 \<le> 143 \<or>
          241 \<le> b 0 \<and> b 0 \<le> 243 \<and> c 1) \<and> c 2 \<and> c 3 then 4
      else 1)"

definition name_rune :: "char \<Rightarrow> char" where
  "name_rune c =
     (let n = (of_char c :: nat) in
      if 97 \<le> n \<and> n \<le> 122 \<or> 48 \<le> n \<and> n \<le> 57 \<or> n = 45 then c
      else if 65 \<le> n \<and> n \<le> 90 then char_of (n + 32) else CHR ''-'')"

lemma rune_len_pos: "0 < rune_len s"
  by (simp add: rune_len_def Let_def)

function map_runes :: "string \<Rightarrow> string" where
  "map_runes s = (if s = [] then [] else name_rune (hd s) # map_runes (drop (rune_len s) s))"
  by pat_completeness auto

termination
  by (relation "measure length") (auto simp: rune_len_pos)

declare map_runes.simps [simp del]

definition trim_right_dashes :: "string \<Rightarrow> string" where
  "trim_right_dashes s = rev (dropWhile (\<lambda>c. c = CHR ''-'') (rev s))"

definition max_name :: nat where
  "max_name = 63"

text \<open>\<open>kubernetesName\<close>; \<open>sha256\<close> is \<open>sha256.Sum256\<close>.\<close>

definition kubernetes_name :: "(string \<Rightarrow> string) \<Rightarrow> string \<Rightarrow> string \<Rightarrow> string" where
  "kubernetes_name sha256 prefix raw =
     (let trimmed = trim_right_dashes (dropWhile (\<lambda>c. c = CHR ''-'') (map_runes raw));
          clean = (if trimmed = [] then ''run'' else trimmed);
          suffix = hex_encode (take 4 (sha256 raw));
          base = prefix @ ''-'' @ clean;
          base = (if length base + 1 + length suffix > max_name
            then trim_right_dashes (take (max_name - 1 - length suffix) base) else base)
      in base @ ''-'' @ suffix)"

section \<open>The job\<close>

definition result_store_backend :: "submit_options \<Rightarrow> string" where
  "result_store_backend opts = (if sop_resultStoreBackend opts = [] then ''local'' else sop_resultStoreBackend opts)"

definition option_arg :: "string \<Rightarrow> string \<Rightarrow> string list" where
  "option_arg name v = (if v = [] then [] else [''--'' @ name @ ''='' @ v])"

definition coordinator_args :: "submit_options \<Rightarrow> submit_payload \<Rightarrow> string list" where
  "coordinator_args opts payload =
     [''--'' @ spl_coordinatorFlag payload @ ''='' @ spl_mountPath payload,
      ''--result-store-root='' @ sop_resultStoreRoot opts,
      ''--result-store-backend='' @ result_store_backend opts,
      ''--timeout='' @ duration_string (sop_timeout opts)] @
     option_arg ''result-store-region'' (sop_resultStoreRegion opts) @
     option_arg ''result-store-endpoint'' (sop_resultStoreEndpoint opts) @
     (if sop_resultStorePathStyle opts then [''--result-store-path-style=true''] else []) @
     map (\<lambda>url. ''--agent-url='' @ url) (sop_agentURLs opts)"

definition coordinator_container :: "submit_options \<Rightarrow> submit_payload \<Rightarrow> k8s_container" where
  "coordinator_container opts payload =
     \<lparr>ctr_name = ''coordinator'', ctr_image = sop_image opts, ctr_imagePullPolicy = sop_imagePullPolicy opts,
      ctr_command = [''/usr/local/bin/spore-coordinator''], ctr_args = coordinator_args opts payload,
      ctr_resources = \<lparr>rqm_requests = [(''cpu'', ''25m''), (''memory'', ''64Mi'')],
        rqm_limits = [(''cpu'', ''500m''), (''memory'', ''512Mi'')]\<rparr>,
      ctr_volumeMounts =
        [\<lparr>vmt_name = ''run'', vmt_mountPath = ''/etc/sporevm/run'', vmt_readOnly = True\<rparr>,
         \<lparr>vmt_name = ''coordinator-results'', vmt_mountPath = ''/var/lib/sporevm/coordinator-results'', vmt_readOnly = False\<rparr>]\<rparr>"

definition coordinator_pod :: "resource_names \<Rightarrow> submit_options \<Rightarrow> submit_payload \<Rightarrow> pod_spec" where
  "coordinator_pod names opts payload =
     \<lparr>pod_restartPolicy = ''Never'', pod_terminationGracePeriodSeconds = Some 150,
      pod_automountServiceAccountToken = Some False, pod_serviceAccountName = sop_serviceAccountName opts,
      pod_nodeSelector = [(''kubernetes.io/arch'', ''arm64''), (''sporevm.io/agent'', ''true''),
        (''sporevm.io/arch'', ''aarch64''), (''sporevm.io/backend'', ''kvm'')],
      pod_tolerations = [\<lparr>tol_key = ''sporevm.io/agent'', tol_operator = ''Equal'', tol_value = ''true'', tol_effect = ''NoSchedule''\<rparr>],
      pod_containers = [coordinator_container opts payload],
      pod_volumes =
        [\<lparr>vol_name = ''run'', vol_configMap = Some \<lparr>cmv_name = rsn_configMap names\<rparr>, vol_emptyDir = None\<rparr>,
         \<lparr>vol_name = ''coordinator-results'', vol_configMap = None, vol_emptyDir = Some \<lparr>edv_unit = ()\<rparr>\<rparr>]\<rparr>"

definition coordinator_job :: "resource_names \<Rightarrow> (string \<times> string) list \<Rightarrow> submit_options \<Rightarrow> submit_payload \<Rightarrow> k8s_job" where
  "coordinator_job names labels opts payload =
     \<lparr>job_apiVersion = ''batch/v1'', job_kind = ''Job'',
      job_metadata = \<lparr>md_name = rsn_job names, md_namespace = sop_namespace opts, md_labels = labels\<rparr>,
      job_spec_of = \<lparr>jsp_backoffLimit = Some 0, jsp_ttlSecondsAfterFinished = Some 3600,
        jsp_template = \<lparr>tmpl_metadata = \<lparr>md_name = [], md_namespace = [], md_labels = labels\<rparr>,
          tmpl_spec = coordinator_pod names opts payload\<rparr>\<rparr>\<rparr>"

section \<open>The list of objects\<close>

text \<open>The checks of \<open>buildSubmitResourcesForPayload\<close>, in its order.\<close>

definition submit_refused :: "submit_payload \<Rightarrow> submit_options \<Rightarrow> gerr option" where
  "submit_refused payload opts =
     (let backend = result_store_backend opts; no = (\<lambda>msg. Some (Opaque msg)) in
      if spl_runID payload = [] then no ''run id must not be empty''
      else if spl_configMapKey payload = [] \<or> spl_coordinatorFlag payload = [] \<or> spl_mountPath payload = []
      then no ''submit payload is incomplete''
      else if sop_namespace opts = [] then no ''namespace must not be empty''
      else if sop_image opts = [] then no ''image must not be empty''
      else if sop_imagePullPolicy opts = [] then no ''image pull policy must not be empty''
      else if backend \<noteq> ''local'' \<and> backend \<noteq> ''s3'' then no (''unsupported result store backend '' @ go_quote backend)
      else if backend = ''local'' \<and> sop_resultStoreRoot opts = [] then no ''local result store root must not be empty''
      else if sop_agentURLs opts = [] then no ''at least one agent URL is required''
      else if sop_timeout opts \<le> 0 then no ''timeout must be positive'' else None)"

definition run_labels :: "(string \<Rightarrow> string) \<Rightarrow> string \<Rightarrow> (string \<times> string) list" where
  "run_labels sha256 runID =
     [(''app.kubernetes.io/name'', ''spore-coordinator''), (''app.kubernetes.io/part-of'', ''sporevm-k8s''),
      (''sporevm.io/run'', kubernetes_name sha256 ''run'' runID)]"

definition build_submit_resources_for_payload :: "(string \<Rightarrow> string) \<Rightarrow> submit_payload \<Rightarrow> submit_options
    \<Rightarrow> gerr + resource_list \<times> resource_names" where
  "build_submit_resources_for_payload sha256 payload opts =
     (case submit_refused payload opts of
        Some e \<Rightarrow> Inl e
      | None \<Rightarrow>
          let names = \<lparr>rsn_configMap = kubernetes_name sha256 ''spore-run'' (spl_runID payload),
                rsn_job = kubernetes_name sha256 ''spore-coordinator'' (spl_runID payload)\<rparr>;
              labels = run_labels sha256 (spl_runID payload);
              cmap = \<lparr>cmap_apiVersion = ''v1'', cmap_kind = ''ConfigMap'',
                cmap_metadata = \<lparr>md_name = rsn_configMap names, md_namespace = sop_namespace opts, md_labels = labels\<rparr>,
                cmap_data = [(spl_configMapKey payload, spl_bytes payload)]\<rparr>
          in Inr (\<lparr>rls_apiVersion = ''v1'', rls_kind = ''List'',
               rls_items = [ConfigMapItem cmap, JobItem (coordinator_job names labels opts payload)]\<rparr>, names))"

definition default_run_mount_path :: string where
  "default_run_mount_path = ''/etc/sporevm/run/run.json''"

definition default_bundle_run_mount_path :: string where
  "default_bundle_run_mount_path = ''/etc/sporevm/run/bundle-run.json''"

definition run_payload :: "run \<Rightarrow> string \<Rightarrow> submit_payload" where
  "run_payload r bytes = \<lparr>spl_runID = run_runID r, spl_configMapKey = ''run.json'', spl_coordinatorFlag = ''run'',
     spl_mountPath = default_run_mount_path, spl_bytes = bytes\<rparr>"

definition bundle_run_payload :: "bundle_run \<Rightarrow> string \<Rightarrow> submit_payload" where
  "bundle_run_payload r bytes = \<lparr>spl_runID = br_runID r, spl_configMapKey = ''bundle-run.json'',
     spl_coordinatorFlag = ''bundle-run'', spl_mountPath = default_bundle_run_mount_path, spl_bytes = bytes\<rparr>"

definition build_submit_resources :: "(string \<Rightarrow> string) \<Rightarrow> run \<Rightarrow> string \<Rightarrow> submit_options
    \<Rightarrow> gerr + resource_list \<times> resource_names" where
  "build_submit_resources sha256 r bytes opts =
     (case run_validate r of
        Some e \<Rightarrow> Inl e | None \<Rightarrow> build_submit_resources_for_payload sha256 (run_payload r bytes) opts)"

definition build_bundle_submit_resources :: "(string \<Rightarrow> string) \<Rightarrow> bundle_run \<Rightarrow> string \<Rightarrow> submit_options
    \<Rightarrow> gerr + resource_list \<times> resource_names" where
  "build_bundle_submit_resources sha256 r bytes opts =
     (case bundle_run_validate r of
        Some e \<Rightarrow> Inl e | None \<Rightarrow> build_submit_resources_for_payload sha256 (bundle_run_payload r bytes) opts)"

end
