(* ===== verification/SubmitMain.thy ===== *)
theory SubmitMain
  imports SubmitResources
begin

text \<open>
  The program \<open>cmd/sporectl/main.go\<close>: it renders the coordinator job of a run, applies it with
  \<open>kubectl\<close>, waits for the job, prints its logs and may post a Buildkite annotation. Processes, files, the
  clock and JSON are arguments; what is written to standard error is not modelled.
\<close>

section \<open>What it calls\<close>

record job_condition =
  jcd_type :: string
  jcd_status :: string
  jcd_reason :: string
  jcd_message :: string

text \<open>\<open>sbm_fields\<close> decodes the keys of a JSON object, \<open>sbm_report\<close> the JSON document a text begins with,
  \<open>sbm_job\<close> the conditions of a job. The input of a process is absent or a text.\<close>

record 'w submit_env =
  sbm_getenv :: "string \<Rightarrow> string"
  sbm_sha256 :: "string \<Rightarrow> string"
  sbm_read_file :: "string \<Rightarrow> 'w \<Rightarrow> gerr + string"
  sbm_fields :: "string \<Rightarrow> (string + string list) \<times> trailing"
  sbm_json_run :: "string \<Rightarrow> (string + run) \<times> trailing"
  sbm_json_bundle_run :: "string \<Rightarrow> (string + bundle_run) \<times> trailing"
  sbm_encode :: "resource_list \<Rightarrow> gerr + string"
  sbm_report :: "string \<Rightarrow> runtime_report option"
  sbm_job :: "string \<Rightarrow> gerr + job_condition list"
  sbm_write :: "string \<Rightarrow> 'w \<Rightarrow> gerr option \<times> 'w"
  sbm_run :: "go_ctx \<Rightarrow> string \<Rightarrow> string option \<Rightarrow> string list \<Rightarrow> 'w \<Rightarrow> gerr option \<times> 'w"
  sbm_output :: "go_ctx \<Rightarrow> string \<Rightarrow> string list \<Rightarrow> 'w \<Rightarrow> (gerr + string) \<times> 'w"
  sbm_now :: "'w clock"
  sbm_timer :: "go_ctx \<Rightarrow> int \<Rightarrow> 'w \<Rightarrow> gerr option \<times> 'w"

fun join_space :: "string list \<Rightarrow> string" where
  "join_space [] = []"
| "join_space [a] = a"
| "join_space (a # b # as) = a @ '' '' @ join_space (b # as)"

definition kubectl_failed :: "string \<Rightarrow> string list \<Rightarrow> gerr \<Rightarrow> gerr" where
  "kubectl_failed path args e = Wrap (path @ '' '' @ join_space args @ '': '') e []"

definition kubectl_run :: "'w submit_env \<Rightarrow> string \<Rightarrow> go_ctx \<Rightarrow> string option \<Rightarrow> string list \<Rightarrow> 'w \<Rightarrow> gerr option \<times> 'w" where
  "kubectl_run env path ctx stdin args w =
     (case sbm_run env ctx path stdin args w of
        (Some e, w1) \<Rightarrow> (Some (kubectl_failed path args e), w1) | (None, w1) \<Rightarrow> (None, w1))"

definition kubectl_output :: "'w submit_env \<Rightarrow> string \<Rightarrow> go_ctx \<Rightarrow> string list \<Rightarrow> 'w \<Rightarrow> (gerr + string) \<times> 'w" where
  "kubectl_output env path ctx args w =
     (case sbm_output env ctx path args w of
        (Inl e, w1) \<Rightarrow> (Inl (kubectl_failed path args e), w1) | (Inr out, w1) \<Rightarrow> (Inr out, w1))"

section \<open>The document\<close>

datatype submit_run_kind = SubmitBundle | SubmitRun

definition submit_kind_of :: "string list \<Rightarrow> gerr + submit_run_kind" where
  "submit_kind_of keys =
     (let hasBundleRunFields = (''bundle'' \<in> set keys \<or> ''hostClass'' \<in> set keys);
          hasRunFields = (''source'' \<in> set keys \<or> ''prepare'' \<in> set keys \<or> ''fork'' \<in> set keys) in
      if hasBundleRunFields \<and> hasRunFields then Inl (contract_error ''run input mixes bundle run fields with run fields'')
      else if hasRunFields then Inr SubmitRun
      else if hasBundleRunFields then Inr SubmitBundle
      else Inl (contract_error ''run input must include either run fields (source, prepare, fork) or bundle run fields (bundle, hostClass)''))"

definition detect_submit_run_kind :: "'w submit_env \<Rightarrow> string \<Rightarrow> gerr + submit_run_kind" where
  "detect_submit_run_kind env data =
     (case sbm_fields env data of
        (Inl msg, _) \<Rightarrow> Inl (contract_error (''decode run input: '' @ msg))
      | (Inr keys, TrailingEOF) \<Rightarrow> submit_kind_of keys
      | (Inr keys, TrailingDoc) \<Rightarrow> Inl (contract_error ''run input must contain exactly one JSON document'')
      | (Inr keys, TrailingError msg) \<Rightarrow> Inl (contract_error (''decode trailing run input data: '' @ msg)))"

record submit_details =
  sdt_runID :: string
  sdt_resultStore :: string

definition build_submit_resources_from_options :: "'w submit_env \<Rightarrow> submit_options \<Rightarrow> 'w
    \<Rightarrow> gerr + resource_list \<times> resource_names \<times> submit_details" where
  "build_submit_resources_from_options env opts w =
     (if sop_inputPath opts = [] then Inl (Opaque ''run JSON path is required'')
      else case sbm_read_file env (sop_inputPath opts) w of
        Inl e \<Rightarrow> Inl (Wrap ''read run: '' e [])
      | Inr data \<Rightarrow>
          (case detect_submit_run_kind env data of
             Inl e \<Rightarrow> Inl e
           | Inr SubmitBundle \<Rightarrow>
               (case sbm_json_bundle_run env data of (first, extra) \<Rightarrow>
                case decode_bundle_run first extra of
                  Inl e \<Rightarrow> Inl e
                | Inr r \<Rightarrow>
                    (case build_bundle_submit_resources (sbm_sha256 env) r data opts of
                       Inl e \<Rightarrow> Inl e
                     | Inr (resources, names) \<Rightarrow>
                         Inr (resources, names, \<lparr>sdt_runID = br_runID r, sdt_resultStore = br_resultStore r\<rparr>)))
           | Inr SubmitRun \<Rightarrow>
               (case sbm_json_run env data of (first, extra) \<Rightarrow>
                case decode_run first extra of
                  Inl e \<Rightarrow> Inl e
                | Inr r \<Rightarrow>
                    (case build_submit_resources (sbm_sha256 env) r data opts of
                       Inl e \<Rightarrow> Inl e
                     | Inr (resources, names) \<Rightarrow>
                         Inr (resources, names, \<lparr>sdt_runID = run_runID r, sdt_resultStore = run_resultStore r\<rparr>)))))"

section \<open>The report\<close>

text \<open>The first JSON document of the logs that is a report of a run.\<close>

fun runtime_report_from_logs :: "'w submit_env \<Rightarrow> string \<Rightarrow> runtime_report \<times> bool" where
  "runtime_report_from_logs env [] = (zero_report, False)"
| "runtime_report_from_logs env (c # cs) =
     (if c \<noteq> CHR ''{'' then runtime_report_from_logs env cs
      else case sbm_report env (c # cs) of
        None \<Rightarrow> runtime_report_from_logs env cs
      | Some report \<Rightarrow>
          if rs_runID (rr_summary report) \<noteq> [] then (report, True) else runtime_report_from_logs env cs)"

definition buildkite_run_annotation :: "submit_details \<Rightarrow> runtime_report \<Rightarrow> gerr option \<Rightarrow> string \<Rightarrow> string" where
  "buildkite_run_annotation details report runErr resultURLPrefix =
     (let nl = [CHR 0x0A]; tick = [CHR 0x60]; s = rr_summary report;
          state = (if rs_state s \<noteq> [] then rs_state s else if runErr \<noteq> None then ''failed'' else ''unknown'') in
      ''### SporeVM run '' @ tick @ sdt_runID details @ tick @ '': '' @ state @ nl @ nl @
      (if rs_runID s = [] then [] else
         ''| children | succeeded | failed | attempts |'' @ nl @ ''| ---: | ---: | ---: | ---: |'' @ nl @
         ''| '' @ itoa (rs_childCount s) @ '' | '' @ itoa (rs_succeededChildren s) @ '' | '' @ itoa (rs_failedChildren s) @
         '' | '' @ itoa (rs_attemptCount s) @ '' |'' @ nl @ nl) @
      (if resultURLPrefix \<noteq> [] then ''[Child result objects]('' @ resultURLPrefix @ '')'' @ nl
       else if sdt_resultStore details \<noteq> [] then ''Child result objects: '' @ tick @ sdt_resultStore details @ tick @ nl
       else []) @
      (case runErr of None \<Rightarrow> [] | Some e \<Rightarrow> nl @ ''Coordinator: '' @ tick @ err_text e @ tick @ nl))"

section \<open>Waiting for the job\<close>

record terminal_state =
  tst_complete :: bool
  tst_failed :: bool
  tst_message :: string

fun conditions_state :: "job_condition list \<Rightarrow> terminal_state" where
  "conditions_state [] = \<lparr>tst_complete = False, tst_failed = False, tst_message = []\<rparr>"
| "conditions_state (c # cs) =
     (if jcd_status c \<noteq> ''True'' then conditions_state cs
      else if jcd_type c = ''Complete'' then \<lparr>tst_complete = True, tst_failed = False, tst_message = []\<rparr>
      else if jcd_type c = ''Failed'' then
        \<lparr>tst_complete = False, tst_failed = True,
         tst_message = (let m = (if jcd_message c = [] then jcd_reason c else jcd_message c) in
           if m = [] then ''failed condition is true'' else m)\<rparr>
      else conditions_state cs)"

definition job_terminal_state :: "'w submit_env \<Rightarrow> string \<Rightarrow> gerr + terminal_state" where
  "job_terminal_state env data =
     (case sbm_job env data of
        Inl e \<Rightarrow> Inl (Wrap ''decode job status: '' e []) | Inr conditions \<Rightarrow> Inr (conditions_state conditions))"

definition get_job_args :: "string \<Rightarrow> string \<Rightarrow> string list" where
  "get_job_args namespace name = [''get'', ''job'', ''-n'', namespace, name, ''-o'', ''json'']"

text \<open>The loop, which only the job, the deadline, the context or a failing call ends.\<close>

partial_function (option) wait_loop :: "'w submit_env \<Rightarrow> go_ctx \<Rightarrow> string \<Rightarrow> string \<Rightarrow> string \<Rightarrow> int \<Rightarrow> go_time \<Rightarrow> 'w
    \<Rightarrow> (gerr option \<times> 'w) option" where
  "wait_loop env ctx kubectl namespace name timeout deadline w =
     (case kubectl_output env kubectl ctx (get_job_args namespace name) w of
        (Inl e, w1) \<Rightarrow> Some (Some e, w1)
      | (Inr out, w1) \<Rightarrow>
          (case job_terminal_state env out of
             Inl e \<Rightarrow> Some (Some e, w1)
           | Inr state \<Rightarrow>
               if tst_complete state then Some (None, w1)
               else if tst_failed state then Some (Some (Opaque (''coordinator job failed: '' @ tst_message state)), w1)
               else (case sbm_now env w1 of (now, w2) \<Rightarrow>
                 if now > deadline
                 then Some (Some (Opaque (''timed out waiting for job/'' @ name @ '' after '' @ duration_string timeout)), w2)
                 else (case sbm_timer env ctx (2 * second) w2 of
                     (Some ctxErr, w3) \<Rightarrow> Some (Some ctxErr, w3)
                   | (None, w3) \<Rightarrow> wait_loop env ctx kubectl namespace name timeout deadline w3))))"

definition wait_for_job :: "'w submit_env \<Rightarrow> go_ctx \<Rightarrow> string \<Rightarrow> string \<Rightarrow> string \<Rightarrow> int \<Rightarrow> 'w \<Rightarrow> (gerr option \<times> 'w) option" where
  "wait_for_job env ctx kubectl namespace name timeout w =
     (case sbm_now env w of (now, w1) \<Rightarrow> wait_loop env ctx kubectl namespace name timeout (now + timeout) w1)"

section \<open>Submitting\<close>

definition logs_args :: "string \<Rightarrow> string \<Rightarrow> string list" where
  "logs_args namespace name = [''logs'', ''-n'', namespace, ''job/'' @ name, ''--all-containers=true'']"

text \<open>The logs: kept with \<open>--buildkite\<close>, otherwise only printed. A failed \<open>Output\<close> has none.\<close>

definition collect_logs :: "'w submit_env \<Rightarrow> go_ctx \<Rightarrow> submit_options \<Rightarrow> string \<Rightarrow> 'w \<Rightarrow> (string \<times> gerr option) \<times> 'w" where
  "collect_logs env ctx opts name w =
     (if sop_buildkite opts then
        (case kubectl_output env (sop_kubectl opts) ctx (logs_args (sop_namespace opts) name) w of
           (Inl e, w1) \<Rightarrow> (([], Some e), w1)
         | (Inr logs, w1) \<Rightarrow>
             ((logs, None), if sop_logs opts \<and> logs \<noteq> [] then snd (sbm_write env logs w1) else w1))
      else if sop_logs opts then
        (case kubectl_run env (sop_kubectl opts) ctx None (logs_args (sop_namespace opts) name) w of (e, w1) \<Rightarrow> (([], e), w1))
      else (([], None), w))"

definition annotate :: "'w submit_env \<Rightarrow> go_ctx \<Rightarrow> submit_options \<Rightarrow> submit_details \<Rightarrow> string \<Rightarrow> gerr option \<Rightarrow> 'w
    \<Rightarrow> gerr option \<times> 'w" where
  "annotate env ctx opts details logs waitErr w =
     (if \<not> sop_buildkite opts then (None, w)
      else case runtime_report_from_logs env logs of (report, reportFound) \<Rightarrow>
        let missing = (if \<not> reportFound \<and> waitErr = None
              then Some (Opaque ''coordinator logs did not contain a runtime report'') else None);
            annotation = buildkite_run_annotation details report waitErr (sop_resultURLPrefix opts);
            style = (if waitErr \<noteq> None \<or> rs_state (rr_summary report) \<noteq> ''succeeded'' then ''error'' else ''success'') in
        (case kubectl_run env (sop_buildkiteAgent opts) ctx (Some annotation)
            [''annotate'', ''--style'', style, ''--context'', kubernetes_name (sbm_sha256 env) ''sporevm'' (sdt_runID details)] w of
           (Some e, w1) \<Rightarrow> (errors_join [missing, Some (Wrap ''post Buildkite annotation: '' e [])], w1)
         | (None, w1) \<Rightarrow> (missing, w1)))"

text \<open>From the applied job on.\<close>

definition follow_job :: "'w submit_env \<Rightarrow> go_ctx \<Rightarrow> submit_options \<Rightarrow> submit_details \<Rightarrow> string \<Rightarrow> 'w
    \<Rightarrow> (gerr option \<times> 'w) option" where
  "follow_job env ctx opts details name w =
     (case wait_for_job env ctx (sop_kubectl opts) (sop_namespace opts) name (sop_timeout opts) w of
        None \<Rightarrow> None
      | Some (waitErr, w1) \<Rightarrow>
          (case collect_logs env ctx opts name w1 of ((logs, logsErr), w2) \<Rightarrow>
           case annotate env ctx opts details logs waitErr w2 of (annotationErr, w3) \<Rightarrow>
           Some (if waitErr \<noteq> None then waitErr else if logsErr \<noteq> None then logsErr else annotationErr, w3)))"

definition submit_context :: "submit_options \<Rightarrow> go_ctx" where
  "submit_context opts = WithTimeout (wrap64 (sop_timeout opts + 30 * second)) BackgroundCtx"

definition replace_job :: "'w submit_env \<Rightarrow> submit_options \<Rightarrow> string \<Rightarrow> 'w \<Rightarrow> gerr option \<times> 'w" where
  "replace_job env opts name w =
     (if sop_replace opts then
        kubectl_run env (sop_kubectl opts) (submit_context opts) None
          [''delete'', ''job'', ''-n'', sop_namespace opts, name, ''--ignore-not-found''] w
      else (None, w))"

definition submit_with_options :: "'w submit_env \<Rightarrow> submit_options \<Rightarrow> 'w \<Rightarrow> (gerr option \<times> 'w) option" where
  "submit_with_options env opts w =
     (if sop_buildkite opts \<and> \<not> sop_wait opts then Some (Some (Opaque ''--buildkite requires --wait''), w)
      else case build_submit_resources_from_options env opts w of
        Inl e \<Rightarrow> Some (Some e, w)
      | Inr (resources, names, details) \<Rightarrow>
          (case sbm_encode env resources of
             Inl e \<Rightarrow> Some (Some (Wrap ''encode Kubernetes resources: '' e []), w)
           | Inr text \<Rightarrow>
               let payload = text @ [CHR 0x0A]; ctx = submit_context opts in
               if sop_dryRun opts then Some (sbm_write env payload w)
               else (case replace_job env opts (rsn_job names) w of
                   (Some e, w1) \<Rightarrow> Some (Some e, w1)
                 | (None, w1) \<Rightarrow>
                     (case kubectl_run env (sop_kubectl opts) ctx (Some payload) [''apply'', ''-f'', ''-''] w1 of
                        (Some e, w2) \<Rightarrow> Some (Some e, w2)
                      | (None, w2) \<Rightarrow>
                          (case sbm_write env (''submitted run '' @ sdt_runID details @ '' as job/'' @ rsn_job names @ [CHR 0x0A]) w2 of
                             (_, w3) \<Rightarrow>
                               if \<not> sop_wait opts then Some (None, w3)
                               else follow_job env ctx opts details (rsn_job names) w3)))))"

section \<open>Flags\<close>

definition default_agent_url :: "string \<Rightarrow> string" where
  "default_agent_url namespace = ''http://spore-agent.'' @ namespace @ ''.svc.cluster.local:8080''"

definition submit_defaults :: "(string \<Rightarrow> string) \<Rightarrow> submit_options" where
  "submit_defaults getenv =
     \<lparr>sop_inputPath = [], sop_namespace = ''sporevm-system'',
      sop_image = env_string getenv ''SPORE_RUNTIME_IMAGE'' ''ghcr.io/sporevm/k8s-runtime:0.1.19'',
      sop_imagePullPolicy = ''Always'', sop_agentURLs = [],
      sop_resultStoreRoot = ''/var/lib/sporevm/coordinator-results'', sop_resultStoreBackend = ''local'',
      sop_resultStoreRegion = [], sop_resultStoreEndpoint = [], sop_resultStorePathStyle = False,
      sop_serviceAccountName = [], sop_timeout = 30 * 60 * second,
      sop_kubectl = env_string getenv ''KUBECTL'' ''kubectl'', sop_wait = True, sop_logs = True, sop_dryRun = False,
      sop_replace = False, sop_buildkite = False,
      sop_buildkiteAgent = env_string getenv ''BUILDKITE_AGENT_BIN'' ''buildkite-agent'', sop_resultURLPrefix = []\<rparr>"

definition submit_flags :: "submit_options flag list" where
  "submit_flags =
     [string_flag ''namespace'' (\<lambda>v o'. o'\<lparr>sop_namespace := v\<rparr>),
      string_flag ''image'' (\<lambda>v o'. o'\<lparr>sop_image := v\<rparr>),
      string_flag ''image-pull-policy'' (\<lambda>v o'. o'\<lparr>sop_imagePullPolicy := v\<rparr>),
      string_flag ''agent-url'' (\<lambda>v o'. o'\<lparr>sop_agentURLs := strings_flag_set (sop_agentURLs o') v\<rparr>),
      string_flag ''result-store-root'' (\<lambda>v o'. o'\<lparr>sop_resultStoreRoot := v\<rparr>),
      string_flag ''result-store-backend'' (\<lambda>v o'. o'\<lparr>sop_resultStoreBackend := v\<rparr>),
      string_flag ''result-store-region'' (\<lambda>v o'. o'\<lparr>sop_resultStoreRegion := v\<rparr>),
      string_flag ''result-store-endpoint'' (\<lambda>v o'. o'\<lparr>sop_resultStoreEndpoint := v\<rparr>),
      bool_flag ''result-store-path-style'' (\<lambda>v o'. o'\<lparr>sop_resultStorePathStyle := v\<rparr>),
      string_flag ''service-account'' (\<lambda>v o'. o'\<lparr>sop_serviceAccountName := v\<rparr>),
      duration_flag ''timeout'' (\<lambda>v o'. o'\<lparr>sop_timeout := v\<rparr>),
      string_flag ''kubectl'' (\<lambda>v o'. o'\<lparr>sop_kubectl := v\<rparr>),
      bool_flag ''wait'' (\<lambda>v o'. o'\<lparr>sop_wait := v\<rparr>),
      bool_flag ''logs'' (\<lambda>v o'. o'\<lparr>sop_logs := v\<rparr>),
      bool_flag ''dry-run'' (\<lambda>v o'. o'\<lparr>sop_dryRun := v\<rparr>),
      bool_flag ''replace'' (\<lambda>v o'. o'\<lparr>sop_replace := v\<rparr>),
      bool_flag ''buildkite'' (\<lambda>v o'. o'\<lparr>sop_buildkite := v\<rparr>),
      string_flag ''buildkite-agent'' (\<lambda>v o'. o'\<lparr>sop_buildkiteAgent := v\<rparr>),
      string_flag ''result-url-prefix'' (\<lambda>v o'. o'\<lparr>sop_resultURLPrefix := v\<rparr>)]"

text \<open>The agent URLs: those of the flags and of the environment, or the default.\<close>

definition submit_agent_urls :: "(string \<Rightarrow> string) \<Rightarrow> submit_options \<Rightarrow> submit_options" where
  "submit_agent_urls getenv opts =
     (let envURLs = getenv ''SPORE_AGENT_URLS'';
          opts = (if envURLs \<noteq> [] then opts\<lparr>sop_agentURLs := strings_flag_set (sop_agentURLs opts) envURLs\<rparr> else opts) in
      if sop_agentURLs opts = [] then opts\<lparr>sop_agentURLs := strings_flag_set [] (default_agent_url (sop_namespace opts))\<rparr>
      else opts)"

definition submit_parse :: "(string \<Rightarrow> string) \<Rightarrow> string list \<Rightarrow> gerr + submit_options option" where
  "submit_parse getenv args =
     (case parse_flags submit_flags args (submit_defaults getenv) of
        FlagHelp \<Rightarrow> Inr None
      | FlagError msg \<Rightarrow> Inl (Opaque msg)
      | FlagsParsed opts rest \<Rightarrow>
          (case rest of
             [] \<Rightarrow> Inl (Opaque ''run JSON path is required'')
           | [path] \<Rightarrow> Inr (Some (submit_agent_urls getenv (opts\<lparr>sop_inputPath := path\<rparr>)))
           | _ # extra # _ \<Rightarrow> Inl (Opaque (''unexpected argument '' @ go_quote extra))))"

definition run_submit :: "'w submit_env \<Rightarrow> string list \<Rightarrow> 'w \<Rightarrow> (gerr option \<times> 'w) option" where
  "run_submit env args w =
     (case submit_parse (sbm_getenv env) args of
        Inl e \<Rightarrow> Some (Some e, w)
      | Inr None \<Rightarrow> Some (None, w)
      | Inr (Some opts) \<Rightarrow> submit_with_options env opts w)"

definition submit_usage :: string where
  "submit_usage = ''usage: sporectl submit [flags] RUN.json''"

text \<open>\<open>run\<close>; its error is the exit status 1 of \<open>main\<close>.\<close>

definition sporectl_run :: "'w submit_env \<Rightarrow> string list \<Rightarrow> 'w \<Rightarrow> (gerr option \<times> 'w) option" where
  "sporectl_run env args w =
     (case args of
        [] \<Rightarrow> Some (Some (Opaque submit_usage), w)
      | cmd # rest \<Rightarrow>
          if cmd = ''submit'' then run_submit env rest w
          else if cmd \<in> set [''-h'', ''--help'', ''help'']
          then Some (None, snd (sbm_write env (submit_usage @ [CHR 0x0A]) w))
          else Some (Some (Opaque (''unknown command '' @ go_quote cmd)), w))"

end
