(* ===== verification/CoordinatorFlags.thy ===== *)
theory CoordinatorFlags
  imports GoFlags CoordinatorMain
begin

text \<open>
  How \<open>cmd/spore-coordinator/main.go\<close> starts: its flags with the environment variables they default
  to, and what its \<open>main\<close> does with them. The process ends with an exit status or serves the resident
  API; \<open>ListenAndServe\<close> and signals are not modelled.
\<close>

definition minute :: int where
  "minute = 60 * second"

definition coordinator_defaults :: "(string \<Rightarrow> string) \<Rightarrow> 'w coordinator_config" where
  "coordinator_defaults getenv =
     \<lparr>cc_runPath = env_string getenv ''SPORE_RUN_PATH'' [],
      cc_bundleRunPath = env_string getenv ''SPORE_BUNDLE_RUN_PATH'' [],
      cc_listen = env_string getenv ''SPORE_COORDINATOR_LISTEN'' [],
      cc_resultStore =
        \<lparr>rsc_backend = env_string getenv ''SPORE_RESULT_STORE_BACKEND'' ''local'',
         rsc_localRoot = env_string getenv ''SPORE_COORDINATOR_RESULT_STORE_ROOT'' ''/var/lib/sporevm/coordinator-results'',
         rsc_region = env_string getenv ''SPORE_RESULT_STORE_REGION'' (env_string getenv ''AWS_REGION'' []),
         rsc_endpoint = env_string getenv ''SPORE_RESULT_STORE_ENDPOINT'' [],
         rsc_usePathStyle = env_bool getenv ''SPORE_RESULT_STORE_PATH_STYLE'' False\<rparr>,
      cc_timeout = env_duration getenv ''SPORE_COORDINATOR_TIMEOUT'' (30 * minute),
      cc_agentURLs = [], cc_httpClient = None\<rparr>"

definition on_store :: "(result_store_config \<Rightarrow> result_store_config) \<Rightarrow> 'w coordinator_config \<Rightarrow> 'w coordinator_config" where
  "on_store f cfg = cfg\<lparr>cc_resultStore := f (cc_resultStore cfg)\<rparr>"

definition coordinator_flags :: "'w coordinator_config flag list" where
  "coordinator_flags =
     [string_flag ''run'' (\<lambda>v cfg. cfg\<lparr>cc_runPath := v\<rparr>),
      string_flag ''bundle-run'' (\<lambda>v cfg. cfg\<lparr>cc_bundleRunPath := v\<rparr>),
      string_flag ''listen'' (\<lambda>v cfg. cfg\<lparr>cc_listen := v\<rparr>),
      string_flag ''agent-url'' (\<lambda>v cfg. cfg\<lparr>cc_agentURLs := agent_urls_set (cc_agentURLs cfg) v\<rparr>),
      string_flag ''result-store-root'' (\<lambda>v. on_store (\<lambda>s. s\<lparr>rsc_localRoot := v\<rparr>)),
      string_flag ''result-store-backend'' (\<lambda>v. on_store (\<lambda>s. s\<lparr>rsc_backend := v\<rparr>)),
      string_flag ''result-store-region'' (\<lambda>v. on_store (\<lambda>s. s\<lparr>rsc_region := v\<rparr>)),
      string_flag ''result-store-endpoint'' (\<lambda>v. on_store (\<lambda>s. s\<lparr>rsc_endpoint := v\<rparr>)),
      bool_flag ''result-store-path-style'' (\<lambda>v. on_store (\<lambda>s. s\<lparr>rsc_usePathStyle := v\<rparr>)),
      duration_flag ''timeout'' (\<lambda>v cfg. cfg\<lparr>cc_timeout := v\<rparr>)]"

text \<open>How the process ends, or the configuration of the API it serves from then on.\<close>

datatype 'w coordinator_end = Exited int | Serving "'w coordinator_config"

definition serve_coordinator :: "'w coordinator_config \<Rightarrow> gerr option" where
  "serve_coordinator cfg = (if cc_listen cfg = [] then Some (Opaque ''listen address is required'') else coordinator_handler cfg)"

definition coordinator_program :: "'w main_env \<Rightarrow> (string \<Rightarrow> string) \<Rightarrow> 'w coordinator_config \<Rightarrow> 'w \<Rightarrow> 'w coordinator_end \<times> 'w" where
  "coordinator_program env getenv cfg w =
     (let envURLs = getenv ''SPORE_AGENT_URLS'';
          cfg = (if envURLs \<noteq> [] then cfg\<lparr>cc_agentURLs := agent_urls_set (cc_agentURLs cfg) envURLs\<rparr> else cfg) in
      if cc_listen cfg \<noteq> [] then (case serve_coordinator cfg of Some _ \<Rightarrow> (Exited 1, w) | None \<Rightarrow> (Serving cfg, w))
      else
        let cfg = (if cc_runPath cfg = [] \<and> cc_bundleRunPath cfg = [] then cfg\<lparr>cc_runPath := default_run_path\<rparr> else cfg) in
        (case run_coordinator env BackgroundCtx cfg w of
           (Some _, w1) \<Rightarrow> (Exited 1, w1)
         | (None, w1) \<Rightarrow> (Exited 0, w1)))"

text \<open>\<open>main\<close>; a request for help exits with 0, a bad flag with 2.\<close>

definition coordinator_main :: "'w main_env \<Rightarrow> (string \<Rightarrow> string) \<Rightarrow> string list \<Rightarrow> 'w \<Rightarrow> 'w coordinator_end \<times> 'w" where
  "coordinator_main env getenv args w =
     (case parse_flags coordinator_flags args (coordinator_defaults getenv) of
        FlagHelp \<Rightarrow> (Exited 0, w)
      | FlagError _ \<Rightarrow> (Exited 2, w)
      | FlagsParsed cfg _ \<Rightarrow> coordinator_program env getenv cfg w)"

end
