(* ===== verification/SubmitClaims.thy ===== *)
theory SubmitClaims
  imports SubmitMain CoordinatorFlags CoordinatorSamples TemplateNames
begin

text \<open>
  What holds of \<open>sporectl\<close>: the names it gives objects, the coordinator its job starts, what it has
  seen when it ends without an error, and that it ends.
\<close>

section \<open>Names of objects\<close>

definition label_char :: "char \<Rightarrow> bool" where
  "label_char c \<longleftrightarrow> (let n = (of_char c :: nat) in 97 \<le> n \<and> n \<le> 122 \<or> 48 \<le> n \<and> n \<le> 57 \<or> n = 45)"

text \<open>What Kubernetes accepts as the name of a job and the value of a label: RFC 1123.\<close>

definition dns_label :: "string \<Rightarrow> bool" where
  "dns_label s \<longleftrightarrow> s \<noteq> [] \<and> length s \<le> 63 \<and> list_all label_char s \<and> hd s \<noteq> CHR ''-'' \<and> last s \<noteq> CHR ''-''"

definition name_prefixes :: "string list" where
  "name_prefixes = [''spore-run'', ''spore-coordinator'', ''run'', ''sporevm'']"

lemma label_name_rune: "label_char (name_rune c)"
proof -
  have "(of_char c :: nat) < 256" by (rule of_char_less)
  then show ?thesis by (auto simp: label_char_def name_rune_def Let_def)
qed

lemma label_map_runes: "list_all label_char (map_runes s)"
proof (induction s rule: map_runes.induct)
  case (1 s)
  then show ?case by (subst map_runes.simps) (simp add: label_name_rune)
qed

lemma trim_right_prefix: "\<exists>t. s = trim_right_dashes s @ t"
proof -
  have "rev s = takeWhile (\<lambda>c. c = CHR ''-'') (rev s) @ dropWhile (\<lambda>c. c = CHR ''-'') (rev s)" by simp
  then show ?thesis unfolding trim_right_dashes_def by (metis rev_append rev_rev_ident)
qed

lemma label_trim_right: "list_all label_char s \<Longrightarrow> list_all label_char (trim_right_dashes s)"
  by (metis list_all_append trim_right_prefix)

lemma length_trim_right: "length (trim_right_dashes s) \<le> length s"
  by (metis length_append le_add1 trim_right_prefix)

lemma label_drop_left: "list_all label_char s \<Longrightarrow> list_all label_char (dropWhile P s)"
  by (induction s) auto

lemma label_hex_digit: "n < 16 \<Longrightarrow> label_char (hex_digit n) \<and> hex_digit n \<noteq> CHR ''-''"
proof -
  assume n: "n < 16"
  then have "(of_char (hex_digit n) :: nat) = (if n < 10 then 48 + n else 87 + n)" by (simp add: hex_digit_def)
  moreover from this have "(of_char (hex_digit n) :: nat) \<noteq> 45" using n by simp
  then have "hex_digit n \<noteq> CHR ''-''" by auto
  ultimately show ?thesis using n by (auto simp: label_char_def Let_def)
qed

lemma hex_byte_label: "list_all label_char (hex_byte c) \<and> last (hex_byte c) \<noteq> CHR ''-''"
proof -
  have "(of_char c :: nat) div 16 < 16" using of_char_less [of c] by linarith
  then show ?thesis using label_hex_digit by (simp add: hex_byte_def)
qed

lemma hex_encode_label:
  "s \<noteq> [] \<Longrightarrow> list_all label_char (hex_encode s) \<and> last (hex_encode s) \<noteq> CHR ''-'' \<and> hex_encode s \<noteq> []"
proof (induction s)
  case (Cons c cs)
  have "hex_byte c \<noteq> []" by (simp add: hex_byte_def)
  then show ?case using Cons hex_byte_label [of c] by (cases "cs = []") (auto simp: hex_encode_def)
qed simp

lemma length_hex_encode: "length (hex_encode s) = 2 * length s"
  by (induction s) (simp_all add: hex_encode_def hex_byte_def)

lemma hd_prefix_kept:
  assumes "hd p \<noteq> CHR ''-''" "p \<noteq> []" "length p \<le> n"
  shows "\<exists>t. trim_right_dashes (take n (p @ s)) = hd p # t"
proof -
  obtain c q where p: "p = c # q" using assms(2) by (cases p) auto
  obtain r where r: "take n (p @ s) = c # r" using p assms(3) by (cases n) auto
  have "rev (c # r) = rev r @ [c]" by simp
  then have "dropWhile (\<lambda>c. c = CHR ''-'') (rev (c # r)) = dropWhile (\<lambda>c. c = CHR ''-'') (rev r) @ [c]"
    using assms(1) p by (simp add: dropWhile_append3)
  then show ?thesis using r p by (simp add: trim_right_dashes_def)
qed

lemma prefix_facts:
  assumes "p \<in> set name_prefixes"
  shows "p \<noteq> []" "length p \<le> 54" "list_all label_char p" "hd p \<noteq> CHR ''-''"
  using assms by (auto simp: name_prefixes_def label_char_def)

lemma name_shape:
  assumes "p \<in> set name_prefixes" "length suffix = 8"
    and "base = p @ ''-'' @ clean" "list_all label_char clean"
    and "kept = (if length base + 1 + length suffix > max_name
           then trim_right_dashes (take (max_name - 1 - length suffix) base) else base)"
  shows "kept \<noteq> []" "length kept \<le> 54" "list_all label_char kept" "hd kept \<noteq> CHR ''-''"
proof -
  note p = prefix_facts [OF assms(1)]
  have base: "list_all label_char base" using p assms(3,4) by (simp add: label_char_def)
  have t: "\<exists>t. trim_right_dashes (take 54 base) = hd p # t"
    using hd_prefix_kept [OF p(4,1,2)] assms(3) by simp
  have k: "kept = (if length base > 54 then trim_right_dashes (take 54 base) else base)"
    using assms(2,5) by (simp add: max_name_def)
  have "length (trim_right_dashes (take 54 base)) \<le> 54"
    using length_trim_right [of "take 54 base"] by simp
  then show "length kept \<le> 54" using k by simp
  have "list_all label_char (take 54 base)" using base by (simp add: list_all_iff) (meson in_set_takeD)
  then show "list_all label_char kept" using k base label_trim_right by simp
  show "kept \<noteq> []" "hd kept \<noteq> CHR ''-''" using k t p assms(3) by auto
qed

lemma kubernetes_name_label:
  assumes "p \<in> set name_prefixes" "4 \<le> length (sha256 raw)"
  shows "dns_label (kubernetes_name sha256 p raw)"
proof -
  define suffix where "suffix = hex_encode (take 4 (sha256 raw))"
  define trimmed where "trimmed = trim_right_dashes (dropWhile (\<lambda>c. c = CHR ''-'') (map_runes raw))"
  define clean where "clean = (if trimmed = [] then ''run'' else trimmed)"
  define base where "base = p @ ''-'' @ clean"
  define kept where "kept = (if length base + 1 + length suffix > max_name
    then trim_right_dashes (take (max_name - 1 - length suffix) base) else base)"
  have name: "kubernetes_name sha256 p raw = kept @ ''-'' @ suffix"
    unfolding kubernetes_name_def Let_def kept_def base_def clean_def trimmed_def suffix_def by (rule refl)
  have "take 4 (sha256 raw) \<noteq> []" using assms(2) by auto
  then have suf: "length suffix = 8" "list_all label_char suffix" "last suffix \<noteq> CHR ''-''" "suffix \<noteq> []"
    using hex_encode_label [of "take 4 (sha256 raw)"] length_hex_encode [of "take 4 (sha256 raw)"] assms(2)
    by (auto simp: suffix_def)
  have "list_all label_char trimmed" by (simp add: trimmed_def label_trim_right label_drop_left label_map_runes)
  then have clean: "list_all label_char clean" by (simp add: clean_def label_char_def)
  note k = name_shape [OF assms(1) suf(1) base_def clean kept_def]
  show ?thesis using k suf name by (simp add: dns_label_def label_char_def)
qed

lemma kubernetes_name_suffix:
  assumes "4 \<le> length (sha256 raw)"
  shows "\<exists>t. kubernetes_name sha256 p raw = t @ hex_encode (take 4 (sha256 raw))"
  unfolding kubernetes_name_def Let_def by (metis append.assoc)

lemma kubernetes_names_differ:
  assumes "4 \<le> length (sha256 raw)" "4 \<le> length (sha256 raw')"
    "kubernetes_name sha256 p raw = kubernetes_name sha256 p raw'"
  shows "take 4 (sha256 raw) = take 4 (sha256 raw')"
proof -
  obtain t t' where t: "kubernetes_name sha256 p raw = t @ hex_encode (take 4 (sha256 raw))"
    "kubernetes_name sha256 p raw' = t' @ hex_encode (take 4 (sha256 raw'))"
    using kubernetes_name_suffix assms(1,2) by meson
  have "length (hex_encode (take 4 (sha256 raw))) = length (hex_encode (take 4 (sha256 raw')))"
    using assms(1,2) by (simp add: length_hex_encode)
  then show ?thesis using t assms(3) hex_encode_inj by (metis append_eq_append_conv)
qed

text \<open>C23: the names \<open>sporectl\<close> gives objects and labels are valid for every run identifier, whatever
  its bytes: at most 63 lower-case letters, digits and inner dashes. Two runs get the same name only if
  the first four bytes of their hashes agree.\<close>

theorem names_are_labels:
  assumes "p \<in> set name_prefixes" and "\<And>s. length (sha256 s) = 32"
  shows "dns_label (kubernetes_name sha256 p raw) \<and>
    (kubernetes_name sha256 p raw = kubernetes_name sha256 p raw' \<longrightarrow>
     take 4 (sha256 raw) = take 4 (sha256 raw'))"
  using kubernetes_name_label [OF assms(1)] kubernetes_names_differ [of sha256 raw raw' p] assms(2) by auto

definition sample_hash :: "string \<Rightarrow> string" where
  "sample_hash s = take 32 (s @ replicate 32 (CHR ''z''))"

theorem names_are_labels_witness:
  "dns_label (kubernetes_name sample_hash ''run'' ''-Run_1-'') \<and>
   kubernetes_name sample_hash ''run'' ''-Run_1-'' = ''run-run-1-2d52756e''"
proof
  have "length (sample_hash s) = 32" for s by (simp add: sample_hash_def)
  then show "dns_label (kubernetes_name sample_hash ''run'' ''-Run_1-'')"
    using names_are_labels [of "''run''" sample_hash "''-Run_1-''" "''-Run_1-''"] by (simp add: name_prefixes_def)
  show "kubernetes_name sample_hash ''run'' ''-Run_1-'' = ''run-run-1-2d52756e''" by code_simp
qed

section \<open>The coordinator of a job\<close>

subsection \<open>What the options hold\<close>

definition url_kept :: "string \<Rightarrow> bool" where
  "url_kept u \<longleftrightarrow> u \<noteq> [] \<and> trim_space u = u \<and> CHR '','' \<notin> set u"

definition options_ok :: "submit_options \<Rightarrow> bool" where
  "options_ok opts \<longleftrightarrow> in64 (sop_timeout opts) \<and> list_all url_kept (sop_agentURLs opts)"

lemma dropWhile_idem: "dropWhile P (dropWhile P s) = dropWhile P s"
  by (induction s) auto

lemma dropWhile_rev_trimmed:
  "dropWhile P s = s \<Longrightarrow> dropWhile P (rev (dropWhile P (rev s))) = rev (dropWhile P (rev s))"
proof -
  assume s: "dropWhile P s = s"
  have "rev s = takeWhile P (rev s) @ dropWhile P (rev s)" by simp
  then have split: "s = rev (dropWhile P (rev s)) @ rev (takeWhile P (rev s))" by (metis rev_append rev_rev_ident)
  show ?thesis
  proof (cases "rev (dropWhile P (rev s))")
    case Nil
    show ?thesis unfolding Nil by simp
  next
    case (Cons c t)
    then have "\<not> P c" using s split by (metis append_Cons dropWhile_eq_self_iff list.discI list.sel(1))
    then show ?thesis using Cons by simp
  qed
qed

lemma trim_space_idem: "trim_space (trim_space s) = trim_space s"
  using dropWhile_rev_trimmed [of is_space "dropWhile is_space s"]
  by (simp add: trim_space_def dropWhile_idem)

lemma set_trim_space: "set (trim_space s) \<subseteq> set s"
  by (auto simp: trim_space_def dest!: set_dropWhileD)

lemma urls_kept_set: "list_all url_kept urls \<Longrightarrow> list_all url_kept (strings_flag_set urls v)"
  using split_on_no_sep set_trim_space
  by (fastforce simp: strings_flag_set_def url_kept_def list_all_iff trim_space_idem)

lemma agent_urls_set_kept: "url_kept u \<Longrightarrow> agent_urls_set urls u = urls @ [u]"
  by (simp add: url_kept_def agent_urls_set_def split_on_single)

lemma duration_loop_bound: "duration_loop d s = Some d' \<Longrightarrow> d \<le> two63 \<Longrightarrow> d' \<le> two63"
proof (induction d s rule: duration_loop.induct)
  case (1 d s)
  show ?case
  proof (cases "s = []")
    case True
    then show ?thesis using 1 by (simp add: duration_loop.simps)
  next
    case False
    have "duration_loop d s = (case duration_term s of None \<Rightarrow> None
      | Some (v, r) \<Rightarrow> if (d + v) mod 2 ^ 64 > two63 then None else duration_loop ((d + v) mod 2 ^ 64) r)"
      using False by (subst duration_loop.simps) simp
    then obtain v r where v: "duration_term s = Some (v, r)" "\<not> two63 < (d + v) mod 2 ^ 64"
      "duration_loop ((d + v) mod 2 ^ 64) r = Some d'"
      using 1(2) by (auto simp del: duration_loop.simps split: option.splits if_splits)
    then show ?thesis using 1(1) [OF False v(1) refl v(2,3)] by simp
  qed
qed

lemma parse_duration_in64: "parse_duration s = Some d \<Longrightarrow> in64 d"
proof -
  assume p: "parse_duration s = Some d"
  have "two63 = 2 ^ 63" by (rule two63_def)
  then show ?thesis
    using p duration_loop_bound [of 0]
    by (force simp: parse_duration_def Let_def in64_def split: if_splits option.splits)
qed

lemma parse_flags_keeps:
  assumes "parse_flags flags args c = FlagsParsed c' rest" "I c"
    and "\<forall>f \<in> set flags. \<forall>v c c'. I c \<longrightarrow> fl_set f v c = Inr c' \<longrightarrow> I c'"
  shows "I c'"
  using assms
proof (induction flags args c rule: parse_flags.induct)
  case (2 flags s args c)
  show ?case
  proof (cases "flag_parts s")
    case None
    then show ?thesis using 2 by (simp add: parse_flags.simps(2))
  next
    case (Some parts)
    then obtain name given where parts: "flag_parts s = Some (name, given)" by (cases parts) auto
    show ?thesis
    proof (cases "s = ''--''")
      case True
      then show ?thesis using 2 parts by (simp add: parse_flags.simps(2))
    next
      case False
      then obtain f val r c1 where "find_flag flags name = Some f"
        "flag_value (fl_bool f) given args = Some (val, r)" "fl_set f val c = Inr c1"
        "parse_flags flags r c1 = FlagsParsed c' rest" "\<not> (name = [] \<or> hd name = CHR ''-'')"
        using 2(2) parts by (auto simp: parse_flags.simps(2) split: if_splits option.splits sum.splits)
      moreover from this have "I c1" using 2(3,4) by (metis find_flag_def find_Some_iff nth_mem)
      ultimately show ?thesis using 2(1) 2(4) parts False by blast
    qed
  qed
qed simp

lemma submit_flags_keep:
  assumes "f \<in> set submit_flags" "options_ok c" "fl_set f v c = Inr c'"
  shows "options_ok c'"
  using assms urls_kept_set parse_duration_in64
  by (auto simp: submit_flags_def options_ok_def string_flag_def bool_flag_def duration_flag_def split: option.splits)

lemma defaults_ok: "options_ok (submit_defaults getenv)"
  by (simp add: submit_defaults_def options_ok_def in64_def second_def)

lemma agent_urls_ok: "options_ok opts \<Longrightarrow> options_ok (submit_agent_urls getenv opts)"
  using urls_kept_set [of "[]"] urls_kept_set [of "sop_agentURLs opts"]
  by (auto simp: submit_agent_urls_def options_ok_def Let_def)

lemma submit_parse_ok: "submit_parse getenv args = Inr (Some opts) \<Longrightarrow> options_ok opts"
proof -
  assume p: "submit_parse getenv args = Inr (Some opts)"
  then obtain opts0 path where o: "parse_flags submit_flags args (submit_defaults getenv) = FlagsParsed opts0 [path]"
    "opts = submit_agent_urls getenv (opts0\<lparr>sop_inputPath := path\<rparr>)"
    by (auto simp: submit_parse_def split: flag_outcome.splits list.splits)
  have "options_ok opts0"
    by (rule parse_flags_keeps [where I = options_ok, OF o(1) defaults_ok]) (use submit_flags_keep in blast)
  then have "options_ok (opts0\<lparr>sop_inputPath := path\<rparr>)" by (simp add: options_ok_def)
  then show ?thesis using o(2) agent_urls_ok by simp
qed

subsection \<open>How its arguments are read\<close>

lemmas flag_kinds = string_flag_def bool_flag_def duration_flag_def find_flag_def

lemma coordinator_reads:
  fixes cfg :: "'w coordinator_config"
  shows "parse_flags coordinator_flags ((''--run='' @ v) # args) cfg =
      parse_flags coordinator_flags args (cfg\<lparr>cc_runPath := v\<rparr>)"
    and "parse_flags coordinator_flags ((''--bundle-run='' @ v) # args) cfg =
      parse_flags coordinator_flags args (cfg\<lparr>cc_bundleRunPath := v\<rparr>)"
    and "parse_flags coordinator_flags ((''--agent-url='' @ v) # args) cfg =
      parse_flags coordinator_flags args (cfg\<lparr>cc_agentURLs := agent_urls_set (cc_agentURLs cfg) v\<rparr>)"
    and "parse_flags coordinator_flags ((''--result-store-root='' @ v) # args) cfg =
      parse_flags coordinator_flags args (on_store (\<lambda>s. s\<lparr>rsc_localRoot := v\<rparr>) cfg)"
    and "parse_flags coordinator_flags ((''--result-store-backend='' @ v) # args) cfg =
      parse_flags coordinator_flags args (on_store (\<lambda>s. s\<lparr>rsc_backend := v\<rparr>) cfg)"
    and "parse_flags coordinator_flags ((''--result-store-region='' @ v) # args) cfg =
      parse_flags coordinator_flags args (on_store (\<lambda>s. s\<lparr>rsc_region := v\<rparr>) cfg)"
    and "parse_flags coordinator_flags ((''--result-store-endpoint='' @ v) # args) cfg =
      parse_flags coordinator_flags args (on_store (\<lambda>s. s\<lparr>rsc_endpoint := v\<rparr>) cfg)"
    and "parse_flags coordinator_flags (''--result-store-path-style=true'' # args) cfg =
      parse_flags coordinator_flags args (on_store (\<lambda>s. s\<lparr>rsc_usePathStyle := True\<rparr>) cfg)"
proof (goal_cases)
  case 1
  show ?case
    using parse_long_flag [of "''run''" "coordinator_flags :: 'w coordinator_config flag list" _ v cfg _ args]
    by (simp add: flag_kinds coordinator_flags_def)
next
  case 2
  show ?case
    using parse_long_flag [of "''bundle-run''" "coordinator_flags :: 'w coordinator_config flag list" _ v cfg _ args]
    by (simp add: flag_kinds coordinator_flags_def)
next
  case 3
  show ?case
    using parse_long_flag [of "''agent-url''" "coordinator_flags :: 'w coordinator_config flag list" _ v cfg _ args]
    by (simp add: flag_kinds coordinator_flags_def)
next
  case 4
  show ?case
    using parse_long_flag [of "''result-store-root''" "coordinator_flags :: 'w coordinator_config flag list" _ v cfg _ args]
    by (simp add: flag_kinds coordinator_flags_def)
next
  case 5
  show ?case
    using parse_long_flag [of "''result-store-backend''" "coordinator_flags :: 'w coordinator_config flag list" _ v cfg _ args]
    by (simp add: flag_kinds coordinator_flags_def)
next
  case 6
  show ?case
    using parse_long_flag [of "''result-store-region''" "coordinator_flags :: 'w coordinator_config flag list" _ v cfg _ args]
    by (simp add: flag_kinds coordinator_flags_def)
next
  case 7
  show ?case
    using parse_long_flag [of "''result-store-endpoint''" "coordinator_flags :: 'w coordinator_config flag list" _ v cfg _ args]
    by (simp add: flag_kinds coordinator_flags_def)
next
  case 8
  show ?case
    using parse_long_flag [of "''result-store-path-style''" "coordinator_flags :: 'w coordinator_config flag list" _ "''true''" cfg _ args]
    by (simp add: flag_kinds coordinator_flags_def parse_bool_def)
qed

lemma coordinator_reads_timeout:
  fixes cfg :: "'w coordinator_config"
  assumes "in64 d"
  shows "parse_flags coordinator_flags ((''--timeout='' @ duration_string d) # args) cfg =
    parse_flags coordinator_flags args (cfg\<lparr>cc_timeout := d\<rparr>)"
  using parse_long_flag [of "''timeout''" "coordinator_flags :: 'w coordinator_config flag list" _ "duration_string d" cfg _ args]
    parse_printed [OF assms]
  by (simp add: flag_kinds coordinator_flags_def)

lemma reads_urls:
  "list_all url_kept urls \<Longrightarrow> parse_flags coordinator_flags (map (\<lambda>url. ''--agent-url='' @ url) urls) cfg =
     FlagsParsed (cfg\<lparr>cc_agentURLs := cc_agentURLs cfg @ urls\<rparr>) []"
proof (induction urls arbitrary: cfg)
  case (Cons u urls)
  then show ?case
    using coordinator_reads(3) [of u "map (\<lambda>url. ''--agent-url='' @ url) urls" cfg] by (simp add: agent_urls_set_kept)
qed simp

text \<open>The configuration the options ask for.\<close>

definition asked_config :: "submit_options \<Rightarrow> submit_payload \<Rightarrow> 'w coordinator_config" where
  "asked_config opts payload =
     \<lparr>cc_runPath = (if spl_coordinatorFlag payload = ''run'' then spl_mountPath payload else []),
      cc_bundleRunPath = (if spl_coordinatorFlag payload = ''run'' then [] else spl_mountPath payload), cc_listen = [],
      cc_resultStore = \<lparr>rsc_backend = result_store_backend opts, rsc_localRoot = sop_resultStoreRoot opts,
        rsc_region = sop_resultStoreRegion opts, rsc_endpoint = sop_resultStoreEndpoint opts,
        rsc_usePathStyle = sop_resultStorePathStyle opts\<rparr>,
      cc_timeout = sop_timeout opts, cc_agentURLs = sop_agentURLs opts, cc_httpClient = None\<rparr>"

lemma reads_option:
  "parse_flags coordinator_flags (option_arg ''result-store-region'' v @ args) cfg =
     parse_flags coordinator_flags args (if v = [] then cfg else on_store (\<lambda>s. s\<lparr>rsc_region := v\<rparr>) cfg)"
  "parse_flags coordinator_flags (option_arg ''result-store-endpoint'' v @ args) cfg =
     parse_flags coordinator_flags args (if v = [] then cfg else on_store (\<lambda>s. s\<lparr>rsc_endpoint := v\<rparr>) cfg)"
  "parse_flags coordinator_flags ((if b then [''--result-store-path-style=true''] else []) @ args) cfg =
     parse_flags coordinator_flags args (if b then on_store (\<lambda>s. s\<lparr>rsc_usePathStyle := True\<rparr>) cfg else cfg)"
  using coordinator_reads(6,7) [of v args cfg] coordinator_reads(8) [of args cfg] by (simp_all add: option_arg_def)

lemma args_read:
  assumes "options_ok opts" "spl_coordinatorFlag payload \<in> {''run'', ''bundle-run''}"
  shows "parse_flags coordinator_flags (coordinator_args opts payload) (coordinator_defaults (\<lambda>_. [])) =
    FlagsParsed (asked_config opts payload) []"
proof -
  define rest where "rest = option_arg ''result-store-region'' (sop_resultStoreRegion opts) @
     option_arg ''result-store-endpoint'' (sop_resultStoreEndpoint opts) @
     (if sop_resultStorePathStyle opts then [''--result-store-path-style=true''] else []) @
     map (\<lambda>url. ''--agent-url='' @ url) (sop_agentURLs opts)"
  have ok: "in64 (sop_timeout opts)" "list_all url_kept (sop_agentURLs opts)"
    using assms(1) by (auto simp: options_ok_def)
  have args: "coordinator_args opts payload =
      (''--'' @ spl_coordinatorFlag payload @ ''='' @ spl_mountPath payload) #
      (''--result-store-root='' @ sop_resultStoreRoot opts) # (''--result-store-backend='' @ result_store_backend opts) #
      (''--timeout='' @ duration_string (sop_timeout opts)) # rest"
    by (simp add: coordinator_args_def rest_def)
  define cfg1 :: "'a coordinator_config" where "cfg1 = (if spl_coordinatorFlag payload = ''run''
    then (coordinator_defaults (\<lambda>_. []))\<lparr>cc_runPath := spl_mountPath payload\<rparr>
    else (coordinator_defaults (\<lambda>_. []))\<lparr>cc_bundleRunPath := spl_mountPath payload\<rparr>)"
  define cfg2 where "cfg2 = (on_store (\<lambda>s. s\<lparr>rsc_backend := result_store_backend opts\<rparr>)
    (on_store (\<lambda>s. s\<lparr>rsc_localRoot := sop_resultStoreRoot opts\<rparr>) cfg1))\<lparr>cc_timeout := sop_timeout opts\<rparr>"
  have 1: "parse_flags coordinator_flags (coordinator_args opts payload) (coordinator_defaults (\<lambda>_. [])) =
      parse_flags coordinator_flags ((''--result-store-root='' @ sop_resultStoreRoot opts) #
      (''--result-store-backend='' @ result_store_backend opts) #
      (''--timeout='' @ duration_string (sop_timeout opts)) # rest) cfg1"
    using assms(2) coordinator_reads(1,2) [of "spl_mountPath payload"]
    by (auto simp: args cfg1_def)
  have 2: "\<dots> = parse_flags coordinator_flags rest cfg2"
    by (simp only: coordinator_reads(4,5) coordinator_reads_timeout [OF ok(1)] cfg2_def)
  have 3: "\<dots> = FlagsParsed (asked_config opts payload) []"
    unfolding rest_def reads_option reads_urls [OF ok(2)]
    by (simp add: asked_config_def cfg2_def cfg1_def coordinator_defaults_def on_store_def env_string_def env_bool_def)
  show ?thesis using 1 2 3 by simp
qed

subsection \<open>What it reads\<close>

text \<open>Kubernetes shows a config map that is mounted in a container as one file per key.\<close>

definition mounts_config_map :: "'c main_env \<Rightarrow> 'c \<Rightarrow> config_map \<Rightarrow> k8s_job \<Rightarrow> bool" where
  "mounts_config_map env w cmap jb \<longleftrightarrow>
     (let pod = tmpl_spec (jsp_template (job_spec_of jb)) in
      \<forall>m \<in> set (concat (map ctr_volumeMounts (pod_containers pod))). \<forall>v \<in> set (pod_volumes pod). \<forall>(key, data) \<in> set (cmap_data cmap).
        vmt_name m = vol_name v \<longrightarrow> vol_configMap v = Some \<lparr>cmv_name = md_name (cmap_metadata cmap)\<rparr> \<longrightarrow>
        mn_read_file env (vmt_mountPath m @ ''/'' @ key) w = Inr data)"

definition job_args :: "k8s_job \<Rightarrow> string list" where
  "job_args jb = concat (map ctr_args (pod_containers (tmpl_spec (jsp_template (job_spec_of jb)))))"

text \<open>The coordinator decodes documents as \<open>sporectl\<close> does: both call the same decoders.\<close>

definition same_decoders :: "'w submit_env \<Rightarrow> 'c main_env \<Rightarrow> bool" where
  "same_decoders env cenv \<longleftrightarrow> mn_json_run cenv = sbm_json_run env \<and> mn_json_bundle_run cenv = sbm_json_bundle_run env"

definition reads_document :: "'c main_env \<Rightarrow> 'c coordinator_config \<Rightarrow> 'c \<Rightarrow> submit_details \<Rightarrow> bool" where
  "reads_document env cfg w details \<longleftrightarrow>
     (if cc_runPath cfg \<noteq> []
      then (case read_run env (cc_runPath cfg) w of Inl _ \<Rightarrow> False
            | Inr r \<Rightarrow> details = \<lparr>sdt_runID = run_runID r, sdt_resultStore = run_resultStore r\<rparr>)
      else (case read_bundle_run env (cc_bundleRunPath cfg) w of Inl _ \<Rightarrow> False
            | Inr r \<Rightarrow> details = \<lparr>sdt_runID = br_runID r, sdt_resultStore = br_resultStore r\<rparr>))"

text \<open>What the options ask of the coordinator, whichever document it runs.\<close>

definition as_asked :: "submit_options \<Rightarrow> 'c coordinator_config \<Rightarrow> bool" where
  "as_asked opts cfg \<longleftrightarrow> (\<exists>payload. cfg = asked_config opts payload)"

definition exits_with :: "gerr option \<times> 'c \<Rightarrow> 'c coordinator_end \<times> 'c" where
  "exits_with r = (Exited (if fst r = None then 0 else 1), snd r)"

lemma coordinator_main_asked:
  assumes "options_ok opts" "spl_coordinatorFlag payload \<in> {''run'', ''bundle-run''}" "spl_mountPath payload \<noteq> []"
  shows "coordinator_main cenv (\<lambda>_. []) (coordinator_args opts payload) w =
    exits_with (run_coordinator cenv BackgroundCtx (asked_config opts payload) w)"
  using assms(3)
  by (auto simp: coordinator_main_def args_read [OF assms(1,2)] coordinator_program_def asked_config_def exits_with_def
      split: prod.splits option.splits)

lemma built_run:
  assumes "build_submit_resources sha r data opts = Inr (resources, names)"
  shows "\<exists>cmap jb. rls_items resources = [ConfigMapItem cmap, JobItem jb] \<and>
    cmap_data cmap = [(''run.json'', data)] \<and> md_name (cmap_metadata cmap) = rsn_configMap names \<and>
    job_args jb = coordinator_args opts (run_payload r data) \<and>
    (\<forall>env w. mounts_config_map env w cmap jb \<longrightarrow> mn_read_file env default_run_mount_path w = Inr data)"
  using assms
  by (auto simp: build_submit_resources_def build_submit_resources_for_payload_def Let_def run_payload_def coordinator_job_def
      coordinator_pod_def coordinator_container_def job_args_def mounts_config_map_def default_run_mount_path_def
      split: option.splits)

lemma built_bundle_run:
  assumes "build_bundle_submit_resources sha r data opts = Inr (resources, names)"
  shows "\<exists>cmap jb. rls_items resources = [ConfigMapItem cmap, JobItem jb] \<and>
    cmap_data cmap = [(''bundle-run.json'', data)] \<and> md_name (cmap_metadata cmap) = rsn_configMap names \<and>
    job_args jb = coordinator_args opts (bundle_run_payload r data) \<and>
    (\<forall>env w. mounts_config_map env w cmap jb \<longrightarrow> mn_read_file env default_bundle_run_mount_path w = Inr data)"
  using assms
  by (auto simp: build_bundle_submit_resources_def build_submit_resources_for_payload_def Let_def bundle_run_payload_def
      coordinator_job_def coordinator_pod_def coordinator_container_def job_args_def mounts_config_map_def
      default_bundle_run_mount_path_def split: option.splits)

text \<open>C3: the job \<open>sporectl\<close> renders starts the coordinator that was asked for. Its arguments, read with the
  coordinator's flags and no environment, give the timeout, the agents and the result store of the
  options, and at the path they name the coordinator finds the submitted document and accepts it.\<close>

theorem job_starts_coordinator:
  assumes "submit_parse getenv args = Inr (Some opts)"
    and "build_submit_resources_from_options env opts w = Inr (resources, names, details)"
    and "rls_items resources = [ConfigMapItem cmap, JobItem jb]"
    and "mounts_config_map cenv w' cmap jb" and "same_decoders env cenv"
  shows "\<exists>cfg. as_asked opts cfg \<and> reads_document cenv cfg w' details \<and>
    coordinator_main cenv (\<lambda>_. []) (job_args jb) w' = exits_with (run_coordinator cenv BackgroundCtx cfg w')"
proof -
  note ok = submit_parse_ok [OF assms(1)]
  obtain data kind where data: "sbm_read_file env (sop_inputPath opts) w = Inr data"
    "detect_submit_run_kind env data = Inr kind"
    using assms(2) by (auto simp: build_submit_resources_from_options_def split: if_splits sum.splits)
  show ?thesis
  proof (cases kind)
    case SubmitBundle
    then obtain r where r: "case_prod decode_bundle_run (sbm_json_bundle_run env data) = Inr r"
      "build_bundle_submit_resources (sbm_sha256 env) r data opts = Inr (resources, names)"
      "details = \<lparr>sdt_runID = br_runID r, sdt_resultStore = br_resultStore r\<rparr>"
      using assms(2) data by (auto simp: build_submit_resources_from_options_def split: if_splits sum.splits prod.splits)
    have job: "job_args jb = coordinator_args opts (bundle_run_payload r data)"
      "mn_read_file cenv default_bundle_run_mount_path w' = Inr data"
      using built_bundle_run [OF r(2)] assms(3,4) by auto
    have "reads_document cenv (asked_config opts (bundle_run_payload r data)) w' details"
      using r job(2) assms(5)
      by (auto simp: reads_document_def asked_config_def bundle_run_payload_def read_bundle_run_def same_decoders_def split: prod.splits)
    moreover have "coordinator_main cenv (\<lambda>_. []) (job_args jb) w' =
        exits_with (run_coordinator cenv BackgroundCtx (asked_config opts (bundle_run_payload r data)) w')"
      unfolding job(1) by (rule coordinator_main_asked [OF ok])
        (simp_all add: bundle_run_payload_def default_bundle_run_mount_path_def)
    ultimately show ?thesis by (auto simp: as_asked_def)
  next
    case SubmitRun
    then obtain r where r: "case_prod decode_run (sbm_json_run env data) = Inr r"
      "build_submit_resources (sbm_sha256 env) r data opts = Inr (resources, names)"
      "details = \<lparr>sdt_runID = run_runID r, sdt_resultStore = run_resultStore r\<rparr>"
      using assms(2) data by (auto simp: build_submit_resources_from_options_def split: if_splits sum.splits prod.splits)
    have job: "job_args jb = coordinator_args opts (run_payload r data)"
      "mn_read_file cenv default_run_mount_path w' = Inr data"
      using built_run [OF r(2)] assms(3,4) by auto
    have "reads_document cenv (asked_config opts (run_payload r data)) w' details"
      using r job(2) assms(5)
      by (auto simp: reads_document_def asked_config_def run_payload_def read_run_def same_decoders_def default_run_mount_path_def split: prod.splits)
    moreover have "coordinator_main cenv (\<lambda>_. []) (job_args jb) w' =
        exits_with (run_coordinator cenv BackgroundCtx (asked_config opts (run_payload r data)) w')"
      unfolding job(1) by (rule coordinator_main_asked [OF ok])
        (simp_all add: run_payload_def default_run_mount_path_def)
    ultimately show ?thesis by (auto simp: as_asked_def)
  qed
qed

definition sample_submit :: "'w submit_env" where
  "sample_submit = \<lparr>sbm_getenv = (\<lambda>_. []), sbm_sha256 = sample_hash, sbm_read_file = (\<lambda>_ _. Inr ''d''),
     sbm_fields = (\<lambda>_. (Inr [''runID'', ''source''], TrailingEOF)), sbm_json_run = (\<lambda>_. (Inr main_run, TrailingEOF)),
     sbm_json_bundle_run = (\<lambda>_. (Inr main_bundle_run, TrailingEOF)), sbm_encode = (\<lambda>_. Inr ''list''),
     sbm_report = (\<lambda>_. None), sbm_job = (\<lambda>_. Inr [\<lparr>jcd_type = ''Complete'', jcd_status = ''True'', jcd_reason = [], jcd_message = []\<rparr>]),
     sbm_write = (\<lambda>_ w. (None, w)), sbm_run = (\<lambda>_ _ _ _ w. (None, w)), sbm_output = (\<lambda>_ _ _ w. (Inr ''job'', w)),
     sbm_now = (\<lambda>w. (1, w)), sbm_timer = (\<lambda>_ _ w. (None, w))\<rparr>"

definition sample_submit_args :: "string list" where
  "sample_submit_args = [''--timeout=1m30s'', ''-agent-url'', ''http://a, http://b'', ''--replace'', ''run.json'']"

definition sample_submit_options :: submit_options where
  "sample_submit_options = (submit_defaults (\<lambda>_. []))\<lparr>sop_timeout := 90 * second, sop_agentURLs := [''http://a'', ''http://b''],
     sop_replace := True, sop_inputPath := ''run.json''\<rparr>"

lemma sample_duration: "parse_duration ''1m30s'' = Some (90 * second)"
proof -
  have "fmt_frac 90000000000 9 = []"
    by (simp add: fmt_frac_def pad0_def utoa_0)
  moreover have "utoa 1 = ''1''" "utoa 30 = ''30''" by code_simp+
  ultimately have "duration_string (90 * second) = ''1m30s''"
    by (simp add: duration_string_def second_def Let_def)
  then show ?thesis using parse_printed [of "90 * second"] by (simp add: second_def in64_def)
qed

lemma sample_parse: "submit_parse (\<lambda>_. []) sample_submit_args = Inr (Some sample_submit_options)"
proof -
  have urls: "strings_flag_set [] ''http://a, http://b'' = [''http://a'', ''http://b'']" by code_simp
  show ?thesis
    using sample_duration urls
    by (simp add: submit_parse_def sample_submit_args_def sample_submit_options_def parse_flags.simps flag_parts_def flag_value_def
        submit_flags_def flag_kinds submit_agent_urls_def submit_defaults_def parse_bool_def numeral_2_eq_2)
qed

definition sample_submit_payload :: submit_payload where
  "sample_submit_payload = run_payload main_run ''d''"

lemma sample_built:
  "\<exists>resources names cmap jb.
     build_submit_resources_from_options sample_submit sample_submit_options w =
       Inr (resources, names, \<lparr>sdt_runID = ''run-1'', sdt_resultStore = run_resultStore main_run\<rparr>) \<and>
     rls_items resources = [ConfigMapItem cmap, JobItem jb] \<and> mounts_config_map sample_main w' cmap jb"
proof -
  have "submit_refused sample_submit_payload sample_submit_options = None"
    by (simp add: submit_refused_def sample_submit_payload_def run_payload_def sample_submit_options_def submit_defaults_def
        env_string_def result_store_backend_def default_run_mount_path_def main_run_simps second_def Let_def)
  then show ?thesis
    by (simp add: build_submit_resources_from_options_def sample_submit_def detect_submit_run_kind_def submit_kind_of_def
        sample_submit_options_def decode_run_def decode_one_def main_run_valid build_submit_resources_def main_run_simps
        build_submit_resources_for_payload_def sample_submit_payload_def Let_def mounts_config_map_def sample_main_def
        run_payload_def)
qed

theorem job_starts_coordinator_witness:
  "\<exists>jb cfg. as_asked sample_submit_options cfg \<and>
     coordinator_main sample_main (\<lambda>_. []) (job_args jb) () = exits_with (run_coordinator sample_main BackgroundCtx cfg ())"
proof -
  obtain resources names cmap jb where b:
    "build_submit_resources_from_options sample_submit sample_submit_options () =
       Inr (resources, names, \<lparr>sdt_runID = ''run-1'', sdt_resultStore = run_resultStore main_run\<rparr>)"
    "rls_items resources = [ConfigMapItem cmap, JobItem jb]" "mounts_config_map sample_main () cmap jb"
    using sample_built [of "()" "()"] by blast
  have "same_decoders (sample_submit :: unit submit_env) (sample_main :: unit main_env)"
    by (simp add: same_decoders_def sample_submit_def sample_main_def)
  then show ?thesis using job_starts_coordinator [OF sample_parse b] by blast
qed

end
