(* ===== verification/SubmitTrace.thy ===== *)
theory SubmitTrace
  imports SubmitClaims
begin

text \<open>
  What \<open>sporectl\<close> does to the cluster: with every process it runs recorded, what a submission that
  ends without an error has done and seen, and that every submission ends.
\<close>

section \<open>The record of a submission\<close>

datatype submit_event =
    Ran string "string option" "string list" "gerr option"
  | Captured string "string list" "gerr + string"
  | Printed string

type_synonym 'w submitted = "'w \<times> submit_event list"

definition unrecorded :: "('w \<Rightarrow> 'a \<times> 'w) \<Rightarrow> 'w submitted \<Rightarrow> 'a \<times> 'w submitted" where
  "unrecorded f wl = (case f (fst wl) of (x, w) \<Rightarrow> (x, (w, snd wl)))"

definition recorded :: "('a \<Rightarrow> submit_event) \<Rightarrow> ('w \<Rightarrow> 'a \<times> 'w) \<Rightarrow> 'w submitted \<Rightarrow> 'a \<times> 'w submitted" where
  "recorded ev f wl = (case f (fst wl) of (x, w) \<Rightarrow> (x, (w, snd wl @ [ev x])))"

definition recorded_env :: "'w submit_env \<Rightarrow> 'w submitted submit_env" where
  "recorded_env env = \<lparr>
     sbm_getenv = sbm_getenv env, sbm_sha256 = sbm_sha256 env, sbm_read_file = (\<lambda>p wl. sbm_read_file env p (fst wl)),
     sbm_fields = sbm_fields env, sbm_json_run = sbm_json_run env, sbm_json_bundle_run = sbm_json_bundle_run env,
     sbm_encode = sbm_encode env, sbm_report = sbm_report env, sbm_job = sbm_job env,
     sbm_write = (\<lambda>t. recorded (\<lambda>_. Printed t) (sbm_write env t)),
     sbm_run = (\<lambda>ctx path stdin args. recorded (Ran path stdin args) (sbm_run env ctx path stdin args)),
     sbm_output = (\<lambda>ctx path args. recorded (Captured path args) (sbm_output env ctx path args)),
     sbm_now = unrecorded (sbm_now env), sbm_timer = (\<lambda>ctx d. unrecorded (sbm_timer env ctx d))\<rparr>"

lemma recorded_fields [simp]:
  "sbm_getenv (recorded_env env) = sbm_getenv env" "sbm_sha256 (recorded_env env) = sbm_sha256 env"
  "sbm_encode (recorded_env env) = sbm_encode env" "job_terminal_state (recorded_env env) = job_terminal_state env"
  "detect_submit_run_kind (recorded_env env) = detect_submit_run_kind env"
  "sbm_json_run (recorded_env env) = sbm_json_run env" "sbm_json_bundle_run (recorded_env env) = sbm_json_bundle_run env"
  "sbm_read_file (recorded_env env) path wl = sbm_read_file env path (fst wl)"
  by (simp_all add: recorded_env_def job_terminal_state_def detect_submit_run_kind_def fun_eq_iff)

lemma recorded_build [simp]:
  "build_submit_resources_from_options (recorded_env env) opts (w, l) = build_submit_resources_from_options env opts w"
  unfolding build_submit_resources_from_options_def recorded_fields fst_conv by (rule refl)

lemma recorded_report [simp]: "runtime_report_from_logs (recorded_env env) logs = runtime_report_from_logs env logs"
  by (induction logs) (auto simp: recorded_env_def split: option.splits)

lemma recorded_run:
  assumes "kubectl_run (recorded_env env) path ctx stdin args wl = (err, wl')"
  shows "\<exists>e. snd wl' = snd wl @ [Ran path stdin args e] \<and> (err = None \<longleftrightarrow> e = None)"
  using assms by (auto simp: kubectl_run_def recorded_env_def recorded_def split: prod.splits option.splits)

lemma recorded_output_ok:
  "kubectl_output (recorded_env env) path ctx args wl = (Inr out, wl') \<Longrightarrow> snd wl' = snd wl @ [Captured path args (Inr out)]"
  by (auto simp: kubectl_output_def recorded_env_def recorded_def split: prod.splits sum.splits)

lemma recorded_output:
  "kubectl_output (recorded_env env) path ctx args wl = (res, wl') \<Longrightarrow> \<exists>r. snd wl' = snd wl @ [Captured path args r]"
  by (auto simp: kubectl_output_def recorded_env_def recorded_def split: prod.splits sum.splits)

lemma recorded_quiet:
  "sbm_now (recorded_env env) wl = (t, wl') \<Longrightarrow> snd wl' = snd wl"
  "sbm_timer (recorded_env env) ctx d wl = (e, wl') \<Longrightarrow> snd wl' = snd wl"
  by (auto simp: recorded_env_def unrecorded_def split: prod.splits)

lemma recorded_write: "sbm_write (recorded_env env) t wl = (e, wl') \<Longrightarrow> snd wl' = snd wl @ [Printed t]"
  by (auto simp: recorded_env_def recorded_def split: prod.splits)

section \<open>Waiting\<close>

definition still_runs :: "'w submit_env \<Rightarrow> string \<Rightarrow> bool" where
  "still_runs env out \<longleftrightarrow> (case job_terminal_state env out of Inl _ \<Rightarrow> False
     | Inr st \<Rightarrow> \<not> tst_complete st \<and> \<not> tst_failed st)"

definition has_completed :: "'w submit_env \<Rightarrow> string \<Rightarrow> bool" where
  "has_completed env out \<longleftrightarrow> (case job_terminal_state env out of Inl _ \<Rightarrow> False | Inr st \<Rightarrow> tst_complete st)"

definition polls :: "string \<Rightarrow> string \<Rightarrow> string \<Rightarrow> string list \<Rightarrow> submit_event list" where
  "polls kubectl namespace name outs = map (\<lambda>out. Captured kubectl (get_job_args namespace name) (Inr out)) outs"

definition waited_for :: "'w submit_env \<Rightarrow> (string list \<Rightarrow> submit_event list) \<Rightarrow> submit_event list \<Rightarrow> submit_event list \<Rightarrow> bool" where
  "waited_for env polled before after \<longleftrightarrow> (\<exists>outs out. after = before @ polled (outs @ [out]) \<and>
     list_all (still_runs env) outs \<and> has_completed env out)"

lemma wait_loop_recorded:
  assumes "wait_loop (recorded_env env) ctx kubectl namespace name timeout deadline wl = Some (None, wl')"
  shows "waited_for env (polls kubectl namespace name) (snd wl) (snd wl')"
proof -
  have "env' = recorded_env env \<longrightarrow> fst y = None \<longrightarrow> waited_for env (polls k n m) (snd wl) (snd (snd y))"
    if "wait_loop env' ctx k n m timeout deadline wl = Some y" for env' k n m y
  proof (rule wait_loop.raw_induct [where P = "\<lambda>env' ctx k n m timeout deadline wl y. env' = recorded_env env \<longrightarrow>
      fst y = None \<longrightarrow> waited_for env (polls k n m) (snd wl) (snd (snd y))", OF _ that], goal_cases)
    case (1 rec env' ctx k n m timeout deadline wl y)
    show ?case
    proof (intro impI)
      assume e: "env' = recorded_env env" and none: "fst y = None"
      obtain res wl1 where o: "kubectl_output env' k ctx (get_job_args n m) wl = (res, wl1)" by (metis prod.collapse)
      note step = 1(2) [unfolded o prod.case]
      obtain out where out: "res = Inr out"
      proof (cases res)
        case (Inl err)
        have "y = (Some err, wl1)" using step [unfolded Inl sum.case] by simp
        then show ?thesis using none by simp
      qed
      note step = step [unfolded out e recorded_fields sum.case]
      obtain st where st: "job_terminal_state env out = Inr st"
      proof (cases "job_terminal_state env out")
        case (Inl err)
        have "y = (Some err, wl1)" using step [unfolded Inl sum.case] by simp
        then show ?thesis using none by simp
      qed
      note step = step [unfolded st sum.case]
      have log: "snd wl1 = snd wl @ polls k n m [out]"
        using recorded_output_ok [OF o [unfolded e out]] by (simp add: polls_def)
      show "waited_for env (polls k n m) (snd wl) (snd (snd y))"
      proof (cases "tst_complete st")
        case True
        then have "snd y = wl1" using step [unfolded if_P [OF True]] by auto
        then show ?thesis unfolding waited_for_def
          using True st log by (intro exI [of _ "[]"] exI [of _ out]) (simp add: has_completed_def)
      next
        case False
        note step = step [unfolded if_not_P [OF False]]
        have failed: "\<not> tst_failed st"
        proof
          assume f: "tst_failed st"
          have "fst y \<noteq> None" using step [unfolded if_P [OF f]] by auto
          then show False using none by simp
        qed
        note step = step [unfolded if_not_P [OF failed]]
        have run: "still_runs env out" using failed False st by (simp add: still_runs_def)
        obtain t wl2 where t: "sbm_now env' wl1 = (t, wl2)" by (metis prod.collapse)
        obtain e2 wl3 where s: "sbm_timer env' ctx (2 * second) wl2 = (e2, wl3)" by (metis prod.collapse)
        have "rec env' ctx k n m timeout deadline wl3 = Some y"
          using step [folded e, unfolded t prod.case s] none by (auto simp: e split: if_splits option.splits)
        then have "waited_for env (polls k n m) (snd wl3) (snd (snd y))" using 1(1) e none by blast
        moreover have "snd wl3 = snd wl @ polls k n m [out]"
          using log recorded_quiet(1) [OF t [unfolded e]] recorded_quiet(2) [OF s [unfolded e]] by simp
        ultimately show ?thesis unfolding waited_for_def
        proof (elim exE conjE)
          fix outs out'
          assume "snd (snd y) = snd wl3 @ polls k n m (outs @ [out'])" "list_all (still_runs env) outs"
            "has_completed env out'" "snd wl3 = snd wl @ polls k n m [out]"
          then show "\<exists>outs out. snd (snd y) = snd wl @ polls k n m (outs @ [out]) \<and> list_all (still_runs env) outs \<and> has_completed env out"
            using run by (intro exI [of _ "out # outs"] exI [of _ out']) (simp add: polls_def)
        qed
      qed
    qed
  qed
  from this [OF assms] show ?thesis by simp
qed

lemma wait_recorded:
  assumes "wait_for_job (recorded_env env) ctx kubectl namespace name timeout wl = Some (None, wl')"
  shows "waited_for env (polls kubectl namespace name) (snd wl) (snd wl')"
proof -
  obtain t wl1 where t: "sbm_now (recorded_env env) wl = (t, wl1)" by (metis prod.collapse)
  have "waited_for env (polls kubectl namespace name) (snd wl1) (snd wl')"
    by (rule wait_loop_recorded [of env ctx kubectl namespace name timeout "t + timeout" wl1])
      (use assms t in \<open>simp add: wait_for_job_def\<close>)
  then show ?thesis using recorded_quiet(1) [OF t] by simp
qed

section \<open>After the job\<close>

definition annotation_args :: "'w submit_env \<Rightarrow> submit_details \<Rightarrow> runtime_report \<Rightarrow> string list" where
  "annotation_args env details report = [''annotate'', ''--style'',
     if rs_state (rr_summary report) = ''succeeded'' then ''success'' else ''error'',
     ''--context'', kubernetes_name (sbm_sha256 env) ''sporevm'' (sdt_runID details)]"

text \<open>What follows a completed job: its logs, printed or kept for the annotation, and the annotation
  with the first report in them.\<close>

definition reported :: "'w submit_env \<Rightarrow> submit_options \<Rightarrow> submit_details \<Rightarrow> string \<Rightarrow> submit_event list \<Rightarrow> bool" where
  "reported env opts details name after \<longleftrightarrow>
     (let kubectl = sop_kubectl opts; largs = logs_args (sop_namespace opts) name in
      if sop_buildkite opts then
        (\<exists>logs report. runtime_report_from_logs env logs = (report, True) \<and>
           after = Captured kubectl largs (Inr logs) # (if sop_logs opts then [Printed logs] else []) @
             [Ran (sop_buildkiteAgent opts) (Some (buildkite_run_annotation details report None (sop_resultURLPrefix opts)))
               (annotation_args env details report) None])
      else after = (if sop_logs opts then [Ran kubectl None largs None] else []))"

lemma logs_recorded:
  assumes "collect_logs (recorded_env env) ctx opts name wl = ((logs, None), wl')"
  shows "snd wl' = snd wl @ (if sop_buildkite opts
      then Captured (sop_kubectl opts) (logs_args (sop_namespace opts) name) (Inr logs) #
        (if sop_logs opts \<and> logs \<noteq> [] then [Printed logs] else [])
      else if sop_logs opts then [Ran (sop_kubectl opts) None (logs_args (sop_namespace opts) name) None] else [])"
proof (cases "sop_buildkite opts")
  case True
  obtain res wl1 where o: "kubectl_output (recorded_env env) (sop_kubectl opts) ctx (logs_args (sop_namespace opts) name) wl = (res, wl1)"
    by (metis prod.collapse)
  then have res: "res = Inr logs" "wl' = (if sop_logs opts \<and> logs \<noteq> [] then snd (sbm_write (recorded_env env) logs wl1) else wl1)"
    using assms True by (auto simp: collect_logs_def split: sum.splits)
  obtain e wl2 where w: "sbm_write (recorded_env env) logs wl1 = (e, wl2)" by (metis prod.collapse)
  show ?thesis using True res(2) w recorded_output_ok [OF o [unfolded res(1)]] recorded_write [OF w] by auto
next
  case False
  obtain e wl1 where o: "kubectl_run (recorded_env env) (sop_kubectl opts) ctx None (logs_args (sop_namespace opts) name) wl = (e, wl1)"
    by (metis prod.collapse)
  then show ?thesis using assms False recorded_run [OF o] by (auto simp: collect_logs_def split: if_splits)
qed

lemma report_needs_logs: "runtime_report_from_logs env logs = (report, True) \<Longrightarrow> logs \<noteq> []"
  by auto

lemma annotate_recorded:
  assumes "annotate (recorded_env env) ctx opts details logs None wl = (None, wl')"
  shows "if sop_buildkite opts then \<exists>report. runtime_report_from_logs env logs = (report, True) \<and>
      snd wl' = snd wl @ [Ran (sop_buildkiteAgent opts)
        (Some (buildkite_run_annotation details report None (sop_resultURLPrefix opts))) (annotation_args env details report) None]
    else snd wl' = snd wl"
proof (cases "sop_buildkite opts")
  case True
  obtain report found where r: "runtime_report_from_logs env logs = (report, found)" by (metis prod.collapse)
  let ?text = "buildkite_run_annotation details report None (sop_resultURLPrefix opts)"
  obtain e wl1 where o: "kubectl_run (recorded_env env) (sop_buildkiteAgent opts) ctx (Some ?text) (annotation_args env details report) wl = (e, wl1)"
    by (metis prod.collapse)
  have a: "annotate (recorded_env env) ctx opts details logs None wl =
      (let missing = (if \<not> found then Some (Opaque ''coordinator logs did not contain a runtime report'') else None) in
       case e of Some e \<Rightarrow> (errors_join [missing, Some (Wrap ''post Buildkite annotation: '' e [])], wl1) | None \<Rightarrow> (missing, wl1))"
    using o True
    by (cases "rs_state (rr_summary report) = ''succeeded''") (simp_all add: annotate_def r annotation_args_def split: option.splits)
  have "errors_join [x, Some y] \<noteq> None" for x y by simp
  then have "found \<and> e = None \<and> wl' = wl1" using assms unfolding a by (cases e; cases found) (auto simp: Let_def)
  then have "found" "e = None" "wl' = wl1" by auto
  then show ?thesis using True r recorded_run [OF o] by auto
next
  case False
  then show ?thesis using assms by (simp add: annotate_def)
qed

lemma follow_recorded:
  assumes "follow_job (recorded_env env) ctx opts details name wl = Some (None, wl')"
  shows "\<exists>outs out after. snd wl' = snd wl @ polls (sop_kubectl opts) (sop_namespace opts) name (outs @ [out]) @ after \<and>
    list_all (still_runs env) outs \<and> has_completed env out \<and> reported env opts details name after"
proof -
  obtain waitErr wl1 where w: "wait_for_job (recorded_env env) ctx (sop_kubectl opts) (sop_namespace opts) name (sop_timeout opts) wl =
      Some (waitErr, wl1)"
    using assms by (auto simp: follow_job_def split: option.splits)
  obtain logs logsErr wl2 where l: "collect_logs (recorded_env env) ctx opts name wl1 = ((logs, logsErr), wl2)"
    by (metis prod.collapse)
  obtain annErr wl3 where a: "annotate (recorded_env env) ctx opts details logs waitErr wl2 = (annErr, wl3)"
    by (metis prod.collapse)
  have none: "waitErr = None" "logsErr = None" "annErr = None" "wl' = wl3"
    using assms by (auto simp: follow_job_def w l a split: if_splits)
  obtain outs out where o: "snd wl1 = snd wl @ polls (sop_kubectl opts) (sop_namespace opts) name (outs @ [out])"
    "list_all (still_runs env) outs" "has_completed env out"
    using wait_recorded [OF w [unfolded none]] by (auto simp: waited_for_def)
  note L = logs_recorded [OF l [unfolded none]] and A = annotate_recorded [OF a [unfolded none]]
  show ?thesis
  proof (cases "sop_buildkite opts")
    case True
    obtain report where r: "runtime_report_from_logs env logs = (report, True)"
      "snd wl3 = snd wl2 @ [Ran (sop_buildkiteAgent opts)
        (Some (buildkite_run_annotation details report None (sop_resultURLPrefix opts))) (annotation_args env details report) None]"
      using A True by auto
    note ne = report_needs_logs [OF r(1)]
    have "reported env opts details name (Captured (sop_kubectl opts) (logs_args (sop_namespace opts) name) (Inr logs) #
        (if sop_logs opts then [Printed logs] else []) @ [Ran (sop_buildkiteAgent opts)
        (Some (buildkite_run_annotation details report None (sop_resultURLPrefix opts))) (annotation_args env details report) None])"
      using True r(1) by (auto simp: reported_def Let_def)
    moreover have "snd wl' = snd wl @ polls (sop_kubectl opts) (sop_namespace opts) name (outs @ [out]) @
       (Captured (sop_kubectl opts) (logs_args (sop_namespace opts) name) (Inr logs) #
        (if sop_logs opts then [Printed logs] else []) @ [Ran (sop_buildkiteAgent opts)
        (Some (buildkite_run_annotation details report None (sop_resultURLPrefix opts))) (annotation_args env details report) None])"
      using L True r(2) ne none(4) o(1) by simp
    ultimately show ?thesis using o(2,3) by blast
  next
    case False
    have "reported env opts details name (if sop_logs opts then [Ran (sop_kubectl opts) None (logs_args (sop_namespace opts) name) None] else [])"
      using False by (simp add: reported_def Let_def)
    moreover have "snd wl' = snd wl @ polls (sop_kubectl opts) (sop_namespace opts) name (outs @ [out]) @
       (if sop_logs opts then [Ran (sop_kubectl opts) None (logs_args (sop_namespace opts) name) None] else [])"
      using L A False none(4) o(1) by simp
    ultimately show ?thesis using o(2,3) by blast
  qed
qed

section \<open>A submission that succeeds\<close>

lemma applied_recorded:
  assumes "submit_with_options (recorded_env env) opts (w, []) = Some (None, (w', l))"
    and "sop_wait opts" "\<not> sop_dryRun opts"
  shows "\<exists>resources names details enc outs out after.
    build_submit_resources_from_options env opts w = Inr (resources, names, details) \<and> sbm_encode env resources = Inr enc \<and>
    l = (if sop_replace opts then [Ran (sop_kubectl opts) None
           [''delete'', ''job'', ''-n'', sop_namespace opts, rsn_job names, ''--ignore-not-found''] None] else []) @
      [Ran (sop_kubectl opts) (Some (enc @ [CHR 0x0A])) [''apply'', ''-f'', ''-''] None,
       Printed (''submitted run '' @ sdt_runID details @ '' as job/'' @ rsn_job names @ [CHR 0x0A])] @
      polls (sop_kubectl opts) (sop_namespace opts) (rsn_job names) (outs @ [out]) @ after \<and>
    list_all (still_runs env) outs \<and> has_completed env out \<and> reported env opts details (rsn_job names) after"
proof -
  note sub = assms(1) [unfolded submit_with_options_def recorded_build recorded_fields]
  obtain resources names details where b: "build_submit_resources_from_options env opts w = Inr (resources, names, details)"
    using sub assms(2) by (auto split: sum.splits)
  note sub = sub [unfolded b sum.case prod.case]
  obtain enc where t: "sbm_encode env resources = Inr enc"
    using sub assms(2) by (cases "sbm_encode env resources") auto
  let ?ctx = "submit_context opts"
  obtain e1 wl1 where r: "replace_job (recorded_env env) opts (rsn_job names) (w, []) = (e1, wl1)" by (metis prod.collapse)
  obtain e2 wl2 where a: "kubectl_run (recorded_env env) (sop_kubectl opts) ?ctx (Some (enc @ [CHR 0x0A])) [''apply'', ''-f'', ''-''] wl1 = (e2, wl2)"
    by (metis prod.collapse)
  obtain e3 wl3 where p: "sbm_write (recorded_env env) (''submitted run '' @ sdt_runID details @ '' as job/'' @ rsn_job names @ [CHR 0x0A]) wl2 = (e3, wl3)"
    by (metis prod.collapse)
  have none: "e1 = None" "e2 = None" "follow_job (recorded_env env) ?ctx opts details (rsn_job names) wl3 = Some (None, (w', l))"
    using sub [unfolded t sum.case Let_def r prod.case] assms(2,3) a p by (auto split: option.splits if_splits)
  have l1: "snd wl1 = (if sop_replace opts then [Ran (sop_kubectl opts) None
      [''delete'', ''job'', ''-n'', sop_namespace opts, rsn_job names, ''--ignore-not-found''] None] else [])"
  proof (cases "sop_replace opts")
    case True
    then show ?thesis using r [unfolded none] by (auto simp: replace_job_def dest!: recorded_run)
  next
    case False
    then show ?thesis using r by (auto simp: replace_job_def)
  qed
  have l2: "snd wl2 = snd wl1 @ [Ran (sop_kubectl opts) (Some (enc @ [CHR 0x0A])) [''apply'', ''-f'', ''-''] None]"
    using recorded_run [OF a] none(2) by auto
  note l3 = recorded_write [OF p]
  obtain outs out after where f: "snd (w', l) = snd wl3 @ polls (sop_kubectl opts) (sop_namespace opts) (rsn_job names) (outs @ [out]) @ after"
    "list_all (still_runs env) outs" "has_completed env out" "reported env opts details (rsn_job names) after"
    using follow_recorded [OF none(3)] by blast
  show ?thesis using b t f l1 l2 l3 by auto
qed

text \<open>C5: a submission that waits and ends without an error has applied the rendered objects once, after
  deleting an old job if it was asked to, and has polled the job until \<open>kubectl\<close> showed it complete and
  never failed before; then it fetched the logs and, with \<open>--buildkite\<close>, posted the annotation of the
  first report in them. It did nothing else.\<close>

theorem submit_succeeds:
  assumes "submit_with_options (recorded_env env) opts (w, []) = Some (None, (w', l))"
    and "sop_wait opts" "\<not> sop_dryRun opts"
  shows "\<exists>resources names details enc outs out after.
    build_submit_resources_from_options env opts w = Inr (resources, names, details) \<and> sbm_encode env resources = Inr enc \<and>
    l = (if sop_replace opts then [Ran (sop_kubectl opts) None
           [''delete'', ''job'', ''-n'', sop_namespace opts, rsn_job names, ''--ignore-not-found''] None] else []) @
      [Ran (sop_kubectl opts) (Some (enc @ [CHR 0x0A])) [''apply'', ''-f'', ''-''] None,
       Printed (''submitted run '' @ sdt_runID details @ '' as job/'' @ rsn_job names @ [CHR 0x0A])] @
      polls (sop_kubectl opts) (sop_namespace opts) (rsn_job names) (outs @ [out]) @ after \<and>
    list_all (still_runs env) outs \<and> has_completed env out \<and> reported env opts details (rsn_job names) after"
  using assms by (rule applied_recorded)

section \<open>It ends\<close>

definition clock_of :: "'w submit_env \<Rightarrow> 'w \<Rightarrow> go_time" where
  "clock_of env w = fst (sbm_now env w)"

text \<open>The clock never goes back, and a timer that was not interrupted has moved it by its duration.\<close>

definition time_passes :: "'w submit_env \<Rightarrow> bool" where
  "time_passes env \<longleftrightarrow>
     (\<forall>ctx path args w. clock_of env w \<le> clock_of env (snd (sbm_output env ctx path args w))) \<and>
     (\<forall>w. clock_of env w \<le> clock_of env (snd (sbm_now env w))) \<and>
     (\<forall>ctx d w. fst (sbm_timer env ctx d w) = None \<longrightarrow> clock_of env w + d \<le> clock_of env (snd (sbm_timer env ctx d w)))"

lemma clock_output:
  "time_passes env \<Longrightarrow> kubectl_output env path ctx args w = (res, w1) \<Longrightarrow> clock_of env w \<le> clock_of env w1"
proof -
  assume a: "time_passes env" "kubectl_output env path ctx args w = (res, w1)"
  have "snd (kubectl_output env path ctx args w) = snd (sbm_output env ctx path args w)"
    by (simp add: kubectl_output_def split: prod.splits sum.splits)
  then show ?thesis using a by (auto simp: time_passes_def)
qed

lemma wait_loop_returns:
  assumes "time_passes env"
  shows "wait_loop env ctx kubectl namespace name timeout deadline w \<noteq> None"
proof (induction "nat (deadline + 1 - clock_of env w)" arbitrary: w rule: less_induct)
  case less
  obtain res w1 where o: "kubectl_output env kubectl ctx (get_job_args namespace name) w = (res, w1)" by (metis prod.collapse)
  obtain t w2 where t: "sbm_now env w1 = (t, w2)" by (metis prod.collapse)
  obtain e w3 where s: "sbm_timer env ctx (2 * second) w2 = (e, w3)" by (metis prod.collapse)
  have c: "clock_of env w \<le> t" "t \<le> clock_of env w2" "e = None \<longrightarrow> clock_of env w2 + 2 * second \<le> clock_of env w3"
  proof -
    have "t = clock_of env w1" "w2 = snd (sbm_now env w1)" using t by (simp_all add: clock_of_def)
    then show "clock_of env w \<le> t" "t \<le> clock_of env w2"
      using clock_output [OF assms o] assms by (simp_all add: time_passes_def)
    have "fst (sbm_timer env ctx (2 * second) w2) = e" "snd (sbm_timer env ctx (2 * second) w2) = w3" using s by simp_all
    then show "e = None \<longrightarrow> clock_of env w2 + 2 * second \<le> clock_of env w3"
      using assms unfolding time_passes_def by metis
  qed
  have "wait_loop env ctx kubectl namespace name timeout deadline w3 \<noteq> None" if "\<not> t > deadline" "e = None"
    using c that by (intro less) (simp add: second_def)
  then show ?case
    by (subst wait_loop.simps) (auto simp: o t s split: sum.splits option.splits if_splits)
qed

lemma submit_returns:
  assumes "time_passes env"
  shows "submit_with_options env opts w \<noteq> None"
proof -
  have "follow_job env ctx opts details name w1 \<noteq> None" for ctx details name w1
    using wait_loop_returns [OF assms]
    by (auto simp: follow_job_def wait_for_job_def split: option.splits prod.splits simp del: not_None_eq)
  then show ?thesis
    by (auto simp: submit_with_options_def Let_def split: sum.splits option.splits prod.splits simp del: not_None_eq)
qed

text \<open>C21: \<open>sporectl\<close> ends, whatever its arguments, the cluster and its processes do, when the clock runs:
  a job that neither completes nor fails is given up at the deadline.\<close>

theorem sporectl_returns:
  assumes "time_passes env"
  shows "\<exists>err w'. sporectl_run env args w = Some (err, w')"
proof -
  have "sporectl_run env args w \<noteq> None"
    using submit_returns [OF assms]
    by (auto simp: sporectl_run_def run_submit_def split: list.splits sum.splits option.splits simp del: not_None_eq)
  then show ?thesis by auto
qed

section \<open>A job that is queued first\<close>

text \<open>The world is the time; the job is complete when the first poll is over.\<close>

definition queued_submit :: "nat submit_env" where
  "queued_submit = sample_submit\<lparr>
     sbm_job := (\<lambda>t. if t = ''queued'' then Inr [] else sbm_job (sample_submit :: nat submit_env) t),
     sbm_output := (\<lambda>_ _ _ w. (Inr (if w = 0 then ''queued'' else ''job''), w)),
     sbm_now := (\<lambda>w. (int w, w)), sbm_timer := (\<lambda>_ d w. (None, w + nat d))\<rparr>"

lemma queued_built:
  "build_submit_resources_from_options queued_submit opts w = build_submit_resources_from_options (sample_submit :: nat submit_env) opts w"
proof -
  have "sbm_read_file queued_submit = sbm_read_file sample_submit" "sbm_json_run queued_submit = sbm_json_run (sample_submit :: nat submit_env)"
    "sbm_json_bundle_run queued_submit = sbm_json_bundle_run (sample_submit :: nat submit_env)"
    "sbm_sha256 queued_submit = sbm_sha256 (sample_submit :: nat submit_env)"
    "detect_submit_run_kind queued_submit = detect_submit_run_kind (sample_submit :: nat submit_env)"
    by (simp_all add: queued_submit_def detect_submit_run_kind_def fun_eq_iff)
  note eqs = this
  show ?thesis unfolding build_submit_resources_from_options_def eqs by (rule refl)
qed

lemma queued_states:
  "job_terminal_state queued_submit ''queued'' = Inr \<lparr>tst_complete = False, tst_failed = False, tst_message = []\<rparr>"
  "job_terminal_state queued_submit ''job'' = Inr \<lparr>tst_complete = True, tst_failed = False, tst_message = []\<rparr>"
  by (simp_all add: job_terminal_state_def queued_submit_def sample_submit_def)

lemma queued_output:
  "kubectl_output (recorded_env queued_submit) k ctx args (w, l) =
     (Inr (if w = 0 then ''queued'' else ''job''), (w, l @ [Captured k args (Inr (if w = 0 then ''queued'' else ''job''))]))"
  by (simp add: kubectl_output_def recorded_env_def recorded_def queued_submit_def)

lemma queued_waits:
  "\<exists>wl'. wait_for_job (recorded_env queued_submit) ctx k n m (90 * second) (0, l) = Some (None, wl')"
proof -
  have now: "sbm_now (recorded_env queued_submit) (w, l) = (int w, (w, l))" for w l
    by (simp add: recorded_env_def unrecorded_def queued_submit_def)
  have timer: "sbm_timer (recorded_env queued_submit) ctx d (w, l) = (None, (w + nat d, l))" for w l d
    by (simp add: recorded_env_def unrecorded_def queued_submit_def)
  have "\<exists>wl'. wait_loop (recorded_env queued_submit) ctx k n m (90 * second) (90 * second) (w, l) = Some (None, wl')"
    if "w \<noteq> 0" for w l
    by (subst wait_loop.simps) (simp add: queued_output queued_states that)
  then have "\<exists>wl'. wait_loop (recorded_env queued_submit) ctx k n m (90 * second) (90 * second) (0, l) = Some (None, wl')"
    by (subst wait_loop.simps) (simp add: queued_output queued_states now timer second_def)
  then show ?thesis by (simp add: wait_for_job_def now)
qed

lemma queued_succeeds:
  "\<exists>w' l. submit_with_options (recorded_env queued_submit) sample_submit_options (0, []) = Some (None, (w', l))"
proof -
  let ?e = "recorded_env queued_submit" and ?o = sample_submit_options
  have o: "sop_buildkite ?o = False" "sop_wait ?o = True" "sop_dryRun ?o = False" "sop_timeout ?o = 90 * second" "sop_logs ?o = True"
    by (simp_all add: sample_submit_options_def submit_defaults_def)
  obtain resources names details where b: "build_submit_resources_from_options queued_submit ?o 0 = Inr (resources, names, details)"
    unfolding queued_built using sample_built [of 0 0] by blast
  have run: "\<exists>l'. kubectl_run ?e k ctx i args (0, l) = (None, (0, l'))" for k ctx i args l
    by (simp add: kubectl_run_def recorded_env_def recorded_def queued_submit_def sample_submit_def)
  have run': "\<exists>l'. kubectl_run ?e k ctx i args wl = (None, l')" for k ctx i args wl
    by (simp add: kubectl_run_def recorded_env_def recorded_def queued_submit_def sample_submit_def split: prod.splits)
  have enc: "sbm_encode ?e resources = Inr ''list''" by (simp add: recorded_env_def queued_submit_def sample_submit_def)
  obtain l1 where r: "replace_job ?e ?o (rsn_job names) (0, []) = (None, (0, l1))"
    using run by (metis replace_job_def)
  obtain l2 where a: "kubectl_run ?e (sop_kubectl ?o) (submit_context ?o) (Some (''list'' @ [CHR 0x0A])) [''apply'', ''-f'', ''-''] (0, l1) = (None, (0, l2))"
    using run by blast
  have w: "\<exists>e l'. sbm_write ?e t (0, l) = (e, (0, l'))" for t l
    by (simp add: recorded_env_def recorded_def queued_submit_def sample_submit_def)
  have f: "\<exists>wl'. follow_job ?e ctx ?o details m (0, l) = Some (None, wl')" for ctx m l
  proof -
    obtain wl1 where "wait_for_job ?e ctx (sop_kubectl ?o) (sop_namespace ?o) m (90 * second) (0, l) = Some (None, wl1)"
      using queued_waits by blast
    moreover obtain wl2 where "collect_logs ?e ctx ?o m wl1 = (([], None), wl2)"
      using run' [of "sop_kubectl ?o" ctx None "logs_args (sop_namespace ?o) m" wl1] by (auto simp: collect_logs_def o)
    ultimately show ?thesis by (simp add: follow_job_def annotate_def o)
  qed
  obtain e l3 where p: "sbm_write ?e (''submitted run '' @ sdt_runID details @ '' as job/'' @ rsn_job names @ [CHR 0x0A]) (0, l2) = (e, (0, l3))"
    using w by blast
  obtain w' l where q: "follow_job ?e (submit_context ?o) ?o details (rsn_job names) (0, l3) = Some (None, (w', l))"
    using f by (metis prod.collapse)
  have "submit_with_options ?e ?o (0, []) = Some (None, (w', l))"
    unfolding submit_with_options_def recorded_build b sum.case prod.case enc Let_def o r option.case a p q by simp
  then show ?thesis by blast
qed

theorem submit_succeeds_witness:
  "\<exists>w' l enc. submit_with_options (recorded_env queued_submit) sample_submit_options (0, []) = Some (None, (w', l)) \<and>
     Ran ''kubectl'' (Some enc) [''apply'', ''-f'', ''-''] None \<in> set l"
proof -
  obtain w' l where s: "submit_with_options (recorded_env queued_submit) sample_submit_options (0, []) = Some (None, (w', l))"
    using queued_succeeds by blast
  have "sop_wait sample_submit_options" "\<not> sop_dryRun sample_submit_options" "sop_kubectl sample_submit_options = ''kubectl''"
    by (simp_all add: sample_submit_options_def submit_defaults_def env_string_def)
  then show ?thesis using submit_succeeds [OF s] s by fastforce
qed

theorem sporectl_returns_witness: "time_passes queued_submit \<and> sporectl_run queued_submit [''submit'', ''run.json''] 0 \<noteq> None"
proof -
  have t: "time_passes queued_submit"
    by (simp add: time_passes_def clock_of_def queued_submit_def)
  show ?thesis using t sporectl_returns [OF t, of "[''submit'', ''run.json'']" 0] by auto
qed

end
