(* ===== verification/AgentMain.thy ===== *)
theory AgentMain
  imports GoFlags CommandClient TemplateSafety HttpClaims
begin

text \<open>
  The agent's program, \<open>cmd/spore-agent/main.go\<close>: the defaults of its flags, the number of slots that fit
  the memory of its control group, the reset of SporeVM's runtime directory, the order in which it
  starts, and the maintenance that runs beside the requests. Flags are parsed in \<open>AgentFlags\<close>; the listener,
  signals and logging are not modelled.
\<close>

section \<open>Flags\<close>

definition env_int :: "(string \<Rightarrow> string) \<Rightarrow> string \<Rightarrow> int \<Rightarrow> int" where
  "env_int getenv name fallback =
     (if getenv name = [] then fallback else case atoi (getenv name) of None \<Rightarrow> fallback | Some i \<Rightarrow> i)"

text \<open>\<open>ParseInt(value, 10, 64)\<close> is \<open>Atoi\<close> on a 64-bit machine.\<close>

definition env_int64 :: "(string \<Rightarrow> string) \<Rightarrow> string \<Rightarrow> int \<Rightarrow> int" where
  "env_int64 getenv name fallback =
     (if getenv name = [] then fallback else case atoi (getenv name) of None \<Rightarrow> fallback | Some i \<Rightarrow> i)"

record agent_flags =
  af_listen :: string
  af_agentID :: string
  af_cellID :: string
  af_slots :: int
  af_childMemoryBytes :: int
  af_memoryReserveBytes :: int
  af_sporePath :: string
  af_resultStore :: result_store_config
  af_workRoot :: string
  af_bundleCacheRoot :: string
  af_rootFSCacheRoot :: string
  af_region :: string
  af_backend :: string
  af_childTimeout :: int
  af_allowMetadataOnlyRootFS :: bool
  af_templateRetain :: int
  af_templateReconcileInterval :: int
  af_resetRuntimeOnStart :: bool
  af_cacheGC :: bool

definition default_agent_flags :: "(string \<Rightarrow> string) \<Rightarrow> agent_flags" where
  "default_agent_flags getenv =
     \<lparr>af_listen = env_string getenv ''SPORE_AGENT_LISTEN'' '':8080'',
      af_agentID = env_string getenv ''SPORE_AGENT_ID'' (env_string getenv ''HOSTNAME'' ''spore-agent-local''),
      af_cellID = env_string getenv ''SPORE_CELL_ID'' ''default'',
      af_slots = env_int getenv ''SPORE_AGENT_SLOTS'' 1,
      af_childMemoryBytes = env_int64 getenv ''SPORE_AGENT_CHILD_MEMORY_BYTES'' (512 * 1024 * 1024),
      af_memoryReserveBytes = env_int64 getenv ''SPORE_AGENT_MEMORY_RESERVE_BYTES'' (256 * 1024 * 1024),
      af_sporePath = env_string getenv ''SPORE_PATH'' ''spore'',
      af_resultStore =
        \<lparr>rsc_backend = env_string getenv ''SPORE_RESULT_STORE_BACKEND'' ''local'',
         rsc_localRoot = env_string getenv ''SPORE_RESULT_STORE_ROOT'' ''/var/lib/sporevm/results'',
         rsc_region = env_string getenv ''SPORE_RESULT_STORE_REGION'' (env_string getenv ''AWS_REGION'' []),
         rsc_endpoint = env_string getenv ''SPORE_RESULT_STORE_ENDPOINT'' [],
         rsc_usePathStyle = env_bool getenv ''SPORE_RESULT_STORE_PATH_STYLE'' False\<rparr>,
      af_workRoot = env_string getenv ''SPORE_WORK_ROOT'' ''/var/lib/sporevm/work'',
      af_bundleCacheRoot = env_string getenv ''SPORE_BUNDLE_CACHE_ROOT'' ''/var/lib/sporevm/bundle-cache'',
      af_rootFSCacheRoot = env_string getenv ''SPORE_ROOTFS_CACHE_ROOT'' ''/var/lib/sporevm/rootfs-cache'',
      af_region = env_string getenv ''AWS_REGION'' [],
      af_backend = env_string getenv ''SPORE_BACKEND'' ''kvm'',
      af_childTimeout = env_duration getenv ''SPORE_AGENT_CHILD_TIMEOUT'' 0,
      af_allowMetadataOnlyRootFS = env_bool getenv ''SPORE_ALLOW_METADATA_ONLY_ROOTFS'' False,
      af_templateRetain = env_int getenv ''SPORE_AGENT_TEMPLATE_RETAIN'' 16,
      af_templateReconcileInterval = env_duration getenv ''SPORE_AGENT_TEMPLATE_RECONCILE_INTERVAL'' (900 * second),
      af_resetRuntimeOnStart = env_bool getenv ''SPORE_AGENT_RESET_RUNTIME_ON_START'' False,
      af_cacheGC = env_bool getenv ''SPORE_AGENT_CACHE_GC'' False\<rparr>"

section \<open>Slots that fit the memory\<close>

definition new_line :: char where
  "new_line = CHR 0x0A"

text \<open>One line of \<open>/proc/self/cgroup\<close>, \<open>hierarchy:controllers:path\<close>.\<close>

definition cgroup_v2_path :: "string \<Rightarrow> string option" where
  "cgroup_v2_path line =
     (case cut (CHR '':'') line of
        (_, None) \<Rightarrow> None
      | (hierarchy, Some rest) \<Rightarrow>
          (case cut (CHR '':'') rest of
             (_, None) \<Rightarrow> None
           | (controllers, Some path) \<Rightarrow> if hierarchy = ''0'' \<and> controllers = [] then Some path else None))"

fun first_cgroup_v2 :: "string list \<Rightarrow> string option" where
  "first_cgroup_v2 [] = None"
| "first_cgroup_v2 (l # ls) = (case cgroup_v2_path l of Some p \<Rightarrow> Some p | None \<Rightarrow> first_cgroup_v2 ls)"

definition current_cgroup_v2_memory_limit_file :: "(string \<Rightarrow> gerr + string) \<Rightarrow> string \<Rightarrow> string \<Rightarrow> string option" where
  "current_cgroup_v2_memory_limit_file read procCgroupPath mountRoot =
     (case read procCgroupPath of
        Inl _ \<Rightarrow> None
      | Inr data \<Rightarrow>
          (case first_cgroup_v2 (split_on new_line (trim_space data)) of
             None \<Rightarrow> None
           | Some path \<Rightarrow> Some (path_join [mountRoot, trim_prefix path ''/'', ''memory.max''])))"

fun append_missing :: "string list \<Rightarrow> string list \<Rightarrow> string list" where
  "append_missing files [] = files"
| "append_missing files (p # ps) = append_missing (if p \<in> set files then files else files @ [p]) ps"

definition cgroup_memory_limit_file_candidates :: "(string \<Rightarrow> gerr + string) \<Rightarrow> string \<Rightarrow> string \<Rightarrow> string list \<Rightarrow> string list" where
  "cgroup_memory_limit_file_candidates read procCgroupPath mountRoot fallback =
     append_missing (case current_cgroup_v2_memory_limit_file read procCgroupPath mountRoot of None \<Rightarrow> [] | Some p \<Rightarrow> [p]) fallback"

definition cgroup_memory_limit_files :: "string list" where
  "cgroup_memory_limit_files = [''/sys/fs/cgroup/memory.max'', ''/sys/fs/cgroup/memory/memory.limit_in_bytes'']"

text \<open>The error of \<open>strconv.ParseInt\<close>.\<close>

definition parse_int_error :: "string \<Rightarrow> gerr" where
  "parse_int_error s =
     (let unsigned = (if s \<noteq> [] \<and> (hd s = CHR ''-'' \<or> hd s = CHR ''+'') then tl s else s) in
      Opaque (''strconv.ParseInt: parsing '' @ go_quote s @ '': '' @
        (if parse_digits unsigned = None then ''invalid syntax'' else ''value out of range'')))"

text \<open>The limit, \<open>None\<close> for no limit.\<close>

fun cgroup_memory_limit_bytes :: "(string \<Rightarrow> gerr + string) \<Rightarrow> string list \<Rightarrow> gerr + int option" where
  "cgroup_memory_limit_bytes read [] = Inr None"
| "cgroup_memory_limit_bytes read (path # paths) =
     (case read path of
        Inl e \<Rightarrow> if errors_is OsErrNotExist e then cgroup_memory_limit_bytes read paths else Inl e
      | Inr data \<Rightarrow>
          let value = trim_space data in
          if value = [] \<or> value = ''max'' then Inr None
          else (case atoi value of
              None \<Rightarrow> Inl (Wrap (''parse '' @ path @ '': '') (parse_int_error value) [])
            | Some limit \<Rightarrow>
                if limit \<le> 0 then Inl (Opaque (''parse '' @ path @ '': memory limit must be positive'')) else Inr (Some limit)))"

definition effective_slots_for_cgroup :: "(string \<Rightarrow> gerr + string) \<Rightarrow> int \<Rightarrow> int \<Rightarrow> int \<Rightarrow> string list
    \<Rightarrow> int \<times> bool \<times> gerr option" where
  "effective_slots_for_cgroup read requested childMemoryBytes reserveBytes files =
     (if childMemoryBytes \<le> 0 then (requested, False, None)
      else case cgroup_memory_limit_bytes read files of
        Inl e \<Rightarrow> (requested, False, Some e)
      | Inr None \<Rightarrow> (requested, False, None)
      | Inr (Some limitBytes) \<Rightarrow>
          let usableBytes = wrap64 (limitBytes - (if reserveBytes < 0 then 0 else reserveBytes)) in
          if usableBytes < childMemoryBytes then (0, True, None)
          else if usableBytes div childMemoryBytes < requested then (usableBytes div childMemoryBytes, True, None)
          else (requested, True, None))"

section \<open>SporeVM's runtime directory\<close>

definition spore_runtime_authority_file :: string where
  "spore_runtime_authority_file = ''local-ram-backing.key''"

fun reset_entries :: "'w os_calls \<Rightarrow> string \<Rightarrow> string list \<Rightarrow> 'w \<Rightarrow> gerr option \<times> 'w" where
  "reset_entries os root_dir [] w = (None, w)"
| "reset_entries os root_dir (name # names) w =
     (if name = spore_runtime_authority_file then
        (let authorityPath = path_join [root_dir, name] in
         case os_lstat os authorityPath w of
           Inl e \<Rightarrow> (Some e, w)
         | Inr kind \<Rightarrow>
             if kind \<noteq> RegularFile then (Some (Opaque (''runtime authority '' @ authorityPath @ '' is not a regular file'')), w)
             else reset_entries os root_dir names w)
      else (case os_remove_all os (path_join [root_dir, name]) w of
          (Some e, w1) \<Rightarrow> (Some e, w1)
        | (None, w1) \<Rightarrow> reset_entries os root_dir names w1))"

text \<open>\<open>resetSporeRuntimeDir\<close>; \<open>chmod\<close> sets the mode 0700.\<close>

definition reset_spore_runtime_dir :: "'w os_calls \<Rightarrow> (string \<Rightarrow> 'w \<Rightarrow> gerr option \<times> 'w) \<Rightarrow> string \<Rightarrow> string \<Rightarrow> 'w
    \<Rightarrow> gerr option \<times> 'w" where
  "reset_spore_runtime_dir os chmod workRoot root_dir w =
     (case path_abs (os_getwd os w) workRoot of
        Inl e \<Rightarrow> (Some e, w)
      | Inr absWorkRoot \<Rightarrow>
     (case path_abs (os_getwd os w) root_dir of
        Inl e \<Rightarrow> (Some e, w)
      | Inr absRoot \<Rightarrow>
     (case path_rel absWorkRoot absRoot of
        Inl e \<Rightarrow> (Some e, w)
      | Inr rel \<Rightarrow>
          if rel = ''.'' \<or> rel = ''..'' \<or> has_prefix rel ''../''
          then (Some (Opaque (''runtime root '' @ root_dir @ '' must be beneath work root '' @ workRoot)), w)
          else (case os_mkdir_all os absRoot w of
             (Some e, w1) \<Rightarrow> (Some e, w1)
           | (None, w1) \<Rightarrow>
               (case os_lstat os absRoot w1 of
                  Inl e \<Rightarrow> (Some e, w1)
                | Inr kind \<Rightarrow>
                    if kind \<noteq> DirFile then (Some (Opaque (''runtime root '' @ absRoot @ '' is not a directory'')), w1)
                    else (case chmod absRoot w1 of
                        (Some e, w2) \<Rightarrow> (Some e, w2)
                      | (None, w2) \<Rightarrow>
                          (case os_read_dir os absRoot w2 of
                             Inl e \<Rightarrow> (Some e, w2)
                           | Inr entries \<Rightarrow> reset_entries os absRoot (map fst entries) w2)))))))"

section \<open>Starting\<close>

text \<open>What the program calls: \<open>agm_store\<close> is a result store as the runner calls it, \<open>agm_ctx_err\<close>,
  \<open>agm_timer\<close> and \<open>agm_unmarshal\<close> are those of the runner.\<close>

record 'w agent_main_env =
  agm_getenv :: "string \<Rightarrow> string"
  agm_os :: "'w os_calls"
  agm_chmod :: "string \<Rightarrow> 'w \<Rightarrow> gerr option \<times> 'w"
  agm_load_s3 :: "string \<Rightarrow> string \<Rightarrow> bool \<Rightarrow> gerr + 'w s3_client"
  agm_store :: "'w result_store_choice \<Rightarrow> 'w result_store_if"
  agm_process :: "'w process_env"
  agm_templates :: "'w template_env"
  agm_now :: "'w clock"
  agm_ctx_err :: "'w \<Rightarrow> gerr option"
  agm_timer :: "go_ctx \<Rightarrow> int \<Rightarrow> 'w \<Rightarrow> gerr option \<times> 'w"
  agm_unmarshal :: "string \<Rightarrow> gerr + string list"

text \<open>The command line client as the runner's SporeVM client. A capture whose process prints for ever has
  no result.\<close>

definition command_spore_client :: "'w process_env \<Rightarrow> command_client \<Rightarrow> 'w spore_client" where
  "command_spore_client env c =
     \<lparr>sc_executable = cc_executable env c, sc_version = cc_version env c, sc_host_info = cc_host_info env c,
      sc_inspect_bundle = cc_inspect_bundle env c,
      sc_run_capture = (\<lambda>ctx req w. the (cc_run_capture env c ctx req w)),
      sc_fork = cc_fork env c, sc_pack = cc_pack env c, sc_pull = cc_pull env c, sc_resume = cc_resume env c,
      sc_restore_named = cc_restore_named env c, sc_run_from = cc_run_from env c, sc_exec = cc_exec env c,
      sc_remove_vm = cc_remove_vm env c, sc_remove_saved_spore = cc_remove_saved_spore env c,
      sc_collect_cache = cc_collect_cache env c\<rparr>"

definition agent_command_client :: "agent_flags \<Rightarrow> command_client" where
  "agent_command_client fl = \<lparr>cmc_path = af_sporePath fl, cmc_dir = [], cmc_env = None\<rparr>"

definition agent_runner :: "'w agent_main_env \<Rightarrow> agent_flags \<Rightarrow> 'w result_store_choice \<Rightarrow> 'w runner" where
  "agent_runner env fl store =
     \<lparr>rn_client = Some (command_spore_client (agm_process env) (agent_command_client fl)),
      rn_results = Some (agm_store env store), rn_workRoot = af_workRoot fl, rn_backend = af_backend fl,
      rn_now = agm_now env, rn_metrics = None, rn_childTimeout = af_childTimeout fl, rn_cacheGC = af_cacheGC fl,
      rn_os = agm_os env, rn_ctx_err = agm_ctx_err env, rn_timer = agm_timer env,
      rn_unmarshal_strings = agm_unmarshal env\<rparr>"

fun make_roots :: "'w os_calls \<Rightarrow> string list \<Rightarrow> 'w \<Rightarrow> gerr option \<times> 'w" where
  "make_roots os [] w = (None, w)"
| "make_roots os (d # ds) w =
     (case os_mkdir_all os d w of
        (Some e, w1) \<Rightarrow> (Some (Wrap (''create '' @ d @ '': '') e []), w1)
      | (None, w1) \<Rightarrow> make_roots os ds w1)"

definition reset_on_start :: "'w agent_main_env \<Rightarrow> agent_flags \<Rightarrow> 'w \<Rightarrow> gerr option \<times> 'w" where
  "reset_on_start env fl w =
     (if \<not> af_resetRuntimeOnStart fl then (None, w)
      else let runtimeRoot = agm_getenv env ''SPOREVM_RUNTIME_DIR'' in
        if runtimeRoot = [] then (Some (Opaque ''--reset-runtime-on-start requires SPOREVM_RUNTIME_DIR''), w)
        else (case reset_spore_runtime_dir (agm_os env) (agm_chmod env) (af_workRoot fl) runtimeRoot w of
            (Some e, w1) \<Rightarrow> (Some (Wrap ''reset SporeVM runtime directory: '' e []), w1)
          | (None, w1) \<Rightarrow> (None, w1)))"

text \<open>The number of slots, from the checks of the flags on.\<close>

definition agent_slots :: "(string \<Rightarrow> gerr + string) \<Rightarrow> agent_flags \<Rightarrow> gerr + int" where
  "agent_slots read fl =
     (if af_slots fl < 1 then Inl (Opaque (''slots must be >= 1: slots='' @ itoa (af_slots fl)))
      else if af_templateRetain fl < 0
      then Inl (Opaque (''template-retain must be >= 0: template_retain='' @ itoa (af_templateRetain fl)))
      else if af_templateReconcileInterval fl < 0
      then Inl (Opaque (''template-reconcile-interval must be >= 0: template_reconcile_interval=''
        @ duration_string (af_templateReconcileInterval fl)))
      else
        let files = cgroup_memory_limit_file_candidates read ''/proc/self/cgroup'' ''/sys/fs/cgroup'' cgroup_memory_limit_files in
        (case effective_slots_for_cgroup read (af_slots fl) (af_childMemoryBytes fl) (af_memoryReserveBytes fl) files of
           (_, _, Some e) \<Rightarrow> Inl (Wrap ''detect memory limit: '' e [])
         | (n, _, None) \<Rightarrow>
             if n < 1 then Inl (Opaque (''memory limit cannot fit one child: requested_slots='' @ itoa (af_slots fl)
               @ '' child_memory_bytes='' @ itoa (af_childMemoryBytes fl)
               @ '' memory_reserve_bytes='' @ itoa (af_memoryReserveBytes fl)))
             else Inr n))"

definition template_reconcile_timeout :: int where
  "template_reconcile_timeout = 120 * second"

definition cache_gc_timeout :: int where
  "cache_gc_timeout = 600 * second"

text \<open>\<open>reconcileTemplates\<close> and \<open>collectCache\<close>; their outcome is only logged.\<close>

definition maintain_templates :: "'w runner \<Rightarrow> 'w template_env \<Rightarrow> int \<Rightarrow> 'w node \<Rightarrow> 'w node" where
  "maintain_templates r te retain nd =
     snd (reconcile_boot_templates r te (WithTimeout template_reconcile_timeout CallerCtx) retain nd)"

definition maintain_cache :: "'w runner \<Rightarrow> 'w node \<Rightarrow> 'w node" where
  "maintain_cache r nd = snd (collect_cache r (WithTimeout cache_gc_timeout CallerCtx) nd)"

text \<open>The process once it serves: its slots, whether the startup maintenance is over, and where the
  maintenance goroutine is.\<close>

datatype maintenance_phase = StartingUp | BetweenTicks | TemplatesReconciled | MaintenanceOver

record 'w agent_process =
  apr_pool :: slot_pool
  apr_node :: "'w node"
  apr_started :: bool
  apr_phase :: maintenance_phase

text \<open>\<open>NewRunner\<close>: its slots and its node.\<close>

definition new_runner_slots :: "int \<Rightarrow> gerr + slot_pool" where
  "new_runner_slots n =
     (case new_slot_limiter n of Inl e \<Rightarrow> Inl e | Inr sl \<Rightarrow> Inr \<lparr>pool_limiter = sl, pool_closures = []\<rparr>)"

text \<open>The process when it begins to serve, after the first reconciliation.\<close>

definition serving_process :: "'w runner \<Rightarrow> 'w template_env \<Rightarrow> agent_flags \<Rightarrow> slot_pool \<Rightarrow> 'w \<Rightarrow> 'w agent_process" where
  "serving_process r te fl pool w =
     \<lparr>apr_pool = pool, apr_node = maintain_templates r te (af_templateRetain fl) (new_node w),
      apr_started = False, apr_phase = StartingUp\<rparr>"

definition agent_start :: "'w agent_main_env \<Rightarrow> agent_flags \<Rightarrow> 'w \<Rightarrow> (gerr + 'w runner \<times> 'w agent_process) \<times> 'w" where
  "agent_start env fl w =
     (case make_roots (agm_os env) [rsc_localRoot (af_resultStore fl), af_workRoot fl, af_bundleCacheRoot fl, af_rootFSCacheRoot fl] w of
        (Some e, w1) \<Rightarrow> (Inl e, w1)
      | (None, w1) \<Rightarrow>
     (case reset_on_start env fl w1 of
        (Some e, w2) \<Rightarrow> (Inl e, w2)
      | (None, w2) \<Rightarrow>
     (case agent_slots (\<lambda>p. os_read_file (agm_os env) p w2) fl of
        Inl e \<Rightarrow> (Inl e, w2)
      | Inr n \<Rightarrow>
     (case new_result_store (agm_load_s3 env) (af_resultStore fl) of
        Inl e \<Rightarrow> (Inl (Wrap ''create result store: '' e []), w2)
      | Inr store \<Rightarrow>
     (case new_runner_slots n of
        Inl e \<Rightarrow> (Inl (Wrap ''create runner: '' e []), w2)
      | Inr pool \<Rightarrow>
          let r = agent_runner env fl store;
              p = serving_process r (agm_templates env) fl pool w2
          in (Inr (r, p), nd_world (apr_node p)))))))"

section \<open>Serving\<close>

text \<open>The HTTP server of the process; the runner's operations, its client and the server's other
  environment are arguments.\<close>

definition agent_api :: "agent_flags \<Rightarrow> 's agent_ops \<Rightarrow> 's spore_client \<Rightarrow> ('s \<Rightarrow> bool \<times> 's) \<Rightarrow> 's clock
    \<Rightarrow> (string \<Rightarrow> 's \<Rightarrow> walk_entry list) \<Rightarrow> agent_codecs \<Rightarrow> 's agent_server" where
  "agent_api fl ops client started time_now walk json =
     \<lparr>sv_runner = Some ops, sv_client = Some client, sv_agentID = af_agentID fl, sv_cellID = af_cellID fl,
      sv_region = af_region fl, sv_backend = af_backend fl, sv_bundleCacheRoot = af_bundleCacheRoot fl,
      sv_rootFSCacheRoot = af_rootFSCacheRoot fl, sv_pressure = \<lparr>pressure_disk = [], pressure_memory = []\<rparr>,
      sv_allowMetadataOnlyRootFS = af_allowMetadataOnlyRootFS fl, sv_now = None, sv_started = Some started,
      sv_time_now = time_now, sv_walk = walk, sv_json = json\<rparr>"

text \<open>What happens to the process: the startup collection, a tick's two passes, the end of the
  maintenance, and an operation of the runner that a request asks for.\<close>

inductive agent_step :: "'w runner \<Rightarrow> 'w template_env \<Rightarrow> (run \<Rightarrow> host_class \<Rightarrow> string) \<Rightarrow> (string \<Rightarrow> string) \<Rightarrow> agent_flags
    \<Rightarrow> 'w agent_process \<Rightarrow> 'w agent_process \<Rightarrow> bool" for r te digest escape fl where
  startup: "apr_phase p = StartingUp \<Longrightarrow>
    agent_step r te digest escape fl p (p\<lparr>apr_node := maintain_cache r (apr_node p), apr_started := True,
      apr_phase := (if af_templateReconcileInterval fl = 0 then MaintenanceOver else BetweenTicks)\<rparr>)"
| tick: "apr_phase p = BetweenTicks \<Longrightarrow>
    agent_step r te digest escape fl p (p\<lparr>apr_node := maintain_templates r te (af_templateRetain fl) (apr_node p),
      apr_phase := TemplatesReconciled\<rparr>)"
| collect: "apr_phase p = TemplatesReconciled \<Longrightarrow>
    agent_step r te digest escape fl p (p\<lparr>apr_node := maintain_cache r (apr_node p), apr_phase := BetweenTicks\<rparr>)"
| stop: "apr_phase p = BetweenTicks \<Longrightarrow> agent_step r te digest escape fl p (p\<lparr>apr_phase := MaintenanceOver\<rparr>)"
| request: "node_op_step r digest escape op (apr_node p) = Some nd \<Longrightarrow>
    agent_step r te digest escape fl p (p\<lparr>apr_node := nd\<rparr>)"

inductive agent_runs :: "'w runner \<Rightarrow> 'w template_env \<Rightarrow> (run \<Rightarrow> host_class \<Rightarrow> string) \<Rightarrow> (string \<Rightarrow> string) \<Rightarrow> agent_flags
    \<Rightarrow> 'w agent_process \<Rightarrow> 'w agent_process \<Rightarrow> bool" for r te digest escape fl where
  here: "agent_runs r te digest escape fl p p"
| next_step: "\<lbrakk>agent_runs r te digest escape fl p p'; agent_step r te digest escape fl p' p''\<rbrakk>
    \<Longrightarrow> agent_runs r te digest escape fl p p''"

end
