(* ===== verification/AgentFlags.thy ===== *)
theory AgentFlags
  imports AgentMain
begin

text \<open>
  The command line of \<open>cmd/spore-agent/main.go\<close>: \<open>strconv.ParseInt\<close> with base 0, by which the package
  \<open>flag\<close> reads integers, the flags of the agent, and its \<open>main\<close> up to where it serves.
\<close>

section \<open>Integers of flags\<close>

definition between :: "char \<Rightarrow> char \<Rightarrow> char \<Rightarrow> bool" where
  "between a c b \<longleftrightarrow> (of_char a :: nat) \<le> of_char c \<and> (of_char c :: nat) \<le> of_char b"

definition base_digit :: "char \<Rightarrow> int option" where
  "base_digit c =
     (if between (CHR ''0'') c (CHR ''9'') then Some (of_char c - 48)
      else if between (CHR ''a'') c (CHR ''z'') then Some (of_char c - 87)
      else if between (CHR ''A'') c (CHR ''Z'') then Some (of_char c - 55)
      else None)"

text \<open>The loop of \<open>ParseUint\<close> with a size of 64 bits; the errors are the texts the package \<open>flag\<close> gives.\<close>

fun scan_base :: "int \<Rightarrow> int \<Rightarrow> string \<Rightarrow> string + int" where
  "scan_base b n [] = Inr n"
| "scan_base b n (c # cs) =
     (if c = CHR ''_'' then scan_base b n cs
      else case base_digit c of
        None \<Rightarrow> Inl ''parse error''
      | Some d \<Rightarrow>
          if b \<le> d then Inl ''parse error''
          else if 18446744073709551616 \<le> n * b + d then Inl ''value out of range''
          else scan_base b (n * b + d) cs)"

text \<open>The base a literal's prefix names, and its digits.\<close>

definition base_of :: "string \<Rightarrow> int \<times> string" where
  "base_of s =
     (case s of
        [] \<Rightarrow> (10, [])
      | c # cs \<Rightarrow>
          if c \<noteq> CHR ''0'' then (10, s)
          else if length s \<ge> 3 \<and> hd cs \<in> {CHR ''b'', CHR ''B''} then (2, tl cs)
          else if length s \<ge> 3 \<and> hd cs \<in> {CHR ''o'', CHR ''O''} then (8, tl cs)
          else if length s \<ge> 3 \<and> hd cs \<in> {CHR ''x'', CHR ''X''} then (16, tl cs)
          else (8, cs))"

text \<open>The loop of \<open>underscoreOK\<close> for digits and underscores; \<open>after\<close> is whether a digit or a prefix came
  last. An underscore follows one of these and is followed by a digit.\<close>

fun underscores_ok :: "bool \<Rightarrow> string \<Rightarrow> bool" where
  "underscores_ok after [] = True"
| "underscores_ok after (c # cs) =
     (if c \<noteq> CHR ''_'' then underscores_ok True cs
      else after \<and> cs \<noteq> [] \<and> hd cs \<noteq> CHR ''_'' \<and> underscores_ok False cs)"

definition parse_uint_base0 :: "string \<Rightarrow> string + int" where
  "parse_uint_base0 s =
     (if s = [] then Inl ''parse error''
      else case base_of s of (b, ds) \<Rightarrow>
        (case scan_base b 0 ds of
           Inl e \<Rightarrow> Inl e
         | Inr n \<Rightarrow> if underscores_ok (b \<noteq> 10) ds then Inr n else Inl ''parse error''))"

definition parse_int_base0 :: "string \<Rightarrow> string + int" where
  "parse_int_base0 s =
     (if s = [] then Inl ''parse error''
      else case parse_uint_base0 (if hd s = CHR ''+'' \<or> hd s = CHR ''-'' then tl s else s) of
        Inl e \<Rightarrow> Inl e
      | Inr n \<Rightarrow>
          let i = (if hd s = CHR ''-'' then - n else n) in
          if in64 i then Inr i else Inl ''value out of range'')"

lemma parse_int_in64: "parse_int_base0 s = Inr i \<Longrightarrow> in64 i"
  by (auto simp: parse_int_base0_def Let_def split: if_splits sum.splits)

definition int_flag :: "string \<Rightarrow> (int \<Rightarrow> 'c \<Rightarrow> 'c) \<Rightarrow> 'c flag" where
  "int_flag name upd = \<lparr>fl_name = name, fl_bool = False,
     fl_set = (\<lambda>v c. case parse_int_base0 v of Inl e \<Rightarrow> Inl e | Inr i \<Rightarrow> Inr (upd i c))\<rparr>"

section \<open>What holds of every parse\<close>

definition keeps_true :: "('c \<Rightarrow> bool) \<Rightarrow> 'c flag \<Rightarrow> bool" where
  "keeps_true P f \<longleftrightarrow> (\<forall>v c c'. P c \<longrightarrow> fl_set f v c = Inr c' \<longrightarrow> P c')"

lemma parsed_keeps:
  assumes "list_all (keeps_true P) flags" "P c" "parse_flags flags args c = FlagsParsed c' rest"
  shows "P c'"
  using assms
proof (induction flags args c rule: parse_flags.induct)
  case (2 flags s args c)
  show ?case
  proof (cases "flag_parts s")
    case None
    then show ?thesis using "2.prems" by (simp add: parse_flags.simps(2))
  next
    case (Some np)
    obtain name given where np: "np = (name, given)" by (cases np)
    show ?thesis
    proof (cases "s = ''--'' \<or> name = [] \<or> hd name = CHR ''-''")
      case True
      then show ?thesis using "2.prems" Some np by (auto simp: parse_flags.simps(2) split: if_splits)
    next
      case False
      then obtain f v rest' c1 where f: "find_flag flags name = Some f"
        "flag_value (fl_bool f) given args = Some (v, rest')" "fl_set f v c = Inr c1"
        "parse_flags flags rest' c1 = FlagsParsed c' rest"
        using "2.prems"(3) Some np
        by (auto simp: parse_flags.simps(2) split: option.splits sum.splits prod.splits if_splits)
      have "f \<in> set flags" using f(1) by (auto simp: find_flag_def find_Some_iff)
      then have "P c1" using "2.prems"(1,2) f(3) by (auto simp: list_all_iff keeps_true_def)
      then show ?thesis using "2.IH" [OF Some _ _ _ f(1) f(2) _ f(3)] "2.prems"(1) f(4) np False by blast
    qed
  qed
qed simp

section \<open>The agent's flags\<close>

definition on_agent_store :: "(result_store_config \<Rightarrow> result_store_config) \<Rightarrow> agent_flags \<Rightarrow> agent_flags" where
  "on_agent_store f fl = fl\<lparr>af_resultStore := f (af_resultStore fl)\<rparr>"

definition agent_flag_list :: "agent_flags flag list" where
  "agent_flag_list =
     [string_flag ''listen'' (\<lambda>v fl. fl\<lparr>af_listen := v\<rparr>),
      string_flag ''agent-id'' (\<lambda>v fl. fl\<lparr>af_agentID := v\<rparr>),
      string_flag ''cell-id'' (\<lambda>v fl. fl\<lparr>af_cellID := v\<rparr>),
      int_flag ''slots'' (\<lambda>v fl. fl\<lparr>af_slots := v\<rparr>),
      int_flag ''child-memory-bytes'' (\<lambda>v fl. fl\<lparr>af_childMemoryBytes := v\<rparr>),
      int_flag ''memory-reserve-bytes'' (\<lambda>v fl. fl\<lparr>af_memoryReserveBytes := v\<rparr>),
      string_flag ''spore-path'' (\<lambda>v fl. fl\<lparr>af_sporePath := v\<rparr>),
      string_flag ''result-store-root'' (\<lambda>v. on_agent_store (\<lambda>s. s\<lparr>rsc_localRoot := v\<rparr>)),
      string_flag ''result-store-backend'' (\<lambda>v. on_agent_store (\<lambda>s. s\<lparr>rsc_backend := v\<rparr>)),
      string_flag ''result-store-region'' (\<lambda>v. on_agent_store (\<lambda>s. s\<lparr>rsc_region := v\<rparr>)),
      string_flag ''result-store-endpoint'' (\<lambda>v. on_agent_store (\<lambda>s. s\<lparr>rsc_endpoint := v\<rparr>)),
      bool_flag ''result-store-path-style'' (\<lambda>v. on_agent_store (\<lambda>s. s\<lparr>rsc_usePathStyle := v\<rparr>)),
      string_flag ''work-root'' (\<lambda>v fl. fl\<lparr>af_workRoot := v\<rparr>),
      string_flag ''bundle-cache-root'' (\<lambda>v fl. fl\<lparr>af_bundleCacheRoot := v\<rparr>),
      string_flag ''rootfs-cache-root'' (\<lambda>v fl. fl\<lparr>af_rootFSCacheRoot := v\<rparr>),
      string_flag ''region'' (\<lambda>v fl. fl\<lparr>af_region := v\<rparr>),
      string_flag ''backend'' (\<lambda>v fl. fl\<lparr>af_backend := v\<rparr>),
      duration_flag ''child-timeout'' (\<lambda>v fl. fl\<lparr>af_childTimeout := v\<rparr>),
      bool_flag ''allow-metadata-only-rootfs'' (\<lambda>v fl. fl\<lparr>af_allowMetadataOnlyRootFS := v\<rparr>),
      int_flag ''template-retain'' (\<lambda>v fl. fl\<lparr>af_templateRetain := v\<rparr>),
      duration_flag ''template-reconcile-interval'' (\<lambda>v fl. fl\<lparr>af_templateReconcileInterval := v\<rparr>),
      bool_flag ''reset-runtime-on-start'' (\<lambda>v fl. fl\<lparr>af_resetRuntimeOnStart := v\<rparr>),
      bool_flag ''cache-gc'' (\<lambda>v fl. fl\<lparr>af_cacheGC := v\<rparr>)]"

text \<open>How the process ends, or the state in which it begins to serve. A request for help exits with 0, a
  bad flag with 2, \<open>log.Fatalf\<close> with 1.\<close>

datatype 'w agent_end = AgentExited int | AgentServing agent_flags "'w runner" "'w agent_process"

definition agent_main :: "'w agent_main_env \<Rightarrow> string list \<Rightarrow> 'w \<Rightarrow> 'w agent_end \<times> 'w" where
  "agent_main env args w =
     (case parse_flags agent_flag_list args (default_agent_flags (agm_getenv env)) of
        FlagHelp \<Rightarrow> (AgentExited 0, w)
      | FlagError _ \<Rightarrow> (AgentExited 2, w)
      | FlagsParsed fl _ \<Rightarrow>
          (case agent_start env fl w of
             (Inl _, w1) \<Rightarrow> (AgentExited 1, w1)
           | (Inr (r, p), w1) \<Rightarrow> (AgentServing fl r p, w1)))"

section \<open>Their ranges\<close>

definition flags_in64 :: "agent_flags \<Rightarrow> bool" where
  "flags_in64 fl \<longleftrightarrow> in64 (af_childMemoryBytes fl) \<and> in64 (af_memoryReserveBytes fl)"

lemma atoi_in64: "atoi s = Some i \<Longrightarrow> in64 i"
  by (auto simp: atoi_def split: list.splits option.splits if_splits)

lemma env_int64_in64: "in64 d \<Longrightarrow> in64 (env_int64 getenv name d)"
  by (auto simp: env_int64_def dest: atoi_in64 split: option.splits)

lemma default_flags_in64: "flags_in64 (default_agent_flags getenv)"
proof -
  have "in64 (512 * 1024 * 1024)" "in64 (256 * 1024 * 1024)" by (simp_all add: in64_def)
  then show ?thesis unfolding flags_in64_def default_agent_flags_def agent_flags.simps by (intro conjI env_int64_in64)
qed

lemma agent_flags_keep: "list_all (keeps_true flags_in64) agent_flag_list"
  by (auto simp: agent_flag_list_def keeps_true_def flags_in64_def string_flag_def bool_flag_def duration_flag_def
      int_flag_def on_agent_store_def dest: parse_int_in64 split: option.splits sum.splits)

lemma parsed_flags_in64:
  "parse_flags agent_flag_list args (default_agent_flags getenv) = FlagsParsed fl rest \<Longrightarrow> flags_in64 fl"
  by (rule parsed_keeps [OF agent_flags_keep default_flags_in64])

end
