(* ===== verification/AgentClaims.thy ===== *)
theory AgentClaims
  imports AgentFlags HttpSamples
begin

text \<open>
  What holds of the agent's program: the slots it runs with are the most that fit its memory, the
  reset of the runtime directory removes nothing else, and it is ready only after it collected the cache.
\<close>

section \<open>Slots\<close>

definition fits_memory :: "agent_flags \<Rightarrow> int \<Rightarrow> int \<Rightarrow> bool" where
  "fits_memory fl limit n \<longleftrightarrow> n * af_childMemoryBytes fl + max 0 (af_memoryReserveBytes fl) \<le> limit"

definition memory_limit_of :: "(string \<Rightarrow> gerr + string) \<Rightarrow> gerr + int option" where
  "memory_limit_of read = cgroup_memory_limit_bytes read
     (cgroup_memory_limit_file_candidates read ''/proc/self/cgroup'' ''/sys/fs/cgroup'' cgroup_memory_limit_files)"

lemma limit_bytes_positive: "cgroup_memory_limit_bytes read files = Inr (Some limit) \<Longrightarrow> 0 < limit \<and> in64 limit"
  by (induction files) (auto simp: Let_def dest: atoi_in64 split: sum.splits if_splits option.splits)

lemma fits_div: "0 < (c::int) \<Longrightarrow> k * c \<le> u \<longleftrightarrow> k \<le> u div c"
proof
  assume c: "0 < c" and "k * c \<le> u"
  then have "k * c div c \<le> u div c" by (intro zdiv_mono1)
  then show "k \<le> u div c" using c by simp
next
  assume c: "0 < c" and k: "k \<le> u div c"
  have "k * c \<le> (u div c) * c" using c k by (intro mult_right_mono) auto
  also have "\<dots> \<le> u" using c by (metis div_mult_mod_eq le_add_same_cancel1 pos_mod_sign)
  finally show "k * c \<le> u" .
qed

lemma most_that_fit:
  assumes "0 < c" "1 \<le> req" "u = limit - r"
  shows "(if u < c then 0 else if u div c < req then u div c else req) = (n::int) \<and> 1 \<le> n \<longleftrightarrow>
    1 \<le> n \<and> n \<le> req \<and> n * c + r \<le> limit \<and> (n = req \<or> \<not> (n + 1) * c + r \<le> limit)"
proof -
  have fit: "k * c + r \<le> limit \<longleftrightarrow> k \<le> u div c" for k
    unfolding fits_div [OF assms(1), symmetric] assms(3) by linarith
  have small: "u < c \<longleftrightarrow> u div c < 1" using fits_div [OF assms(1), of 1 u] by auto
  show ?thesis unfolding fit using small assms(2) by auto
qed

lemma slots_exact:
  assumes "flags_in64 fl"
  shows "agent_slots read fl = Inr n \<longleftrightarrow>
    1 \<le> af_slots fl \<and> 0 \<le> af_templateRetain fl \<and> 0 \<le> af_templateReconcileInterval fl \<and>
    (if af_childMemoryBytes fl \<le> 0 then n = af_slots fl
     else case memory_limit_of read of
       Inl _ \<Rightarrow> False
     | Inr None \<Rightarrow> n = af_slots fl
     | Inr (Some limit) \<Rightarrow> 1 \<le> n \<and> n \<le> af_slots fl \<and> fits_memory fl limit n \<and>
         (n = af_slots fl \<or> \<not> fits_memory fl limit (n + 1)))"
proof (cases "1 \<le> af_slots fl \<and> 0 \<le> af_templateRetain fl \<and> 0 \<le> af_templateReconcileInterval fl")
  case False
  then show ?thesis by (auto simp: agent_slots_def)
next
  case checks: True
  let ?eff = "effective_slots_for_cgroup read (af_slots fl) (af_childMemoryBytes fl) (af_memoryReserveBytes fl)
    (cgroup_memory_limit_file_candidates read ''/proc/self/cgroup'' ''/sys/fs/cgroup'' cgroup_memory_limit_files)"
  have slots: "agent_slots read fl = Inr n \<longleftrightarrow> (case ?eff of (_, _, Some e) \<Rightarrow> False | (k, _, None) \<Rightarrow> k = n \<and> 1 \<le> n)"
    using checks by (auto simp: agent_slots_def Let_def split: prod.splits option.splits)
  show ?thesis
  proof (cases "af_childMemoryBytes fl \<le> 0")
    case True
    then show ?thesis using checks slots by (auto simp: effective_slots_for_cgroup_def)
  next
    case child: False
    show ?thesis
    proof (cases "memory_limit_of read")
      case (Inl e)
      then show ?thesis using checks slots child by (auto simp: effective_slots_for_cgroup_def memory_limit_of_def)
    next
      case (Inr lim')
      show ?thesis
      proof (cases lim')
        case None
        then show ?thesis using Inr checks slots child by (auto simp: effective_slots_for_cgroup_def memory_limit_of_def)
      next
        case (Some limit)
        let ?r = "max 0 (af_memoryReserveBytes fl)" and ?c = "af_childMemoryBytes fl"
        have lim: "0 < limit" "in64 limit" using limit_bytes_positive Inr Some by (auto simp: memory_limit_of_def)
        have u: "wrap64 (limit - (if af_memoryReserveBytes fl < 0 then 0 else af_memoryReserveBytes fl)) = limit - ?r"
          using lim assms by (subst wrap64_id) (auto simp: in64_def flags_in64_def)
        have eff: "?eff = ((if limit - ?r < ?c then 0 else if (limit - ?r) div ?c < af_slots fl then (limit - ?r) div ?c
            else af_slots fl), True, None)"
          using child Inr Some u by (simp add: effective_slots_for_cgroup_def memory_limit_of_def Let_def)
        show ?thesis unfolding slots eff using most_that_fit [of ?c "af_slots fl" "limit - ?r" limit ?r n] child checks Inr Some
          by (simp add: fits_memory_def)
      qed
    qed
  qed
qed

text \<open>C18: the agent starts with the largest number of slots that the control group's memory allows, up to the
  number asked for: that many children and the reserve fit, and one more does not fit or was not asked for.
  Without a limit, or without a memory budget, it is the number asked for; it does not start when no
  child fits, and when the limit cannot be read.\<close>

theorem slots_fit_memory:
  assumes "parse_flags agent_flag_list args (default_agent_flags getenv) = FlagsParsed fl rest"
  shows "agent_slots read fl = Inr n \<longleftrightarrow>
    1 \<le> af_slots fl \<and> 0 \<le> af_templateRetain fl \<and> 0 \<le> af_templateReconcileInterval fl \<and>
    (if af_childMemoryBytes fl \<le> 0 then n = af_slots fl
     else case memory_limit_of read of
       Inl _ \<Rightarrow> False
     | Inr None \<Rightarrow> n = af_slots fl
     | Inr (Some limit) \<Rightarrow> 1 \<le> n \<and> n \<le> af_slots fl \<and> fits_memory fl limit n \<and>
         (n = af_slots fl \<or> \<not> fits_memory fl limit (n + 1)))"
  by (rule slots_exact [OF parsed_flags_in64 [OF assms]])

definition cgroup_files :: "string \<Rightarrow> gerr + string" where
  "cgroup_files p = (if p = ''/proc/self/cgroup'' then Inr (''0::/kubepods/pod1'' @ [new_line])
     else if p = ''/sys/fs/cgroup/kubepods/pod1/memory.max'' then Inr (''1000000000'' @ [new_line])
     else Inl (Sentinel OsErrNotExist))"

definition sample_agent_flags :: agent_flags where
  "sample_agent_flags = (default_agent_flags (\<lambda>_. []))\<lparr>af_slots := 4, af_childMemoryBytes := 300000000, af_memoryReserveBytes := 100000000\<rparr>"

lemma sample_limit: "memory_limit_of cgroup_files = Inr (Some 1000000000)"
proof -
  have files: "current_cgroup_v2_memory_limit_file cgroup_files ''/proc/self/cgroup'' ''/sys/fs/cgroup'' =
      Some ''/sys/fs/cgroup/kubepods/pod1/memory.max''" by code_simp
  have v: "trim_space (''1000000000'' @ [new_line]) = ''1000000000''" by code_simp
  have "parse_digits ''1000000000'' = Some 1000000000"
    by (simp add: parse_digits_def is_digit_def digit_val_def)
  then have "atoi ''1000000000'' = Some 1000000000" by (simp add: atoi_def in64_def)
  then show ?thesis
    by (simp add: memory_limit_of_def cgroup_memory_limit_file_candidates_def files cgroup_memory_limit_files_def
        cgroup_files_def v [simplified] Let_def)
qed

definition sample_agent_args :: "string list" where
  "sample_agent_args = [''--slots=4'', ''-child-memory-bytes'', ''0x11E1A300'', ''--memory-reserve-bytes=100_000_000'']"

lemma sample_agent_parsed:
  "parse_flags agent_flag_list sample_agent_args (default_agent_flags (\<lambda>_. [])) = FlagsParsed sample_agent_flags []"
  by code_simp

theorem slots_fit_memory_witness:
  "parse_flags agent_flag_list sample_agent_args (default_agent_flags (\<lambda>_. [])) = FlagsParsed sample_agent_flags [] \<and>
   agent_slots cgroup_files sample_agent_flags = Inr 3"
  using slots_fit_memory [OF sample_agent_parsed, of cgroup_files 3]
  by (simp add: sample_agent_parsed sample_limit)
    (simp add: sample_agent_flags_def fits_memory_def default_agent_flags_def env_duration_def env_int_def second_def)

section \<open>The reset of the runtime directory\<close>

definition removable :: "string \<Rightarrow> string list \<Rightarrow> string list" where
  "removable root_dir names = map (\<lambda>n. path_join [root_dir, n]) (filter (\<lambda>n. n \<noteq> spore_runtime_authority_file) names)"

text \<open>What was deleted: everything, or all up to an entry that was not or to the authority file's check.\<close>

definition deleted_in_order :: "string list \<Rightarrow> gerr option \<Rightarrow> node_call list \<Rightarrow> bool" where
  "deleted_in_order paths err tr \<longleftrightarrow>
     (if err = None then tr = map (\<lambda>p. DeletedDir p None) paths
      else \<exists>gone rest. paths = gone @ rest \<and>
        (tr = map (\<lambda>p. DeletedDir p None) gone \<or>
         (\<exists>p ps e. rest = p # ps \<and> tr = map (\<lambda>p. DeletedDir p None) gone @ [DeletedDir p (Some e)])))"

lemma deleted_in_order_Nil: "err \<noteq> None \<Longrightarrow> deleted_in_order paths err []"
  by (simp add: deleted_in_order_def del: not_None_eq)

lemma deleted_in_order_stop:
  assumes "err \<noteq> None"
  shows "deleted_in_order (p # ps) err [DeletedDir p (Some e)]"
  unfolding deleted_in_order_def if_not_P [OF assms] by (rule exI [of _ "[]"]) auto

lemma deleted_in_order_Cons:
  assumes "deleted_in_order paths err tr"
  shows "deleted_in_order (p # paths) err (DeletedDir p None # tr)"
proof (cases "err = None")
  case True
  then show ?thesis using assms by (simp add: deleted_in_order_def)
next
  case False
  then obtain gone rest where g: "paths = gone @ rest" "tr = map (\<lambda>p. DeletedDir p None) gone \<or>
      (\<exists>p ps e. rest = p # ps \<and> tr = map (\<lambda>p. DeletedDir p None) gone @ [DeletedDir p (Some e)])"
    using assms unfolding deleted_in_order_def if_not_P [OF False] by blast
  show ?thesis unfolding deleted_in_order_def if_not_P [OF False]
    using g by (intro exI [of _ "p # gone"] exI [of _ rest]) auto
qed

lemma deleted_paths:
  assumes "deleted_in_order paths err tr" "DeletedDir p e \<in> set tr"
  shows "p \<in> set paths"
  using assms by (auto simp: deleted_in_order_def split: if_splits)

lemma reset_entries_trace:
  "reset_entries (traced_os os) root_dir names (w, l) = (err, (w', l')) \<Longrightarrow>
     \<exists>tr. l' = l @ tr \<and> deleted_in_order (removable root_dir names) err tr"
proof (induction names arbitrary: w l)
  case Nil
  then show ?case by (simp add: removable_def deleted_in_order_def)
next
  case (Cons n names)
  show ?case
  proof (cases "n = spore_runtime_authority_file")
    case True
    have r: "removable root_dir (n # names) = removable root_dir names" using True by (simp add: removable_def)
    show ?thesis
    proof (cases "os_lstat os (path_join [root_dir, n]) w = Inr RegularFile")
      case reg: True
      then show ?thesis using Cons True r by (simp add: traced_os_def Let_def)
    next
      case False
      then have "err \<noteq> None" "l' = l"
        using Cons.prems True by (auto simp: traced_os_def Let_def split: sum.splits if_splits)
      then show ?thesis using deleted_in_order_Nil by (intro exI [of _ "[]"]) simp
    qed
  next
    case False
    let ?p = "path_join [root_dir, n]"
    have r: "removable root_dir (n # names) = ?p # removable root_dir names" using False by (simp add: removable_def)
    obtain e w1 where d: "os_remove_all os ?p w = (e, w1)" by (metis prod.collapse)
    have step: "os_remove_all (traced_os os) ?p (w, l) = (e, (w1, l @ [DeletedDir ?p e]))"
      using d by (simp add: traced_os_def traced_call_def)
    show ?thesis
    proof (cases e)
      case None
      then have "reset_entries (traced_os os) root_dir names (w1, l @ [DeletedDir ?p None]) = (err, (w', l'))"
        using Cons.prems False step by simp
      from Cons.IH [OF this] show ?thesis using deleted_in_order_Cons unfolding r by fastforce
    next
      case (Some x)
      then have x: "err = Some x" "l' = l @ [DeletedDir ?p (Some x)]" using Cons.prems False step by auto
      have "deleted_in_order (?p # removable root_dir names) (Some x) [DeletedDir ?p (Some x)]"
        by (rule deleted_in_order_stop) simp
      then show ?thesis using x r by simp
    qed
  qed
qed

text \<open>The directory the deletions are in, and how the code found it.\<close>

definition reset_directory :: "'w os_calls \<Rightarrow> string \<Rightarrow> string \<Rightarrow> string \<Rightarrow> string list \<Rightarrow> string \<Rightarrow> bool" where
  "reset_directory os wd workRoot root_dir names absRoot \<longleftrightarrow>
     path_abs (Inr wd) root_dir = Inr absRoot \<and> validate_path_within (Inr wd) workRoot root_dir = None \<and>
     (\<exists>w1 w2 es. os_lstat os absRoot w1 = Inr DirFile \<and> os_read_dir os absRoot w2 = Inr es \<and> names = map fst es)"

lemma reset_trace:
  assumes "os_getwd os w = Inr wd"
    and "reset_spore_runtime_dir (traced_os os) (\<lambda>p. untraced (chmod p)) workRoot root_dir (w, []) = (err, (w', tr))"
  shows "(err \<noteq> None \<and> tr = []) \<or>
    (\<exists>absRoot names. reset_directory os wd workRoot root_dir names absRoot \<and> deleted_in_order (removable absRoot names) err tr)"
proof (cases "err \<noteq> None \<and> tr = []")
  case False
  have wd: "os_getwd (traced_os os) (w, []) = Inr wd" using assms(1) by (simp add: traced_os_def)
  note reset = assms(2) [unfolded reset_spore_runtime_dir_def wd]
  have some: False if "(err, (w', tr)) = (Some e, (v, []))" for e v using that False by auto
  obtain absWork where aw: "path_abs (Inr wd) workRoot = Inr absWork"
  proof (cases "path_abs (Inr wd) workRoot")
    case (Inl e)
    then show ?thesis using reset some [of e w] by simp
  qed
  obtain absRoot where ar: "path_abs (Inr wd) root_dir = Inr absRoot"
  proof (cases "path_abs (Inr wd) root_dir")
    case (Inl e)
    then show ?thesis using reset aw some [of e w] by simp
  qed
  obtain rel where rel: "path_rel absWork absRoot = Inr rel"
  proof (cases "path_rel absWork absRoot")
    case (Inl e)
    then show ?thesis using reset aw ar some [of e w] by simp
  qed
  note reset = reset [unfolded aw ar rel sum.case]
  have inside: "\<not> (rel = ''.'' \<or> rel = ''..'' \<or> has_prefix rel ''../'')"
  proof
    assume b: "rel = ''.'' \<or> rel = ''..'' \<or> has_prefix rel ''../''"
    show False using reset [unfolded if_P [OF b]] some by (metis prod.inject)
  qed
  then have within: "validate_path_within (Inr wd) workRoot root_dir = None"
    using aw ar rel by (auto simp: validate_path_within_def)
  note reset = reset [unfolded if_not_P [OF inside]]
  obtain e1 w1 where m: "os_mkdir_all os absRoot w = (e1, w1)" by (metis prod.collapse)
  have m': "os_mkdir_all (traced_os os) absRoot (w, []) = (e1, (w1, []))" using m by (simp add: traced_os_def traced_call_def)
  have e1: "e1 = None"
  proof (cases e1)
    case (Some e)
    then show ?thesis using reset [unfolded m'] some [of e w1] by simp
  qed
  have ls: "os_lstat (traced_os os) absRoot (w1, []) = os_lstat os absRoot w1" by (simp add: traced_os_def)
  note reset = reset [unfolded m' e1 prod.case option.case ls]
  have dir: "os_lstat os absRoot w1 = Inr DirFile"
  proof (cases "os_lstat os absRoot w1")
    case (Inl e)
    then show ?thesis using reset some [of e w1] by simp
  next
    case (Inr kind)
    show ?thesis
    proof (rule ccontr)
      assume "os_lstat os absRoot w1 \<noteq> Inr DirFile"
      then have k: "kind \<noteq> DirFile" using Inr by simp
      show False using reset [unfolded Inr sum.case if_P [OF k]] some by (metis prod.inject)
    qed
  qed
  obtain e2 w2 where c: "chmod absRoot w1 = (e2, w2)" by (metis prod.collapse)
  have c': "traced_call (chmod absRoot) (\<lambda>_. []) (w1, []) = (e2, (w2, []))" using c by (simp add: traced_call_def)
  have e2: "e2 = None"
  proof (cases e2)
    case (Some e)
    then show ?thesis using reset [unfolded dir c'] some [of e w2] by simp
  qed
  have rd: "os_read_dir (traced_os os) absRoot (w2, []) = os_read_dir os absRoot w2" by (simp add: traced_os_def)
  obtain es where es: "os_read_dir os absRoot w2 = Inr es"
  proof (cases "os_read_dir os absRoot w2")
    case (Inl e)
    then show ?thesis using reset [unfolded dir c' e2] rd some [of e w2] by simp
  qed
  have "reset_entries (traced_os os) absRoot (map fst es) (w2, []) = (err, (w', tr))"
    using reset [unfolded dir c' e2] rd es by simp
  from reset_entries_trace [OF this] have "deleted_in_order (removable absRoot (map fst es)) err tr" by simp
  moreover have "reset_directory os wd workRoot root_dir (map fst es) absRoot"
    using ar within dir es by (auto simp: reset_directory_def)
  ultimately show ?thesis by blast
qed blast

lemma removable_inside:
  assumes "is_abs wd" "reset_directory os wd workRoot root_dir names absRoot" "\<forall>n \<in> set names. normal_part n"
    "p \<in> set (removable absRoot names)"
  shows "\<exists>rest n. rest \<noteq> [] \<and> n \<noteq> spore_runtime_authority_file \<and> n \<in> set names \<and>
    abs_parts wd root_dir = abs_parts wd workRoot @ rest \<and> abs_parts wd p = abs_parts wd root_dir @ [n]"
proof -
  obtain rest where r: "rest \<noteq> []" "abs_parts wd root_dir = abs_parts wd workRoot @ rest"
    using assms(1,2) within_iff by (auto simp: reset_directory_def)
  have root: "absRoot = CHR ''/'' # join_slash (abs_parts wd root_dir)"
    using assms(2) path_abs_parts [OF assms(1)] by (simp add: reset_directory_def)
  then have "abs_parts wd absRoot = clean_parts True absRoot" by (simp add: abs_parts_def)
  then have parts: "abs_parts wd absRoot = abs_parts wd root_dir"
    using clean_parts_of_normal [OF abs_parts_normal [of wd root_dir]] root by simp
  obtain n where n: "n \<in> set names" "n \<noteq> spore_runtime_authority_file" "p = path_join [absRoot, n]"
    using assms(4) by (auto simp: removable_def)
  then have "abs_parts wd p = abs_parts wd absRoot @ [n]"
    using abs_parts_join [of absRoot "[n]" wd] root assms(3) by simp
  then show ?thesis using r n parts by auto
qed

text \<open>C19: the reset deletes nothing but entries of the runtime directory, which lies strictly beneath the work
  root and was seen to be a plain directory, and never the authority file. Without an error it has
  deleted all the others; with one it stopped at the entry that failed.\<close>

theorem reset_keeps_authority:
  assumes "os_getwd os w = Inr wd" and "is_abs wd"
    and "\<forall>p w es. os_read_dir os p w = Inr es \<longrightarrow> (\<forall>n \<in> set (map fst es). normal_part n)"
    and "reset_spore_runtime_dir (traced_os os) (\<lambda>p. untraced (chmod p)) workRoot root_dir (w, []) = (err, (w', tr))"
  shows "((err \<noteq> None \<and> tr = []) \<or>
      (\<exists>absRoot names. reset_directory os wd workRoot root_dir names absRoot \<and> deleted_in_order (removable absRoot names) err tr)) \<and>
    (\<forall>p e. DeletedDir p e \<in> set tr \<longrightarrow>
      (\<exists>rest n. rest \<noteq> [] \<and> n \<noteq> spore_runtime_authority_file \<and>
         abs_parts wd root_dir = abs_parts wd workRoot @ rest \<and> abs_parts wd p = abs_parts wd root_dir @ [n]))"
proof -
  note t = reset_trace [OF assms(1,4)]
  moreover have "\<exists>rest n. rest \<noteq> [] \<and> n \<noteq> spore_runtime_authority_file \<and>
      abs_parts wd root_dir = abs_parts wd workRoot @ rest \<and> abs_parts wd p = abs_parts wd root_dir @ [n]"
    if d: "DeletedDir p e \<in> set tr" for p e
  proof -
    obtain absRoot names where r: "reset_directory os wd workRoot root_dir names absRoot" "deleted_in_order (removable absRoot names) err tr"
      using t d by auto
    have "\<forall>n \<in> set names. normal_part n" using r(1) assms(3) unfolding reset_directory_def by blast
    then show ?thesis using removable_inside [OF assms(2) r(1) _ deleted_paths [OF r(2) d]] by blast
  qed
  ultimately show ?thesis by blast
qed

definition stale_os :: "unit os_calls" where
  "stale_os = calm_os\<lparr>os_read_dir := (\<lambda>_ _. Inr [(''local-ram-backing.key'', RegularFile), (''vm-1'', DirFile), (''vm-2'', DirFile)]),
     os_lstat := (\<lambda>p _. Inr (if p = ''/work/run/local-ram-backing.key'' then RegularFile else DirFile))\<rparr>"

theorem reset_keeps_authority_witness:
  "reset_spore_runtime_dir (traced_os stale_os) (\<lambda>p. untraced (Pair None)) ''/work'' ''run'' ((), []) \<noteq> (None, ((), [])) \<and>
   reset_spore_runtime_dir (traced_os stale_os) (\<lambda>p. untraced (Pair None)) ''/work'' ''/work/run'' ((), []) =
     (None, ((), [DeletedDir ''/work/run/vm-1'' None, DeletedDir ''/work/run/vm-2'' None])) \<and>
   (\<exists>n. abs_parts ''/'' ''/work/run/vm-2'' = abs_parts ''/'' ''/work/run'' @ [n])"
proof (intro conjI)
  show "reset_spore_runtime_dir (traced_os stale_os) (\<lambda>p. untraced (Pair None)) ''/work'' ''run'' ((), []) \<noteq> (None, ((), []))"
    by code_simp
  show run: "reset_spore_runtime_dir (traced_os stale_os) (\<lambda>p. untraced (Pair None)) ''/work'' ''/work/run'' ((), []) =
      (None, ((), [DeletedDir ''/work/run/vm-1'' None, DeletedDir ''/work/run/vm-2'' None]))"
    by code_simp
  have wd: "os_getwd stale_os () = Inr ''/''" "is_abs ''/''" by (simp_all add: stale_os_def calm_os_def is_abs_def has_prefix_def)
  have names: "\<forall>p w es. os_read_dir stale_os p w = Inr es \<longrightarrow> (\<forall>n \<in> set (map fst es). normal_part n)"
    by (auto simp: stale_os_def normal_part_def)
  have "DeletedDir ''/work/run/vm-2'' None \<in> set [DeletedDir ''/work/run/vm-1'' None, DeletedDir ''/work/run/vm-2'' None]" by simp
  then show "\<exists>n. abs_parts ''/'' ''/work/run/vm-2'' = abs_parts ''/'' ''/work/run'' @ [n]"
    using reset_keeps_authority [OF wd names, of "\<lambda>_. Pair None" "''/work''" "''/work/run''" None "()"
        "[DeletedDir ''/work/run/vm-1'' None, DeletedDir ''/work/run/vm-2'' None]"] run by blast
qed

section \<open>Ready\<close>

context node_env
begin

lemma reconcile_entry_made:
  assumes "rn_client r \<noteq> None"
  shows "\<exists>tr. made (rc_node s) (rc_node (reconcile_entry r te ctx identity e s)) tr"
proof -
  obtain n kind where e: "e = (n, kind)" by force
  have m: "\<exists>tr. made (rc_node s) (rc_node (remove_counted r ctx k what p d s)) tr" for k what p d
    using remove_counted_made [OF assms] by blast
  show ?thesis unfolding e reconcile_entry_eq Let_def using m by (auto split: sum.splits)
qed

lemma reconcile_entries_made:
  assumes "rn_client r \<noteq> None"
  shows "\<exists>tr. made (rc_node s) (rc_node (reconcile_entries r te ctx identity es s)) tr"
proof (induction es arbitrary: s)
  case Nil
  then show ?case by auto
next
  case (Cons e es)
  then show ?case using reconcile_entry_made [OF assms, of s] made_trans by (metis reconcile_entries.simps(2))
qed

lemma reconcile_made:
  assumes "rn_client r \<noteq> None"
  shows "\<exists>tr. made nd (snd (reconcile_boot_templates r te ctx retain nd)) tr"
proof (cases "os_read_dir (rn_os r) (template_root r) (nd_world nd)")
  case (Inl e)
  then show ?thesis by (auto simp: reconcile_boot_templates_def)
next
  case (Inr es)
  obtain known nd1 where id: "boot_template_identity r te ctx nd = (known, nd1)" by force
  let ?s = "\<lparr>rc_result = no_templates, rc_complete = [],
      rc_errors = (case known of Inl e \<Rightarrow> [Wrap ''boot template identity: '' e []] | Inr _ \<Rightarrow> []),
      rc_staleInUse = 0, rc_node = nd1\<rparr>"
  let ?s1 = "reconcile_entries r te ctx (case known of Inl _ \<Rightarrow> None | Inr i \<Rightarrow> Some i) es ?s"
  have "made nd nd1 []" using identity_made [of nd te ctx] id by simp
  moreover obtain tr1 where "made nd1 (rc_node ?s1) tr1"     using reconcile_entries_made [OF assms, of ?s te ctx "case known of Inl _ \<Rightarrow> None | Inr i \<Rightarrow> Some i" es]
    by (auto simp only: reconcile_state.select_convs)
  moreover obtain tr2 where "made (rc_node ?s1) (rc_node (retain_loop r ctx retain (sort (rc_complete ?s1)) ?s1)) tr2"
    using retain_loop_made [OF assms] by blast
  ultimately have "\<exists>tr. made nd (rc_node (retain_loop r ctx retain (sort (rc_complete ?s1)) ?s1)) tr" using made_trans by blast
  moreover have "snd (reconcile_boot_templates r te ctx retain nd) =
      (if retain < 0 then nd else rc_node (retain_loop r ctx retain (sort (rc_complete ?s1)) ?s1))"
    using Inr id by (simp add: reconcile_boot_templates_def Let_def)
  ultimately show ?thesis by auto
qed

text \<open>Once the startup maintenance is over, SporeVM was asked to collect its cache.\<close>

definition collects_first :: "'w agent_process \<Rightarrow> bool" where
  "collects_first p \<longleftrightarrow> (apr_started p \<longleftrightarrow> apr_phase p \<noteq> StartingUp) \<and>
     (\<exists>w0 tr. calls w0 = [] \<and> made (new_node w0) (apr_node p) tr \<and>
        (apr_started p \<and> rn_cacheGC r \<longrightarrow> (\<exists>e. Collected e \<in> set tr)))"

lemma due_until_collected: "(\<And>e. Collected e \<notin> set tr) \<Longrightarrow> due \<Longrightarrow> due_after due tr"
  by (induction due tr rule: due_after.induct) auto

lemma collects_more:
  assumes "collects_first p" "made (apr_node p) nd tr" "apr_started q = apr_started p" "apr_phase q = StartingUp \<longleftrightarrow> apr_phase p = StartingUp"
    "apr_node q = nd"
  shows "collects_first q"
proof -
  obtain w0 tr0 where t: "calls w0 = []" "made (new_node w0) (apr_node p) tr0"
    "apr_started p \<and> rn_cacheGC r \<longrightarrow> (\<exists>e. Collected e \<in> set tr0)"
    using assms(1) unfolding collects_first_def by blast
  have "made (new_node w0) nd (tr0 @ tr)" using made_trans [OF t(2) assms(2)] .
  moreover have "apr_started q \<longleftrightarrow> apr_phase q \<noteq> StartingUp" using assms by (simp add: collects_first_def)
  moreover have "apr_started q \<and> rn_cacheGC r \<longrightarrow> (\<exists>e. Collected e \<in> set (tr0 @ tr))" using t(3) assms(3) by auto
  ultimately show ?thesis unfolding collects_first_def assms(5) using t(1) by blast
qed

lemma startup_collects:
  assumes "rn_client r \<noteq> None" "collects_first p" "apr_phase p = StartingUp"
  shows "\<exists>w0 tr. calls w0 = [] \<and> made (new_node w0) (maintain_cache r (apr_node p)) tr \<and>
    (rn_cacheGC r \<longrightarrow> (\<exists>e. Collected e \<in> set tr))"
proof -
  obtain w0 tr0 where t: "calls w0 = []" "made (new_node w0) (apr_node p) tr0"
    using assms(2) unfolding collects_first_def by blast
  obtain tr where c: "made (apr_node p) (maintain_cache r (apr_node p)) tr" "tr \<noteq> [] \<longleftrightarrow> rn_cacheGC r \<and> nd_gcPending (apr_node p)"
    "tr \<noteq> [] \<longrightarrow> (\<exists>e. tr = [Collected e])"
    using collect_cache_made [OF assms(1), where ctx = "WithTimeout cache_gc_timeout CallerCtx" and nd = "apr_node p"]
    unfolding maintain_cache_def by blast
  have "\<exists>e. Collected e \<in> set (tr0 @ tr)" if gc: "rn_cacheGC r"
  proof (cases "\<exists>e. Collected e \<in> set tr0")
    case False
    then have "due_after True tr0" by (intro due_until_collected) auto
    then have "nd_gcPending (apr_node p)" using t(2) by (simp add: made_def new_node_def)
    then obtain e where "tr = [Collected e]" using c(2,3) gc by blast
    then show ?thesis by auto
  qed auto
  then show ?thesis using t(1) made_trans [OF t(2) c(1)] by blast
qed

lemma agent_step_collects:
  assumes "rn_client r \<noteq> None" "collects_first p" "agent_step r te digest escape fl p p'"
  shows "collects_first p'"
  using assms(3)
proof (cases rule: agent_step.cases)
  case startup
  then show ?thesis using startup_collects [OF assms(1,2)] by (auto simp: collects_first_def)
next
  case tick
  obtain tr where "made (apr_node p) (maintain_templates r te (af_templateRetain fl) (apr_node p)) tr"
    using reconcile_made [OF assms(1)] unfolding maintain_templates_def by blast
  then show ?thesis by (rule collects_more [OF assms(2)]) (simp_all add: tick)
next
  case collect
  obtain tr where "made (apr_node p) (maintain_cache r (apr_node p)) tr"
    using collect_cache_made [OF assms(1)] unfolding maintain_cache_def by blast
  then show ?thesis by (rule collects_more [OF assms(2)]) (simp_all add: collect)
next
  case stop
  then show ?thesis using collects_more [OF assms(2) made_refl] by simp
next
  case (request op nd)
  have "tracked (apr_node p) (node_op_step r digest escape op (apr_node p))" by (rule node_op_tracked [OF assms(1)])
  then obtain tr where "made (apr_node p) nd tr" using request(2) unfolding tracked_def by blast
  then show ?thesis by (rule collects_more [OF assms(2)]) (simp_all add: request)
qed

lemma agent_runs_collects:
  assumes "rn_client r \<noteq> None" "agent_runs r te digest escape fl p p'" "collects_first p"
  shows "collects_first p'"
  using assms(2,3) by (induction rule: agent_runs.induct) (auto intro: agent_step_collects [OF assms(1)])

end

text \<open>\<open>started.Load\<close>.\<close>

definition load_started :: "'w agent_process \<Rightarrow> bool \<times> 'w agent_process" where
  "load_started p = (apr_started p, p)"

lemma ready_started:
  assumes "sv_started sv = Some load_started" "hp_code (fst (handle_readyz sv st)) = 200"
  shows "apr_started (sst_world st)"
  using assms
  by (cases "apr_started (sst_world st)") (auto simp: handle_readyz_def on_server_def load_started_def write_error_def write_json_def)


definition gc_runner :: "unit runner" where
  "gc_runner = calm_runner\<lparr>rn_cacheGC := True, rn_os := calm_os\<lparr>os_read_dir := (\<lambda>_ _. Inl (Sentinel OsErrNotExist))\<rparr>\<rparr>"

definition gc_flags :: agent_flags where
  "gc_flags = sample_agent_flags\<lparr>af_backend := ''kvm'', af_templateReconcileInterval := 0\<rparr>"

definition gc_pool :: slot_pool where
  "gc_pool = \<lparr>pool_limiter = \<lparr>sl_total = 1, sl_used = 0\<rparr>, pool_closures = []\<rparr>"

definition gc_client :: "'s spore_client" where
  "gc_client =
     (let no = Opaque ''no'' in
      \<lparr>sc_executable = (\<lambda>w. (Inl no, w)), sc_version = (\<lambda>_ w. (Inl no, w)), sc_host_info = (\<lambda>_ w. (Inr sample_host_info, w)),
       sc_inspect_bundle = (\<lambda>_ _ w. (Inl no, w)), sc_run_capture = (\<lambda>_ _ w. (([], Some no), w)),
       sc_fork = (\<lambda>_ _ w. (Some no, w)), sc_pack = (\<lambda>_ _ w. (Some no, w)), sc_pull = (\<lambda>_ _ w. (Inl no, w)),
       sc_resume = (\<lambda>_ _ w. (([], Some no), w)), sc_restore_named = (\<lambda>_ _ w. (Inl no, w)),
       sc_run_from = (\<lambda>_ _ w. (([], Some no), w)), sc_exec = (\<lambda>_ _ w. (([], Some no), w)), sc_remove_vm = (\<lambda>_ _ w. (Some no, w)),
       sc_remove_saved_spore = (\<lambda>_ _ w. (Some no, w)), sc_collect_cache = (\<lambda>_ w. ((zero_gc, Some no), w))\<rparr>)"

definition idle_ops :: "'s agent_ops" where
  "idle_ops =
     (let no = Opaque ''no'' in
      \<lparr>ao_run = (\<lambda>_ _ _ s. (Inl no, s)), ao_status = (\<lambda>_ _ s. (Inl no, s)), ao_prepare_bundle = (\<lambda>_ _ s. (Inl no, s)),
       ao_prepare_local = (\<lambda>_ _ s. (Inl no, s)), ao_release_prepared = (\<lambda>_ _ s. (Inl no, s)), ao_run_shard = (\<lambda>_ _ s. (([], Some no), s)),
       ao_create_sandbox = (\<lambda>_ _ _ s. (Inl no, s)), ao_exec_sandbox = (\<lambda>_ _ s. (Inl no, s)), ao_remove_sandbox = (\<lambda>_ _ s. (Some no, s))\<rparr>)"

definition gc_served :: "unit traced template_env \<Rightarrow> unit traced agent_process" where
  "gc_served te = (serving_process (traced_runner gc_runner) te gc_flags gc_pool ((), []))\<lparr>
     apr_node := maintain_cache (traced_runner gc_runner) (apr_node (serving_process (traced_runner gc_runner) te gc_flags gc_pool ((), []))),
     apr_started := True, apr_phase := MaintenanceOver\<rparr>"


end
